(* ===== verification/Prelude.thy ===== *)
theory Prelude
  imports Main "HOL-Library.Word" "HOL-Library.Multiset"
begin

text \<open>
  Shared vocabulary of the development: the parts of Go and of its standard
  library that the playback runtime uses, as executable HOL functions.

  Go strings are byte sequences, so they are \<open>string\<close> (a list of 8-bit characters).
  \<open>strings.TrimSpace\<close> is modelled on the UTF-8 bytes, \<open>fmt.Sprintf\<close> with \<open>%d\<close> and
  \<open>%06d\<close> by \<open>decimal\<close> and \<open>decimal6\<close>.  The routines of the standard library that rest on
  large tables or on an operating system (the generator of \<open>math/rand\<close>, Unicode
  case folding, RFC 3339 dates, URL parsing) are the fields of the record \<open>golib\<close>,
  a parameter of every definition that needs one of them.
\<close>

named_theorems nav_simps "unfolding rules of the context navigation functions"
named_theorems mut_defs "definitions of the session mutators"
named_theorems op_defs "definitions of the session operations"

section \<open>Strings\<close>

text \<open>The UTF-8 encodings of the characters for which \<open>unicode.IsSpace\<close> holds.\<close>

definition space_seqs :: "string list" where
  "space_seqs =
     [[CHR 0x09], [CHR 0x0A], [CHR 0x0B], [CHR 0x0C], [CHR 0x0D], [CHR 0x20],
      [CHR 0xC2, CHR 0x85], [CHR 0xC2, CHR 0xA0], [CHR 0xE1, CHR 0x9A, CHR 0x80],
      [CHR 0xE2, CHR 0x80, CHR 0x80], [CHR 0xE2, CHR 0x80, CHR 0x81], [CHR 0xE2, CHR 0x80, CHR 0x82],
      [CHR 0xE2, CHR 0x80, CHR 0x83], [CHR 0xE2, CHR 0x80, CHR 0x84], [CHR 0xE2, CHR 0x80, CHR 0x85],
      [CHR 0xE2, CHR 0x80, CHR 0x86], [CHR 0xE2, CHR 0x80, CHR 0x87], [CHR 0xE2, CHR 0x80, CHR 0x88],
      [CHR 0xE2, CHR 0x80, CHR 0x89], [CHR 0xE2, CHR 0x80, CHR 0x8A], [CHR 0xE2, CHR 0x80, CHR 0xA8],
      [CHR 0xE2, CHR 0x80, CHR 0xA9], [CHR 0xE2, CHR 0x80, CHR 0xAF], [CHR 0xE2, CHR 0x81, CHR 0x9F],
      [CHR 0xE3, CHR 0x80, CHR 0x80]]"

fun strip_prefix :: "string \<Rightarrow> string \<Rightarrow> string option" where
  "strip_prefix [] s = Some s"
| "strip_prefix (c # cs) [] = None"
| "strip_prefix (c # cs) (d # ds) = (if c = d then strip_prefix cs ds else None)"

lemma strip_prefix_Some: "strip_prefix w s = Some t \<longleftrightarrow> s = w @ t"
  by (induction w s rule: strip_prefix.induct) auto

fun first_strip :: "string list \<Rightarrow> string \<Rightarrow> string option" where
  "first_strip [] s = None"
| "first_strip (w # ws) s =
     (case strip_prefix w s of Some t \<Rightarrow> Some t | None \<Rightarrow> first_strip ws s)"

lemma first_strip_Some: "first_strip ws s = Some t \<Longrightarrow> \<exists>w \<in> set ws. s = w @ t"
  by (induction ws) (auto split: option.splits simp: strip_prefix_Some)

lemma first_strip_None: "first_strip ws s = None \<longleftrightarrow> (\<forall>w \<in> set ws. \<forall>t. s \<noteq> w @ t)"
  by (induction ws)
     (auto split: option.splits simp: strip_prefix_Some,
      metis not_None_eq strip_prefix_Some)

lemma first_strip_append_None:
  "first_strip ws (s @ u) = None \<Longrightarrow> first_strip ws s = None"
  by (auto simp: first_strip_None)

lemma space_seqs_nonempty: "w \<in> set space_seqs \<Longrightarrow> w \<noteq> []"
  by (auto simp: space_seqs_def)

lemma rev_space_seqs_nonempty: "w \<in> set (map rev space_seqs) \<Longrightarrow> w \<noteq> []"
  by (auto simp: space_seqs_def)

text \<open>Removes white space at the front; \<open>ws\<close> is \<open>space_seqs\<close> or its reversal.\<close>

function strip_all :: "string list \<Rightarrow> string \<Rightarrow> string" where
  "strip_all ws s =
     (case first_strip ws s of
        None \<Rightarrow> s
      | Some t \<Rightarrow> if length t < length s then strip_all ws t else s)"
  by pat_completeness auto
termination
  by (relation "measure (\<lambda>(ws, s). length s)") auto

declare strip_all.simps [simp del]

definition trimLeft :: "string \<Rightarrow> string" where
  "trimLeft s = strip_all space_seqs s"

definition trimRight :: "string \<Rightarrow> string" where
  "trimRight s = rev (strip_all (map rev space_seqs) (rev s))"

text \<open>\<open>strings.TrimSpace\<close>.\<close>

definition trimSpace :: "string \<Rightarrow> string" where
  "trimSpace s = trimRight (trimLeft s)"

lemma strip_all_fixed: "first_strip ws s = None \<Longrightarrow> strip_all ws s = s"
  by (subst strip_all.simps) simp

lemma strip_all_suffix: "\<exists>u. s = u @ strip_all ws s"
proof (induction ws s rule: strip_all.induct)
  case (1 ws s)
  show ?case
  proof (cases "first_strip ws s")
    case None
    then show ?thesis by (simp add: strip_all_fixed)
  next
    case (Some t)
    then obtain w where w: "s = w @ t" using first_strip_Some by blast
    show ?thesis
    proof (cases "length t < length s")
      case True
      with "1.IH" [OF Some True] obtain u where "t = u @ strip_all ws t" by blast
      with w have "s = (w @ u) @ strip_all ws t" by simp
      moreover from Some True have "strip_all ws s = strip_all ws t"
        by (subst strip_all.simps) simp
      ultimately show ?thesis by metis
    next
      case False
      with Some have "strip_all ws s = s" by (subst strip_all.simps) simp
      then show ?thesis by simp
    qed
  qed
qed

lemma strip_all_done:
  assumes "\<And>w. w \<in> set ws \<Longrightarrow> w \<noteq> []"
  shows "first_strip ws (strip_all ws s) = None"
  using assms
proof (induction ws s rule: strip_all.induct)
  case (1 ws s)
  show ?case
  proof (cases "first_strip ws s")
    case None
    then show ?thesis by (simp add: strip_all_fixed)
  next
    case (Some t)
    then obtain w where w: "w \<in> set ws" "s = w @ t" using first_strip_Some by blast
    with "1.prems" have "length t < length s" by auto
    with "1.IH" [OF Some this] "1.prems" Some show ?thesis
      by (subst strip_all.simps) simp
  qed
qed

lemma trimSpace_eq_prefix: "\<exists>u. trimLeft s = trimSpace s @ u"
proof -
  obtain u where "rev (trimLeft s) = u @ strip_all (map rev space_seqs) (rev (trimLeft s))"
    using strip_all_suffix by blast
  then have "trimLeft s = trimSpace s @ rev u"
    by (simp add: trimSpace_def trimRight_def) (metis rev_append rev_rev_ident)
  then show ?thesis by blast
qed

lemma trimSpace_idem [simp]: "trimSpace (trimSpace s) = trimSpace s"
proof -
  obtain u where u: "trimLeft s = trimSpace s @ u" using trimSpace_eq_prefix by blast
  have "first_strip space_seqs (trimLeft s) = None"
    unfolding trimLeft_def by (rule strip_all_done) (rule space_seqs_nonempty)
  then have "first_strip space_seqs (trimSpace s) = None"
    unfolding u by (rule first_strip_append_None)
  then have l: "trimLeft (trimSpace s) = trimSpace s"
    by (simp add: trimLeft_def strip_all_fixed)
  have "first_strip (map rev space_seqs) (rev (trimSpace s)) = None"
    unfolding trimSpace_def trimRight_def rev_rev_ident
    by (rule strip_all_done) (rule rev_space_seqs_nonempty)
  then have "trimRight (trimSpace s) = trimSpace s"
    by (simp add: trimRight_def strip_all_fixed)
  with l show ?thesis by (simp add: trimSpace_def [of "trimSpace s"])
qed

lemma trimSpace_Nil [simp]: "trimSpace [] = []"
  by (simp add: trimSpace_def trimLeft_def trimRight_def strip_all_fixed space_seqs_def)

text \<open>
  \<open>strings.ToLower\<close> on ASCII letters; other bytes are kept.  It is used only where the result is
  compared with an ASCII word none of whose letters is the lower case of a character outside ASCII.
\<close>

definition lowerChar :: "char \<Rightarrow> char" where
  "lowerChar c =
     (let n = of_char c :: nat in if 65 \<le> n \<and> n \<le> 90 then char_of (n + 32) else c)"

definition toLower :: "string \<Rightarrow> string" where
  "toLower s = map lowerChar s"

text \<open>Decimal numbers, as printed by \<open>%d\<close>, and padded to six digits, as by \<open>%06d\<close>.\<close>

definition digitChar :: "nat \<Rightarrow> char" where
  "digitChar d = char_of (48 + d)"

fun decimalNat :: "nat \<Rightarrow> string" where
  "decimalNat n = (if n < 10 then [digitChar n] else decimalNat (n div 10) @ [digitChar (n mod 10)])"

declare decimalNat.simps [simp del]

definition decimal :: "int \<Rightarrow> string" where
  "decimal i = (if i < 0 then CHR ''-'' # decimalNat (nat (- i)) else decimalNat (nat i))"

definition decimal6 :: "nat \<Rightarrow> string" where
  "decimal6 n = (let d = decimalNat n in replicate (6 - length d) (CHR ''0'') @ d)"

lemma digitChar_inj: "a < 10 \<Longrightarrow> b < 10 \<Longrightarrow> digitChar a = digitChar b \<longleftrightarrow> a = b"
  by (auto simp: digitChar_def char_of_eq_iff take_bit_eq_mod)

lemma decimalNat_nonempty [simp]: "decimalNat n \<noteq> []" "[] \<noteq> decimalNat n"
  by (subst decimalNat.simps, simp)+

lemma decimalNat_single: "decimalNat n = [c] \<Longrightarrow> n < 10"
  by (rule ccontr) (simp add: decimalNat.simps [of n])

lemma decimalNat_inj: "decimalNat m = decimalNat n \<longleftrightarrow> m = n"
proof
  show "decimalNat m = decimalNat n \<Longrightarrow> m = n"
  proof (induction m arbitrary: n rule: decimalNat.induct)
    case (1 m)
    show ?case
    proof (cases "m < 10 \<or> n < 10")
      case True
      with "1.prems" have "m < 10" "n < 10"
        by (auto simp: decimalNat.simps [of m] decimalNat.simps [of n] split: if_splits)
      with "1.prems" show ?thesis
        by (simp add: decimalNat.simps [of m] decimalNat.simps [of n] digitChar_inj)
    next
      case False
      with "1.prems" have "decimalNat (m div 10) = decimalNat (n div 10)"
        and "digitChar (m mod 10) = digitChar (n mod 10)"
        by (auto simp: decimalNat.simps [of m] decimalNat.simps [of n])
      with "1.IH" False have "m div 10 = n div 10" "m mod 10 = n mod 10"
        by (auto simp: digitChar_inj)
      then show ?thesis by (metis div_mod_decomp)
    qed
  qed
qed simp

lemma digitChar_not_minus: "d < 10 \<Longrightarrow> digitChar d \<noteq> CHR ''-''"
  by (auto simp: digitChar_def char_of_eq_iff take_bit_eq_mod)

lemma decimal_inj_pos: "0 \<le> i \<Longrightarrow> 0 \<le> j \<Longrightarrow> decimal i = decimal j \<longleftrightarrow> i = j"
  by (auto simp: decimal_def decimalNat_inj)

section \<open>The standard library behind a parameter\<close>

text \<open>
  \<^item> \<open>randRaw seed k\<close>: the raw material of the \<open>k\<close>-th draw of
    \<open>rand.New(rand.NewSource(seed))\<close>; \<open>rngIntn\<close> maps it into the range asked for, so a
    choice of \<open>randRaw\<close> exists for every sequence of draws.
  \<^item> \<open>equalFold\<close>: \<open>strings.EqualFold\<close>.
  \<^item> \<open>formatRFC\<close>, \<open>parseRFC\<close>: \<open>Format(time.RFC3339Nano)\<close> of the instant that many
    nanoseconds after the zero time, and \<open>time.Parse\<close> with that layout.
  \<^item> \<open>fileURLPath\<close>: \<open>Some\<close> of the unescaped path where \<open>url.Parse\<close> succeeds with the scheme
    \<open>file\<close>, \<open>None\<close> elsewhere.
  \<^item> \<open>lowerCase\<close>: \<open>strings.ToLower\<close> on arbitrary text; \<open>pathClean\<close>, \<open>pathIsAbs\<close>:
    \<open>filepath.Clean\<close> and \<open>filepath.IsAbs\<close> of the platform; \<open>quoted\<close>: the verb \<open>%q\<close> of \<open>fmt\<close>.
\<close>

record golib =
  randRaw :: "64 word \<Rightarrow> nat \<Rightarrow> nat"
  equalFold :: "string \<Rightarrow> string \<Rightarrow> bool"
  formatRFC :: "int \<Rightarrow> string"
  parseRFC :: "string \<Rightarrow> int option"
  fileURLPath :: "string \<Rightarrow> string option"
  lowerCase :: "string \<Rightarrow> string"
  pathClean :: "string \<Rightarrow> string"
  pathIsAbs :: "string \<Rightarrow> bool"
  quoted :: "string \<Rightarrow> string"

text \<open>\<open>formatTimestamp\<close> and \<open>normalizeTimestamp\<close> of \<open>timestamps.go\<close>; the zero time is 0.\<close>

definition formatTimestamp :: "golib \<Rightarrow> int \<Rightarrow> string" where
  "formatTimestamp L t = (if t = 0 then '''' else formatRFC L t)"

definition parseTimestamp :: "golib \<Rightarrow> string \<Rightarrow> int option" where
  "parseTimestamp L s = (if s = '''' then None else parseRFC L s)"

definition normalizeTimestamp :: "golib \<Rightarrow> string \<Rightarrow> string" where
  "normalizeTimestamp L s =
     (case parseTimestamp L s of None \<Rightarrow> '''' | Some t \<Rightarrow> formatTimestamp L t)"

text \<open>The documented round trip of the layout, a hypothesis where a property needs it.\<close>

definition rfcRoundTrip :: "golib \<Rightarrow> bool" where
  "rfcRoundTrip L \<longleftrightarrow> (\<forall>s t. parseRFC L s = Some t \<longrightarrow> parseRFC L (formatRFC L t) = Some t)"

lemma normalizeTimestamp_idem:
  "rfcRoundTrip L \<Longrightarrow> normalizeTimestamp L (normalizeTimestamp L s) = normalizeTimestamp L s"
  by (auto simp: rfcRoundTrip_def normalizeTimestamp_def parseTimestamp_def formatTimestamp_def
      split: option.splits)

text \<open>A generator of \<open>math/rand\<close>: its stream of raw draws and how many were taken.\<close>

type_synonym rng = "(nat \<Rightarrow> nat) \<times> nat"

definition newRng :: "golib \<Rightarrow> 64 word \<Rightarrow> rng" where
  "newRng L seed = (randRaw L seed, 0)"

text \<open>\<open>rng.Intn(n)\<close>: a number below \<open>n\<close>.\<close>

definition rngIntn :: "rng \<Rightarrow> nat \<Rightarrow> nat \<times> rng" where
  "rngIntn g n = (fst g (snd g) mod n, (fst g, Suc (snd g)))"

lemma rngIntn_less: "0 < n \<Longrightarrow> fst (rngIntn g n) < n"
  by (simp add: rngIntn_def)

definition swapAt :: "nat \<Rightarrow> nat \<Rightarrow> 'a list \<Rightarrow> 'a list" where
  "swapAt i j xs = xs[i := xs ! j, j := xs ! i]"

lemma mset_swapAt: "i < length xs \<Longrightarrow> j < length xs \<Longrightarrow> mset (swapAt i j xs) = mset xs"
  by (simp add: swapAt_def mset_swap)

lemma length_swapAt [simp]: "length (swapAt i j xs) = length xs"
  by (simp add: swapAt_def)

text \<open>\<open>rng.Shuffle(len(xs), swap)\<close>: the loop of Fisher and Yates from index \<open>i\<close> down to 1.\<close>

fun rngShuffleFrom :: "nat \<Rightarrow> 'a list \<Rightarrow> rng \<Rightarrow> 'a list \<times> rng" where
  "rngShuffleFrom 0 xs g = (xs, g)"
| "rngShuffleFrom (Suc i) xs g =
     (let (j, g') = rngIntn g (Suc (Suc i)) in rngShuffleFrom i (swapAt (Suc i) j xs) g')"

definition rngShuffle :: "'a list \<Rightarrow> rng \<Rightarrow> 'a list \<times> rng" where
  "rngShuffle xs g = rngShuffleFrom (length xs - 1) xs g"

lemma mset_rngShuffleFrom: "i < length xs \<or> xs = [] \<and> i = 0 \<Longrightarrow> mset (fst (rngShuffleFrom i xs g)) = mset xs"
proof (induction i arbitrary: xs g)
  case 0
  then show ?case by simp
next
  case (Suc i)
  obtain j g' where j: "rngIntn g (Suc (Suc i)) = (j, g')" by (rule prod.exhaust)
  with rngIntn_less [of "Suc (Suc i)" g] have "j < Suc (Suc i)" by simp
  with Suc.prems have "mset (swapAt (Suc i) j xs) = mset xs"
    by (intro mset_swapAt) auto
  with Suc.IH [of "swapAt (Suc i) j xs" g'] Suc.prems j show ?case by simp
qed

lemma mset_rngShuffle [simp]: "mset (fst (rngShuffle xs g)) = mset xs"
  unfolding rngShuffle_def by (rule mset_rngShuffleFrom) (cases xs; simp)

section \<open>Slices\<close>

text \<open>\<open>append(xs[:i], xs[i+1:]...)\<close> and an insertion at \<open>i\<close>, for indices in range.\<close>

definition removeAt :: "nat \<Rightarrow> 'a list \<Rightarrow> 'a list" where
  "removeAt i xs = take i xs @ drop (Suc i) xs"

definition insertAt :: "nat \<Rightarrow> 'a \<Rightarrow> 'a list \<Rightarrow> 'a list" where
  "insertAt i x xs = take i xs @ x # drop i xs"

text \<open>The index of the first element with a property, \<open>-1\<close> if there is none.\<close>

fun indexWhere :: "('a \<Rightarrow> bool) \<Rightarrow> 'a list \<Rightarrow> int" where
  "indexWhere P [] = -1"
| "indexWhere P (x # xs) =
     (if P x then 0 else let i = indexWhere P xs in if i < 0 then -1 else i + 1)"

lemma indexWhere_bounds: "-1 \<le> indexWhere P xs \<and> indexWhere P xs < int (length xs)"
  by (induction xs) (auto simp: Let_def)

lemma indexWhere_neg: "indexWhere P xs < 0 \<longleftrightarrow> (\<forall>x \<in> set xs. \<not> P x)"
  by (induction xs) (auto simp: Let_def)

lemma indexWhere_nth: "0 \<le> indexWhere P xs \<Longrightarrow> P (xs ! nat (indexWhere P xs))"
proof (induction xs)
  case Nil
  then show ?case by simp
next
  case (Cons x xs)
  then show ?case by (auto simp: Let_def nat_add_distrib split: if_splits)
qed

lemma indexWhere_first: "0 \<le> indexWhere P xs \<Longrightarrow> i < nat (indexWhere P xs) \<Longrightarrow> \<not> P (xs ! i)"
proof (induction xs arbitrary: i)
  case Nil
  then show ?case by simp
next
  case (Cons x xs)
  then show ?case
    by (cases i) (auto simp: Let_def nat_add_distrib split: if_splits)
qed

lemma mset_removeAt: "i < length xs \<Longrightarrow> add_mset (xs ! i) (mset (removeAt i xs)) = mset xs"
  by (metis add_mset_add_single id_take_nth_drop mset.simps(2) mset_append removeAt_def
      union_mset_add_mset_right)

lemma length_removeAt: "i < length xs \<Longrightarrow> length (removeAt i xs) = length xs - 1"
  by (simp add: removeAt_def)

lemma set_removeAt: "set (removeAt i xs) \<subseteq> set xs"
  using set_take_subset [of i xs] set_drop_subset [of "Suc i" xs] by (auto simp: removeAt_def)

lemma mset_insertAt [simp]: "mset (insertAt i x xs) = add_mset x (mset xs)"
proof -
  have "mset (take i xs) + mset (drop i xs) = mset xs"
    by (metis append_take_drop_id mset_append)
  then show ?thesis by (simp add: insertAt_def)
qed

lemma set_insertAt [simp]: "set (insertAt i x xs) = insert x (set xs)"
  by (metis mset_insertAt set_mset_add_mset_insert set_mset_mset)

end
