(* ===== verification/PlaybackTypes.thy ===== *)
theory PlaybackTypes
  imports Prelude
begin

text \<open>
  The data of the playback runtime: \<open>src/internal/playback/types.go\<close>, the private types at the
  top of \<open>src/internal/playback/session.go\<close>, and the parts of \<open>src/api/types\<close> they refer to.

  A Go string type with named constants is a datatype with one constructor per constant and one
  for every other string (the zero value \<open>""\<close> is \<open>\<dots>Other ''''\<close>), because a value decoded from the
  store may be any string.  A pointer that may be nil is an \<open>option\<close>; nil and empty slices are not
  told apart, as the code never does.  \<open>int\<close> and \<open>int64\<close> values (indices, milliseconds, versions) are
  \<open>int\<close>; the \<open>uint64\<close> counters and seeds, whose wrap-around the code admits, are \<open>64 word\<close>.
  Instants are nanoseconds since the zero time of Go.
\<close>

section \<open>Enumerations\<close>

datatype RepeatMode = RepeatOff | RepeatAll | RepeatOne | RepeatOther string

datatype Status = StatusIdle | StatusPaused | StatusPlaying | StatusPending | StatusOther string

datatype ContextKind =
    KindAlbum | KindPlaylist | KindLiked | KindOffline | KindTracks | KindRecording | KindCustom
  | KindOther string

datatype RebasePolicy = RebaseFrozen | RebaseLive | RebaseOther string

datatype EntryOrigin = OriginContext | OriginQueued | OriginOther string

datatype QueueInsertMode = InsertNext | InsertLast | InsertOther string

datatype ResolutionMode = ModeLibrary | ModeExplicit | ModeOther string

datatype TargetResolution = PolicyPreferred | PolicyExact | PolicyOther string

datatype CurrentLane = LaneContext | LaneUser | LaneNone

datatype PreparationPurpose = PurposePlayNow | PurposePreloadNext | PurposeOther string

datatype PreparationPhase =
    PhaseReady | PhasePreparingFetch | PhasePreparingTranscode | PhaseUnavailable | PhaseFailed
  | PhaseOther string

datatype AvailabilityState =
    PlayableLocalFile | PlayableCachedOpt | PlayableRemoteOpt | WaitingProviderTranscode
  | UnavailableProvider | UnavailableNoPath | AvailabilityOther string

datatype ChangeKind = InvalidateBase | InvalidateAvailability | ChangeKindOther string

datatype ChangeEntity =
    EntityAlbums | EntityAlbum | EntityArtists | EntityArtistAlbums | EntityTracks
  | EntityAlbumTracks | EntityPlaylists | EntityPlaylistTracks | EntityLiked | EntityOffline
  | EntityOther string

text \<open>The text of the two constants of \<open>PlaybackTargetResolution\<close>, which enters cache keys.\<close>

fun policyText :: "TargetResolution \<Rightarrow> string" where
  "policyText PolicyPreferred = ''preferred''"
| "policyText PolicyExact = ''exact''"
| "policyText (PolicyOther s) = s"

definition defaultVolume :: int where
  "defaultVolume = 100"

definition parseRepeatMode :: "string \<Rightarrow> RepeatMode option" where
  "parseRepeatMode value =
     (let v = toLower (trimSpace value) in
      if v = ''off'' then Some RepeatOff
      else if v = ''all'' then Some RepeatAll
      else if v = ''one'' then Some RepeatOne
      else None)"

definition parseQueueInsertMode :: "string \<Rightarrow> QueueInsertMode" where
  "parseQueueInsertMode value =
     (if toLower (trimSpace value) = ''next'' then InsertNext else InsertLast)"

section \<open>Items, entries, sources\<close>

record PlaybackTargetRef =
  tgLogical :: string
  tgExact :: string
  tgPolicy :: TargetResolution

record PlaybackSourceAnchor =
  anEntryKey :: string
  anRecordingID :: string
  anSourceItemID :: string

record PlaybackSourceDescriptor =
  dsKind :: ContextKind
  dsID :: string
  dsTitle :: string
  dsRebasePolicy :: RebasePolicy
  dsLive :: bool

record PlaybackSourceRequest =
  rqDescriptor :: PlaybackSourceDescriptor
  rqAnchor :: PlaybackSourceAnchor

record SessionItem =
  itLibraryRecordingID :: string
  itVariantRecordingID :: string
  itRecordingID :: string
  itTitle :: string
  itSubtitle :: string
  itDurationMS :: int
  itArtworkRef :: string
  itSourceKind :: string
  itSourceID :: string
  itSourceItemID :: string
  itAlbumID :: string
  itVariantAlbumID :: string
  itResolutionMode :: ResolutionMode
  itTarget :: PlaybackTargetRef

record PlaybackSourceCandidate =
  cdKey :: string
  cdItem :: SessionItem

record SessionEntry =
  enEntryID :: string
  enOrigin :: EntryOrigin
  enContextIndex :: int
  enItem :: SessionItem

record ContextQueue =
  cqKind :: ContextKind
  cqID :: string
  cqTitle :: string
  cqEntries :: "SessionEntry list"
  cqStartIndex :: int
  cqCurrentIndex :: int
  cqResumeIndex :: int
  cqShuffleBag :: "int list"
  cqHasBefore :: bool
  cqHasAfter :: bool
  cqWindowStart :: int
  cqWindowCount :: int
  cqTotalCount :: int
  cqLive :: bool
  cqLoading :: bool
  cqSourceVersion :: int
  cqShuffleSeed :: "64 word"
  cqSource :: "PlaybackSourceDescriptor option"
  cqAnchor :: "PlaybackSourceAnchor option"
  cqAllEntries :: "SessionEntry list"

record PlaybackContextInput =
  ciKind :: ContextKind
  ciID :: string
  ciTitle :: string
  ciItems :: "SessionItem list"
  ciStartIndex :: int

section \<open>Preparation and availability\<close>

record PreparationStatus =
  psLibraryRecordingID :: string
  psVariantRecordingID :: string
  psRecordingID :: string
  psPreferredProfile :: string
  psPurpose :: PreparationPurpose
  psPhase :: PreparationPhase
  psSourceKind :: string
  psReason :: string
  psPlayableURI :: string
  psEncodingID :: string
  psBlobID :: string
  psUpdatedAt :: int

text \<open>The zero value of the struct.\<close>

definition zeroPreparation :: PreparationStatus where
  "zeroPreparation =
     \<lparr>psLibraryRecordingID = '''', psVariantRecordingID = '''', psRecordingID = '''',
      psPreferredProfile = '''', psPurpose = PurposeOther '''', psPhase = PhaseOther '''',
      psSourceKind = '''', psReason = '''', psPlayableURI = '''', psEncodingID = '''',
      psBlobID = '''', psUpdatedAt = 0\<rparr>"

record PlaybackAvailability =
  avLibraryRecordingID :: string
  avVariantRecordingID :: string
  avRecordingID :: string
  avPreferredProfile :: string
  avPinned :: bool
  avState :: AvailabilityState
  avSourceKind :: string
  avLocalPath :: string
  avReason :: string

record EntryPreparation =
  epEntryID :: string
  epStatus :: PreparationStatus

record QueuePlan =
  qpEntry :: "SessionEntry option"
  qpLane :: CurrentLane
  qpPlanned :: bool

record PlaybackSkipEvent =
  skEventID :: string
  skMessage :: string
  skCount :: int
  skStopped :: bool
  skFirstEntry :: "SessionEntry option"
  skOccurredAt :: string

section \<open>The published snapshot\<close>

record SessionSnapshot =
  snContextQueue :: "ContextQueue option"
  snUserQueue :: "SessionEntry list"
  snCurrentEntryID :: string
  snCurrentEntry :: "SessionEntry option"
  snCurrentItem :: "SessionItem option"
  snLoadingEntry :: "SessionEntry option"
  snLoadingItem :: "SessionItem option"
  snUpcomingEntries :: "SessionEntry list"
  snCurrentLane :: CurrentLane
  snNextPlanned :: "QueuePlan option"
  snPreloadedPlan :: "QueuePlan option"
  snRepeatMode :: RepeatMode
  snShuffle :: bool
  snVolume :: int
  snStatus :: Status
  snPositionMS :: int
  snPositionCapturedAtMS :: int
  snDurationMS :: "int option"
  snUpdatedAt :: string
  snLastError :: string
  snCurrentSourceKind :: string
  snCurrentPreparation :: "EntryPreparation option"
  snLoadingPreparation :: "EntryPreparation option"
  snNextPreparation :: "EntryPreparation option"
  snEntryAvailability :: "string \<rightharpoonup> PlaybackAvailability"
  snLastSkipEvent :: "PlaybackSkipEvent option"
  snQueueLength :: int
  snNextEntrySeq :: int
  snQueueVersion :: int

text \<open>The zero value of the struct, and the session's initial snapshot.\<close>

definition zeroSnapshot :: SessionSnapshot where
  "zeroSnapshot =
     \<lparr>snContextQueue = None, snUserQueue = [], snCurrentEntryID = '''', snCurrentEntry = None,
      snCurrentItem = None, snLoadingEntry = None, snLoadingItem = None, snUpcomingEntries = [],
      snCurrentLane = LaneNone, snNextPlanned = None, snPreloadedPlan = None,
      snRepeatMode = RepeatOther '''', snShuffle = False, snVolume = 0, snStatus = StatusOther '''',
      snPositionMS = 0, snPositionCapturedAtMS = 0, snDurationMS = None, snUpdatedAt = '''',
      snLastError = '''', snCurrentSourceKind = '''', snCurrentPreparation = None,
      snLoadingPreparation = None, snNextPreparation = None, snEntryAvailability = Map.empty,
      snLastSkipEvent = None, snQueueLength = 0, snNextEntrySeq = 0, snQueueVersion = 0\<rparr>"

definition defaultSessionSnapshot :: SessionSnapshot where
  "defaultSessionSnapshot =
     zeroSnapshot\<lparr>snRepeatMode := RepeatOff, snVolume := defaultVolume, snStatus := StatusIdle,
       snNextEntrySeq := 1\<rparr>"

section \<open>Candidates, plans, transitions, events\<close>

record playbackCandidate =
  pcEntry :: SessionEntry
  pcOrigin :: EntryOrigin
  pcQueueIndex :: int

record plannedCandidate =
  plEntryID :: string
  plOrigin :: EntryOrigin
  plQueueIndex :: int
  plContextIndex :: int
  plTarget :: PlaybackTargetRef
  plRecordingID :: string

record nextActionPlan =
  npVersion :: int
  npQueueVersion :: int
  npSourceVersion :: int
  npCurrentEntryID :: string
  npRepeatMode :: RepeatMode
  npShuffle :: bool
  npTransportToken :: "64 word"
  npPendingEntryID :: string
  npPendingOrigin :: EntryOrigin
  npPendingQueueIdx :: int
  npCandidates :: "plannedCandidate list"

record sourceIdentity =
  siKind :: ContextKind
  siID :: string
  siRebasePolicy :: RebasePolicy
  siLive :: bool
  siAnchorMode :: string

definition zeroSourceIdentity :: sourceIdentity where
  "zeroSourceIdentity =
     \<lparr>siKind = KindOther '''', siID = '''', siRebasePolicy = RebaseOther '''', siLive = False,
      siAnchorMode = ''''\<rparr>"

record BackendActivationRef =
  baURI :: string
  baPlaylistEntryID :: int
  baPlaylistPos :: int
  baAttemptID :: "64 word"

datatype transitionKind = DirectLoad | ActivatePreloaded

record transportTransition =
  ttToken :: "64 word"
  ttEntry :: SessionEntry
  ttOrigin :: EntryOrigin
  ttQueueIndex :: int
  ttPrevious :: "SessionEntry option"
  ttPlayableURI :: string
  ttActivation :: BackendActivationRef
  ttStatus :: PreparationStatus
  ttSourceIdentity :: sourceIdentity
  ttKind :: transitionKind

record skippedEntry =
  seEntry :: SessionEntry
  seStatus :: PreparationStatus
  seMessage :: string

record cachedAvailability =
  caStatus :: PlaybackAvailability
  caExpiresAt :: int

datatype BackendEventType =
  EventTrackEnd | EventFileLoaded | EventShutdown | EventError | EventOther string

datatype TrackEndReason =
  ReasonEOF | ReasonStop | ReasonQuit | ReasonError | ReasonRedirect | ReasonOther string

record BackendEvent =
  beType :: BackendEventType
  beReason :: TrackEndReason
  beErr :: "string option"
  beEndedURI :: string
  beActiveURI :: string
  beActivePlaylistEntryID :: int
  beActivePlaylistPos :: int
  beActiveAttemptID :: "64 word"

record CatalogChangeEvent =
  ceKind :: ChangeKind
  ceEntity :: ChangeEntity
  ceEntityID :: string
  ceQueryKey :: string
  ceRecordingIDs :: "string list"
  ceAlbumIDs :: "string list"
  ceInvalidateAll :: bool
  ceOccurredAt :: int

text \<open>
  The errors of the session: an \<open>entryUnavailableError\<close>, which the retry loops recognise with
  \<open>errors.As\<close>, or any other error with its text.
\<close>

datatype sessionError = EntryUnavailable SessionEntry PreparationStatus | OtherError string

fun errorText :: "sessionError \<Rightarrow> string" where
  "errorText (EntryUnavailable e st) =
     ''recording '' @ itRecordingID (enItem e) @ '' is unavailable ('' @ psReason st @ '')''"
| "errorText (OtherError msg) = msg"

section \<open>Facts about parsing\<close>

lemma parseRepeatMode_known:
  "parseRepeatMode v = Some m \<Longrightarrow> m \<in> {RepeatOff, RepeatAll, RepeatOne}"
  by (auto simp: parseRepeatMode_def Let_def split: if_splits)

end
