(* ===== verification/ItemMapping.thy ===== *)
theory ItemMapping
  imports PlaybackTypes
begin

text \<open>
  From catalog rows to playable items (\<open>src/internal/playback/mapping.go\<close>) and the canonical form
  of playback addresses (\<open>src/internal/playback/uri_normalize.go\<close>).  The central fact is that
  \<open>NormalizeItems\<close> is a projection onto items that can be identified, shown and resolved.
\<close>

section \<open>Text helpers\<close>

fun firstNonEmpty :: "string list \<Rightarrow> string" where
  "firstNonEmpty [] = ''''"
| "firstNonEmpty (v # vs) = (let t = trimSpace v in if t \<noteq> '''' then t else firstNonEmpty vs)"

lemma trim_firstNonEmpty [simp]: "trimSpace (firstNonEmpty vs) = firstNonEmpty vs"
  by (induction vs) (auto simp: Let_def)

lemma firstNonEmpty_eq_Nil: "firstNonEmpty vs = '''' \<longleftrightarrow> (\<forall>v \<in> set vs. trimSpace v = '''')"
  by (induction vs) (auto simp: Let_def)

fun joinWith :: "string \<Rightarrow> string list \<Rightarrow> string" where
  "joinWith sep [] = ''''"
| "joinWith sep [v] = v"
| "joinWith sep (v # w # vs) = v @ sep @ joinWith sep (w # vs)"

definition joinArtists :: "string list \<Rightarrow> string" where
  "joinArtists values = joinWith '', '' (filter (\<lambda>t. t \<noteq> '''') (map trimSpace values))"

section \<open>Catalog rows\<close>

record RecordingListItem =
  rlLibraryRecordingID :: string
  rlPreferredVariantRecordingID :: string
  rlTrackClusterID :: string
  rlRecordingID :: string
  rlAlbumID :: string
  rlTitle :: string
  rlDurationMS :: int
  rlArtists :: "string list"
  rlVariantCount :: int
  rlHasVariants :: bool

record AlbumTrackItem =
  atLibraryRecordingID :: string
  atVariantRecordingID :: string
  atRecordingID :: string
  atTitle :: string
  atDurationMS :: int
  atDiscNo :: int
  atTrackNo :: int
  atArtists :: "string list"

record PlaylistTrackItem =
  ptItemID :: string
  ptLibraryRecordingID :: string
  ptRecordingID :: string
  ptAlbumID :: string
  ptTitle :: string
  ptDurationMS :: int
  ptArtists :: "string list"
  ptAddedAt :: int

record LikedRecordingItem =
  lkLibraryRecordingID :: string
  lkRecordingID :: string
  lkAlbumID :: string
  lkTitle :: string
  lkDurationMS :: int
  lkArtists :: "string list"
  lkAddedAt :: int

record OfflineRecordingItem =
  ofLibraryRecordingID :: string
  ofRecordingID :: string
  ofAlbumID :: string
  ofTitle :: string
  ofDurationMS :: int
  ofArtists :: "string list"
  ofOfflineSince :: int
  ofHasLocalSource :: bool
  ofHasLocalCached :: bool

section \<open>Rows to items\<close>

definition itemFromRecording :: "RecordingListItem \<Rightarrow> SessionItem" where
  "itemFromRecording r =
     (let logical = firstNonEmpty [rlLibraryRecordingID r, rlRecordingID r];
          exact = trimSpace (rlPreferredVariantRecordingID r)
      in \<lparr>itLibraryRecordingID = rlLibraryRecordingID r, itVariantRecordingID = exact,
          itRecordingID = logical, itTitle = rlTitle r, itSubtitle = joinArtists (rlArtists r),
          itDurationMS = rlDurationMS r, itArtworkRef = firstNonEmpty [exact, logical],
          itSourceKind = ''recording'', itSourceID = logical, itSourceItemID = '''',
          itAlbumID = trimSpace (rlAlbumID r), itVariantAlbumID = trimSpace (rlAlbumID r),
          itResolutionMode = ModeLibrary,
          itTarget = \<lparr>tgLogical = logical, tgExact = exact, tgPolicy = PolicyPreferred\<rparr>\<rparr>)"

definition itemFromRecordingRequest :: "RecordingListItem \<Rightarrow> string \<Rightarrow> SessionItem" where
  "itemFromRecordingRequest r requested =
     (let item = itemFromRecording r; requested = trimSpace requested in
      if requested = '''' \<or> requested = tgLogical (itTarget item) then item
      else item\<lparr>itVariantRecordingID := requested,
                itArtworkRef := firstNonEmpty [requested, itArtworkRef item],
                itTarget := (itTarget item)\<lparr>tgExact := requested, tgPolicy := PolicyExact\<rparr>\<rparr>)"

definition itemFromAlbumTrack :: "string \<Rightarrow> AlbumTrackItem \<Rightarrow> SessionItem" where
  "itemFromAlbumTrack albumID t =
     (let logical = firstNonEmpty [atLibraryRecordingID t, atRecordingID t, atVariantRecordingID t];
          exact = firstNonEmpty [atVariantRecordingID t, atRecordingID t, atLibraryRecordingID t]
      in \<lparr>itLibraryRecordingID = atLibraryRecordingID t, itVariantRecordingID = exact,
          itRecordingID = exact, itTitle = atTitle t, itSubtitle = joinArtists (atArtists t),
          itDurationMS = atDurationMS t, itArtworkRef = exact, itSourceKind = ''album'',
          itSourceID = trimSpace albumID, itSourceItemID = '''', itAlbumID = trimSpace albumID,
          itVariantAlbumID = trimSpace albumID, itResolutionMode = ModeExplicit,
          itTarget = \<lparr>tgLogical = logical, tgExact = exact, tgPolicy = PolicyExact\<rparr>\<rparr>)"

definition itemsFromAlbumTracks :: "string \<Rightarrow> AlbumTrackItem list \<Rightarrow> SessionItem list" where
  "itemsFromAlbumTracks albumID tracks = map (itemFromAlbumTrack albumID) tracks"

text \<open>
  The loop bodies of the playlist, liked and offline conversions agree up to the source fields;
  \<open>libraryItem\<close> is their common part.
\<close>

definition libraryItem ::
  "string \<Rightarrow> string \<Rightarrow> string \<Rightarrow> string \<Rightarrow> int \<Rightarrow> string list \<Rightarrow> string \<Rightarrow> string \<Rightarrow> string \<Rightarrow> SessionItem" where
  "libraryItem library recording album title duration artists sourceKind sourceID sourceItemID =
     (let libraryID = firstNonEmpty [library, recording];
          variantID = firstNonEmpty [recording, library];
          recordingID = (if libraryID = '''' then variantID else libraryID)
      in \<lparr>itLibraryRecordingID = libraryID, itVariantRecordingID = variantID,
          itRecordingID = recordingID, itTitle = title, itSubtitle = joinArtists artists,
          itDurationMS = duration, itArtworkRef = firstNonEmpty [variantID, recordingID],
          itSourceKind = sourceKind, itSourceID = sourceID, itSourceItemID = sourceItemID,
          itAlbumID = trimSpace album, itVariantAlbumID = trimSpace album,
          itResolutionMode = ModeLibrary,
          itTarget = \<lparr>tgLogical = recordingID, tgExact = variantID, tgPolicy = PolicyPreferred\<rparr>\<rparr>)"

definition itemsFromPlaylistTracks :: "string \<Rightarrow> PlaylistTrackItem list \<Rightarrow> SessionItem list" where
  "itemsFromPlaylistTracks playlistID tracks =
     map (\<lambda>t. libraryItem (ptLibraryRecordingID t) (ptRecordingID t) (ptAlbumID t) (ptTitle t)
        (ptDurationMS t) (ptArtists t) ''playlist'' (trimSpace playlistID) (trimSpace (ptItemID t)))
       tracks"

definition itemsFromLikedRecordings :: "LikedRecordingItem list \<Rightarrow> SessionItem list" where
  "itemsFromLikedRecordings recordings =
     map (\<lambda>t. libraryItem (lkLibraryRecordingID t) (lkRecordingID t) (lkAlbumID t) (lkTitle t)
        (lkDurationMS t) (lkArtists t) ''liked'' '''' '''') recordings"

definition itemsFromOfflineRecordings :: "OfflineRecordingItem list \<Rightarrow> SessionItem list" where
  "itemsFromOfflineRecordings recordings =
     map (\<lambda>t. libraryItem (ofLibraryRecordingID t) (ofRecordingID t) (ofAlbumID t) (ofTitle t)
        (ofDurationMS t) (ofArtists t) ''offline'' '''' '''') recordings"

section \<open>Normalisation of items\<close>

text \<open>The loop body of \<open>NormalizeItems\<close>: trimming, the identity, the defaults.\<close>

definition trimItem :: "SessionItem \<Rightarrow> SessionItem" where
  "trimItem i =
     i\<lparr>itLibraryRecordingID := trimSpace (itLibraryRecordingID i),
       itVariantRecordingID := trimSpace (itVariantRecordingID i),
       itRecordingID := trimSpace (itRecordingID i),
       itTitle := trimSpace (itTitle i),
       itSubtitle := trimSpace (itSubtitle i),
       itArtworkRef := trimSpace (itArtworkRef i),
       itSourceKind := trimSpace (itSourceKind i),
       itSourceID := trimSpace (itSourceID i),
       itSourceItemID := trimSpace (itSourceItemID i),
       itAlbumID := trimSpace (itAlbumID i),
       itVariantAlbumID := trimSpace (itVariantAlbumID i),
       itTarget := (itTarget i)\<lparr>tgLogical := trimSpace (tgLogical (itTarget i)),
                                tgExact := trimSpace (tgExact (itTarget i))\<rparr>\<rparr>"

definition identifyItem :: "SessionItem \<Rightarrow> SessionItem" where
  "identifyItem i =
     (if itRecordingID i = ''''
      then i\<lparr>itRecordingID := firstNonEmpty [itLibraryRecordingID i, itVariantRecordingID i]\<rparr>
      else i)"

definition defaultTarget :: "SessionItem \<Rightarrow> PlaybackTargetRef" where
  "defaultTarget i =
     (let t = itTarget i in
      \<lparr>tgLogical = (if tgLogical t = ''''
          then firstNonEmpty [itLibraryRecordingID i, itRecordingID i, itVariantRecordingID i]
          else tgLogical t),
       tgExact = (if tgExact t = ''''
          then firstNonEmpty [itVariantRecordingID i, itRecordingID i] else tgExact t),
       tgPolicy = (if tgPolicy t = PolicyOther ''''
          then (if itResolutionMode i = ModeExplicit then PolicyExact else PolicyPreferred)
          else tgPolicy t)\<rparr>)"

definition completeItem :: "SessionItem \<Rightarrow> SessionItem" where
  "completeItem i =
     i\<lparr>itTitle := (if itTitle i = '''' then itRecordingID i else itTitle i),
       itArtworkRef := (if itArtworkRef i = '''' then itRecordingID i else itArtworkRef i),
       itTarget := defaultTarget i\<rparr>"

fun normalizeItems :: "SessionItem list \<Rightarrow> SessionItem list" where
  "normalizeItems [] = []"
| "normalizeItems (i # is) =
     (let j = identifyItem (trimItem i) in
      if itRecordingID j = '''' then normalizeItems is
      else completeItem j # normalizeItems is)"

definition normalizeSessionItem :: "SessionItem \<Rightarrow> SessionItem" where
  "normalizeSessionItem i = (case normalizeItems [i] of [] \<Rightarrow> i | j # _ \<Rightarrow> j)"

text \<open>What the later stages rely on: an item that can be identified, shown and resolved.\<close>

definition trimmed :: "string \<Rightarrow> bool" where
  "trimmed s \<longleftrightarrow> trimSpace s = s"

definition playableItem :: "SessionItem \<Rightarrow> bool" where
  "playableItem i \<longleftrightarrow>
     itRecordingID i \<noteq> '''' \<and> itTitle i \<noteq> '''' \<and> itArtworkRef i \<noteq> '''' \<and>
     tgLogical (itTarget i) \<noteq> '''' \<and> tgExact (itTarget i) \<noteq> '''' \<and>
     tgPolicy (itTarget i) \<noteq> PolicyOther '''' \<and>
     list_all trimmed
       [itLibraryRecordingID i, itVariantRecordingID i, itRecordingID i, itTitle i, itSubtitle i,
        itArtworkRef i, itSourceKind i, itSourceID i, itSourceItemID i, itAlbumID i,
        itVariantAlbumID i, tgLogical (itTarget i), tgExact (itTarget i)]"

lemma playable_complete:
  "itRecordingID (identifyItem (trimItem i)) \<noteq> '''' \<Longrightarrow> playableItem (completeItem (identifyItem (trimItem i)))"
  by (auto simp: playableItem_def trimmed_def completeItem_def identifyItem_def trimItem_def
      defaultTarget_def Let_def split: if_splits)

lemma normalize_playable_fixed:
  assumes "playableItem i"
  shows "completeItem i = i" and "identifyItem (trimItem i) = i"
proof -
  show id: "identifyItem (trimItem i) = i"
    using assms by (simp add: playableItem_def trimmed_def identifyItem_def trimItem_def)
  show "completeItem i = i"
    using assms by (simp add: completeItem_def defaultTarget_def playableItem_def Let_def)
qed

lemma playable_recordingID: "playableItem i \<Longrightarrow> itRecordingID i \<noteq> ''''"
  by (simp add: playableItem_def)

lemma normalizeItems_playable: "list_all playableItem (normalizeItems is)"
  by (induction "is") (auto simp: Let_def playable_complete)

lemma normalizeItems_fixed: "list_all playableItem is \<Longrightarrow> normalizeItems is = is"
  by (induction "is") (simp_all add: Let_def normalize_playable_fixed playable_recordingID)

lemma normalizeItems_idem: "normalizeItems (normalizeItems is) = normalizeItems is"
  by (rule normalizeItems_fixed) (rule normalizeItems_playable)

lemma length_normalizeItems: "length (normalizeItems is) \<le> length is"
  by (induction "is") (auto simp: Let_def)

lemma normalizeSessionItem_idem [simp]:
  "normalizeSessionItem (normalizeSessionItem i) = normalizeSessionItem i"
proof (cases "normalizeItems [i]")
  case Nil
  then show ?thesis by (simp add: normalizeSessionItem_def)
next
  case (Cons j js)
  with normalizeItems_playable [of "[i]"] have "playableItem j" by simp
  then have "normalizeItems [j] = [j]" by (intro normalizeItems_fixed) simp
  with Cons show ?thesis by (simp add: normalizeSessionItem_def)
qed

lemma normalizeSessionItem_playable: "playableItem i \<Longrightarrow> normalizeSessionItem i = i"
  using normalizeItems_fixed [of "[i]"] by (simp add: normalizeSessionItem_def)

text \<open>The item that is dropped is the one with no identity at all.\<close>

lemma normalizeItems_drop:
  "normalizeItems [i] = [] \<longleftrightarrow>
     trimSpace (itRecordingID i) = '''' \<and> trimSpace (itLibraryRecordingID i) = '''' \<and>
     trimSpace (itVariantRecordingID i) = ''''"
  by (auto simp: Let_def identifyItem_def trimItem_def)

section \<open>Playback addresses\<close>

definition backslashToSlash :: "string \<Rightarrow> string" where
  "backslashToSlash s = map (\<lambda>c. if c = CHR 0x5C then CHR ''/'' else c) s"

definition normalizeLocalPlaybackPath :: "golib \<Rightarrow> string \<Rightarrow> string" where
  "normalizeLocalPlaybackPath L value =
     (let v = trimSpace value in
      if v = '''' then ''''
      else let p = backslashToSlash (pathClean L (backslashToSlash v)) in
           if 2 \<le> length p \<and> p ! 1 = CHR '':'' then lowerCase L p else p)"

definition looksLikeLocalPlaybackPath :: "golib \<Rightarrow> string \<Rightarrow> bool" where
  "looksLikeLocalPlaybackPath L value \<longleftrightarrow>
     value \<noteq> '''' \<and>
     (pathIsAbs L value \<or> CHR 0x5C \<in> set value \<or> (2 \<le> length value \<and> value ! 1 = CHR '':''))"

definition normalizePlaybackURI :: "golib \<Rightarrow> string \<Rightarrow> string" where
  "normalizePlaybackURI L value =
     (let v = trimSpace value in
      if v = '''' then ''''
      else case fileURLPath L v of
        Some path \<Rightarrow>
          normalizeLocalPlaybackPath L
            (if 3 \<le> length path \<and> path ! 0 = CHR ''/'' \<and> path ! 2 = CHR '':'' then tl path else path)
      | None \<Rightarrow> if looksLikeLocalPlaybackPath L v then normalizeLocalPlaybackPath L v else v)"

end
