(* ===== verification/SmartShuffle.thy ===== *)
theory SmartShuffle
  imports ItemMapping
begin

text \<open>
  The shuffle of a playback context (the \<open>smartShuffle\<close> and \<open>sanitizeShuffleBag\<close> routines of
  \<open>src/internal/playback/session.go\<close>).  A cycle is a list of positions of the context.  It is
  built greedily: the remaining positions are put in random order and, again and again, one of those
  whose score against the last three entries is best is drawn.  With an anchor the cycle starts there,
  and the result is improved by moving one inner entry to the end where that raises its wrap score.

  The draws come from a generator of \<open>math/rand\<close>, given as a stream.  \<open>rng.Intn(0)\<close> panics; a greedy
  step that would call it yields \<open>None\<close>, and \<open>greedyCycle_total\<close> shows that it never happens.  The
  main results: every cycle is a permutation of the context positions, starts at its anchor, takes a
  best entry at each step, and is never worse after the improvement.
\<close>

section \<open>Scores\<close>

definition sameLabel :: "golib \<Rightarrow> string \<Rightarrow> string \<Rightarrow> bool" where
  "sameLabel L left right =
     (let l = trimSpace left; r = trimSpace right in l \<noteq> '''' \<and> equalFold L l r)"

definition smartShufflePairScore :: "golib \<Rightarrow> SessionItem \<Rightarrow> SessionItem \<Rightarrow> int \<Rightarrow> int" where
  "smartShufflePairScore L cand prev weight =
     (if itRecordingID cand = itRecordingID prev then - 1000 else 0) +
     (if sameLabel L (itSubtitle cand) (itSubtitle prev) then - (240 * weight) else 0) +
     (if itAlbumID cand \<noteq> '''' \<and> itAlbumID cand = itAlbumID prev then - (160 * weight) else 0) +
     (if itSourceKind cand = ''album'' \<and> itSourceID cand \<noteq> '''' \<and> itSourceID cand = itSourceID prev
      then - (120 * weight) else 0)"

text \<open>The item at a position of the context; the callers pass positions in range only.\<close>

definition itemAt :: "SessionEntry list \<Rightarrow> int \<Rightarrow> SessionItem" where
  "itemAt entries i = enItem (entries ! nat i)"

definition smartShuffleScore :: "golib \<Rightarrow> SessionEntry list \<Rightarrow> int list \<Rightarrow> int \<Rightarrow> int" where
  "smartShuffleScore L entries cycle candidate =
     sum_list (map (\<lambda>distance.
         smartShufflePairScore L (itemAt entries candidate)
           (itemAt entries (cycle ! (length cycle - distance))) (4 - int distance))
       [1..<Suc (min 3 (length cycle))])
     + int (length cycle) * 10"

definition smartShuffleWrapScore :: "golib \<Rightarrow> SessionEntry list \<Rightarrow> int list \<Rightarrow> int" where
  "smartShuffleWrapScore L entries cycle =
     (if length cycle < 2 then 0
      else sum_list (map (\<lambda>index.
              smartShufflePairScore L (itemAt entries (cycle ! index))
                (itemAt entries (cycle ! (index - 1))) 3) [1..<length cycle])
           + 2 * smartShufflePairScore L (itemAt entries (cycle ! 0))
                   (itemAt entries (cycle ! (length cycle - 1))) 3)"

section \<open>The greedy construction\<close>

text \<open>The scan for the best remaining positions: \<open>k\<close> counts, \<open>best\<close> and \<open>found\<close> are its variables.\<close>

fun scanBest :: "(int \<Rightarrow> int) \<Rightarrow> nat \<Rightarrow> int list \<Rightarrow> int \<Rightarrow> nat list \<Rightarrow> nat list" where
  "scanBest score k [] best found = found"
| "scanBest score k (r # rs) best found =
     (if score r > best then scanBest score (Suc k) rs (score r) [k]
      else if score r = best then scanBest score (Suc k) rs best (found @ [k])
      else scanBest score (Suc k) rs best found)"

definition bestStart :: int where
  "bestStart = - (2 ^ 30)"

function greedyCycle ::
  "golib \<Rightarrow> SessionEntry list \<Rightarrow> int list \<Rightarrow> int list \<Rightarrow> rng \<Rightarrow> int list option" where
  "greedyCycle L entries remaining cycle g =
     (if remaining = [] then Some cycle
      else let best = scanBest (smartShuffleScore L entries cycle) 0 remaining bestStart [] in
        if best = [] then None
        else let (k, g') = rngIntn g (length best); chosen = best ! k in
          if chosen < length remaining
          then greedyCycle L entries (removeAt chosen remaining) (cycle @ [remaining ! chosen]) g'
          else None)"
  by pat_completeness auto
termination
  by (relation "measure (\<lambda>(L, entries, remaining, cycle, g). length remaining)")
     (auto simp: length_removeAt)

declare greedyCycle.simps [simp del]

definition positions :: "nat \<Rightarrow> int list" where
  "positions n = map int [0..<n]"

definition buildSmartShuffleCycle :: "golib \<Rightarrow> SessionEntry list \<Rightarrow> rng \<Rightarrow> int list" where
  "buildSmartShuffleCycle L entries g =
     (if entries = [] then []
      else let (remaining, g') = rngShuffle (positions (length entries)) g in
        the (greedyCycle L entries remaining [] g'))"

text \<open>One inner entry moved to the end, and the best of these trials, the first among equals.\<close>

definition moveToEnd :: "nat \<Rightarrow> 'a list \<Rightarrow> 'a list" where
  "moveToEnd i xs = take i xs @ drop (Suc i) xs @ [xs ! i]"

fun bestTrial :: "('a \<Rightarrow> int) \<Rightarrow> 'a \<Rightarrow> 'a list \<Rightarrow> 'a" where
  "bestTrial score best [] = best"
| "bestTrial score best (t # ts) =
     (if score t > score best then bestTrial score t ts else bestTrial score best ts)"

definition optimizeAnchoredSmartShuffleCycle ::
  "golib \<Rightarrow> SessionEntry list \<Rightarrow> int list \<Rightarrow> int list" where
  "optimizeAnchoredSmartShuffleCycle L entries cycle =
     (if length cycle < 3 then cycle
      else bestTrial (smartShuffleWrapScore L entries) cycle
             (map (\<lambda>i. moveToEnd i cycle) [1..<length cycle - 1]))"

definition buildAnchoredSmartShuffleCycle ::
  "golib \<Rightarrow> SessionEntry list \<Rightarrow> int \<Rightarrow> rng \<Rightarrow> int list" where
  "buildAnchoredSmartShuffleCycle L entries anchor g =
     (if anchor < 0 \<or> int (length entries) \<le> anchor then buildSmartShuffleCycle L entries g
      else let (remaining, g') =
                 rngShuffle (filter (\<lambda>i. i \<noteq> anchor) (positions (length entries))) g
           in optimizeAnchoredSmartShuffleCycle L entries
                (the (greedyCycle L entries remaining [anchor] g')))"

section \<open>Reading a stored bag\<close>

fun sanitizeScan :: "int \<Rightarrow> int list \<Rightarrow> int list \<Rightarrow> bool" where
  "sanitizeScan tot seen [] = True"
| "sanitizeScan tot seen (i # rest) =
     (if i < 0 \<or> tot \<le> i \<or> i \<in> set seen then False else sanitizeScan tot (i # seen) rest)"

definition sanitizeShuffleBag :: "int list \<Rightarrow> int \<Rightarrow> int list" where
  "sanitizeShuffleBag bag tot =
     (if tot \<le> 0 \<or> int (length bag) \<noteq> tot then []
      else if sanitizeScan tot [] bag then bag else [])"

section \<open>The scan finds exactly the best\<close>

definition bestOf :: "(int \<Rightarrow> int) \<Rightarrow> int list \<Rightarrow> int \<Rightarrow> int" where
  "bestOf score rs best = fold max (map score rs) best"

lemma bestOf_simps [simp]:
  "bestOf score [] best = best"
  "bestOf score (r # rs) best = bestOf score rs (max (score r) best)"
  by (simp_all add: bestOf_def)

lemma bestOf_ge: "best \<le> bestOf score rs best"
  by (induction rs arbitrary: best) (simp_all, meson max.bounded_iff)

lemma bestOf_upper: "r \<in> set rs \<Longrightarrow> score r \<le> bestOf score rs best"
proof (induction rs arbitrary: best)
  case (Cons q rs)
  show ?case
  proof (cases "r = q")
    case True
    then show ?thesis using bestOf_ge [of "max (score q) best" score rs] by simp
  next
    case False
    with Cons show ?thesis by simp
  qed
qed simp

lemma bestOf_attained: "bestOf score rs best = best \<or> (\<exists>r \<in> set rs. score r = bestOf score rs best)"
proof (induction rs arbitrary: best)
  case (Cons q rs)
  from Cons.IH [of "max (score q) best"] show ?case by (auto simp: max_def split: if_splits)
qed simp

text \<open>The indices, from \<open>k\<close> on, of the elements with the best score, in order.\<close>

lemma scanBest_eq:
  "scanBest score k rs best found =
     (if bestOf score rs best = best then found else []) @
     map fst (filter (\<lambda>(j, r). score r = bestOf score rs best) (enumerate k rs))"
proof (induction score k rs best found rule: scanBest.induct)
  case (2 score k r rs best found)
  consider "score r > best" | "score r = best" | "score r < best" by linarith
  then show ?case
  proof cases
    case 1
    with bestOf_ge [of "score r" score rs] 2 show ?thesis by (auto simp: max_def)
  next
    case 2
    with "2.IH" show ?thesis by (auto simp: max_def)
  next
    case 3
    with bestOf_ge [of best score rs] 2 show ?thesis by (auto simp: max_def)
  qed
qed simp

lemma scanBest_best:
  assumes "j \<in> set (scanBest score 0 rs best [])"
  shows "j < length rs" and "\<forall>r \<in> set rs. score r \<le> score (rs ! j)"
proof -
  from assms obtain r where "(j, r) \<in> set (enumerate 0 rs)" "score r = bestOf score rs best"
    by (auto simp: scanBest_eq split: if_splits)
  then have "j < length rs" "score (rs ! j) = bestOf score rs best"
    by (auto simp: in_set_enumerate_eq)
  then show "j < length rs" "\<forall>r \<in> set rs. score r \<le> score (rs ! j)"
    by (auto simp: bestOf_upper)
qed

lemma scanBest_all_best:
  assumes "j < length rs" "\<forall>r \<in> set rs. score r \<le> score (rs ! j)" "best < score (rs ! j)"
  shows "j \<in> set (scanBest score 0 rs best [])"
proof -
  have "score (rs ! j) \<le> bestOf score rs best"
    using assms(1) by (simp add: bestOf_upper)
  with assms bestOf_attained [of score rs best] have "score (rs ! j) = bestOf score rs best"
    by fastforce
  then have "(j, rs ! j) \<in> set (filter (\<lambda>(j, r). score r = bestOf score rs best) (enumerate 0 rs))"
    using assms(1) by (simp add: in_set_enumerate_eq)
  then show ?thesis unfolding scanBest_eq by force
qed

lemma scanBest_nonempty:
  assumes "rs \<noteq> []" "\<forall>r \<in> set rs. best < score r"
  shows "scanBest score 0 rs best [] \<noteq> []"
proof -
  from assms have "best < score (hd rs)" "hd rs \<in> set rs" by auto
  then have "bestOf score rs best \<noteq> best"
    using bestOf_upper [of "hd rs" rs score best] by linarith
  with bestOf_attained [of score rs best] obtain r where r: "r \<in> set rs" "score r = bestOf score rs best"
    by auto
  then obtain j where "j < length rs" "rs ! j = r" by (auto simp: in_set_conv_nth)
  with r assms(2) have "j \<in> set (scanBest score 0 rs best [])"
    by (intro scanBest_all_best) (auto simp: bestOf_upper)
  then show ?thesis by auto
qed

section \<open>No draw from an empty set\<close>

lemma pairScore_lower:
  assumes "0 \<le> w"
  shows "- 1000 - 520 * w \<le> smartShufflePairScore L a b w"
  using assms by (auto simp: smartShufflePairScore_def)

lemma score_lower: "bestStart < smartShuffleScore L entries cycle candidate"
proof -
  let ?f = "\<lambda>d. smartShufflePairScore L (itemAt entries candidate)
           (itemAt entries (cycle ! (length cycle - d))) (4 - int d)"
  have "(\<Sum>d \<leftarrow> [1..<Suc (min 3 (length cycle))]. - 3000)
      \<le> (\<Sum>d \<leftarrow> [1..<Suc (min 3 (length cycle))]. ?f d)"
  proof (rule sum_list_mono)
    fix d assume "d \<in> set [1..<Suc (min 3 (length cycle))]"
    then have "0 \<le> 4 - int d" "4 - int d \<le> 3" by auto
    then show "- 3000 \<le> ?f d"
      using pairScore_lower [of "4 - int d" L "itemAt entries candidate"
          "itemAt entries (cycle ! (length cycle - d))"] by simp
  qed
  moreover have "(\<Sum>d \<leftarrow> [1..<Suc (min 3 (length cycle))]. - 3000)
      = int (min 3 (length cycle)) * (- 3000)"
    by (simp add: sum_list_triv del: upt_Suc)
  moreover have "int (min 3 (length cycle)) * (- 3000) \<ge> - 9000" by auto
  ultimately show ?thesis unfolding smartShuffleScore_def bestStart_def by simp
qed

text \<open>
  The relation between the remaining positions and the cycle built from them: a permutation that
  extends the given start and whose every further element was a best choice at its turn.
\<close>

definition greedyFrom :: "golib \<Rightarrow> SessionEntry list \<Rightarrow> nat \<Rightarrow> int list \<Rightarrow> bool" where
  "greedyFrom L entries n c \<longleftrightarrow>
     (\<forall>i j. n \<le> i \<longrightarrow> i < j \<longrightarrow> j < length c \<longrightarrow>
        smartShuffleScore L entries (take i c) (c ! j)
        \<le> smartShuffleScore L entries (take i c) (c ! i))"

lemma greedyCycle_spec:
  "\<exists>c. greedyCycle L entries remaining cycle g = Some c \<and>
       take (length cycle) c = cycle \<and> mset c = mset cycle + mset remaining \<and>
       greedyFrom L entries (length cycle) c"
proof (induction L entries remaining cycle g rule: greedyCycle.induct)
  case (1 L entries remaining cycle g)
  show ?case
  proof (cases "remaining = []")
    case True
    then show ?thesis by (simp add: greedyCycle.simps greedyFrom_def)
  next
    case False
    let ?score = "smartShuffleScore L entries cycle"
    define best where "best = scanBest ?score 0 remaining bestStart []"
    have ne: "best \<noteq> []"
      unfolding best_def by (rule scanBest_nonempty) (use False score_lower in auto)
    obtain k g' where k: "rngIntn g (length best) = (k, g')" by (rule prod.exhaust)
    with ne rngIntn_less [of "length best" g] have "best ! k \<in> set best" by simp
    then have chosen: "best ! k < length remaining"
      "\<forall>r \<in> set remaining. ?score r \<le> ?score (remaining ! (best ! k))"
      unfolding best_def by (rule scanBest_best)+
    let ?x = "remaining ! (best ! k)"
    have rec: "greedyCycle L entries remaining cycle g =
        greedyCycle L entries (removeAt (best ! k) remaining) (cycle @ [?x]) g'"
      using False ne k chosen(1)
      by (subst greedyCycle.simps) (simp add: best_def [symmetric] Let_def)
    from "1.IH" [OF False best_def ne k [symmetric] refl refl chosen(1)] obtain c where c:
      "greedyCycle L entries (removeAt (best ! k) remaining) (cycle @ [?x]) g' = Some c"
      "take (length (cycle @ [?x])) c = cycle @ [?x]"
      "mset c = mset (cycle @ [?x]) + mset (removeAt (best ! k) remaining)"
      "greedyFrom L entries (length (cycle @ [?x])) c"
      by blast
    have split: "c = cycle @ ?x # drop (Suc (length cycle)) c"
      using c(2) by (metis append.assoc append_Cons append_Nil append_take_drop_id length_append_singleton)
    have ms: "mset c = mset cycle + mset remaining"
      using c(3) mset_removeAt [OF chosen(1)] by (metis add_mset_add_single mset.simps(2)
          mset_append union_assoc union_mset_add_mset_left union_mset_add_mset_right mset_single_iff)
    have "greedyFrom L entries (length cycle) c"
      unfolding greedyFrom_def
    proof (intro allI impI)
      fix i j assume ij: "length cycle \<le> i" "i < j" "j < length c"
      show "smartShuffleScore L entries (take i c) (c ! j)
        \<le> smartShuffleScore L entries (take i c) (c ! i)"
      proof (cases "i = length cycle")
        case True
        have "c ! j \<in> set remaining"
        proof -
          have "mset (drop (length cycle) c) = mset remaining"
            using ms split by (metis add_left_cancel append_eq_conv_conj append_take_drop_id mset_append)
          moreover have "c ! j \<in> set (drop (length cycle) c)"
            using ij True by (auto simp: in_set_conv_nth intro!: exI [of _ "j - length cycle"])
          ultimately show ?thesis by (metis set_mset_mset)
        qed
        moreover have "take i c = cycle" "c ! i = ?x"
          using True split by (metis append_eq_conv_conj, metis nth_append_length)
        ultimately show ?thesis using chosen(2) by simp
      next
        case False
        with ij c(4) show ?thesis by (simp add: greedyFrom_def)
      qed
    qed
    moreover have "take (length cycle) c = cycle" by (subst split) simp
    ultimately show ?thesis using rec c(1) ms by auto
  qed
qed

lemma greedyCycle_total: "greedyCycle L entries remaining cycle g \<noteq> None"
  using greedyCycle_spec [of L entries remaining cycle g] by auto

section \<open>Cycles are permutations\<close>

definition isCycle :: "nat \<Rightarrow> int list \<Rightarrow> bool" where
  "isCycle n c \<longleftrightarrow> mset c = mset (positions n)"

lemma length_positions [simp]: "length (positions n) = n"
  by (simp add: positions_def)

lemma set_positions: "set (positions n) = {i. 0 \<le> i \<and> i < int n}"
proof -
  have "i \<in> int ` {0..<n}" if "0 \<le> i" "i < int n" for i
    using that by (intro image_eqI [of _ _ "nat i"]) auto
  then show ?thesis by (auto simp: positions_def)
qed

lemma distinct_positions: "distinct (positions n)"
  by (simp add: positions_def distinct_map)

lemma isCycle_facts:
  assumes "isCycle n c"
  shows "length c = n" and "distinct c" and "set c = {i. 0 \<le> i \<and> i < int n}"
proof -
  show "length c = n" using assms by (metis isCycle_def length_positions mset_eq_length)
  show "distinct c"
    using assms distinct_positions by (metis isCycle_def mset_eq_imp_distinct_iff)
  show "set c = {i. 0 \<le> i \<and> i < int n}"
    using assms set_positions by (metis isCycle_def mset_eq_setD)
qed

lemma isCycle_iff:
  "isCycle n c \<longleftrightarrow> length c = n \<and> distinct c \<and> (\<forall>i \<in> set c. 0 \<le> i \<and> i < int n)"
proof
  assume "length c = n \<and> distinct c \<and> (\<forall>i \<in> set c. 0 \<le> i \<and> i < int n)"
  then have c: "length c = n" "distinct c" "set c \<subseteq> set (positions n)"
    by (auto simp: set_positions)
  moreover have "card (set c) = card (set (positions n))"
    using c distinct_positions [of n] by (simp add: distinct_card)
  ultimately have "set c = set (positions n)" by (metis card_subset_eq List.finite_set)
  with c distinct_positions show "isCycle n c"
    by (metis isCycle_def set_eq_iff_mset_eq_distinct)
qed (auto dest: isCycle_facts)

lemma isCycle_nth: "isCycle n c \<Longrightarrow> i < n \<Longrightarrow> 0 \<le> c ! i \<and> c ! i < int n"
  using isCycle_facts [of n c] nth_mem [of i c] by auto

lemma buildSmart_spec:
  shows "isCycle (length entries) (buildSmartShuffleCycle L entries g)"
    and "greedyFrom L entries 0 (buildSmartShuffleCycle L entries g)"
proof -
  obtain rem g' where r: "rngShuffle (positions (length entries)) g = (rem, g')"
    by (rule prod.exhaust)
  then have "mset rem = mset (positions (length entries))" by (metis fst_conv mset_rngShuffle)
  moreover obtain c where "greedyCycle L entries rem [] g' = Some c" "mset c = mset rem"
    "greedyFrom L entries 0 c"
    using greedyCycle_spec [of L entries rem "[]" g'] by auto
  ultimately show "isCycle (length entries) (buildSmartShuffleCycle L entries g)"
    and "greedyFrom L entries 0 (buildSmartShuffleCycle L entries g)"
    using r by (auto simp: buildSmartShuffleCycle_def isCycle_def positions_def greedyFrom_def)
qed

lemma mset_moveToEnd: "i < length xs \<Longrightarrow> mset (moveToEnd i xs) = mset xs"
  using mset_removeAt [of i xs] by (simp add: moveToEnd_def removeAt_def)

lemma moveToEnd_hd: "0 < i \<Longrightarrow> xs \<noteq> [] \<Longrightarrow> moveToEnd i xs ! 0 = xs ! 0"
  by (cases i; cases xs) (auto simp: moveToEnd_def)

lemma bestTrial_in: "bestTrial score best ts \<in> insert best (set ts)"
  by (induction ts arbitrary: best) (auto split: if_splits)

lemma bestTrial_ge: "t \<in> insert best (set ts) \<Longrightarrow> score t \<le> score (bestTrial score best ts)"
proof (induction ts arbitrary: best t)
  case (Cons u ts)
  have "score best \<le> score (bestTrial score best ts)" "score u \<le> score (bestTrial score u ts)"
    by (simp_all add: Cons.IH)
  then have "score best \<le> score (bestTrial score best (u # ts))"
    "score u \<le> score (bestTrial score best (u # ts))" by auto
  moreover have "score t \<le> score (bestTrial score best (u # ts))" if "t \<in> set ts"
    using that by (simp add: Cons.IH)
  ultimately show ?case using Cons.prems by auto
qed simp

lemma optimize_in:
  "optimizeAnchoredSmartShuffleCycle L entries c
     \<in> insert c ((\<lambda>i. moveToEnd i c) ` {1..<length c - 1})"
  using bestTrial_in [of "smartShuffleWrapScore L entries" c "map (\<lambda>i. moveToEnd i c) [1..<length c - 1]"]
  by (auto simp: optimizeAnchoredSmartShuffleCycle_def)

lemma optimize_perm:
  "mset (optimizeAnchoredSmartShuffleCycle L entries c) = mset c"
  using optimize_in [of L entries c] by (auto simp: mset_moveToEnd)

lemma optimize_hd:
  "c \<noteq> [] \<Longrightarrow> optimizeAnchoredSmartShuffleCycle L entries c ! 0 = c ! 0"
  using optimize_in [of L entries c] by (auto simp: moveToEnd_hd)

lemma optimize_ge:
  "smartShuffleWrapScore L entries c
     \<le> smartShuffleWrapScore L entries (optimizeAnchoredSmartShuffleCycle L entries c)"
  using bestTrial_ge [of c c] by (simp add: optimizeAnchoredSmartShuffleCycle_def)

lemma optimize_trial_ge:
  assumes "1 \<le> i" "i < length c - 1"
  shows "smartShuffleWrapScore L entries (moveToEnd i c)
     \<le> smartShuffleWrapScore L entries (optimizeAnchoredSmartShuffleCycle L entries c)"
  using assms
  by (auto simp: optimizeAnchoredSmartShuffleCycle_def intro!: bestTrial_ge)

lemma positions_without:
  assumes "0 \<le> a" "a < int n"
  shows "add_mset a (mset (filter (\<lambda>i. i \<noteq> a) (positions n))) = mset (positions n)"
proof -
  have "a \<in> set (positions n)" using assms by (simp add: set_positions)
  then have "distinct (a # filter (\<lambda>i. i \<noteq> a) (positions n))"
    and "set (a # filter (\<lambda>i. i \<noteq> a) (positions n)) = set (positions n)"
    using distinct_positions [of n] by auto
  then have "mset (a # filter (\<lambda>i. i \<noteq> a) (positions n)) = mset (positions n)"
    using distinct_positions [of n] by (metis set_eq_iff_mset_eq_distinct)
  then show ?thesis by simp
qed

text \<open>The anchored cycle before its improvement.\<close>

lemma anchored_greedy:
  assumes "0 \<le> a" "a < int (length entries)"
    and "rngShuffle (filter (\<lambda>i. i \<noteq> a) (positions (length entries))) g = (rem, g')"
  shows "isCycle (length entries) (the (greedyCycle L entries rem [a] g'))"
    and "the (greedyCycle L entries rem [a] g') ! 0 = a"
    and "greedyFrom L entries 1 (the (greedyCycle L entries rem [a] g'))"
proof -
  have rem: "mset rem = mset (filter (\<lambda>i. i \<noteq> a) (positions (length entries)))"
    using assms(3) by (metis fst_conv mset_rngShuffle)
  obtain c where c: "greedyCycle L entries rem [a] g' = Some c" "take 1 c = [a]"
    "mset c = mset [a] + mset rem" "greedyFrom L entries 1 c"
    using greedyCycle_spec [of L entries rem "[a]" g'] by auto
  show "isCycle (length entries) (the (greedyCycle L entries rem [a] g'))"
    using c(1,3) rem positions_without [OF assms(1,2)] by (simp add: isCycle_def)
  show "the (greedyCycle L entries rem [a] g') ! 0 = a"
    using c(1,2) by (cases c) auto
  show "greedyFrom L entries 1 (the (greedyCycle L entries rem [a] g'))"
    using c(1,4) by simp
qed

lemma buildAnchored_isCycle:
  "isCycle (length entries) (buildAnchoredSmartShuffleCycle L entries anchor g)"
proof (cases "anchor < 0 \<or> int (length entries) \<le> anchor")
  case True
  then show ?thesis by (simp add: buildAnchoredSmartShuffleCycle_def buildSmart_spec)
next
  case False
  obtain rem g' where r:
    "rngShuffle (filter (\<lambda>i. i \<noteq> anchor) (positions (length entries))) g = (rem, g')"
    by (rule prod.exhaust)
  from False r show ?thesis
    using anchored_greedy(1) [of anchor entries g rem g' L]
    by (simp add: buildAnchoredSmartShuffleCycle_def isCycle_def optimize_perm)
qed

lemma buildAnchored_hd:
  assumes "0 \<le> anchor" "anchor < int (length entries)"
  shows "buildAnchoredSmartShuffleCycle L entries anchor g ! 0 = anchor"
proof -
  obtain rem g' where r:
    "rngShuffle (filter (\<lambda>i. i \<noteq> anchor) (positions (length entries))) g = (rem, g')"
    by (rule prod.exhaust)
  let ?c = "the (greedyCycle L entries rem [anchor] g')"
  have "?c \<noteq> []"
    using isCycle_facts(1) [OF anchored_greedy(1) [OF assms r, of L]] assms by auto
  with assms r show ?thesis
    using anchored_greedy(2) [OF assms r, of L]
    by (simp add: buildAnchoredSmartShuffleCycle_def optimize_hd)
qed

section \<open>A stored bag is used exactly when it is a cycle\<close>

lemma sanitizeScan_iff:
  "sanitizeScan n seen bag \<longleftrightarrow>
     distinct bag \<and> set bag \<inter> set seen = {} \<and> (\<forall>i \<in> set bag. 0 \<le> i \<and> i < n)"
  by (induction bag arbitrary: seen) auto

lemma sanitize_iff:
  "sanitizeShuffleBag bag (int n) = (if isCycle n bag then bag else [])"
  by (auto simp: sanitizeShuffleBag_def sanitizeScan_iff isCycle_iff)

lemma sanitize_idem [simp]:
  "sanitizeShuffleBag (sanitizeShuffleBag bag n) n = sanitizeShuffleBag bag n"
  by (simp add: sanitizeShuffleBag_def)

end
