(* ===== verification/ContextNav.thy ===== *)
theory ContextNav
  imports SmartShuffle
begin

text \<open>
  Navigation in a snapshot (\<open>src/internal/playback/session.go\<close>): which context position is current,
  which comes next and which came before, under shuffle and the three repeat modes; what is upcoming;
  the iterator behind the next-action plan; and the plan of the previous action.

  The abstract specification is a walk in one list, the play order: the context positions in order, or
  the effective shuffle cycle.  The locale \<open>play_order\<close> states the contract of such a list and proves
  the laws of the walk; its interpretation on \<open>playOrder\<close> carries them to the code's functions.
\<close>

section \<open>Reading the context\<close>

definition contextAllEntries :: "SessionSnapshot \<Rightarrow> SessionEntry list" where
  "contextAllEntries s =
     (case snContextQueue s of None \<Rightarrow> []
      | Some q \<Rightarrow> if cqAllEntries q \<noteq> [] then cqAllEntries q else cqEntries q)"

definition contextCount :: "SessionSnapshot \<Rightarrow> int" where
  "contextCount s = int (length (contextAllEntries s))"

text \<open>\<open>contextEntryAt\<close>: the callers pass positions in range only.\<close>

definition contextEntryAt :: "SessionSnapshot \<Rightarrow> int \<Rightarrow> SessionEntry" where
  "contextEntryAt s i = contextAllEntries s ! nat i"

definition currentContextIndex :: "SessionSnapshot \<Rightarrow> int" where
  "currentContextIndex s = (case snContextQueue s of None \<Rightarrow> -1 | Some q \<Rightarrow> cqCurrentIndex q)"

definition resumeContextIndex :: "SessionSnapshot \<Rightarrow> int" where
  "resumeContextIndex s = (case snContextQueue s of None \<Rightarrow> -1 | Some q \<Rightarrow> cqResumeIndex q)"

definition shuffleBag :: "SessionSnapshot \<Rightarrow> int list" where
  "shuffleBag s = (case snContextQueue s of None \<Rightarrow> [] | Some q \<Rightarrow> cqShuffleBag q)"

definition isSourceBackedContext :: "ContextQueue option \<Rightarrow> bool" where
  "isSourceBackedContext q = (case q of None \<Rightarrow> False | Some q \<Rightarrow> cqSource q \<noteq> None)"

definition isValidContextIndex :: "SessionSnapshot \<Rightarrow> int \<Rightarrow> bool" where
  "isValidContextIndex s i \<longleftrightarrow> snContextQueue s \<noteq> None \<and> 0 \<le> i \<and> i < contextCount s"

definition entryMatchesContextIndex :: "SessionSnapshot \<Rightarrow> SessionEntry \<Rightarrow> int \<Rightarrow> bool" where
  "entryMatchesContextIndex s e i =
     (if enOrigin e \<noteq> OriginContext \<or> snContextQueue s = None then False
      else if i < 0 \<or> contextCount s \<le> i then False
      else enEntryID (contextEntryAt s i) = enEntryID e)"

definition currentMatchesContext :: "SessionSnapshot \<Rightarrow> bool" where
  "currentMatchesContext s =
     (case snCurrentEntry s of None \<Rightarrow> False
      | Some e \<Rightarrow> if snContextQueue s = None then False
          else if enOrigin e \<noteq> OriginContext then False
          else entryMatchesContextIndex s e (currentContextIndex s))"

definition indexOfInt :: "int list \<Rightarrow> int \<Rightarrow> int" where
  "indexOfInt values needle = indexWhere (\<lambda>v. v = needle) values"

definition shuffleAnchorIndex :: "SessionSnapshot \<Rightarrow> int" where
  "shuffleAnchorIndex s =
     (if isValidContextIndex s (currentContextIndex s) then currentContextIndex s
      else if isValidContextIndex s (resumeContextIndex s) then resumeContextIndex s
      else -1)"

definition effectiveShuffleCycle :: "golib \<Rightarrow> SessionSnapshot \<Rightarrow> int list" where
  "effectiveShuffleCycle L s =
     (let cycle = sanitizeShuffleBag (shuffleBag s) (contextCount s) in
      if cycle \<noteq> [] then cycle
      else case snContextQueue s of None \<Rightarrow> []
        | Some q \<Rightarrow> buildAnchoredSmartShuffleCycle L (contextAllEntries s) (shuffleAnchorIndex s)
            (newRng L (if cqShuffleSeed q = 0 then 1 else cqShuffleSeed q)))"

section \<open>Steps from a position\<close>

definition defaultFirstContextIndex :: "golib \<Rightarrow> SessionSnapshot \<Rightarrow> int" where
  "defaultFirstContextIndex L s =
     (if snContextQueue s = None \<or> contextAllEntries s = [] then -1
      else if \<not> snShuffle s then 0
      else let cycle = effectiveShuffleCycle L s in if cycle = [] then -1 else cycle ! 0)"

definition nextContextIndexFromAnchor :: "golib \<Rightarrow> SessionSnapshot \<Rightarrow> int \<Rightarrow> bool \<Rightarrow> int" where
  "nextContextIndexFromAnchor L s anchor ignoreRepeatOne =
     (if \<not> isValidContextIndex s anchor then defaultFirstContextIndex L s
      else if \<not> snShuffle s then
        (if \<not> ignoreRepeatOne \<and> snRepeatMode s = RepeatOne then anchor
         else if anchor + 1 < contextCount s then anchor + 1
         else if snRepeatMode s = RepeatAll then 0
         else -1)
      else let cycle = effectiveShuffleCycle L s in
        if cycle = [] then -1
        else if \<not> ignoreRepeatOne \<and> snRepeatMode s = RepeatOne then anchor
        else let position = indexOfInt cycle anchor in
          if position < 0 then cycle ! 0
          else if position + 1 < int (length cycle) then cycle ! nat (position + 1)
          else if snRepeatMode s = RepeatAll then cycle ! 0
          else -1)"

definition previousContextIndexFromAnchor :: "golib \<Rightarrow> SessionSnapshot \<Rightarrow> int \<Rightarrow> int" where
  "previousContextIndexFromAnchor L s anchor =
     (if \<not> isValidContextIndex s anchor then -1
      else if \<not> snShuffle s then
        (if anchor - 1 \<ge> 0 then anchor - 1
         else if snRepeatMode s = RepeatAll then contextCount s - 1
         else -1)
      else let cycle = effectiveShuffleCycle L s in
        if cycle = [] then -1
        else let position = indexOfInt cycle anchor in
          if position < 0 then -1
          else if position - 1 \<ge> 0 then cycle ! nat (position - 1)
          else if snRepeatMode s = RepeatAll then cycle ! (length cycle - 1)
          else -1)"

definition detachedCurrentContextIndex :: "SessionSnapshot \<Rightarrow> int" where
  "detachedCurrentContextIndex s =
     (case (snCurrentEntry s, snContextQueue s) of
        (Some e, Some _) \<Rightarrow>
          if enOrigin e \<noteq> OriginContext \<or> currentMatchesContext s then -1 else enContextIndex e
      | _ \<Rightarrow> -1)"

definition nextDetachedContextResumeIndex :: "golib \<Rightarrow> SessionSnapshot \<Rightarrow> int \<Rightarrow> int" where
  "nextDetachedContextResumeIndex L s detached =
     (if contextAllEntries s = [] then -1
      else if snShuffle s then
        (if isValidContextIndex s (resumeContextIndex s) then resumeContextIndex s
         else defaultFirstContextIndex L s)
      else if detached < 0 then defaultFirstContextIndex L s
      else if detached \<ge> contextCount s then (if snRepeatMode s = RepeatAll then 0 else -1)
      else detached)"

definition previousDetachedContextIndex :: "golib \<Rightarrow> SessionSnapshot \<Rightarrow> int \<Rightarrow> int" where
  "previousDetachedContextIndex L s detached =
     (if contextAllEntries s = [] then -1
      else if snShuffle s then
        (if isValidContextIndex s (currentContextIndex s)
         then previousContextIndexFromAnchor L s (currentContextIndex s) else -1)
      else if detached \<le> 0 then (if snRepeatMode s = RepeatAll then contextCount s - 1 else -1)
      else if detached > contextCount s then contextCount s - 1
      else detached - 1)"

definition normalizeResumeContextIndex :: "golib \<Rightarrow> SessionSnapshot \<Rightarrow> int" where
  "normalizeResumeContextIndex L s =
     (if snContextQueue s = None \<or> contextAllEntries s = [] then -1
      else if currentMatchesContext s then nextContextIndexFromAnchor L s (currentContextIndex s) False
      else if detachedCurrentContextIndex s \<ge> 0
        then nextDetachedContextResumeIndex L s (detachedCurrentContextIndex s)
      else if (case snCurrentEntry s of None \<Rightarrow> False | Some e \<Rightarrow> enOrigin e \<noteq> OriginContext)
              \<and> isValidContextIndex s (currentContextIndex s)
        then nextContextIndexFromAnchor L s (currentContextIndex s) False
      else if isValidContextIndex s (resumeContextIndex s) then resumeContextIndex s
      else if snCurrentEntry s = None \<and> isValidContextIndex s (currentContextIndex s)
        then currentContextIndex s
      else defaultFirstContextIndex L s)"

definition firstUpcomingContextIndex :: "golib \<Rightarrow> SessionSnapshot \<Rightarrow> int" where
  "firstUpcomingContextIndex L s =
     (if contextAllEntries s = [] then -1
      else if currentMatchesContext s \<and> currentContextIndex s \<ge> 0 then
        (if currentContextIndex s + 1 < contextCount s then currentContextIndex s + 1
         else contextCount s)
      else if detachedCurrentContextIndex s \<ge> 0 then
        (let i = nextDetachedContextResumeIndex L s (detachedCurrentContextIndex s)
         in if i < 0 then contextCount s else i)
      else if 0 \<le> resumeContextIndex s \<and> resumeContextIndex s < contextCount s
        then resumeContextIndex s
      else 0)"

section \<open>What is upcoming\<close>

definition firstUpcomingEntry :: "golib \<Rightarrow> SessionSnapshot \<Rightarrow> SessionEntry option" where
  "firstUpcomingEntry L s =
     (if snUserQueue s \<noteq> [] then Some (hd (snUserQueue s))
      else let allEntries = contextAllEntries s in
        if allEntries = [] then None
        else if snShuffle s then
          (let cycle = effectiveShuffleCycle L s;
               position = indexOfInt cycle (currentContextIndex s);
               resumePosition = indexOfInt cycle (resumeContextIndex s) in
           if cycle = [] then None
           else if currentMatchesContext s \<and> currentContextIndex s \<ge> 0 \<and> position \<ge> 0 then
             (if position + 1 < int (length cycle)
              then Some (allEntries ! nat (cycle ! nat (position + 1)))
              else if snRepeatMode s = RepeatAll then Some (allEntries ! nat (cycle ! 0))
              else None)
           else if 0 \<le> resumeContextIndex s \<and> resumeContextIndex s < contextCount s
                   \<and> resumePosition \<ge> 0
             then Some (allEntries ! nat (cycle ! nat resumePosition))
           else Some (allEntries ! nat (cycle ! 0)))
        else let start = firstUpcomingContextIndex L s in
          if 0 \<le> start \<and> start < contextCount s then Some (allEntries ! nat start)
          else if snRepeatMode s \<noteq> RepeatAll then None
          else if currentMatchesContext s \<and> currentContextIndex s > 0 then Some (allEntries ! 0)
          else if currentMatchesContext s \<and> length allEntries = 1 then Some (allEntries ! 0)
          else if \<not> currentMatchesContext s \<and> start > 0 then Some (allEntries ! 0)
          else None)"

definition upcomingEntryCount :: "golib \<Rightarrow> SessionSnapshot \<Rightarrow> int" where
  "upcomingEntryCount L s =
     (let count = int (length (snUserQueue s)); allEntries = contextAllEntries s in
      if allEntries = [] then count
      else if snShuffle s then
        (let cycle = effectiveShuffleCycle L s;
             position = indexOfInt cycle (currentContextIndex s);
             resumePosition = indexOfInt cycle (resumeContextIndex s) in
         if cycle = [] then count
         else if currentMatchesContext s \<and> currentContextIndex s \<ge> 0 \<and> position \<ge> 0 then
           count + (int (length cycle) - position - 1)
             + (if snRepeatMode s = RepeatAll
                then position + (if length cycle = 1 then 1 else 0) else 0)
         else if 0 \<le> resumeContextIndex s \<and> resumeContextIndex s < contextCount s
                 \<and> resumePosition \<ge> 0 then
           count + (int (length cycle) - resumePosition)
             + (if snRepeatMode s = RepeatAll then resumePosition else 0)
         else count + int (length cycle))
      else let start = firstUpcomingContextIndex L s in
        count + (if 0 \<le> start \<and> start < contextCount s then contextCount s - start else 0)
          + (if snRepeatMode s = RepeatAll then
               (if currentMatchesContext s \<and> currentContextIndex s \<ge> 0
                then currentContextIndex s + (if length allEntries = 1 then 1 else 0)
                else if \<not> currentMatchesContext s \<and> start > 0 then start else 0)
             else 0))"

definition nextActionCount :: "golib \<Rightarrow> SessionSnapshot \<Rightarrow> int" where
  "nextActionCount L s =
     upcomingEntryCount L s
     + (if snRepeatMode s = RepeatOne \<and> snCurrentEntry s \<noteq> None then 1 else 0)"

definition hasNextAction :: "golib \<Rightarrow> SessionSnapshot \<Rightarrow> bool" where
  "hasNextAction L s \<longleftrightarrow> nextActionCount L s > 0"

definition queueLength :: "golib \<Rightarrow> SessionSnapshot \<Rightarrow> int" where
  "queueLength L s = upcomingEntryCount L s + (if snCurrentEntry s \<noteq> None then 1 else 0)"

text \<open>
  \<open>buildUpcomingEntries\<close>; the loops \<open>for index := a; index < b\<close> over the context or the cycle are
  \<open>take b (drop a \<dots>)\<close> of the list they read.
\<close>

definition cycleEntries :: "SessionSnapshot \<Rightarrow> int list \<Rightarrow> SessionEntry list" where
  "cycleEntries s cycle = map (\<lambda>i. contextAllEntries s ! nat i) cycle"

definition buildUpcomingEntries :: "golib \<Rightarrow> SessionSnapshot \<Rightarrow> SessionEntry list" where
  "buildUpcomingEntries L s =
     (let out = snUserQueue s; allEntries = contextAllEntries s;
          inContext = currentMatchesContext s; current = currentContextIndex s;
          resume = resumeContextIndex s; repeatAll = (snRepeatMode s = RepeatAll) in
      if snContextQueue s = None \<or> allEntries = [] then out
      else if snShuffle s then
        (let cycle = effectiveShuffleCycle L s;
             position = indexOfInt cycle current; resumePosition = indexOfInt cycle resume in
         if inContext \<and> current \<ge> 0 \<and> position \<ge> 0 then
           out @ cycleEntries s (drop (nat (position + 1)) cycle)
             @ (if repeatAll
                then cycleEntries s (take (nat position) cycle)
                     @ (if length cycle = 1 then cycleEntries s [cycle ! 0] else [])
                else [])
         else if 0 \<le> resume \<and> resume < contextCount s \<and> resumePosition \<ge> 0 then
           out @ cycleEntries s (drop (nat resumePosition) cycle)
             @ (if repeatAll then cycleEntries s (take (nat resumePosition) cycle) else [])
         else out @ cycleEntries s cycle)
      else
        let start =
          (if inContext \<and> current \<ge> 0 then current + 1
           else if detachedCurrentContextIndex s \<ge> 0 then
             (let i = nextDetachedContextResumeIndex L s (detachedCurrentContextIndex s)
              in if i < 0 then contextCount s else i)
           else if 0 \<le> resume \<and> resume < contextCount s then resume
           else 0)
        in out @ drop (nat start) allEntries
          @ (if repeatAll \<and> inContext \<and> current \<ge> 0 then
               take (nat current) allEntries
               @ (if length allEntries = 1 then [allEntries ! 0] else [])
             else if repeatAll \<and> \<not> inContext \<and> start > 0 then take (nat start) allEntries
             else []))"

section \<open>The previous action\<close>

text \<open>
  The loops of \<open>buildPreviousActionPlan\<close>: \<open>appendIndex\<close> refuses positions out of range and
  positions seen before; \<open>seen\<close> is both the list built and the set of positions seen.
\<close>

function previousChain :: "golib \<Rightarrow> SessionSnapshot \<Rightarrow> int list \<Rightarrow> int \<Rightarrow> int list" where
  "previousChain L s seen i =
     (if i < 0 \<or> contextCount s \<le> i then seen
      else if i \<in> set seen then seen
      else previousChain L s (seen @ [i]) (previousContextIndexFromAnchor L s i))"
  by pat_completeness auto
termination
proof (relation "measure (\<lambda>(L, s, seen, i). card ({0..<contextCount s} - set seen))", goal_cases)
  case (2 L s seen i)
  then have "i \<in> {0..<contextCount s} - set seen" by simp
  then have "card ({0..<contextCount s} - set seen - {i}) < card ({0..<contextCount s} - set seen)"
    by (intro card_Diff1_less) simp_all
  moreover have "{0..<contextCount s} - set (seen @ [i]) = {0..<contextCount s} - set seen - {i}"
    by auto
  ultimately show ?case by (simp only: in_measure prod.case)
qed simp

declare previousChain.simps [simp del]

definition plannedFromContext :: "SessionSnapshot \<Rightarrow> int \<Rightarrow> plannedCandidate" where
  "plannedFromContext s i =
     (let e = contextEntryAt s i in
      \<lparr>plEntryID = enEntryID e, plOrigin = OriginContext, plQueueIndex = -1,
       plContextIndex = enContextIndex e, plTarget = itTarget (enItem e),
       plRecordingID = itRecordingID (enItem e)\<rparr>)"

definition previousActionIndexes :: "golib \<Rightarrow> SessionSnapshot \<Rightarrow> int list" where
  "previousActionIndexes L s =
     (case snCurrentEntry s of None \<Rightarrow> []
      | Some e \<Rightarrow>
          if contextAllEntries s = [] then []
          else if enOrigin e = OriginQueued then previousChain L s [] (currentContextIndex s)
          else if currentMatchesContext s
            then previousChain L s [] (previousContextIndexFromAnchor L s (currentContextIndex s))
          else let detached = detachedCurrentContextIndex s in
            if detached < 0 then []
            else previousChain L s [] (previousDetachedContextIndex L s detached))"

definition buildPreviousActionPlan :: "golib \<Rightarrow> SessionSnapshot \<Rightarrow> plannedCandidate list" where
  "buildPreviousActionPlan L s = map (plannedFromContext s) (previousActionIndexes L s)"

section \<open>The play order and its laws\<close>

definition playOrder :: "golib \<Rightarrow> SessionSnapshot \<Rightarrow> int list" where
  "playOrder L s =
     (if snShuffle s then effectiveShuffleCycle L s else positions (length (contextAllEntries s)))"

text \<open>One step forward and back in a play order, with or without wrapping around.\<close>

definition nextIn :: "int list \<Rightarrow> bool \<Rightarrow> int \<Rightarrow> int" where
  "nextIn ord wrap i =
     (let p = indexOfInt ord i in
      if p + 1 < int (length ord) then ord ! nat (p + 1) else if wrap then ord ! 0 else -1)"

definition prevIn :: "int list \<Rightarrow> bool \<Rightarrow> int \<Rightarrow> int" where
  "prevIn ord wrap i =
     (let p = indexOfInt ord i in
      if p - 1 \<ge> 0 then ord ! nat (p - 1) else if wrap then ord ! (length ord - 1) else -1)"

lemma indexOfInt_nth: "distinct xs \<Longrightarrow> k < length xs \<Longrightarrow> indexOfInt xs (xs ! k) = int k"
proof -
  assume d: "distinct xs" "k < length xs"
  let ?p = "indexWhere (\<lambda>v. v = xs ! k) xs"
  have "\<not> ?p < 0" using d(2) by (auto simp: indexWhere_neg)
  then have "xs ! nat ?p = xs ! k" "nat ?p < length xs"
    using indexWhere_nth [of "\<lambda>v. v = xs ! k" xs] indexWhere_bounds [of "\<lambda>v. v = xs ! k" xs]
    by auto
  with d have "nat ?p = k" by (simp add: nth_eq_iff_index_eq)
  with \<open>\<not> ?p < 0\<close> show ?thesis by (auto simp: indexOfInt_def)
qed

locale play_order =
  fixes ord :: "int list" and n :: nat
  assumes order_cycle: "isCycle n ord"
begin

lemma order_length: "length ord = n"
  using order_cycle by (rule isCycle_facts)

lemma position_of:
  assumes "0 \<le> i" "i < int n"
  obtains k where "k < n" "ord ! k = i" "indexOfInt ord i = int k"
proof -
  have "i \<in> set ord" using assms isCycle_facts(3) [OF order_cycle] by auto
  then obtain k where k: "k < length ord" "ord ! k = i" by (auto simp: in_set_conv_nth)
  then have "indexOfInt ord i = int k"
    using indexOfInt_nth [OF isCycle_facts(2) [OF order_cycle] k(1)] by simp
  with k show thesis using that order_length by simp
qed

lemma position_nth: "k < n \<Longrightarrow> indexOfInt ord (ord ! k) = int k"
  using indexOfInt_nth isCycle_facts(2) [OF order_cycle] order_length by metis

lemma order_range: "k < n \<Longrightarrow> 0 \<le> ord ! k \<and> ord ! k < int n"
  using order_cycle by (rule isCycle_nth)

lemma next_range:
  assumes "0 \<le> i" "i < int n"
  shows "nextIn ord wrap i = -1 \<or> 0 \<le> nextIn ord wrap i \<and> nextIn ord wrap i < int n"
proof -
  obtain k where "k < n" "ord ! k = i" "indexOfInt ord i = int k" by (rule position_of [OF assms])
  then show ?thesis
    using order_range [of "Suc k"] order_range [of 0] order_length
    by (auto simp: nextIn_def Let_def nat_add_distrib)
qed

lemma prev_range:
  assumes "0 \<le> i" "i < int n"
  shows "prevIn ord wrap i = -1 \<or> 0 \<le> prevIn ord wrap i \<and> prevIn ord wrap i < int n"
proof -
  obtain k where "k < n" "ord ! k = i" "indexOfInt ord i = int k" by (rule position_of [OF assms])
  then show ?thesis
    using order_range [of "k - 1"] order_range [of "n - 1"] order_length
    by (auto simp: prevIn_def Let_def nat_diff_distrib)
qed

text \<open>Going back from the next position returns to where the walk was, and the other way round.\<close>

lemma prev_next:
  assumes "0 \<le> i" "i < int n" and "0 \<le> nextIn ord wrap i"
  shows "prevIn ord wrap (nextIn ord wrap i) = i"
proof -
  obtain k where k: "k < n" "ord ! k = i" "indexOfInt ord i = int k" by (rule position_of [OF assms(1,2)])
  show ?thesis
  proof (cases "Suc k < n")
    case True
    then have "nextIn ord wrap i = ord ! Suc k"
      using k order_length by (simp add: nextIn_def nat_add_distrib)
    with True k show ?thesis by (simp add: prevIn_def position_nth Let_def)
  next
    case False
    with k have "k = n - 1" by simp
    moreover have "nextIn ord wrap i = ord ! 0" "wrap"
      using False k assms(3) order_length by (auto simp: nextIn_def split: if_splits)
    ultimately show ?thesis using k position_nth [of 0] order_length by (simp add: prevIn_def)
  qed
qed

lemma next_prev:
  assumes "0 \<le> i" "i < int n" and "0 \<le> prevIn ord wrap i"
  shows "nextIn ord wrap (prevIn ord wrap i) = i"
proof -
  obtain k where k: "k < n" "ord ! k = i" "indexOfInt ord i = int k" by (rule position_of [OF assms(1,2)])
  show ?thesis
  proof (cases k)
    case (Suc j)
    then have "prevIn ord wrap i = ord ! j" using k by (simp add: prevIn_def nat_diff_distrib)
    moreover have "j < n" using Suc k by simp
    ultimately show ?thesis
      using k Suc position_nth [of j] order_length by (simp add: nextIn_def nat_add_distrib)
  next
    case 0
    then have "prevIn ord wrap i = ord ! (n - 1)" "wrap"
      using k assms(3) order_length by (auto simp: prevIn_def split: if_splits)
    then show ?thesis
      using 0 k position_nth [of "n - 1"] order_length by (simp add: nextIn_def)
  qed
qed

end

lemma positions_isCycle: "isCycle n (positions n)"
  by (simp add: isCycle_def)

lemma effectiveShuffleCycle_isCycle:
  "isCycle (length (contextAllEntries s)) (effectiveShuffleCycle L s)"
proof (cases "isCycle (length (contextAllEntries s)) (shuffleBag s) \<and> shuffleBag s \<noteq> []")
  case True
  then show ?thesis by (simp add: effectiveShuffleCycle_def contextCount_def sanitize_iff Let_def)
next
  case False
  then have "sanitizeShuffleBag (shuffleBag s) (contextCount s) = []"
    by (auto simp: contextCount_def sanitize_iff)
  note e = this
  show ?thesis
  proof (cases "snContextQueue s")
    case None
    with e show ?thesis
      by (simp add: effectiveShuffleCycle_def contextAllEntries_def isCycle_def positions_def)
  next
    case (Some q)
    with e show ?thesis by (simp add: effectiveShuffleCycle_def buildAnchored_isCycle)
  qed
qed

lemma playOrder_isCycle: "isCycle (length (contextAllEntries s)) (playOrder L s)"
  by (simp add: playOrder_def positions_isCycle effectiveShuffleCycle_isCycle)

interpretation order: play_order "playOrder L s" "length (contextAllEntries s)" for L s
  by unfold_locales (rule playOrder_isCycle)

lemma effectiveShuffleCycle_Nil:
  "effectiveShuffleCycle L s = [] \<longleftrightarrow> contextAllEntries s = []"
  using isCycle_facts(1) [OF effectiveShuffleCycle_isCycle [of s L]] by auto

lemma indexOf_positions: "0 \<le> i \<Longrightarrow> i < int n \<Longrightarrow> indexOfInt (positions n) i = i"
  using indexOfInt_nth [OF distinct_positions, of "nat i" n] by (simp add: positions_def)

lemma nth_positions: "0 \<le> i \<Longrightarrow> i < int n \<Longrightarrow> positions n ! nat i = i"
  by (simp add: positions_def)

lemma nth_positions_nat [simp]: "k < n \<Longrightarrow> positions n ! k = int k"
  by (simp add: positions_def)

lemma valid_iff:
  "isValidContextIndex s i \<longleftrightarrow> 0 \<le> i \<and> i < int (length (contextAllEntries s))"
  by (auto simp: isValidContextIndex_def contextCount_def contextAllEntries_def split: option.splits)

lemma validD:
  assumes "isValidContextIndex s i"
  shows "0 \<le> i" "i < int (length (contextAllEntries s))" "contextAllEntries s \<noteq> []"
    "snContextQueue s \<noteq> None"
  using assms unfolding valid_iff
  by (auto simp: contextAllEntries_def split: option.splits if_splits)

text \<open>The code's steps are the steps in the play order.\<close>

lemma next_refines:
  assumes "isValidContextIndex s i"
  shows "nextContextIndexFromAnchor L s i True
     = nextIn (playOrder L s) (snRepeatMode s = RepeatAll) i"
proof (cases "snShuffle s")
  case True
  have "\<not> indexOfInt (effectiveShuffleCycle L s) i < 0"
    using order.position_of [of i s L] validD [OF assms] True
    by (metis of_nat_less_0_iff playOrder_def)
  with True assms validD [OF assms] show ?thesis
    by (auto simp: nextContextIndexFromAnchor_def nextIn_def playOrder_def Let_def
        effectiveShuffleCycle_Nil)
next
  case False
  with validD [OF assms] assms show ?thesis
    by (auto simp: nextContextIndexFromAnchor_def nextIn_def playOrder_def Let_def
        indexOf_positions nth_positions contextCount_def of_nat_diff)
qed

lemma prev_refines:
  assumes "isValidContextIndex s i"
  shows "previousContextIndexFromAnchor L s i
     = prevIn (playOrder L s) (snRepeatMode s = RepeatAll) i"
proof (cases "snShuffle s")
  case True
  have "\<not> indexOfInt (effectiveShuffleCycle L s) i < 0"
    using order.position_of [of i s L] validD [OF assms] True
    by (metis of_nat_less_0_iff playOrder_def)
  with True assms validD [OF assms] show ?thesis
    by (auto simp: previousContextIndexFromAnchor_def prevIn_def playOrder_def Let_def
        effectiveShuffleCycle_Nil)
next
  case False
  with validD [OF assms] assms show ?thesis
    by (auto simp: previousContextIndexFromAnchor_def prevIn_def playOrder_def Let_def
        indexOf_positions nth_positions contextCount_def of_nat_diff)
qed

lemma prevIndex_range:
  "previousContextIndexFromAnchor L s i = -1
   \<or> isValidContextIndex s (previousContextIndexFromAnchor L s i)"
proof (cases "isValidContextIndex s i")
  case True
  with order.prev_range [of i s L] validD [OF True] show ?thesis
    by (auto simp: prev_refines valid_iff)
next
  case False
  then show ?thesis by (simp add: previousContextIndexFromAnchor_def)
qed

lemma defaultFirst_range:
  "contextAllEntries s \<noteq> [] \<Longrightarrow> isValidContextIndex s (defaultFirstContextIndex L s)"
  "contextAllEntries s = [] \<Longrightarrow> defaultFirstContextIndex L s = -1"
proof -
  assume ne: "contextAllEntries s \<noteq> []"
  then have "snContextQueue s \<noteq> None" by (auto simp: contextAllEntries_def split: option.splits)
  then show "isValidContextIndex s (defaultFirstContextIndex L s)"
    using ne isCycle_nth [OF effectiveShuffleCycle_isCycle, of 0 s L]
    by (auto simp: defaultFirstContextIndex_def valid_iff Let_def effectiveShuffleCycle_Nil)
qed (simp add: defaultFirstContextIndex_def)

lemma nextIndex_range:
  "nextContextIndexFromAnchor L s i b = -1 \<or> isValidContextIndex s (nextContextIndexFromAnchor L s i b)"
proof (cases "isValidContextIndex s i")
  case True
  show ?thesis
  proof (cases "\<not> b \<and> snRepeatMode s = RepeatOne")
    case True
    with \<open>isValidContextIndex s i\<close> show ?thesis
      by (auto simp: nextContextIndexFromAnchor_def Let_def effectiveShuffleCycle_Nil validD)
  next
    case False
    then have "nextContextIndexFromAnchor L s i b = nextContextIndexFromAnchor L s i True"
      by (auto simp: nextContextIndexFromAnchor_def Let_def)
    with True order.next_range [of i s L] validD [OF True] show ?thesis
      by (auto simp: next_refines valid_iff)
  qed
next
  case False
  then have "nextContextIndexFromAnchor L s i b = defaultFirstContextIndex L s"
    by (simp add: nextContextIndexFromAnchor_def)
  then show ?thesis using defaultFirst_range [of s L] by (cases "contextAllEntries s = []") auto
qed

lemma nextDetached_range:
  "nextDetachedContextResumeIndex L s d = -1
   \<or> isValidContextIndex s (nextDetachedContextResumeIndex L s d)"
  using defaultFirst_range [of s L]
  by (auto simp: nextDetachedContextResumeIndex_def valid_iff contextCount_def)

text \<open>A recomputed resume position is \<open>-1\<close> or a position of the context.\<close>

lemma normalizeResume_range:
  "normalizeResumeContextIndex L s = -1
   \<or> isValidContextIndex s (normalizeResumeContextIndex L s)"
proof (cases "contextAllEntries s = []")
  case True
  then show ?thesis by (simp add: normalizeResumeContextIndex_def)
next
  case False
  note r = nextIndex_range [of L s] nextDetached_range [of L s] defaultFirst_range(1) [OF False, of L]
  show ?thesis unfolding normalizeResumeContextIndex_def Let_def
    by (simp only: split: if_split) (use r in auto)
qed

end
