(* ===== verification/NextIterator.thy ===== *)
theory NextIterator
  imports ContextNav
begin

text \<open>
  The iterator over the next playable candidates (\<open>nextActionIterator\<close> of
  \<open>src/internal/playback/session.go\<close>): the repeated current entry, then the user queue, then the
  rest of the context with at most one wrap-around.  Its enumeration is proved equal to the list that
  \<open>buildUpcomingEntries\<close> writes down, and the counters and the first entry of the snapshot agree with
  that list.
\<close>

record nextActionIterator =
  niSnapshot :: SessionSnapshot
  niBlocked :: "string set"
  niEmittedRepeatOne :: bool
  niUserIndex :: nat
  niContextIndex :: nat
  niContextWrapIndex :: nat
  niContextWrapLimit :: nat
  niContextWrapping :: bool
  niShuffleCycle :: "int list"
  niShufflePos :: nat
  niShuffleWrapLimit :: nat
  niShuffleWrapping :: bool

definition emptyIterator :: "SessionSnapshot \<Rightarrow> string set \<Rightarrow> nextActionIterator" where
  "emptyIterator s blocked =
     \<lparr>niSnapshot = s, niBlocked = blocked, niEmittedRepeatOne = False, niUserIndex = 0,
      niContextIndex = 0, niContextWrapIndex = 0, niContextWrapLimit = 0,
      niContextWrapping = False, niShuffleCycle = [], niShufflePos = 0, niShuffleWrapLimit = 0,
      niShuffleWrapping = False\<rparr>"

definition newNextActionIterator ::
  "golib \<Rightarrow> SessionSnapshot \<Rightarrow> string set \<Rightarrow> nextActionIterator" where
  "newNextActionIterator L s blocked =
     (let it = emptyIterator s blocked; allEntries = contextAllEntries s in
      if allEntries = [] then it
      else if snShuffle s then
        (let cycle = effectiveShuffleCycle L s;
             it = it\<lparr>niShuffleCycle := cycle\<rparr>;
             repeatAll = (snRepeatMode s = RepeatAll);
             currentPosition = indexOfInt cycle (currentContextIndex s);
             resumePosition = indexOfInt cycle (resumeContextIndex s);
             (position, wrapLimit) =
               (if currentMatchesContext s \<and> currentContextIndex s \<ge> 0 then
                  (if currentPosition \<ge> 0 then
                     (min (currentPosition + 1) (int (length cycle)),
                      if repeatAll then (if length cycle = 1 then 1 else currentPosition) else 0)
                   else (0, 0))
                else if 0 \<le> resumeContextIndex s \<and> resumeContextIndex s < contextCount s then
                  (if resumePosition \<ge> 0
                   then (resumePosition, if repeatAll then resumePosition else 0) else (0, 0))
                else (0, 0))
         in if cycle = [] then it
            else it\<lparr>niShufflePos := nat position, niShuffleWrapLimit := nat wrapLimit\<rparr>)
      else
        (let first = firstUpcomingContextIndex L s;
             start = (if first < 0 then contextCount s else first);
             wrapLimit =
               (if snRepeatMode s = RepeatAll then
                  (if currentMatchesContext s \<and> currentContextIndex s \<ge> 0 then
                     (if length allEntries = 1 then 1 else currentContextIndex s)
                   else if \<not> currentMatchesContext s \<and> start > 0 then start
                   else 0)
                else 0)
         in it\<lparr>niContextIndex := nat start, niContextWrapLimit := nat wrapLimit\<rparr>))"

definition contextCandidate :: "SessionEntry \<Rightarrow> playbackCandidate" where
  "contextCandidate e = \<lparr>pcEntry = e, pcOrigin = OriginContext, pcQueueIndex = -1\<rparr>"

definition nextContextCandidate ::
  "nextActionIterator \<Rightarrow> playbackCandidate option \<times> nextActionIterator" where
  "nextContextCandidate it =
     (let allEntries = contextAllEntries (niSnapshot it);
          cycleEntry = (\<lambda>k. contextCandidate (allEntries ! nat (niShuffleCycle it ! k))) in
      if allEntries = [] then (None, it)
      else if snShuffle (niSnapshot it) then
        (if \<not> niShuffleWrapping it \<and> niShufflePos it < length (niShuffleCycle it)
         then (Some (cycleEntry (niShufflePos it)), it\<lparr>niShufflePos := Suc (niShufflePos it)\<rparr>)
         else if \<not> niShuffleWrapping it \<and> niShuffleWrapLimit it \<le> 0 then (None, it)
         else let it = (if niShuffleWrapping it then it
                        else it\<lparr>niShuffleWrapping := True, niShufflePos := 0\<rparr>) in
           if niShufflePos it \<ge> niShuffleWrapLimit it then (None, it)
           else (Some (cycleEntry (niShufflePos it)), it\<lparr>niShufflePos := Suc (niShufflePos it)\<rparr>))
      else
        (if \<not> niContextWrapping it \<and> niContextIndex it < length allEntries
         then (Some (contextCandidate (allEntries ! niContextIndex it)),
               it\<lparr>niContextIndex := Suc (niContextIndex it)\<rparr>)
         else if \<not> niContextWrapping it \<and> niContextWrapLimit it \<le> 0 then (None, it)
         else let it = (if niContextWrapping it then it
                        else it\<lparr>niContextWrapping := True, niContextWrapIndex := 0\<rparr>) in
           if niContextWrapIndex it \<ge> niContextWrapLimit it then (None, it)
           else (Some (contextCandidate (allEntries ! niContextWrapIndex it)),
                 it\<lparr>niContextWrapIndex := Suc (niContextWrapIndex it)\<rparr>)))"

text \<open>What the context part has left, as a list; also the measure of the loops.\<close>

definition contextRest :: "nextActionIterator \<Rightarrow> SessionEntry list" where
  "contextRest it =
     (let s = niSnapshot it; allEntries = contextAllEntries s in
      if allEntries = [] then []
      else if snShuffle s then
        cycleEntries s
          (if niShuffleWrapping it
           then drop (niShufflePos it) (take (niShuffleWrapLimit it) (niShuffleCycle it))
           else drop (niShufflePos it) (niShuffleCycle it)
                  @ take (niShuffleWrapLimit it) (niShuffleCycle it))
      else
        (if niContextWrapping it
         then drop (niContextWrapIndex it) (take (niContextWrapLimit it) allEntries)
         else drop (niContextIndex it) allEntries @ take (niContextWrapLimit it) allEntries))"

text \<open>The wrap limits stay within what they index.\<close>

definition iterWf :: "nextActionIterator \<Rightarrow> bool" where
  "iterWf it \<longleftrightarrow>
     niShuffleWrapLimit it \<le> length (niShuffleCycle it) \<and>
     niContextWrapLimit it \<le> length (contextAllEntries (niSnapshot it))"

definition contextLeft :: "nextActionIterator \<Rightarrow> nat" where
  "contextLeft it =
     (if contextAllEntries (niSnapshot it) = [] then 0
      else if snShuffle (niSnapshot it) then
        (if niShuffleWrapping it then niShuffleWrapLimit it - niShufflePos it
         else (length (niShuffleCycle it) - niShufflePos it) + niShuffleWrapLimit it)
      else
        (if niContextWrapping it then niContextWrapLimit it - niContextWrapIndex it
         else (length (contextAllEntries (niSnapshot it)) - niContextIndex it)
              + niContextWrapLimit it))"

lemma nextContext_frame:
  assumes "nextContextCandidate it = (c, it')"
  shows "niSnapshot it' = niSnapshot it" "niBlocked it' = niBlocked it"
    "niEmittedRepeatOne it' = niEmittedRepeatOne it" "niUserIndex it' = niUserIndex it"
    "iterWf it' = iterWf it"
  using assms
  by (auto simp: nextContextCandidate_def Let_def iterWf_def split: if_splits)

lemma nextContext_left:
  "nextContextCandidate it = (Some c, it') \<Longrightarrow> contextLeft it' < contextLeft it"
  by (auto simp: nextContextCandidate_def contextLeft_def Let_def split: if_splits)

definition isBlocked :: "nextActionIterator \<Rightarrow> string \<Rightarrow> bool" where
  "isBlocked it entryID \<longleftrightarrow> entryID \<in> niBlocked it"

definition userLeft :: "nextActionIterator \<Rightarrow> nat" where
  "userLeft it = length (snUserQueue (niSnapshot it)) - niUserIndex it"

text \<open>The loop of \<open>Next\<close> once the repeated entry is behind it.\<close>

function nextTail :: "nextActionIterator \<Rightarrow> playbackCandidate option \<times> nextActionIterator" where
  "nextTail it =
     (if niUserIndex it < length (snUserQueue (niSnapshot it)) then
        (let e = snUserQueue (niSnapshot it) ! niUserIndex it;
             it' = it\<lparr>niUserIndex := Suc (niUserIndex it)\<rparr> in
         if isBlocked it (enEntryID e) then nextTail it'
         else (Some \<lparr>pcEntry = e, pcOrigin = OriginQueued, pcQueueIndex = int (niUserIndex it)\<rparr>, it'))
      else case nextContextCandidate it of
          (None, it') \<Rightarrow> (None, it')
        | (Some c, it') \<Rightarrow>
            if isBlocked it (enEntryID (pcEntry c)) then nextTail it' else (Some c, it'))"
  by pat_completeness auto
termination
proof (relation "measure (\<lambda>it. userLeft it + contextLeft it)", goal_cases)
  case (3 it p c it')
  then have eq: "nextContextCandidate it = (Some it', c)" by simp
  from nextContext_left [OF eq] nextContext_frame [OF eq] show ?case
    by (simp add: userLeft_def)
qed (auto simp: userLeft_def contextLeft_def)

declare nextTail.simps [simp del]

text \<open>\<open>nextActionIterator.Next\<close>.\<close>

definition nextCandidate :: "nextActionIterator \<Rightarrow> playbackCandidate option \<times> nextActionIterator" where
  "nextCandidate it =
     (if \<not> niEmittedRepeatOne it then
        (let it' = it\<lparr>niEmittedRepeatOne := True\<rparr> in
         case snCurrentEntry (niSnapshot it) of
           Some e \<Rightarrow>
             if snRepeatMode (niSnapshot it) = RepeatOne then
               (if isBlocked it (enEntryID e) then nextTail it'
                else (Some \<lparr>pcEntry = e, pcOrigin = enOrigin e, pcQueueIndex = -1\<rparr>, it'))
             else nextTail it'
         | None \<Rightarrow> nextTail it')
      else nextTail it)"

text \<open>\<open>nextActionIterator.NextBatch\<close>.\<close>

fun nextBatch :: "nat \<Rightarrow> nextActionIterator \<Rightarrow> playbackCandidate list \<times> nextActionIterator" where
  "nextBatch 0 it = ([], it)"
| "nextBatch (Suc limit) it =
     (case nextCandidate it of
        (None, it') \<Rightarrow> ([], it')
      | (Some c, it') \<Rightarrow> let (cs, it'') = nextBatch limit it' in (c # cs, it''))"

section \<open>What the iterator enumerates\<close>

lemma drop_nth: "k < length xs \<Longrightarrow> drop k xs = xs ! k # drop (Suc k) xs"
  by (simp add: Cons_nth_drop_Suc)

lemma drop_take_nth:
  "k < m \<Longrightarrow> m \<le> length xs \<Longrightarrow> drop k (take m xs) = xs ! k # drop (Suc k) (take m xs)"
  by (subst Cons_nth_drop_Suc [symmetric]) auto

lemma cycleEntries_Cons [simp]:
  "cycleEntries s (i # is') = contextAllEntries s ! nat i # cycleEntries s is'"
  by (simp add: cycleEntries_def)

lemma cycleEntries_append [simp]: "cycleEntries s (xs @ ys) = cycleEntries s xs @ cycleEntries s ys"
  by (simp add: cycleEntries_def)

lemma cycleEntries_Nil [simp]: "cycleEntries s [] = []"
  by (simp add: cycleEntries_def)

definition contextStepOk :: "nextActionIterator \<Rightarrow> bool" where
  "contextStepOk it \<longleftrightarrow>
     (case nextContextCandidate it of
        (None, it') \<Rightarrow> contextRest it = [] \<and> contextRest it' = []
      | (Some c, it') \<Rightarrow>
          contextRest it \<noteq> [] \<and> c = contextCandidate (hd (contextRest it)) \<and>
          contextRest it' = tl (contextRest it))"

lemma contextStep_shuffle:
  assumes "iterWf it" "contextAllEntries (niSnapshot it) \<noteq> []" "snShuffle (niSnapshot it)"
  shows "contextStepOk it"
proof -
  let ?p = "niShufflePos it" and ?m = "niShuffleWrapLimit it" and ?c = "niShuffleCycle it"
  from assms(1) have m: "?m \<le> length ?c" by (simp add: iterWf_def)
  note facts = assms contextStepOk_def nextContextCandidate_def contextRest_def Let_def
  consider (a) "\<not> niShuffleWrapping it" "?p < length ?c"
    | (b) "\<not> niShuffleWrapping it" "length ?c \<le> ?p" "?m = 0"
    | (c) "\<not> niShuffleWrapping it" "length ?c \<le> ?p" "0 < ?m"
    | (d) "niShuffleWrapping it" "?m \<le> ?p"
    | (e) "niShuffleWrapping it" "?p < ?m" by linarith
  then show ?thesis
  proof cases
    case a
    with drop_nth [OF a(2)] show ?thesis by (simp add: facts)
  next
    case b
    then show ?thesis by (simp add: facts)
  next
    case c
    then obtain k where k: "?m = Suc k" by (auto simp: gr0_conv_Suc)
    with m obtain x xs where "?c = x # xs" by (cases ?c) auto
    with c k show ?thesis by (simp add: facts)
  next
    case d
    then show ?thesis by (simp add: facts)
  next
    case e
    with drop_take_nth [OF e(2) m] show ?thesis by (simp add: facts)
  qed
qed

lemma contextStep_linear:
  assumes "iterWf it" "contextAllEntries (niSnapshot it) \<noteq> []" "\<not> snShuffle (niSnapshot it)"
  shows "contextStepOk it"
proof -
  let ?p = "niContextIndex it" and ?w = "niContextWrapIndex it" and ?m = "niContextWrapLimit it"
    and ?c = "contextAllEntries (niSnapshot it)"
  from assms(1) have m: "?m \<le> length ?c" by (simp add: iterWf_def)
  note facts = assms contextStepOk_def nextContextCandidate_def contextRest_def Let_def
  consider (a) "\<not> niContextWrapping it" "?p < length ?c"
    | (b) "\<not> niContextWrapping it" "length ?c \<le> ?p" "?m = 0"
    | (c) "\<not> niContextWrapping it" "length ?c \<le> ?p" "0 < ?m"
    | (d) "niContextWrapping it" "?m \<le> ?w"
    | (e) "niContextWrapping it" "?w < ?m" by linarith
  then show ?thesis
  proof cases
    case a
    with drop_nth [OF a(2)] show ?thesis by (simp add: facts)
  next
    case b
    then show ?thesis by (simp add: facts)
  next
    case c
    then obtain k where k: "?m = Suc k" by (auto simp: gr0_conv_Suc)
    with m obtain x xs where "?c = x # xs" by (cases ?c) auto
    with c k show ?thesis by (simp add: facts)
  next
    case d
    then show ?thesis by (simp add: facts)
  next
    case e
    with drop_take_nth [OF e(2) m] show ?thesis by (simp add: facts)
  qed
qed

lemma contextStep: "iterWf it \<Longrightarrow> contextStepOk it"
proof (cases "contextAllEntries (niSnapshot it) = []")
  case True
  then show ?thesis by (simp add: contextStepOk_def nextContextCandidate_def contextRest_def)
next
  case False
  then show "iterWf it \<Longrightarrow> contextStepOk it"
    using contextStep_shuffle [of it] contextStep_linear [of it] by blast
qed

lemma contextStep_None:
  "iterWf it \<Longrightarrow> nextContextCandidate it = (None, it') \<Longrightarrow> contextRest it = []"
  using contextStep [of it] by (simp add: contextStepOk_def)

lemma contextStep_Some:
  "iterWf it \<Longrightarrow> nextContextCandidate it = (Some c, it') \<Longrightarrow>
     contextRest it = pcEntry c # contextRest it' \<and> c = contextCandidate (pcEntry c)"
  using contextStep [of it]
  by (cases "contextRest it") (auto simp: contextStepOk_def contextCandidate_def)

text \<open>The user queue as the iterator sees it: entries with their positions in the queue.\<close>

definition queuedCandidate :: "nat \<times> SessionEntry \<Rightarrow> playbackCandidate" where
  "queuedCandidate ie = \<lparr>pcEntry = snd ie, pcOrigin = OriginQueued, pcQueueIndex = int (fst ie)\<rparr>"

definition tailRest :: "nextActionIterator \<Rightarrow> playbackCandidate list" where
  "tailRest it =
     filter (\<lambda>c. \<not> isBlocked it (enEntryID (pcEntry c)))
       (map queuedCandidate
          (enumerate (niUserIndex it) (drop (niUserIndex it) (snUserQueue (niSnapshot it))))
        @ map contextCandidate (contextRest it))"

lemma contextRest_userIndex [simp]: "contextRest (it\<lparr>niUserIndex := k\<rparr>) = contextRest it"
  by (simp add: contextRest_def Let_def)

lemma isBlocked_frame: "niBlocked it' = niBlocked it \<Longrightarrow> isBlocked it' = isBlocked it"
  by (simp add: isBlocked_def fun_eq_iff)

lemma nextTail_spec:
  assumes "iterWf it"
  shows "case nextTail it of
      (None, it') \<Rightarrow> tailRest it = []
    | (Some c, it') \<Rightarrow> tailRest it = c # tailRest it' \<and> iterWf it' \<and>
        niEmittedRepeatOne it' = niEmittedRepeatOne it"
  using assms
proof (induction it rule: nextTail.induct)
  case (1 it)
  let ?q = "snUserQueue (niSnapshot it)" and ?k = "niUserIndex it"
  let ?it = "it\<lparr>niUserIndex := Suc ?k\<rparr>"
  show ?case
  proof (cases "?k < length ?q")
    case True
    have "tailRest it = (if isBlocked it (enEntryID (?q ! ?k)) then tailRest ?it
        else queuedCandidate (?k, ?q ! ?k) # tailRest ?it)"
      using drop_nth [OF True] by (simp add: tailRest_def isBlocked_def queuedCandidate_def)
    moreover have wf: "iterWf ?it" using "1.prems" by (simp add: iterWf_def)
    moreover have "nextTail it = (if isBlocked it (enEntryID (?q ! ?k)) then nextTail ?it
        else (Some (queuedCandidate (?k, ?q ! ?k)), ?it))"
      using True by (subst nextTail.simps) (simp add: Let_def queuedCandidate_def)
    ultimately show ?thesis
      using "1.IH"(1) [OF True refl refl _ wf]
      by (cases "isBlocked it (enEntryID (?q ! ?k))") (auto split: option.splits prod.splits)
  next
    case False
    then have user: "tailRest it = filter (\<lambda>c. \<not> isBlocked it (enEntryID (pcEntry c)))
        (map contextCandidate (contextRest it))" by (simp add: tailRest_def)
    show ?thesis
    proof (cases "nextContextCandidate it")
      case (Pair oc it')
      show ?thesis
      proof (cases oc)
        case None
        with Pair False user contextStep_None [OF "1.prems"] show ?thesis
          by (subst nextTail.simps) auto
      next
        case (Some c)
        with Pair have eq: "nextContextCandidate it = (Some c, it')" by simp
        note f = nextContext_frame [OF eq]
        have it': "tailRest it' = filter (\<lambda>c. \<not> isBlocked it (enEntryID (pcEntry c)))
            (map contextCandidate (contextRest it'))"
          using False f by (simp add: tailRest_def isBlocked_frame [OF f(2)])
        have "tailRest it = (if isBlocked it (enEntryID (pcEntry c)) then tailRest it'
            else c # tailRest it')"
          using contextStep_Some [OF "1.prems" eq] user it' by (auto simp: contextCandidate_def)
        moreover have "nextTail it = (if isBlocked it (enEntryID (pcEntry c)) then nextTail it'
            else (Some c, it'))"
          using False eq by (subst nextTail.simps) simp
        moreover have wf: "iterWf it'" using f(5) "1.prems" by simp
        ultimately show ?thesis
          using "1.IH"(2) [OF False eq [symmetric] refl _ wf] f(3)
          by (cases "isBlocked it (enEntryID (pcEntry c))") (auto split: option.splits prod.splits)
      qed
    qed
  qed
qed

lemma nextTail_left:
  "nextTail it = (Some c, it') \<Longrightarrow>
     userLeft it' + contextLeft it' < userLeft it + contextLeft it \<and>
     niEmittedRepeatOne it' = niEmittedRepeatOne it"
proof (induction it rule: nextTail.induct)
  case (1 it)
  let ?it = "it\<lparr>niUserIndex := Suc (niUserIndex it)\<rparr>"
  show ?case
  proof (cases "niUserIndex it < length (snUserQueue (niSnapshot it))")
    case True
    have "userLeft ?it < userLeft it" "contextLeft ?it = contextLeft it"
      using True by (auto simp: userLeft_def contextLeft_def)
    with "1.IH"(1) [OF True refl refl] "1.prems" True show ?thesis
      by (subst (asm) nextTail.simps) (fastforce simp: Let_def split: if_splits)
  next
    case False
    obtain oc itx where eq: "nextContextCandidate it = (oc, itx)" by (rule prod.exhaust)
    with "1.prems" False obtain d where d: "oc = Some d"
      by (subst (asm) nextTail.simps) (auto split: option.splits)
    with eq have eqd: "nextContextCandidate it = (Some d, itx)" by simp
    have "userLeft itx = userLeft it" "niEmittedRepeatOne itx = niEmittedRepeatOne it"
      using nextContext_frame [OF eqd] by (simp_all add: userLeft_def)
    with "1.IH"(2) [OF False eqd [symmetric] refl] nextContext_left [OF eqd] "1.prems" False eqd
    show ?thesis by (subst (asm) nextTail.simps) (auto split: if_splits)
  qed
qed

definition iterLeft :: "nextActionIterator \<Rightarrow> nat" where
  "iterLeft it = (if niEmittedRepeatOne it then 0 else 1) + userLeft it + contextLeft it"

lemma nextCandidate_left:
  assumes "nextCandidate it = (Some c, it')"
  shows "iterLeft it' < iterLeft it"
proof (cases "niEmittedRepeatOne it")
  case True
  with assms have "nextTail it = (Some c, it')" by (simp add: nextCandidate_def)
  from nextTail_left [OF this] True show ?thesis by (simp add: iterLeft_def)
next
  case False
  let ?it = "it\<lparr>niEmittedRepeatOne := True\<rparr>"
  have left: "userLeft ?it = userLeft it" "contextLeft ?it = contextLeft it"
    by (simp_all add: userLeft_def contextLeft_def)
  from assms False have "nextTail ?it = (Some c, it') \<or> it' = ?it"
    by (auto simp: nextCandidate_def Let_def split: option.splits if_splits)
  then show ?thesis
    using nextTail_left [of ?it c it'] left False by (auto simp: iterLeft_def)
qed

text \<open>The loop that empties the iterator into the next-action plan.\<close>

function drainIterator :: "nextActionIterator \<Rightarrow> playbackCandidate list" where
  "drainIterator it =
     (case nextCandidate it of
        (None, it') \<Rightarrow> []
      | (Some c, it') \<Rightarrow> c # drainIterator it')"
  by pat_completeness auto
termination
  by (relation "measure iterLeft") (auto dest: nextCandidate_left [OF sym])

declare drainIterator.simps [simp del]

definition repeatOneRest :: "nextActionIterator \<Rightarrow> playbackCandidate list" where
  "repeatOneRest it =
     (case snCurrentEntry (niSnapshot it) of
        None \<Rightarrow> []
      | Some e \<Rightarrow>
          if \<not> niEmittedRepeatOne it \<and> snRepeatMode (niSnapshot it) = RepeatOne
             \<and> \<not> isBlocked it (enEntryID e)
          then [\<lparr>pcEntry = e, pcOrigin = enOrigin e, pcQueueIndex = -1\<rparr>] else [])"

lemma tailRest_emitted [simp]: "tailRest (it\<lparr>niEmittedRepeatOne := b\<rparr>) = tailRest it"
  by (simp add: tailRest_def contextRest_def isBlocked_def Let_def)

lemma iterWf_emitted [simp]: "iterWf (it\<lparr>niEmittedRepeatOne := b\<rparr>) = iterWf it"
  by (simp add: iterWf_def)

lemma nextCandidate_spec:
  assumes "iterWf it"
  shows "case nextCandidate it of
      (None, it') \<Rightarrow> repeatOneRest it @ tailRest it = []
    | (Some c, it') \<Rightarrow> repeatOneRest it @ tailRest it = c # tailRest it' \<and> iterWf it' \<and>
        niEmittedRepeatOne it'"
proof -
  let ?it = "it\<lparr>niEmittedRepeatOne := True\<rparr>"
  have t: "iterWf ?it" using assms by simp
  consider (a) "niEmittedRepeatOne it" | (b) "\<not> niEmittedRepeatOne it" "repeatOneRest it = []"
    | (c) "\<not> niEmittedRepeatOne it" "repeatOneRest it \<noteq> []" by blast
  then show ?thesis
  proof cases
    case a
    then have "repeatOneRest it = []" by (simp add: repeatOneRest_def split: option.splits)
    with a nextTail_spec [OF assms] show ?thesis
      by (auto simp: nextCandidate_def split: option.splits prod.splits)
  next
    case b
    then have "nextCandidate it = nextTail ?it"
      by (auto simp: nextCandidate_def repeatOneRest_def Let_def split: option.splits if_splits)
    with b nextTail_spec [OF t] show ?thesis by (auto split: option.splits prod.splits)
  next
    case c
    then show ?thesis using t
      by (auto simp: nextCandidate_def repeatOneRest_def Let_def split: option.splits if_splits)
  qed
qed

lemma repeatOneRest_emitted: "niEmittedRepeatOne it \<Longrightarrow> repeatOneRest it = []"
  by (simp add: repeatOneRest_def split: option.splits)

lemma drain_spec: "iterWf it \<Longrightarrow> drainIterator it = repeatOneRest it @ tailRest it"
proof (induction it rule: drainIterator.induct)
  case (1 it)
  from nextCandidate_spec [OF "1.prems"] "1.IH" show ?case
    by (subst drainIterator.simps)
       (auto split: option.splits prod.splits simp: repeatOneRest_emitted)
qed

section \<open>The iterator and the upcoming list agree\<close>

lemma matches_valid:
  "currentMatchesContext s \<Longrightarrow> isValidContextIndex s (currentContextIndex s)"
  by (auto simp: currentMatchesContext_def entryMatchesContextIndex_def isValidContextIndex_def
      split: option.splits if_splits)

lemma cycle_position:
  assumes "isValidContextIndex s i"
  shows "0 \<le> indexOfInt (effectiveShuffleCycle L s) i"
    and "indexOfInt (effectiveShuffleCycle L s) i < int (length (contextAllEntries s))"
proof -
  obtain k where "k < length (contextAllEntries s)"
    "indexOfInt (effectiveShuffleCycle L s) i = int k"
    using play_order.position_of [OF play_order.intro [OF effectiveShuffleCycle_isCycle [of s L]]]
      validD [OF assms] by metis
  then show "0 \<le> indexOfInt (effectiveShuffleCycle L s) i"
    and "indexOfInt (effectiveShuffleCycle L s) i < int (length (contextAllEntries s))" by auto
qed

lemma length_cycle: "length (effectiveShuffleCycle L s) = length (contextAllEntries s)"
  using effectiveShuffleCycle_isCycle by (rule isCycle_facts)

text \<open>Where the context part starts, and how far it wraps, as the constructor sets them.\<close>

lemma firstUpcoming_range:
  "contextAllEntries s \<noteq> [] \<Longrightarrow>
     0 \<le> firstUpcomingContextIndex L s \<and> firstUpcomingContextIndex L s \<le> contextCount s"
  using nextDetached_range [of L s "detachedCurrentContextIndex s"]
  by (auto simp: firstUpcomingContextIndex_def Let_def valid_iff contextCount_def)

lemma new_frame [simp]:
  "niSnapshot (newNextActionIterator L s b) = s"
  "niBlocked (newNextActionIterator L s b) = b"
  "niEmittedRepeatOne (newNextActionIterator L s b) = False"
  "niUserIndex (newNextActionIterator L s b) = 0"
  by (simp_all add: newNextActionIterator_def emptyIterator_def Let_def split: prod.splits)

lemma new_linear:
  fixes L :: golib and s :: SessionSnapshot and b :: "string set"
  assumes "contextAllEntries s \<noteq> []" "\<not> snShuffle s"
  defines "it \<equiv> newNextActionIterator L s b"
  shows "niContextIndex it = nat (firstUpcomingContextIndex L s)"
    and "\<not> niContextWrapping it" and "niShuffleWrapLimit it = 0"
    and "niContextWrapLimit it =
      (if snRepeatMode s = RepeatAll then
         (if currentMatchesContext s then
            (if length (contextAllEntries s) = 1 then 1 else nat (currentContextIndex s))
          else nat (firstUpcomingContextIndex L s))
       else 0)"
  using assms(1,2) firstUpcoming_range [OF assms(1), of L] matches_valid [of s]
  by (auto simp: it_def newNextActionIterator_def emptyIterator_def Let_def valid_iff)

lemma new_shuffle:
  fixes L :: golib and s :: SessionSnapshot and b :: "string set"
  assumes "contextAllEntries s \<noteq> []" "snShuffle s"
  defines "it \<equiv> newNextActionIterator L s b"
    and "cp \<equiv> nat (indexOfInt (effectiveShuffleCycle L s) (currentContextIndex s))"
    and "rp \<equiv> nat (indexOfInt (effectiveShuffleCycle L s) (resumeContextIndex s))"
  shows "niShuffleCycle it = effectiveShuffleCycle L s" and "\<not> niShuffleWrapping it"
    and "niContextWrapLimit it = 0"
    and "niShufflePos it =
      (if currentMatchesContext s then Suc cp
       else if isValidContextIndex s (resumeContextIndex s) then rp else 0)"
    and "niShuffleWrapLimit it =
      (if snRepeatMode s \<noteq> RepeatAll then 0
       else if currentMatchesContext s
         then (if length (contextAllEntries s) = 1 then 1 else cp)
       else if isValidContextIndex s (resumeContextIndex s) then rp else 0)"
proof -
  note cur = cycle_position [of s "currentContextIndex s" L] matches_valid [of s]
  note res = cycle_position [of s "resumeContextIndex s" L]
  have ne: "effectiveShuffleCycle L s \<noteq> []" using assms(1) by (simp add: effectiveShuffleCycle_Nil)
  have v: "isValidContextIndex s i \<longleftrightarrow> 0 \<le> i \<and> i < contextCount s" for i
    by (simp add: valid_iff contextCount_def)
  note defs = it_def newNextActionIterator_def emptyIterator_def cp_def rp_def Let_def
  show "niShuffleCycle it = effectiveShuffleCycle L s" and "\<not> niShuffleWrapping it"
    and "niContextWrapLimit it = 0"
    using assms(1,2) ne by (simp_all add: defs split: prod.splits)
  show "niShufflePos it =
      (if currentMatchesContext s then Suc cp
       else if isValidContextIndex s (resumeContextIndex s) then rp else 0)"
    using assms(1,2) ne cur res by (auto simp: defs v length_cycle contextCount_def)
  show "niShuffleWrapLimit it =
      (if snRepeatMode s \<noteq> RepeatAll then 0
       else if currentMatchesContext s
         then (if length (contextAllEntries s) = 1 then 1 else cp)
       else if isValidContextIndex s (resumeContextIndex s) then rp else 0)"
    using assms(1,2) ne cur res by (auto simp: defs v length_cycle contextCount_def)
qed

lemma new_empty:
  assumes "contextAllEntries s = []"
  shows "newNextActionIterator L s b = emptyIterator s b"
  using assms by (simp add: newNextActionIterator_def)

lemma new_iterWf: "iterWf (newNextActionIterator L s b)"
proof -
  consider "contextAllEntries s = []" | "contextAllEntries s \<noteq> []" "snShuffle s"
    | "contextAllEntries s \<noteq> []" "\<not> snShuffle s" by blast
  then show ?thesis
  proof cases
    case 1
    then show ?thesis by (simp add: new_empty iterWf_def emptyIterator_def)
  next
    case 2
    with new_shuffle [OF 2, of L b] cycle_position [of s "currentContextIndex s" L]
      cycle_position [of s "resumeContextIndex s" L] matches_valid [of s]
    show ?thesis by (auto simp: iterWf_def length_cycle)
  next
    case 3
    with new_linear [OF 3, of L b] firstUpcoming_range [OF 3(1), of L] matches_valid [of s]
    show ?thesis by (auto simp: iterWf_def contextCount_def valid_iff)
  qed
qed

lemma cycleEntries_single: "length c = 1 \<Longrightarrow> cycleEntries s [c ! 0] = cycleEntries s c"
  by (cases c) auto

lemma upcoming_shuffle:
  assumes "contextAllEntries s \<noteq> []" "snShuffle s"
  shows "buildUpcomingEntries L s = snUserQueue s @ contextRest (newNextActionIterator L s b)"
proof -
  obtain y where q: "snContextQueue s = Some y"
    using assms(1) by (auto simp: contextAllEntries_def split: option.splits)
  have v: "isValidContextIndex s i \<longleftrightarrow> 0 \<le> i \<and> i < contextCount s" for i
    by (simp add: valid_iff contextCount_def)
  note new = new_shuffle [OF assms, of L b]
  have rest: "contextRest (newNextActionIterator L s b) = cycleEntries s
      (drop (niShufflePos (newNextActionIterator L s b)) (effectiveShuffleCycle L s)
       @ take (niShuffleWrapLimit (newNextActionIterator L s b)) (effectiveShuffleCycle L s))"
    using assms new by (simp add: contextRest_def Let_def)
  consider (m) "currentMatchesContext s"
    | (r) "\<not> currentMatchesContext s" "isValidContextIndex s (resumeContextIndex s)"
    | (n) "\<not> currentMatchesContext s" "\<not> isValidContextIndex s (resumeContextIndex s)" by blast
  then show ?thesis
  proof cases
    case m
    note valid = matches_valid [OF m]
    note pos = cycle_position [OF valid, of L]
    show ?thesis
    proof (cases "length (contextAllEntries s) = 1")
      case True
      then obtain x where x: "effectiveShuffleCycle L s = [x]"
        using length_cycle [of L s] by (auto simp: length_Suc_conv)
      with pos True have "indexOfInt [x] (currentContextIndex s) = 0" by auto
      with m q assms True x validD [OF valid] show ?thesis
        by (simp add: rest new buildUpcomingEntries_def Let_def)
    next
      case False
      with m q assms validD [OF valid] pos show ?thesis
        by (simp add: rest new buildUpcomingEntries_def Let_def length_cycle nat_add_distrib)
    qed
  next
    case r
    with q assms cycle_position [OF r(2), of L] show ?thesis
      by (simp add: rest new buildUpcomingEntries_def Let_def v)
  next
    case n
    then have "\<not> (0 \<le> resumeContextIndex s \<and> resumeContextIndex s < contextCount s)"
      by (simp add: v)
    with n q assms show ?thesis
      by (auto simp: rest new buildUpcomingEntries_def Let_def)
  qed
qed

lemma upcoming_linear:
  assumes "contextAllEntries s \<noteq> []" "\<not> snShuffle s"
  shows "buildUpcomingEntries L s = snUserQueue s @ contextRest (newNextActionIterator L s b)"
proof -
  obtain y where q: "snContextQueue s = Some y"
    using assms(1) by (auto simp: contextAllEntries_def split: option.splits)
  note new = new_linear [OF assms, of L b]
  let ?all = "contextAllEntries s" and ?start = "nat (firstUpcomingContextIndex L s)"
  have rest: "contextRest (newNextActionIterator L s b) =
      drop ?start ?all @ take (niContextWrapLimit (newNextActionIterator L s b)) ?all"
    using assms new by (simp add: contextRest_def Let_def)
  show ?thesis
  proof (cases "currentMatchesContext s")
    case True
    note valid = matches_valid [OF True]
    have "drop ?start ?all = drop (nat (currentContextIndex s + 1)) ?all"
      using True assms validD [OF valid] by (simp add: firstUpcomingContextIndex_def contextCount_def)
    moreover have "?all = [?all ! 0]" if "length ?all = 1" using that by (cases ?all) auto
    ultimately show ?thesis
      using True q assms validD [OF valid]
      by (auto simp: rest new buildUpcomingEntries_def Let_def)
  next
    case False
    let ?i = "firstUpcomingContextIndex L s"
    have start: "?i = (if detachedCurrentContextIndex s \<ge> 0 then
             (let i = nextDetachedContextResumeIndex L s (detachedCurrentContextIndex s)
              in if i < 0 then contextCount s else i)
           else if 0 \<le> resumeContextIndex s \<and> resumeContextIndex s < contextCount s
             then resumeContextIndex s else 0)"
      using False assms by (simp add: firstUpcomingContextIndex_def)
    have "buildUpcomingEntries L s = snUserQueue s @ drop (nat ?i) ?all
        @ (if snRepeatMode s = RepeatAll \<and> ?i > 0 then take (nat ?i) ?all else [])"
      unfolding start using False q assms by (simp add: buildUpcomingEntries_def Let_def)
    then show ?thesis using False by (simp add: rest new)
  qed
qed

lemma upcoming_contextRest:
  "buildUpcomingEntries L s = snUserQueue s @ contextRest (newNextActionIterator L s b)"
proof (cases "contextAllEntries s = []")
  case True
  then show ?thesis
    by (simp add: buildUpcomingEntries_def new_empty contextRest_def emptyIterator_def Let_def)
next
  case False
  then show ?thesis using upcoming_shuffle upcoming_linear by blast
qed

lemma map_pcEntry_queued: "map (\<lambda>x. pcEntry (queuedCandidate x)) (enumerate n xs) = xs"
  by (induction xs arbitrary: n) (auto simp: queuedCandidate_def)

text \<open>Without blocked entries the plan is the repeated entry, if any, and then the upcoming list.\<close>

lemma drain_new:
  "map pcEntry (drainIterator (newNextActionIterator L s {})) =
     (case snCurrentEntry s of
        Some e \<Rightarrow> if snRepeatMode s = RepeatOne then [e] else []
      | None \<Rightarrow> [])
     @ buildUpcomingEntries L s"
proof -
  let ?it = "newNextActionIterator L s {}"
  have "map pcEntry (tailRest ?it) = snUserQueue s @ contextRest ?it"
    by (simp add: tailRest_def isBlocked_def map_pcEntry_queued contextCandidate_def comp_def)
  moreover have "map pcEntry (repeatOneRest ?it) =
     (case snCurrentEntry s of
        Some e \<Rightarrow> if snRepeatMode s = RepeatOne then [e] else [] | None \<Rightarrow> [])"
    by (simp add: repeatOneRest_def isBlocked_def split: option.splits)
  ultimately show ?thesis
    using upcoming_contextRest [of L s "{}"] drain_spec [OF new_iterWf, of L s "{}"] by simp
qed

section \<open>Counters and the first entry\<close>

lemma valid_contextCount: "isValidContextIndex s i \<longleftrightarrow> 0 \<le> i \<and> i < contextCount s"
  by (simp add: valid_iff contextCount_def)

lemma queue_of_entries: "contextAllEntries s \<noteq> [] \<Longrightarrow> \<exists>q. snContextQueue s = Some q"
  by (auto simp: contextAllEntries_def split: option.splits)

lemma length_cycleEntries [simp]: "length (cycleEntries s c) = length c"
  by (simp add: cycleEntries_def)

text \<open>The upcoming list by cases: the play order from a start, then the wrapped part.\<close>

lemma upcoming_cases_shuffle:
  fixes L :: golib and s :: SessionSnapshot
  assumes "contextAllEntries s \<noteq> []" "snShuffle s"
  defines "c \<equiv> effectiveShuffleCycle L s" and "all \<equiv> (snRepeatMode s = RepeatAll)"
  defines "cp \<equiv> nat (indexOfInt (effectiveShuffleCycle L s) (currentContextIndex s))"
    and "rp \<equiv> nat (indexOfInt (effectiveShuffleCycle L s) (resumeContextIndex s))"
  shows "currentMatchesContext s \<Longrightarrow> buildUpcomingEntries L s = snUserQueue s
      @ cycleEntries s (drop (Suc cp) c @ (if all then take (if length c = 1 then 1 else cp) c else []))"
    and "\<not> currentMatchesContext s \<Longrightarrow> isValidContextIndex s (resumeContextIndex s) \<Longrightarrow>
      buildUpcomingEntries L s = snUserQueue s
      @ cycleEntries s (drop rp c @ (if all then take rp c else []))"
    and "\<not> currentMatchesContext s \<Longrightarrow> \<not> isValidContextIndex s (resumeContextIndex s) \<Longrightarrow>
      buildUpcomingEntries L s = snUserQueue s @ cycleEntries s c"
  using assms(1,2) new_shuffle [OF assms(1,2), of L "{}"]
  by (simp_all add: upcoming_contextRest [of L s "{}"] contextRest_def Let_def c_def all_def
      cp_def rp_def length_cycle)

lemma upcoming_cases_linear:
  fixes L :: golib and s :: SessionSnapshot
  assumes "contextAllEntries s \<noteq> []" "\<not> snShuffle s"
  defines "e \<equiv> contextAllEntries s" and "start \<equiv> nat (firstUpcomingContextIndex L s)"
  shows "buildUpcomingEntries L s = snUserQueue s @ drop start e
      @ (if snRepeatMode s = RepeatAll then
           take (if currentMatchesContext s
                 then (if length e = 1 then 1 else nat (currentContextIndex s)) else start) e
         else [])"
  using assms(1,2) new_linear [OF assms(1,2), of L "{}"]
  by (simp add: upcoming_contextRest [of L s "{}"] contextRest_def Let_def e_def start_def)

lemma upcomingCount_shuffle:
  assumes "contextAllEntries s \<noteq> []" "snShuffle s"
  shows "upcomingEntryCount L s = int (length (buildUpcomingEntries L s))"
proof -
  note cur = matches_valid [of s] cycle_position [of s "currentContextIndex s" L]
  note res = cycle_position [of s "resumeContextIndex s" L]
  note c = upcoming_cases_shuffle [OF assms, of L]
  have ne: "effectiveShuffleCycle L s \<noteq> []" using assms by (simp add: effectiveShuffleCycle_Nil)
  consider (m) "currentMatchesContext s"
    | (r) "\<not> currentMatchesContext s" "isValidContextIndex s (resumeContextIndex s)"
    | (n) "\<not> currentMatchesContext s" "\<not> isValidContextIndex s (resumeContextIndex s)" by blast
  then show ?thesis
  proof cases
    case m
    with cur assms ne validD [OF cur(1) [OF m]] show ?thesis
      by (auto simp: c(1) upcomingEntryCount_def Let_def length_cycle of_nat_diff)
  next
    case r
    with res assms ne show ?thesis
      by (auto simp: c(2) upcomingEntryCount_def Let_def length_cycle valid_contextCount of_nat_diff)
  next
    case n
    with assms ne show ?thesis
      by (auto simp: c(3) upcomingEntryCount_def Let_def length_cycle valid_contextCount)
  qed
qed

lemma upcomingCount_linear:
  assumes "contextAllEntries s \<noteq> []" "\<not> snShuffle s"
  shows "upcomingEntryCount L s = int (length (buildUpcomingEntries L s))"
  using assms firstUpcoming_range [OF assms(1), of L] matches_valid [of s]
  by (auto simp: upcoming_cases_linear [OF assms, of L] upcomingEntryCount_def Let_def
      contextCount_def valid_iff of_nat_diff min_def)

lemma upcomingEntryCount_eq: "upcomingEntryCount L s = int (length (buildUpcomingEntries L s))"
proof (cases "contextAllEntries s = []")
  case True
  then show ?thesis by (simp add: upcomingEntryCount_def buildUpcomingEntries_def Let_def)
next
  case False
  then show ?thesis using upcomingCount_shuffle upcomingCount_linear by blast
qed

definition headOption :: "'a list \<Rightarrow> 'a option" where
  "headOption xs = (case xs of [] \<Rightarrow> None | x # _ \<Rightarrow> Some x)"

lemma headOption_append: "headOption (xs @ ys) = (if xs = [] then headOption ys else Some (hd xs))"
  by (cases xs) (auto simp: headOption_def)

lemma headOption_drop: "k < length xs \<Longrightarrow> headOption (drop k xs) = Some (xs ! k)"
  by (simp add: drop_nth headOption_def)

lemma headOption_take: "0 < k \<Longrightarrow> xs \<noteq> [] \<Longrightarrow> headOption (take k xs) = Some (xs ! 0)"
  by (cases xs; cases k) (auto simp: headOption_def)

lemma headOption_map: "headOption (map f xs) = map_option f (headOption xs)"
  by (cases xs) (auto simp: headOption_def)

lemma headOption_nth: "xs \<noteq> [] \<Longrightarrow> headOption xs = Some (xs ! 0)"
  by (cases xs) (auto simp: headOption_def)

lemma headOption_Nil [simp]: "headOption [] = None"
  by (simp add: headOption_def)

lemma firstUpcoming_shuffle:
  assumes "contextAllEntries s \<noteq> []" "snShuffle s" "snUserQueue s = []"
  shows "firstUpcomingEntry L s = headOption (buildUpcomingEntries L s)"
proof -
  note cur = matches_valid [of s] cycle_position [of s "currentContextIndex s" L]
  note res = cycle_position [of s "resumeContextIndex s" L]
  note c = upcoming_cases_shuffle [OF assms(1,2), of L]
  have ne: "effectiveShuffleCycle L s \<noteq> []" using assms by (simp add: effectiveShuffleCycle_Nil)
  note hs = headOption_append headOption_drop headOption_take headOption_map cycleEntries_def
  consider (m) "currentMatchesContext s"
    | (r) "\<not> currentMatchesContext s" "isValidContextIndex s (resumeContextIndex s)"
    | (n) "\<not> currentMatchesContext s" "\<not> isValidContextIndex s (resumeContextIndex s)" by blast
  then show ?thesis
  proof cases
    case m
    let ?p = "indexOfInt (effectiveShuffleCycle L s) (currentContextIndex s)"
    have p: "0 \<le> ?p" "?p < int (length (contextAllEntries s))" using cur m by auto
    show ?thesis
    proof (cases "?p + 1 < int (length (contextAllEntries s))")
      case True
      with p have "Suc (nat ?p) < length (contextAllEntries s)" by linarith
      with True m p assms ne validD [OF cur(1) [OF m]] show ?thesis
        by (simp add: c(1) firstUpcomingEntry_def Let_def length_cycle hs nat_add_distrib
            hd_map hd_drop_conv_nth)
    next
      case False
      with p have "Suc (nat ?p) = length (contextAllEntries s)" by linarith
      with False m p assms ne validD [OF cur(1) [OF m]] show ?thesis
        by (auto simp: c(1) firstUpcomingEntry_def Let_def length_cycle hs nat_add_distrib)
    qed
  next
    case r
    let ?p = "indexOfInt (effectiveShuffleCycle L s) (resumeContextIndex s)"
    have "nat ?p < length (contextAllEntries s)" using res [OF r(2)] by linarith
    with r res [OF r(2)] assms ne validD [OF r(2)] show ?thesis
      by (simp add: c(2) firstUpcomingEntry_def Let_def length_cycle valid_contextCount hs
          hd_map hd_drop_conv_nth)
  next
    case n
    with assms ne show ?thesis
      by (cases "effectiveShuffleCycle L s")
         (auto simp: c(3) firstUpcomingEntry_def Let_def valid_contextCount hs headOption_def)
  qed
qed

lemma firstUpcoming_linear:
  assumes "contextAllEntries s \<noteq> []" "\<not> snShuffle s" "snUserQueue s = []"
  shows "firstUpcomingEntry L s = headOption (buildUpcomingEntries L s)"
proof -
  let ?i = "firstUpcomingContextIndex L s"
  have range: "0 \<le> ?i" "?i \<le> contextCount s" using firstUpcoming_range [OF assms(1)] by auto
  show ?thesis
  proof (cases "?i < contextCount s")
    case True
    with range assms have "nat ?i < length (contextAllEntries s)" by (auto simp: contextCount_def)
    with True range assms show ?thesis
      by (simp add: upcoming_cases_linear [OF assms(1,2), of L] firstUpcomingEntry_def Let_def
          headOption_append headOption_drop hd_drop_conv_nth)
  next
    case False
    with range have "nat ?i = length (contextAllEntries s)" by (simp add: contextCount_def)
    with False range assms matches_valid [of s] show ?thesis
      by (auto simp: upcoming_cases_linear [OF assms(1,2), of L] firstUpcomingEntry_def Let_def
          headOption_append headOption_take headOption_nth contextCount_def valid_iff)
  qed
qed

lemma firstUpcomingEntry_eq: "firstUpcomingEntry L s = headOption (buildUpcomingEntries L s)"
proof (cases "snUserQueue s = [] \<and> contextAllEntries s \<noteq> []")
  case True
  then show ?thesis using firstUpcoming_shuffle firstUpcoming_linear by blast
next
  case False
  then show ?thesis
    by (cases "snUserQueue s")
       (auto simp: firstUpcomingEntry_def upcoming_contextRest [of L s "{}"] headOption_def
        new_empty contextRest_def emptyIterator_def Let_def)
qed

end
