(* ===== verification/SnapshotNormal.thy ===== *)
theory SnapshotNormal
  imports NextIterator
begin

text \<open>
  The normal form of a snapshot (\<open>normalizeSnapshot\<close>, \<open>snapshotCopyLocked\<close> and
  \<open>prepareSnapshotForPersistence\<close> of \<open>src/internal/playback/session.go\<close>).  The long body of
  \<open>normalizeSnapshot\<close> is a sequence of stages, one definition each, in the order of the code.

  \<open>normalSnapshot\<close> is the invariant the function establishes: it holds of every result, and a snapshot
  that has it is a fixed point.  Everything a client sees has passed through this function, so these two
  lemmas give each session operation its well-formedness for free.
\<close>

section \<open>Small conversions\<close>

definition currentDuration :: "SessionItem option \<Rightarrow> int option" where
  "currentDuration item =
     (case item of None \<Rightarrow> None
      | Some i \<Rightarrow> if itDurationMS i \<le> 0 then None else Some (itDurationMS i))"

definition normalizeCurrentIndex :: "int \<Rightarrow> int \<Rightarrow> int" where
  "normalizeCurrentIndex n index =
     (if n = 0 then -1 else if index < 0 \<or> n \<le> index then 0 else index)"

definition clampVolume :: "int \<Rightarrow> int" where
  "clampVolume volume = (if volume < 0 then 0 else if volume > 100 then 100 else volume)"

definition currentItemFromEntry :: "SessionEntry option \<Rightarrow> SessionItem option" where
  "currentItemFromEntry entry = map_option enItem entry"

definition laneFromOrigin :: "EntryOrigin \<Rightarrow> CurrentLane" where
  "laneFromOrigin origin = (if origin = OriginQueued then LaneUser else LaneContext)"

definition deriveCurrentLane :: "SessionSnapshot \<Rightarrow> CurrentLane" where
  "deriveCurrentLane s =
     (case snCurrentEntry s of
        Some e \<Rightarrow> laneFromOrigin (enOrigin e)
      | None \<Rightarrow> (case snLoadingEntry s of
          Some e \<Rightarrow> laneFromOrigin (enOrigin e) | None \<Rightarrow> LaneNone))"

definition entryPlan :: "SessionEntry \<Rightarrow> QueuePlan" where
  "entryPlan e = \<lparr>qpEntry = Some e, qpLane = laneFromOrigin (enOrigin e), qpPlanned = True\<rparr>"

definition buildQueuePlanFromSnapshot :: "golib \<Rightarrow> SessionSnapshot \<Rightarrow> QueuePlan option" where
  "buildQueuePlanFromSnapshot L s = map_option entryPlan (firstUpcomingEntry L s)"

definition findEntryByID :: "SessionSnapshot \<Rightarrow> string \<Rightarrow> SessionEntry option" where
  "findEntryByID s entryID =
     (let key = trimSpace entryID in
      if key = '''' then None
      else case find (\<lambda>e. enEntryID e = key) (snUserQueue s) of
        Some e \<Rightarrow> Some e
      | None \<Rightarrow>
          (case (if snContextQueue s = None then None
                 else find (\<lambda>e. enEntryID e = key) (contextAllEntries s)) of
             Some e \<Rightarrow> Some e
           | None \<Rightarrow>
               (case snCurrentEntry s of
                  Some e \<Rightarrow> if enEntryID e = key then Some e else None
                | None \<Rightarrow> None)))"

definition indexOfEntryID :: "SessionEntry list \<Rightarrow> string \<Rightarrow> int" where
  "indexOfEntryID entries entryID =
     (let key = trimSpace entryID in indexWhere (\<lambda>e. enEntryID e = key) entries)"

definition clonePlaybackSkipEvent :: "golib \<Rightarrow> PlaybackSkipEvent option \<Rightarrow> PlaybackSkipEvent option" where
  "clonePlaybackSkipEvent L e =
     map_option (\<lambda>v. v\<lparr>skOccurredAt := normalizeTimestamp L (skOccurredAt v)\<rparr>) e"

definition clearContextShuffleState :: "SessionSnapshot \<Rightarrow> SessionSnapshot" where
  "clearContextShuffleState s =
     s\<lparr>snContextQueue :=
         map_option (\<lambda>q. q\<lparr>cqShuffleBag := [], cqShuffleSeed := 0\<rparr>) (snContextQueue s)\<rparr>"

section \<open>The stages of normalizeSnapshot\<close>

definition normalizeScalars :: "golib \<Rightarrow> SessionSnapshot \<Rightarrow> SessionSnapshot" where
  "normalizeScalars L s =
     s\<lparr>snVolume := clampVolume (snVolume s),
       snUpdatedAt := normalizeTimestamp L (snUpdatedAt s),
       snRepeatMode := (case snRepeatMode s of RepeatOther _ \<Rightarrow> RepeatOff | m \<Rightarrow> m),
       snStatus := (case snStatus s of StatusOther _ \<Rightarrow> StatusIdle | st \<Rightarrow> st),
       snPositionCapturedAtMS :=
         (if snPositionCapturedAtMS s < 0 then 0 else snPositionCapturedAtMS s),
       snNextEntrySeq := (if snNextEntrySeq s \<le> 0 then 1 else snNextEntrySeq s)\<rparr>"

definition normalizeContextEntry :: "int \<Rightarrow> nat \<times> SessionEntry \<Rightarrow> SessionEntry" where
  "normalizeContextEntry windowStart ie =
     (let e = snd ie in
      e\<lparr>enItem := normalizeSessionItem (enItem e), enOrigin := OriginContext,
        enContextIndex := (if enContextIndex e < 0 then windowStart + int (fst ie)
                           else enContextIndex e)\<rparr>)"

definition boundIndex :: "int \<Rightarrow> int \<Rightarrow> int" where
  "boundIndex n i = (if i < -1 \<or> (n > 0 \<and> n \<le> i) then -1 else i)"

definition normalizeContextQueue :: "ContextQueue \<Rightarrow> ContextQueue option" where
  "normalizeContextQueue q =
     (let entries = map (normalizeContextEntry (cqWindowStart q)) (enumerate 0 (cqEntries q));
          descriptorOnly = (cqSource q \<noteq> None \<and> cqAllEntries q = [] \<and> entries = []);
          allEntries = (if cqAllEntries q = [] \<and> \<not> descriptorOnly then entries else cqAllEntries q);
          n = int (length allEntries)
      in if n = 0 \<and> \<not> descriptorOnly then None
         else Some (q\<lparr>
           cqAllEntries := allEntries,
           cqEntries := (if n = 0 then [] else entries),
           cqShuffleBag := (if n > 0 then sanitizeShuffleBag (cqShuffleBag q) n else []),
           cqStartIndex :=
             (if cqStartIndex q < 0 \<or> (n > 0 \<and> n \<le> cqStartIndex q) then 0 else cqStartIndex q),
           cqCurrentIndex := boundIndex n (cqCurrentIndex q),
           cqResumeIndex := boundIndex n (cqResumeIndex q),
           cqTotalCount := (if cqTotalCount q \<le> 0 \<and> n > 0 then n else cqTotalCount q),
           cqWindowStart :=
             (if n = 0 \<or> cqWindowStart q < 0 \<or> n \<le> cqWindowStart q then 0 else cqWindowStart q),
           cqWindowCount :=
             (if n = 0 then 0
              else if cqWindowCount q \<le> 0 then int (length entries) else cqWindowCount q),
           cqHasBefore := (n \<noteq> 0 \<and> cqHasBefore q),
           cqHasAfter := (n \<noteq> 0 \<and> cqHasAfter q)\<rparr>))"

definition normalizeQueuedEntry :: "SessionEntry \<Rightarrow> SessionEntry" where
  "normalizeQueuedEntry e =
     e\<lparr>enItem := normalizeSessionItem (enItem e), enOrigin := OriginQueued, enContextIndex := -1\<rparr>"

definition normalizeQueues :: "golib \<Rightarrow> SessionSnapshot \<Rightarrow> SessionSnapshot" where
  "normalizeQueues L s =
     s\<lparr>snContextQueue := Option.bind (snContextQueue s) normalizeContextQueue,
       snUserQueue := map normalizeQueuedEntry (snUserQueue s),
       snLastSkipEvent := clonePlaybackSkipEvent L (snLastSkipEvent s)\<rparr>"

definition normalizeCurrent :: "SessionSnapshot \<Rightarrow> SessionSnapshot" where
  "normalizeCurrent s =
     (case snCurrentEntry s of
        Some e \<Rightarrow>
          let e' = e\<lparr>enItem := normalizeSessionItem (enItem e)\<rparr> in
          s\<lparr>snCurrentEntryID := (if snCurrentEntryID s = '''' then enEntryID e' else snCurrentEntryID s),
            snCurrentEntry := Some e',
            snCurrentItem := Some (enItem e'),
            snDurationMS := (if snDurationMS s = None then currentDuration (Some (enItem e'))
                             else snDurationMS s),
            snContextQueue :=
              (if entryMatchesContextIndex s e' (enContextIndex e')
               then map_option (\<lambda>q. q\<lparr>cqCurrentIndex := enContextIndex e'\<rparr>) (snContextQueue s)
               else snContextQueue s)\<rparr>
      | None \<Rightarrow>
          s\<lparr>snCurrentEntryID := '''', snCurrentItem := None, snCurrentPreparation := None,
            snStatus := (if snStatus s = StatusPlaying \<or> snStatus s = StatusPending
                         then StatusPaused else snStatus s)\<rparr>)"

definition normalizeLoading :: "SessionSnapshot \<Rightarrow> SessionSnapshot" where
  "normalizeLoading s =
     (case snLoadingEntry s of
        Some e \<Rightarrow>
          let e' = e\<lparr>enItem := normalizeSessionItem (enItem e)\<rparr> in
          s\<lparr>snLoadingEntry := Some e', snLoadingItem := Some (enItem e')\<rparr>
      | None \<Rightarrow> s\<lparr>snLoadingItem := None, snLoadingPreparation := None\<rparr>)"

definition normalizeContextState :: "golib \<Rightarrow> SessionSnapshot \<Rightarrow> SessionSnapshot" where
  "normalizeContextState L s =
     (case snContextQueue s of
        None \<Rightarrow>
          if snCurrentEntry s = None then s\<lparr>snCurrentLane := LaneNone\<rparr> else s
      | Some _ \<Rightarrow>
          let s1 = (if snShuffle s then s else clearContextShuffleState s);
              s2 = s1\<lparr>snContextQueue := map_option
                     (\<lambda>q. if cqTotalCount q \<le> 0 then q\<lparr>cqTotalCount := contextCount s1\<rparr> else q)
                     (snContextQueue s1)\<rparr>
          in if \<not> isSourceBackedContext (snContextQueue s2) \<or> contextAllEntries s2 \<noteq> []
             then s2\<lparr>snContextQueue :=
                    map_option (\<lambda>q. q\<lparr>cqResumeIndex := normalizeResumeContextIndex L s2\<rparr>)
                      (snContextQueue s2)\<rparr>
             else s2)"

definition normalizePosition :: "SessionSnapshot \<Rightarrow> SessionSnapshot" where
  "normalizePosition s =
     (case snDurationMS s of
        Some d \<Rightarrow> if snPositionMS s > d then s\<lparr>snPositionMS := d\<rparr> else s
      | None \<Rightarrow> s)"

definition normalizeIdle :: "SessionSnapshot \<Rightarrow> SessionSnapshot" where
  "normalizeIdle s =
     (let s1 =
        (if snContextQueue s = None \<and> snUserQueue s = [] \<and> snCurrentEntry s = None
            \<and> snLoadingEntry s = None
         then s\<lparr>snStatus := StatusIdle, snPositionMS := 0, snPositionCapturedAtMS := 0,
                snDurationMS := None, snCurrentSourceKind := '''', snNextPreparation := None\<rparr>
         else s)
      in if snLoadingEntry s1 \<noteq> None \<and> snCurrentEntry s1 = None \<and> snStatus s1 \<noteq> StatusPending
         then s1\<lparr>snStatus := StatusPending\<rparr> else s1)"

definition normalizeDerived :: "golib \<Rightarrow> SessionSnapshot \<Rightarrow> SessionSnapshot" where
  "normalizeDerived L s =
     (let s1 = s\<lparr>snUpcomingEntries := []\<rparr>;
          s2 = s1\<lparr>snCurrentLane := deriveCurrentLane s1\<rparr>;
          s3 = s2\<lparr>snNextPlanned := buildQueuePlanFromSnapshot L s2\<rparr>;
          s4 = (case (snPreloadedPlan s3, snNextPreparation s3) of
                  (None, Some p) \<Rightarrow>
                    (case findEntryByID s3 (epEntryID p) of
                       Some e \<Rightarrow> s3\<lparr>snPreloadedPlan := Some (entryPlan e)\<rparr>
                     | None \<Rightarrow> s3)
                | _ \<Rightarrow> s3)
      in s4\<lparr>snQueueLength := queueLength L s4\<rparr>)"

definition normalizeSnapshot :: "golib \<Rightarrow> SessionSnapshot \<Rightarrow> SessionSnapshot" where
  "normalizeSnapshot L s =
     normalizeDerived L (normalizeIdle (normalizePosition (normalizeContextState L
       (normalizeLoading (normalizeCurrent (normalizeQueues L (normalizeScalars L s)))))))"

text \<open>
  \<open>snapshotCopyLocked\<close>: the clones are copies, which a functional value needs not, except that cloning
  the skip event normalises its time once more.
\<close>

definition snapshotCopy :: "golib \<Rightarrow> SessionSnapshot \<Rightarrow> SessionSnapshot" where
  "snapshotCopy L s =
     (let c = normalizeSnapshot L s in
      c\<lparr>snLastSkipEvent := clonePlaybackSkipEvent L (snLastSkipEvent c)\<rparr>)"

definition prepareSnapshotForPersistence :: "golib \<Rightarrow> SessionSnapshot \<Rightarrow> SessionSnapshot" where
  "prepareSnapshotForPersistence L s =
     (let n = normalizeSnapshot L s in
      if isSourceBackedContext (snContextQueue n)
      then n\<lparr>snContextQueue := map_option
             (\<lambda>q. q\<lparr>cqEntries := [], cqAllEntries := [], cqShuffleBag := [], cqWindowStart := 0,
                    cqWindowCount := 0, cqHasBefore := False, cqHasAfter := False,
                    cqLoading := False\<rparr>) (snContextQueue n)\<rparr>
      else n)"

end
