(* ===== verification/SnapshotLaws.thy ===== *)
theory SnapshotLaws
  imports SnapshotNormal
begin

text \<open>
  The invariant \<open>normalSnapshot\<close> of published snapshots, one predicate per stage of
  \<open>normalizeSnapshot\<close>.  The two halves of the contract are \<open>normalizeSnapshot_normal\<close> (every result
  has it) and \<open>normalizeSnapshot_fixed\<close> (a snapshot that has it is unchanged); together they say that
  normalising is idempotent, so that the many places that normalise again do no harm.
\<close>

section \<open>The invariant\<close>

definition normalContextEntry :: "SessionEntry \<Rightarrow> bool" where
  "normalContextEntry e \<longleftrightarrow>
     normalizeSessionItem (enItem e) = enItem e \<and> enOrigin e = OriginContext \<and> 0 \<le> enContextIndex e"

definition normalQueue :: "ContextQueue \<Rightarrow> bool" where
  "normalQueue q \<longleftrightarrow>
     (let n = int (length (cqAllEntries q)) in
      list_all normalContextEntry (cqEntries q)
      \<and> -1 \<le> cqCurrentIndex q \<and> -1 \<le> cqResumeIndex q \<and> 0 \<le> cqStartIndex q
      \<and> (if n = 0
         then cqSource q \<noteq> None \<and> cqEntries q = [] \<and> cqShuffleBag q = [] \<and> cqWindowStart q = 0
              \<and> cqWindowCount q = 0 \<and> \<not> cqHasBefore q \<and> \<not> cqHasAfter q
         else cqStartIndex q < n \<and> cqCurrentIndex q < n \<and> cqResumeIndex q < n
              \<and> sanitizeShuffleBag (cqShuffleBag q) n = cqShuffleBag q \<and> 0 < cqTotalCount q
              \<and> 0 \<le> cqWindowStart q \<and> cqWindowStart q < n
              \<and> (0 < cqWindowCount q \<or> cqWindowCount q = 0 \<and> cqEntries q = [])))"

definition normalScalars :: "golib \<Rightarrow> SessionSnapshot \<Rightarrow> bool" where
  "normalScalars L s \<longleftrightarrow>
     0 \<le> snVolume s \<and> snVolume s \<le> 100 \<and> normalizeTimestamp L (snUpdatedAt s) = snUpdatedAt s
     \<and> snRepeatMode s \<in> {RepeatOff, RepeatAll, RepeatOne}
     \<and> snStatus s \<in> {StatusIdle, StatusPaused, StatusPlaying, StatusPending}
     \<and> 0 \<le> snPositionCapturedAtMS s \<and> 1 \<le> snNextEntrySeq s"

definition normalQueues :: "golib \<Rightarrow> SessionSnapshot \<Rightarrow> bool" where
  "normalQueues L s \<longleftrightarrow>
     (case snContextQueue s of None \<Rightarrow> True | Some q \<Rightarrow> normalQueue q)
     \<and> list_all (\<lambda>e. normalizeQueuedEntry e = e) (snUserQueue s)
     \<and> clonePlaybackSkipEvent L (snLastSkipEvent s) = snLastSkipEvent s"

definition normalCurrent :: "SessionSnapshot \<Rightarrow> bool" where
  "normalCurrent s \<longleftrightarrow>
     (case snCurrentEntry s of
        Some e \<Rightarrow>
          normalizeSessionItem (enItem e) = enItem e \<and> snCurrentItem s = Some (enItem e)
          \<and> (snCurrentEntryID s = '''' \<longrightarrow> enEntryID e = '''')
          \<and> (snDurationMS s = None \<longrightarrow> currentDuration (Some (enItem e)) = None)
          \<and> (entryMatchesContextIndex s e (enContextIndex e) \<longrightarrow>
               currentContextIndex s = enContextIndex e)
      | None \<Rightarrow>
          snCurrentEntryID s = '''' \<and> snCurrentItem s = None \<and> snCurrentPreparation s = None
          \<and> snStatus s \<noteq> StatusPlaying)"

definition normalLoading :: "SessionSnapshot \<Rightarrow> bool" where
  "normalLoading s \<longleftrightarrow>
     (case snLoadingEntry s of
        Some e \<Rightarrow> normalizeSessionItem (enItem e) = enItem e \<and> snLoadingItem s = Some (enItem e)
      | None \<Rightarrow> snLoadingItem s = None \<and> snLoadingPreparation s = None)"

definition normalContextState :: "golib \<Rightarrow> SessionSnapshot \<Rightarrow> bool" where
  "normalContextState L s \<longleftrightarrow>
     (case snContextQueue s of None \<Rightarrow> True
      | Some q \<Rightarrow>
          (snShuffle s \<or> cqShuffleBag q = [] \<and> cqShuffleSeed q = 0)
          \<and> 0 \<le> cqTotalCount q
          \<and> (contextAllEntries s \<noteq> [] \<longrightarrow> cqResumeIndex q = normalizeResumeContextIndex L s))"

definition normalPosition :: "SessionSnapshot \<Rightarrow> bool" where
  "normalPosition s \<longleftrightarrow>
     (case snDurationMS s of None \<Rightarrow> True | Some d \<Rightarrow> snPositionMS s \<le> d)"

definition normalIdle :: "SessionSnapshot \<Rightarrow> bool" where
  "normalIdle s \<longleftrightarrow>
     (if snContextQueue s = None \<and> snUserQueue s = [] \<and> snCurrentEntry s = None
         \<and> snLoadingEntry s = None
      then snStatus s = StatusIdle \<and> snPositionMS s = 0 \<and> snPositionCapturedAtMS s = 0
           \<and> snDurationMS s = None \<and> snCurrentSourceKind s = '''' \<and> snNextPreparation s = None
      else True)
     \<and> (snCurrentEntry s = None \<longrightarrow> (snLoadingEntry s \<noteq> None \<longleftrightarrow> snStatus s = StatusPending))"

definition normalDerived :: "golib \<Rightarrow> SessionSnapshot \<Rightarrow> bool" where
  "normalDerived L s \<longleftrightarrow>
     snUpcomingEntries s = [] \<and> snCurrentLane s = deriveCurrentLane s
     \<and> snNextPlanned s = buildQueuePlanFromSnapshot L s
     \<and> snQueueLength s = queueLength L s
     \<and> (case (snPreloadedPlan s, snNextPreparation s) of
          (None, Some p) \<Rightarrow> findEntryByID s (epEntryID p) = None
        | _ \<Rightarrow> True)"

definition normalSnapshot :: "golib \<Rightarrow> SessionSnapshot \<Rightarrow> bool" where
  "normalSnapshot L s \<longleftrightarrow>
     normalScalars L s \<and> normalQueues L s \<and> normalCurrent s \<and> normalLoading s
     \<and> normalContextState L s \<and> normalPosition s \<and> normalIdle s \<and> normalDerived L s"

text \<open>The window of a stored context starts at a position; the code never stores another.\<close>

definition windowStartOk :: "SessionSnapshot \<Rightarrow> bool" where
  "windowStartOk s \<longleftrightarrow> (case snContextQueue s of None \<Rightarrow> True | Some q \<Rightarrow> 0 \<le> cqWindowStart q)"

section \<open>What the navigation functions read\<close>

definition sameContext :: "SessionSnapshot \<Rightarrow> SessionSnapshot \<Rightarrow> bool" where
  "sameContext s t \<longleftrightarrow>
     snContextQueue s = snContextQueue t \<and> snCurrentEntry s = snCurrentEntry t
     \<and> snShuffle s = snShuffle t \<and> snRepeatMode s = snRepeatMode t"

lemma sameContext_cong:
  assumes "sameContext s t"
  shows "contextAllEntries s = contextAllEntries t" "contextCount s = contextCount t"
    "currentContextIndex s = currentContextIndex t" "resumeContextIndex s = resumeContextIndex t"
    "isValidContextIndex s = isValidContextIndex t"
    "entryMatchesContextIndex s = entryMatchesContextIndex t"
    "currentMatchesContext s = currentMatchesContext t"
    "detachedCurrentContextIndex s = detachedCurrentContextIndex t"
    "effectiveShuffleCycle L s = effectiveShuffleCycle L t"
    "defaultFirstContextIndex L s = defaultFirstContextIndex L t"
proof -
  have e: "snContextQueue s = snContextQueue t" "snCurrentEntry s = snCurrentEntry t"
    "snShuffle s = snShuffle t" "snRepeatMode s = snRepeatMode t"
    using assms by (auto simp: sameContext_def)
  show c: "contextAllEntries s = contextAllEntries t" "contextCount s = contextCount t"
    "currentContextIndex s = currentContextIndex t" "resumeContextIndex s = resumeContextIndex t"
    unfolding contextAllEntries_def contextCount_def currentContextIndex_def resumeContextIndex_def e by (rule refl)+
  show v: "isValidContextIndex s = isValidContextIndex t"
    "entryMatchesContextIndex s = entryMatchesContextIndex t"
    unfolding fun_eq_iff isValidContextIndex_def entryMatchesContextIndex_def contextEntryAt_def e c by simp_all
  show m: "currentMatchesContext s = currentMatchesContext t"
    unfolding currentMatchesContext_def e c v by (rule refl)+
  show "detachedCurrentContextIndex s = detachedCurrentContextIndex t"
    unfolding detachedCurrentContextIndex_def e m by (rule refl)+
  show y: "effectiveShuffleCycle L s = effectiveShuffleCycle L t"
    unfolding effectiveShuffleCycle_def shuffleBag_def shuffleAnchorIndex_def e c v by (rule refl)+
  show "defaultFirstContextIndex L s = defaultFirstContextIndex L t"
    unfolding defaultFirstContextIndex_def e c y by (rule refl)+
qed

lemma sameContext_resume:
  assumes "sameContext s t"
  shows "nextContextIndexFromAnchor L s = nextContextIndexFromAnchor L t"
    "nextDetachedContextResumeIndex L s = nextDetachedContextResumeIndex L t"
    "normalizeResumeContextIndex L s = normalizeResumeContextIndex L t"
proof -
  have e: "snContextQueue s = snContextQueue t" "snCurrentEntry s = snCurrentEntry t"
    "snShuffle s = snShuffle t" "snRepeatMode s = snRepeatMode t"
    using assms by (auto simp: sameContext_def)
  note c = sameContext_cong [OF assms]
  show n: "nextContextIndexFromAnchor L s = nextContextIndexFromAnchor L t"
    "nextDetachedContextResumeIndex L s = nextDetachedContextResumeIndex L t"
    unfolding fun_eq_iff nextContextIndexFromAnchor_def nextDetachedContextResumeIndex_def e c by simp_all
  show "normalizeResumeContextIndex L s = normalizeResumeContextIndex L t"
    unfolding normalizeResumeContextIndex_def e c n by (rule refl)+
qed

lemma sameContext_upcoming:
  assumes "sameContext s t" "snUserQueue s = snUserQueue t"
  shows "firstUpcomingEntry L s = firstUpcomingEntry L t" "queueLength L s = queueLength L t"
    "buildUpcomingEntries L s = buildUpcomingEntries L t" "nextActionCount L s = nextActionCount L t"
    "findEntryByID s = findEntryByID t"
proof -
  have e: "snContextQueue s = snContextQueue t" "snCurrentEntry s = snCurrentEntry t"
    "snShuffle s = snShuffle t" "snRepeatMode s = snRepeatMode t"
    using assms by (auto simp: sameContext_def)
  note c = sameContext_cong [OF assms(1)] sameContext_resume [OF assms(1)]
  show b: "buildUpcomingEntries L s = buildUpcomingEntries L t"
    unfolding buildUpcomingEntries_def cycleEntries_def e c assms(2) by (rule refl)
  show "firstUpcomingEntry L s = firstUpcomingEntry L t"
    unfolding firstUpcomingEntry_eq b by (rule refl)
  show "queueLength L s = queueLength L t" "nextActionCount L s = nextActionCount L t"
    unfolding queueLength_def nextActionCount_def upcomingEntryCount_eq b e by (rule refl)+
  show "findEntryByID s = findEntryByID t"
    unfolding fun_eq_iff findEntryByID_def e c assms(2) by simp
qed


section \<open>The context queue\<close>

lemma boundIndex_range: "-1 \<le> boundIndex n i" "n > 0 \<Longrightarrow> boundIndex n i < n"
  by (auto simp: boundIndex_def)

lemma boundIndex_fixed: "-1 \<le> i \<Longrightarrow> n > 0 \<longrightarrow> i < n \<Longrightarrow> boundIndex n i = i"
  by (auto simp: boundIndex_def)

lemma normalContextEntries:
  assumes "0 \<le> w"
  shows "list_all normalContextEntry (map (normalizeContextEntry w) (enumerate k es))"
  using assms
  by (induction es arbitrary: k) (auto simp: normalizeContextEntry_def normalContextEntry_def Let_def)

lemma normalizeContextEntries_fixed:
  "list_all normalContextEntry es \<Longrightarrow> map (normalizeContextEntry w) (enumerate k es) = es"
  by (induction es arbitrary: k)
     (auto simp: normalizeContextEntry_def normalContextEntry_def Let_def)

lemma sanitize_zero [simp]: "sanitizeShuffleBag bag 0 = []"
  by (simp add: sanitizeShuffleBag_def)

lemma normalizeContextQueue_empty:
  assumes "cqAllEntries q = []" "cqEntries q = []"
  shows "normalizeContextQueue q =
    (if cqSource q = None then None
     else Some (q\<lparr>cqAllEntries := [], cqEntries := [], cqShuffleBag := [],
       cqStartIndex := (if cqStartIndex q < 0 then 0 else cqStartIndex q),
       cqCurrentIndex := boundIndex 0 (cqCurrentIndex q),
       cqResumeIndex := boundIndex 0 (cqResumeIndex q), cqTotalCount := cqTotalCount q,
       cqWindowStart := 0, cqWindowCount := 0, cqHasBefore := False, cqHasAfter := False\<rparr>))"
  using assms by (simp add: normalizeContextQueue_def Let_def)

lemma normalizeContextQueue_full:
  assumes "cqAllEntries q \<noteq> [] \<or> cqEntries q \<noteq> []"
    and "es = map (normalizeContextEntry (cqWindowStart q)) (enumerate 0 (cqEntries q))"
    and "all = (if cqAllEntries q = [] then es else cqAllEntries q)"
    and "n = int (length all)"
  shows "0 < n" "normalizeContextQueue q = Some (q\<lparr>
           cqAllEntries := all, cqEntries := es,
           cqShuffleBag := sanitizeShuffleBag (cqShuffleBag q) n,
           cqStartIndex := (if cqStartIndex q < 0 \<or> n \<le> cqStartIndex q then 0 else cqStartIndex q),
           cqCurrentIndex := boundIndex n (cqCurrentIndex q),
           cqResumeIndex := boundIndex n (cqResumeIndex q),
           cqTotalCount := (if cqTotalCount q \<le> 0 then n else cqTotalCount q),
           cqWindowStart := (if cqWindowStart q < 0 \<or> n \<le> cqWindowStart q then 0 else cqWindowStart q),
           cqWindowCount := (if cqWindowCount q \<le> 0 then int (length es) else cqWindowCount q),
           cqHasBefore := cqHasBefore q, cqHasAfter := cqHasAfter q\<rparr>)"
proof -
  show n: "0 < n" using assms by (cases "cqEntries q") auto
  have "es = [] \<longleftrightarrow> cqEntries q = []" using assms(2) by (cases "cqEntries q") simp_all
  with assms(1,3) have d: "\<not> (cqSource q \<noteq> None \<and> cqAllEntries q = [] \<and> es = [])" by auto
  have a: "(if cqAllEntries q = [] \<and> \<not> (cqSource q \<noteq> None \<and> cqAllEntries q = [] \<and> es = [])
      then es else cqAllEntries q) = all"
    using d assms(3) by auto
  show "normalizeContextQueue q = Some (q\<lparr>
           cqAllEntries := all, cqEntries := es,
           cqShuffleBag := sanitizeShuffleBag (cqShuffleBag q) n,
           cqStartIndex := (if cqStartIndex q < 0 \<or> n \<le> cqStartIndex q then 0 else cqStartIndex q),
           cqCurrentIndex := boundIndex n (cqCurrentIndex q),
           cqResumeIndex := boundIndex n (cqResumeIndex q),
           cqTotalCount := (if cqTotalCount q \<le> 0 then n else cqTotalCount q),
           cqWindowStart := (if cqWindowStart q < 0 \<or> n \<le> cqWindowStart q then 0 else cqWindowStart q),
           cqWindowCount := (if cqWindowCount q \<le> 0 then int (length es) else cqWindowCount q),
           cqHasBefore := cqHasBefore q, cqHasAfter := cqHasAfter q\<rparr>)"
    unfolding normalizeContextQueue_def Let_def assms(2) [symmetric] a assms(4) [symmetric]
    using n by simp
qed

lemma normalizeContextQueue_normal:
  assumes "normalizeContextQueue q = Some q'" "0 \<le> cqWindowStart q"
  shows "normalQueue q'"
proof (cases "cqAllEntries q \<noteq> [] \<or> cqEntries q \<noteq> []")
  case True
  note f = normalizeContextQueue_full [OF True refl refl refl]
  note e = normalContextEntries [OF assms(2), of 0 "cqEntries q"]
  have q': "q' = the (normalizeContextQueue q)" using assms(1) by simp
  show ?thesis
    using f(1) e assms(2) boundIndex_range(1) boundIndex_range(2) [OF f(1)]
    unfolding q' f(2) by (simp add: normalQueue_def Let_def)
next
  case False
  then show ?thesis
    using assms(1) boundIndex_range(1) [of 0]
    by (auto simp: normalizeContextQueue_empty normalQueue_def split: if_splits)
qed

lemma normalizeContextQueue_fixed:
  assumes "normalQueue q"
  shows "normalizeContextQueue q = Some q"
proof (cases "cqAllEntries q = []")
  case True
  then show ?thesis
    using assms by (cases q) (simp add: normalQueue_def normalizeContextQueue_empty boundIndex_fixed)
next
  case False
  have e: "cqEntries q = map (normalizeContextEntry (cqWindowStart q)) (enumerate 0 (cqEntries q))"
    using assms by (subst normalizeContextEntries_fixed) (simp_all add: normalQueue_def Let_def)
  have a: "cqAllEntries q = (if cqAllEntries q = [] then cqEntries q else cqAllEntries q)"
    using False by simp
  note f = normalizeContextQueue_full [OF disjI1 [OF False] e a refl]
  show ?thesis
    unfolding f(2) using assms False by (cases q) (auto simp: normalQueue_def Let_def boundIndex_fixed)
qed

lemma normalQueue_indexes:
  assumes "normalQueue q" "cqAllEntries q \<noteq> []"
    "i = -1 \<or> 0 \<le> i \<and> i < int (length (cqAllEntries q))"
  shows "normalQueue (q\<lparr>cqCurrentIndex := i\<rparr>)" "normalQueue (q\<lparr>cqResumeIndex := i\<rparr>)"
  using assms by (auto simp: normalQueue_def Let_def)

lemma normalQueue_all:
  "normalQueue q \<Longrightarrow> snContextQueue s = Some q \<Longrightarrow> contextAllEntries s = cqAllEntries q"
  by (auto simp: contextAllEntries_def normalQueue_def Let_def split: if_splits)

section \<open>The stages establish their parts\<close>

lemma scalars_normal: "rfcRoundTrip L \<Longrightarrow> normalScalars L (normalizeScalars L s)"
  by (auto simp: normalScalars_def normalizeScalars_def clampVolume_def normalizeTimestamp_idem
      split: RepeatMode.splits Status.splits)

lemma cloneSkip_idem:
  "rfcRoundTrip L \<Longrightarrow>
   clonePlaybackSkipEvent L (clonePlaybackSkipEvent L e) = clonePlaybackSkipEvent L e"
  by (cases e) (simp_all add: clonePlaybackSkipEvent_def normalizeTimestamp_idem)

lemma queuedEntry_idem [simp]:
  "normalizeQueuedEntry (normalizeQueuedEntry e) = normalizeQueuedEntry e"
  by (simp add: normalizeQueuedEntry_def)

lemma queues_normal:
  assumes "rfcRoundTrip L" "windowStartOk s"
  shows "normalQueues L (normalizeQueues L s)"
  using assms normalizeContextQueue_normal
  by (auto simp: normalQueues_def normalizeQueues_def cloneSkip_idem windowStartOk_def list_all_iff
      split: option.splits)

lemma scalars_queues: "normalScalars L s \<Longrightarrow> normalScalars L (normalizeQueues L s)"
  by (simp add: normalScalars_def normalizeQueues_def)

lemma scalars_windowStart: "windowStartOk (normalizeScalars L s) = windowStartOk s"
  by (simp add: windowStartOk_def normalizeScalars_def)


section \<open>Updates of one position of the context\<close>

definition setCurrentIndex :: "int \<Rightarrow> SessionSnapshot \<Rightarrow> SessionSnapshot" where
  "setCurrentIndex i s =
     s\<lparr>snContextQueue := map_option (\<lambda>q. q\<lparr>cqCurrentIndex := i\<rparr>) (snContextQueue s)\<rparr>"

definition setResumeIndex :: "int \<Rightarrow> SessionSnapshot \<Rightarrow> SessionSnapshot" where
  "setResumeIndex i s =
     s\<lparr>snContextQueue := map_option (\<lambda>q. q\<lparr>cqResumeIndex := i\<rparr>) (snContextQueue s)\<rparr>"

lemma index_entries [simp]:
  "contextAllEntries (setCurrentIndex i s) = contextAllEntries s"
  "contextAllEntries (setResumeIndex i s) = contextAllEntries s"
  "contextCount (setCurrentIndex i s) = contextCount s"
  "contextCount (setResumeIndex i s) = contextCount s"
  "shuffleBag (setCurrentIndex i s) = shuffleBag s"
  "shuffleBag (setResumeIndex i s) = shuffleBag s"
  by (cases "snContextQueue s";
      simp add: contextAllEntries_def contextCount_def shuffleBag_def setCurrentIndex_def
        setResumeIndex_def)+

lemma resume_reads [simp]:
  "snCurrentEntry (setResumeIndex i s) = snCurrentEntry s"
  "snShuffle (setResumeIndex i s) = snShuffle s"
  "snRepeatMode (setResumeIndex i s) = snRepeatMode s"
  "snContextQueue (setResumeIndex i s) = None \<longleftrightarrow> snContextQueue s = None"
  "currentContextIndex (setResumeIndex i s) = currentContextIndex s"
  "isValidContextIndex (setResumeIndex i s) = isValidContextIndex s"
  "entryMatchesContextIndex (setResumeIndex i s) = entryMatchesContextIndex s"
  "currentMatchesContext (setResumeIndex i s) = currentMatchesContext s"
proof -
  show a: "snCurrentEntry (setResumeIndex i s) = snCurrentEntry s"
    "snShuffle (setResumeIndex i s) = snShuffle s"
    "snRepeatMode (setResumeIndex i s) = snRepeatMode s"
    "snContextQueue (setResumeIndex i s) = None \<longleftrightarrow> snContextQueue s = None"
    "currentContextIndex (setResumeIndex i s) = currentContextIndex s"
    by (simp_all add: setResumeIndex_def currentContextIndex_def split: option.split)
  show v: "isValidContextIndex (setResumeIndex i s) = isValidContextIndex s"
    "entryMatchesContextIndex (setResumeIndex i s) = entryMatchesContextIndex s"
    unfolding fun_eq_iff isValidContextIndex_def entryMatchesContextIndex_def contextEntryAt_def
      a index_entries by simp_all
  show "currentMatchesContext (setResumeIndex i s) = currentMatchesContext s"
    unfolding currentMatchesContext_def a v by (rule refl)
qed

lemma resume_queue:
  "snContextQueue (setResumeIndex i s) = map_option (\<lambda>q. q\<lparr>cqResumeIndex := i\<rparr>) (snContextQueue s)"
  by (simp add: setResumeIndex_def)

lemma resume_detached [simp]:
  "detachedCurrentContextIndex (setResumeIndex i s) = detachedCurrentContextIndex s"
  unfolding detachedCurrentContextIndex_def resume_reads resume_queue
  by (cases "snContextQueue s"; cases "snCurrentEntry s"; simp)

lemma resumeIndex_set: "snContextQueue s \<noteq> None \<Longrightarrow> resumeContextIndex (setResumeIndex i s) = i"
  by (auto simp: resumeContextIndex_def setResumeIndex_def)

lemma cycle_resume:
  assumes "isValidContextIndex s (currentContextIndex s)"
  shows "effectiveShuffleCycle L (setResumeIndex i s) = effectiveShuffleCycle L s"
  using assms
  unfolding effectiveShuffleCycle_def shuffleAnchorIndex_def index_entries resume_reads resume_queue
  by (cases "snContextQueue s") (simp_all add: Let_def split: if_split)

lemma defaultFirst_resume:
  "isValidContextIndex s (currentContextIndex s) \<Longrightarrow>
   defaultFirstContextIndex L (setResumeIndex i s) = defaultFirstContextIndex L s"
  unfolding defaultFirstContextIndex_def by (simp add: cycle_resume)

lemma next_resume:
  assumes "isValidContextIndex s (currentContextIndex s)"
  shows "nextContextIndexFromAnchor L (setResumeIndex i s) a b = nextContextIndexFromAnchor L s a b"
  unfolding nextContextIndexFromAnchor_def cycle_resume [OF assms] defaultFirst_resume [OF assms]
    resume_reads index_entries by (rule refl)

lemma defaultFirst_linear:
  "\<not> snShuffle s \<Longrightarrow> defaultFirstContextIndex L (setResumeIndex i s) = defaultFirstContextIndex L s"
  by (simp add: defaultFirstContextIndex_def)

lemma nextDetached_fixed:
  assumes "snContextQueue s \<noteq> None" "nextDetachedContextResumeIndex L s d = r"
  shows "nextDetachedContextResumeIndex L (setResumeIndex r s) d = r"
proof (cases "snShuffle s \<and> contextAllEntries s \<noteq> []")
  case True
  then have "isValidContextIndex s r"
    using assms(2) defaultFirst_range(1) [of s L]
    by (auto simp: nextDetachedContextResumeIndex_def split: if_splits)
  with True show ?thesis
    by (simp add: nextDetachedContextResumeIndex_def resumeIndex_set assms(1))
next
  case False
  with assms(2) show ?thesis
    by (auto simp: nextDetachedContextResumeIndex_def defaultFirst_linear)
qed

text \<open>A recomputed resume position is a fixed point of the computation.\<close>

lemma normalizeResume_fixed:
  assumes "normalizeResumeContextIndex L s = r"
  shows "normalizeResumeContextIndex L (setResumeIndex r s) = r"
proof (cases "snContextQueue s = None \<or> contextAllEntries s = []")
  case True
  with assms show ?thesis by (auto simp: normalizeResumeContextIndex_def)
next
  case ne: False
  then obtain y where q: "snContextQueue s = Some y" by auto
  show ?thesis
  proof (cases "currentMatchesContext s")
    case True
    then have "isValidContextIndex s (currentContextIndex s)" by (simp add: matches_valid)
    with True ne assms show ?thesis
      by (auto simp: normalizeResumeContextIndex_def next_resume)
  next
    case m: False
    show ?thesis
    proof (cases "detachedCurrentContextIndex s \<ge> 0")
      case True
      with m ne assms show ?thesis
        by (auto simp: normalizeResumeContextIndex_def intro!: nextDetached_fixed)
    next
      case d: False
      show ?thesis
      proof (cases "(case snCurrentEntry s of None \<Rightarrow> False | Some e \<Rightarrow> enOrigin e \<noteq> OriginContext)
          \<and> isValidContextIndex s (currentContextIndex s)")
        case True
        with m d ne assms show ?thesis
          by (auto simp: normalizeResumeContextIndex_def next_resume)
      next
        case o: False
        with m d ne assms have "isValidContextIndex s r"
          using defaultFirst_range(1) [of s L]
          unfolding normalizeResumeContextIndex_def by (simp split: if_splits)
        with m d o ne q show ?thesis
          unfolding normalizeResumeContextIndex_def resume_reads index_entries resume_detached
          by (simp only: if_False simp_thms resumeIndex_set option.distinct if_True)
      qed
    qed
  qed
qed


section \<open>The later stages\<close>

definition quietStatus :: "SessionSnapshot \<Rightarrow> bool" where
  "quietStatus s \<longleftrightarrow>
     (snCurrentEntry s = None \<longrightarrow> snStatus s \<noteq> StatusPlaying \<and> snStatus s \<noteq> StatusPending)"

lemma entryMatches_item [simp]:
  "entryMatchesContextIndex s (e\<lparr>enItem := i\<rparr>) = entryMatchesContextIndex s e"
  by (cases "snContextQueue s") (simp_all add: fun_eq_iff entryMatchesContextIndex_def)

lemma entryMatches_fields:
  assumes "contextAllEntries s = contextAllEntries t"
    "snContextQueue s = None \<longleftrightarrow> snContextQueue t = None"
  shows "entryMatchesContextIndex s = entryMatchesContextIndex t"
  unfolding fun_eq_iff entryMatchesContextIndex_def contextCount_def contextEntryAt_def assms by simp

lemma entryMatches_range:
  "entryMatchesContextIndex s e i \<Longrightarrow> 0 \<le> i \<and> i < int (length (contextAllEntries s))"
  by (auto simp: entryMatchesContextIndex_def contextCount_def split: if_splits)

lemma normalQueue_setCurrent:
  assumes "normalQueue q" "snContextQueue s = Some q" "entryMatchesContextIndex s e i"
  shows "normalQueue (q\<lparr>cqCurrentIndex := i\<rparr>)"
proof -
  have "contextAllEntries s = cqAllEntries q" using normalQueue_all assms by simp
  with entryMatches_range [OF assms(3)] show ?thesis
    by (intro normalQueue_indexes(1) [OF assms(1)]) auto
qed

lemma current_stage:
  assumes "normalScalars L s" "normalQueues L s"
  shows "normalScalars L (normalizeCurrent s)" "normalQueues L (normalizeCurrent s)"
    "normalCurrent (normalizeCurrent s)" "quietStatus (normalizeCurrent s)"
proof -
  show "normalScalars L (normalizeCurrent s)"
    using assms(1) by (auto simp: normalizeCurrent_def normalScalars_def Let_def split: option.splits)
  show "normalQueues L (normalizeCurrent s)"
    using assms(2) normalQueue_setCurrent
    by (cases "snContextQueue s"; cases "snCurrentEntry s")
       (auto simp: normalizeCurrent_def normalQueues_def Let_def)
  show "quietStatus (normalizeCurrent s)"
    by (auto simp: normalizeCurrent_def quietStatus_def Let_def split: option.splits)
  show "normalCurrent (normalizeCurrent s)"
  proof (cases "snCurrentEntry s")
    case None
    then show ?thesis by (simp add: normalizeCurrent_def normalCurrent_def)
  next
    case (Some e)
    let ?i = "enContextIndex e"
    have m: "entryMatchesContextIndex (normalizeCurrent s) = entryMatchesContextIndex s"
      by (rule entryMatches_fields)
         (auto simp: normalizeCurrent_def Some contextAllEntries_def Let_def split: option.splits)
    have c: "entryMatchesContextIndex s e ?i \<Longrightarrow> currentContextIndex (normalizeCurrent s) = ?i"
      by (auto simp: normalizeCurrent_def Some Let_def currentContextIndex_def
          entryMatchesContextIndex_def split: option.splits if_splits)
    show ?thesis
      unfolding normalCurrent_def m using c
      by (auto simp: normalizeCurrent_def Some Let_def)
  qed
qed

lemma current_frame:
  assumes "snContextQueue s = snContextQueue t" "snCurrentEntry s = snCurrentEntry t"
    "snCurrentItem s = snCurrentItem t" "snCurrentEntryID s = snCurrentEntryID t"
    "snCurrentPreparation s = snCurrentPreparation t"
    "snCurrentEntry t \<noteq> None \<longrightarrow> snDurationMS s = snDurationMS t"
    "snCurrentEntry t = None \<longrightarrow> snStatus s \<noteq> StatusPlaying"
  shows "normalCurrent t \<Longrightarrow> normalCurrent s"
proof -
  assume n: "normalCurrent t"
  have a: "contextAllEntries s = contextAllEntries t" "currentContextIndex s = currentContextIndex t"
    unfolding contextAllEntries_def currentContextIndex_def assms(1) by (rule refl)+
  have m: "entryMatchesContextIndex s = entryMatchesContextIndex t"
    by (rule entryMatches_fields) (simp_all add: a assms(1))
  show ?thesis
    using n assms(2-7) unfolding normalCurrent_def a m
    by (cases "snCurrentEntry t") auto
qed

lemma loading_stage:
  assumes "normalScalars L s" "normalQueues L s" "normalCurrent s" "quietStatus s"
  shows "normalScalars L (normalizeLoading s)" "normalQueues L (normalizeLoading s)"
    "normalCurrent (normalizeLoading s)" "quietStatus (normalizeLoading s)"
    "normalLoading (normalizeLoading s)"
proof -
  show "normalScalars L (normalizeLoading s)" "normalQueues L (normalizeLoading s)"
    "quietStatus (normalizeLoading s)" "normalLoading (normalizeLoading s)"
    using assms
    by (auto simp: normalizeLoading_def normalScalars_def normalQueues_def quietStatus_def
        normalLoading_def Let_def split: option.splits)
  show "normalCurrent (normalizeLoading s)"
    by (rule current_frame [OF _ _ _ _ _ _ _ assms(3)])
       (use assms(4) in \<open>auto simp: normalizeLoading_def Let_def quietStatus_def split: option.splits\<close>)
qed


definition contextStateQueue :: "SessionSnapshot \<Rightarrow> ContextQueue \<Rightarrow> ContextQueue" where
  "contextStateQueue s q =
     (let q1 = (if snShuffle s then q else q\<lparr>cqShuffleBag := [], cqShuffleSeed := 0\<rparr>) in
      if cqTotalCount q \<le> 0 then q1\<lparr>cqTotalCount := contextCount s\<rparr> else q1)"

lemma contextStateQueue_normal:
  assumes "normalQueue q" "snContextQueue s = Some q"
  shows "normalQueue (contextStateQueue s q)"
    "contextAllEntries (s\<lparr>snContextQueue := Some (contextStateQueue s q)\<rparr>) = contextAllEntries s"
    "snShuffle s \<or> cqShuffleBag (contextStateQueue s q) = [] \<and> cqShuffleSeed (contextStateQueue s q) = 0"
    "0 \<le> cqTotalCount (contextStateQueue s q)"
    "cqCurrentIndex (contextStateQueue s q) = cqCurrentIndex q"
proof -
  have n: "contextCount s = int (length (cqAllEntries q))"
    using normalQueue_all [OF assms] by (simp add: contextCount_def)
  show "normalQueue (contextStateQueue s q)"
    using assms(1) n sanitize_idem [of "[]"]
    by (auto simp: contextStateQueue_def normalQueue_def Let_def sanitizeShuffleBag_def)
  show "contextAllEntries (s\<lparr>snContextQueue := Some (contextStateQueue s q)\<rparr>) = contextAllEntries s"
    by (simp add: contextAllEntries_def contextStateQueue_def Let_def assms(2))
qed (auto simp: contextStateQueue_def Let_def contextCount_def)

lemma contextState_eq:
  assumes "normalQueue q" "snContextQueue s = Some q"
    and "s2 = s\<lparr>snContextQueue := Some (contextStateQueue s q)\<rparr>"
  shows "normalizeContextState L s =
    (if contextAllEntries s = [] then s2 else setResumeIndex (normalizeResumeContextIndex L s2) s2)"
proof -
  note n = contextStateQueue_normal [OF assms(1,2)]
  let ?s1 = "if snShuffle s then s else clearContextShuffleState s"
  have c1: "contextCount ?s1 = contextCount s"
    by (simp add: contextCount_def contextAllEntries_def clearContextShuffleState_def assms(2))
  have e: "?s1\<lparr>snContextQueue := map_option
      (\<lambda>q. if cqTotalCount q \<le> 0 then q\<lparr>cqTotalCount := contextCount ?s1\<rparr> else q)
      (snContextQueue ?s1)\<rparr> = s2"
    unfolding c1 assms(3)
    by (simp add: clearContextShuffleState_def contextStateQueue_def Let_def assms(2))
  have q2: "snContextQueue s2 = Some (contextStateQueue s q)" by (simp add: assms(3))
  have b: "\<not> isSourceBackedContext (snContextQueue s2) \<Longrightarrow> contextAllEntries s \<noteq> []"
    using n(1) n(2) normalQueue_all [OF n(1) q2] assms(3)
    by (auto simp: isSourceBackedContext_def q2 normalQueue_def Let_def split: if_splits)
  have "normalizeContextState L s =
    (if \<not> isSourceBackedContext (snContextQueue s2) \<or> contextAllEntries s2 \<noteq> []
     then setResumeIndex (normalizeResumeContextIndex L s2) s2 else s2)"
    unfolding normalizeContextState_def Let_def e by (simp add: assms(2) setResumeIndex_def)
  then show ?thesis using b n(2) assms(3) by auto
qed

lemma contextState_none:
  "snContextQueue s = None \<Longrightarrow> normalizeContextState L s = s\<lparr>snCurrentLane :=
     (if snCurrentEntry s = None then LaneNone else snCurrentLane s)\<rparr>"
  by (simp add: normalizeContextState_def)

lemma contextState_stage:
  assumes "normalScalars L s" "normalQueues L s" "normalCurrent s" "quietStatus s" "normalLoading s"
  defines "t \<equiv> normalizeContextState L s"
  shows "normalScalars L t" "normalQueues L t" "normalCurrent t" "quietStatus t" "normalLoading t"
    "normalContextState L t"
proof -
  have "normalScalars L t \<and> normalQueues L t \<and> normalCurrent t \<and> quietStatus t \<and> normalLoading t
    \<and> normalContextState L t"
  proof (cases "snContextQueue s")
    case None
    have "normalCurrent t"
      by (rule current_frame [OF _ _ _ _ _ _ _ assms(3)])
         (use assms(4) in \<open>simp_all add: t_def contextState_none None quietStatus_def\<close>)
    with assms(1-5) None show ?thesis
      by (cases "snLoadingEntry s")
         (simp_all add: t_def contextState_none normalScalars_def normalQueues_def quietStatus_def
          normalLoading_def normalContextState_def)
  next
    case (Some q)
    then have nq: "normalQueue q" using assms(2) by (simp add: normalQueues_def)
    define s2 where "s2 = s\<lparr>snContextQueue := Some (contextStateQueue s q)\<rparr>"
    note n = contextStateQueue_normal [OF nq Some]
    define q2 where "q2 = contextStateQueue s q"
    define r where "r = normalizeResumeContextIndex L s2"
    have q2s: "snContextQueue s2 = Some q2" by (simp add: s2_def q2_def)
    have e2: "contextAllEntries s2 = contextAllEntries s" using n(2) by (simp add: s2_def)
    have t: "t = (if contextAllEntries s = [] then s2 else setResumeIndex r s2)"
      using contextState_eq [OF nq Some s2_def, of L] by (simp add: t_def r_def)
    have r1: "r = -1 \<or> 0 \<le> r \<and> r < int (length (contextAllEntries s))"
      using normalizeResume_range [of L s2] by (simp add: r_def valid_iff e2)
    have all: "contextAllEntries s = cqAllEntries q2"
      using normalQueue_all [OF n(1) [folded q2_def] q2s] e2 by simp
    have "normalCurrent t"
    proof -
      have a: "contextAllEntries t = contextAllEntries s" using e2 by (simp add: t)
      have c: "currentContextIndex t = currentContextIndex s"
        using n(5) by (simp add: t currentContextIndex_def Some resume_queue q2s q2_def)
      have m: "entryMatchesContextIndex t = entryMatchesContextIndex s"
        by (rule entryMatches_fields [OF a]) (simp add: t q2s Some resume_queue)
      show ?thesis using assms(3) unfolding normalCurrent_def m c
        by (cases "snCurrentEntry s") (simp_all add: t s2_def setResumeIndex_def)
    qed
    moreover have "normalContextState L t"
    proof (cases "contextAllEntries s = []")
      case True
      then have "contextAllEntries t = []" by (simp add: t e2)
      with n(3,4) True show ?thesis
        by (simp add: normalContextState_def) (simp add: t s2_def)
    next
      case False
      have "normalizeResumeContextIndex L t = r"
        using normalizeResume_fixed [of L s2 r] False by (simp add: t r_def)
      with False n(3,4) show ?thesis
        by (simp add: t normalContextState_def resume_queue q2s) (simp add: q2_def s2_def)
    qed
    moreover have "normalQueues L t"
      using assms(2) n(1) normalQueue_indexes(2) [OF n(1), of r] all r1 e2
      by (auto simp: t normalQueues_def resume_queue q2s) (simp_all add: s2_def q2_def setResumeIndex_def)
    ultimately show ?thesis
      using assms(1,4,5)
      by (cases "snLoadingEntry s")
         (simp_all add: t s2_def setResumeIndex_def normalScalars_def quietStatus_def normalLoading_def)
  qed
  then show "normalScalars L t" "normalQueues L t" "normalCurrent t" "quietStatus t" "normalLoading t"
    "normalContextState L t" by auto
qed


lemma contextState_frame:
  assumes "snContextQueue s = snContextQueue t" "snCurrentEntry s = snCurrentEntry t"
    "snShuffle s = snShuffle t" "snRepeatMode s = snRepeatMode t"
  shows "normalContextState L s = normalContextState L t"
proof -
  have c: "sameContext s t" using assms by (simp add: sameContext_def)
  show ?thesis
    unfolding normalContextState_def assms sameContext_resume [OF c] sameContext_cong [OF c]
    by (rule refl)
qed

lemma position_stage:
  assumes "normalScalars L s" "normalQueues L s" "normalCurrent s" "quietStatus s" "normalLoading s"
    "normalContextState L s"
  shows "normalScalars L (normalizePosition s)" "normalQueues L (normalizePosition s)"
    "normalCurrent (normalizePosition s)" "quietStatus (normalizePosition s)"
    "normalLoading (normalizePosition s)" "normalContextState L (normalizePosition s)"
    "normalPosition (normalizePosition s)"
proof -
  have e: "\<exists>p. normalizePosition s = s\<lparr>snPositionMS := p\<rparr>"
    by (auto simp: normalizePosition_def intro: exI [of _ "snPositionMS s"] split: option.splits)
  then obtain p where p: "normalizePosition s = s\<lparr>snPositionMS := p\<rparr>" ..
  show "normalCurrent (normalizePosition s)"
    by (rule current_frame [OF _ _ _ _ _ _ _ assms(3)])
       (use assms(4) in \<open>simp_all add: p quietStatus_def\<close>)
  show "normalContextState L (normalizePosition s)"
    using assms(6) by (simp add: p contextState_frame [of "s\<lparr>snPositionMS := p\<rparr>" s])
  show "normalPosition (normalizePosition s)"
    by (cases "snDurationMS s") (simp_all add: normalizePosition_def normalPosition_def)
  show "normalScalars L (normalizePosition s)" "normalQueues L (normalizePosition s)"
    "quietStatus (normalizePosition s)" using assms(1,2,4)
    by (simp_all add: p normalScalars_def normalQueues_def quietStatus_def)
  show "normalLoading (normalizePosition s)"
    using assms(5) by (cases "snLoadingEntry s") (simp_all add: p normalLoading_def)
qed

lemma status_same: "snStatus s = x \<Longrightarrow> s\<lparr>snStatus := x\<rparr> = s"
  by (cases s) simp

lemma idle_cases:
  obtains (idle) "snContextQueue s = None" "snUserQueue s = []" "snCurrentEntry s = None"
      "snLoadingEntry s = None"
      "normalizeIdle s = s\<lparr>snStatus := StatusIdle, snPositionMS := 0, snPositionCapturedAtMS := 0,
         snDurationMS := None, snCurrentSourceKind := '''', snNextPreparation := None\<rparr>"
    | (pending) "snLoadingEntry s \<noteq> None" "snCurrentEntry s = None"
      "normalizeIdle s = s\<lparr>snStatus := StatusPending\<rparr>"
    | (same) "snCurrentEntry s \<noteq> None
        \<or> snLoadingEntry s = None \<and> (snContextQueue s \<noteq> None \<or> snUserQueue s \<noteq> [])"
      "normalizeIdle s = s"
proof (cases "snContextQueue s = None \<and> snUserQueue s = [] \<and> snCurrentEntry s = None
    \<and> snLoadingEntry s = None")
  case True
  then show thesis by (intro idle) (simp_all add: normalizeIdle_def)
next
  case False
  then have n: "normalizeIdle s = (if snLoadingEntry s \<noteq> None \<and> snCurrentEntry s = None
      \<and> snStatus s \<noteq> StatusPending then s\<lparr>snStatus := StatusPending\<rparr> else s)"
    unfolding normalizeIdle_def Let_def by (simp only: if_False)
  show thesis
  proof (cases "snLoadingEntry s \<noteq> None \<and> snCurrentEntry s = None")
    case True
    with n show thesis by (intro pending) (auto simp: status_same)
  next
    case f: False
    then have "normalizeIdle s = s" unfolding n by auto
    with f False show thesis by (intro same) auto
  qed
qed

lemma idle_fields:
  "snContextQueue (normalizeIdle s) = snContextQueue s"
  "snUserQueue (normalizeIdle s) = snUserQueue s"
  "snCurrentEntry (normalizeIdle s) = snCurrentEntry s"
  "snCurrentItem (normalizeIdle s) = snCurrentItem s"
  "snCurrentEntryID (normalizeIdle s) = snCurrentEntryID s"
  "snCurrentPreparation (normalizeIdle s) = snCurrentPreparation s"
  "snLoadingEntry (normalizeIdle s) = snLoadingEntry s"
  "snShuffle (normalizeIdle s) = snShuffle s" "snRepeatMode (normalizeIdle s) = snRepeatMode s"
  "snCurrentEntry s \<noteq> None \<Longrightarrow> snDurationMS (normalizeIdle s) = snDurationMS s"
  by (cases rule: idle_cases [of s]; simp)+

lemma idle_stage:
  assumes "normalScalars L s" "normalQueues L s" "normalCurrent s" "quietStatus s" "normalLoading s"
    "normalContextState L s" "normalPosition s"
  shows "normalScalars L (normalizeIdle s)" "normalQueues L (normalizeIdle s)"
    "normalCurrent (normalizeIdle s)" "normalLoading (normalizeIdle s)"
    "normalContextState L (normalizeIdle s)" "normalPosition (normalizeIdle s)"
    "normalIdle (normalizeIdle s)"
proof -
  note case_list = idle_cases [of s]
  have cur: "normalCurrent (normalizeIdle s)"
  proof (rule current_frame [OF _ _ _ _ _ _ _ assms(3)])
    show "snCurrentEntry s = None \<longrightarrow> snStatus (normalizeIdle s) \<noteq> StatusPlaying"
      using assms(4) by (cases rule: case_list) (auto simp: quietStatus_def)
  qed (simp_all add: idle_fields)
  have ctx: "normalContextState L (normalizeIdle s)"
    using assms(6) contextState_frame [of "normalizeIdle s" s]
    by (simp add: idle_fields)
  show "normalScalars L (normalizeIdle s)"
    using assms(1) by (cases rule: case_list) (simp_all add: normalScalars_def)
  show "normalQueues L (normalizeIdle s)"
    using assms(2) by (cases rule: case_list) (simp_all add: normalQueues_def)
  show "normalPosition (normalizeIdle s)"
    using assms(7) by (cases rule: case_list; cases "snDurationMS s") (simp_all add: normalPosition_def)
  show "normalLoading (normalizeIdle s)"
    using assms(5) by (cases rule: case_list; cases "snLoadingEntry s") (simp_all add: normalLoading_def)
  show "normalIdle (normalizeIdle s)"
    using assms(4) by (cases rule: case_list) (auto simp: normalIdle_def quietStatus_def)
  show "normalCurrent (normalizeIdle s)" "normalContextState L (normalizeIdle s)" by (fact cur ctx)+
qed


lemma derived_fields:
  "snContextQueue (normalizeDerived L s) = snContextQueue s"
  "snUserQueue (normalizeDerived L s) = snUserQueue s"
  "snCurrentEntry (normalizeDerived L s) = snCurrentEntry s"
  "snCurrentItem (normalizeDerived L s) = snCurrentItem s"
  "snCurrentEntryID (normalizeDerived L s) = snCurrentEntryID s"
  "snCurrentPreparation (normalizeDerived L s) = snCurrentPreparation s"
  "snLoadingEntry (normalizeDerived L s) = snLoadingEntry s"
  "snLoadingItem (normalizeDerived L s) = snLoadingItem s"
  "snLoadingPreparation (normalizeDerived L s) = snLoadingPreparation s"
  "snShuffle (normalizeDerived L s) = snShuffle s"
  "snRepeatMode (normalizeDerived L s) = snRepeatMode s"
  "snStatus (normalizeDerived L s) = snStatus s"
  "snVolume (normalizeDerived L s) = snVolume s"
  "snPositionMS (normalizeDerived L s) = snPositionMS s"
  "snPositionCapturedAtMS (normalizeDerived L s) = snPositionCapturedAtMS s"
  "snDurationMS (normalizeDerived L s) = snDurationMS s"
  "snUpdatedAt (normalizeDerived L s) = snUpdatedAt s"
  "snCurrentSourceKind (normalizeDerived L s) = snCurrentSourceKind s"
  "snNextPreparation (normalizeDerived L s) = snNextPreparation s"
  "snLastSkipEvent (normalizeDerived L s) = snLastSkipEvent s"
  "snNextEntrySeq (normalizeDerived L s) = snNextEntrySeq s"
  "snUpcomingEntries (normalizeDerived L s) = []"
  "snCurrentLane (normalizeDerived L s) = deriveCurrentLane s"
  unfolding normalizeDerived_def Let_def
  by (simp_all add: deriveCurrentLane_def cong: option.case_cong split: option.split)

lemma derived_stage:
  assumes "normalScalars L s" "normalQueues L s" "normalCurrent s" "normalLoading s"
    "normalContextState L s" "normalPosition s" "normalIdle s"
  shows "normalSnapshot L (normalizeDerived L s)"
proof -
  let ?d = "normalizeDerived L s"
  note f = derived_fields
  have same: "sameContext ?d s" by (simp add: sameContext_def f)
  note u = sameContext_upcoming [OF same f(2)]
  have cur: "normalCurrent ?d"
    by (rule current_frame [OF _ _ _ _ _ _ _ assms(3)])
       (use assms(3) in \<open>auto simp: f normalCurrent_def\<close>)
  have ctx: "normalContextState L ?d"
    using assms(5) by (simp add: contextState_frame [OF f(1) f(3) f(10) f(11)])
  define s3 where "s3 = s\<lparr>snUpcomingEntries := [], snCurrentLane := deriveCurrentLane s,
    snNextPlanned := buildQueuePlanFromSnapshot L s\<rparr>"
  have same3: "sameContext s3 s" "snUserQueue s3 = snUserQueue s"
    by (simp_all add: s3_def sameContext_def)
  have p3: "snPreloadedPlan s3 = snPreloadedPlan s" "snNextPreparation s3 = snNextPreparation s"
    by (simp_all add: s3_def)
  have same2: "sameContext (s\<lparr>snUpcomingEntries := [], snCurrentLane := l\<rparr>) s"
    "snUserQueue (s\<lparr>snUpcomingEntries := [], snCurrentLane := l\<rparr>) = snUserQueue s" for l
    by (simp_all add: sameContext_def)
  have plan: "buildQueuePlanFromSnapshot L (s\<lparr>snUpcomingEntries := [], snCurrentLane := l\<rparr>)
      = buildQueuePlanFromSnapshot L s" for l
    by (simp add: buildQueuePlanFromSnapshot_def sameContext_upcoming(1) [OF same2])
  have lane: "deriveCurrentLane (s\<lparr>snUpcomingEntries := []\<rparr>) = deriveCurrentLane s"
    by (simp add: deriveCurrentLane_def cong: option.case_cong)
  have d: "?d = (let s4 = (case (snPreloadedPlan s, snNextPreparation s) of
                  (None, Some p) \<Rightarrow>
                    (case findEntryByID s (epEntryID p) of
                       Some e \<Rightarrow> s3\<lparr>snPreloadedPlan := Some (entryPlan e)\<rparr>
                     | None \<Rightarrow> s3)
                | _ \<Rightarrow> s3)
      in s4\<lparr>snQueueLength := queueLength L s4\<rparr>)"
    unfolding normalizeDerived_def Let_def lane plan s3_def [symmetric]
      sameContext_upcoming(5) [OF same3] p3 by (rule refl)
  obtain v where v: "?d = s3\<lparr>snPreloadedPlan := v, snQueueLength := queueLength L s\<rparr>"
    "case (v, snNextPreparation s) of
      (None, Some p) \<Rightarrow> findEntryByID s (epEntryID p) = None | _ \<Rightarrow> True"
  proof -
    have q: "queueLength L s3 = queueLength L s" by (rule sameContext_upcoming [OF same3])
    have qe: "queueLength L (s3\<lparr>snPreloadedPlan := w\<rparr>) = queueLength L s" for w
      by (rule sameContext_upcoming) (simp_all add: s3_def sameContext_def)
    have keep: "s3\<lparr>snPreloadedPlan := snPreloadedPlan s\<rparr> = s3"
      unfolding p3(1) [symmetric] by (cases s3) simp
    show thesis
    proof (cases "\<exists>p e. snPreloadedPlan s = None \<and> snNextPreparation s = Some p
        \<and> findEntryByID s (epEntryID p) = Some e")
      case True
      then obtain p e where "snPreloadedPlan s = None" "snNextPreparation s = Some p"
        "findEntryByID s (epEntryID p) = Some e" by blast
      then have "?d = s3\<lparr>snPreloadedPlan := Some (entryPlan e), snQueueLength := queueLength L s\<rparr>"
        unfolding d Let_def by (simp add: qe)
      then show thesis by (rule that) simp
    next
      case False
      then have "?d = s3\<lparr>snQueueLength := queueLength L s\<rparr>"
        unfolding d Let_def by (auto simp: q split: option.split)
      then have "?d = s3\<lparr>snPreloadedPlan := snPreloadedPlan s, snQueueLength := queueLength L s\<rparr>"
        using keep by simp
      then show thesis by (rule that) (use False in \<open>auto split: option.split\<close>)
    qed
  qed
  have der: "normalDerived L ?d"
  proof -
    have "snNextPlanned ?d = buildQueuePlanFromSnapshot L s" "snPreloadedPlan ?d = v"
      "snQueueLength ?d = queueLength L ?d"
      using u(2) by (simp_all add: v(1)) (simp add: s3_def)
    moreover have "deriveCurrentLane ?d = deriveCurrentLane s"
      unfolding deriveCurrentLane_def f by (rule refl)
    moreover have "buildQueuePlanFromSnapshot L ?d = buildQueuePlanFromSnapshot L s"
      by (simp add: buildQueuePlanFromSnapshot_def u(1))
    ultimately show ?thesis using v(2) unfolding normalDerived_def f u(5) by simp
  qed
  have "normalScalars L ?d" using assms(1) by (simp add: normalScalars_def f)
  moreover have "normalQueues L ?d" using assms(2) by (simp add: normalQueues_def f)
  moreover have "normalLoading ?d" using assms(4) unfolding normalLoading_def f .
  moreover have "normalPosition ?d" using assms(6) unfolding normalPosition_def f .
  moreover have "normalIdle ?d" using assms(7) unfolding normalIdle_def f .
  ultimately show ?thesis using cur ctx der by (simp add: normalSnapshot_def)
qed

text \<open>Every normalised snapshot has the invariant.\<close>

lemma normalizeSnapshot_establishes:
  assumes "rfcRoundTrip L" "windowStartOk s"
  shows "normalSnapshot L (normalizeSnapshot L s)"
proof -
  note s1 = scalars_normal [OF assms(1), of s]
  have w: "windowStartOk (normalizeScalars L s)" using assms(2) by (simp add: scalars_windowStart)
  note s2 = scalars_queues [OF s1] queues_normal [OF assms(1) w]
  note s3 = current_stage [OF s2]
  note s4 = loading_stage [OF s3]
  note s5 = contextState_stage [OF s4]
  note s6 = position_stage [OF s5]
  note s7 = idle_stage [OF s6]
  show ?thesis unfolding normalizeSnapshot_def by (rule derived_stage [OF s7])
qed


section \<open>Normal snapshots are fixed points\<close>

lemma scalars_fixed: "normalScalars L s \<Longrightarrow> normalizeScalars L s = s"
  by (cases s) (auto simp: normalizeScalars_def normalScalars_def clampVolume_def)

lemma queues_fixed:
  assumes "normalQueues L s"
  shows "normalizeQueues L s = s"
proof -
  have "Option.bind (snContextQueue s) normalizeContextQueue = snContextQueue s"
    using assms by (cases "snContextQueue s") (simp_all add: normalQueues_def normalizeContextQueue_fixed)
  moreover have "map normalizeQueuedEntry (snUserQueue s) = snUserQueue s"
    using assms by (intro map_idI) (simp add: normalQueues_def list_all_iff)
  ultimately show ?thesis using assms by (simp add: normalizeQueues_def normalQueues_def)
qed

definition afterCurrent :: "SessionSnapshot \<Rightarrow> SessionSnapshot" where
  "afterCurrent s =
     (if snCurrentEntry s = None \<and> snStatus s = StatusPending then s\<lparr>snStatus := StatusPaused\<rparr> else s)"

lemma current_fixed:
  assumes "normalCurrent s"
  shows "normalizeCurrent s = afterCurrent s"
proof (cases "snCurrentEntry s")
  case None
  with assms show ?thesis
    by (cases s) (auto simp: normalizeCurrent_def normalCurrent_def afterCurrent_def)
next
  case (Some e)
  have i: "e\<lparr>enItem := normalizeSessionItem (enItem e)\<rparr> = e"
    using assms Some by (cases e) (simp add: normalCurrent_def)
  have q: "(if entryMatchesContextIndex s e (enContextIndex e)
      then map_option (\<lambda>q. q\<lparr>cqCurrentIndex := enContextIndex e\<rparr>) (snContextQueue s)
      else snContextQueue s) = snContextQueue s"
    using assms Some
    by (cases "snContextQueue s") (auto simp: normalCurrent_def currentContextIndex_def)
  have d: "(if snDurationMS s = None then currentDuration (Some (enItem e)) else snDurationMS s)
      = snDurationMS s"
    using assms Some by (auto simp: normalCurrent_def)
  have c: "(if snCurrentEntryID s = '''' then enEntryID e else snCurrentEntryID s) = snCurrentEntryID s"
    using assms Some by (auto simp: normalCurrent_def)
  have t: "snCurrentItem s = Some (enItem e)" using assms Some by (simp add: normalCurrent_def)
  have "normalizeCurrent s = s\<lparr>snCurrentEntryID := snCurrentEntryID s, snCurrentEntry := Some e,
      snCurrentItem := Some (enItem e), snDurationMS := snDurationMS s,
      snContextQueue := snContextQueue s\<rparr>"
    unfolding normalizeCurrent_def Some option.case Let_def i q d c by (rule refl)
  also have "\<dots> = s" using Some t by (cases s) simp
  finally show ?thesis by (simp add: afterCurrent_def Some)
qed

lemma loading_fixed:
  assumes "normalLoading s"
  shows "normalizeLoading s = s"
proof (cases "snLoadingEntry s")
  case None
  with assms show ?thesis by (cases s) (simp add: normalizeLoading_def normalLoading_def)
next
  case (Some e)
  have i: "e\<lparr>enItem := normalizeSessionItem (enItem e)\<rparr> = e"
    using assms Some by (cases e) (simp add: normalLoading_def)
  show ?thesis
    using assms Some i by (cases s) (simp add: normalizeLoading_def normalLoading_def Let_def)
qed

lemma contextState_fixed:
  assumes "normalQueues L s" "normalContextState L s"
  shows "\<exists>lane. normalizeContextState L s = s\<lparr>snCurrentLane := lane\<rparr>"
proof (cases "snContextQueue s")
  case None
  then show ?thesis using contextState_none by blast
next
  case (Some q)
  have nq: "normalQueue q" using assms(1) Some by (simp add: normalQueues_def)
  have all: "contextAllEntries s = cqAllEntries q" by (rule normalQueue_all [OF nq Some])
  have e: "contextStateQueue s q = q"
    using assms(2) Some nq all
    by (cases q) (auto simp: contextStateQueue_def normalContextState_def contextCount_def
        normalQueue_def Let_def split: if_splits)
  have s: "s\<lparr>snContextQueue := Some q\<rparr> = s" using Some by (cases s) simp
  note eq = contextState_eq [OF nq Some refl, of L, unfolded e s]
  have "normalizeContextState L s = s"
  proof (cases "contextAllEntries s = []")
    case False
    then have "normalizeResumeContextIndex L s = cqResumeIndex q"
      using assms(2) Some by (simp add: normalContextState_def)
    then have "setResumeIndex (normalizeResumeContextIndex L s) s = s"
      using Some by (cases s) (simp add: setResumeIndex_def)
    with eq show ?thesis by simp
  qed (use eq in simp)
  then show ?thesis by (intro exI [of _ "snCurrentLane s"]) (cases s, simp)
qed

lemma position_fixed: "normalPosition s \<Longrightarrow> normalizePosition s = s"
  by (cases "snDurationMS s") (simp_all add: normalizePosition_def normalPosition_def)

lemma derived_fixed:
  assumes "normalDerived L s"
  shows "normalizeDerived L s = s"
proof -
  have a: "s\<lparr>snUpcomingEntries := []\<rparr> = s" using assms by (cases s) (simp add: normalDerived_def)
  have b: "s\<lparr>snCurrentLane := deriveCurrentLane s\<rparr> = s"
    using assms by (cases s) (simp add: normalDerived_def)
  have c: "s\<lparr>snNextPlanned := buildQueuePlanFromSnapshot L s\<rparr> = s"
    using assms by (cases s) (simp add: normalDerived_def)
  have d: "(case (snPreloadedPlan s, snNextPreparation s) of
      (None, Some p) \<Rightarrow> (case findEntryByID s (epEntryID p) of
         Some e \<Rightarrow> s\<lparr>snPreloadedPlan := Some (entryPlan e)\<rparr> | None \<Rightarrow> s)
      | _ \<Rightarrow> s) = s"
    using assms by (auto simp: normalDerived_def split: option.splits)
  show ?thesis
    unfolding normalizeDerived_def Let_def a b c d
    using assms by (cases s) (simp add: normalDerived_def)
qed

lemma idle_lane:
  "normalizeIdle (s\<lparr>snCurrentLane := l\<rparr>) = (normalizeIdle s)\<lparr>snCurrentLane := l\<rparr>"
proof (cases rule: idle_cases [of s])
  case idle
  then show ?thesis by (simp add: normalizeIdle_def)
next
  case pending
  then obtain e where e: "snLoadingEntry s = Some e" "snCurrentEntry s = None" by auto
  show ?thesis
  proof (cases "snStatus s = StatusPending")
    case True
    with e show ?thesis by (simp add: normalizeIdle_def)
  next
    case False
    with e show ?thesis by (simp add: normalizeIdle_def)
  qed
next
  case same
  let ?l = "s\<lparr>snCurrentLane := l\<rparr>"
  have f: "snContextQueue ?l = snContextQueue s" "snUserQueue ?l = snUserQueue s"
    "snCurrentEntry ?l = snCurrentEntry s" "snLoadingEntry ?l = snLoadingEntry s"
    by simp_all
  have "\<not> (snContextQueue s = None \<and> snUserQueue s = [] \<and> snCurrentEntry s = None
      \<and> snLoadingEntry s = None)"
    "\<not> (snLoadingEntry s \<noteq> None \<and> snCurrentEntry s = None \<and> b)" for b
    using same(1) by auto
  then have n: "normalizeIdle ?l = ?l"
    unfolding normalizeIdle_def Let_def f by (simp only: if_False f)
  show ?thesis unfolding n same(2) by (rule refl)
qed

lemma derived_lane: "normalizeDerived L (s\<lparr>snCurrentLane := l\<rparr>) = normalizeDerived L s"
proof -
  have "deriveCurrentLane (s\<lparr>snCurrentLane := l, snUpcomingEntries := []\<rparr>)
      = deriveCurrentLane (s\<lparr>snUpcomingEntries := []\<rparr>)"
    by (simp add: deriveCurrentLane_def cong: option.case_cong)
  then have "s\<lparr>snCurrentLane := l, snUpcomingEntries := [],
        snCurrentLane := deriveCurrentLane (s\<lparr>snCurrentLane := l, snUpcomingEntries := []\<rparr>)\<rparr>
      = s\<lparr>snUpcomingEntries := [], snCurrentLane := deriveCurrentLane (s\<lparr>snUpcomingEntries := []\<rparr>)\<rparr>"
    by (cases s) simp
  then show ?thesis unfolding normalizeDerived_def Let_def by (simp only:)
qed

lemma afterCurrent_fields:
  "snContextQueue (afterCurrent s) = snContextQueue s"
  "snUserQueue (afterCurrent s) = snUserQueue s"
  "snLastSkipEvent (afterCurrent s) = snLastSkipEvent s"
  "snCurrentEntry (afterCurrent s) = snCurrentEntry s"
  "snLoadingEntry (afterCurrent s) = snLoadingEntry s"
  "snLoadingItem (afterCurrent s) = snLoadingItem s"
  "snLoadingPreparation (afterCurrent s) = snLoadingPreparation s"
  "snShuffle (afterCurrent s) = snShuffle s" "snRepeatMode (afterCurrent s) = snRepeatMode s"
  "snCurrentLane (afterCurrent s) = snCurrentLane s"
  "snDurationMS (afterCurrent s) = snDurationMS s" "snPositionMS (afterCurrent s) = snPositionMS s"
  by (simp_all add: afterCurrent_def)

lemma idle_fixed:
  assumes "normalIdle s"
  shows "normalizeIdle (afterCurrent s) = s"
proof (cases rule: idle_cases [of "afterCurrent s"])
  case idle
  with assms show ?thesis
    by (cases s) (simp add: afterCurrent_fields, simp add: normalIdle_def afterCurrent_def)
next
  case pending
  with assms show ?thesis
    by (cases s) (auto simp: afterCurrent_def normalIdle_def)
next
  case same
  with assms show ?thesis
    by (auto simp: afterCurrent_fields) (auto simp: afterCurrent_def normalIdle_def)
qed

text \<open>A snapshot with the invariant is left as it is.\<close>

lemma normalizeSnapshot_fixed:
  assumes "normalSnapshot L s"
  shows "normalizeSnapshot L s = s"
proof -
  let ?a = "afterCurrent s"
  note n = assms [unfolded normalSnapshot_def]
  note f = afterCurrent_fields [of s]
  have l: "normalizeLoading ?a = ?a"
    using n by (intro loading_fixed) (cases "snLoadingEntry s"; simp add: normalLoading_def f)
  have "normalQueues L ?a" using n by (simp add: normalQueues_def f)
  moreover have "normalContextState L ?a"
    using n contextState_frame [OF f(1) f(4) f(8) f(9)] by simp
  ultimately obtain lane where c: "normalizeContextState L ?a = ?a\<lparr>snCurrentLane := lane\<rparr>"
    using contextState_fixed by blast
  have p: "normalizePosition (?a\<lparr>snCurrentLane := lane\<rparr>) = ?a\<lparr>snCurrentLane := lane\<rparr>"
    using n by (intro position_fixed) (cases "snDurationMS s"; simp add: normalPosition_def f)
  show ?thesis
    unfolding normalizeSnapshot_def
    using n by (simp add: scalars_fixed queues_fixed current_fixed l c p idle_lane idle_fixed
        derived_lane derived_fixed)
qed

end
