(* ===== verification/SessionState.thy ===== *)
theory SessionState
  imports SnapshotLaws
begin

text \<open>
  The state of a \<open>Session\<close> (\<open>src/internal/playback/session.go\<close>) and the small mutators every
  operation is built from.

  The mutexes are not modelled: an operation of the model runs from its first lock to its last unlock
  without another one in between.  Where the code itself allows for interference, it releases the lock,
  works on a copy and validates an epoch or a token afterwards; such operations are split into a
  \<open>begin\<close> and a \<open>commit\<close> half, or take the token they have to validate as an argument.

  The world outside the session is the record \<open>env\<close>: which collaborators are configured, the clock, the
  generator that seeds shuffles, and the replies of the backend, the playback core and the store.  Every
  call to a collaborator is appended to the trace of the session, and a reply may depend on the whole
  trace, so that nothing is assumed about it.  Starting a goroutine is recorded in the trace as well.
  Contexts are not modelled.
\<close>

section \<open>The world outside\<close>

datatype call =
    BLoad string
  | BActivatePreloaded string
  | BPlay
  | BPause
  | BStop
  | BSeekTo int
  | BSetVolume int
  | BPositionMS
  | BDurationMS
  | BPreloadNext string
  | BClearPreloaded
  | BClose
  | CPrepareTarget PlaybackTargetRef PreparationPurpose
  | CGetPreparation PlaybackTargetRef
  | CGetAvailability PlaybackTargetRef
  | CListAvailability "PlaybackTargetRef list"
  | StoreSave SessionSnapshot
  | EmitSnapshot SessionSnapshot
  | GoTransportRetry "64 word" SessionEntry EntryOrigin int "SessionEntry option"
  | GoPendingRetry "64 word" string

record env =
  lib :: golib
  hasCore :: bool
  hasStore :: bool
  hasEmit :: bool
  supportsPreload :: bool
  preferredProfile :: string
  clock :: "nat \<Rightarrow> int"
  rngUint64 :: "nat \<Rightarrow> 64 word"
  replyError :: "call list \<Rightarrow> string option"
  replyActivation :: "call list \<Rightarrow> BackendActivationRef"
  replyPosition :: "call list \<Rightarrow> int"
  replyDuration :: "call list \<Rightarrow> int option"
  replyStatus :: "call list \<Rightarrow> PreparationStatus"
  replyAvailability :: "call list \<Rightarrow> PlaybackAvailability"
  replyAvailabilities :: "call list \<Rightarrow> (PlaybackTargetRef \<times> PlaybackAvailability) list"

section \<open>The session\<close>

record session =
  ssSnap :: SessionSnapshot
  ssBackend :: bool
  ssStarted :: bool
  ssTicker :: bool
  ssQueueDirty :: bool
  ssIntentEpoch :: "64 word"
  ssLoadedEntryID :: string
  ssLoadedURI :: string
  ssPreloadedID :: string
  ssPreloadedURI :: string
  ssBackendPreloadArmed :: bool
  ssLastTickerPublishAt :: "int option"
  ssRetryEntryID :: string
  ssRetryAt :: "int option"
  ssPreloadFailureEntryID :: string
  ssPreloadFailureURI :: string
  ssRngDraws :: nat
  ssPendingArmed :: bool
  ssPendingEntry :: string
  ssPendingToken :: "64 word"
  ssTransportToken :: "64 word"
  ssTransportPending :: "transportTransition option"
  ssAvailabilityCache :: "string \<rightharpoonup> cachedAvailability"
  ssNextActionPlan :: "nextActionPlan option"
  ssNextActionBuilds :: int
  ssTicks :: nat
  ssTrace :: "call list"

text \<open>The session \<open>NewSession\<close> returns; the backend is never nil then.\<close>

definition newSession :: session where
  "newSession =
     \<lparr>ssSnap = defaultSessionSnapshot, ssBackend = True, ssStarted = False, ssTicker = False,
      ssQueueDirty = False, ssIntentEpoch = 0, ssLoadedEntryID = '''', ssLoadedURI = '''',
      ssPreloadedID = '''', ssPreloadedURI = '''', ssBackendPreloadArmed = False,
      ssLastTickerPublishAt = None, ssRetryEntryID = '''', ssRetryAt = None,
      ssPreloadFailureEntryID = '''', ssPreloadFailureURI = '''', ssRngDraws = 0,
      ssPendingArmed = False, ssPendingEntry = '''', ssPendingToken = 0, ssTransportToken = 0,
      ssTransportPending = None, ssAvailabilityCache = Map.empty, ssNextActionPlan = None,
      ssNextActionBuilds = 0, ssTicks = 0, ssTrace = []\<rparr>"

definition onSnap :: "(SessionSnapshot \<Rightarrow> SessionSnapshot) \<Rightarrow> session \<Rightarrow> session" where
  "onSnap f s = s\<lparr>ssSnap := f (ssSnap s)\<rparr>"

text \<open>A call to a collaborator, a reading of the clock (nanoseconds), a draw of the generator.\<close>

definition doCall :: "call \<Rightarrow> session \<Rightarrow> session" where
  "doCall c s = s\<lparr>ssTrace := c # ssTrace s\<rparr>"

definition callFailed :: "env \<Rightarrow> session \<Rightarrow> string option" where
  "callFailed E s = replyError E (ssTrace s)"

definition nowNanos :: "env \<Rightarrow> session \<Rightarrow> int" where
  "nowNanos E s = clock E (ssTicks s)"

definition tick :: "session \<Rightarrow> session" where
  "tick s = s\<lparr>ssTicks := Suc (ssTicks s)\<rparr>"

text \<open>\<open>UnixMilli\<close>; instants of the model count from the zero time of Go, 62135596800 s earlier.\<close>

definition unixMilli :: "int \<Rightarrow> int" where
  "unixMilli t = t div 1000000 - 62135596800000"

definition nowMS :: "env \<Rightarrow> session \<Rightarrow> int" where
  "nowMS E s = unixMilli (nowNanos E s)"

definition drawUint64 :: "env \<Rightarrow> session \<Rightarrow> 64 word \<times> session" where
  "drawUint64 E s = (rngUint64 E (ssRngDraws s), s\<lparr>ssRngDraws := Suc (ssRngDraws s)\<rparr>)"

section \<open>Queue and selection mutators\<close>

definition invalidateNextActionPlan :: "session \<Rightarrow> session" where
  "invalidateNextActionPlan s = s\<lparr>ssNextActionPlan := None\<rparr>"

definition markQueueDirty :: "session \<Rightarrow> session" where
  "markQueueDirty s = invalidateNextActionPlan (s\<lparr>ssQueueDirty := True\<rparr>)"

definition onContext :: "(ContextQueue \<Rightarrow> ContextQueue) \<Rightarrow> session \<Rightarrow> session" where
  "onContext f s = onSnap (\<lambda>n. n\<lparr>snContextQueue := map_option f (snContextQueue n)\<rparr>) s"

definition setCurrentContextIndex :: "int \<Rightarrow> session \<Rightarrow> session" where
  "setCurrentContextIndex i s =
     (if snContextQueue (ssSnap s) = None then s
      else markQueueDirty (onContext (\<lambda>q. q\<lparr>cqCurrentIndex := i\<rparr>) s))"

definition setResumeContextIndex :: "int \<Rightarrow> session \<Rightarrow> session" where
  "setResumeContextIndex i s = onContext (\<lambda>q. q\<lparr>cqResumeIndex := i\<rparr>) s"

definition recalculateResumeContextIndex :: "env \<Rightarrow> session \<Rightarrow> session" where
  "recalculateResumeContextIndex E s =
     setResumeContextIndex (normalizeResumeContextIndex (lib E) (ssSnap s)) s"

definition setLoading :: "SessionEntry \<Rightarrow> PreparationStatus \<Rightarrow> session \<Rightarrow> session" where
  "setLoading e prep s =
     onSnap (\<lambda>n. n\<lparr>snLoadingEntry := Some e, snLoadingItem := Some (enItem e),
       snLoadingPreparation := Some \<lparr>epEntryID = enEntryID e, epStatus = prep\<rparr>\<rparr>) s"

definition clearLoadingState :: "session \<Rightarrow> session" where
  "clearLoadingState s =
     onSnap (\<lambda>n. n\<lparr>snLoadingEntry := None, snLoadingItem := None, snLoadingPreparation := None\<rparr>) s"

definition setCurrent :: "SessionEntry \<Rightarrow> EntryOrigin \<Rightarrow> session \<Rightarrow> session" where
  "setCurrent entry origin s =
     (let e = entry\<lparr>enOrigin := origin\<rparr>;
          s1 = markQueueDirty (onSnap (\<lambda>n. n\<lparr>snCurrentEntryID := enEntryID e,
                 snCurrentEntry := Some e, snCurrentItem := Some (enItem e)\<rparr>) s)
      in if origin = OriginContext then setCurrentContextIndex (enContextIndex e) s1 else s1)"

definition detachCurrentContext :: "session \<Rightarrow> session" where
  "detachCurrentContext s =
     (case snCurrentEntry (ssSnap s) of
        None \<Rightarrow> s
      | Some e \<Rightarrow>
          if enOrigin e \<noteq> OriginContext then s
          else onSnap (\<lambda>n. n\<lparr>snCurrentEntry := Some (e\<lparr>enContextIndex := -1\<rparr>),
                 snCurrentItem := Some (enItem e)\<rparr>) s)"

definition clearCurrent :: "session \<Rightarrow> session" where
  "clearCurrent s =
     markQueueDirty (onSnap (\<lambda>n. n\<lparr>snCurrentEntryID := '''', snCurrentEntry := None,
       snCurrentItem := None\<rparr>) s)"

definition nextEntryID :: "string \<Rightarrow> session \<Rightarrow> string \<times> session" where
  "nextEntryID prefix s =
     (let v = (if snNextEntrySeq (ssSnap s) \<le> 0 then 1 else snNextEntrySeq (ssSnap s)) in
      (trimSpace prefix @ ''-'' @ decimal v, onSnap (\<lambda>n. n\<lparr>snNextEntrySeq := v + 1\<rparr>) s))"

section \<open>Shuffle\<close>

definition ensureContextShuffleSeed :: "env \<Rightarrow> session \<Rightarrow> session" where
  "ensureContextShuffleSeed E s =
     (case snContextQueue (ssSnap s) of
        None \<Rightarrow> s
      | Some q \<Rightarrow>
          if cqShuffleSeed q \<noteq> 0 then s
          else let (seed, s1) = drawUint64 E s in onContext (\<lambda>q. q\<lparr>cqShuffleSeed := seed\<rparr>) s1)"

definition clearShuffle :: "session \<Rightarrow> session" where
  "clearShuffle s = onSnap clearContextShuffleState s"

definition rebuildShuffleCycle :: "env \<Rightarrow> session \<Rightarrow> session" where
  "rebuildShuffleCycle E s =
     (if \<not> snShuffle (ssSnap s) \<or> snContextQueue (ssSnap s) = None then clearShuffle s
      else let s1 = ensureContextShuffleSeed E s in
        case snContextQueue (ssSnap s1) of
          None \<Rightarrow> s1
        | Some q \<Rightarrow>
            onContext (\<lambda>r. r\<lparr>cqShuffleBag :=
              buildAnchoredSmartShuffleCycle (lib E) (contextAllEntries (ssSnap s1))
                (shuffleAnchorIndex (ssSnap s1)) (newRng (lib E) (cqShuffleSeed q))\<rparr>) s1)"

definition ensureShuffleCycle :: "env \<Rightarrow> session \<Rightarrow> session" where
  "ensureShuffleCycle E s =
     (if \<not> snShuffle (ssSnap s) \<or> snContextQueue (ssSnap s) = None then s
      else if sanitizeShuffleBag (shuffleBag (ssSnap s)) (contextCount (ssSnap s)) \<noteq> [] then s
      else rebuildShuffleCycle E s)"

definition firstContextIndex :: "env \<Rightarrow> session \<Rightarrow> int \<times> session" where
  "firstContextIndex E s =
     (let n = ssSnap s; r = resumeContextIndex n in
      if isValidContextIndex n r then
        (if \<not> snShuffle n then (r, s)
         else let s1 = ensureShuffleCycle E s in
           if indexOfInt (shuffleBag (ssSnap s1)) (resumeContextIndex (ssSnap s1)) \<ge> 0
           then (resumeContextIndex (ssSnap s1), s1)
           else (defaultFirstContextIndex (lib E) (ssSnap s1), s1))
      else (defaultFirstContextIndex (lib E) n, s))"

section \<open>The window of a source-backed context\<close>

definition refreshWindow :: "ContextQueue \<Rightarrow> ContextQueue" where
  "refreshWindow q =
     (let allEntries = (if cqAllEntries q = [] then cqEntries q else cqAllEntries q);
          q0 = q\<lparr>cqAllEntries := allEntries, cqTotalCount := int (length allEntries)\<rparr>;
          n = int (length allEntries)
      in if n = 0 then
           q0\<lparr>cqEntries := [], cqWindowStart := 0, cqWindowCount := 0, cqHasBefore := False,
              cqHasAfter := False\<rparr>
         else if \<not> isSourceBackedContext (Some q) then
           q0\<lparr>cqEntries := allEntries, cqWindowStart := 0, cqWindowCount := n,
              cqHasBefore := False, cqHasAfter := False\<rparr>
         else
           let anchor0 = (if cqCurrentIndex q \<ge> 0 then cqCurrentIndex q else cqResumeIndex q);
               anchor = (if anchor0 < 0 \<or> n \<le> anchor0 then 0 else anchor0);
               start = (if anchor - 20 < 0 then 0 else anchor - 20);
               stop = (if anchor + 100 + 1 > n then n else anchor + 100 + 1);
               window = take (nat (stop - start)) (drop (nat start) allEntries)
           in q0\<lparr>cqEntries := window, cqWindowStart := start, cqWindowCount := int (length window),
                 cqHasBefore := start > 0, cqHasAfter := stop < n\<rparr>)"

definition refreshCurrentContextWindow :: "session \<Rightarrow> session" where
  "refreshCurrentContextWindow s = onContext refreshWindow s"

section \<open>Availability of entries\<close>

definition setEntryAvailability :: "string \<Rightarrow> PlaybackAvailability \<Rightarrow> session \<Rightarrow> session" where
  "setEntryAvailability entryID status s =
     (let key = trimSpace entryID in
      if key = '''' then s
      else if snEntryAvailability (ssSnap s) key = Some status then s
      else markQueueDirty (onSnap (\<lambda>n. n\<lparr>snEntryAvailability := (snEntryAvailability n)(key \<mapsto> status)\<rparr>) s))"

definition availabilityAllowed :: "SessionSnapshot \<Rightarrow> string \<Rightarrow> bool" where
  "availabilityAllowed n key \<longleftrightarrow>
     key \<noteq> '''' \<and>
     (list_ex (\<lambda>e. trimSpace (enEntryID e) = key) (snUserQueue n)
      \<or> list_ex (\<lambda>e. trimSpace (enEntryID e) = key) (contextAllEntries n))"

definition keptAvailability ::
  "SessionSnapshot \<Rightarrow> (string \<rightharpoonup> PlaybackAvailability) \<Rightarrow> string \<Rightarrow> PlaybackAvailability option" where
  "keptAvailability n known k = (if availabilityAllowed n (trimSpace k) then known k else None)"

definition pruneEntryAvailability :: "session \<Rightarrow> session" where
  "pruneEntryAvailability s =
     onSnap (\<lambda>n. n\<lparr>snEntryAvailability := keptAvailability n (snEntryAvailability n)\<rparr>) s"

definition playbackTargetKey :: "PlaybackTargetRef \<Rightarrow> string" where
  "playbackTargetKey t =
     (let logical = trimSpace (tgLogical t); exact = trimSpace (tgExact t) in
      if logical = '''' \<and> exact = '''' then ''''
      else policyText (tgPolicy t) @ ''|'' @ logical @ ''|'' @ exact)"

definition availabilityCacheKey :: "PlaybackTargetRef \<Rightarrow> string \<Rightarrow> int \<Rightarrow> string" where
  "availabilityCacheKey t profile version =
     (if playbackTargetKey t = '''' then ''''
      else playbackTargetKey t @ ''|'' @ profile @ ''|'' @ decimal version)"

text \<open>A hit returns the status; an expired entry is removed and counts as a miss.\<close>

definition cachedAvailabilityFor ::
  "env \<Rightarrow> PlaybackTargetRef \<Rightarrow> int \<Rightarrow> int \<Rightarrow> session \<Rightarrow> PlaybackAvailability option \<times> session" where
  "cachedAvailabilityFor E t now version s =
     (let key = availabilityCacheKey t (preferredProfile E) version in
      if key = '''' then (None, s)
      else case ssAvailabilityCache s key of
        None \<Rightarrow> (None, s)
      | Some c \<Rightarrow>
          if now > caExpiresAt c
          then (None, s\<lparr>ssAvailabilityCache := (ssAvailabilityCache s)(key := None)\<rparr>)
          else (Some (caStatus c), s))"

definition cacheAvailability ::
  "env \<Rightarrow> PlaybackTargetRef \<Rightarrow> PlaybackAvailability \<Rightarrow> int \<Rightarrow> int \<Rightarrow> session \<Rightarrow> session" where
  "cacheAvailability E t status expires version s =
     (let key = availabilityCacheKey t (preferredProfile E) version in
      if key = '''' then s
      else s\<lparr>ssAvailabilityCache := (ssAvailabilityCache s)(key \<mapsto>
             \<lparr>caStatus = status, caExpiresAt = expires\<rparr>)\<rparr>)"

section \<open>Preloading, transitions and retries\<close>

definition clearNextPreparationRetry :: "session \<Rightarrow> session" where
  "clearNextPreparationRetry s = s\<lparr>ssRetryEntryID := '''', ssRetryAt := None\<rparr>"

definition clearBackendPreloadFailure :: "session \<Rightarrow> session" where
  "clearBackendPreloadFailure s = s\<lparr>ssPreloadFailureEntryID := '''', ssPreloadFailureURI := ''''\<rparr>"

definition clearNextPreparationState :: "session \<Rightarrow> session" where
  "clearNextPreparationState s =
     clearBackendPreloadFailure (clearNextPreparationRetry
       ((onSnap (\<lambda>n. n\<lparr>snNextPreparation := None\<rparr>) s)\<lparr>ssPreloadedID := '''', ssPreloadedURI := ''''\<rparr>))"

definition shouldClearBackendPreload :: "session \<Rightarrow> bool" where
  "shouldClearBackendPreload s \<longleftrightarrow>
     ssBackendPreloadArmed s \<or> snNextPreparation (ssSnap s) \<noteq> None
     \<or> ssPreloadedID s \<noteq> '''' \<or> ssPreloadedURI s \<noteq> ''''"

text \<open>\<open>clearBackendPreload\<close>; the backend passed is the session's own, nil once it is closed.\<close>

definition clearBackendPreload :: "env \<Rightarrow> bool \<Rightarrow> session \<Rightarrow> session" where
  "clearBackendPreload E backend s =
     (if \<not> backend then s
      else let s1 = doCall BClearPreloaded s in
        if callFailed E s1 \<noteq> None then s1 else s1\<lparr>ssBackendPreloadArmed := False\<rparr>)"

text \<open>The result tells whether the caller has to clear the backend's preload.\<close>

definition invalidatePreloadPlan :: "env \<Rightarrow> bool \<Rightarrow> session \<Rightarrow> bool \<times> session" where
  "invalidatePreloadPlan E forceRecovery s =
     (let needs = (shouldClearBackendPreload s
          \<or> forceRecovery \<and> ssBackend s \<and> supportsPreload E
            \<and> snCurrentEntry (ssSnap s) \<noteq> None \<and> ssLoadedURI s \<noteq> '''')
      in (needs, invalidateNextActionPlan
                   ((clearNextPreparationState s)\<lparr>ssAvailabilityCache := Map.empty\<rparr>)))"

definition advanceIntentEpoch :: "session \<Rightarrow> session" where
  "advanceIntentEpoch s = s\<lparr>ssIntentEpoch := ssIntentEpoch s + 1\<rparr>"

definition cancelTransportTransition :: "session \<Rightarrow> session" where
  "cancelTransportTransition s =
     (case ssTransportPending s of
        None \<Rightarrow> s
      | Some _ \<Rightarrow>
          invalidateNextActionPlan (clearLoadingState
            (s\<lparr>ssTransportPending := None, ssTransportToken := ssTransportToken s + 1\<rparr>)))"

definition cancelPendingRetry :: "session \<Rightarrow> session" where
  "cancelPendingRetry s =
     s\<lparr>ssPendingArmed := False, ssPendingEntry := '''', ssPendingToken := ssPendingToken s + 1\<rparr>"

definition startPendingRetry :: "string \<Rightarrow> session \<Rightarrow> session" where
  "startPendingRetry entryID s =
     (if \<not> ssStarted s then s
      else let s1 = cancelPendingRetry s; token = ssPendingToken s1 + 1
        in doCall (GoPendingRetry token entryID)
             (s1\<lparr>ssPendingToken := token, ssPendingArmed := True, ssPendingEntry := entryID\<rparr>))"

definition ensureTicker :: "session \<Rightarrow> session" where
  "ensureTicker s = s\<lparr>ssTicker := True\<rparr>"

definition stopTicker :: "session \<Rightarrow> session" where
  "stopTicker s = s\<lparr>ssTicker := False\<rparr>"

definition stopBackend :: "session \<Rightarrow> session" where
  "stopBackend s =
     (let s1 = (stopTicker s)\<lparr>ssBackendPreloadArmed := False\<rparr>
      in if ssBackend s then doCall BStop s1 else s1)"

section \<open>Positions\<close>

definition setAuthoritativePositionAt :: "int \<Rightarrow> int \<Rightarrow> session \<Rightarrow> session" where
  "setAuthoritativePositionAt position capturedAt s =
     onSnap (\<lambda>n. n\<lparr>snPositionMS := position,
       snPositionCapturedAtMS := (if capturedAt < 0 then 0 else capturedAt)\<rparr>) s"

definition setAuthoritativePosition :: "env \<Rightarrow> int \<Rightarrow> session \<Rightarrow> session" where
  "setAuthoritativePosition E position s =
     setAuthoritativePositionAt position (nowMS E s) (tick s)"

definition clearAuthoritativePosition :: "session \<Rightarrow> session" where
  "clearAuthoritativePosition s = onSnap (\<lambda>n. n\<lparr>snPositionMS := 0, snPositionCapturedAtMS := 0\<rparr>) s"

section \<open>Touching, copying and publishing\<close>

definition syncAuthorityState :: "env \<Rightarrow> session \<Rightarrow> session" where
  "syncAuthorityState E s =
     onSnap (\<lambda>n. n\<lparr>snCurrentLane := deriveCurrentLane n,
       snNextPlanned := buildQueuePlanFromSnapshot (lib E) n,
       snPreloadedPlan :=
         (if ssPreloadedID s = '''' then None
          else map_option entryPlan (findEntryByID n (ssPreloadedID s)))\<rparr>) s"

definition bumpQueueVersion :: "session \<Rightarrow> session" where
  "bumpQueueVersion s =
     (if \<not> ssQueueDirty s then s
      else (onSnap (\<lambda>n. n\<lparr>snQueueVersion := snQueueVersion n + 1\<rparr>) (pruneEntryAvailability s))
             \<lparr>ssQueueDirty := False\<rparr>)"

definition touch :: "env \<Rightarrow> session \<Rightarrow> session" where
  "touch E s =
     (let s1 = onSnap (normalizeSnapshot (lib E)) (refreshCurrentContextWindow s);
          s2 = bumpQueueVersion (syncAuthorityState E s1)
      in onSnap (\<lambda>n. n\<lparr>snUpdatedAt := formatTimestamp (lib E) (nowNanos E s2)\<rparr>) (tick s2))"

definition snapshotOf :: "env \<Rightarrow> session \<Rightarrow> SessionSnapshot" where
  "snapshotOf E s = snapshotCopy (lib E) (ssSnap s)"

definition persistSnapshot :: "env \<Rightarrow> SessionSnapshot \<Rightarrow> session \<Rightarrow> session" where
  "persistSnapshot E n s =
     (if hasStore E then doCall (StoreSave (prepareSnapshotForPersistence (lib E) n)) s else s)"

definition publishSnapshot :: "env \<Rightarrow> SessionSnapshot \<Rightarrow> session \<Rightarrow> session" where
  "publishSnapshot E n s =
     (let s1 = persistSnapshot E n s;
          s2 = (tick s1)\<lparr>ssLastTickerPublishAt := Some (nowNanos E s1)\<rparr>
      in if hasEmit E then doCall (EmitSnapshot n) s2 else s2)"

definition positionCheckpointInterval :: int where
  "positionCheckpointInterval = 10 * 1000000000"

definition publishTickerSnapshot :: "env \<Rightarrow> SessionSnapshot \<Rightarrow> session \<Rightarrow> session" where
  "publishTickerSnapshot E n s =
     (let t = nowNanos E s; s1 = tick s in
      if (case ssLastTickerPublishAt s1 of None \<Rightarrow> False
          | Some prev \<Rightarrow> t - prev < positionCheckpointInterval)
      then s1
      else publishSnapshot E n (s1\<lparr>ssLastTickerPublishAt := Some t\<rparr>))"

text \<open>
  What an operation returns: the snapshot, the error if any, and the session.  \<open>finishOp\<close> is how most
  operations end: touch, copy, unlock, clear the backend's preload, stop the backend, publish the copy.
\<close>

type_synonym outcome = "SessionSnapshot \<times> sessionError option \<times> session"

definition unchanged :: "env \<Rightarrow> session \<Rightarrow> outcome" where
  "unchanged E s = (snapshotOf E s, None, s)"

definition failed :: "env \<Rightarrow> string \<Rightarrow> session \<Rightarrow> outcome" where
  "failed E msg s = (snapshotOf E s, Some (OtherError msg), s)"

definition clearIf :: "env \<Rightarrow> bool \<Rightarrow> session \<Rightarrow> session" where
  "clearIf E needs s = (if needs then clearBackendPreload E (ssBackend s) s else s)"

definition finishOp :: "env \<Rightarrow> bool \<Rightarrow> bool \<Rightarrow> session \<Rightarrow> outcome" where
  "finishOp E needs stop s =
     (let s1 = touch E s; n = snapshotOf E s1;
          s2 = clearIf E needs s1;
          s3 = (if stop then stopBackend s2 else s2)
      in (n, None, publishSnapshot E n s3))"

end
