(* ===== verification/SourceCatalog.thy ===== *)
theory SourceCatalog
  imports ItemMapping
begin

text \<open>
  Playback sources (\<open>src/internal/playback/catalog_loader.go\<close>): the descriptors a client can ask for
  and their enumeration, page by page, into candidates with stable keys.

  The catalog itself is the parameter \<open>catalog\<close>: what the list methods of \<open>PlaybackCore\<close> answer for a
  cursor or an offset.  A page loop runs as long as the catalog announces more pages, so it is a partial
  function; \<open>pagesOf\<close> describes the catalogs for which it ends, and \<open>readPages_pagesOf\<close> shows that it
  then yields exactly the rows of all pages in order.
\<close>

section \<open>Descriptors\<close>

definition noAnchor :: PlaybackSourceAnchor where
  "noAnchor = \<lparr>anEntryKey = '''', anRecordingID = '''', anSourceItemID = ''''\<rparr>"

definition frozenSource :: "ContextKind \<Rightarrow> string \<Rightarrow> string \<Rightarrow> PlaybackSourceRequest" where
  "frozenSource kind ident title =
     \<lparr>rqDescriptor = \<lparr>dsKind = kind, dsID = ident, dsTitle = title, dsRebasePolicy = RebaseFrozen,
        dsLive = False\<rparr>, rqAnchor = noAnchor\<rparr>"

definition liveSource :: "ContextKind \<Rightarrow> string \<Rightarrow> string \<Rightarrow> PlaybackSourceRequest" where
  "liveSource kind ident title =
     \<lparr>rqDescriptor = \<lparr>dsKind = kind, dsID = ident, dsTitle = title, dsRebasePolicy = RebaseLive,
        dsLive = True\<rparr>, rqAnchor = noAnchor\<rparr>"

definition atRecording :: "string \<Rightarrow> PlaybackSourceRequest \<Rightarrow> PlaybackSourceRequest" where
  "atRecording recordingID r = r\<lparr>rqAnchor := noAnchor\<lparr>anRecordingID := trimSpace recordingID\<rparr>\<rparr>"

definition buildAlbumSource :: "string \<Rightarrow> PlaybackSourceRequest" where
  "buildAlbumSource albumID = frozenSource KindAlbum (trimSpace albumID) ''''"

definition buildAlbumTrackSource :: "string \<Rightarrow> string \<Rightarrow> PlaybackSourceRequest" where
  "buildAlbumTrackSource albumID recordingID = atRecording recordingID (buildAlbumSource albumID)"

definition buildPlaylistSource :: "string \<Rightarrow> PlaybackSourceRequest" where
  "buildPlaylistSource playlistID = liveSource KindPlaylist (trimSpace playlistID) ''''"

definition buildPlaylistTrackSource :: "string \<Rightarrow> string \<Rightarrow> PlaybackSourceRequest" where
  "buildPlaylistTrackSource playlistID itemID =
     (buildPlaylistSource playlistID)\<lparr>rqAnchor := noAnchor\<lparr>anSourceItemID := trimSpace itemID\<rparr>\<rparr>"

definition buildLikedSource :: PlaybackSourceRequest where
  "buildLikedSource = liveSource KindLiked ''liked'' ''Liked songs''"

definition buildLikedTrackSource :: "string \<Rightarrow> PlaybackSourceRequest" where
  "buildLikedTrackSource recordingID = atRecording recordingID buildLikedSource"

definition buildOfflineSource :: PlaybackSourceRequest where
  "buildOfflineSource = liveSource KindOffline ''offline'' ''Offline''"

definition buildOfflineTrackSource :: "string \<Rightarrow> PlaybackSourceRequest" where
  "buildOfflineTrackSource recordingID = atRecording recordingID buildOfflineSource"

definition buildTracksSource :: PlaybackSourceRequest where
  "buildTracksSource = liveSource KindTracks ''tracks'' ''Tracks''"

definition buildTracksTrackSource :: "string \<Rightarrow> PlaybackSourceRequest" where
  "buildTracksTrackSource recordingID = atRecording recordingID buildTracksSource"

definition buildRecordingSource :: "string \<Rightarrow> PlaybackSourceRequest" where
  "buildRecordingSource recordingID =
     atRecording recordingID (frozenSource KindRecording (trimSpace recordingID) (trimSpace recordingID))"

section \<open>Pages\<close>

record ('a, 'c) page =
  pgItems :: "'a list"
  pgHasMore :: bool
  pgNext :: 'c

partial_function (option) readPages ::
  "('c \<Rightarrow> string + ('a, 'c) page) \<Rightarrow> 'c \<Rightarrow> 'a list \<Rightarrow> (string + 'a list) option" where
  "readPages fetch cursor acc =
     (case fetch cursor of
        Inl err \<Rightarrow> Some (Inl err)
      | Inr p \<Rightarrow>
          if \<not> pgHasMore p then Some (Inr (acc @ pgItems p))
          else readPages fetch (pgNext p) (acc @ pgItems p))"

text \<open>From \<open>cursor\<close> on, the pages of \<open>fetch\<close> are finitely many and hold the rows \<open>xs\<close>.\<close>

inductive pagesOf :: "('c \<Rightarrow> string + ('a, 'c) page) \<Rightarrow> 'c \<Rightarrow> 'a list \<Rightarrow> bool" for fetch where
  last_page: "fetch c = Inr p \<Longrightarrow> \<not> pgHasMore p \<Longrightarrow> pagesOf fetch c (pgItems p)"
| more_pages: "fetch c = Inr p \<Longrightarrow> pgHasMore p \<Longrightarrow> pagesOf fetch (pgNext p) xs
    \<Longrightarrow> pagesOf fetch c (pgItems p @ xs)"

lemma readPages_pagesOf: "pagesOf fetch c xs \<Longrightarrow> readPages fetch c acc = Some (Inr (acc @ xs))"
  by (induction arbitrary: acc rule: pagesOf.induct) (subst readPages.simps, simp)+

lemma readPages_result:
  "readPages fetch c acc = Some r \<Longrightarrow> \<forall>ys. r = Inr ys \<longrightarrow> (\<exists>xs. ys = acc @ xs \<and> pagesOf fetch c xs)"
proof (induct rule: readPages.raw_induct [rotated 1, consumes 1])
  case (1 read fetch c acc r)
  show ?case
  proof (cases "fetch c")
    case (Inl err)
    with 1(2) have "r = Inl err" by simp
    then show ?thesis by simp
  next
    case (Inr p)
    show ?thesis
    proof (cases "pgHasMore p")
      case True
      with 1(2) Inr have "read fetch (pgNext p) (acc @ pgItems p) = Some r" by simp
      from 1(1) [OF this] show ?thesis
        using more_pages [of fetch c p] Inr True by fastforce
    next
      case False
      with 1(2) Inr have "r = Inr (acc @ pgItems p)" by simp
      with False Inr last_page [of fetch c p] show ?thesis by auto
    qed
  qed
qed

record catalog =
  ctAlbumTitle :: "string \<Rightarrow> string option"
  ctPlaylistName :: "string \<Rightarrow> string option"
  ctAlbumTracks :: "string \<Rightarrow> int \<Rightarrow> string + (AlbumTrackItem, int) page"
  ctPlaylistTracks :: "string \<Rightarrow> string \<Rightarrow> string + (PlaylistTrackItem, string) page"
  ctLiked :: "string \<Rightarrow> string + (LikedRecordingItem, string) page"
  ctOffline :: "string \<Rightarrow> string + (OfflineRecordingItem, string) page"
  ctRecordings :: "string \<Rightarrow> string + (RecordingListItem, string) page"
  ctRecording :: "string \<Rightarrow> string + RecordingListItem"

section \<open>Candidates\<close>

definition numberWith :: "(nat \<Rightarrow> SessionItem \<Rightarrow> string) \<Rightarrow> SessionItem list \<Rightarrow> PlaybackSourceCandidate list" where
  "numberWith key its = map (\<lambda>(k, i). \<lparr>cdKey = key k i, cdItem = i\<rparr>) (enumerate 0 its)"

definition albumKey :: "string \<Rightarrow> nat \<Rightarrow> SessionItem \<Rightarrow> string" where
  "albumKey albumID k i =
     ''album:'' @ albumID @ '':'' @ decimal6 k @ '':'' @ tgExact (itTarget i)"

definition playlistKey :: "string \<Rightarrow> nat \<Rightarrow> SessionItem \<Rightarrow> string" where
  "playlistKey playlistID k i =
     (let key = trimSpace (itSourceItemID i) in
      ''playlist:'' @ playlistID @ '':'' @
        (if key = '''' then decimal6 k @ '':'' @ firstNonEmpty [itVariantRecordingID i, itRecordingID i]
         else key))"

definition libraryKey :: "string \<Rightarrow> nat \<Rightarrow> SessionItem \<Rightarrow> string" where
  "libraryKey prefix k i =
     (let key = firstNonEmpty [itLibraryRecordingID i, itRecordingID i, itVariantRecordingID i] in
      prefix @ (if key = '''' then decimal6 k else key))"

definition tracksItem :: "RecordingListItem \<Rightarrow> SessionItem" where
  "tracksItem r = (itemFromRecording r)\<lparr>itSourceKind := ''tracks'', itSourceID := ''tracks''\<rparr>"

definition tracksKey :: "nat \<Rightarrow> SessionItem \<Rightarrow> string" where
  "tracksKey k i = ''tracks:'' @ firstNonEmpty [itLibraryRecordingID i, itRecordingID i]"

definition mapResult :: "('a \<Rightarrow> 'b) \<Rightarrow> string + 'a \<Rightarrow> string + 'b" where
  "mapResult f r = (case r of Inl e \<Rightarrow> Inl e | Inr x \<Rightarrow> Inr (f x))"

type_synonym candidates = "(string + PlaybackSourceCandidate list) option"

definition enumerateAlbumSource :: "catalog \<Rightarrow> string \<Rightarrow> candidates" where
  "enumerateAlbumSource C albumID =
     map_option (mapResult (\<lambda>rows. numberWith (albumKey albumID) (itemsFromAlbumTracks albumID rows)))
       (readPages (ctAlbumTracks C albumID) 0 [])"

definition enumeratePlaylistSource :: "catalog \<Rightarrow> string \<Rightarrow> candidates" where
  "enumeratePlaylistSource C playlistID =
     map_option (mapResult (\<lambda>rows.
         numberWith (playlistKey playlistID) (itemsFromPlaylistTracks playlistID rows)))
       (readPages (ctPlaylistTracks C playlistID) '''' [])"

definition enumerateLikedSource :: "catalog \<Rightarrow> candidates" where
  "enumerateLikedSource C =
     map_option (mapResult (\<lambda>rows. numberWith (libraryKey ''liked:'') (itemsFromLikedRecordings rows)))
       (readPages (ctLiked C) '''' [])"

definition enumerateOfflineSource :: "catalog \<Rightarrow> candidates" where
  "enumerateOfflineSource C =
     map_option (mapResult (\<lambda>rows. numberWith (libraryKey ''offline:'') (itemsFromOfflineRecordings rows)))
       (readPages (ctOffline C) '''' [])"

definition enumerateTracksSource :: "catalog \<Rightarrow> candidates" where
  "enumerateTracksSource C =
     map_option (mapResult (\<lambda>rows. numberWith tracksKey (map tracksItem rows)))
       (readPages (ctRecordings C) '''' [])"

definition enumerateRecordingSource :: "catalog \<Rightarrow> string \<Rightarrow> candidates" where
  "enumerateRecordingSource C recordingID =
     Some (mapResult (\<lambda>r. [\<lparr>cdKey = ''recording:'' @ trimSpace recordingID,
                          cdItem = itemFromRecordingRequest r recordingID\<rparr>])
       (ctRecording C recordingID))"

section \<open>Anchors\<close>

text \<open>Entry key first, then source item, then recording; an anchor that names nothing means the start.\<close>

definition anchorError :: string where
  "anchorError = ''selected item is not present in playback source''"

definition findSourceAnchorIndex ::
  "PlaybackSourceCandidate list \<Rightarrow> PlaybackSourceAnchor \<Rightarrow> string + int" where
  "findSourceAnchorIndex cands a =
     (let key = trimSpace (anEntryKey a); item = trimSpace (anSourceItemID a);
          recording = trimSpace (anRecordingID a);
          byKey = indexWhere (\<lambda>c. key \<noteq> '''' \<and> cdKey c = key) cands;
          byItem = indexWhere (\<lambda>c. item \<noteq> '''' \<and> itSourceItemID (cdItem c) = item) cands;
          byRecording = indexWhere (\<lambda>c. recording \<noteq> '''' \<and>
            (itRecordingID (cdItem c) = recording \<or> itLibraryRecordingID (cdItem c) = recording
             \<or> itVariantRecordingID (cdItem c) = recording)) cands
      in if byKey \<ge> 0 then Inr byKey
         else if byItem \<ge> 0 then Inr byItem
         else if byRecording \<ge> 0 then Inr byRecording
         else if key \<noteq> '''' \<or> item \<noteq> '''' \<or> recording \<noteq> '''' then Inl anchorError
         else Inr 0)"

section \<open>Enumerating a source\<close>

type_synonym enumeration = "PlaybackSourceRequest \<times> PlaybackSourceCandidate list \<times> int"

text \<open>The title of an album or playlist that has none, or only its id, is asked for.\<close>

definition resolveTitle :: "catalog \<Rightarrow> PlaybackSourceDescriptor \<Rightarrow> PlaybackSourceDescriptor" where
  "resolveTitle C d0 =
     (let d = d0\<lparr>dsID := trimSpace (dsID d0), dsTitle := trimSpace (dsTitle d0)\<rparr>;
          bare = (dsTitle d = '''' \<or> dsTitle d = dsID d);
          named = (\<lambda>r. case r of
              Some t \<Rightarrow> if trimSpace t \<noteq> '''' then d\<lparr>dsTitle := trimSpace t\<rparr> else d
            | None \<Rightarrow> d)
      in if dsKind d = KindAlbum \<and> bare then named (ctAlbumTitle C (dsID d))
         else if dsKind d = KindPlaylist \<and> bare then named (ctPlaylistName C (dsID d))
         else d)"

definition kindText :: "ContextKind \<Rightarrow> string" where
  "kindText k =
     (case k of KindAlbum \<Rightarrow> ''album'' | KindPlaylist \<Rightarrow> ''playlist'' | KindLiked \<Rightarrow> ''liked''
      | KindOffline \<Rightarrow> ''offline'' | KindTracks \<Rightarrow> ''tracks'' | KindRecording \<Rightarrow> ''recording''
      | KindCustom \<Rightarrow> ''custom'' | KindOther t \<Rightarrow> t)"

definition sourceCandidates :: "golib \<Rightarrow> catalog \<Rightarrow> PlaybackSourceDescriptor \<Rightarrow> candidates" where
  "sourceCandidates L C d =
     (case dsKind d of
        KindAlbum \<Rightarrow> enumerateAlbumSource C (dsID d)
      | KindPlaylist \<Rightarrow> enumeratePlaylistSource C (dsID d)
      | KindLiked \<Rightarrow> enumerateLikedSource C
      | KindOffline \<Rightarrow> enumerateOfflineSource C
      | KindTracks \<Rightarrow> enumerateTracksSource C
      | KindRecording \<Rightarrow> enumerateRecordingSource C (dsID d)
      | k \<Rightarrow> Some (Inl (''unsupported playback source '' @ quoted L (kindText k))))"

definition locateAnchor ::
  "PlaybackSourceDescriptor \<Rightarrow> PlaybackSourceAnchor \<Rightarrow> PlaybackSourceCandidate list
    \<Rightarrow> string + enumeration" where
  "locateAnchor d a cands =
     (if cands = [] then Inl (''playback source '' @ dsID d @ '' has no playable tracks'')
      else case findSourceAnchorIndex cands a of
        Inl err \<Rightarrow> Inl err
      | Inr start \<Rightarrow>
          Inr (\<lparr>rqDescriptor = d,
                rqAnchor = (if anEntryKey a = '''' then a\<lparr>anEntryKey := cdKey (cands ! nat start)\<rparr>
                            else a)\<rparr>, cands, start))"

definition enumerateSource ::
  "golib \<Rightarrow> catalog option \<Rightarrow> PlaybackSourceRequest \<Rightarrow> (string + enumeration) option" where
  "enumerateSource L core req =
     (case core of
        None \<Rightarrow> Some (Inl ''playback core is not available'')
      | Some C \<Rightarrow>
          let d = resolveTitle C (rqDescriptor req) in
          map_option (\<lambda>r. case r of
              Inl err \<Rightarrow> Inl err | Inr cands \<Rightarrow> locateAnchor d (rqAnchor req) cands)
            (sourceCandidates L C d))"

definition playbackContextInputFromSource :: "enumeration \<Rightarrow> PlaybackContextInput" where
  "playbackContextInputFromSource r =
     (case r of (req, cands, start) \<Rightarrow>
        \<lparr>ciKind = dsKind (rqDescriptor req), ciID = dsID (rqDescriptor req),
         ciTitle = dsTitle (rqDescriptor req), ciItems = map cdItem cands, ciStartIndex = start\<rparr>)"

definition materializeSource ::
  "golib \<Rightarrow> catalog option \<Rightarrow> PlaybackSourceRequest \<Rightarrow> (string + PlaybackContextInput) option" where
  "materializeSource L core req =
     map_option (mapResult playbackContextInputFromSource) (enumerateSource L core req)"

definition resolveSourceItem ::
  "golib \<Rightarrow> catalog option \<Rightarrow> PlaybackSourceRequest \<Rightarrow> (string + SessionItem) option" where
  "resolveSourceItem L core req =
     map_option (\<lambda>r. case r of
         Inl err \<Rightarrow> Inl err
       | Inr (_, cands, start) \<Rightarrow>
           if start < 0 \<or> int (length cands) \<le> start then Inl anchorError
           else Inr (cdItem (cands ! nat start)))
       (enumerateSource L core req)"

end
