(* ===== verification/QueueOps.thy ===== *)
theory QueueOps
  imports SessionState SourceCatalog
begin

text \<open>
  The operations on the queues and on the modes of a session (\<open>src/internal/playback/session.go\<close>):
  setting a context or a source, queueing, removing, moving and clearing entries, volume, repeat mode
  and shuffle.  Each definition is the whole method, its early returns included.
\<close>

section \<open>Identity of sources\<close>

definition sourceIdentityFromDescriptor ::
  "PlaybackSourceDescriptor \<Rightarrow> PlaybackSourceAnchor \<Rightarrow> sourceIdentity" where
  "sourceIdentityFromDescriptor d a =
     \<lparr>siKind = dsKind d, siID = trimSpace (dsID d), siRebasePolicy = dsRebasePolicy d,
      siLive = dsLive d,
      siAnchorMode =
        (if trimSpace (anEntryKey a) \<noteq> '''' then ''entry''
         else if trimSpace (anSourceItemID a) \<noteq> '''' then ''source_item''
         else if trimSpace (anRecordingID a) \<noteq> '''' then ''recording''
         else '''')\<rparr>"

definition sourceIdentityFromRequest :: "PlaybackSourceRequest \<Rightarrow> sourceIdentity" where
  "sourceIdentityFromRequest r = sourceIdentityFromDescriptor (rqDescriptor r) (rqAnchor r)"

definition sourceIdentityFromContextQueue :: "ContextQueue option \<Rightarrow> sourceIdentity" where
  "sourceIdentityFromContextQueue q =
     (case q of None \<Rightarrow> zeroSourceIdentity
      | Some q \<Rightarrow> (case cqSource q of None \<Rightarrow> zeroSourceIdentity
          | Some d \<Rightarrow> sourceIdentityFromDescriptor d
              (case cqAnchor q of None \<Rightarrow> noAnchor | Some a \<Rightarrow> a)))"

definition sourceIdentityEqual :: "sourceIdentity \<Rightarrow> sourceIdentity \<Rightarrow> bool" where
  "sourceIdentityEqual a b \<longleftrightarrow>
     siKind a = siKind b \<and> siRebasePolicy a = siRebasePolicy b \<and> siLive a = siLive b
     \<and> siAnchorMode a = siAnchorMode b \<and> trimSpace (siID a) = trimSpace (siID b)"

definition currentSourceIdentity :: "session \<Rightarrow> sourceIdentity" where
  "currentSourceIdentity s = sourceIdentityFromContextQueue (snContextQueue (ssSnap s))"

definition sourceIdentityForEntry :: "SessionEntry \<Rightarrow> session \<Rightarrow> sourceIdentity" where
  "sourceIdentityForEntry e s =
     (if enOrigin e \<noteq> OriginContext then zeroSourceIdentity else currentSourceIdentity s)"

definition transportTransitionInvalidatedByQueueMutation ::
  "string list \<Rightarrow> bool \<Rightarrow> bool \<Rightarrow> sourceIdentity \<Rightarrow> bool \<Rightarrow> session \<Rightarrow> bool" where
  "transportTransitionInvalidatedByQueueMutation changed clearCtx clearUser nextSource badIndex s =
     (case ssTransportPending s of
        None \<Rightarrow> False
      | Some p \<Rightarrow>
          if enEntryID (ttEntry p) \<in> set changed then True
          else if clearUser \<and> ttOrigin p = OriginQueued then True
          else if clearCtx \<and> ttOrigin p = OriginContext then True
          else if badIndex \<and> ttOrigin p = OriginQueued then True
          else ttOrigin p = OriginContext \<and> nextSource \<noteq> zeroSourceIdentity
               \<and> \<not> sourceIdentityEqual (ttSourceIdentity p) nextSource)"

section \<open>Building contexts\<close>

text \<open>The loop that gives each item an entry with a fresh id; \<open>ix\<close> is its context index.\<close>

fun makeEntries ::
  "string \<Rightarrow> EntryOrigin \<Rightarrow> (nat \<Rightarrow> int) \<Rightarrow> nat \<Rightarrow> SessionItem list \<Rightarrow> session
    \<Rightarrow> SessionEntry list \<times> session" where
  "makeEntries prefix origin ix k [] s = ([], s)"
| "makeEntries prefix origin ix k (i # rest) s =
     (let (id, s1) = nextEntryID prefix s;
          (es, s2) = makeEntries prefix origin ix (Suc k) rest s1
      in (\<lparr>enEntryID = id, enOrigin = origin, enContextIndex = ix k, enItem = i\<rparr> # es, s2))"

definition emptyContext :: "PlaybackContextInput \<Rightarrow> ContextQueue" where
  "emptyContext input =
     \<lparr>cqKind = ciKind input, cqID = trimSpace (ciID input), cqTitle = trimSpace (ciTitle input),
      cqEntries = [], cqStartIndex = 0, cqCurrentIndex = -1, cqResumeIndex = -1, cqShuffleBag = [],
      cqHasBefore = False, cqHasAfter = False, cqWindowStart = 0, cqWindowCount = 0,
      cqTotalCount = 0, cqLive = False, cqLoading = False, cqSourceVersion = 0, cqShuffleSeed = 0,
      cqSource = None, cqAnchor = None, cqAllEntries = []\<rparr>"

definition buildContext :: "PlaybackContextInput \<Rightarrow> session \<Rightarrow> ContextQueue \<times> int \<times> session" where
  "buildContext input s =
     (let its = normalizeItems (ciItems input) in
      if its = [] then (emptyContext input, 0, s)
      else let start = normalizeCurrentIndex (int (length its)) (ciStartIndex input);
               (es, s1) = makeEntries ''ctx'' OriginContext int 0 its s
           in ((emptyContext input)\<lparr>cqStartIndex := start, cqCurrentIndex := start,
                 cqResumeIndex := start, cqEntries := es, cqAllEntries := es\<rparr>, start, s1))"

definition unixNano :: "int \<Rightarrow> int" where
  "unixNano t = t - 62135596800000000000"

definition sourceEntries :: "PlaybackSourceCandidate list \<Rightarrow> SessionEntry list" where
  "sourceEntries cands =
     map (\<lambda>(i, c). \<lparr>enEntryID = cdKey c, enOrigin = OriginContext, enContextIndex = int i,
                    enItem = normalizeSessionItem (cdItem c)\<rparr>) (enumerate 0 cands)"

definition buildSourceContext ::
  "env \<Rightarrow> PlaybackSourceRequest \<Rightarrow> PlaybackSourceCandidate list \<Rightarrow> int \<Rightarrow> session
    \<Rightarrow> ContextQueue \<times> session" where
  "buildSourceContext E req cands start s =
     (let d = rqDescriptor req;
          (seed, s1) = drawUint64 E s;
          version = unixNano (nowNanos E s1)
      in (refreshWindow
            \<lparr>cqKind = dsKind d, cqID = trimSpace (dsID d), cqTitle = trimSpace (dsTitle d),
             cqEntries = [], cqStartIndex = start, cqCurrentIndex = start, cqResumeIndex = start,
             cqShuffleBag = [], cqHasBefore = False, cqHasAfter = False, cqWindowStart = 0,
             cqWindowCount = 0, cqTotalCount = 0, cqLive = dsLive d, cqLoading = False,
             cqSourceVersion = version, cqShuffleSeed = seed, cqSource = Some d,
             cqAnchor = Some (rqAnchor req), cqAllEntries = sourceEntries cands\<rparr>, tick s1))"

section \<open>Replacing the context\<close>

text \<open>The reset when nothing is current, common to the operations that install a context.\<close>

definition resetWithoutCurrent :: "session \<Rightarrow> session" where
  "resetWithoutCurrent s =
     (let s1 = clearAuthoritativePosition s;
          s2 = onSnap (\<lambda>n. n\<lparr>snDurationMS := None, snCurrentSourceKind := '''',
                 snCurrentPreparation := None\<rparr>) s1
      in clearCurrent (s2\<lparr>ssLoadedEntryID := '''', ssLoadedURI := ''''\<rparr>))"

definition setStatus :: "Status \<Rightarrow> session \<Rightarrow> session" where
  "setStatus st s = onSnap (\<lambda>n. n\<lparr>snStatus := st\<rparr>) s"

definition setLastError :: "string \<Rightarrow> session \<Rightarrow> session" where
  "setLastError msg s = onSnap (\<lambda>n. n\<lparr>snLastError := msg\<rparr>) s"

text \<open>The status after the reset: idle when the new context is empty, paused otherwise.\<close>

definition settleReset :: "bool \<Rightarrow> session \<Rightarrow> session" where
  "settleReset isEmpty s =
     (if isEmpty then setResumeContextIndex (-1) (setStatus StatusIdle s)
      else setStatus StatusPaused s)"

definition installContext :: "ContextQueue \<Rightarrow> session \<Rightarrow> session" where
  "installContext q s =
     cancelPendingRetry (clearLoadingState (setLastError ''''
       (onSnap (\<lambda>n. n\<lparr>snContextQueue := Some q, snUserQueue := []\<rparr>) s)))"

definition setContext :: "env \<Rightarrow> PlaybackContextInput \<Rightarrow> session \<Rightarrow> outcome" where
  "setContext E input s =
     (let (q, start, s1) = buildContext input s;
          s2 = cancelTransportTransition (advanceIntentEpoch s1);
          (needs, s3) = invalidatePreloadPlan E True s2;
          s4 = detachCurrentContext (installContext q s3);
          s5 = setResumeContextIndex start (setCurrentContextIndex start s4);
          s6 = (if snShuffle (ssSnap s5) then rebuildShuffleCycle E s5 else s5);
          s7 = markQueueDirty s6;
          isEmpty = (case snContextQueue (ssSnap s7) of None \<Rightarrow> True | Some c \<Rightarrow> cqEntries c = []);
          s8 = (if snCurrentEntry (ssSnap s7) = None then settleReset isEmpty (resetWithoutCurrent s7)
                else if isEmpty then setResumeContextIndex (-1) s7 else s7)
      in finishOp E needs (snCurrentEntry (ssSnap s8) = None) s8)"

text \<open>
  \<open>SetSource\<close> enumerates the source without the lock: the first half advances the intent epoch and
  yields it, the second half validates it against the session it finds.
\<close>

definition setSourceBegin :: "session \<Rightarrow> 64 word \<times> session" where
  "setSourceBegin s = (let s1 = advanceIntentEpoch s in (ssIntentEpoch s1, s1))"

definition seedShuffle :: "env \<Rightarrow> session \<Rightarrow> session" where
  "seedShuffle E s =
     (if snShuffle (ssSnap s) then rebuildShuffleCycle E (ensureContextShuffleSeed E s)
      else clearShuffle s)"

definition setShuffleFlag :: "bool \<Rightarrow> session \<Rightarrow> session" where
  "setShuffleFlag b s = onSnap (\<lambda>n. n\<lparr>snShuffle := b\<rparr>) s"

definition setSourceCommit ::
  "env \<Rightarrow> 64 word \<Rightarrow> string + enumeration \<Rightarrow> bool \<Rightarrow> session \<Rightarrow> outcome" where
  "setSourceCommit E epoch result shuffle s =
     (case result of
        Inl err \<Rightarrow> failed E err s
      | Inr (resolved, cands, start) \<Rightarrow>
          if ssIntentEpoch s \<noteq> epoch then unchanged E s
          else
            let (q, s1) = buildSourceContext E resolved cands start s;
                s2 = cancelTransportTransition s1;
                (needs, s3) = invalidatePreloadPlan E True s2;
                s4 = setShuffleFlag shuffle (detachCurrentContext (installContext q s3));
                s5 = setResumeContextIndex start (setCurrentContextIndex start s4);
                s6 = markQueueDirty (seedShuffle E s5);
                isEmpty = (contextAllEntries (ssSnap s6) = []);
                s7 = (if snCurrentEntry (ssSnap s6) = None
                      then settleReset isEmpty (resetWithoutCurrent s6)
                      else if isEmpty then setResumeContextIndex (-1) s6 else s6)
            in finishOp E needs (snCurrentEntry (ssSnap s7) = None) s7)"

section \<open>The user queue\<close>

definition setUserQueue :: "SessionEntry list \<Rightarrow> session \<Rightarrow> session" where
  "setUserQueue es s = onSnap (\<lambda>n. n\<lparr>snUserQueue := es\<rparr>) s"

definition queueItems :: "env \<Rightarrow> SessionItem list \<Rightarrow> QueueInsertMode \<Rightarrow> session \<Rightarrow> outcome" where
  "queueItems E items0 mode s =
     (let its = normalizeItems items0 in
      if its = [] then unchanged E s
      else
        let s1 = advanceIntentEpoch s;
            s2 = (if transportTransitionInvalidatedByQueueMutation [] False False zeroSourceIdentity
                       (mode = InsertNext) s1
                  then cancelTransportTransition s1 else s1);
            (needs, s3) = invalidatePreloadPlan E True s2;
            (es, s4) = makeEntries ''queued'' OriginQueued (\<lambda>_. -1) 0 its s3;
            old = snUserQueue (ssSnap s4);
            s5 = setUserQueue (if mode = InsertNext then es @ old else old @ es) s4
        in finishOp E needs False (markQueueDirty s5))"

definition removeQueuedEntry :: "env \<Rightarrow> string \<Rightarrow> session \<Rightarrow> outcome" where
  "removeQueuedEntry E entryID s =
     (let index = indexOfEntryID (snUserQueue (ssSnap s)) entryID in
      if index < 0 then failed E (''queued entry '' @ trimSpace entryID @ '' not found'') s
      else
        let s1 = advanceIntentEpoch s;
            badIndex = (case ssTransportPending s1 of None \<Rightarrow> False
              | Some p \<Rightarrow> ttOrigin p = OriginQueued \<and> index \<le> ttQueueIndex p);
            s2 = (if transportTransitionInvalidatedByQueueMutation [trimSpace entryID] False False
                       zeroSourceIdentity badIndex s1
                  then cancelTransportTransition s1 else s1);
            (needs, s3) = invalidatePreloadPlan E True s2;
            s4 = setUserQueue (removeAt (nat index) (snUserQueue (ssSnap s3))) s3
        in finishOp E needs False (cancelPendingRetry (markQueueDirty s4)))"

definition moveInQueue :: "nat \<Rightarrow> nat \<Rightarrow> 'a list \<Rightarrow> 'a list" where
  "moveInQueue from to xs = insertAt to (xs ! from) (removeAt from xs)"

definition moveQueuedEntry :: "env \<Rightarrow> string \<Rightarrow> int \<Rightarrow> session \<Rightarrow> outcome" where
  "moveQueuedEntry E entryID toIndex s =
     (let queue = snUserQueue (ssSnap s); fromIndex = indexOfEntryID queue entryID in
      if fromIndex < 0 then failed E (''queued entry '' @ trimSpace entryID @ '' not found'') s
      else if toIndex < 0 \<or> int (length queue) \<le> toIndex
      then failed E (''queue index '' @ decimal toIndex @ '' out of range'') s
      else if fromIndex = toIndex then unchanged E s
      else
        let s1 = advanceIntentEpoch s;
            badIndex = (case ssTransportPending s1 of None \<Rightarrow> False
              | Some p \<Rightarrow> ttOrigin p = OriginQueued \<and> ttQueueIndex p \<ge> 0
                  \<and> (enEntryID (ttEntry p) = trimSpace entryID
                     \<or> fromIndex < ttQueueIndex p \<and> toIndex \<ge> ttQueueIndex p
                     \<or> fromIndex > ttQueueIndex p \<and> toIndex \<le> ttQueueIndex p));
            s2 = (if transportTransitionInvalidatedByQueueMutation [trimSpace entryID] False False
                       zeroSourceIdentity badIndex s1
                  then cancelTransportTransition s1 else s1);
            (needs, s3) = invalidatePreloadPlan E True s2;
            s4 = setUserQueue (moveInQueue (nat fromIndex) (nat toIndex) (snUserQueue (ssSnap s3))) s3
        in finishOp E needs False (cancelPendingRetry (markQueueDirty s4)))"

definition clearQueue :: "env \<Rightarrow> session \<Rightarrow> outcome" where
  "clearQueue E s =
     (let hasCurrent = (snCurrentEntry (ssSnap s) \<noteq> None);
          s1 = advanceIntentEpoch s;
          s2 = (if transportTransitionInvalidatedByQueueMutation [] True True zeroSourceIdentity True s1
                then cancelTransportTransition s1 else s1);
          (needs, s3) = invalidatePreloadPlan E True s2;
          s4 = markQueueDirty (onSnap (\<lambda>n. n\<lparr>snContextQueue := None, snUserQueue := []\<rparr>) s3);
          s5 = cancelPendingRetry (clearLoadingState (setLastError '''' s4));
          s6 = setResumeContextIndex (-1) s5;
          s7 = (if hasCurrent then s6 else setStatus StatusIdle (resetWithoutCurrent s6))
      in finishOp E needs (\<not> hasCurrent) s7)"

section \<open>Modes\<close>

definition failedPreparation :: "env \<Rightarrow> SessionEntry \<Rightarrow> EntryPreparation" where
  "failedPreparation E e =
     \<lparr>epEntryID = enEntryID e,
      epStatus = zeroPreparation\<lparr>psRecordingID := itRecordingID (enItem e),
        psPreferredProfile := preferredProfile E, psPurpose := PurposePlayNow,
        psPhase := PhaseFailed\<rparr>\<rparr>"

definition markCurrentFailed :: "env \<Rightarrow> session \<Rightarrow> session" where
  "markCurrentFailed E s =
     (case snCurrentEntry (ssSnap s) of None \<Rightarrow> s
      | Some e \<Rightarrow> onSnap (\<lambda>n. n\<lparr>snCurrentPreparation := Some (failedPreparation E e)\<rparr>) s)"

definition failPlayback :: "env \<Rightarrow> string \<Rightarrow> session \<Rightarrow> outcome" where
  "failPlayback E msg s =
     (let s1 = cancelTransportTransition (clearLoadingState
                 (setLastError msg (setStatus StatusPaused s)));
          (n, _, s2) = finishOp E False False (stopTicker (markCurrentFailed E s1))
      in (n, Some (OtherError msg), s2))"

definition setVolume :: "env \<Rightarrow> int \<Rightarrow> session \<Rightarrow> outcome" where
  "setVolume E volume0 s =
     (let volume = clampVolume volume0;
          s1 = touch E (onSnap (\<lambda>n. n\<lparr>snVolume := volume\<rparr>) s);
          n = snapshotOf E s1;
          s2 = (if ssBackend s1 then doCall (BSetVolume volume) s1 else s1)
      in if ssBackend s1 \<and> callFailed E s2 \<noteq> None
         then failPlayback E (the (callFailed E s2)) s2
         else (n, None, publishSnapshot E n s2))"

definition setRepeatMode :: "env \<Rightarrow> string \<Rightarrow> session \<Rightarrow> outcome" where
  "setRepeatMode E mode s =
     (case parseRepeatMode (trimSpace mode) of
        None \<Rightarrow> failed E (''invalid repeat mode '' @ quoted (lib E) mode) s
      | Some m \<Rightarrow>
          let (needs, s1) = invalidatePreloadPlan E True s;
              previous = resumeContextIndex (ssSnap s1);
              s2 = recalculateResumeContextIndex E (onSnap (\<lambda>n. n\<lparr>snRepeatMode := m\<rparr>) s1);
              s3 = (if snContextQueue (ssSnap s2) \<noteq> None \<and> resumeContextIndex (ssSnap s2) \<noteq> previous
                    then markQueueDirty s2 else s2)
          in finishOp E needs False (invalidateNextActionPlan s3))"

definition setShuffle :: "env \<Rightarrow> bool \<Rightarrow> session \<Rightarrow> outcome" where
  "setShuffle E enabled s =
     (let was = snShuffle (ssSnap s);
          s1 = cancelTransportTransition (advanceIntentEpoch s);
          (needs, s2) = invalidatePreloadPlan E True s1;
          s3 = setShuffleFlag enabled s2;
          s4 = (if enabled then
                  rebuildShuffleCycle E
                    (if \<not> was \<and> snContextQueue (ssSnap s3) \<noteq> None
                     then let (seed, s') = drawUint64 E s3
                          in onContext (\<lambda>q. q\<lparr>cqShuffleSeed := seed\<rparr>) s'
                     else s3)
                else clearShuffle s3)
      in finishOp E needs False (markQueueDirty (recalculateResumeContextIndex E s4)))"

section \<open>Variants by position, and selection\<close>

definition replaceQueue :: "env \<Rightarrow> SessionItem list \<Rightarrow> int \<Rightarrow> session \<Rightarrow> outcome" where
  "replaceQueue E items0 start s =
     setContext E \<lparr>ciKind = KindCustom, ciID = ''custom'', ciTitle = '''', ciItems = items0,
                   ciStartIndex = start\<rparr> s"

definition appendToQueue :: "env \<Rightarrow> SessionItem list \<Rightarrow> session \<Rightarrow> outcome" where
  "appendToQueue E items0 s = queueItems E items0 InsertLast s"

definition indexError :: "env \<Rightarrow> int \<Rightarrow> session \<Rightarrow> outcome" where
  "indexError E i s = failed E (''queue index '' @ decimal i @ '' out of range'') s"

definition removeQueueItem :: "env \<Rightarrow> int \<Rightarrow> session \<Rightarrow> outcome" where
  "removeQueueItem E i s =
     (let queue = snUserQueue (ssSnap s) in
      if i < 0 \<or> int (length queue) \<le> i then indexError E i s
      else removeQueuedEntry E (enEntryID (queue ! nat i)) s)"

definition moveQueueItem :: "env \<Rightarrow> int \<Rightarrow> int \<Rightarrow> session \<Rightarrow> outcome" where
  "moveQueueItem E fromIndex toIndex s =
     (let queue = snUserQueue (ssSnap s) in
      if fromIndex < 0 \<or> int (length queue) \<le> fromIndex then indexError E fromIndex s
      else moveQueuedEntry E (enEntryID (queue ! nat fromIndex)) toIndex s)"

definition selectionEntries :: "SessionSnapshot \<Rightarrow> SessionEntry list" where
  "selectionEntries n =
     (case snCurrentEntry n of None \<Rightarrow> [] | Some e \<Rightarrow> [e]) @ snUserQueue n @ contextAllEntries n"

text \<open>Entry, origin and queue index of the entry with an id: the current one, then queued, then context.\<close>

definition resolveEntrySelection ::
  "string \<Rightarrow> SessionSnapshot \<Rightarrow> (SessionEntry \<times> EntryOrigin \<times> int) option" where
  "resolveEntrySelection entryID n =
     (let i = indexOfEntryID (snUserQueue n) entryID;
          queuedOrContext =
            (if i \<ge> 0 then Some (snUserQueue n ! nat i, OriginQueued, i)
             else map_option (\<lambda>e. (e, OriginContext, -1))
                    (find (\<lambda>e. enEntryID e = entryID) (contextAllEntries n)))
      in case snCurrentEntry n of
           Some e \<Rightarrow> if enEntryID e = entryID then Some (e, enOrigin e, -1) else queuedOrContext
         | None \<Rightarrow> queuedOrContext)"

end
