(* ===== verification/NextAction.thy ===== *)
theory NextAction
  imports QueueOps
begin

text \<open>
  Which entry is played next or before (\<open>src/internal/playback/session.go\<close>): the planning snapshot,
  the cached next-action plan and its key, resolving planned candidates against the queues of the
  session, and the batched availability checks that skip what cannot be played.

  Go slices and pointers are shared: \<open>planningSnapshotLocked\<close> copies the slice header of the user queue
  and the pointer to the context, so that its two assignments also change the session.  The effects are
  written out in \<open>planningEffect\<close>.
\<close>

section \<open>Planning\<close>

text \<open>
  \<open>append(q[:i], q[i+1:]...)\<close> moves the later elements down in the array that \<open>q\<close> shares and yields
  the shorter slice; the longer \<open>q\<close> then still ends with its old last element.
\<close>

definition appendInPlace :: "nat \<Rightarrow> 'a list \<Rightarrow> 'a list" where
  "appendInPlace i q = removeAt i q @ [last q]"

definition pendingQueueHit :: "session \<Rightarrow> transportTransition \<Rightarrow> bool" where
  "pendingQueueHit s p \<longleftrightarrow>
     ttOrigin p = OriginQueued \<and> 0 \<le> ttQueueIndex p
     \<and> ttQueueIndex p < int (length (snUserQueue (ssSnap s)))
     \<and> enEntryID (snUserQueue (ssSnap s) ! nat (ttQueueIndex p)) = enEntryID (ttEntry p)"

text \<open>What \<open>planningSnapshotLocked\<close> leaves behind in the session.\<close>

definition planningEffect :: "session \<Rightarrow> session" where
  "planningEffect s =
     (case ssTransportPending s of
        None \<Rightarrow> s
      | Some p \<Rightarrow>
          let s1 = (if ttOrigin p = OriginContext
                    then onContext (\<lambda>q. q\<lparr>cqCurrentIndex := enContextIndex (ttEntry p)\<rparr>) s else s)
          in if pendingQueueHit s p
             then setUserQueue (appendInPlace (nat (ttQueueIndex p)) (snUserQueue (ssSnap s1))) s1
             else s1)"

definition planningSnapshot :: "session \<Rightarrow> SessionSnapshot \<times> session" where
  "planningSnapshot s =
     (let n = ssSnap s; s1 = planningEffect s;
          base = zeroSnapshot\<lparr>snContextQueue := snContextQueue (ssSnap s1),
            snUserQueue := snUserQueue n, snCurrentEntry := snCurrentEntry n,
            snCurrentEntryID := (case snCurrentEntry n of None \<Rightarrow> '''' | Some e \<Rightarrow> enEntryID e),
            snRepeatMode := snRepeatMode n, snShuffle := snShuffle n\<rparr>
      in (case ssTransportPending s of
            None \<Rightarrow> base
          | Some p \<Rightarrow> base\<lparr>snCurrentEntry := Some (ttEntry p), snCurrentEntryID := enEntryID (ttEntry p),
              snUserQueue := (if pendingQueueHit s p then removeAt (nat (ttQueueIndex p)) (snUserQueue n)
                              else snUserQueue n)\<rparr>,
          s1))"

text \<open>The key of a plan, as a plan without candidates and version.\<close>

definition currentNextActionPlanKey :: "session \<Rightarrow> nextActionPlan" where
  "currentNextActionPlanKey s =
     (let n = ssSnap s; p = ssTransportPending s in
      \<lparr>npVersion = 0,
       npQueueVersion = snQueueVersion n + (if ssQueueDirty s then 1 else 0),
       npSourceVersion = (case snContextQueue n of None \<Rightarrow> 0 | Some q \<Rightarrow> cqSourceVersion q),
       npCurrentEntryID = (case p of None \<Rightarrow> snCurrentEntryID n | Some p \<Rightarrow> enEntryID (ttEntry p)),
       npRepeatMode = snRepeatMode n, npShuffle = snShuffle n, npTransportToken = ssTransportToken s,
       npPendingEntryID = (case p of None \<Rightarrow> '''' | Some p \<Rightarrow> enEntryID (ttEntry p)),
       npPendingOrigin = (case p of None \<Rightarrow> OriginOther '''' | Some p \<Rightarrow> ttOrigin p),
       npPendingQueueIdx = (case p of None \<Rightarrow> -1 | Some p \<Rightarrow> ttQueueIndex p),
       npCandidates = []\<rparr>)"

definition planKey :: "nextActionPlan \<Rightarrow> nextActionPlan" where
  "planKey p = p\<lparr>npVersion := 0, npCandidates := []\<rparr>"

definition planCandidate :: "playbackCandidate \<Rightarrow> plannedCandidate" where
  "planCandidate c =
     \<lparr>plEntryID = enEntryID (pcEntry c), plOrigin = pcOrigin c, plQueueIndex = pcQueueIndex c,
      plContextIndex = enContextIndex (pcEntry c), plTarget = itTarget (enItem (pcEntry c)),
      plRecordingID = itRecordingID (enItem (pcEntry c))\<rparr>"

definition ensureNextActionPlan :: "env \<Rightarrow> session \<Rightarrow> nextActionPlan \<times> session" where
  "ensureNextActionPlan E s =
     (let key = currentNextActionPlanKey s;
          rebuild =
            (let (n, s1) = planningSnapshot s;
                 cands = map planCandidate (drainIterator (newNextActionIterator (lib E) n {}));
                 builds = ssNextActionBuilds s1 + 1;
                 plan = key\<lparr>npVersion := builds, npCandidates := cands\<rparr>
             in (plan, s1\<lparr>ssNextActionBuilds := builds, ssNextActionPlan := Some plan\<rparr>))
      in case ssNextActionPlan s of
           Some plan \<Rightarrow> if planKey plan = key then (plan, s) else rebuild
         | None \<Rightarrow> rebuild)"

section \<open>Resolving a planned candidate\<close>

definition playbackCandidateFromPlanned ::
  "session \<Rightarrow> plannedCandidate \<Rightarrow> playbackCandidate option" where
  "playbackCandidateFromPlanned s c =
     (let n = ssSnap s; id = plEntryID c;
          byID = (case findEntryByID n id of
              None \<Rightarrow> None
            | Some e \<Rightarrow> Some \<lparr>pcEntry = e, pcOrigin = enOrigin e,
                pcQueueIndex = (if enOrigin e = OriginQueued
                  then indexOfEntryID (snUserQueue n) (enEntryID e) else -1)\<rparr>);
          byPosition =
            (if plOrigin c = OriginQueued \<and> 0 \<le> plQueueIndex c
                \<and> plQueueIndex c < int (length (snUserQueue n))
                \<and> enEntryID (snUserQueue n ! nat (plQueueIndex c)) = id
             then Some \<lparr>pcEntry = snUserQueue n ! nat (plQueueIndex c), pcOrigin = OriginQueued,
                        pcQueueIndex = plQueueIndex c\<rparr>
             else if plOrigin c = OriginContext \<and> 0 \<le> plContextIndex c
                \<and> plContextIndex c < contextCount n
                \<and> enEntryID (contextAllEntries n ! nat (plContextIndex c)) = id
             then Some \<lparr>pcEntry = contextAllEntries n ! nat (plContextIndex c),
                        pcOrigin = OriginContext, pcQueueIndex = -1\<rparr>
             else byID);
          byPending = (case ssTransportPending s of
              Some p \<Rightarrow>
                if enEntryID (ttEntry p) = id
                then Some \<lparr>pcEntry = ttEntry p, pcOrigin = ttOrigin p, pcQueueIndex = ttQueueIndex p\<rparr>
                else byPosition
            | None \<Rightarrow> byPosition)
      in if trimSpace id = '''' then None
         else case snCurrentEntry n of
           Some e \<Rightarrow>
             if enEntryID e = id then Some \<lparr>pcEntry = e, pcOrigin = enOrigin e, pcQueueIndex = -1\<rparr>
             else byPending
         | None \<Rightarrow> byPending)"

section \<open>Availability\<close>

definition isAvailabilityDefinitivelyUnavailable :: "AvailabilityState \<Rightarrow> bool" where
  "isAvailabilityDefinitivelyUnavailable st \<longleftrightarrow> st = UnavailableNoPath \<or> st = UnavailableProvider"

definition availabilityUnavailableMessage :: "SessionEntry \<Rightarrow> PreparationStatus \<Rightarrow> string" where
  "availabilityUnavailableMessage e st =
     ''recording '' @ itRecordingID (enItem e) @ '' is unavailable ('' @ psReason st @ '')''"

definition skippedFromAvailability :: "SessionEntry \<Rightarrow> PlaybackAvailability \<Rightarrow> skippedEntry" where
  "skippedFromAvailability e a =
     (let st = zeroPreparation\<lparr>psRecordingID := avRecordingID a,
             psPreferredProfile := avPreferredProfile a, psPurpose := PurposePlayNow,
             psPhase := PhaseUnavailable, psSourceKind := avSourceKind a, psReason := avReason a\<rparr>
      in \<lparr>seEntry = e, seStatus = st, seMessage = availabilityUnavailableMessage e st\<rparr>)"

text \<open>A resolution: the candidate, the entries skipped, and whether the plan turned out stale.\<close>

type_synonym resolution = "playbackCandidate option \<times> skippedEntry list \<times> bool"

fun firstUncheckedCandidate ::
  "session \<Rightarrow> (string \<rightharpoonup> PlaybackAvailability) \<Rightarrow> skippedEntry list \<Rightarrow> plannedCandidate list
    \<Rightarrow> resolution" where
  "firstUncheckedCandidate s known skipped [] = (None, skipped, False)"
| "firstUncheckedCandidate s known skipped (c # rest) =
     (case playbackCandidateFromPlanned s c of
        None \<Rightarrow> (None, skipped, True)
      | Some next \<Rightarrow>
          (case known (playbackTargetKey (plTarget c)) of
             Some a \<Rightarrow>
               if isAvailabilityDefinitivelyUnavailable (avState a)
               then firstUncheckedCandidate s known
                      (skipped @ [skippedFromAvailability (pcEntry next) a]) rest
               else (Some next, skipped, False)
           | None \<Rightarrow> (Some next, skipped, False)))"

definition availabilityCacheTTL :: int where
  "availabilityCacheTTL = 2 * 1000000000"

text \<open>First loop of a batch: what the cache knows, and the targets to ask for, each key once.\<close>

fun cachedTargets ::
  "env \<Rightarrow> int \<Rightarrow> int \<Rightarrow> plannedCandidate list \<Rightarrow> (string \<rightharpoonup> PlaybackAvailability) \<Rightarrow> string list
    \<Rightarrow> PlaybackTargetRef list \<Rightarrow> session
    \<Rightarrow> (string \<rightharpoonup> PlaybackAvailability) \<times> PlaybackTargetRef list \<times> session" where
  "cachedTargets E now version [] known seen targets s = (known, targets, s)"
| "cachedTargets E now version (c # rest) known seen targets s =
     (let key = playbackTargetKey (plTarget c) in
      if key = '''' then cachedTargets E now version rest known seen targets s
      else case cachedAvailabilityFor E (plTarget c) now version s of
        (Some a, s1) \<Rightarrow> cachedTargets E now version rest (known(key \<mapsto> a)) seen targets s1
      | (None, s1) \<Rightarrow>
          if key \<in> set seen then cachedTargets E now version rest known seen targets s1
          else cachedTargets E now version rest known (key # seen) (targets @ [plTarget c]) s1)"

fun storeAvailabilities ::
  "env \<Rightarrow> int \<Rightarrow> int \<Rightarrow> (PlaybackTargetRef \<times> PlaybackAvailability) list
    \<Rightarrow> (string \<rightharpoonup> PlaybackAvailability) \<Rightarrow> session
    \<Rightarrow> (string \<rightharpoonup> PlaybackAvailability) \<times> session" where
  "storeAvailabilities E expires version [] known s = (known, s)"
| "storeAvailabilities E expires version ((t, a) # rest) known s =
     (let key = playbackTargetKey t in
      if key = '''' then storeAvailabilities E expires version rest known s
      else storeAvailabilities E expires version rest (known(key \<mapsto> a))
             (cacheAvailability E t a expires version s))"

fun recordAvailabilities ::
  "(string \<rightharpoonup> PlaybackAvailability) \<Rightarrow> plannedCandidate list \<Rightarrow> session \<Rightarrow> session" where
  "recordAvailabilities known [] s = s"
| "recordAvailabilities known (c # rest) s =
     (case known (playbackTargetKey (plTarget c)) of
        None \<Rightarrow> recordAvailabilities known rest s
      | Some a \<Rightarrow> recordAvailabilities known rest (setEntryAvailability (plEntryID c) a s))"

definition resolvePlayableCandidateBatch ::
  "env \<Rightarrow> int \<Rightarrow> plannedCandidate list \<Rightarrow> session \<Rightarrow> resolution \<times> session" where
  "resolvePlayableCandidateBatch E version cands s =
     (if cands = [] then ((None, [], False), s)
      else
        let now = nowNanos E s;
            (known, targets, s1) = cachedTargets E now version cands Map.empty [] [] (tick s)
        in if targets = [] then
             let s2 = recordAvailabilities known cands s1
             in (firstUncheckedCandidate s2 known [] cands, s2)
           else
             let s2 = doCall (CListAvailability targets) s1 in
             if callFailed E s2 \<noteq> None then (firstUncheckedCandidate s2 known [] cands, s2)
             else
               let (known2, s3) = storeAvailabilities E (now + availabilityCacheTTL) version
                     (replyAvailabilities E (ssTrace s2)) known s2;
                   s4 = recordAvailabilities known2 cands s3
               in (firstUncheckedCandidate s4 known2 [] cands, s4))"

text \<open>
  The loop over the plan cuts the candidates that are not blocked into batches of 64; the last one may
  be shorter.  A batch without an answer hands over to the next, a stale one ends the attempt.
\<close>

definition availabilityBatchSize :: nat where
  "availabilityBatchSize = 64"

function chunks :: "'a list \<Rightarrow> 'a list list" where
  "chunks [] = []"
| "chunks (x # xs) =
     take availabilityBatchSize (x # xs) # chunks (drop availabilityBatchSize (x # xs))"
  by pat_completeness auto
termination
  by (relation "measure length") (simp_all add: availabilityBatchSize_def)

fun resolveBatches ::
  "env \<Rightarrow> int \<Rightarrow> plannedCandidate list list \<Rightarrow> skippedEntry list \<Rightarrow> session \<Rightarrow> resolution \<times> session" where
  "resolveBatches E version [] skipped s = ((None, skipped, False), s)"
| "resolveBatches E version (b # bs) skipped s =
     (case resolvePlayableCandidateBatch E version b s of
        ((Some c, sk, _), s1) \<Rightarrow> ((Some c, skipped @ sk, False), s1)
      | ((None, sk, stale), s1) \<Rightarrow>
          if stale then ((None, skipped @ sk, True), s1)
          else resolveBatches E version bs (skipped @ sk) s1)"

fun firstResolved :: "session \<Rightarrow> plannedCandidate list \<Rightarrow> playbackCandidate option" where
  "firstResolved s [] = None"
| "firstResolved s (c # rest) =
     (case playbackCandidateFromPlanned s c of Some r \<Rightarrow> Some r | None \<Rightarrow> firstResolved s rest)"

text \<open>\<open>for attempt := 0; attempt < 2\<close>: the number of attempts left.\<close>

fun resolveAttempts ::
  "env \<Rightarrow> nat \<Rightarrow> string list \<Rightarrow> session
    \<Rightarrow> (playbackCandidate option \<times> skippedEntry list) \<times> session" where
  "resolveAttempts E 0 blocked s = ((None, []), s)"
| "resolveAttempts E (Suc n) blocked s =
     (let (plan, s1) = ensureNextActionPlan E s;
          open = filter (\<lambda>c. plEntryID c \<notin> set blocked) (npCandidates plan)
      in if \<not> hasCore E then ((firstResolved s1 open, []), s1)
         else case resolveBatches E (npSourceVersion plan) (chunks open) [] s1 of
           ((Some c, skipped, _), s2) \<Rightarrow> ((Some c, skipped), s2)
         | ((None, skipped, stale), s2) \<Rightarrow>
             if stale then resolveAttempts E n blocked (invalidateNextActionPlan s2)
             else ((None, skipped), s2))"

definition resolvePlayableFromPlan ::
  "env \<Rightarrow> string list \<Rightarrow> session \<Rightarrow> (playbackCandidate option \<times> skippedEntry list) \<times> session" where
  "resolvePlayableFromPlan E blocked s = resolveAttempts E 2 blocked s"

section \<open>The previous candidate\<close>

text \<open>
  The loop of \<open>resolvePreviousPlayableCandidate\<close> asks for one target at a time; an error ends it.
\<close>

definition previousAvailability ::
  "env \<Rightarrow> int \<Rightarrow> int \<Rightarrow> PlaybackTargetRef \<Rightarrow> session
    \<Rightarrow> (string + PlaybackAvailability option) \<times> session" where
  "previousAvailability E now version t s =
     (if \<not> hasCore E then (Inr None, s)
      else case cachedAvailabilityFor E t now version s of
        (Some a, s1) \<Rightarrow> (Inr (Some a), s1)
      | (None, s1) \<Rightarrow>
          if playbackTargetKey t = '''' then (Inr None, s1)
          else
            let s2 = doCall (CGetAvailability t) s1 in
            case callFailed E s2 of
              Some err \<Rightarrow> (Inl err, s2)
            | None \<Rightarrow>
                let a = replyAvailability E (ssTrace s2)
                in (Inr (Some a), cacheAvailability E t a (now + availabilityCacheTTL) version s2))"

fun previousLoop ::
  "env \<Rightarrow> int \<Rightarrow> int \<Rightarrow> string list \<Rightarrow> skippedEntry list \<Rightarrow> plannedCandidate list \<Rightarrow> session
    \<Rightarrow> (string + playbackCandidate option) \<times> skippedEntry list \<times> session" where
  "previousLoop E now version blocked skipped [] s = (Inr None, skipped, s)"
| "previousLoop E now version blocked skipped (c # rest) s =
     (if plEntryID c \<in> set blocked then previousLoop E now version blocked skipped rest s
      else case previousAvailability E now version (plTarget c) s of
        (Inl err, s1) \<Rightarrow> (Inl err, skipped, s1)
      | (Inr known, s1) \<Rightarrow>
          (case playbackCandidateFromPlanned s1 c of
             None \<Rightarrow> previousLoop E now version blocked skipped rest s1
           | Some r \<Rightarrow>
               (case known of
                  None \<Rightarrow> (Inr (Some r), skipped, s1)
                | Some a \<Rightarrow>
                    let s2 = setEntryAvailability (plEntryID c) a s1 in
                    if isAvailabilityDefinitivelyUnavailable (avState a)
                    then previousLoop E now version blocked
                           (skipped @ [skippedFromAvailability (pcEntry r) a]) rest s2
                    else (Inr (Some r), skipped, s2))))"

definition resolvePreviousPlayableCandidate ::
  "env \<Rightarrow> string list \<Rightarrow> session
    \<Rightarrow> (string + playbackCandidate option) \<times> skippedEntry list \<times> session" where
  "resolvePreviousPlayableCandidate E blocked s =
     (let (n, s1) = planningSnapshot s;
          version = (case snContextQueue n of None \<Rightarrow> 0 | Some q \<Rightarrow> cqSourceVersion q);
          cands = buildPreviousActionPlan (lib E) n
      in if cands = [] then (Inr None, [], s1)
         else previousLoop E (nowNanos E s1) version blocked [] cands (tick s1))"

end
