(* ===== verification/Playing.thy ===== *)
theory Playing
  imports NextAction
begin

text \<open>
  Starting one entry (\<open>src/internal/playback/session.go\<close>): \<open>playEntry\<close> with its preloaded,
  preparing, unavailable and direct branches, the preloading of the entry that comes next, the skip
  events, and the observation of the backend's position.
\<close>

section \<open>Skip events\<close>

definition playbackSkipMessage :: "skippedEntry list \<Rightarrow> bool \<Rightarrow> string" where
  "playbackSkipMessage skipped stopped =
     (if skipped = [] then
        (if stopped then ''All remaining tracks are unavailable.'' else ''Skipped unavailable track.'')
      else
        let title = trimSpace (itTitle (enItem (seEntry (hd skipped))));
            count = decimal (int (length skipped))
        in if stopped then
             (if length skipped = 1
              then ''Skipped unavailable track: '' @ title @ ''. No playable tracks remain.''
              else ''Skipped '' @ count @ '' unavailable tracks. No playable tracks remain.'')
           else if length skipped = 1 then ''Skipped unavailable track: '' @ title @ ''.''
           else ''Skipped '' @ count @ '' unavailable tracks.'')"

definition recordSkipEvent :: "env \<Rightarrow> skippedEntry list \<Rightarrow> bool \<Rightarrow> session \<Rightarrow> session" where
  "recordSkipEvent E skipped stopped s =
     (if skipped = [] then s
      else
        let t1 = nowNanos E s; s1 = tick s; t2 = nowNanos E s1; s2 = tick s1 in
        onSnap (\<lambda>n. n\<lparr>snLastSkipEvent := Some
          \<lparr>skEventID = ''skip:'' @ decimal (unixNano t1),
           skMessage = playbackSkipMessage skipped stopped,
           skCount = int (length skipped), skStopped = stopped,
           skFirstEntry = Some (seEntry (hd skipped)),
           skOccurredAt = formatTimestamp (lib E) t2\<rparr>\<rparr>) s2)"

definition errorFromSkip :: "session \<Rightarrow> session" where
  "errorFromSkip s =
     (case snLastSkipEvent (ssSnap s) of None \<Rightarrow> s | Some e \<Rightarrow> setLastError (skMessage e) s)"

definition applySkipEvent ::
  "env \<Rightarrow> skippedEntry list \<Rightarrow> bool \<Rightarrow> session \<Rightarrow> SessionSnapshot \<times> session" where
  "applySkipEvent E skipped stopped s =
     (if skipped = [] then (snapshotOf E s, s)
      else
        let s1 = recordSkipEvent E skipped stopped s;
            s2 = (if stopped then errorFromSkip s1 else s1);
            (n, _, s3) = finishOp E False False s2
        in (n, s3))"

definition setDuration :: "int option \<Rightarrow> session \<Rightarrow> session" where
  "setDuration d s = onSnap (\<lambda>n. n\<lparr>snDurationMS := d\<rparr>) s"

definition setLoaded :: "string \<Rightarrow> string \<Rightarrow> session \<Rightarrow> session" where
  "setLoaded entryID uri s = s\<lparr>ssLoadedEntryID := entryID, ssLoadedURI := uri\<rparr>"

definition disarm :: "session \<Rightarrow> session" where
  "disarm s = s\<lparr>ssBackendPreloadArmed := False\<rparr>"

definition stopAfterSkipped ::
  "env \<Rightarrow> SessionEntry option \<Rightarrow> skippedEntry list \<Rightarrow> session \<Rightarrow> SessionSnapshot \<times> session" where
  "stopAfterSkipped E previous skipped s =
     (let s1 = (case previous of
            Some p \<Rightarrow>
              if enEntryID p \<noteq> '''' \<and> snCurrentEntry (ssSnap s) = None
              then setCurrent p (enOrigin p) s else s
          | None \<Rightarrow> s);
          s2 = (if snCurrentEntry (ssSnap s1) = None
                then onSnap (\<lambda>n. n\<lparr>snCurrentSourceKind := '''', snCurrentPreparation := None\<rparr>) s1
                else s1);
          s3 = setAuthoritativePosition E 0 (setStatus StatusPaused s2);
          s4 = setDuration (currentDuration (currentItemFromEntry (snCurrentEntry (ssSnap s3)))) s3;
          s5 = clearNextPreparationState (clearLoadingState (setLoaded '''' '''' s4));
          s6 = errorFromSkip (recordSkipEvent E skipped True (stopTicker (disarm s5)));
          s7 = touch E s6;
          n = snapshotOf E s7;
          s8 = (if ssBackend s7 then doCall BStop s7 else s7)
      in (n, publishSnapshot E n s8))"

definition settleAfterSkipped ::
  "env \<Rightarrow> skippedEntry list \<Rightarrow> session \<Rightarrow> SessionSnapshot \<times> session" where
  "settleAfterSkipped E skipped s =
     (let s1 = recordSkipEvent E skipped False (clearNextPreparationState (clearLoadingState s));
          (n, _, s2) = finishOp E False False s1
      in (n, s2))"

section \<open>Preloading the next entry\<close>

definition nextPreparationPoll :: int where
  "nextPreparationPoll = 5 * 1000000000"

definition preloadAfterPlayedMS :: int where
  "preloadAfterPlayedMS = 45000"

definition preloadRemainingMS :: int where
  "preloadRemainingMS = 30000"

definition readyStatus :: "PreparationStatus \<Rightarrow> bool" where
  "readyStatus st \<longleftrightarrow> psPhase st = PhaseReady \<and> trimSpace (psPlayableURI st) \<noteq> ''''"

definition preparing :: "PreparationStatus \<Rightarrow> bool" where
  "preparing st \<longleftrightarrow> psPhase st = PhasePreparingFetch \<or> psPhase st = PhasePreparingTranscode"

definition shouldArmNextPreparation :: "session \<Rightarrow> bool" where
  "shouldArmNextPreparation s \<longleftrightarrow>
     ssTransportPending s = None \<and> snLoadingEntry (ssSnap s) = None
     \<and> snStatus (ssSnap s) = StatusPlaying \<and> snCurrentEntry (ssSnap s) \<noteq> None"

definition shouldAttemptBackendPreload :: "session \<Rightarrow> bool" where
  "shouldAttemptBackendPreload s \<longleftrightarrow>
     shouldArmNextPreparation s
     \<and> (snPositionMS (ssSnap s) \<ge> preloadAfterPlayedMS
        \<or> (case snDurationMS (ssSnap s) of None \<Rightarrow> False
           | Some d \<Rightarrow> d - snPositionMS (ssSnap s) \<le> preloadRemainingMS))"

definition shouldPollNextPreparation :: "string \<Rightarrow> int \<Rightarrow> session \<Rightarrow> bool" where
  "shouldPollNextPreparation entryID now s \<longleftrightarrow>
     trimSpace entryID \<noteq> ''''
     \<and> (ssRetryEntryID s \<noteq> entryID
        \<or> (case ssRetryAt s of None \<Rightarrow> True | Some t \<Rightarrow> \<not> now < t))"

definition scheduleNextPreparationPoll :: "string \<Rightarrow> int \<Rightarrow> session \<Rightarrow> session" where
  "scheduleNextPreparationPoll entryID t s =
     s\<lparr>ssRetryEntryID := trimSpace entryID, ssRetryAt := Some t\<rparr>"

definition shouldSuppressBackendPreload :: "env \<Rightarrow> string \<Rightarrow> string \<Rightarrow> session \<Rightarrow> bool" where
  "shouldSuppressBackendPreload E entryID uri s \<longleftrightarrow>
     trimSpace entryID \<noteq> '''' \<and> trimSpace entryID = trimSpace (ssPreloadFailureEntryID s)
     \<and> normalizePlaybackURI (lib E) uri \<noteq> ''''
     \<and> normalizePlaybackURI (lib E) uri = normalizePlaybackURI (lib E) (ssPreloadFailureURI s)"

definition recordBackendPreloadFailure :: "env \<Rightarrow> string \<Rightarrow> string \<Rightarrow> session \<Rightarrow> session" where
  "recordBackendPreloadFailure E entryID uri s =
     s\<lparr>ssPreloadFailureEntryID := trimSpace entryID,
       ssPreloadFailureURI := normalizePlaybackURI (lib E) uri\<rparr>"

definition putNextPreparation :: "SessionEntry \<Rightarrow> PreparationStatus \<Rightarrow> session \<Rightarrow> session" where
  "putNextPreparation e st s =
     onSnap (\<lambda>n. n\<lparr>snNextPreparation := Some \<lparr>epEntryID = enEntryID e, epStatus = st\<rparr>\<rparr>) s"

definition setNextPreparation :: "env \<Rightarrow> SessionEntry \<Rightarrow> PreparationStatus \<Rightarrow> session \<Rightarrow> session" where
  "setNextPreparation E e st s =
     putNextPreparation e st
       (if shouldSuppressBackendPreload E (enEntryID e) (psPlayableURI st) s then s
        else clearBackendPreloadFailure s)"

definition setPreloaded :: "string \<Rightarrow> string \<Rightarrow> session \<Rightarrow> session" where
  "setPreloaded entryID uri s =
     s\<lparr>ssPreloadedID := entryID, ssPreloadedURI := uri, ssBackendPreloadArmed := True\<rparr>"

definition applyNextPreparationStatus ::
  "env \<Rightarrow> SessionEntry \<Rightarrow> PreparationStatus \<Rightarrow> session \<Rightarrow> session" where
  "applyNextPreparationStatus E e st s =
     (let s1 = setNextPreparation E e st s; uri = psPlayableURI st in
      if \<not> readyStatus st then
        let s2 = scheduleNextPreparationPoll (enEntryID e) (nowNanos E s1 + nextPreparationPoll) (tick s1);
            s3 = touch E (s2\<lparr>ssPreloadedID := '''', ssPreloadedURI := ''''\<rparr>)
        in clearBackendPreload E (ssBackend s3) s3
      else
        let s2 = touch E (clearNextPreparationRetry s1) in
        if \<not> shouldAttemptBackendPreload s2 then s2
        else if shouldSuppressBackendPreload E (enEntryID e) uri s2 then s2
        else
          let s3 = (if ssBackend s2 then doCall (BPreloadNext uri) s2 else s2) in
          if ssBackend s2 \<and> callFailed E s3 \<noteq> None
          then recordBackendPreloadFailure E (enEntryID e) uri s3
          else touch E (setNextPreparation E e st
                 (setPreloaded (enEntryID e) uri (clearBackendPreloadFailure s3))))"

text \<open>The branch of \<open>preloadNext\<close> for a next entry that is prepared but not preloaded yet.\<close>

definition preloadReadyEntry ::
  "env \<Rightarrow> bool \<Rightarrow> SessionEntry \<Rightarrow> PreparationStatus \<Rightarrow> session \<Rightarrow> session" where
  "preloadReadyEntry E attempt e st s =
     (let uri = psPlayableURI st in
      if \<not> attempt then s
      else if shouldSuppressBackendPreload E (enEntryID e) uri s then s
      else
        let s1 = doCall (BPreloadNext uri) s in
        if callFailed E s1 \<noteq> None then recordBackendPreloadFailure E (enEntryID e) uri s1
        else putNextPreparation e st (setPreloaded (enEntryID e) uri
               (clearBackendPreloadFailure (clearNextPreparationRetry s1))))"

definition prepareNext :: "env \<Rightarrow> SessionEntry \<Rightarrow> session \<Rightarrow> session" where
  "prepareNext E e s =
     (let s1 = doCall (CPrepareTarget (itTarget (enItem e)) PurposePreloadNext) s in
      if callFailed E s1 \<noteq> None then s1
      else applyNextPreparationStatus E e (replyStatus E (ssTrace s1)) s1)"

definition pollNext :: "env \<Rightarrow> SessionEntry \<Rightarrow> session \<Rightarrow> session" where
  "pollNext E e s =
     (let s1 = doCall (CGetPreparation (itTarget (enItem e))) s in
      if callFailed E s1 \<noteq> None then s1
      else applyNextPreparationStatus E e (replyStatus E (ssTrace s1)) s1)"

definition dropNextPreparation :: "env \<Rightarrow> session \<Rightarrow> session" where
  "dropNextPreparation E s =
     (let s1 = clearNextPreparationState s in clearBackendPreload E (ssBackend s1) s1)"

definition preloadNext :: "env \<Rightarrow> session \<Rightarrow> session" where
  "preloadNext E s0 =
     (let now = nowNanos E s0; s = tick s0 in
      if \<not> ssBackend s \<or> \<not> supportsPreload E then s
      else if \<not> shouldArmNextPreparation s then dropNextPreparation E s
      else if \<not> hasCore E then s
      else
        let currentID = (case snCurrentEntry (ssSnap s) of None \<Rightarrow> '''' | Some e \<Rightarrow> enEntryID e);
            currentNext = snNextPreparation (ssSnap s);
            attempt = shouldAttemptBackendPreload s;
            ((cand, _), s1) = resolvePlayableFromPlan E [] s
        in case cand of
          None \<Rightarrow> dropNextPreparation E s1
        | Some c \<Rightarrow>
            let e = pcEntry c; id = enEntryID e in
            if id = '''' \<or> (currentID \<noteq> '''' \<and> id = currentID) then dropNextPreparation E s1
            else case currentNext of
              None \<Rightarrow> prepareNext E e s1
            | Some p \<Rightarrow>
                if epEntryID p \<noteq> id then prepareNext E e s1
                else
                  let scheduled = scheduleNextPreparationPoll id (now + nextPreparationPoll) s1 in
                  (case psPhase (epStatus p) of
                     PhaseReady \<Rightarrow>
                       if ssPreloadedID s1 = id \<and> ssPreloadedURI s1 = psPlayableURI (epStatus p) then s1
                       else preloadReadyEntry E attempt e (epStatus p) s1
                   | PhasePreparingFetch \<Rightarrow>
                       if shouldPollNextPreparation id now s1 then pollNext E e scheduled else s1
                   | PhasePreparingTranscode \<Rightarrow>
                       if shouldPollNextPreparation id now s1 then pollNext E e scheduled else s1
                   | PhaseUnavailable \<Rightarrow>
                       if shouldPollNextPreparation id now s1 then prepareNext E e scheduled else s1
                   | PhaseFailed \<Rightarrow>
                       if shouldPollNextPreparation id now s1 then prepareNext E e scheduled else s1
                   | PhaseOther _ \<Rightarrow> prepareNext E e s1))"

definition shouldRunTickerPreload :: "env \<Rightarrow> int \<Rightarrow> session \<Rightarrow> bool" where
  "shouldRunTickerPreload E now s \<longleftrightarrow>
     (if \<not> shouldArmNextPreparation s then False
      else if ssRetryEntryID s \<noteq> '''' \<and> shouldPollNextPreparation (ssRetryEntryID s) now s then True
      else if \<not> shouldAttemptBackendPreload s then False
      else case snNextPreparation (ssSnap s) of
        None \<Rightarrow> True
      | Some p \<Rightarrow>
          (case psPhase (epStatus p) of
             PhaseReady \<Rightarrow>
               (if trimSpace (psPlayableURI (epStatus p)) = '''' then True
                else if shouldSuppressBackendPreload E (epEntryID p) (psPlayableURI (epStatus p)) s
                then False
                else trimSpace (ssPreloadedID s) \<noteq> trimSpace (epEntryID p)
                     \<or> normalizePlaybackURI (lib E) (ssPreloadedURI s)
                        \<noteq> normalizePlaybackURI (lib E) (psPlayableURI (epStatus p)))
           | PhaseOther _ \<Rightarrow> True
           | _ \<Rightarrow> shouldPollNextPreparation (epEntryID p) now s))"

section \<open>Activating a preloaded entry\<close>

definition preloadedActivation :: "env \<Rightarrow> SessionEntry \<Rightarrow> session \<Rightarrow> PreparationStatus option" where
  "preloadedActivation E e s =
     (if \<not> ssBackend s \<or> \<not> supportsPreload E then None
      else if trimSpace (enEntryID e) = '''' \<or> trimSpace (enEntryID e) \<noteq> trimSpace (ssPreloadedID s)
      then None
      else case snNextPreparation (ssSnap s) of
        None \<Rightarrow> None
      | Some p \<Rightarrow>
          if epEntryID p \<noteq> enEntryID e then None
          else if \<not> readyStatus (epStatus p) then None
          else if trimSpace (ssPreloadedURI s) \<noteq> trimSpace (psPlayableURI (epStatus p)) then None
          else Some (epStatus p))"

definition startTransportRetry ::
  "64 word \<Rightarrow> SessionEntry \<Rightarrow> EntryOrigin \<Rightarrow> int \<Rightarrow> SessionEntry option \<Rightarrow> session \<Rightarrow> session" where
  "startTransportRetry token e origin queueIndex previous s =
     (if \<not> ssStarted s then s else doCall (GoTransportRetry token e origin queueIndex previous) s)"

text \<open>\<open>activatePreloadedEntry\<close>: \<open>Inl\<close> when the backend refuses.  The caller checked the backend and the URI.\<close>

definition activatePreloadedEntry ::
  "env \<Rightarrow> SessionEntry \<Rightarrow> EntryOrigin \<Rightarrow> int \<Rightarrow> SessionEntry option \<Rightarrow> PreparationStatus \<Rightarrow> session
    \<Rightarrow> session + (SessionSnapshot \<times> session)" where
  "activatePreloadedEntry E e origin queueIndex previous st s =
     (let uri = psPlayableURI st; s1 = doCall (BActivatePreloaded uri) s in
      if callFailed E s1 \<noteq> None then Inl s1
      else
        let token = ssTransportToken s1 + 1;
            pending = \<lparr>ttToken = token, ttEntry = e, ttOrigin = origin, ttQueueIndex = queueIndex,
              ttPrevious = previous, ttPlayableURI = uri,
              ttActivation = replyActivation E (ssTrace s1), ttStatus = st,
              ttSourceIdentity = sourceIdentityForEntry e s1, ttKind = ActivatePreloaded\<rparr>;
            s2 = setLoading e st (s1\<lparr>ssTransportToken := token, ssTransportPending := Some pending\<rparr>);
            s3 = touch E (setLastError '''' (cancelPendingRetry s2));
            n = snapshotOf E s3;
            s4 = startTransportRetry token e origin queueIndex previous s3
        in Inr (n, publishSnapshot E n s4))"

section \<open>Playing an entry\<close>

definition switchCurrent ::
  "env \<Rightarrow> SessionEntry \<Rightarrow> EntryOrigin \<Rightarrow> int \<Rightarrow> bool \<Rightarrow> int \<Rightarrow> session \<Rightarrow> session" where
  "switchCurrent E e origin queueIndex keepPosition restorePosition s =
     (let queue = snUserQueue (ssSnap s);
          s1 = (if origin = OriginQueued \<and> 0 \<le> queueIndex \<and> queueIndex < int (length queue)
                then markQueueDirty (setUserQueue (removeAt (nat queueIndex) queue) s) else s);
          s2 = recalculateResumeContextIndex E (setCurrent e origin s1);
          s3 = onSnap (\<lambda>n. n\<lparr>snCurrentPreparation := None\<rparr>) s2;
          s4 = setAuthoritativePosition E (if keepPosition then restorePosition else 0) s3
      in setDuration (currentDuration (Some (enItem e))) s4)"

text \<open>What is current from now on, with the status of its preparation.\<close>

definition nowPlaying :: "SessionEntry \<Rightarrow> PreparationStatus \<Rightarrow> string \<Rightarrow> session \<Rightarrow> session" where
  "nowPlaying e st uri s =
     disarm (setLoaded (enEntryID e) uri
       (onSnap (\<lambda>n. n\<lparr>snStatus := StatusPlaying, snLastError := '''',
          snCurrentSourceKind := psSourceKind st,
          snCurrentPreparation := Some \<lparr>epEntryID = enEntryID e, epStatus = st\<rparr>\<rparr>) s))"

definition playPreparing ::
  "env \<Rightarrow> SessionEntry \<Rightarrow> bool \<Rightarrow> PreparationStatus \<Rightarrow> session \<Rightarrow> outcome" where
  "playPreparing E e preserve st s =
     (let replace = (snCurrentEntry (ssSnap s) = None \<or> \<not> preserve);
          s1 = setLoading e st s;
          s2 = (if replace then
                  let t1 = clearAuthoritativePosition (setStatus StatusPending (clearCurrent s1));
                      t2 = onSnap (\<lambda>n. n\<lparr>snDurationMS := None, snCurrentSourceKind := '''',
                             snCurrentPreparation := None\<rparr>) t1
                  in stopTicker (setLoaded '''' '''' t2)
                else s1);
          s3 = touch E (clearNextPreparationState (setLastError '''' s2));
          s4 = startPendingRetry (enEntryID e) s3;
          n = snapshotOf E s4;
          s5 = (if replace then doCall BStop s4 else s4)
      in (n, None, publishSnapshot E n s5))"

definition playReady ::
  "env \<Rightarrow> SessionEntry \<Rightarrow> EntryOrigin \<Rightarrow> int \<Rightarrow> bool \<Rightarrow> int \<Rightarrow> PreparationStatus \<Rightarrow> session \<Rightarrow> outcome" where
  "playReady E e origin queueIndex keepPosition restorePosition st s =
     (let uri = psPlayableURI st; s1 = doCall (BLoad uri) s in
      case callFailed E s1 of
        Some err \<Rightarrow> failed E err s1
      | None \<Rightarrow>
          let s2 = (if restorePosition > 0 then doCall (BSeekTo restorePosition) s1 else s1);
              s3 = doCall BPlay s2
          in case callFailed E s3 of
            Some err \<Rightarrow> failed E err s3
          | None \<Rightarrow>
              let s4 = switchCurrent E e origin queueIndex keepPosition restorePosition
                         (clearLoadingState s3);
                  s5 = clearNextPreparationState (nowPlaying e st uri s4);
                  s6 = touch E (ensureTicker (cancelPendingRetry s5));
                  n = snapshotOf E s6
              in (n, None, preloadNext E (publishSnapshot E n s6)))"

text \<open>The part of \<open>playEntry\<close> after the preloaded activation was ruled out.\<close>

definition playDirect ::
  "env \<Rightarrow> SessionEntry \<Rightarrow> EntryOrigin \<Rightarrow> int \<Rightarrow> bool \<Rightarrow> bool \<Rightarrow> int \<Rightarrow> session \<Rightarrow> outcome" where
  "playDirect E e origin queueIndex keepPosition preserve restorePosition s =
     (let s1 = doCall (CPrepareTarget (itTarget (enItem e)) PurposePlayNow) s in
      case callFailed E s1 of
        Some err \<Rightarrow> failed E err s1
      | None \<Rightarrow>
          let st = replyStatus E (ssTrace s1) in
          if preparing st then playPreparing E e preserve st s1
          else if \<not> readyStatus st then (snapshotOf E s1, Some (EntryUnavailable e st), s1)
          else playReady E e origin queueIndex keepPosition restorePosition st s1)"

definition playEntry ::
  "env \<Rightarrow> SessionEntry \<Rightarrow> EntryOrigin \<Rightarrow> int \<Rightarrow> SessionEntry option \<Rightarrow> bool \<Rightarrow> bool \<Rightarrow> session \<Rightarrow> outcome" where
  "playEntry E e origin queueIndex previous keepPosition preserve s =
     (let restorePosition =
            (case previous of
               Some p \<Rightarrow> if keepPosition \<and> enEntryID p = enEntryID e
                         then snPositionMS (snapshotOf E s) else 0
             | None \<Rightarrow> 0)
      in if \<not> hasCore E then failed E ''playback core is not configured'' s
         else if \<not> ssBackend s then failed E ''playback backend is not configured'' s
         else
           let ready = preloadedActivation E e s;
               s1 = cancelTransportTransition (cancelPendingRetry (advanceIntentEpoch s))
           in case ready of
             None \<Rightarrow>
               let (needs, s2) = invalidatePreloadPlan E True s1
               in playDirect E e origin queueIndex keepPosition preserve restorePosition (clearIf E needs s2)
           | Some st \<Rightarrow>
               (case activatePreloadedEntry E e origin queueIndex previous st s1 of
                  Inr (n, s2) \<Rightarrow> (n, None, s2)
                | Inl s2 \<Rightarrow>
                    let (needs, s3) = invalidatePreloadPlan E True s2
                    in playDirect E e origin queueIndex keepPosition preserve restorePosition
                         (clearIf E needs s3)))"

section \<open>Observing the position\<close>

definition midpointTransportCaptureMS :: "int \<Rightarrow> int \<Rightarrow> int" where
  "midpointTransportCaptureMS started completed =
     (if completed \<ge> started then started + (completed - started) div 2 else started)"

definition seekObserveTolerance :: int where
  "seekObserveTolerance = 750"

definition isWithinSeekObserveTolerance :: "int \<Rightarrow> int \<Rightarrow> bool" where
  "isWithinSeekObserveTolerance observed target \<longleftrightarrow> \<bar>observed - target\<bar> \<le> seekObserveTolerance"

text \<open>\<open>refreshPosition\<close>; \<open>None\<close> when there is no backend.\<close>

definition refreshPosition :: "env \<Rightarrow> session \<Rightarrow> SessionSnapshot option \<times> session" where
  "refreshPosition E s =
     (if \<not> ssBackend s then (None, s)
      else
        let started = nowMS E s; s1 = doCall BPositionMS (tick s);
            positionErr = callFailed E s1; position = replyPosition E (ssTrace s1);
            completed = nowMS E s1; s2 = doCall BDurationMS (tick s1);
            durationErr = callFailed E s2; duration = replyDuration E (ssTrace s2);
            s3 = (if positionErr = None
                  then setAuthoritativePositionAt position (midpointTransportCaptureMS started completed) s2
                  else s2);
            s4 = touch E (if durationErr = None then setDuration duration s3 else s3)
        in (Some (snapshotOf E s4), s4))"

definition seekObserveTimeout :: int where
  "seekObserveTimeout = 250000000"

text \<open>
  The loop of \<open>refreshPositionAfterSeek\<close> samples the position until it is near the target or the
  deadline has passed; the result is the sample that matched, if one did.  It runs as long as the clock
  stays before the deadline, so the loop is a partial function.
\<close>

partial_function (option) observeSeek ::
  "env \<Rightarrow> int \<Rightarrow> int \<Rightarrow> session \<Rightarrow> ((int \<times> int) option \<times> session) option" where
  "observeSeek E deadline target s =
     (let started = nowMS E s; s1 = doCall BPositionMS (tick s);
          err = callFailed E s1; position = replyPosition E (ssTrace s1);
          completed = nowMS E s1; s2 = tick s1
      in if err = None \<and> isWithinSeekObserveTolerance position target
         then Some (Some (position, midpointTransportCaptureMS started completed), s2)
         else if nowNanos E s2 > deadline then Some (None, tick s2)
         else observeSeek E deadline target (tick s2))"

definition refreshPositionAfterSeek :: "env \<Rightarrow> int \<Rightarrow> session \<Rightarrow> session option" where
  "refreshPositionAfterSeek E target s =
     (if \<not> ssBackend s then Some s
      else
        let deadline = nowNanos E s + seekObserveTimeout in
        Option.bind (observeSeek E deadline target (tick (tick s))) (\<lambda>(found, s1).
          let s2 = doCall BDurationMS s1;
              s3 = (case found of Some (p, at) \<Rightarrow> setAuthoritativePositionAt p at s2 | None \<Rightarrow> s2);
              s4 = (if callFailed E s2 = None then setDuration (replyDuration E (ssTrace s2)) s3 else s3)
          in Some (touch E s4)))"

end
