(* ===== verification/Transport.thy ===== *)
theory Transport
  imports Playing
begin

text \<open>
  The transport of a session (\<open>src/internal/playback/session.go\<close>): playing the next and the previous
  playable entry, the user's operations, the backend's events, and the goroutines that retry a pending
  preparation or a transition the backend never confirmed.

  The loops that skip unavailable entries and the one that observes a seek have no bound in the code;
  operations that contain one yield an option, where \<open>None\<close> means that they do not return.
\<close>

section \<open>Skipping to a playable entry\<close>

definition unavailableSkip :: "SessionEntry \<Rightarrow> sessionError \<Rightarrow> PreparationStatus \<Rightarrow> skippedEntry" where
  "unavailableSkip e err st = \<lparr>seEntry = e, seStatus = st, seMessage = errorText err\<rparr>"

definition consumeSkippedUserEntries ::
  "env \<Rightarrow> skippedEntry list \<Rightarrow> playbackCandidate \<Rightarrow> SessionSnapshot \<Rightarrow> session
    \<Rightarrow> SessionSnapshot \<times> session" where
  "consumeSkippedUserEntries E skipped c n s =
     (let ids = map (\<lambda>k. enEntryID (seEntry k))
                  (filter (\<lambda>k. enOrigin (seEntry k) = OriginQueued) skipped);
          queue = snUserQueue (ssSnap s);
          kept = filter (\<lambda>e. enEntryID e \<notin> set ids) queue
      in if pcOrigin c \<noteq> OriginQueued \<or> skipped = [] \<or> ids = [] then (n, s)
         else if length kept = length queue then (n, s)
         else let (n', _, s') = finishOp E False False (markQueueDirty (setUserQueue kept s)) in (n', s'))"

partial_function (option) playNextLoop ::
  "env \<Rightarrow> SessionEntry option \<Rightarrow> bool \<Rightarrow> bool \<Rightarrow> bool \<Rightarrow> string list \<Rightarrow> skippedEntry list \<Rightarrow> session
    \<Rightarrow> outcome option" where
  "playNextLoop E previous keepPosition preserve stop blocked skipped0 s =
     (case resolvePlayableFromPlan E blocked s of
        ((cand, unavailable), s1) \<Rightarrow>
          let skipped = skipped0 @ unavailable in
          (case cand of
             None \<Rightarrow>
               if skipped \<noteq> [] then
                 let (n, s2) = (if stop then stopAfterSkipped E previous skipped s1
                                else settleAfterSkipped E skipped s1)
                 in Some (n, None, s2)
               else
                 let n = snapshotOf E s1 in
                 if previous = None \<and> snCurrentEntry n = None \<and> snQueueLength n = 0
                 then Some (n, Some (OtherError ''queue is empty''), s1)
                 else Some (n, None, s1)
           | Some c \<Rightarrow>
               (case playEntry E (pcEntry c) (pcOrigin c) (pcQueueIndex c) previous keepPosition preserve s1
                of (n, None, s2) \<Rightarrow>
                     let (n3, s3) = consumeSkippedUserEntries E skipped c n s2;
                         (n4, s4) = (if skipped = [] then (n3, s3)
                                     else applySkipEvent E skipped False s3)
                     in Some (n4, None, s4)
                 | (n, Some (EntryUnavailable e st), s2) \<Rightarrow>
                     playNextLoop E previous keepPosition preserve stop
                       (enEntryID (pcEntry c) # blocked)
                       (skipped @ [unavailableSkip (pcEntry c) (EntryUnavailable e st) st]) s2
                 | (n, Some (OtherError msg), s2) \<Rightarrow> Some (n, Some (OtherError msg), s2))))"

definition playNextAvailable ::
  "env \<Rightarrow> SessionEntry option \<Rightarrow> bool \<Rightarrow> bool \<Rightarrow> string list \<Rightarrow> skippedEntry list \<Rightarrow> bool \<Rightarrow> session
    \<Rightarrow> outcome option" where
  "playNextAvailable E previous keepPosition preserve blocked skipped stop s =
     playNextLoop E previous keepPosition preserve stop
       (filter (\<lambda>b. b \<noteq> '''') (map trimSpace blocked)) skipped s"

partial_function (option) playPreviousLoop ::
  "env \<Rightarrow> SessionEntry option \<Rightarrow> bool \<Rightarrow> bool \<Rightarrow> string list \<Rightarrow> skippedEntry list \<Rightarrow> session
    \<Rightarrow> outcome option" where
  "playPreviousLoop E previous keepPosition preserve blocked skipped0 s =
     (case resolvePreviousPlayableCandidate E blocked s of
        (Inl err, _, s1) \<Rightarrow> Some (failed E err s1)
      | (Inr cand, unavailable, s1) \<Rightarrow>
          let skipped = skipped0 @ unavailable in
          (case cand of
             None \<Rightarrow>
               if skipped \<noteq> [] then
                 let (n, s2) = settleAfterSkipped E skipped s1 in Some (n, None, s2)
               else (case previous of
                   None \<Rightarrow> Some (unchanged E s1)
                 | Some p \<Rightarrow> Some (playEntry E p (enOrigin p) (-1) None keepPosition preserve s1))
           | Some c \<Rightarrow>
               (case playEntry E (pcEntry c) (pcOrigin c) (pcQueueIndex c) previous keepPosition preserve s1
                of (n, None, s2) \<Rightarrow>
                     let (n3, s3) = (if skipped = [] then (n, s2)
                                     else applySkipEvent E skipped False s2)
                     in Some (n3, None, s3)
                 | (n, Some (EntryUnavailable e st), s2) \<Rightarrow>
                     playPreviousLoop E previous keepPosition preserve
                       (enEntryID (pcEntry c) # blocked)
                       (skipped @ [unavailableSkip (pcEntry c) (EntryUnavailable e st) st]) s2
                 | (n, Some (OtherError msg), s2) \<Rightarrow> Some (n, Some (OtherError msg), s2))))"

definition playPreviousAvailable ::
  "env \<Rightarrow> SessionEntry option \<Rightarrow> bool \<Rightarrow> bool \<Rightarrow> session \<Rightarrow> outcome option" where
  "playPreviousAvailable E previous keepPosition preserve s =
     playPreviousLoop E previous keepPosition preserve [] [] s"

section \<open>The user's operations\<close>

definition playTarget :: "env \<Rightarrow> session \<Rightarrow> (SessionEntry \<times> EntryOrigin \<times> int) option \<times> session" where
  "playTarget E s =
     (case snCurrentEntry (ssSnap s) of
        Some e \<Rightarrow> (Some (e, enOrigin e, -1), s)
      | None \<Rightarrow>
          if snUserQueue (ssSnap s) \<noteq> [] then (Some (hd (snUserQueue (ssSnap s)), OriginQueued, 0), s)
          else
            let (i, s1) = firstContextIndex E s in
            if i < 0 \<or> snContextQueue (ssSnap s1) = None \<or> contextCount (ssSnap s1) \<le> i
            then (None, s1)
            else (Some (contextEntryAt (ssSnap s1) i, OriginContext, -1), s1))"

definition resumePlayback :: "env \<Rightarrow> session \<Rightarrow> outcome" where
  "resumePlayback E s =
     (let s1 = (if ssBackend s then doCall BPlay s else s) in
      if ssBackend s \<and> callFailed E s1 \<noteq> None then failPlayback E (the (callFailed E s1)) s1
      else
        let s2 = (if ssBackend s then snd (refreshPosition E s1) else s1);
            s3 = setLastError '''' (setStatus StatusPlaying s2);
            s4 = (if snPositionCapturedAtMS (ssSnap s3) \<le> 0
                  then onSnap (\<lambda>n. n\<lparr>snPositionCapturedAtMS := nowMS E s3\<rparr>) (tick s3) else s3);
            s5 = ensureTicker (touch E s4);
            n = snapshotOf E s5
        in (n, None, publishSnapshot E n s5))"

definition play :: "env \<Rightarrow> session \<Rightarrow> outcome option" where
  "play E s =
     (let current = snCurrentEntry (ssSnap s) in
      if snLoadingEntry (ssSnap s) \<noteq> None \<and> current = None then Some (unchanged E s)
      else case playTarget E s of
        (None, s1) \<Rightarrow> Some (failed E ''queue is empty'' s1)
      | (Some (target, origin, queueIndex), s1) \<Rightarrow>
          if current = None then
            (case playEntry E target origin queueIndex None False True s1 of
               (n, Some (EntryUnavailable e st), s2) \<Rightarrow>
                 playNextAvailable E None False True [enEntryID target]
                   [unavailableSkip target (EntryUnavailable e st) st] True s2
             | r \<Rightarrow> Some r)
          else if ssLoadedEntryID s1 = snCurrentEntryID (ssSnap s1) \<and> ssLoadedURI s1 \<noteq> ''''
                  \<and> snStatus (ssSnap s1) = StatusPaused
          then Some (resumePlayback E s1)
          else Some (playEntry E target origin queueIndex current True True s1))"

definition pausePlayback :: "env \<Rightarrow> session \<Rightarrow> outcome" where
  "pausePlayback E s =
     (if snStatus (ssSnap s) \<noteq> StatusPlaying then unchanged E s
      else
        let s0 = stopTicker s; s1 = (if ssBackend s0 then doCall BPause s0 else s0) in
        if ssBackend s0 \<and> callFailed E s1 \<noteq> None then failPlayback E (the (callFailed E s1)) s1
        else
          let s2 = (if ssBackend s0 then snd (refreshPosition E s1) else s1)
          in finishOp E False False (setStatus StatusPaused s2))"

definition togglePlayback :: "env \<Rightarrow> session \<Rightarrow> outcome option" where
  "togglePlayback E s =
     (let n = snapshotOf E s in
      if snStatus n = StatusPlaying then Some (pausePlayback E s)
      else if snStatus n = StatusPending \<and> snLoadingEntry n \<noteq> None \<and> snCurrentEntry n = None
      then Some (n, None, s)
      else play E s)"

definition seekTo :: "env \<Rightarrow> int \<Rightarrow> session \<Rightarrow> outcome option" where
  "seekTo E position0 s =
     (let n = ssSnap s; position1 = (if position0 < 0 then 0 else position0) in
      if snCurrentEntry n = None then Some (unchanged E s)
      else
        let position = (case snDurationMS n of
                Some d \<Rightarrow> if position1 > d then d else position1 | None \<Rightarrow> position1);
            loaded = (ssLoadedEntryID s = snCurrentEntryID n \<and> ssLoadedURI s \<noteq> '''')
        in if loaded \<and> ssBackend s then
             let s1 = doCall (BSeekTo position) s in
             case callFailed E s1 of
               Some err \<Rightarrow> Some (failPlayback E err s1)
             | None \<Rightarrow> Option.bind (refreshPositionAfterSeek E position s1)
                         (\<lambda>s2. Some (finishOp E False False s2))
           else Some (finishOp E False False (setAuthoritativePosition E position s)))"

definition intendedCurrent :: "session \<Rightarrow> SessionEntry option" where
  "intendedCurrent s =
     (case ssTransportPending s of Some p \<Rightarrow> Some (ttEntry p) | None \<Rightarrow> snCurrentEntry (ssSnap s))"

definition nextTrack :: "env \<Rightarrow> session \<Rightarrow> outcome option" where
  "nextTrack E s =
     (let current = intendedCurrent s in
      if current \<noteq> None \<and> snRepeatMode (ssSnap s) = RepeatOne then seekTo E 0 s
      else playNextAvailable E current False True [] [] True s)"

definition previousTrack :: "env \<Rightarrow> session \<Rightarrow> outcome option" where
  "previousTrack E s =
     (if snPositionMS (ssSnap s) > 3000 then seekTo E 0 s
      else let current = intendedCurrent s in
        if current = None then Some (unchanged E s)
        else playPreviousAvailable E current False True s)"

definition selectEntry :: "env \<Rightarrow> string \<Rightarrow> session \<Rightarrow> outcome" where
  "selectEntry E entryID0 s =
     (let entryID = trimSpace entryID0; n = ssSnap s in
      if entryID = '''' then failed E ''entry id is required'' s
      else case resolveEntrySelection entryID n of
        None \<Rightarrow> failed E (''entry '' @ entryID @ '' not found'') s
      | Some (target, origin, queueIndex) \<Rightarrow>
          let same = (\<lambda>e. case e of None \<Rightarrow> False | Some c \<Rightarrow> enEntryID c = enEntryID target) in
          if same (snCurrentEntry n) \<or> same (snLoadingEntry n) then unchanged E s
          else playEntry E target origin queueIndex (snCurrentEntry n) False True s)"

definition selectQueueIndex :: "env \<Rightarrow> int \<Rightarrow> session \<Rightarrow> outcome" where
  "selectQueueIndex E i s =
     (let entries = selectionEntries (ssSnap s) in
      if i < 0 \<or> int (length entries) \<le> i then indexError E i s
      else selectEntry E (enEntryID (entries ! nat i)) s)"

section \<open>Replacing the context and playing it\<close>

definition resetUnlessCurrent :: "SessionEntry option \<Rightarrow> bool \<Rightarrow> session \<Rightarrow> session" where
  "resetUnlessCurrent current isEmpty s =
     (if current = None then settleReset isEmpty (resetWithoutCurrent s) else s)"

definition playReplaced ::
  "env \<Rightarrow> bool \<Rightarrow> SessionEntry option \<Rightarrow> SessionEntry option \<Rightarrow> session \<Rightarrow> outcome" where
  "playReplaced E needs target current s =
     (let s1 = touch E s; n = snapshotOf E s1; s2 = clearIf E needs s1 in
      case target of
        None \<Rightarrow> (n, Some (OtherError ''queue is empty''), publishSnapshot E n s2)
      | Some e \<Rightarrow> playEntry E e OriginContext (-1) current False True s2)"

definition replaceContextAndPlay :: "env \<Rightarrow> PlaybackContextInput \<Rightarrow> session \<Rightarrow> outcome" where
  "replaceContextAndPlay E input s =
     (let (q, start, s1) = buildContext input s;
          current = snCurrentEntry (ssSnap s1);
          s2 = cancelTransportTransition (advanceIntentEpoch s1);
          (needs, s3) = invalidatePreloadPlan E True s2;
          s4 = installContext q s3;
          s5 = setResumeContextIndex start (setCurrentContextIndex start s4);
          s6 = (if snShuffle (ssSnap s5) then rebuildShuffleCycle E s5 else s5);
          entries = (case snContextQueue (ssSnap s6) of None \<Rightarrow> [] | Some c \<Rightarrow> cqEntries c);
          s7 = resetUnlessCurrent current (entries = []) s6;
          target = (if entries = [] then None else Some (entries ! nat start))
      in playReplaced E needs target current s7)"

definition replaceSourceCommit ::
  "env \<Rightarrow> 64 word \<Rightarrow> string + enumeration \<Rightarrow> bool \<Rightarrow> session \<Rightarrow> outcome" where
  "replaceSourceCommit E epoch result shuffle s =
     (case result of
        Inl err \<Rightarrow> failed E err s
      | Inr (resolved, cands, start) \<Rightarrow>
          if ssIntentEpoch s \<noteq> epoch then unchanged E s
          else
            let (q, s1) = buildSourceContext E resolved cands start s;
                current = snCurrentEntry (ssSnap s1);
                s2 = cancelTransportTransition s1;
                (needs, s3) = invalidatePreloadPlan E True s2;
                s4 = setShuffleFlag shuffle (installContext q s3);
                s5 = setResumeContextIndex start (setCurrentContextIndex start s4);
                s6 = markQueueDirty (seedShuffle E s5);
                isEmpty = (contextAllEntries (ssSnap s6) = []);
                s7 = resetUnlessCurrent current isEmpty s6;
                target = (if isEmpty then None else Some (contextEntryAt (ssSnap s7) start))
            in playReplaced E needs target current s7)"

section \<open>Events of the backend\<close>

definition trackEndNearEOFWindow :: int where
  "trackEndNearEOFWindow = 3000"

definition shouldTreatTrackEndAsInterrupted :: "BackendEvent \<Rightarrow> session \<Rightarrow> bool" where
  "shouldTreatTrackEndAsInterrupted ev s \<longleftrightarrow>
     (if beErr ev \<noteq> None then True
      else if snStatus (ssSnap s) \<noteq> StatusPlaying \<or> snCurrentEntry (ssSnap s) = None then False
      else case snDurationMS (ssSnap s) of
        None \<Rightarrow> False
      | Some d \<Rightarrow> if d \<le> 0 then False else snPositionMS (ssSnap s) + trackEndNearEOFWindow < d)"

definition handleInterruptedTrackEnd :: "env \<Rightarrow> string option \<Rightarrow> session \<Rightarrow> session" where
  "handleInterruptedTrackEnd E err s =
     (let msg = (case err of None \<Rightarrow> ''playback ended unexpectedly'' | Some m \<Rightarrow> m);
          (needs, s1) = invalidatePreloadPlan E True s;
          s2 = cancelTransportTransition (cancelPendingRetry s1);
          s3 = setLoaded '''' '''' (clearLoadingState (setLastError msg (setStatus StatusPaused s2)));
          s4 = markCurrentFailed E (onSnap (\<lambda>n. n\<lparr>snCurrentSourceKind := ''''\<rparr>) s3);
          (_, _, s5) = finishOp E needs False (stopTicker s4)
      in s5)"

definition transportTransitionMatchesEvent ::
  "golib \<Rightarrow> transportTransition \<Rightarrow> string \<Rightarrow> int \<Rightarrow> int \<Rightarrow> 64 word \<Rightarrow> bool" where
  "transportTransitionMatchesEvent L p activeURI entryID pos attemptID \<longleftrightarrow>
     (let a = ttActivation p; uri = normalizePlaybackURI L (baURI a) in
      if baAttemptID a \<noteq> 0 then baAttemptID a = attemptID
      else if ttKind p = ActivatePreloaded \<and> (baPlaylistEntryID a \<noteq> 0 \<or> baPlaylistPos a \<ge> 0) then
        (if baPlaylistEntryID a \<noteq> 0 \<and> entryID \<noteq> 0 then baPlaylistEntryID a = entryID
         else if baPlaylistPos a \<ge> 0 \<and> pos \<ge> 0 then baPlaylistPos a = pos
         else False)
      else if baPlaylistEntryID a \<noteq> 0 \<and> entryID \<noteq> 0 \<and> baPlaylistEntryID a = entryID then True
      else if baPlaylistPos a \<ge> 0 \<and> pos \<ge> 0 \<and> baPlaylistPos a = pos then True
      else if uri \<noteq> '''' \<and> uri = activeURI then True
      else normalizePlaybackURI L (ttPlayableURI p) = activeURI)"

definition handleFileLoaded :: "env \<Rightarrow> BackendEvent \<Rightarrow> session \<Rightarrow> session" where
  "handleFileLoaded E ev s =
     (let activeURI = normalizePlaybackURI (lib E) (beActiveURI ev) in
      if activeURI = '''' then
        (case beErr ev of None \<Rightarrow> s | Some err \<Rightarrow> let (_, _, s1) = failPlayback E err s in s1)
      else case ssTransportPending s of
        None \<Rightarrow> s
      | Some p \<Rightarrow>
          if \<not> transportTransitionMatchesEvent (lib E) p activeURI (beActivePlaylistEntryID ev)
               (beActivePlaylistPos ev) (beActiveAttemptID ev)
          then s
          else
            let s1 = switchCurrent E (ttEntry p) (ttOrigin p) (ttQueueIndex p) False 0
                       (clearLoadingState s);
                s2 = setAuthoritativePosition E 0 (setLastError '''' (setStatus StatusPlaying s1));
                s3 = nowPlaying (ttEntry p) (ttStatus p) activeURI
                       (setDuration (currentDuration (Some (enItem (ttEntry p)))) s2);
                s4 = cancelPendingRetry (clearNextPreparationState s3);
                s5 = s4\<lparr>ssTransportPending := None, ssTransportToken := ssTransportToken s4 + 1\<rparr>;
                s6 = touch E (ensureTicker s5);
                n = snapshotOf E s6
            in preloadNext E (publishSnapshot E n s6))"

text \<open>The branch of \<open>handleTrackEOF\<close> when an entry is already being loaded.\<close>

definition eofWhileLoading :: "env \<Rightarrow> session \<Rightarrow> session" where
  "eofWhileLoading E s =
     (let s1 = setDuration None (clearAuthoritativePosition (setStatus StatusPending s));
          s2 = clearCurrent (setLoaded '''' '''' s1);
          s3 = onSnap (\<lambda>n. n\<lparr>snCurrentSourceKind := '''', snCurrentPreparation := None\<rparr>) s2;
          s4 = touch E (stopTicker (disarm (clearNextPreparationState s3)));
          n = snapshotOf E s4;
          s5 = (if ssBackend s4 then doCall BStop s4 else s4)
      in publishSnapshot E n s5)"

definition eofAtEnd :: "env \<Rightarrow> SessionEntry option \<Rightarrow> session \<Rightarrow> session" where
  "eofAtEnd E current s =
     (let s1 = setAuthoritativePosition E 0 (setStatus StatusPaused s);
          s2 = setLoaded '''' '''' (setDuration (currentDuration (currentItemFromEntry current)) s1);
          s3 = touch E (stopTicker (disarm (clearNextPreparationState s2)));
          n = snapshotOf E s3;
          s4 = (if ssBackend s3 then doCall BStop s3 else s3)
      in publishSnapshot E n s4)"

definition eofPreloaded ::
  "env \<Rightarrow> playbackCandidate \<Rightarrow> skippedEntry list \<Rightarrow> session \<Rightarrow> session" where
  "eofPreloaded E c skipped s =
     (let e = pcEntry c;
          s1 = switchCurrent E e (pcOrigin c) (pcQueueIndex c) False 0 s;
          s2 = setAuthoritativePosition E 0 (setLastError '''' (setStatus StatusPlaying s1));
          s3 = setDuration (currentDuration (Some (enItem e))) s2;
          s4 = (case snNextPreparation (ssSnap s3) of
                  Some p \<Rightarrow>
                    if epEntryID p = enEntryID e
                    then onSnap (\<lambda>n. n\<lparr>snCurrentPreparation := Some p\<rparr>) s3 else s3
                | None \<Rightarrow> s3);
          s5 = disarm (setLoaded (enEntryID e) (ssPreloadedURI s4) s4);
          s6 = recordSkipEvent E skipped False (ensureTicker (clearNextPreparationState s5));
          s7 = touch E s6;
          n = snapshotOf E s7
      in publishSnapshot E n (preloadNext E s7))"

definition handleTrackEOF :: "env \<Rightarrow> BackendEvent \<Rightarrow> session \<Rightarrow> session option" where
  "handleTrackEOF E ev s =
     (let L = lib E; n = ssSnap s; current = snCurrentEntry n;
          loadedURI = normalizePlaybackURI L (ssLoadedURI s);
          expected = normalizePlaybackURI L (ssPreloadedURI s);
          endedURI = normalizePlaybackURI L (beEndedURI ev);
          activeURI = normalizePlaybackURI L (beActiveURI ev)
      in if snStatus n \<noteq> StatusPlaying then Some s
         else if ssTransportPending s \<noteq> None then Some s
         else if endedURI \<noteq> '''' \<and> loadedURI \<noteq> '''' \<and> endedURI \<noteq> loadedURI then Some s
         else if snLoadingEntry n \<noteq> None then Some (eofWhileLoading E s)
         else case resolvePlayableFromPlan E [] s of
           ((None, skipped), s1) \<Rightarrow>
             if skipped \<noteq> [] then Some (snd (stopAfterSkipped E current skipped s1))
             else Some (eofAtEnd E current s1)
         | ((Some c, skipped), s1) \<Rightarrow>
             if ssBackend s \<and> supportsPreload E \<and> ssPreloadedID s1 \<noteq> ''''
                \<and> ssPreloadedID s1 = enEntryID (pcEntry c)
                \<and> (activeURI = '''' \<or> activeURI = expected)
             then Some (eofPreloaded E c skipped s1)
             else map_option (\<lambda>(_, _, s2). s2) (playNextAvailable E current False False [] [] True s1))"

definition handleBackendEvent :: "env \<Rightarrow> BackendEvent \<Rightarrow> session \<Rightarrow> session option" where
  "handleBackendEvent E ev s =
     (case beType ev of
        EventTrackEnd \<Rightarrow>
          (case beReason ev of
             ReasonEOF \<Rightarrow>
               if shouldTreatTrackEndAsInterrupted ev s
               then Some (handleInterruptedTrackEnd E (beErr ev) s)
               else handleTrackEOF E ev s
           | ReasonError \<Rightarrow> Some (handleInterruptedTrackEnd E (beErr ev) s)
           | _ \<Rightarrow> Some s)
      | EventFileLoaded \<Rightarrow> Some (handleFileLoaded E ev s)
      | EventShutdown \<Rightarrow>
          let (_, _, s1) = finishOp E False False (setStatus StatusPaused (cancelTransportTransition s))
          in Some s1
      | EventError \<Rightarrow>
          (case beErr ev of None \<Rightarrow> Some s
           | Some err \<Rightarrow> let (_, _, s1) = failPlayback E err s in Some s1)
      | EventOther _ \<Rightarrow> Some s)"

section \<open>Timers\<close>

text \<open>One firing of the ticker.\<close>

definition tickerFired :: "env \<Rightarrow> session \<Rightarrow> session" where
  "tickerFired E s =
     (if snStatus (ssSnap s) \<noteq> StatusPlaying then s
      else
        let (state, s1) = refreshPosition E s;
            now = nowNanos E s1; s2 = tick s1;
            s3 = (if shouldRunTickerPreload E now s2 then preloadNext E s2 else s2)
        in case state of None \<Rightarrow> s3 | Some n \<Rightarrow> publishTickerSnapshot E n s3)"

text \<open>The transition with \<open>token\<close> was not confirmed in time.\<close>

definition transportTimeout ::
  "env \<Rightarrow> 64 word \<Rightarrow> SessionEntry \<Rightarrow> EntryOrigin \<Rightarrow> int \<Rightarrow> SessionEntry option \<Rightarrow> session \<Rightarrow> session" where
  "transportTimeout E token e origin queueIndex previous s =
     (case ssTransportPending s of
        None \<Rightarrow> s
      | Some p \<Rightarrow>
          if ttToken p \<noteq> token then s
          else
            let (needs, s1) = invalidatePreloadPlan E True s;
                s2 = clearIf E needs (touch E (cancelTransportTransition s1));
                (_, _, s3) = playEntry E e origin queueIndex previous False True s2
            in s3)"

definition disarmPending :: "session \<Rightarrow> session" where
  "disarmPending s =
     s\<lparr>ssPendingArmed := False, ssPendingEntry := '''', ssPendingToken := ssPendingToken s + 1\<rparr>"

definition pendingIs :: "64 word \<Rightarrow> string \<Rightarrow> session \<Rightarrow> bool" where
  "pendingIs token entryID s \<longleftrightarrow> token = ssPendingToken s \<and> entryID = ssPendingEntry s"

definition finishPendingRetry :: "env \<Rightarrow> 64 word \<Rightarrow> string \<Rightarrow> bool \<Rightarrow> session \<Rightarrow> session" where
  "finishPendingRetry E token entryID timedOut s =
     (if \<not> pendingIs token entryID s then s
      else
        let s1 = (if timedOut then setLastError ''waiting for provider transcode timed out'' s else s);
            s2 = (if snCurrentEntry (ssSnap s1) = None then setStatus StatusPaused s1 else s1);
            (_, _, s3) = finishOp E False False (disarmPending (clearLoadingState s2))
        in s3)"

definition failPendingPlayback :: "env \<Rightarrow> sessionError \<Rightarrow> session \<Rightarrow> session" where
  "failPendingPlayback E err s =
     (let s1 = (if snCurrentEntry (ssSnap s) = None then setStatus StatusPaused s else s);
          s2 = cancelTransportTransition (clearLoadingState (setLastError (errorText err) s1));
          (_, _, s3) = finishOp E False False s2
      in s3)"

text \<open>\<open>completePendingPlayback\<close>: \<open>Inl\<close> an error, with the session at that point.\<close>

definition completePendingPlayback ::
  "env \<Rightarrow> SessionEntry \<Rightarrow> PreparationStatus \<Rightarrow> session \<Rightarrow> sessionError option \<times> session" where
  "completePendingPlayback E e st s =
     (if \<not> ssBackend s then (Some (OtherError ''playback backend is not configured''), s)
      else if \<not> readyStatus st then (Some (EntryUnavailable e st), s)
      else
        let s1 = doCall (BLoad (psPlayableURI st)) s in
        case callFailed E s1 of
          Some err \<Rightarrow> (Some (OtherError err), s1)
        | None \<Rightarrow>
            let s2 = doCall BPlay s1 in
            case callFailed E s2 of
              Some err \<Rightarrow> (Some (OtherError err), s2)
            | None \<Rightarrow>
                let queueIndex = (if enOrigin e = OriginQueued
                      then indexOfEntryID (snUserQueue (ssSnap s2)) (enEntryID e) else -1);
                    s3 = switchCurrent E e (enOrigin e) queueIndex False 0 (clearLoadingState s2);
                    s4 = disarmPending (nowPlaying e st (psPlayableURI st) s3);
                    s5 = s4\<lparr>ssTransportPending := None, ssTransportToken := ssTransportToken s4 + 1\<rparr>;
                    s6 = snd (refreshPosition E (touch E (ensureTicker s5)))
                in (None, publishSnapshot E (snapshotOf E s6) s6))"

text \<open>One poll of the pending-retry goroutine; the result tells whether the goroutine ends.\<close>

definition tryPendingPlayback :: "env \<Rightarrow> 64 word \<Rightarrow> string \<Rightarrow> session \<Rightarrow> (bool \<times> session) option" where
  "tryPendingPlayback E token entryID s =
     (if \<not> pendingIs token entryID s then Some (True, s)
      else case snLoadingEntry (ssSnap s) of
        None \<Rightarrow> Some (True, s)
      | Some e \<Rightarrow>
          if enEntryID e \<noteq> entryID \<or> \<not> hasCore E then Some (True, s)
          else
            let s1 = doCall (CGetPreparation (itTarget (enItem e))) s in
            if callFailed E s1 \<noteq> None then Some (False, s1)
            else
              let st = replyStatus E (ssTrace s1);
                  s2 = touch E (onSnap (\<lambda>n. n\<lparr>snLoadingPreparation :=
                         Some \<lparr>epEntryID = entryID, epStatus = st\<rparr>\<rparr>) s1)
              in if preparing st then Some (False, s2)
                 else if \<not> readyStatus st then
                   let hasCurrent = (snCurrentEntry (ssSnap s2) \<noteq> None) in
                   map_option (\<lambda>(_, err, s3).
                       let s4 = (case err of None \<Rightarrow> s3 | Some er \<Rightarrow> failPendingPlayback E er s3)
                       in (True, disarmPending s4))
                     (playNextAvailable E None False hasCurrent [] [] (\<not> hasCurrent) s2)
                 else
                   (case completePendingPlayback E e st s2 of
                      (None, s3) \<Rightarrow> Some (True, s3)
                    | (Some err, s3) \<Rightarrow>
                        let s4 = failPendingPlayback E err s3
                        in Some (True, if pendingIs token entryID s4 then disarmPending s4 else s4)))"

section \<open>Start and close\<close>

text \<open>
  \<open>Start\<close> before the source is restored: load the stored snapshot, pause it, normalise it.  An error of
  the store ends \<open>Start\<close>; the session then counts as started nevertheless.
\<close>

definition startLoad :: "env \<Rightarrow> string + SessionSnapshot \<Rightarrow> session \<Rightarrow> string option \<times> session" where
  "startLoad E stored s =
     (if ssStarted s then (None, s)
      else
        let s1 = s\<lparr>ssStarted := True\<rparr> in
        if \<not> hasStore E then (None, s1)
        else case stored of
          Inl err \<Rightarrow> (Some err, s1)
        | Inr n0 \<Rightarrow>
            let n1 = (if snStatus n0 = StatusPlaying then n0\<lparr>snStatus := StatusPaused\<rparr> else n0);
                s2 = onSnap (\<lambda>_. normalizeSnapshot (lib E) n1) s1;
                s3 = (if snCurrentEntry (ssSnap s2) \<noteq> None \<and> snPositionCapturedAtMS (ssSnap s2) \<le> 0
                      then onSnap (\<lambda>n. n\<lparr>snPositionCapturedAtMS := nowMS E s2\<rparr>) (tick s2) else s2)
            in (None, disarm (setLoaded '''' '''' (s3\<lparr>ssPreloadedID := '''', ssPreloadedURI := ''''\<rparr>))))"

text \<open>The rest of \<open>Start\<close>: the backend learns the volume, and the state is published.\<close>

definition startFinish :: "env \<Rightarrow> session \<Rightarrow> session" where
  "startFinish E s =
     (let s1 = (if ssBackend s then doCall (BSetVolume (snVolume (ssSnap s))) s else s)
      in publishSnapshot E (snapshotOf E s1) s1)"

definition persistFinalSnapshot :: "env \<Rightarrow> session \<Rightarrow> session" where
  "persistFinalSnapshot E s =
     (let s1 = (if ssBackend s \<and> snCurrentEntry (ssSnap s) \<noteq> None then snd (refreshPosition E s) else s);
          n = snapshotOf E s1
      in if snStatus n = StatusPlaying \<or> snStatus n = StatusPending
         then persistSnapshot E (n\<lparr>snStatus := StatusPaused,
                snUpdatedAt := formatTimestamp (lib E) (nowNanos E s1)\<rparr>) (tick s1)
         else persistSnapshot E n s1)"

definition closeSession :: "env \<Rightarrow> session \<Rightarrow> session" where
  "closeSession E s =
     (let s1 = cancelPendingRetry (stopTicker (persistFinalSnapshot E s));
          s2 = s1\<lparr>ssBackend := False\<rparr>
      in if ssBackend s1 then doCall BClose s2 else s2)"

end
