(* ===== verification/Rebase.thy ===== *)
theory Rebase
  imports Transport
begin

text \<open>
  Reacting to changes of the catalog (\<open>src/internal/playback/session.go\<close>): which changes concern the
  session, and the rebuilding of a source-backed context from a fresh enumeration, which keeps the
  current, the loading and the pending entry where they still exist.

  A rebase enumerates the source without the lock.  \<open>catalogRebaseBegin\<close> takes the queue, the intent
  epoch and the source's identity; \<open>catalogRebaseCommit\<close> gives up when the session has moved on.
\<close>

section \<open>Relevance\<close>

definition catalogChangeRelevant :: "CatalogChangeEvent \<Rightarrow> session \<Rightarrow> bool" where
  "catalogChangeRelevant ev s =
     (case snContextQueue (ssSnap s) of None \<Rightarrow> False
      | Some q \<Rightarrow> (case cqSource q of None \<Rightarrow> False
          | Some d \<Rightarrow>
              if dsRebasePolicy d \<noteq> RebaseLive then False
              else if ceKind ev = InvalidateAvailability then False
              else if ceInvalidateAll ev then True
              else (case dsKind d of
                  KindTracks \<Rightarrow> ceEntity ev = EntityTracks
                | KindPlaylist \<Rightarrow> ceEntity ev = EntityPlaylistTracks
                    \<and> trimSpace (ceEntityID ev) = trimSpace (dsID d)
                | KindLiked \<Rightarrow> ceEntity ev = EntityLiked
                | KindOffline \<Rightarrow> ceEntity ev = EntityOffline
                | _ \<Rightarrow> False)))"

definition recordingIDSet :: "string list \<Rightarrow> string list" where
  "recordingIDSet values = filter (\<lambda>v. v \<noteq> '''') (map trimSpace values)"

definition sessionItemMatchesRecordingIDSet :: "SessionItem \<Rightarrow> string list \<Rightarrow> bool" where
  "sessionItemMatchesRecordingIDSet i ids \<longleftrightarrow>
     list_ex (\<lambda>v. trimSpace v \<noteq> '''' \<and> trimSpace v \<in> set ids)
       [itRecordingID i, itLibraryRecordingID i, itVariantRecordingID i]"

definition hasAvailabilitySensitiveState :: "session \<Rightarrow> bool" where
  "hasAvailabilitySensitiveState s \<longleftrightarrow>
     snCurrentEntry (ssSnap s) \<noteq> None \<or> snLoadingEntry (ssSnap s) \<noteq> None
     \<or> snUserQueue (ssSnap s) \<noteq> [] \<or> contextAllEntries (ssSnap s) \<noteq> []
     \<or> snEntryAvailability (ssSnap s) \<noteq> Map.empty \<or> snNextPreparation (ssSnap s) \<noteq> None
     \<or> ssPreloadedID s \<noteq> '''' \<or> ssPreloadedURI s \<noteq> '''' \<or> ssBackendPreloadArmed s"

definition availabilityChangeRelevant :: "CatalogChangeEvent \<Rightarrow> session \<Rightarrow> bool" where
  "availabilityChangeRelevant ev s =
     (let n = ssSnap s; ids = recordingIDSet (ceRecordingIDs ev);
          hit = (\<lambda>e. sessionItemMatchesRecordingIDSet (enItem e) ids) in
      if ceKind ev \<noteq> InvalidateAvailability then False
      else if ceInvalidateAll ev then hasAvailabilitySensitiveState s
      else if ids = [] then False
      else list_ex hit ((case snCurrentEntry n of None \<Rightarrow> [] | Some e \<Rightarrow> [e])
             @ (case snLoadingEntry n of None \<Rightarrow> [] | Some e \<Rightarrow> [e])
             @ snUserQueue n @ contextAllEntries n))"

definition handleAvailabilityChange :: "env \<Rightarrow> CatalogChangeEvent \<Rightarrow> session \<Rightarrow> session" where
  "handleAvailabilityChange E ev s =
     (if \<not> availabilityChangeRelevant ev s then s
      else
        let needs = shouldClearBackendPreload s;
            hadAvailability = (snEntryAvailability (ssSnap s) \<noteq> Map.empty);
            hadPreparation = (snNextPreparation (ssSnap s) \<noteq> None \<or> ssPreloadedID s \<noteq> ''''
              \<or> ssPreloadedURI s \<noteq> '''' \<or> ssBackendPreloadArmed s);
            s1 = s\<lparr>ssAvailabilityCache := Map.empty\<rparr>;
            s2 = (if hadAvailability
                  then markQueueDirty (onSnap (\<lambda>n. n\<lparr>snEntryAvailability := Map.empty\<rparr>) s1) else s1);
            s3 = (if hadPreparation then clearNextPreparationState s2 else s2);
            shouldPublish = (hadAvailability \<or> hadPreparation);
            s4 = (if shouldPublish then touch E s3 else s3);
            n = snapshotOf E s4;
            s5 = clearIf E needs s4;
            s6 = (if shouldPublish then publishSnapshot E n s5 else s5)
        in preloadNext E s6)"

section \<open>Enumerating again\<close>

definition containsText :: "string \<Rightarrow> string \<Rightarrow> bool" where
  "containsText needle text \<longleftrightarrow>
     list_ex (\<lambda>k. take (length needle) (drop k text) = needle) [0..<Suc (length text)]"

definition isMissingSourceAnchorError :: "string \<Rightarrow> bool" where
  "isMissingSourceAnchorError err \<longleftrightarrow> containsText anchorError err"

definition anchorFromEntry :: "SessionEntry \<Rightarrow> PlaybackSourceAnchor" where
  "anchorFromEntry e =
     noAnchor\<lparr>anEntryKey := trimSpace (enEntryID e),
              anSourceItemID := trimSpace (itSourceItemID (enItem e))\<rparr>"

text \<open>
  The enumeration is the parameter \<open>enum\<close>.  When the entry that plays is gone from the source the
  enumeration is repeated without an anchor; the flag of the result says so.
\<close>

definition enumerateSourceForContextRebuild ::
  "(PlaybackSourceRequest \<Rightarrow> string + enumeration) \<Rightarrow> ContextQueue option \<Rightarrow> SessionEntry option
    \<Rightarrow> string + (enumeration \<times> bool)" where
  "enumerateSourceForContextRebuild enum q current =
     (case q of None \<Rightarrow> Inl ''playback source is not available''
      | Some q \<Rightarrow> (case cqSource q of None \<Rightarrow> Inl ''playback source is not available''
          | Some d \<Rightarrow>
              let base = (case cqAnchor q of None \<Rightarrow> noAnchor | Some a \<Rightarrow> a);
                  fromContext = (case current of None \<Rightarrow> None
                    | Some e \<Rightarrow> if enOrigin e = OriginContext then Some e else None);
                  anchor = (case fromContext of None \<Rightarrow> base | Some e \<Rightarrow> anchorFromEntry e)
              in case enum \<lparr>rqDescriptor = d, rqAnchor = anchor\<rparr> of
                   Inr r \<Rightarrow> Inr (r, False)
                 | Inl err \<Rightarrow>
                     if fromContext = None \<or> \<not> isMissingSourceAnchorError err then Inl err
                     else (case enum \<lparr>rqDescriptor = d, rqAnchor = noAnchor\<rparr> of
                         Inl err2 \<Rightarrow> Inl err2
                       | Inr r \<Rightarrow> Inr (r, True))))"

section \<open>Applying a rebuilt context\<close>

definition restoreContextEntry :: "SessionEntry list \<Rightarrow> SessionEntry \<Rightarrow> SessionEntry option" where
  "restoreContextEntry entries preferred =
     find (\<lambda>e. enEntryID e = enEntryID preferred
              \<or> itSourceItemID (enItem e) \<noteq> ''''
                \<and> itSourceItemID (enItem e) = itSourceItemID (enItem preferred)) entries"

definition restoreContextEntryForAnchor ::
  "SessionEntry list \<Rightarrow> PlaybackSourceAnchor option \<Rightarrow> SessionEntry option" where
  "restoreContextEntryForAnchor entries anchor =
     (case anchor of None \<Rightarrow> None
      | Some a \<Rightarrow>
          let key = trimSpace (anEntryKey a); item = trimSpace (anSourceItemID a);
              recording = trimSpace (anRecordingID a)
          in find (\<lambda>e. key \<noteq> '''' \<and> trimSpace (enEntryID e) = key
                  \<or> item \<noteq> '''' \<and> trimSpace (itSourceItemID (enItem e)) = item
                  \<or> recording \<noteq> '''' \<and> trimSpace (itRecordingID (enItem e)) = recording) entries)"

definition ofContext :: "SessionEntry option \<Rightarrow> SessionEntry option" where
  "ofContext e =
     (case e of None \<Rightarrow> None | Some x \<Rightarrow> if enOrigin x = OriginContext then Some x else None)"

text \<open>A pending transition to a context entry is carried over, or cancelled when its entry is gone.\<close>

definition restorePending ::
  "SessionEntry list \<Rightarrow> sourceIdentity \<Rightarrow> session \<Rightarrow> SessionEntry option \<times> session" where
  "restorePending entries ident s =
     (case ssTransportPending s of
        None \<Rightarrow> (None, s)
      | Some p \<Rightarrow>
          if ttOrigin p = OriginContext \<and> sourceIdentityEqual (ttSourceIdentity p) ident then
            (case restoreContextEntry entries (ttEntry p) of
               Some e \<Rightarrow> (Some e, s\<lparr>ssTransportPending :=
                            Some (p\<lparr>ttEntry := e, ttSourceIdentity := ident\<rparr>)\<rparr>)
             | None \<Rightarrow> (None, cancelTransportTransition s))
          else (None, s))"

definition installRebuilt :: "env \<Rightarrow> ContextQueue \<Rightarrow> ContextQueue option \<Rightarrow> session \<Rightarrow> session" where
  "installRebuilt E rebuilt previous s =
     (let s1 = onSnap (\<lambda>n. n\<lparr>snContextQueue := Some rebuilt\<rparr>) s in
      if \<not> snShuffle (ssSnap s1) then clearShuffle s1
      else
        let s2 = (if cqShuffleSeed rebuilt \<noteq> 0 then s1
                  else (case previous of
                      Some p \<Rightarrow>
                        if cqShuffleSeed p \<noteq> 0
                        then onContext (\<lambda>q. q\<lparr>cqShuffleSeed := cqShuffleSeed p\<rparr>) s1
                        else (let (seed, s') = drawUint64 E s1
                              in onContext (\<lambda>q. q\<lparr>cqShuffleSeed := seed\<rparr>) s')
                    | None \<Rightarrow> (let (seed, s') = drawUint64 E s1
                              in onContext (\<lambda>q. q\<lparr>cqShuffleSeed := seed\<rparr>) s')))
        in rebuildShuffleCycle E s2)"

definition rebuiltIndex ::
  "env \<Rightarrow> ContextQueue \<Rightarrow> SessionEntry option list \<Rightarrow> int \<Rightarrow> SessionSnapshot \<Rightarrow> int" where
  "rebuiltIndex E rebuilt restored previousResume n =
     (let m = int (length (cqAllEntries rebuilt));
          index = (case List.find (\<lambda>e. e \<noteq> None) restored of
              Some (Some e) \<Rightarrow> enContextIndex e
            | _ \<Rightarrow>
                if 0 \<le> previousResume \<and> previousResume < m then previousResume
                else (case restoreContextEntryForAnchor (cqAllEntries rebuilt) (cqAnchor rebuilt) of
                    Some e \<Rightarrow> enContextIndex e | None \<Rightarrow> -1))
      in if index < 0 \<or> m \<le> index then defaultFirstContextIndex (lib E) n else index)"

definition applyRebuiltSourceContext ::
  "env \<Rightarrow> ContextQueue \<Rightarrow> sourceIdentity \<Rightarrow> bool \<Rightarrow> session \<Rightarrow> bool \<times> SessionSnapshot \<times> session" where
  "applyRebuiltSourceContext E rebuilt ident force s =
     (let n = ssSnap s; entries = cqAllEntries rebuilt;
          loading = snLoadingEntry n;
          (needs, s1) = invalidatePreloadPlan E force s;
          (rPending, s2) = restorePending entries ident s1;
          restore = (\<lambda>e. Option.bind (ofContext e) (restoreContextEntry entries));
          rCurrent = restore (snCurrentEntry n);
          rLoading = (if rPending = None then restore loading else None);
          s3 = installRebuilt E rebuilt (snContextQueue n) s2;
          index = rebuiltIndex E rebuilt [rPending, rCurrent, rLoading] (resumeContextIndex n) (ssSnap s3);
          s4 = setCurrentContextIndex index s3;
          s5 = (case (rPending, ssTransportPending s4) of
              (Some e, Some p) \<Rightarrow> setLoading e (ttStatus p) s4
            | _ \<Rightarrow>
                (case (rLoading, snLoadingPreparation n) of
                   (Some e, Some prep) \<Rightarrow> setLoading e (epStatus prep) s4
                 | _ \<Rightarrow> if ofContext loading \<noteq> None then clearLoadingState s4 else s4));
          s6 = (case rCurrent of None \<Rightarrow> s5
            | Some e \<Rightarrow> onSnap (\<lambda>m. m\<lparr>snCurrentEntryID := enEntryID e, snCurrentEntry := Some e,
                snCurrentItem := Some (enItem e),
                snCurrentPreparation := (case snCurrentPreparation n of
                    None \<Rightarrow> snCurrentPreparation m
                  | Some prep \<Rightarrow> Some \<lparr>epEntryID = enEntryID e, epStatus = epStatus prep\<rparr>)\<rparr>) s5);
          s7 = markQueueDirty (refreshCurrentContextWindow (recalculateResumeContextIndex E s6));
          s8 = touch E s7
      in (needs, snapshotOf E s8, s8))"

section \<open>Live rebases and restoring\<close>

definition isLive :: "ContextQueue option \<Rightarrow> bool" where
  "isLive q =
     (case q of None \<Rightarrow> False
      | Some q \<Rightarrow> (case cqSource q of None \<Rightarrow> False | Some d \<Rightarrow> dsRebasePolicy d = RebaseLive))"

definition catalogRebaseBegin ::
  "session \<Rightarrow> (ContextQueue \<times> 64 word \<times> sourceIdentity) option" where
  "catalogRebaseBegin s =
     (if isLive (snContextQueue (ssSnap s))
      then Some (the (snContextQueue (ssSnap s)), ssIntentEpoch s, currentSourceIdentity s)
      else None)"

definition reseed :: "ContextQueue \<Rightarrow> ContextQueue \<Rightarrow> ContextQueue" where
  "reseed old new = (if cqShuffleSeed old \<noteq> 0 then new\<lparr>cqShuffleSeed := cqShuffleSeed old\<rparr> else new)"

definition catalogRebaseCommit ::
  "env \<Rightarrow> ContextQueue \<Rightarrow> 64 word \<Rightarrow> sourceIdentity \<Rightarrow> string + (enumeration \<times> bool) \<Rightarrow> session
    \<Rightarrow> session" where
  "catalogRebaseCommit E queue epoch ident result s =
     (case result of
        Inl err \<Rightarrow> s
      | Inr ((resolved, cands, start), _) \<Rightarrow>
          let rebuiltIdentity = sourceIdentityFromRequest resolved in
          if \<not> isLive (snContextQueue (ssSnap s)) then s
          else if ssIntentEpoch s \<noteq> epoch then s
          else if \<not> sourceIdentityEqual (currentSourceIdentity s) ident
                  \<or> \<not> sourceIdentityEqual ident rebuiltIdentity then s
          else
            let (q0, s1) = buildSourceContext E resolved cands start s;
                q = (reseed queue q0)\<lparr>cqSourceVersion := cqSourceVersion queue + 1\<rparr>;
                (needs, n, s2) = applyRebuiltSourceContext E q rebuiltIdentity True s1
            in publishSnapshot E n (clearIf E needs s2))"

definition restoreSourceBackedContext ::
  "env \<Rightarrow> ContextQueue \<Rightarrow> string + (enumeration \<times> bool) \<Rightarrow> session \<Rightarrow> session" where
  "restoreSourceBackedContext E queue result s =
     (case result of
        Inl err \<Rightarrow> s
      | Inr ((resolved, cands, start), _) \<Rightarrow>
          let rebuiltIdentity = sourceIdentityFromRequest resolved in
          if \<not> sourceIdentityEqual (currentSourceIdentity s) rebuiltIdentity then s
          else
            let (q0, s1) = buildSourceContext E resolved cands start s;
                (_, _, s2) = applyRebuiltSourceContext E (reseed queue q0) rebuiltIdentity False s1
            in s2)"

end
