(* ===== verification/SessionLaws.thy ===== *)
theory SessionLaws
  imports Rebase
begin

text \<open>
  What the mutators of a session leave alone: the frame lemmas that every proof about an operation
  rests on.  First the fields of a normalised snapshot, then those of a touched session, then the
  mutators by groups.
\<close>

section \<open>Fields of a normalised snapshot\<close>

definition normalEntry :: "SessionEntry \<Rightarrow> SessionEntry" where
  "normalEntry e = e\<lparr>enItem := normalizeSessionItem (enItem e)\<rparr>"

definition knownMode :: "RepeatMode \<Rightarrow> RepeatMode" where
  "knownMode m = (case m of RepeatOther _ \<Rightarrow> RepeatOff | k \<Rightarrow> k)"

lemma normalEntry_simps [simp]:
  "enEntryID (normalEntry e) = enEntryID e" "enOrigin (normalEntry e) = enOrigin e"
  "enContextIndex (normalEntry e) = enContextIndex e"
  "enItem (normalEntry e) = normalizeSessionItem (enItem e)"
  "normalEntry (normalEntry e) = normalEntry e"
  by (simp_all add: normalEntry_def)

lemma normalizeQueuedEntry_simps [simp]:
  "enEntryID (normalizeQueuedEntry e) = enEntryID e" "enOrigin (normalizeQueuedEntry e) = OriginQueued"
  "enContextIndex (normalizeQueuedEntry e) = -1"
  "enItem (normalizeQueuedEntry e) = normalizeSessionItem (enItem e)"
  by (simp_all add: normalizeQueuedEntry_def)

lemma idle_more:
  "snVolume (normalizeIdle s) = snVolume s" "snUpdatedAt (normalizeIdle s) = snUpdatedAt s"
  "snLastError (normalizeIdle s) = snLastError s" "snNextEntrySeq (normalizeIdle s) = snNextEntrySeq s"
  "snQueueVersion (normalizeIdle s) = snQueueVersion s"
  "snEntryAvailability (normalizeIdle s) = snEntryAvailability s"
  "snLastSkipEvent (normalizeIdle s) = snLastSkipEvent s"
  "snLoadingItem (normalizeIdle s) = snLoadingItem s"
  "snLoadingPreparation (normalizeIdle s) = snLoadingPreparation s"
  by (cases rule: idle_cases [of s]; simp)+

lemma derived_more:
  "snLastError (normalizeDerived L s) = snLastError s"
  "snQueueVersion (normalizeDerived L s) = snQueueVersion s"
  "snEntryAvailability (normalizeDerived L s) = snEntryAvailability s"
  unfolding normalizeDerived_def Let_def
  by (simp_all split: option.split)

definition keptFields :: "SessionSnapshot \<Rightarrow> SessionSnapshot \<Rightarrow> bool" where
  "keptFields s t \<longleftrightarrow>
     snVolume s = snVolume t \<and> snRepeatMode s = snRepeatMode t \<and> snShuffle s = snShuffle t
     \<and> snUserQueue s = snUserQueue t \<and> snLastError s = snLastError t
     \<and> snNextEntrySeq s = snNextEntrySeq t \<and> snQueueVersion s = snQueueVersion t
     \<and> snEntryAvailability s = snEntryAvailability t \<and> snLastSkipEvent s = snLastSkipEvent t"

lemma keptFields_trans: "keptFields s t \<Longrightarrow> keptFields t u \<Longrightarrow> keptFields s u"
  by (simp add: keptFields_def)

lemma stages_kept:
  "keptFields (normalizeCurrent s) s" "keptFields (normalizeLoading s) s"
  "keptFields (normalizeContextState L s) s" "keptFields (normalizePosition s) s"
  "keptFields (normalizeIdle s) s" "keptFields (normalizeDerived L s) s"
proof -
  show "keptFields (normalizeCurrent s) s" "keptFields (normalizeLoading s) s"
    by (simp_all add: keptFields_def normalizeCurrent_def normalizeLoading_def Let_def split: option.split)
  show "keptFields (normalizePosition s) s"
    by (simp add: keptFields_def normalizePosition_def split: option.split)
  show "keptFields (normalizeIdle s) s" by (simp add: keptFields_def idle_fields idle_more)
  show "keptFields (normalizeDerived L s) s" by (simp add: keptFields_def derived_fields derived_more)
  show "keptFields (normalizeContextState L s) s"
    by (simp add: keptFields_def normalizeContextState_def clearContextShuffleState_def Let_def
        split: option.split)
qed

lemma normalize_kept:
  "keptFields (normalizeSnapshot L s) (normalizeQueues L (normalizeScalars L s))"
  unfolding normalizeSnapshot_def
  by (rule keptFields_trans [OF stages_kept(6)], rule keptFields_trans [OF stages_kept(5)],
      rule keptFields_trans [OF stages_kept(4)], rule keptFields_trans [OF stages_kept(3)],
      rule keptFields_trans [OF stages_kept(2)], rule stages_kept(1))

lemma normalize_fields:
  "snVolume (normalizeSnapshot L s) = clampVolume (snVolume s)"
  "snRepeatMode (normalizeSnapshot L s) = knownMode (snRepeatMode s)"
  "snShuffle (normalizeSnapshot L s) = snShuffle s"
  "snUserQueue (normalizeSnapshot L s) = map normalizeQueuedEntry (snUserQueue s)"
  "snLastError (normalizeSnapshot L s) = snLastError s"
  "snNextEntrySeq (normalizeSnapshot L s) = (if snNextEntrySeq s \<le> 0 then 1 else snNextEntrySeq s)"
  "snQueueVersion (normalizeSnapshot L s) = snQueueVersion s"
  "snEntryAvailability (normalizeSnapshot L s) = snEntryAvailability s"
  "snLastSkipEvent (normalizeSnapshot L s) = clonePlaybackSkipEvent L (snLastSkipEvent s)"
  using normalize_kept [of L s]
  by (simp_all add: keptFields_def normalizeQueues_def normalizeScalars_def knownMode_def)

definition sameEntries :: "SessionSnapshot \<Rightarrow> SessionSnapshot \<Rightarrow> bool" where
  "sameEntries s t \<longleftrightarrow> snCurrentEntry s = snCurrentEntry t \<and> snLoadingEntry s = snLoadingEntry t
     \<and> snCurrentEntryID s = snCurrentEntryID t"

lemma stages_entries:
  "sameEntries (normalizeContextState L s) s" "sameEntries (normalizePosition s) s"
  "sameEntries (normalizeIdle s) s" "sameEntries (normalizeDerived L s) s"
  by (simp_all add: sameEntries_def idle_fields derived_fields)
     (simp_all add: normalizePosition_def normalizeContextState_def clearContextShuffleState_def Let_def
        split: option.split)

lemma current_entries:
  "snCurrentEntry (normalizeCurrent s) = map_option normalEntry (snCurrentEntry s)"
  "snLoadingEntry (normalizeCurrent s) = snLoadingEntry s"
  "snCurrentEntryID (normalizeCurrent s) = (case snCurrentEntry s of None \<Rightarrow> ''''
     | Some e \<Rightarrow> if snCurrentEntryID s = '''' then enEntryID e else snCurrentEntryID s)"
  by (simp_all add: normalizeCurrent_def Let_def normalEntry_def split: option.split)

lemma loading_entries:
  "snCurrentEntry (normalizeLoading s) = snCurrentEntry s"
  "snLoadingEntry (normalizeLoading s) = map_option normalEntry (snLoadingEntry s)"
  "snCurrentEntryID (normalizeLoading s) = snCurrentEntryID s"
  by (simp_all add: normalizeLoading_def Let_def normalEntry_def split: option.split)

lemma normalize_entries:
  "snCurrentEntry (normalizeSnapshot L s) = map_option normalEntry (snCurrentEntry s)"
  "snLoadingEntry (normalizeSnapshot L s) = map_option normalEntry (snLoadingEntry s)"
  "snCurrentEntryID (normalizeSnapshot L s) = (case snCurrentEntry s of None \<Rightarrow> ''''
     | Some e \<Rightarrow> if snCurrentEntryID s = '''' then enEntryID e else snCurrentEntryID s)"
proof -
  let ?q = "normalizeQueues L (normalizeScalars L s)"
  have q: "snCurrentEntry ?q = snCurrentEntry s" "snLoadingEntry ?q = snLoadingEntry s"
    "snCurrentEntryID ?q = snCurrentEntryID s"
    by (simp_all add: normalizeQueues_def normalizeScalars_def)
  show "snCurrentEntry (normalizeSnapshot L s) = map_option normalEntry (snCurrentEntry s)"
    "snLoadingEntry (normalizeSnapshot L s) = map_option normalEntry (snLoadingEntry s)"
    "snCurrentEntryID (normalizeSnapshot L s) = (case snCurrentEntry s of None \<Rightarrow> ''''
       | Some e \<Rightarrow> if snCurrentEntryID s = '''' then enEntryID e else snCurrentEntryID s)"
    unfolding normalizeSnapshot_def
    using stages_entries [unfolded sameEntries_def]
    by (simp_all add: current_entries loading_entries q cong: option.case_cong if_cong)
qed


section \<open>Fields of a touched session\<close>

lemma sync_fields [simp]:
  "ssSnap (syncAuthorityState E s) = (ssSnap s)\<lparr>snCurrentLane := deriveCurrentLane (ssSnap s),
     snNextPlanned := buildQueuePlanFromSnapshot (lib E) (ssSnap s),
     snPreloadedPlan := (if ssPreloadedID s = '''' then None
       else map_option entryPlan (findEntryByID (ssSnap s) (ssPreloadedID s)))\<rparr>"
  by (simp add: syncAuthorityState_def onSnap_def)

text \<open>Everything in the session but the snapshot, the dirty flag and the clock.\<close>

definition sessionRest :: "session \<Rightarrow> session" where
  "sessionRest s = s\<lparr>ssSnap := zeroSnapshot, ssQueueDirty := False, ssTicks := 0\<rparr>"

lemma touch_rest: "sessionRest (touch E s) = sessionRest s"
  by (simp add: touch_def Let_def sessionRest_def tick_def onSnap_def bumpQueueVersion_def
      syncAuthorityState_def pruneEntryAvailability_def refreshCurrentContextWindow_def onContext_def)

lemma rest_fields:
  assumes "sessionRest s = sessionRest t"
  shows "ssBackend s = ssBackend t" "ssStarted s = ssStarted t" "ssTicker s = ssTicker t"
    "ssIntentEpoch s = ssIntentEpoch t" "ssLoadedEntryID s = ssLoadedEntryID t"
    "ssLoadedURI s = ssLoadedURI t" "ssPreloadedID s = ssPreloadedID t"
    "ssPreloadedURI s = ssPreloadedURI t" "ssBackendPreloadArmed s = ssBackendPreloadArmed t"
    "ssLastTickerPublishAt s = ssLastTickerPublishAt t" "ssRetryEntryID s = ssRetryEntryID t"
    "ssRetryAt s = ssRetryAt t" "ssPreloadFailureEntryID s = ssPreloadFailureEntryID t"
    "ssPreloadFailureURI s = ssPreloadFailureURI t" "ssRngDraws s = ssRngDraws t"
    "ssPendingArmed s = ssPendingArmed t" "ssPendingEntry s = ssPendingEntry t"
    "ssPendingToken s = ssPendingToken t" "ssTransportToken s = ssTransportToken t"
    "ssTransportPending s = ssTransportPending t" "ssAvailabilityCache s = ssAvailabilityCache t"
    "ssNextActionPlan s = ssNextActionPlan t" "ssNextActionBuilds s = ssNextActionBuilds t"
    "ssTrace s = ssTrace t"
  using assms by (cases s; cases t; simp add: sessionRest_def)+

lemmas touch_session [simp] = rest_fields [OF touch_rest]

lemma touch_clean [simp]: "\<not> ssQueueDirty (touch E s)"
  by (simp add: touch_def Let_def tick_def onSnap_def bumpQueueVersion_def syncAuthorityState_def)

definition touchedSnap :: "env \<Rightarrow> session \<Rightarrow> SessionSnapshot" where
  "touchedSnap E s = normalizeSnapshot (lib E)
     ((ssSnap s)\<lparr>snContextQueue := map_option refreshWindow (snContextQueue (ssSnap s))\<rparr>)"

text \<open>A touched snapshot is the normalised one up to the fields that \<open>touch\<close> maintains itself.\<close>

definition authoritative :: "SessionSnapshot \<Rightarrow> SessionSnapshot" where
  "authoritative n = n\<lparr>snCurrentLane := LaneNone, snNextPlanned := None, snPreloadedPlan := None,
     snEntryAvailability := Map.empty, snQueueVersion := 0, snUpdatedAt := ''''\<rparr>"

lemma touch_authoritative: "authoritative (ssSnap (touch E s)) = authoritative (touchedSnap E s)"
  by (simp add: touch_def touchedSnap_def Let_def tick_def onSnap_def bumpQueueVersion_def
      pruneEntryAvailability_def refreshCurrentContextWindow_def onContext_def authoritative_def)

lemma authoritative_fields:
  assumes "authoritative m = authoritative n"
  shows "snContextQueue m = snContextQueue n" "snUserQueue m = snUserQueue n"
    "snCurrentEntryID m = snCurrentEntryID n" "snCurrentEntry m = snCurrentEntry n"
    "snCurrentItem m = snCurrentItem n" "snLoadingEntry m = snLoadingEntry n"
    "snLoadingItem m = snLoadingItem n" "snUpcomingEntries m = snUpcomingEntries n"
    "snRepeatMode m = snRepeatMode n" "snShuffle m = snShuffle n" "snVolume m = snVolume n"
    "snStatus m = snStatus n" "snPositionMS m = snPositionMS n"
    "snPositionCapturedAtMS m = snPositionCapturedAtMS n" "snDurationMS m = snDurationMS n"
    "snLastError m = snLastError n" "snCurrentSourceKind m = snCurrentSourceKind n"
    "snCurrentPreparation m = snCurrentPreparation n"
    "snLoadingPreparation m = snLoadingPreparation n" "snNextPreparation m = snNextPreparation n"
    "snLastSkipEvent m = snLastSkipEvent n" "snQueueLength m = snQueueLength n"
    "snNextEntrySeq m = snNextEntrySeq n"
  using assms by (cases m; cases n; simp add: authoritative_def)+

lemmas touch_snap = authoritative_fields [OF touch_authoritative]

lemma touch_fields:
  "snVolume (ssSnap (touch E s)) = clampVolume (snVolume (ssSnap s))"
  "snRepeatMode (ssSnap (touch E s)) = knownMode (snRepeatMode (ssSnap s))"
  "snShuffle (ssSnap (touch E s)) = snShuffle (ssSnap s)"
  "snUserQueue (ssSnap (touch E s)) = map normalizeQueuedEntry (snUserQueue (ssSnap s))"
  "snLastError (ssSnap (touch E s)) = snLastError (ssSnap s)"
  "snNextEntrySeq (ssSnap (touch E s)) =
     (if snNextEntrySeq (ssSnap s) \<le> 0 then 1 else snNextEntrySeq (ssSnap s))"
  "snLastSkipEvent (ssSnap (touch E s)) = clonePlaybackSkipEvent (lib E) (snLastSkipEvent (ssSnap s))"
  "snCurrentEntry (ssSnap (touch E s)) = map_option normalEntry (snCurrentEntry (ssSnap s))"
  "snLoadingEntry (ssSnap (touch E s)) = map_option normalEntry (snLoadingEntry (ssSnap s))"
  "snCurrentEntryID (ssSnap (touch E s)) = (case snCurrentEntry (ssSnap s) of None \<Rightarrow> ''''
     | Some e \<Rightarrow> if snCurrentEntryID (ssSnap s) = '''' then enEntryID e
               else snCurrentEntryID (ssSnap s))"
  by (simp_all add: touch_snap touchedSnap_def normalize_fields normalize_entries
      cong: option.case_cong if_cong)

lemma touch_version:
  "snQueueVersion (ssSnap (touch E s)) =
     snQueueVersion (ssSnap s) + (if ssQueueDirty s then 1 else 0)"
  by (simp add: touch_def Let_def tick_def onSnap_def bumpQueueVersion_def syncAuthorityState_def
      pruneEntryAvailability_def refreshCurrentContextWindow_def onContext_def normalize_fields)

end
