(* ===== verification/PlanningFrame.thy ===== *)
theory PlanningFrame
  imports Transport
begin

text \<open>
  What planning, availability checks and preloading leave alone.  These parts of the session call the
  same few mutators again and again; a property that the mutators keep is kept by all of them.  The two
  interfaces state which mutators have to be checked.
\<close>

section \<open>Planning and availability\<close>

locale planning_frame =
  fixes inv :: "session \<Rightarrow> bool"
  assumes called: "inv s \<Longrightarrow> inv (doCall c s)"
    and ticked: "inv s \<Longrightarrow> inv (tick s)"
    and cached: "inv s \<Longrightarrow> inv (s\<lparr>ssAvailabilityCache := m\<rparr>)"
    and dropped: "inv s \<Longrightarrow> inv (invalidateNextActionPlan s)"
    and marked: "inv s \<Longrightarrow> inv (setEntryAvailability k a s)"
    and planned: "inv s \<Longrightarrow> inv (snd (ensureNextActionPlan E s))"
    and peeked: "inv s \<Longrightarrow> inv (snd (planningSnapshot s))"
begin

lemma cached_for: "inv s \<Longrightarrow> inv (snd (cachedAvailabilityFor E t now v s))"
  by (simp add: cachedAvailabilityFor_def Let_def cached split: option.split)

lemma cache: "inv s \<Longrightarrow> inv (cacheAvailability E t a x v s)"
  by (simp add: cacheAvailability_def Let_def cached)

lemma targets: "inv s \<Longrightarrow> inv (snd (snd (cachedTargets E now v cs known seen ts s)))"
proof (induction cs arbitrary: known seen ts s)
  case (Cons c rest)
  obtain r s1 where r: "cachedAvailabilityFor E (plTarget c) now v s = (r, s1)" by (rule prod.exhaust)
  have "inv s1" using cached_for [OF Cons.prems, of E "plTarget c" now v] r by simp
  with Cons r show ?case by (simp add: Let_def split: option.split)
qed simp

lemma store: "inv s \<Longrightarrow> inv (snd (storeAvailabilities E x v items known s))"
proof (induction items arbitrary: known s)
  case (Cons i items)
  then show ?case by (cases i) (simp add: Let_def cache)
qed simp

lemma mark_all: "inv s \<Longrightarrow> inv (recordAvailabilities known cs s)"
  by (induction cs arbitrary: s) (simp_all add: marked split: option.split)

lemma batch: "inv s \<Longrightarrow> inv (snd (resolvePlayableCandidateBatch E v cs s))"
proof -
  assume a: "inv s"
  obtain known ts s1 where c: "cachedTargets E (nowNanos E s) v cs Map.empty [] [] (tick s) = (known, ts, s1)"
    by (metis prod.exhaust)
  have "inv s1" using targets [OF ticked [OF a], of E "nowNanos E s" v cs Map.empty "[]" "[]"] c by simp
  then show ?thesis
    using a store [OF called, of s1 E _ v _ known "CListAvailability ts"]
    by (simp add: resolvePlayableCandidateBatch_def c Let_def case_prod_beta mark_all called)
qed

lemma batches: "inv s \<Longrightarrow> inv (snd (resolveBatches E v bs sk s))"
proof (induction bs arbitrary: sk s)
  case (Cons b bs)
  obtain r k st s1 where b: "resolvePlayableCandidateBatch E v b s = ((r, k, st), s1)"
    by (metis prod.exhaust)
  have "inv s1" using batch [OF Cons.prems, of E v b] b by simp
  with Cons.IH b show ?case by (simp split: option.split)
qed simp

lemma attempts: "inv s \<Longrightarrow> inv (snd (resolveAttempts E n blocked s))"
proof (induction n arbitrary: s)
  case (Suc n)
  obtain plan s1 where p: "ensureNextActionPlan E s = (plan, s1)" by (rule prod.exhaust)
  have k1: "inv s1" using planned [OF Suc.prems, of E] p by simp
  let ?bs = "chunks (filter (\<lambda>c. plEntryID c \<notin> set blocked) (npCandidates plan))"
  obtain r k st s2 where b: "resolveBatches E (npSourceVersion plan) ?bs [] s1 = ((r, k, st), s2)"
    by (metis prod.exhaust)
  have "inv s2" using batches [OF k1, of E "npSourceVersion plan" ?bs "[]"] b by simp
  with Suc.IH [OF dropped, of s2] k1 p b show ?case by (simp add: Let_def split: option.split)
qed simp

lemma resolve: "inv s \<Longrightarrow> inv (snd (resolvePlayableFromPlan E blocked s))"
  by (simp add: resolvePlayableFromPlan_def attempts)

lemma previous_availability: "inv s \<Longrightarrow> inv (snd (previousAvailability E now v t s))"
proof -
  assume a: "inv s"
  obtain r s1 where r: "cachedAvailabilityFor E t now v s = (r, s1)" by (rule prod.exhaust)
  have "inv s1" using cached_for [OF a, of E t now v] r by simp
  with r a show ?thesis
    by (simp add: previousAvailability_def Let_def cache called split: option.split)
qed

lemma previous_loop: "inv s \<Longrightarrow> inv (snd (snd (previousLoop E now v blocked sk cs s)))"
proof (induction cs arbitrary: sk s)
  case (Cons c cs)
  obtain r s1 where r: "previousAvailability E now v (plTarget c) s = (r, s1)" by (rule prod.exhaust)
  have "inv s1" using previous_availability [OF Cons.prems, of E now v "plTarget c"] r by simp
  with Cons r show ?case by (simp add: Let_def marked split: sum.split option.split)
qed simp

lemma resolve_previous: "inv s \<Longrightarrow> inv (snd (snd (resolvePreviousPlayableCandidate E blocked s)))"
  by (simp add: resolvePreviousPlayableCandidate_def Let_def case_prod_beta previous_loop peeked ticked)

end

section \<open>Preloading\<close>

locale preload_frame = planning_frame +
  assumes scheduled: "inv s \<Longrightarrow> inv (scheduleNextPreparationPoll k x s)"
    and blamed: "inv s \<Longrightarrow> inv (recordBackendPreloadFailure E k u s)"
    and forgiven: "inv s \<Longrightarrow> inv (clearBackendPreloadFailure s)"
    and unscheduled: "inv s \<Longrightarrow> inv (clearNextPreparationRetry s)"
    and noted: "inv s \<Longrightarrow> inv (putNextPreparation e st s)"
    and preloaded: "inv s \<Longrightarrow> inv (setPreloaded k u s)"
    and unloaded: "inv s \<Longrightarrow> inv (s\<lparr>ssPreloadedID := k, ssPreloadedURI := u\<rparr>)"
    and forgotten: "inv s \<Longrightarrow> inv (clearNextPreparationState s)"
    and disarmed: "inv s \<Longrightarrow> inv (s\<lparr>ssBackendPreloadArmed := b\<rparr>)"
    and touched: "inv s \<Longrightarrow> inv (touch E s)"
begin

lemma note_next: "inv s \<Longrightarrow> inv (setNextPreparation E e st s)"
  by (simp add: setNextPreparation_def noted forgiven)

lemma clear_backend: "inv s \<Longrightarrow> inv (clearBackendPreload E b s)"
  by (simp add: clearBackendPreload_def Let_def called disarmed)

lemma apply_next: "inv s \<Longrightarrow> inv (applyNextPreparationStatus E e st s)"
  by (simp add: applyNextPreparationStatus_def Let_def note_next scheduled ticked unloaded touched
      clear_backend unscheduled called blamed preloaded forgiven)

lemma preload_ready: "inv s \<Longrightarrow> inv (preloadReadyEntry E a e st s)"
  by (simp add: preloadReadyEntry_def Let_def called blamed noted preloaded forgiven unscheduled)

lemma prepare: "inv s \<Longrightarrow> inv (prepareNext E e s)" "inv s \<Longrightarrow> inv (pollNext E e s)"
  by (simp_all add: prepareNext_def pollNext_def Let_def called apply_next)

lemma drop_next: "inv s \<Longrightarrow> inv (dropNextPreparation E s)"
  by (simp add: dropNextPreparation_def Let_def forgotten clear_backend)

lemma preload: "inv s \<Longrightarrow> inv (preloadNext E s)"
proof -
  assume a: "inv s"
  obtain r k s1 where r: "resolvePlayableFromPlan E [] (tick s) = ((r, k), s1)" by (metis prod.exhaust)
  have "inv s1" using resolve [OF ticked [OF a], of E "[]"] r by simp
  with a r show ?thesis
    by (simp add: preloadNext_def Let_def ticked drop_next prepare preload_ready scheduled
        split: option.split PreparationPhase.split)
qed

end

end
