(* ===== verification/FrameLaws.thy ===== *)
theory FrameLaws
  imports SessionLaws PlanningFrame
begin

text \<open>
  Two frames.  The kernel of a session is what planning, availability checks, preloading, position
  sampling and publishing never change: the modes, the transition and its token, the intent epoch, the
  pending retry, what is loaded, and the identities of the current and the loading entry.  The modes
  alone are what no transport handler changes; the operations that do set a mode are the only ones.
\<close>

section \<open>Views of a session\<close>

definition modes :: "session \<Rightarrow> int \<times> RepeatMode \<times> bool \<times> bool \<times> bool" where
  "modes s = (clampVolume (snVolume (ssSnap s)), knownMode (snRepeatMode (ssSnap s)),
     snShuffle (ssSnap s), ssBackend s, ssStarted s)"

definition entryName :: "SessionEntry option \<Rightarrow> (string \<times> EntryOrigin) option" where
  "entryName e = map_option (\<lambda>x. (enEntryID x, enOrigin x)) e"

record kernel =
  keModes :: "int \<times> RepeatMode \<times> bool \<times> bool \<times> bool"
  keTransport :: "transportTransition option \<times> 64 word"
  keEpoch :: "64 word"
  kePending :: "bool \<times> string \<times> 64 word"
  keLoaded :: "string \<times> string"
  keCurrent :: "(string \<times> EntryOrigin) option"
  keLoading :: "(string \<times> EntryOrigin) option"

definition kernelOf :: "session \<Rightarrow> kernel" where
  "kernelOf s =
     \<lparr>keModes = modes s, keTransport = (ssTransportPending s, ssTransportToken s),
      keEpoch = ssIntentEpoch s, kePending = (ssPendingArmed s, ssPendingEntry s, ssPendingToken s),
      keLoaded = (ssLoadedEntryID s, ssLoadedURI s),
      keCurrent = entryName (snCurrentEntry (ssSnap s)),
      keLoading = entryName (snLoadingEntry (ssSnap s))\<rparr>"

lemma kernelD:
  assumes "kernelOf s = kernelOf t"
  shows "modes s = modes t" "ssTransportPending s = ssTransportPending t"
    "ssTransportToken s = ssTransportToken t" "ssIntentEpoch s = ssIntentEpoch t"
    "ssPendingArmed s = ssPendingArmed t" "ssPendingEntry s = ssPendingEntry t"
    "ssPendingToken s = ssPendingToken t" "ssLoadedEntryID s = ssLoadedEntryID t"
    "ssLoadedURI s = ssLoadedURI t"
    "entryName (snCurrentEntry (ssSnap s)) = entryName (snCurrentEntry (ssSnap t))"
    "entryName (snLoadingEntry (ssSnap s)) = entryName (snLoadingEntry (ssSnap t))"
    "ssBackend s = ssBackend t" "ssStarted s = ssStarted t"
  using assms by (simp_all add: kernelOf_def modes_def)

lemma clamp_clamp [simp]: "clampVolume (clampVolume v) = clampVolume v"
  by (simp add: clampVolume_def)

lemma known_known [simp]: "knownMode (knownMode m) = knownMode m"
  by (cases m) (simp_all add: knownMode_def)

lemma entryName_normal [simp]: "entryName (map_option normalEntry e) = entryName e"
  by (cases e) (simp_all add: entryName_def)

lemma kernel_touch [simp]: "kernelOf (touch E s) = kernelOf s"
  by (simp add: kernelOf_def modes_def touch_fields)

lemma kernel_fields [simp]:
  "kernelOf (s\<lparr>ssTrace := a\<rparr>) = kernelOf s" "kernelOf (s\<lparr>ssTicks := k\<rparr>) = kernelOf s"
  "kernelOf (s\<lparr>ssNextActionPlan := b\<rparr>) = kernelOf s" "kernelOf (s\<lparr>ssNextActionBuilds := i\<rparr>) = kernelOf s"
  "kernelOf (s\<lparr>ssAvailabilityCache := c\<rparr>) = kernelOf s" "kernelOf (s\<lparr>ssRetryEntryID := d\<rparr>) = kernelOf s"
  "kernelOf (s\<lparr>ssRetryAt := e\<rparr>) = kernelOf s" "kernelOf (s\<lparr>ssPreloadedID := f\<rparr>) = kernelOf s"
  "kernelOf (s\<lparr>ssPreloadedURI := g\<rparr>) = kernelOf s"
  "kernelOf (s\<lparr>ssBackendPreloadArmed := h\<rparr>) = kernelOf s"
  "kernelOf (s\<lparr>ssPreloadFailureEntryID := j\<rparr>) = kernelOf s"
  "kernelOf (s\<lparr>ssPreloadFailureURI := l\<rparr>) = kernelOf s" "kernelOf (s\<lparr>ssQueueDirty := m\<rparr>) = kernelOf s"
  "kernelOf (s\<lparr>ssLastTickerPublishAt := n\<rparr>) = kernelOf s" "kernelOf (s\<lparr>ssTicker := q\<rparr>) = kernelOf s"
  "kernelOf (s\<lparr>ssRngDraws := r\<rparr>) = kernelOf s"
  by (simp_all add: kernelOf_def modes_def)

lemma kernel_snap:
  assumes "snVolume (f (ssSnap s)) = snVolume (ssSnap s)"
    "snRepeatMode (f (ssSnap s)) = snRepeatMode (ssSnap s)" "snShuffle (f (ssSnap s)) = snShuffle (ssSnap s)"
    "snCurrentEntry (f (ssSnap s)) = snCurrentEntry (ssSnap s)"
    "snLoadingEntry (f (ssSnap s)) = snLoadingEntry (ssSnap s)"
  shows "kernelOf (onSnap f s) = kernelOf s"
  using assms by (simp add: kernelOf_def modes_def onSnap_def)

lemma kernel_mutators [simp]:
  "kernelOf (doCall c s) = kernelOf s" "kernelOf (tick s) = kernelOf s"
  "kernelOf (invalidateNextActionPlan s) = kernelOf s" "kernelOf (markQueueDirty s) = kernelOf s"
  "kernelOf (onContext g s) = kernelOf s" "kernelOf (setCurrentContextIndex i s) = kernelOf s"
  "kernelOf (setResumeContextIndex i s) = kernelOf s"
  "kernelOf (recalculateResumeContextIndex E s) = kernelOf s"
  "kernelOf (setUserQueue es s) = kernelOf s" "kernelOf (setEntryAvailability k a s) = kernelOf s"
  "kernelOf (cacheAvailability E t a x v s) = kernelOf s"
  "kernelOf (clearNextPreparationRetry s) = kernelOf s"
  "kernelOf (clearBackendPreloadFailure s) = kernelOf s"
  "kernelOf (clearNextPreparationState s) = kernelOf s"
  "kernelOf (clearBackendPreload E b s) = kernelOf s" "kernelOf (clearIf E b s) = kernelOf s"
  "kernelOf (ensureTicker s) = kernelOf s" "kernelOf (stopTicker s) = kernelOf s"
  "kernelOf (stopBackend s) = kernelOf s" "kernelOf (disarm s) = kernelOf s"
  "kernelOf (setAuthoritativePositionAt p t' s) = kernelOf s"
  "kernelOf (setAuthoritativePosition E p s) = kernelOf s"
  "kernelOf (clearAuthoritativePosition s) = kernelOf s"
  "kernelOf (setDuration d s) = kernelOf s" "kernelOf (setStatus st s) = kernelOf s"
  "kernelOf (setLastError m s) = kernelOf s" "kernelOf (errorFromSkip s) = kernelOf s"
  "kernelOf (recordSkipEvent E sk stp s) = kernelOf s"
  "kernelOf (markCurrentFailed E s) = kernelOf s"
  "kernelOf (persistSnapshot E n s) = kernelOf s" "kernelOf (publishSnapshot E n s) = kernelOf s"
  "kernelOf (publishTickerSnapshot E n s) = kernelOf s"
  by (simp_all add: doCall_def tick_def invalidateNextActionPlan_def markQueueDirty_def onContext_def
      setCurrentContextIndex_def setResumeContextIndex_def recalculateResumeContextIndex_def
      setUserQueue_def setEntryAvailability_def cacheAvailability_def clearNextPreparationRetry_def
      clearBackendPreloadFailure_def clearNextPreparationState_def clearBackendPreload_def clearIf_def
      ensureTicker_def stopTicker_def stopBackend_def disarm_def setAuthoritativePositionAt_def
      setAuthoritativePosition_def clearAuthoritativePosition_def setDuration_def setStatus_def
      setLastError_def errorFromSkip_def recordSkipEvent_def markCurrentFailed_def persistSnapshot_def
      publishSnapshot_def publishTickerSnapshot_def Let_def kernel_snap split: option.split)

lemma kernel_shuffle [simp]:
  "kernelOf (clearShuffle s) = kernelOf s" "kernelOf (ensureContextShuffleSeed E s) = kernelOf s"
  "kernelOf (rebuildShuffleCycle E s) = kernelOf s" "kernelOf (seedShuffle E s) = kernelOf s"
  "kernelOf (ensureShuffleCycle E s) = kernelOf s" "kernelOf (snd (firstContextIndex E s)) = kernelOf s"
proof -
  show c: "kernelOf (clearShuffle s) = kernelOf s" for s
    by (simp add: clearShuffle_def kernel_snap clearContextShuffleState_def)
  show e: "kernelOf (ensureContextShuffleSeed E s) = kernelOf s" for s
    by (simp add: ensureContextShuffleSeed_def drawUint64_def split: option.split)
  show r: "kernelOf (rebuildShuffleCycle E s) = kernelOf s" for s
    by (simp add: rebuildShuffleCycle_def c e Let_def split: option.split)
  show "kernelOf (seedShuffle E s) = kernelOf s" by (simp add: seedShuffle_def c e r)
  show n: "kernelOf (ensureShuffleCycle E s) = kernelOf s" by (simp add: ensureShuffleCycle_def r)
  show "kernelOf (snd (firstContextIndex E s)) = kernelOf s"
    by (simp add: firstContextIndex_def n Let_def)
qed

section \<open>Planning and availability keep the kernel\<close>

lemma kernel_planning [simp]:
  "kernelOf (planningEffect s) = kernelOf s" "kernelOf (snd (planningSnapshot s)) = kernelOf s"
proof -
  show e: "kernelOf (planningEffect s) = kernelOf s"
    by (simp add: planningEffect_def Let_def split: option.split)
  show "kernelOf (snd (planningSnapshot s)) = kernelOf s"
    by (simp add: planningSnapshot_def Let_def e)
qed

lemma kernel_ensure [simp]: "kernelOf (snd (ensureNextActionPlan E s)) = kernelOf s"
  by (simp add: ensureNextActionPlan_def Let_def case_prod_beta split: option.split)

lemma kernel_preload_steps [simp]:
  "kernelOf (scheduleNextPreparationPoll k t s) = kernelOf s"
  "kernelOf (recordBackendPreloadFailure E k u s) = kernelOf s"
  "kernelOf (putNextPreparation e st s) = kernelOf s"
  "kernelOf (setNextPreparation E e st s) = kernelOf s"
  "kernelOf (setPreloaded k u s) = kernelOf s"
  "kernelOf (snd (invalidatePreloadPlan E b s)) = kernelOf s"
  by (simp_all add: scheduleNextPreparationPoll_def recordBackendPreloadFailure_def
      putNextPreparation_def setNextPreparation_def setPreloaded_def invalidatePreloadPlan_def
      kernel_snap Let_def)

interpretation kept: preload_frame "\<lambda>s. kernelOf s = k" for k
  by unfold_locales simp_all

lemma kernel_resolve [simp]:
  "kernelOf (snd (resolvePlayableFromPlan E blocked s)) = kernelOf s"
  "kernelOf (snd (snd (resolvePreviousPlayableCandidate E blocked s))) = kernelOf s"
  by (rule kept.resolve [OF refl] kept.resolve_previous [OF refl])+

lemma kernel_preload [simp]:
  "kernelOf (applyNextPreparationStatus E e st s) = kernelOf s"
  "kernelOf (preloadReadyEntry E a e st s) = kernelOf s" "kernelOf (prepareNext E e s) = kernelOf s"
  "kernelOf (pollNext E e s) = kernelOf s" "kernelOf (dropNextPreparation E s) = kernelOf s"
  "kernelOf (preloadNext E s) = kernelOf s"
  by (rule kept.apply_next [OF refl] kept.preload_ready [OF refl] kept.prepare [OF refl]
      kept.drop_next [OF refl] kept.preload [OF refl])+

section \<open>Sampling keeps the kernel\<close>

lemma kernel_refresh [simp]: "kernelOf (snd (refreshPosition E s)) = kernelOf s"
  by (simp add: refreshPosition_def Let_def)

lemma kernel_finish [simp]: "kernelOf (snd (snd (finishOp E n b s))) = kernelOf s"
  by (simp add: finishOp_def Let_def)


section \<open>Playing keeps the modes and the transition's token\<close>

definition gear :: "session \<Rightarrow> (int \<times> RepeatMode \<times> bool \<times> bool \<times> bool) \<times> transportTransition option \<times> 64 word" where
  "gear s = (modes s, ssTransportPending s, ssTransportToken s)"

lemma gear_kernel: "kernelOf s = kernelOf t \<Longrightarrow> gear s = gear t"
  unfolding gear_def by (frule kernelD(1), frule kernelD(2), drule kernelD(3)) simp

lemma gear_snap:
  assumes "snVolume (f (ssSnap s)) = snVolume (ssSnap s)"
    "snRepeatMode (f (ssSnap s)) = snRepeatMode (ssSnap s)" "snShuffle (f (ssSnap s)) = snShuffle (ssSnap s)"
  shows "gear (onSnap f s) = gear s"
  using assms by (simp add: gear_def modes_def onSnap_def)

lemma gear_fields [simp]:
  "gear (s\<lparr>ssLoadedEntryID := a\<rparr>) = gear s" "gear (s\<lparr>ssLoadedURI := b\<rparr>) = gear s"
  "gear (s\<lparr>ssPendingArmed := c\<rparr>) = gear s" "gear (s\<lparr>ssPendingEntry := d\<rparr>) = gear s"
  "gear (s\<lparr>ssPendingToken := e\<rparr>) = gear s" "gear (s\<lparr>ssIntentEpoch := f\<rparr>) = gear s"
  by (simp_all add: gear_def modes_def)

lemma gear_doCall: "gear (doCall c s) = gear s" "gear (markQueueDirty s) = gear s"
  "gear (disarm s) = gear s"
  by (rule gear_kernel, simp)+

lemma gear_mutators [simp]:
  "gear (setLoading e st s) = gear s" "gear (clearLoadingState s) = gear s"
  "gear (setCurrent e origin s) = gear s" "gear (clearCurrent s) = gear s"
  "gear (setLoaded k u s) = gear s" "gear (nowPlaying e st u s) = gear s"
  "gear (cancelPendingRetry s) = gear s" "gear (startPendingRetry k s) = gear s"
  "gear (disarmPending s) = gear s" "gear (advanceIntentEpoch s) = gear s"
  "gear (detachCurrentContext s) = gear s"
  "gear (switchCurrent E e origin i keep r s) = gear s"
proof -
  show "gear (setLoading e st s) = gear s" "gear (clearLoadingState s) = gear s"
    "gear (clearCurrent s) = gear s" "gear (setLoaded k u s) = gear s"
    "gear (nowPlaying e st u s) = gear s"
    "gear (cancelPendingRetry s) = gear s" "gear (startPendingRetry k s) = gear s"
    "gear (disarmPending s) = gear s" "gear (advanceIntentEpoch s) = gear s"
    "gear (detachCurrentContext s) = gear s"
    by (simp_all add: setLoading_def clearLoadingState_def clearCurrent_def
        setLoaded_def nowPlaying_def cancelPendingRetry_def startPendingRetry_def disarmPending_def
        advanceIntentEpoch_def detachCurrentContext_def gear_snap gear_doCall Let_def split: option.split)
  have c: "gear (setCurrent e origin s) = gear s" for s
  proof -
    have k: "gear (setCurrentContextIndex j t) = gear t" for j t by (rule gear_kernel) simp
    show ?thesis
      by (simp add: setCurrent_def Let_def k gear_doCall gear_snap)
  qed
  then show "gear (setCurrent e origin s) = gear s" .
  have k: "gear (setDuration d t) = gear t" "gear (setAuthoritativePosition E p t) = gear t"
    "gear (recalculateResumeContextIndex E t) = gear t" "gear (markQueueDirty t) = gear t"
    "gear (setUserQueue q t) = gear t" "gear (onSnap (\<lambda>n. n\<lparr>snCurrentPreparation := None\<rparr>) t) = gear t"
    for d t p q
    by (rule gear_kernel, simp add: kernel_snap)+
  show "gear (switchCurrent E e origin i keep r s) = gear s"
    by (simp add: switchCurrent_def Let_def c k)
qed

text \<open>The token of the pending transition is the newest one; a newer token means there is none.\<close>

definition tokenOk :: "session \<Rightarrow> bool" where
  "tokenOk s \<longleftrightarrow>
     (case ssTransportPending s of None \<Rightarrow> True | Some p \<Rightarrow> ttToken p = ssTransportToken s)"

definition quiet :: "session \<Rightarrow> session \<Rightarrow> bool" where
  "quiet s t \<longleftrightarrow> modes t = modes s \<and> (tokenOk s \<longrightarrow> tokenOk t)"

lemma quiet_refl [simp]: "quiet s s"
  by (simp add: quiet_def)

lemma quiet_trans: "quiet s t \<Longrightarrow> quiet t u \<Longrightarrow> quiet s u"
  by (simp add: quiet_def)

lemma quiet_gear: "gear t = gear s \<Longrightarrow> quiet s t"
  by (cases "ssTransportPending s") (simp_all add: quiet_def gear_def tokenOk_def)

lemma quiet_kernel: "kernelOf t = kernelOf s \<Longrightarrow> quiet s t"
  by (intro quiet_gear gear_kernel)

lemma gear_simps [simp]:
  "gear (touch E s) = gear s" "gear (snd (invalidatePreloadPlan E b s)) = gear s"
  "gear (clearIf E b s) = gear s" "gear (doCall c s) = gear s" "gear (setStatus st s) = gear s"
  "gear (setLastError m s) = gear s" "gear (stopTicker s) = gear s" "gear (ensureTicker s) = gear s"
  "gear (clearNextPreparationState s) = gear s" "gear (clearAuthoritativePosition s) = gear s"
  "gear (setAuthoritativePosition E p s) = gear s" "gear (setDuration d s) = gear s"
  "gear (preloadNext E s) = gear s" "gear (publishSnapshot E n s) = gear s"
  "gear (markQueueDirty s) = gear s" "gear (setUserQueue q s) = gear s" "gear (disarm s) = gear s"
  "gear (recordSkipEvent E sk stp s) = gear s" "gear (errorFromSkip s) = gear s"
  "gear (markCurrentFailed E s) = gear s" "gear (snd (snd (finishOp E nd b s))) = gear s"
  "gear (snd (resolvePlayableFromPlan E bl s)) = gear s"
  "gear (snd (snd (resolvePreviousPlayableCandidate E bl s))) = gear s"
  "gear (snd (refreshPosition E s)) = gear s" "gear (tick s) = gear s"
  "gear (invalidateNextActionPlan s) = gear s" "gear (snd (firstContextIndex E s)) = gear s"
  "gear (publishTickerSnapshot E n s) = gear s" "gear (persistSnapshot E n s) = gear s"
  "gear (setAuthoritativePositionAt p at s) = gear s"
  by (rule gear_kernel, simp)+

lemma gear_skips [simp]:
  "gear (snd (applySkipEvent E sk stp s)) = gear s"
  "gear (snd (stopAfterSkipped E p sk s)) = gear s"
  "gear (snd (settleAfterSkipped E sk s)) = gear s"
  "gear (snd (consumeSkippedUserEntries E sk c n s)) = gear s"
  by (simp_all add: applySkipEvent_def stopAfterSkipped_def settleAfterSkipped_def
      consumeSkippedUserEntries_def Let_def case_prod_beta gear_snap split: option.split)

lemma gear_playPreparing [simp]: "gear (snd (snd (playPreparing E e p st s))) = gear s"
  by (simp add: playPreparing_def Let_def gear_snap)

lemma gear_playReady [simp]: "gear (snd (snd (playReady E e origin i keep r st s))) = gear s"
  by (simp add: playReady_def Let_def failed_def split: option.split)

lemma gear_playDirect [simp]: "gear (snd (snd (playDirect E e origin i keep p r s))) = gear s"
  by (simp add: playDirect_def Let_def failed_def split: option.split)

lemma quiet_cancelTransport [simp]:
  "quiet s (cancelTransportTransition s)" "ssTransportPending (cancelTransportTransition s) = None"
  by (simp_all add: cancelTransportTransition_def quiet_def modes_def tokenOk_def
      invalidateNextActionPlan_def clearLoadingState_def onSnap_def split: option.split)

lemma quiet_activate:
  "case activatePreloadedEntry E e origin i prev st s of
     Inl t \<Rightarrow> gear t = gear s | Inr (n, t) \<Rightarrow> quiet s t"
proof -
  define s1 where "s1 = doCall (BActivatePreloaded (psPlayableURI st)) s"
  have g1: "gear s1 = gear s" by (simp add: s1_def)
  show ?thesis
  proof (cases "callFailed E s1")
    case (Some err)
    then show ?thesis using g1 by (simp add: activatePreloadedEntry_def Let_def s1_def)
  next
    case None
    define p where "p = \<lparr>ttToken = ssTransportToken s1 + 1, ttEntry = e, ttOrigin = origin,
      ttQueueIndex = i, ttPrevious = prev, ttPlayableURI = psPlayableURI st,
      ttActivation = replyActivation E (ssTrace s1), ttStatus = st,
      ttSourceIdentity = sourceIdentityForEntry e s1, ttKind = ActivatePreloaded\<rparr>"
    define s2 where "s2 = s1\<lparr>ssTransportToken := ssTransportToken s1 + 1, ssTransportPending := Some p\<rparr>"
    have q2: "quiet s s2"
      using g1 by (simp add: quiet_def tokenOk_def s2_def p_def modes_def gear_def)
    have st: "gear (startTransportRetry tk e origin i prev t) = gear t" for tk t
      by (simp add: startTransportRetry_def)
    have "gear (snd (case activatePreloadedEntry E e origin i prev st s of Inr r \<Rightarrow> r)) = gear s2"
      using None
      by (simp add: activatePreloadedEntry_def Let_def s1_def [symmetric] p_def [symmetric]
          s2_def [symmetric] st)
    then have "quiet s (snd (case activatePreloadedEntry E e origin i prev st s of Inr r \<Rightarrow> r))"
      using q2 quiet_trans quiet_gear by blast
    then show ?thesis
      using None by (simp add: activatePreloadedEntry_def Let_def s1_def [symmetric] case_prod_beta)
  qed
qed

lemma quiet_playEntry [simp]: "quiet s (snd (snd (playEntry E e origin i prev keep p s)))"
proof -
  define s1 where "s1 = cancelTransportTransition (cancelPendingRetry (advanceIntentEpoch s))"
  have q1: "quiet s s1"
    unfolding s1_def using quiet_cancelTransport(1) quiet_gear [of "cancelPendingRetry (advanceIntentEpoch s)" s]
    by (auto intro: quiet_trans)
  note a = quiet_activate [where E = E and e = e and origin = origin and i = i and prev = prev and s = s1]
  have d: "gear t = gear s1 \<Longrightarrow> quiet s t" for t
    using q1 quiet_gear quiet_trans by blast
  show ?thesis
  proof (cases "hasCore E \<and> ssBackend s")
    case False
    then show ?thesis by (auto simp: playEntry_def Let_def failed_def)
  next
    case True
    show ?thesis
    proof (cases "preloadedActivation E e s")
      case None
      with True show ?thesis
        by (simp add: playEntry_def Let_def s1_def [symmetric] case_prod_beta d)
    next
      case (Some st)
      show ?thesis
      proof (cases "activatePreloadedEntry E e origin i prev st s1")
        case (Inl t)
        with a [where st = st] have "gear t = gear s1" by simp
        with True Some Inl show ?thesis
          by (simp add: playEntry_def Let_def s1_def [symmetric] case_prod_beta d)
      next
        case (Inr r)
        obtain n t where r: "r = (n, t)" by (rule prod.exhaust)
        with a [where st = st] Inr have "quiet s1 t" by simp
        with q1 have "quiet s t" by (rule quiet_trans)
        with True Some Inr r show ?thesis
          by (simp add: playEntry_def Let_def s1_def [symmetric])
      qed
    qed
  qed
qed


section \<open>The loops\<close>

lemma kernel_observe:
  "observeSeek E deadline target s = Some r \<Longrightarrow> kernelOf (snd r) = kernelOf s"
proof (induct rule: observeSeek.raw_induct [rotated 1, consumes 1])
  case (1 loop E deadline target s r)
  then show ?case by (auto simp: Let_def split: if_splits)
qed

lemma kernel_afterSeek: "refreshPositionAfterSeek E target s = Some t \<Longrightarrow> kernelOf t = kernelOf s"
proof -
  assume a: "refreshPositionAfterSeek E target s = Some t"
  show ?thesis
  proof (cases "ssBackend s")
    case False
    with a show ?thesis by (simp add: refreshPositionAfterSeek_def)
  next
    case True
    with a obtain found s1 where o: "observeSeek E (nowNanos E s + seekObserveTimeout) target (tick (tick s))
        = Some (found, s1)"
      by (auto simp: refreshPositionAfterSeek_def Let_def bind_eq_Some_conv)
    from kernel_observe [OF o] have "kernelOf s1 = kernelOf s" by simp
    with a True o show ?thesis
      by (auto simp: refreshPositionAfterSeek_def Let_def split: option.splits if_splits)
  qed
qed

lemma quiet_playNextLoop:
  "playNextLoop E prev keep p stop blocked sk s = Some r \<Longrightarrow> quiet s (snd (snd r))"
proof (induct rule: playNextLoop.raw_induct [rotated 1, consumes 1])
  case (1 loop E prev keep p stop blocked sk s r)
  obtain c u s1 where c: "resolvePlayableFromPlan E blocked s = ((c, u), s1)" by (metis prod.exhaust)
  have g1: "gear s1 = gear s" using gear_simps(22) [of E blocked s] c by simp
  then have q1: "quiet s s1" by (rule quiet_gear)
  show ?case
  proof (cases c)
    case None
    have "gear (snd (stopAfterSkipped E prev (sk @ u) s1)) = gear s"
      "gear (snd (settleAfterSkipped E (sk @ u) s1)) = gear s" using g1 by simp_all
    with 1(2) c None g1 show ?thesis
      by (auto simp: Let_def case_prod_beta intro!: quiet_gear split: if_splits)
  next
    case (Some d)
    obtain n err s2 where e: "playEntry E (pcEntry d) (pcOrigin d) (pcQueueIndex d) prev keep p s1
        = (n, err, s2)" by (metis prod.exhaust)
    have "quiet s1 s2" using quiet_playEntry [of s1 E "pcEntry d"] e by (metis snd_conv)
    then have q2: "quiet s s2" using q1 quiet_trans by blast
    show ?thesis
    proof (cases err)
      case None
      have "gear (snd (snd r)) = gear s2"
        using 1(2) c Some e None by (auto simp: Let_def case_prod_beta)
      then show ?thesis using q2 quiet_gear quiet_trans by blast
    next
      case err: (Some er)
      show ?thesis
      proof (cases er)
        case (OtherError m)
        then show ?thesis using 1(2) c Some e err q2 by auto
      next
        case (EntryUnavailable e' st)
        with 1(2) c Some e err have "loop E prev keep p stop (enEntryID (pcEntry d) # blocked)
            ((sk @ u) @ [unavailableSkip (pcEntry d) (EntryUnavailable e' st) st]) s2 = Some r"
          by (simp add: Let_def)
        from 1(1) [OF this] show ?thesis using q2 quiet_trans by blast
      qed
    qed
  qed
qed

lemma quiet_playNext:
  "playNextAvailable E prev keep p blocked sk stop s = Some r \<Longrightarrow> quiet s (snd (snd r))"
  unfolding playNextAvailable_def by (rule quiet_playNextLoop)

lemma quiet_playPreviousLoop:
  "playPreviousLoop E prev keep p blocked sk s = Some r \<Longrightarrow> quiet s (snd (snd r))"
proof (induct rule: playPreviousLoop.raw_induct [rotated 1, consumes 1])
  case (1 loop E prev keep p blocked sk s r)
  obtain c u s1 where c: "resolvePreviousPlayableCandidate E blocked s = (c, u, s1)"
    by (metis prod.exhaust)
  have g1: "gear s1 = gear s" using gear_simps(23) [of E blocked s] c by simp
  then have q1: "quiet s s1" by (rule quiet_gear)
  show ?case
  proof (cases c)
    case (Inl err)
    with 1(2) c q1 show ?thesis by (auto simp: failed_def)
  next
    case (Inr d)
    show ?thesis
    proof (cases d)
      case None
      have e: "quiet s (snd (snd (playEntry E q (enOrigin q) (-1) None keep p s1)))" for q
        using q1 quiet_playEntry quiet_trans by blast
      have "gear (snd (settleAfterSkipped E (sk @ u) s1)) = gear s" using g1 by simp
      with 1(2) c Inr None q1 e show ?thesis
        by (auto simp: Let_def case_prod_beta unchanged_def intro: quiet_gear
            split: if_splits option.splits)
    next
      case (Some d')
      obtain n err s2 where e: "playEntry E (pcEntry d') (pcOrigin d') (pcQueueIndex d') prev keep p s1
          = (n, err, s2)" by (metis prod.exhaust)
      have "quiet s1 s2" using quiet_playEntry [of s1 E "pcEntry d'"] e by (metis snd_conv)
      then have q2: "quiet s s2" using q1 quiet_trans by blast
      show ?thesis
      proof (cases err)
        case None
        have "gear (snd (snd r)) = gear s2"
          using 1(2) c Inr Some e None by (auto simp: Let_def case_prod_beta)
        then show ?thesis using q2 quiet_gear quiet_trans by blast
      next
        case err: (Some er)
        show ?thesis
        proof (cases er)
          case (OtherError m)
          then show ?thesis using 1(2) c Inr Some e err q2 by auto
        next
          case (EntryUnavailable e' st)
          with 1(2) c Inr Some e err have "loop E prev keep p (enEntryID (pcEntry d') # blocked)
              ((sk @ u) @ [unavailableSkip (pcEntry d') (EntryUnavailable e' st) st]) s2 = Some r"
            by (simp add: Let_def)
          from 1(1) [OF this] show ?thesis using q2 quiet_trans by blast
        qed
      qed
    qed
  qed
qed

section \<open>The handlers\<close>

lemma quiet_failPlayback [simp]: "quiet s (snd (snd (failPlayback E m s)))"
proof -
  let ?b = "clearLoadingState (setLastError m (setStatus StatusPaused s))"
  have "gear ?b = gear s" by simp
  then have "quiet s (cancelTransportTransition ?b)"
    using quiet_cancelTransport(1) quiet_gear quiet_trans by blast
  moreover have "gear (snd (snd (failPlayback E m s))) = gear (cancelTransportTransition ?b)"
    by (simp add: failPlayback_def Let_def case_prod_beta)
  ultimately show ?thesis using quiet_gear quiet_trans by blast
qed

lemma gear_playTarget [simp]: "gear (snd (playTarget E s)) = gear s"
proof -
  obtain i s1 where i: "firstContextIndex E s = (i, s1)" by (rule prod.exhaust)
  then have "gear s1 = gear s" using gear_simps(27) [of E s] by simp
  with i show ?thesis by (simp add: playTarget_def Let_def split: option.split)
qed

lemma quiet_resume [simp]: "quiet s (snd (snd (resumePlayback E s)))"
proof -
  define s1 where "s1 = (if ssBackend s then doCall BPlay s else s)"
  have g1: "gear s1 = gear s" by (simp add: s1_def)
  show ?thesis
  proof (cases "ssBackend s \<and> callFailed E s1 \<noteq> None")
    case True
    then have "snd (snd (resumePlayback E s)) = snd (snd (failPlayback E (the (callFailed E s1)) s1))"
      unfolding resumePlayback_def Let_def s1_def [symmetric] by (simp only: if_True simp_thms)
    then show ?thesis using g1 quiet_gear quiet_trans quiet_failPlayback by metis
  next
    case False
    define s2 where "s2 = (if ssBackend s then snd (refreshPosition E s1) else s1)"
    have "gear s2 = gear s" using g1 by (simp add: s2_def)
    then have "gear (snd (snd (resumePlayback E s))) = gear s"
      using False unfolding resumePlayback_def Let_def s1_def [symmetric] s2_def [symmetric]
      by (auto simp: gear_snap)
    then show ?thesis by (rule quiet_gear)
  qed
qed

lemma quiet_pause [simp]: "quiet s (snd (snd (pausePlayback E s)))"
proof -
  define s1 where "s1 = (if ssBackend (stopTicker s) then doCall BPause (stopTicker s) else stopTicker s)"
  have g1: "gear s1 = gear s" by (simp add: s1_def)
  have f: "quiet s (snd (snd (failPlayback E m s1)))" for m
    using g1 quiet_gear quiet_trans quiet_failPlayback by metis
  have "gear (if b then snd (refreshPosition E s1) else s1) = gear s" for b using g1 by simp
  then have "gear (snd (snd (finishOp E False False (setStatus StatusPaused
      (if b then snd (refreshPosition E s1) else s1))))) = gear s" for b by simp
  then have q: "quiet s (snd (snd (finishOp E False False (setStatus StatusPaused
      (if b then snd (refreshPosition E s1) else s1)))))" for b by (rule quiet_gear)
  show ?thesis
    using f q unfolding pausePlayback_def Let_def s1_def [symmetric] by (auto simp: unchanged_def)
qed

lemma quiet_seek: "seekTo E x s = Some r \<Longrightarrow> quiet s (snd (snd r))"
proof -
  assume a: "seekTo E x s = Some r"
  have f: "quiet s (snd (snd (failPlayback E m (doCall c s))))" for m c
    using quiet_gear [of "doCall c s" s] quiet_trans quiet_failPlayback by (metis gear_simps(4))
  have g: "quiet s (snd (snd (finishOp E False False (setAuthoritativePosition E p s))))" for p
    by (rule quiet_gear) simp
  have k: "refreshPositionAfterSeek E p (doCall c s) = Some t \<Longrightarrow>
      quiet s (snd (snd (finishOp E False False t)))" for p c t
    using kernel_afterSeek by (intro quiet_kernel) simp
  show ?thesis
    using a f g k unfolding seekTo_def Let_def
    by (auto simp: unchanged_def bind_eq_Some_conv split: if_splits option.splits)
qed

lemma quiet_play: "play E s = Some r \<Longrightarrow> quiet s (snd (snd r))"
proof -
  assume a: "play E s = Some r"
  obtain t s1 where t: "playTarget E s = (t, s1)" by (rule prod.exhaust)
  have q1: "quiet s s1" using gear_playTarget [of E s] t by (intro quiet_gear) simp
  have e: "quiet s (snd (snd (playEntry E x o' i pr k p s1)))" for x o' i pr k p
    using q1 quiet_playEntry quiet_trans by blast
  have n: "playNextAvailable E None False True bl sk True t2 = Some r \<Longrightarrow> quiet s t2 \<Longrightarrow>
      quiet s (snd (snd r))" for bl sk t2
    using quiet_playNext quiet_trans by blast
  have u: "quiet s (snd (snd (resumePlayback E s1)))" using q1 quiet_resume quiet_trans by blast
  show ?thesis
  proof (cases t)
    case None
    with a t q1 show ?thesis
      by (auto simp: play_def Let_def unchanged_def failed_def split: if_splits)
  next
    case (Some x)
    obtain tg og qi where x: "x = (tg, og, qi)" by (metis prod.exhaust)
    obtain m err s2 where pe: "playEntry E tg og qi None False True s1 = (m, err, s2)"
      by (metis prod.exhaust)
    have q2: "quiet s s2" using e [of tg og qi None False True] pe by simp
    show ?thesis
      using a t Some x pe q2 u e n
      by (auto simp: play_def Let_def unchanged_def split: if_splits option.splits sessionError.splits)
  qed
qed

lemma quiet_toggle: "togglePlayback E s = Some r \<Longrightarrow> quiet s (snd (snd r))"
  using quiet_play quiet_pause by (auto simp: togglePlayback_def Let_def split: if_splits)

lemma quiet_next: "nextTrack E s = Some r \<Longrightarrow> quiet s (snd (snd r))"
  using quiet_seek quiet_playNext by (auto simp: nextTrack_def Let_def split: if_splits)

lemma quiet_previous: "previousTrack E s = Some r \<Longrightarrow> quiet s (snd (snd r))"
  using quiet_seek quiet_playPreviousLoop
  by (auto simp: previousTrack_def playPreviousAvailable_def Let_def unchanged_def split: if_splits)

lemma quiet_select [simp]: "quiet s (snd (snd (selectEntry E k s)))"
  by (auto simp: selectEntry_def Let_def failed_def unchanged_def split: option.split)

lemma quiet_selectIndex [simp]: "quiet s (snd (snd (selectQueueIndex E i s)))"
  by (simp add: selectQueueIndex_def indexError_def failed_def Let_def)


section \<open>Backend events and timers\<close>

lemma quiet_cancel_gear:
  "gear t = gear s \<Longrightarrow> gear u = gear (cancelTransportTransition t) \<Longrightarrow> quiet s u"
  using quiet_cancelTransport(1) [of t] quiet_gear [of t s] quiet_gear [of u "cancelTransportTransition t"]
    quiet_trans by blast

lemma quiet_interrupted [simp]: "quiet s (handleInterruptedTrackEnd E err s)"
proof -
  let ?t = "cancelPendingRetry (snd (invalidatePreloadPlan E True s))"
  have "gear (handleInterruptedTrackEnd E err s) = gear (cancelTransportTransition ?t)"
    by (simp add: handleInterruptedTrackEnd_def Let_def case_prod_beta gear_snap)
  then show ?thesis by (intro quiet_cancel_gear [of ?t s]) simp_all
qed

lemma quiet_complete:
  "gear t = gear s \<Longrightarrow> gear u = gear (t\<lparr>ssTransportPending := None, ssTransportToken := k\<rparr>) \<Longrightarrow> quiet s u"
  by (simp add: quiet_def gear_def tokenOk_def modes_def)

lemma quiet_fileLoaded [simp]: "quiet s (handleFileLoaded E ev s)"
proof (cases "normalizePlaybackURI (lib E) (beActiveURI ev) = ''''")
  case True
  then show ?thesis by (auto simp: handleFileLoaded_def Let_def case_prod_beta split: option.split)
next
  case ne: False
  show ?thesis
  proof (cases "ssTransportPending s")
    case None
    with ne show ?thesis by (simp add: handleFileLoaded_def Let_def)
  next
    case (Some p)
    let ?uri = "normalizePlaybackURI (lib E) (beActiveURI ev)"
    show ?thesis
    proof (cases "transportTransitionMatchesEvent (lib E) p ?uri (beActivePlaylistEntryID ev)
        (beActivePlaylistPos ev) (beActiveAttemptID ev)")
      case False
      with ne Some show ?thesis by (simp add: handleFileLoaded_def Let_def)
    next
      case True
      define t where "t = cancelPendingRetry (clearNextPreparationState (nowPlaying (ttEntry p) (ttStatus p) ?uri
        (setDuration (currentDuration (Some (enItem (ttEntry p)))) (setAuthoritativePosition E 0
          (setLastError '''' (setStatus StatusPlaying (switchCurrent E (ttEntry p) (ttOrigin p)
             (ttQueueIndex p) False 0 (clearLoadingState s))))))))"
      have g: "gear t = gear s" by (simp add: t_def)
      have "gear (handleFileLoaded E ev s)
          = gear (t\<lparr>ssTransportPending := None, ssTransportToken := ssTransportToken t + 1\<rparr>)"
        using ne Some True by (simp add: handleFileLoaded_def Let_def t_def)
      with g show ?thesis by (rule quiet_complete)
    qed
  qed
qed

lemma quiet_eof: "handleTrackEOF E ev s = Some t \<Longrightarrow> quiet s t"
proof -
  assume a: "handleTrackEOF E ev s = Some t"
  obtain c k s1 where r: "resolvePlayableFromPlan E [] s = ((c, k), s1)" by (metis prod.exhaust)
  have g1: "gear s1 = gear s" using gear_simps(22) [of E "[]" s] r by simp
  have l: "quiet s (eofWhileLoading E s)"
    by (rule quiet_gear) (simp add: eofWhileLoading_def Let_def gear_snap)
  have e: "quiet s (eofAtEnd E cu s1)" for cu
    using g1 by (intro quiet_gear) (simp add: eofAtEnd_def Let_def)
  have sk: "quiet s (snd (stopAfterSkipped E cu k s1))" for cu
    using g1 by (intro quiet_gear) simp
  have p: "quiet s (eofPreloaded E d k s1)" for d
    using g1 by (intro quiet_gear) (simp add: eofPreloaded_def Let_def gear_snap split: option.split)
  have n: "playNextAvailable E cu False False [] [] True s1 = Some x \<Longrightarrow> quiet s (snd (snd x))" for cu x
    using quiet_playNext quiet_gear [OF g1] quiet_trans by blast
  show ?thesis
    using a l e sk p n r unfolding handleTrackEOF_def Let_def
    by (auto split: if_splits option.splits)
qed

lemma quiet_event: "handleBackendEvent E ev s = Some t \<Longrightarrow> quiet s t"
proof -
  assume a: "handleBackendEvent E ev s = Some t"
  have "quiet s (snd (snd (finishOp E False False (setStatus StatusPaused (cancelTransportTransition s)))))"
    by (rule quiet_cancel_gear [of s s]) simp_all
  with a show ?thesis
    using quiet_eof quiet_interrupted quiet_fileLoaded quiet_failPlayback
    unfolding handleBackendEvent_def
    by (auto simp: Let_def case_prod_beta split: BackendEventType.splits TrackEndReason.splits
        if_splits option.splits)
qed

lemma gear_ticker [simp]: "gear (tickerFired E s) = gear s"
proof -
  obtain n s1 where r: "refreshPosition E s = (n, s1)" by (rule prod.exhaust)
  have "gear s1 = gear s" using gear_simps(24) [of E s] r by simp
  with r show ?thesis by (simp add: tickerFired_def Let_def split: option.split)
qed

lemma quiet_timeout [simp]: "quiet s (transportTimeout E k e origin i prev s)"
proof -
  define t where "t = snd (invalidatePreloadPlan E True s)"
  define u where "u = clearIf E (fst (invalidatePreloadPlan E True s))
      (touch E (cancelTransportTransition t))"
  have "quiet s u"
    by (rule quiet_cancel_gear [of t s]) (simp_all add: t_def u_def)
  then have "quiet s (snd (snd (playEntry E e origin i prev False True u)))"
    using quiet_playEntry quiet_trans by blast
  then show ?thesis
    by (simp add: transportTimeout_def Let_def case_prod_beta t_def u_def split: option.split)
qed

lemma gear_finishPending [simp]: "gear (finishPendingRetry E k n b s) = gear s"
  by (simp add: finishPendingRetry_def Let_def case_prod_beta)

lemma quiet_failPending [simp]: "quiet s (failPendingPlayback E err s)"
proof -
  let ?t = "clearLoadingState (setLastError (errorText err)
    (if snCurrentEntry (ssSnap s) = None then setStatus StatusPaused s else s))"
  have "gear (failPendingPlayback E err s) = gear (cancelTransportTransition ?t)"
    by (simp add: failPendingPlayback_def Let_def case_prod_beta)
  then show ?thesis by (intro quiet_cancel_gear [of ?t s]) simp_all
qed

lemma quiet_completePending [simp]: "quiet s (snd (completePendingPlayback E e st s))"
proof -
  define s1 where "s1 = doCall (BLoad (psPlayableURI st)) s"
  define s2 where "s2 = doCall BPlay s1"
  have g: "gear s1 = gear s" "gear s2 = gear s" by (simp_all add: s1_def s2_def)
  define t where "t = disarmPending (nowPlaying e st (psPlayableURI st) (switchCurrent E e (enOrigin e)
    (if enOrigin e = OriginQueued then indexOfEntryID (snUserQueue (ssSnap s2)) (enEntryID e) else -1)
    False 0 (clearLoadingState s2)))"
  have gt: "gear t = gear s" using g by (simp add: t_def)
  have q: "gear u = gear (t\<lparr>ssTransportPending := None, ssTransportToken := ssTransportToken t + 1\<rparr>)
      \<Longrightarrow> quiet s u" for u
    by (rule quiet_complete [OF gt])
  show ?thesis
    using g quiet_gear [of s1 s] quiet_gear [of s2 s]
    unfolding completePendingPlayback_def Let_def s1_def [symmetric] s2_def [symmetric] t_def [symmetric]
    by (auto intro!: q split: option.split)
qed

lemma quiet_tryPending: "tryPendingPlayback E k n s = Some (b, t) \<Longrightarrow> quiet s t"
proof -
  assume a: "tryPendingPlayback E k n s = Some (b, t)"
  show ?thesis
  proof (cases "snLoadingEntry (ssSnap s)")
    case None
    with a show ?thesis by (auto simp: tryPendingPlayback_def split: if_splits)
  next
    case (Some e)
    define s1 where "s1 = doCall (CGetPreparation (itTarget (enItem e))) s"
    define st where "st = replyStatus E (ssTrace s1)"
    define s2 where "s2 = touch E (onSnap (\<lambda>m. m\<lparr>snLoadingPreparation :=
      Some \<lparr>epEntryID = n, epStatus = st\<rparr>\<rparr>) s1)"
    have g: "quiet s s1" "quiet s s2"
      by (rule quiet_gear, simp add: s1_def s2_def gear_snap)+
    have d: "quiet s (disarmPending u)" if "quiet s u" for u
      using that quiet_gear [of "disarmPending u" u] quiet_trans by simp
    have f: "quiet s (failPendingPlayback E er u)" if "quiet s u" for u er
      using that quiet_failPending quiet_trans by blast
    have n': "playNextAvailable E None False h [] [] h' s2 = Some (m, er, u) \<Longrightarrow> quiet s u" for h h' m er u
      using quiet_playNext [of E None False h "[]" "[]" h' s2] g(2) quiet_trans by fastforce
    obtain err s3 where c: "completePendingPlayback E e st s2 = (err, s3)" by (rule prod.exhaust)
    have q3: "quiet s s3" using quiet_completePending [of s2 E e st] c g(2) quiet_trans by fastforce
    show ?thesis
      using a Some g c q3
      unfolding tryPendingPlayback_def Some option.case Let_def s1_def [symmetric] st_def [symmetric]
        s2_def [symmetric]
      by (auto simp: map_option_case dest!: n' intro: d f split: if_splits option.splits prod.splits)
  qed
qed

section \<open>Changes of the catalog\<close>

lemma gear_availabilityChange [simp]: "gear (handleAvailabilityChange E ev s) = gear s"
proof -
  have c: "gear (s\<lparr>ssAvailabilityCache := Map.empty\<rparr>) = gear s" by (rule gear_kernel) simp
  have e: "gear (onSnap (\<lambda>n. n\<lparr>snEntryAvailability := Map.empty\<rparr>) t) = gear t" for t
    by (simp add: gear_snap)
  show ?thesis
    unfolding handleAvailabilityChange_def Let_def by (simp add: c e del: fun_upd_apply)
qed

lemma quiet_restorePending: "quiet s (snd (restorePending es ident s))"
proof (cases "ssTransportPending s")
  case None
  then show ?thesis by (simp add: restorePending_def)
next
  case (Some p)
  have "quiet s (s\<lparr>ssTransportPending := Some (p\<lparr>ttEntry := e, ttSourceIdentity := ident\<rparr>)\<rparr>)" for e
    using Some by (simp add: quiet_def modes_def tokenOk_def)
  with Some show ?thesis by (simp add: restorePending_def split: option.split)
qed

lemma kernel_installRebuilt [simp]: "kernelOf (installRebuilt E q p s) = kernelOf s"
  by (simp add: installRebuilt_def Let_def drawUint64_def kernel_snap split: option.split)

lemma quiet_applyRebuilt [simp]: "quiet s (snd (snd (applyRebuiltSourceContext E q ident b s)))"
proof -
  define s1 where "s1 = snd (invalidatePreloadPlan E b s)"
  obtain rp s2 where r: "restorePending (cqAllEntries q) ident s1 = (rp, s2)" by (rule prod.exhaust)
  have "quiet s s1" by (rule quiet_gear) (simp add: s1_def)
  moreover have "quiet s1 s2" using quiet_restorePending [of s1 "cqAllEntries q" ident] r by simp
  ultimately have q2: "quiet s s2" by (rule quiet_trans)
  have ir: "gear (installRebuilt E q p t) = gear t" "gear (setCurrentContextIndex i t) = gear t"
    "gear (refreshCurrentContextWindow t) = gear t" "gear (recalculateResumeContextIndex E t) = gear t"
    for p t i
    by (rule gear_kernel, simp add: refreshCurrentContextWindow_def)+
  have "gear (snd (snd (applyRebuiltSourceContext E q ident b s))) = gear s2"
    unfolding applyRebuiltSourceContext_def Let_def
    using r by (auto simp: case_prod_beta s1_def ir gear_snap split: option.split)
  then show ?thesis using q2 quiet_gear quiet_trans by blast
qed

lemma gear_buildSource [simp]: "gear (snd (buildSourceContext E req cands start s)) = gear s"
  by (rule gear_kernel) (simp add: buildSourceContext_def drawUint64_def Let_def)

lemma quiet_rebase [simp]: "quiet s (catalogRebaseCommit E q ep ident res s)"
proof -
  have q: "quiet s (publishSnapshot E n (clearIf E nd
      (snd (snd (applyRebuiltSourceContext E x i True (snd (buildSourceContext E r c st s)))))))" for n nd x i r c st
  proof -
    have "quiet s (snd (buildSourceContext E r c st s))" by (rule quiet_gear) simp
    then have "quiet s (snd (snd (applyRebuiltSourceContext E x i True (snd (buildSourceContext E r c st s)))))"
      using quiet_applyRebuilt quiet_trans by blast
    then show ?thesis using quiet_trans [OF _ quiet_gear] by simp
  qed
  show ?thesis
    by (auto simp: catalogRebaseCommit_def Let_def case_prod_beta q split: sum.split prod.split)
qed

lemma quiet_restoreSource [simp]: "quiet s (restoreSourceBackedContext E q res s)"
proof -
  have "quiet s (snd (snd (applyRebuiltSourceContext E x i False (snd (buildSourceContext E r c st s)))))"
    for x i r c st
    using quiet_gear [of "snd (buildSourceContext E r c st s)" s] quiet_applyRebuilt quiet_trans by simp
  then show ?thesis
    by (auto simp: restoreSourceBackedContext_def Let_def case_prod_beta split: sum.split prod.split)
qed

end
