(* ===== verification/OpLaws.thy ===== *)
theory OpLaws
  imports FrameLaws
begin

text \<open>
  What the operations on the queues do to the snapshot: the snapshot after each mutator, the outcome of
  \<open>finishOp\<close>, and the entries that \<open>makeEntries\<close> creates.
\<close>

section \<open>The snapshot after a mutator\<close>

lemma snap_mutators [simp]:
  "ssSnap (doCall c s) = ssSnap s" "ssSnap (tick s) = ssSnap s"
  "ssSnap (advanceIntentEpoch s) = ssSnap s" "ssSnap (cancelPendingRetry s) = ssSnap s"
  "ssSnap (invalidateNextActionPlan s) = ssSnap s" "ssSnap (markQueueDirty s) = ssSnap s"
  "ssSnap (clearBackendPreload E b s) = ssSnap s" "ssSnap (clearIf E b s) = ssSnap s"
  "ssSnap (ensureTicker s) = ssSnap s" "ssSnap (stopTicker s) = ssSnap s"
  "ssSnap (stopBackend s) = ssSnap s" "ssSnap (persistSnapshot E n s) = ssSnap s"
  "ssSnap (publishSnapshot E n s) = ssSnap s" "ssSnap (disarm s) = ssSnap s"
  "ssSnap (setLoaded k u s) = ssSnap s" "ssSnap (startPendingRetry k s) = ssSnap s"
  "ssSnap (disarmPending s) = ssSnap s"
  by (simp_all add: doCall_def tick_def advanceIntentEpoch_def cancelPendingRetry_def
      invalidateNextActionPlan_def markQueueDirty_def clearBackendPreload_def clearIf_def
      ensureTicker_def stopTicker_def stopBackend_def persistSnapshot_def publishSnapshot_def
      disarm_def setLoaded_def startPendingRetry_def disarmPending_def Let_def)

lemma snap_updates [simp]:
  "ssSnap (onSnap f s) = f (ssSnap s)"
  "ssSnap (setUserQueue q s) = (ssSnap s)\<lparr>snUserQueue := q\<rparr>"
  "ssSnap (setStatus st s) = (ssSnap s)\<lparr>snStatus := st\<rparr>"
  "ssSnap (setLastError m s) = (ssSnap s)\<lparr>snLastError := m\<rparr>"
  "ssSnap (setShuffleFlag b s) = (ssSnap s)\<lparr>snShuffle := b\<rparr>"
  "ssSnap (snd (invalidatePreloadPlan E b s)) = (ssSnap s)\<lparr>snNextPreparation := None\<rparr>"
  "ssSnap (clearNextPreparationState s) = (ssSnap s)\<lparr>snNextPreparation := None\<rparr>"
  "ssSnap (clearLoadingState s) = (ssSnap s)\<lparr>snLoadingEntry := None, snLoadingItem := None,
     snLoadingPreparation := None\<rparr>"
  "ssSnap (setLoading e p s) = (ssSnap s)\<lparr>snLoadingEntry := Some e, snLoadingItem := Some (enItem e),
     snLoadingPreparation := Some \<lparr>epEntryID = enEntryID e, epStatus = p\<rparr>\<rparr>"
  "ssSnap (clearCurrent s) = (ssSnap s)\<lparr>snCurrentEntryID := '''', snCurrentEntry := None,
     snCurrentItem := None\<rparr>"
  "ssSnap (onContext g s) = (ssSnap s)\<lparr>snContextQueue := map_option g (snContextQueue (ssSnap s))\<rparr>"
  by (simp_all add: onSnap_def setUserQueue_def setStatus_def setLastError_def setShuffleFlag_def
      invalidatePreloadPlan_def clearNextPreparationState_def clearNextPreparationRetry_def
      clearBackendPreloadFailure_def clearLoadingState_def setLoading_def clearCurrent_def onContext_def
      Let_def)

lemma snap_context [simp]:
  "ssSnap (setCurrentContextIndex i s) = (ssSnap s)\<lparr>snContextQueue :=
     map_option (\<lambda>q. q\<lparr>cqCurrentIndex := i\<rparr>) (snContextQueue (ssSnap s))\<rparr>"
  "ssSnap (setResumeContextIndex i s) = (ssSnap s)\<lparr>snContextQueue :=
     map_option (\<lambda>q. q\<lparr>cqResumeIndex := i\<rparr>) (snContextQueue (ssSnap s))\<rparr>"
  by (cases "snContextQueue (ssSnap s)"; simp add: setCurrentContextIndex_def setResumeContextIndex_def)+

text \<open>Cancelling a transition drops the loading entry and nothing else.\<close>

lemma snap_cancelTransport:
  "\<exists>a b c. ssSnap (cancelTransportTransition s) = (ssSnap s)\<lparr>snLoadingEntry := a, snLoadingItem := b,
     snLoadingPreparation := c\<rparr>"
proof (cases "ssTransportPending s")
  case None
  then have "ssSnap (cancelTransportTransition s) = (ssSnap s)\<lparr>snLoadingEntry := snLoadingEntry (ssSnap s),
     snLoadingItem := snLoadingItem (ssSnap s), snLoadingPreparation := snLoadingPreparation (ssSnap s)\<rparr>"
    by (simp add: cancelTransportTransition_def)
  then show ?thesis by blast
qed (auto simp: cancelTransportTransition_def)

lemma cancelTransport_fields [simp]:
  "snContextQueue (ssSnap (cancelTransportTransition s)) = snContextQueue (ssSnap s)"
  "snUserQueue (ssSnap (cancelTransportTransition s)) = snUserQueue (ssSnap s)"
  "snCurrentEntryID (ssSnap (cancelTransportTransition s)) = snCurrentEntryID (ssSnap s)"
  "snCurrentEntry (ssSnap (cancelTransportTransition s)) = snCurrentEntry (ssSnap s)"
  "snRepeatMode (ssSnap (cancelTransportTransition s)) = snRepeatMode (ssSnap s)"
  "snShuffle (ssSnap (cancelTransportTransition s)) = snShuffle (ssSnap s)"
  "snStatus (ssSnap (cancelTransportTransition s)) = snStatus (ssSnap s)"
  "snNextEntrySeq (ssSnap (cancelTransportTransition s)) = snNextEntrySeq (ssSnap s)"
  "snPositionMS (ssSnap (cancelTransportTransition s)) = snPositionMS (ssSnap s)"
  "snVolume (ssSnap (cancelTransportTransition s)) = snVolume (ssSnap s)"
  by (cases "ssTransportPending s"; simp add: cancelTransportTransition_def)+

section \<open>Outcomes\<close>

lemma finishOp_parts [simp]:
  "fst (finishOp E needs stop s) = snapshotOf E (touch E s)"
  "fst (snd (finishOp E needs stop s)) = None"
  "ssSnap (snd (snd (finishOp E needs stop s))) = ssSnap (touch E s)"
  by (simp_all add: finishOp_def Let_def)

lemma outcome_parts [simp]:
  "fst (unchanged E s) = snapshotOf E s" "fst (snd (unchanged E s)) = None" "snd (snd (unchanged E s)) = s"
  "fst (failed E m s) = snapshotOf E s" "fst (snd (failed E m s)) = Some (OtherError m)"
  "snd (snd (failed E m s)) = s"
  by (simp_all add: unchanged_def failed_def)

lemma snapshotOf_fields:
  "snVolume (snapshotOf E s) = clampVolume (snVolume (ssSnap s))"
  "snRepeatMode (snapshotOf E s) = knownMode (snRepeatMode (ssSnap s))"
  "snShuffle (snapshotOf E s) = snShuffle (ssSnap s)"
  "snUserQueue (snapshotOf E s) = map normalizeQueuedEntry (snUserQueue (ssSnap s))"
  "snLastError (snapshotOf E s) = snLastError (ssSnap s)"
  "snCurrentEntry (snapshotOf E s) = map_option normalEntry (snCurrentEntry (ssSnap s))"
  "snLoadingEntry (snapshotOf E s) = map_option normalEntry (snLoadingEntry (ssSnap s))"
  by (simp_all add: snapshotOf_def snapshotCopy_def Let_def normalize_fields normalize_entries)

section \<open>New entries\<close>

definition seqBase :: "session \<Rightarrow> int" where
  "seqBase s = (if snNextEntrySeq (ssSnap s) \<le> 0 then 1 else snNextEntrySeq (ssSnap s))"

definition freshIDs :: "string \<Rightarrow> int \<Rightarrow> nat \<Rightarrow> string list" where
  "freshIDs prefix base n = map (\<lambda>j. trimSpace prefix @ ''-'' @ decimal (base + int j)) [0..<n]"

definition withSeq :: "int \<Rightarrow> session \<Rightarrow> session" where
  "withSeq v s = onSnap (\<lambda>n. n\<lparr>snNextEntrySeq := v\<rparr>) s"

lemma freshIDs_Suc:
  "freshIDs prefix base (Suc n) = (trimSpace prefix @ ''-'' @ decimal base) # freshIDs prefix (base + 1) n"
proof -
  have "[0..<Suc n] = 0 # map Suc [0..<n]" by (simp add: map_Suc_upt upt_conv_Cons del: upt_Suc)
  then show ?thesis by (simp add: freshIDs_def add.assoc del: upt_Suc)
qed

lemma makeEntries_spec:
  assumes "makeEntries prefix origin ix k its s = (es, t)"
  shows "map enItem es = its" "map enEntryID es = freshIDs prefix (seqBase s) (length its)"
    "map enOrigin es = replicate (length its) origin"
    "map enContextIndex es = map ix [k..<k + length its]"
    "t = (if its = [] then s else withSeq (seqBase s + int (length its)) s)"
proof -
  have "map enItem es = its \<and> map enEntryID es = freshIDs prefix (seqBase s) (length its)
    \<and> map enOrigin es = replicate (length its) origin \<and> map enContextIndex es = map ix [k..<k + length its]
    \<and> t = (if its = [] then s else withSeq (seqBase s + int (length its)) s)"
    using assms
  proof (induction its arbitrary: k s es t)
    case Nil
    then show ?case by (simp add: freshIDs_def)
  next
    case (Cons i its)
    let ?s = "withSeq (seqBase s + 1) s"
    obtain es1 t1 where m: "makeEntries prefix origin ix (Suc k) its ?s = (es1, t1)" by (rule prod.exhaust)
    have n: "nextEntryID prefix s = (trimSpace prefix @ ''-'' @ decimal (seqBase s), ?s)"
      by (simp add: nextEntryID_def seqBase_def withSeq_def Let_def)
    have es: "es = \<lparr>enEntryID = trimSpace prefix @ ''-'' @ decimal (seqBase s), enOrigin = origin,
        enContextIndex = ix k, enItem = i\<rparr> # es1" "t = t1"
      using Cons.prems n m by (simp_all add: Let_def)
    have b: "seqBase ?s = seqBase s + 1" by (auto simp: seqBase_def withSeq_def)
    have w: "withSeq v (withSeq u s) = withSeq v s" for u v by (simp add: withSeq_def onSnap_def)
    have u: "[k..<k + length (i # its)] = k # [Suc k..<Suc k + length its]"
      by (simp add: upt_conv_Cons del: upt_Suc)
    show ?case
      using Cons.IH [OF m] unfolding es b w u freshIDs_Suc list.map length_Cons
      by (auto simp: algebra_simps upt_conv_Cons simp del: upt_Suc)
  qed
  then show "map enItem es = its" "map enEntryID es = freshIDs prefix (seqBase s) (length its)"
    "map enOrigin es = replicate (length its) origin"
    "map enContextIndex es = map ix [k..<k + length its]"
    "t = (if its = [] then s else withSeq (seqBase s + int (length its)) s)"
    by blast+
qed

lemma snap_withSeq [simp]: "ssSnap (withSeq v s) = (ssSnap s)\<lparr>snNextEntrySeq := v\<rparr>"
  by (simp add: withSeq_def)

end
