(* ===== verification/Samples.thy ===== *)
theory Samples
  imports OpLaws
begin

text \<open>
  Concrete inputs for the witnesses: a standard library, an album of three items, sessions that play
  it, and a world whose clock advances by a nanosecond with every reading.
\<close>

text \<open>Instants are written in unary, so that reading back what was formatted succeeds.\<close>

definition sampleLib :: golib where
  "sampleLib =
     \<lparr>randRaw = (\<lambda>seed k. unat seed + k), equalFold = (\<lambda>a b. toLower a = toLower b),
      formatRFC = (\<lambda>t. replicate (nat t) (CHR ''x'')),
      parseRFC = (\<lambda>s. if list_all (\<lambda>c. c = CHR ''x'') s then Some (int (length s)) else None),
      fileURLPath = (\<lambda>s. None), lowerCase = toLower, pathClean = (\<lambda>s. s),
      pathIsAbs = (\<lambda>s. s \<noteq> '''' \<and> hd s = CHR ''/''), quoted = (\<lambda>s. s)\<rparr>"

lemma sampleLib_rfc: "rfcRoundTrip sampleLib"
  by (auto simp: rfcRoundTrip_def sampleLib_def list_all_iff split: if_splits)

definition sampleItem :: "string \<Rightarrow> SessionItem" where
  "sampleItem r =
     \<lparr>itLibraryRecordingID = r, itVariantRecordingID = r, itRecordingID = r, itTitle = r,
      itSubtitle = ''artist'', itDurationMS = 180000, itArtworkRef = r, itSourceKind = ''album'',
      itSourceID = ''al'', itSourceItemID = '''', itAlbumID = ''al'', itVariantAlbumID = ''al'',
      itResolutionMode = ModeLibrary,
      itTarget = \<lparr>tgLogical = r, tgExact = r, tgPolicy = PolicyPreferred\<rparr>\<rparr>"

definition sampleEntry :: "string \<Rightarrow> EntryOrigin \<Rightarrow> int \<Rightarrow> SessionEntry" where
  "sampleEntry r origin i =
     \<lparr>enEntryID = r, enOrigin = origin, enContextIndex = i, enItem = sampleItem r\<rparr>"

definition sampleEntries :: "SessionEntry list" where
  "sampleEntries =
     [sampleEntry ''c0'' OriginContext 0, sampleEntry ''c1'' OriginContext 1,
      sampleEntry ''c2'' OriginContext 2]"

definition sampleContext :: "int \<Rightarrow> ContextQueue" where
  "sampleContext i =
     (emptyContext \<lparr>ciKind = KindCustom, ciID = ''custom'', ciTitle = '''', ciItems = [],
        ciStartIndex = 0\<rparr>)
       \<lparr>cqEntries := sampleEntries, cqAllEntries := sampleEntries, cqCurrentIndex := i,
        cqResumeIndex := i, cqTotalCount := 3\<rparr>"

definition queued :: "string \<Rightarrow> SessionEntry" where
  "queued r = sampleEntry r OriginQueued (-1)"

text \<open>The album, positioned at \<open>i\<close>, with queued entries \<open>ids\<close>; nothing plays yet.\<close>

definition sampleSnapshot :: "int \<Rightarrow> string list \<Rightarrow> SessionSnapshot" where
  "sampleSnapshot i ids =
     defaultSessionSnapshot\<lparr>snContextQueue := Some (sampleContext i), snUserQueue := map queued ids,
       snNextEntrySeq := 10\<rparr>"

text \<open>The same while the entry at position \<open>i\<close> plays.\<close>

definition playingSnapshot :: "int \<Rightarrow> string list \<Rightarrow> SessionSnapshot" where
  "playingSnapshot i ids =
     (sampleSnapshot i ids)\<lparr>snCurrentEntry := Some (sampleEntries ! nat i),
       snCurrentEntryID := enEntryID (sampleEntries ! nat i),
       snCurrentItem := Some (enItem (sampleEntries ! nat i)), snStatus := StatusPlaying,
       snDurationMS := Some 180000\<rparr>"

definition sampleSession :: session where
  "sampleSession = newSession\<lparr>ssSnap := sampleSnapshot 0 [''q1'', ''q2''], ssStarted := True\<rparr>"

definition playingSession :: session where
  "playingSession =
     sampleSession\<lparr>ssSnap := playingSnapshot 0 [''q1'', ''q2''], ssLoadedEntryID := ''c0'',
       ssLoadedURI := ''uri-c0''\<rparr>"

definition readyAt :: "string \<Rightarrow> PreparationStatus" where
  "readyAt uri = zeroPreparation\<lparr>psPhase := PhaseReady, psPlayableURI := uri\<rparr>"

definition sampleEnv :: env where
  "sampleEnv =
     \<lparr>lib = sampleLib, hasCore = True, hasStore = True, hasEmit = True, supportsPreload = False,
      preferredProfile = '''', clock = int, rngUint64 = (\<lambda>k. of_nat k + 5),
      replyError = (\<lambda>t. None),
      replyActivation = (\<lambda>t. \<lparr>baURI = '''', baPlaylistEntryID = 0, baPlaylistPos = -1,
                               baAttemptID = 0\<rparr>),
      replyPosition = (\<lambda>t. 0), replyDuration = (\<lambda>t. Some 180000),
      replyStatus = (\<lambda>t. readyAt ''uri''),
      replyAvailability = (\<lambda>t. \<lparr>avLibraryRecordingID = '''', avVariantRecordingID = '''',
        avRecordingID = '''', avPreferredProfile = '''', avPinned = False,
        avState = PlayableLocalFile, avSourceKind = '''', avLocalPath = '''', avReason = ''''\<rparr>),
      replyAvailabilities = (\<lambda>t. [])\<rparr>"

text \<open>A transition to the first queued entry, which the backend has not confirmed yet.\<close>

definition sampleTransition :: transportTransition where
  "sampleTransition =
     \<lparr>ttToken = 1, ttEntry = queued ''q1'', ttOrigin = OriginQueued, ttQueueIndex = 0, ttPrevious = None,
      ttPlayableURI = ''uri'',
      ttActivation = \<lparr>baURI = ''uri'', baPlaylistEntryID = 0, baPlaylistPos = -1, baAttemptID = 0\<rparr>,
      ttStatus = readyAt ''uri'', ttSourceIdentity = zeroSourceIdentity, ttKind = ActivatePreloaded\<rparr>"

definition transitSession :: session where
  "transitSession =
     playingSession\<lparr>ssTransportToken := 1, ssTransportPending := Some sampleTransition,
       ssTrace := [GoTransportRetry 1 (queued ''q1'') OriginQueued 0 None]\<rparr>"

definition loadedEvent :: "string \<Rightarrow> BackendEvent" where
  "loadedEvent uri =
     \<lparr>beType = EventFileLoaded, beReason = ReasonOther '''', beErr = None, beEndedURI = '''',
      beActiveURI = uri, beActivePlaylistEntryID = 0, beActivePlaylistPos = -1, beActiveAttemptID = 0\<rparr>"

end
