(* ===== verification/OrderProperties.thy ===== *)
theory OrderProperties
  imports Samples
begin

text \<open>
  Properties of items, shuffling and navigation.  Each is a few steps over the lemmas of the component
  it is about; the witnesses run the definitions on the album of \<open>Samples\<close>.
\<close>

section \<open>Helpers\<close>

definition playedFrom :: "golib \<Rightarrow> SessionSnapshot \<Rightarrow> string set \<Rightarrow> playbackCandidate list" where
  "playedFrom L s blocked = drainIterator (newNextActionIterator L s blocked)"

lemma new_fields [simp]:
  "niSnapshot (newNextActionIterator L s b) = s" "niBlocked (newNextActionIterator L s b) = b"
  "niUserIndex (newNextActionIterator L s b) = 0"
  "niEmittedRepeatOne (newNextActionIterator L s b) = False"
  by (simp_all add: newNextActionIterator_def emptyIterator_def Let_def split: prod.split)

lemma contextRest_blocked:
  "contextRest (newNextActionIterator L s b) = contextRest (newNextActionIterator L s {})"
  using upcoming_contextRest [of L s b] upcoming_contextRest [of L s "{}"] by simp

lemma playedFrom_blocked:
  "playedFrom L s blocked = filter (\<lambda>c. enEntryID (pcEntry c) \<notin> blocked) (playedFrom L s {})"
  unfolding playedFrom_def drain_spec [OF new_iterWf]
  by (simp add: repeatOneRest_def tailRest_def isBlocked_def contextRest_blocked [of L s blocked]
      split: option.split)

lemma previousChain_spec:
  assumes "distinct seen" "\<forall>j \<in> set seen. isValidContextIndex s j"
  shows "distinct (previousChain L s seen i)
    \<and> (\<forall>j \<in> set (previousChain L s seen i). isValidContextIndex s j)
    \<and> (\<exists>rest. previousChain L s seen i = seen @ rest)"
  using assms
proof (induction L s seen i rule: previousChain.induct)
  case (1 L s seen i)
  show ?case
  proof (cases "i < 0 \<or> contextCount s \<le> i \<or> i \<in> set seen")
    case True
    with "1.prems" show ?thesis by (subst (1 2 3) previousChain.simps) auto
  next
    case False
    then have "isValidContextIndex s i" by (simp add: valid_contextCount)
    with "1.IH" False "1.prems" show ?thesis
      by (subst (1 2 3) previousChain.simps) auto
  qed
qed

lemma previousChain_steps:
  assumes "\<forall>k. Suc k < length seen \<longrightarrow> seen ! Suc k = previousContextIndexFromAnchor L s (seen ! k)"
    and "seen \<noteq> [] \<longrightarrow> i = previousContextIndexFromAnchor L s (last seen)"
  shows "Suc k < length (previousChain L s seen i) \<Longrightarrow>
    previousChain L s seen i ! Suc k
    = previousContextIndexFromAnchor L s (previousChain L s seen i ! k)"
  using assms
proof (induction L s seen i arbitrary: k rule: previousChain.induct)
  case (1 L s seen i)
  show ?case
  proof (cases "i < 0 \<or> contextCount s \<le> i \<or> i \<in> set seen")
    case True
    then have "previousChain L s seen i = seen" by (subst previousChain.simps) auto
    with "1.prems" show ?thesis by simp
  next
    case False
    have steps: "\<forall>k. Suc k < length (seen @ [i]) \<longrightarrow>
        (seen @ [i]) ! Suc k = previousContextIndexFromAnchor L s ((seen @ [i]) ! k)"
    proof (intro allI impI)
      fix k assume "Suc k < length (seen @ [i])"
      then consider "Suc k < length seen" | "k = length seen - 1" "seen \<noteq> []" by fastforce
      then show "(seen @ [i]) ! Suc k = previousContextIndexFromAnchor L s ((seen @ [i]) ! k)"
        using "1.prems"(2,3) by cases (auto simp: nth_append last_conv_nth)
    qed
    define t where "t = previousChain L s (seen @ [i]) (previousContextIndexFromAnchor L s i)"
    have eq: "previousChain L s seen i = t"
      using False by (subst previousChain.simps) (auto simp: t_def)
    from "1.IH" [of k, folded t_def] False steps "1.prems"(1) show ?thesis by (simp add: eq)
  qed
qed




section \<open>Navigation\<close>

text \<open>
  C1: the next-action iterator plays exactly what the snapshot shows as upcoming.  Without blocked
  entries it yields the repeated current entry under \<open>repeat one\<close> and then, in order, the list that
  \<open>buildUpcomingEntries\<close> writes down; blocking entries only leaves those out.
\<close>

theorem iterator_plays_upcoming:
  "map pcEntry (drainIterator (newNextActionIterator L s {})) =
     (case snCurrentEntry s of
        Some e \<Rightarrow> if snRepeatMode s = RepeatOne then [e] else []
      | None \<Rightarrow> []) @ buildUpcomingEntries L s
   \<and> drainIterator (newNextActionIterator L s blocked) =
     filter (\<lambda>c. enEntryID (pcEntry c) \<notin> blocked) (drainIterator (newNextActionIterator L s {}))"
  using drain_new [of L s] playedFrom_blocked [of L s blocked] by (simp add: playedFrom_def)

text \<open>
  The counters of a snapshot agree with the list of what is upcoming: the upcoming count is its
  length, the queue length adds the current entry, there is a next action exactly when the iterator
  has a candidate, and the first upcoming entry is the head of the list.
\<close>

theorem counters_agree:
  "upcomingEntryCount L s = int (length (buildUpcomingEntries L s))
   \<and> queueLength L s = upcomingEntryCount L s + (if snCurrentEntry s = None then 0 else 1)
   \<and> (hasNextAction L s \<longleftrightarrow> drainIterator (newNextActionIterator L s {}) \<noteq> [])
   \<and> firstUpcomingEntry L s = (case buildUpcomingEntries L s of [] \<Rightarrow> None | e # _ \<Rightarrow> Some e)"
proof -
  have "length (drainIterator (newNextActionIterator L s {})) =
      (case snCurrentEntry s of None \<Rightarrow> 0 | Some _ \<Rightarrow> if snRepeatMode s = RepeatOne then 1 else 0)
      + length (buildUpcomingEntries L s)"
    using arg_cong [OF drain_new [of L s], of length] by (simp split: option.split)
  then have "hasNextAction L s \<longleftrightarrow> drainIterator (newNextActionIterator L s {}) \<noteq> []"
    by (auto simp: hasNextAction_def nextActionCount_def upcomingEntryCount_eq split: option.splits)
  then show ?thesis
    by (simp add: queueLength_def upcomingEntryCount_eq firstUpcomingEntry_eq headOption_def)
qed






text \<open>
  The plan of the previous action walks backwards through the context: it lists positions of the
  context, none twice, each the predecessor of the one before it, and names the entries at them.
\<close>

theorem previous_plan_walks_back:
  "distinct (previousActionIndexes L s)
   \<and> (\<forall>i \<in> set (previousActionIndexes L s). isValidContextIndex s i)
   \<and> (\<forall>k. Suc k < length (previousActionIndexes L s) \<longrightarrow>
        previousActionIndexes L s ! Suc k
        = previousContextIndexFromAnchor L s (previousActionIndexes L s ! k))
   \<and> map plEntryID (buildPreviousActionPlan L s)
     = map (\<lambda>i. enEntryID (contextAllEntries s ! nat i)) (previousActionIndexes L s)"
proof -
  have chain: "previousActionIndexes L s = [] \<or> (\<exists>i. previousActionIndexes L s = previousChain L s [] i)"
    by (auto simp: previousActionIndexes_def Let_def split: option.split)
  have names: "map plEntryID (buildPreviousActionPlan L s)
      = map (\<lambda>i. enEntryID (contextAllEntries s ! nat i)) (previousActionIndexes L s)"
    by (simp add: buildPreviousActionPlan_def plannedFromContext_def contextEntryAt_def Let_def)
  from chain show ?thesis
    using previousChain_spec [of "[]" s L] previousChain_steps [of "[]" L s] names
    by (auto simp del: map_eq_conv)
qed

theorem previous_plan_walks_back_witness:
  "previousActionIndexes sampleLib (playingSnapshot 2 []) ! 1
   = previousContextIndexFromAnchor sampleLib (playingSnapshot 2 []) 1"
proof -
  have "previousActionIndexes sampleLib (playingSnapshot 2 []) = [1, 0]" by code_simp
  then show ?thesis using previous_plan_walks_back [of sampleLib "playingSnapshot 2 []"] by simp
qed

section \<open>Shuffling\<close>

text \<open>
  A shuffle cycle is a permutation of the positions of the context, whatever the generator draws,
  and a valid anchor (the entry that plays) comes first.
\<close>

theorem shuffle_cycle_permutes_from_anchor:
  "mset (buildAnchoredSmartShuffleCycle L entries anchor g) = mset (map int [0..<length entries])
   \<and> (0 \<le> anchor \<and> anchor < int (length entries) \<longrightarrow>
        buildAnchoredSmartShuffleCycle L entries anchor g ! 0 = anchor)"
  using buildAnchored_isCycle [of entries L anchor g] buildAnchored_hd [of anchor entries L g]
  by (simp add: isCycle_def positions_def)

theorem shuffle_cycle_permutes_from_anchor_witness:
  "buildAnchoredSmartShuffleCycle sampleLib sampleEntries 2 (newRng sampleLib 7) ! 0 = 2"
  using shuffle_cycle_permutes_from_anchor [of sampleLib sampleEntries 2 "newRng sampleLib 7"]
  by (simp add: sampleEntries_def)

text \<open>
  The greedy construction never draws from an empty choice, so the panic of \<open>Intn(0)\<close> is
  unreachable, and each entry it appends scores at least as well, against the entries before it, as
  every entry still left for later.
\<close>

theorem greedy_shuffle_takes_best:
  "\<exists>c. greedyCycle L entries remaining start g = Some c
     \<and> take (length start) c = start \<and> mset c = mset start + mset remaining
     \<and> (\<forall>i j. length start \<le> i \<and> i < j \<and> j < length c \<longrightarrow>
          smartShuffleScore L entries (take i c) (c ! j)
          \<le> smartShuffleScore L entries (take i c) (c ! i))"
  using greedyCycle_spec [of L entries remaining start g] by (auto simp: greedyFrom_def)

theorem greedy_shuffle_takes_best_witness:
  "\<exists>c. greedyCycle sampleLib sampleEntries [1, 2] [0] (newRng sampleLib 7) = Some c \<and> c = [0, 2, 1]
     \<and> smartShuffleScore sampleLib sampleEntries [0] 1 \<le> smartShuffleScore sampleLib sampleEntries [0] 2"
proof -
  obtain c where c: "greedyCycle sampleLib sampleEntries [1, 2] [0] (newRng sampleLib 7) = Some c"
    "\<forall>i j. length [0::int] \<le> i \<and> i < j \<and> j < length c \<longrightarrow>
          smartShuffleScore sampleLib sampleEntries (take i c) (c ! j)
          \<le> smartShuffleScore sampleLib sampleEntries (take i c) (c ! i)"
    using greedy_shuffle_takes_best [of sampleLib sampleEntries "[1, 2]" "[0]" "newRng sampleLib 7"]
    by blast
  have v: "greedyCycle sampleLib sampleEntries [1, 2] [0] (newRng sampleLib 7) = Some [0, 2, 1]"
    by code_simp
  then have "c = [0, 2, 1]" using c(1) by simp
  then have "smartShuffleScore sampleLib sampleEntries [0] 1
      \<le> smartShuffleScore sampleLib sampleEntries [0] 2"
    using spec [OF spec [OF c(2), of 1], of 2] by simp
  with v \<open>c = [0, 2, 1]\<close> show ?thesis by blast
qed

text \<open>
  Improving an anchored cycle permutes it, keeps its first entry, and reaches a wrap score that
  neither the cycle nor any single move of an inner entry to the end exceeds.
\<close>

theorem optimised_cycle_is_best_move:
  assumes "c \<noteq> []"
  shows "mset (optimizeAnchoredSmartShuffleCycle L entries c) = mset c
     \<and> optimizeAnchoredSmartShuffleCycle L entries c ! 0 = c ! 0
     \<and> (\<forall>d \<in> insert c ((\<lambda>i. moveToEnd i c) ` {1..<length c - 1}).
          smartShuffleWrapScore L entries d
          \<le> smartShuffleWrapScore L entries (optimizeAnchoredSmartShuffleCycle L entries c))"
  using assms optimize_perm optimize_hd optimize_ge [of L entries c] optimize_trial_ge [of _ c L entries]
  by auto

theorem optimised_cycle_is_best_move_witness:
  "smartShuffleWrapScore sampleLib sampleEntries [0, 1, 2]
   \<le> smartShuffleWrapScore sampleLib sampleEntries
       (optimizeAnchoredSmartShuffleCycle sampleLib sampleEntries [0, 1, 2])"
  using optimised_cycle_is_best_move [of "[0, 1, 2]" sampleLib sampleEntries] by simp




section \<open>Items\<close>


end
