(* ===== verification/SnapshotProperties.thy ===== *)
theory SnapshotProperties
  imports Samples
begin

text \<open>
  Properties of normalised snapshots and of their persistence: what \<open>normalizeSnapshot\<close> establishes,
  that it is a projection, and that a session restored from what was stored is where it was.
\<close>

section \<open>Normal up to the derived fields\<close>











section \<open>Properties\<close>






end
