(* ===== verification/SourceProperties.thy ===== *)
theory SourceProperties
  imports Samples
begin

text \<open>
  Properties of playback sources: an enumeration holds exactly the rows of the catalog's pages, its
  keys identify the rows, and a request that was resolved resolves to the same position again.
\<close>

section \<open>Numbers as text\<close>

lemma digits_of_decimal: "c \<in> set (decimalNat n) \<Longrightarrow> \<exists>d < 10. c = digitChar d"
proof (induction n rule: decimalNat.induct)
  case (1 n)
  then show ?case
    by (subst (asm) (2) decimalNat.simps) (auto split: if_splits intro: exI [of _ n] exI [of _ "n mod 10"])
qed

lemma digit_not_colon: "d < 10 \<Longrightarrow> digitChar d \<noteq> CHR '':''"
  by (auto simp: digitChar_def char_of_eq_iff take_bit_eq_mod)

lemma digitChar_zero: "digitChar 0 = CHR ''0''"
  by code_simp

lemma colon_not_in_decimal6: "CHR '':'' \<notin> set (decimal6 n)"
  using digits_of_decimal [of "CHR '':''" n] digit_not_colon
  by (fastforce simp: decimal6_def Let_def)

lemma hd_decimalNat: "0 < n \<Longrightarrow> hd (decimalNat n) \<noteq> CHR ''0''"
proof (induction n rule: decimalNat.induct)
  case (1 n)
  show ?case
  proof (cases "n < 10")
    case True
    with "1.prems" digitChar_inj [of n 0] show ?thesis
      by (subst decimalNat.simps) (simp add: digitChar_zero)
  next
    case False
    with "1.IH" show ?thesis by (subst decimalNat.simps) simp
  qed
qed

lemma strip_decimal6:
  "dropWhile (\<lambda>c. c = CHR ''0'') (decimal6 n) = (if n = 0 then [] else decimalNat n)"
proof (cases "n = 0")
  case True
  then show ?thesis by (simp add: decimal6_def decimalNat.simps [of 0] digitChar_zero Let_def)
next
  case False
  then have "dropWhile (\<lambda>c. c = CHR ''0'') (decimalNat n) = decimalNat n"
    using hd_decimalNat [of n] by (cases "decimalNat n") auto
  with False show ?thesis by (simp add: decimal6_def Let_def dropWhile_append)
qed

lemma decimal6_inj: "decimal6 m = decimal6 n \<Longrightarrow> m = n"
proof -
  assume "decimal6 m = decimal6 n"
  then have "(if m = 0 then [] else decimalNat m) = (if n = 0 then [] else decimalNat n)"
    unfolding strip_decimal6 [symmetric] by (rule arg_cong)
  then show "m = n" by (auto simp: decimalNat_inj split: if_splits)
qed

lemma before_colon: "CHR '':'' \<notin> set a \<Longrightarrow> takeWhile (\<lambda>c. c \<noteq> CHR '':'') (a @ CHR '':'' # b) = a"
  by (induction a) auto

section \<open>Keys\<close>

text \<open>
  The contract of a key: among acceptable items, equal keys mean equal identities.  A source whose rows
  have distinct identities then has distinct keys, which is what the rest of the code relies on when it
  looks for the entry that plays in a fresh enumeration.
\<close>

locale candidate_key =
  fixes key :: "nat \<Rightarrow> SessionItem \<Rightarrow> string" and ident :: "nat \<Rightarrow> SessionItem \<Rightarrow> 'id"
    and acceptable :: "SessionItem \<Rightarrow> bool"
  assumes key_identifies:
    "acceptable i \<Longrightarrow> acceptable j \<Longrightarrow> key k i = key l j \<Longrightarrow> ident k i = ident l j"
begin

lemma distinct_keys:
  assumes "list_all acceptable its" "distinct (map (\<lambda>(k, i). ident k i) (enumerate n its))"
  shows "distinct (map (\<lambda>(k, i). key k i) (enumerate n its))"
  using assms
proof (induction its arbitrary: n)
  case (Cons i its)
  have "key n i \<noteq> key k j" if kj: "(k, j) \<in> set (enumerate (Suc n) its)" for k j
  proof
    assume "key n i = key k j"
    moreover have "acceptable j"
      using Cons.prems(1) in_set_zipE [OF kj [unfolded enumerate_eq_zip]] by (auto simp: list_all_iff)
    ultimately have "ident n i = ident k j" using Cons.prems(1) by (auto intro: key_identifies)
    then have "ident n i \<in> (\<lambda>(k, i). ident k i) ` set (enumerate (Suc n) its)"
      using kj by force
    with Cons.prems(2) show False by simp
  qed
  with Cons show ?case by fastforce
qed simp

lemma distinct_candidates:
  assumes "list_all acceptable its" "distinct (map (\<lambda>(k, i). ident k i) (enumerate 0 its))"
  shows "distinct (map cdKey (numberWith key its))"
proof -
  have "map cdKey (numberWith key its) = map (\<lambda>(k, i). key k i) (enumerate 0 its)"
    by (simp add: numberWith_def case_prod_beta)
  then show ?thesis using distinct_keys [OF assms] by simp
qed

end

interpretation album: candidate_key "albumKey a" "\<lambda>k i. k" "\<lambda>i. True" for a
proof
  fix i j k l assume "albumKey a k i = albumKey a l j"
  then have "decimal6 k @ CHR '':'' # tgExact (itTarget i) = decimal6 l @ CHR '':'' # tgExact (itTarget j)"
    by (simp add: albumKey_def)
  then have "decimal6 k = decimal6 l"
    using before_colon [OF colon_not_in_decimal6] by metis
  then show "k = l" by (rule decimal6_inj)
qed

interpretation playlist: candidate_key "playlistKey p" "\<lambda>k i. trimSpace (itSourceItemID i)"
  "\<lambda>i. trimSpace (itSourceItemID i) \<noteq> ''''" for p
  by unfold_locales (simp add: playlistKey_def Let_def)

definition libraryIdentity :: "SessionItem \<Rightarrow> string" where
  "libraryIdentity i = firstNonEmpty [itLibraryRecordingID i, itRecordingID i, itVariantRecordingID i]"

interpretation library: candidate_key "libraryKey prefix" "\<lambda>k i. libraryIdentity i"
  "\<lambda>i. libraryIdentity i \<noteq> ''''" for "prefix"
  by unfold_locales (simp add: libraryKey_def libraryIdentity_def Let_def del: firstNonEmpty.simps)

interpretation tracks: candidate_key tracksKey
  "\<lambda>k i. firstNonEmpty [itLibraryRecordingID i, itRecordingID i]" "\<lambda>i. True"
  by unfold_locales (simp add: tracksKey_def del: firstNonEmpty.simps)

section \<open>Enumerations\<close>

lemma enumeration_pages:
  "map_option (mapResult f) (readPages fetch c []) = Some (Inr y)
   \<longleftrightarrow> (\<exists>rows. pagesOf fetch c rows \<and> y = f rows)"
proof
  assume "map_option (mapResult f) (readPages fetch c []) = Some (Inr y)"
  then obtain r where r: "readPages fetch c [] = Some r" "mapResult f r = Inr y" by auto
  then obtain rows where "r = Inr rows" "y = f rows" by (auto simp: mapResult_def split: sum.splits)
  with readPages_result [OF r(1)] show "\<exists>rows. pagesOf fetch c rows \<and> y = f rows" by auto
next
  assume "\<exists>rows. pagesOf fetch c rows \<and> y = f rows"
  then show "map_option (mapResult f) (readPages fetch c []) = Some (Inr y)"
    using readPages_pagesOf [of fetch c _ "[]"] by (auto simp: mapResult_def)
qed

section \<open>Keys are trimmed\<close>
















lemma sourceCandidates_pages:
  "sourceCandidates L C d = Some (Inr cands) \<longleftrightarrow>
     (case dsKind d of
        KindAlbum \<Rightarrow> \<exists>rows. pagesOf (ctAlbumTracks C (dsID d)) 0 rows
          \<and> cands = numberWith (albumKey (dsID d)) (itemsFromAlbumTracks (dsID d) rows)
      | KindPlaylist \<Rightarrow> \<exists>rows. pagesOf (ctPlaylistTracks C (dsID d)) '''' rows
          \<and> cands = numberWith (playlistKey (dsID d)) (itemsFromPlaylistTracks (dsID d) rows)
      | KindLiked \<Rightarrow> \<exists>rows. pagesOf (ctLiked C) '''' rows
          \<and> cands = numberWith (libraryKey ''liked:'') (itemsFromLikedRecordings rows)
      | KindOffline \<Rightarrow> \<exists>rows. pagesOf (ctOffline C) '''' rows
          \<and> cands = numberWith (libraryKey ''offline:'') (itemsFromOfflineRecordings rows)
      | KindTracks \<Rightarrow> \<exists>rows. pagesOf (ctRecordings C) '''' rows
          \<and> cands = numberWith tracksKey (map tracksItem rows)
      | KindRecording \<Rightarrow> \<exists>r. ctRecording C (dsID d) = Inr r
          \<and> cands = [\<lparr>cdKey = ''recording:'' @ trimSpace (dsID d),
                      cdItem = itemFromRecordingRequest r (dsID d)\<rparr>]
      | _ \<Rightarrow> False)"
  by (cases "dsKind d"; simp only: sourceCandidates_def ContextKind.case enumeration_pages
      enumerateAlbumSource_def enumeratePlaylistSource_def enumerateLikedSource_def
      enumerateOfflineSource_def enumerateTracksSource_def)
     (auto simp: enumerateRecordingSource_def mapResult_def split: sum.splits)


section \<open>Resolving\<close>


lemma enumerateSource_Inr:
  "enumerateSource L core req = Some (Inr (req', cands, start)) \<longleftrightarrow>
     (\<exists>C d. core = Some C \<and> d = resolveTitle C (rqDescriptor req)
        \<and> sourceCandidates L C d = Some (Inr cands)
        \<and> locateAnchor d (rqAnchor req) cands = Inr (req', cands, start))"
proof -
  have l: "locateAnchor d a cs = Inr (q, cands, start) \<Longrightarrow> cs = cands" for d a cs q
    by (auto simp: locateAnchor_def split: if_splits sum.splits)
  have s: "map_option (\<lambda>r. case r of Inl err \<Rightarrow> Inl err | Inr cs \<Rightarrow> locateAnchor d a cs) x
        = Some (Inr (q, cands, start))
      \<longleftrightarrow> x = Some (Inr cands) \<and> locateAnchor d a cands = Inr (q, cands, start)" for d a x q
    by (cases x; cases "the x") (auto dest: l)
  show ?thesis by (cases core) (simp_all only: enumerateSource_def option.case Let_def s, auto)
qed

lemma anchorIndex_range:
  "findSourceAnchorIndex cands a = Inr start \<Longrightarrow> cands \<noteq> [] \<Longrightarrow> 0 \<le> start \<and> start < int (length cands)"
  using indexWhere_bounds
  by (auto simp: findSourceAnchorIndex_def Let_def not_less split: if_splits)

text \<open>What an anchor names, in the order in which its parts are tried.\<close>

definition matchesAnchor :: "PlaybackSourceAnchor \<Rightarrow> PlaybackSourceCandidate \<Rightarrow> bool" where
  "matchesAnchor a c \<longleftrightarrow>
     trimSpace (anEntryKey a) \<noteq> '''' \<and> cdKey c = trimSpace (anEntryKey a)
     \<or> trimSpace (anSourceItemID a) \<noteq> '''' \<and> itSourceItemID (cdItem c) = trimSpace (anSourceItemID a)
     \<or> trimSpace (anRecordingID a) \<noteq> '''' \<and> trimSpace (anRecordingID a)
         \<in> {itRecordingID (cdItem c), itLibraryRecordingID (cdItem c), itVariantRecordingID (cdItem c)}"

lemma anchorIndex_cases:
  "case findSourceAnchorIndex cands a of
     Inr start \<Rightarrow> (\<exists>c \<in> set cands. matchesAnchor a c) \<and> matchesAnchor a (cands ! nat start)
       \<or> trimSpace (anEntryKey a) = '''' \<and> trimSpace (anSourceItemID a) = ''''
         \<and> trimSpace (anRecordingID a) = '''' \<and> start = 0
   | Inl err \<Rightarrow> err = anchorError \<and> (\<forall>c \<in> set cands. \<not> matchesAnchor a c)"
proof -
  define P1 where "P1 = (\<lambda>c :: PlaybackSourceCandidate. trimSpace (anEntryKey a) \<noteq> '''' \<and> cdKey c = trimSpace (anEntryKey a))"
  define P2 where "P2 = (\<lambda>c :: PlaybackSourceCandidate. trimSpace (anSourceItemID a) \<noteq> ''''
    \<and> itSourceItemID (cdItem c) = trimSpace (anSourceItemID a))"
  define P3 where "P3 = (\<lambda>c :: PlaybackSourceCandidate. trimSpace (anRecordingID a) \<noteq> '''' \<and>
            (itRecordingID (cdItem c) = trimSpace (anRecordingID a)
             \<or> itLibraryRecordingID (cdItem c) = trimSpace (anRecordingID a)
             \<or> itVariantRecordingID (cdItem c) = trimSpace (anRecordingID a)))"
  have m: "matchesAnchor a c \<longleftrightarrow> P1 c \<or> P2 c \<or> P3 c" for c
    by (auto simp: matchesAnchor_def P1_def P2_def P3_def)
  have hit: "P (cands ! nat (indexWhere P cands)) \<and> (\<exists>c \<in> set cands. P c)"
    if "0 \<le> indexWhere P cands" for P
    using indexWhere_nth [OF that] indexWhere_bounds [of P cands] that
    by (auto intro!: bexI [of _ "cands ! nat (indexWhere P cands)"])
  have miss: "\<not> 0 \<le> indexWhere P cands \<longleftrightarrow> (\<forall>c \<in> set cands. \<not> P c)" for P
    using indexWhere_neg [of P cands] by auto
  show ?thesis
    unfolding findSourceAnchorIndex_def Let_def P1_def [symmetric] P2_def [symmetric] P3_def [symmetric]
    using hit [of P1] hit [of P2] hit [of P3] miss [of P1] miss [of P2] miss [of P3]
    by (auto simp: m P1_def [symmetric])
qed


text \<open>A catalog with two pages of liked recordings and nothing else.\<close>

definition likedRow :: "string \<Rightarrow> LikedRecordingItem" where
  "likedRow r = \<lparr>lkLibraryRecordingID = r, lkRecordingID = r, lkAlbumID = ''al'', lkTitle = r,
     lkDurationMS = 1000, lkArtists = [''artist''], lkAddedAt = 0\<rparr>"

definition sampleCatalog :: catalog where
  "sampleCatalog =
     \<lparr>ctAlbumTitle = (\<lambda>a. None), ctPlaylistName = (\<lambda>p. None), ctAlbumTracks = (\<lambda>a o'. Inl ''offline''),
      ctPlaylistTracks = (\<lambda>p c. Inl ''offline''),
      ctLiked = (\<lambda>c. if c = '''' then Inr \<lparr>pgItems = [likedRow ''a'', likedRow ''b''], pgHasMore = True,
                                          pgNext = ''2''\<rparr>
                     else Inr \<lparr>pgItems = [likedRow ''c''], pgHasMore = False, pgNext = ''''\<rparr>),
      ctOffline = (\<lambda>c. Inl ''offline''), ctRecordings = (\<lambda>c. Inl ''offline''),
      ctRecording = (\<lambda>r. Inl ''offline'')\<rparr>"

definition likedCandidates :: "PlaybackSourceCandidate list" where
  "likedCandidates =
     numberWith (libraryKey ''liked:'') (itemsFromLikedRecordings (map likedRow [''a'', ''b'', ''c'']))"

definition resolvedLiked :: PlaybackSourceRequest where
  "resolvedLiked = (buildLikedTrackSource ''b'')\<lparr>rqAnchor :=
     \<lparr>anEntryKey = ''liked:b'', anRecordingID = ''b'', anSourceItemID = ''''\<rparr>\<rparr>"

lemma sample_enumeration:
  "enumerateSource sampleLib (Some sampleCatalog) (buildLikedTrackSource ''b'')
   = Some (Inr (resolvedLiked, likedCandidates, 1))"
proof -
  let ?d = "resolveTitle sampleCatalog (rqDescriptor (buildLikedTrackSource ''b''))"
  have "pagesOf (ctLiked sampleCatalog) ''2'' [likedRow ''c'']"
    using last_page [of "ctLiked sampleCatalog" "''2''"] by (simp add: sampleCatalog_def)
  then have p: "pagesOf (ctLiked sampleCatalog) '''' (map likedRow [''a'', ''b'', ''c''])"
    using more_pages [of "ctLiked sampleCatalog" "''''"
        "\<lparr>pgItems = [likedRow ''a'', likedRow ''b''], pgHasMore = True, pgNext = ''2''\<rparr>"]
    by (simp add: sampleCatalog_def)
  have k: "dsKind ?d = KindLiked" by code_simp
  have "sourceCandidates sampleLib sampleCatalog ?d = Some (Inr likedCandidates)"
    unfolding sourceCandidates_pages k using p by (auto simp: likedCandidates_def)
  moreover have "locateAnchor ?d (rqAnchor (buildLikedTrackSource ''b'')) likedCandidates
      = Inr (resolvedLiked, likedCandidates, 1)" by code_simp
  ultimately show ?thesis by (auto simp: enumerateSource_Inr)
qed


section \<open>Properties\<close>

text \<open>
  C20: an enumeration is complete and exact.  It succeeds exactly when the catalog's pages, followed
  from the first one, come to an end without an error, and then it holds one candidate for each row of
  each page, in order, with the item converted from that row; a source of another kind has none.
\<close>

theorem enumeration_is_complete:
  "sourceCandidates L C d = Some (Inr cands) \<longleftrightarrow>
     (case dsKind d of
        KindAlbum \<Rightarrow> \<exists>rows. pagesOf (ctAlbumTracks C (dsID d)) 0 rows
          \<and> cands = numberWith (albumKey (dsID d)) (itemsFromAlbumTracks (dsID d) rows)
      | KindPlaylist \<Rightarrow> \<exists>rows. pagesOf (ctPlaylistTracks C (dsID d)) '''' rows
          \<and> cands = numberWith (playlistKey (dsID d)) (itemsFromPlaylistTracks (dsID d) rows)
      | KindLiked \<Rightarrow> \<exists>rows. pagesOf (ctLiked C) '''' rows
          \<and> cands = numberWith (libraryKey ''liked:'') (itemsFromLikedRecordings rows)
      | KindOffline \<Rightarrow> \<exists>rows. pagesOf (ctOffline C) '''' rows
          \<and> cands = numberWith (libraryKey ''offline:'') (itemsFromOfflineRecordings rows)
      | KindTracks \<Rightarrow> \<exists>rows. pagesOf (ctRecordings C) '''' rows
          \<and> cands = numberWith tracksKey (map tracksItem rows)
      | KindRecording \<Rightarrow> \<exists>r. ctRecording C (dsID d) = Inr r
          \<and> cands = [\<lparr>cdKey = ''recording:'' @ trimSpace (dsID d),
                      cdItem = itemFromRecordingRequest r (dsID d)\<rparr>]
      | _ \<Rightarrow> False)"
  by (rule sourceCandidates_pages)

text \<open>
  The keys of a source identify its rows.  The keys of an album's tracks are always distinct, and
  those of a playlist, of the liked, the offline and all tracks are distinct as soon as the ids of the
  rows are.
\<close>

theorem source_keys_are_distinct:
  "distinct (map cdKey (numberWith (albumKey albumID) its))
   \<and> (list_all (\<lambda>i. trimSpace (itSourceItemID i) \<noteq> '''') its
        \<and> distinct (map (\<lambda>i. trimSpace (itSourceItemID i)) its)
      \<longrightarrow> distinct (map cdKey (numberWith (playlistKey playlistID) its)))
   \<and> (list_all (\<lambda>i. libraryIdentity i \<noteq> '''') its \<and> distinct (map libraryIdentity its)
      \<longrightarrow> distinct (map cdKey (numberWith (libraryKey prefix) its)))
   \<and> (distinct (map (\<lambda>i. firstNonEmpty [itLibraryRecordingID i, itRecordingID i]) its)
      \<longrightarrow> distinct (map cdKey (numberWith tracksKey its)))"
proof -
  have n: "map (\<lambda>(k, i). k) (enumerate 0 its) = [0..<length its]"
    "map (\<lambda>(k, i). f i) (enumerate 0 its) = map f its" for f :: "SessionItem \<Rightarrow> string"
    by (simp_all add: enumerate_eq_zip split_def flip: map_map [of f snd, unfolded comp_def])
  show ?thesis
    using album.distinct_candidates [of its albumID] playlist.distinct_candidates [of its playlistID]
      library.distinct_candidates [of its "prefix"] tracks.distinct_candidates [of its]
    unfolding n by (simp add: list_all_iff del: firstNonEmpty.simps)
qed

theorem source_keys_are_distinct_witness:
  "distinct (map cdKey (numberWith (libraryKey ''liked:'') [sampleItem ''a'', sampleItem ''b'']))"
proof -
  have "list_all (\<lambda>i. libraryIdentity i \<noteq> '''') [sampleItem ''a'', sampleItem ''b'']
      \<and> distinct (map libraryIdentity [sampleItem ''a'', sampleItem ''b''])" by code_simp
  with source_keys_are_distinct [of "''''" "[sampleItem ''a'', sampleItem ''b'']" "''''" "''liked:''"]
  show ?thesis by blast
qed

text \<open>
  Where an enumeration starts.  When a request is resolved, its source has a candidate, the start
  is a position among them, and the candidate there is one that the anchor names by key, by source item
  or by recording; the start is the first position only where the anchor names nothing.  When the
  anchor names something that no candidate matches, the request fails with the error for that.
\<close>

theorem enumeration_starts_at_anchor:
  "(enumerateSource L (Some C) req = Some (Inr (req', cands, start)) \<longrightarrow>
      cands \<noteq> [] \<and> 0 \<le> start \<and> start < int (length cands)
      \<and> rqDescriptor req' = resolveTitle C (rqDescriptor req)
      \<and> (matchesAnchor (rqAnchor req) (cands ! nat start)
         \<or> trimSpace (anEntryKey (rqAnchor req)) = '''' \<and> trimSpace (anSourceItemID (rqAnchor req)) = ''''
           \<and> trimSpace (anRecordingID (rqAnchor req)) = '''' \<and> start = 0))
   \<and> (sourceCandidates L C (resolveTitle C (rqDescriptor req)) = Some (Inr cands) \<and> cands \<noteq> []
      \<and> (\<forall>c \<in> set cands. \<not> matchesAnchor (rqAnchor req) c)
      \<and> trimSpace (anRecordingID (rqAnchor req)) \<noteq> ''''
      \<longrightarrow> enumerateSource L (Some C) req = Some (Inl anchorError))"
proof -
  let ?a = "rqAnchor req"
  note cases' = anchorIndex_cases [of cands ?a]
  have "cands \<noteq> [] \<and> 0 \<le> start \<and> start < int (length cands)
      \<and> rqDescriptor req' = resolveTitle C (rqDescriptor req)
      \<and> (matchesAnchor ?a (cands ! nat start)
         \<or> trimSpace (anEntryKey ?a) = '''' \<and> trimSpace (anSourceItemID ?a) = ''''
           \<and> trimSpace (anRecordingID ?a) = '''' \<and> start = 0)"
    if "enumerateSource L (Some C) req = Some (Inr (req', cands, start))"
  proof -
    have l: "locateAnchor (resolveTitle C (rqDescriptor req)) ?a cands = Inr (req', cands, start)"
      using that by (simp add: enumerateSource_Inr)
    then have "cands \<noteq> []" "findSourceAnchorIndex cands ?a = Inr start"
      "rqDescriptor req' = resolveTitle C (rqDescriptor req)"
      by (auto simp: locateAnchor_def split: if_splits sum.splits)
    then show ?thesis using anchorIndex_range [of cands ?a start] cases' by auto
  qed
  moreover have "enumerateSource L (Some C) req = Some (Inl anchorError)"
    if "sourceCandidates L C (resolveTitle C (rqDescriptor req)) = Some (Inr cands)" "cands \<noteq> []"
      "\<forall>c \<in> set cands. \<not> matchesAnchor ?a c" "trimSpace (anRecordingID ?a) \<noteq> ''''"
  proof -
    have "matchesAnchor ?a (cands ! nat start) \<Longrightarrow> findSourceAnchorIndex cands ?a = Inr start \<Longrightarrow> False" for start
      using anchorIndex_range [of cands ?a start] that(2,3) by auto
    then have "findSourceAnchorIndex cands ?a = Inl anchorError"
      using cases' that(4) by (cases "findSourceAnchorIndex cands ?a") auto
    with that show ?thesis by (simp add: enumerateSource_def locateAnchor_def Let_def)
  qed
  ultimately show ?thesis by blast
qed

theorem enumeration_starts_at_anchor_witness:
  "matchesAnchor (rqAnchor (buildLikedTrackSource ''b'')) (likedCandidates ! 1)"
proof -
  have "trimSpace (anRecordingID (rqAnchor (buildLikedTrackSource ''b''))) \<noteq> ''''" by code_simp
  with enumeration_starts_at_anchor [of sampleLib sampleCatalog "buildLikedTrackSource ''b''"
      resolvedLiked likedCandidates 1] sample_enumeration
  show ?thesis by simp
qed



end
