(* ===== verification/QueueProperties.thy ===== *)
theory QueueProperties
  imports Samples
begin

text \<open>
  Properties of the operations on the user queue, the context and the modes of a session: what each
  does on every branch, and that an operation that is refused leaves the session as it was.
\<close>

section \<open>Queue edits\<close>

text \<open>The part of a session that a queue edit keeps: the context's positions, the entries, the modes.\<close>

definition keptByEdit :: "session \<Rightarrow> session \<Rightarrow> bool" where
  "keptByEdit s t \<longleftrightarrow>
     snCurrentEntry (ssSnap t) = map_option normalEntry (snCurrentEntry (ssSnap s))
     \<and> snRepeatMode (ssSnap t) = knownMode (snRepeatMode (ssSnap s))
     \<and> snShuffle (ssSnap t) = snShuffle (ssSnap s)
     \<and> snVolume (ssSnap t) = clampVolume (snVolume (ssSnap s))"

lemma finish_kept:
  assumes "snCurrentEntry (ssSnap u) = snCurrentEntry (ssSnap s)"
    "snRepeatMode (ssSnap u) = snRepeatMode (ssSnap s)" "snShuffle (ssSnap u) = snShuffle (ssSnap s)"
    "snVolume (ssSnap u) = snVolume (ssSnap s)"
  shows "keptByEdit s (snd (snd (finishOp E needs stop u)))"
  using assms by (simp add: keptByEdit_def touch_fields)

lemma touchedQueue:
  "snUserQueue (ssSnap (snd (snd (finishOp E needs stop u)))) = map normalizeQueuedEntry (snUserQueue (ssSnap u))"
  "snUserQueue (fst (finishOp E needs stop u)) = map normalizeQueuedEntry (snUserQueue (ssSnap u))"
  by (simp_all add: touch_fields snapshotOf_fields comp_def)

lemma maybeCancel [simp]:
  "snUserQueue (ssSnap (if b then cancelTransportTransition s else s)) = snUserQueue (ssSnap s)"
  "snContextQueue (ssSnap (if b then cancelTransportTransition s else s)) = snContextQueue (ssSnap s)"
  "snCurrentEntry (ssSnap (if b then cancelTransportTransition s else s)) = snCurrentEntry (ssSnap s)"
  "snRepeatMode (ssSnap (if b then cancelTransportTransition s else s)) = snRepeatMode (ssSnap s)"
  "snShuffle (ssSnap (if b then cancelTransportTransition s else s)) = snShuffle (ssSnap s)"
  "snVolume (ssSnap (if b then cancelTransportTransition s else s)) = snVolume (ssSnap s)"
  "snNextEntrySeq (ssSnap (if b then cancelTransportTransition s else s)) = snNextEntrySeq (ssSnap s)"
  by simp_all

text \<open>The state before the end of an edit that replaces the user queue; \<open>b\<close>: the transition is cancelled.\<close>

definition editedQueue :: "env \<Rightarrow> bool \<Rightarrow> SessionEntry list \<Rightarrow> session \<Rightarrow> session" where
  "editedQueue E b q s = setUserQueue q (snd (invalidatePreloadPlan E True
     (if b then cancelTransportTransition (advanceIntentEpoch s) else advanceIntentEpoch s)))"

lemma editedQueue_fields [simp]:
  "snUserQueue (ssSnap (editedQueue E b q s)) = q"
  "snCurrentEntry (ssSnap (editedQueue E b q s)) = snCurrentEntry (ssSnap s)"
  "snRepeatMode (ssSnap (editedQueue E b q s)) = snRepeatMode (ssSnap s)"
  "snShuffle (ssSnap (editedQueue E b q s)) = snShuffle (ssSnap s)"
  "snVolume (ssSnap (editedQueue E b q s)) = snVolume (ssSnap s)"
  by (simp_all add: editedQueue_def)

lemma invalidate_queue:
  "snUserQueue (ssSnap (snd (invalidatePreloadPlan E b s))) = snUserQueue (ssSnap s)"
  by simp

lemma removeQueuedEntry_shape:
  assumes "0 \<le> indexOfEntryID (snUserQueue (ssSnap s)) entryID"
  shows "\<exists>needs b. removeQueuedEntry E entryID s = finishOp E needs False (cancelPendingRetry (markQueueDirty
    (editedQueue E b (removeAt (nat (indexOfEntryID (snUserQueue (ssSnap s)) entryID))
       (snUserQueue (ssSnap s))) s)))"
proof -
  have "(indexOfEntryID (snUserQueue (ssSnap s)) entryID < 0) = False" using assms by simp
  then show ?thesis
    unfolding removeQueuedEntry_def Let_def case_prod_beta editedQueue_def
    by (simp only: if_False invalidate_queue maybeCancel snap_mutators) (intro exI, rule refl)
qed

lemma moveQueuedEntry_shape:
  assumes "0 \<le> indexOfEntryID (snUserQueue (ssSnap s)) entryID" "0 \<le> j"
    "j < int (length (snUserQueue (ssSnap s)))" "indexOfEntryID (snUserQueue (ssSnap s)) entryID \<noteq> j"
  shows "\<exists>needs b. moveQueuedEntry E entryID j s = finishOp E needs False (cancelPendingRetry (markQueueDirty
    (editedQueue E b (moveInQueue (nat (indexOfEntryID (snUserQueue (ssSnap s)) entryID)) (nat j)
       (snUserQueue (ssSnap s))) s)))"
proof -
  have "(indexOfEntryID (snUserQueue (ssSnap s)) entryID < 0) = False"
    "(j < 0 \<or> int (length (snUserQueue (ssSnap s))) \<le> j) = False"
    "(indexOfEntryID (snUserQueue (ssSnap s)) entryID = j) = False" using assms by simp_all
  then show ?thesis
    unfolding moveQueuedEntry_def Let_def case_prod_beta editedQueue_def
    by (simp only: if_False invalidate_queue maybeCancel snap_mutators) (intro exI, rule refl)
qed

text \<open>
  C34: inserting into the user queue.  When an item is playable, \<open>QueueItems\<close> creates one entry per
  playable item, in order, with consecutive fresh ids; it puts them before the queue for \<open>InsertNext\<close> and
  behind it otherwise, keeps the rest of the queue in order, and returns the resulting queue.  With no
  playable item it changes nothing.
\<close>

theorem queueItems_inserts:
  assumes "queueItems E items0 mode s = (n, err, t)" and "its = normalizeItems items0"
    and "old = snUserQueue (ssSnap s)"
  shows "err = None
     \<and> (its = [] \<longrightarrow> t = s)
     \<and> (its \<noteq> [] \<longrightarrow> keptByEdit s t \<and> snUserQueue n = snUserQueue (ssSnap t)
          \<and> map enItem (snUserQueue (ssSnap t))
            = (if mode = InsertNext then its @ map normalizeSessionItem (map enItem old)
               else map normalizeSessionItem (map enItem old) @ its)
          \<and> map enEntryID (snUserQueue (ssSnap t))
            = (if mode = InsertNext then freshIDs ''queued'' (seqBase s) (length its) @ map enEntryID old
               else map enEntryID old @ freshIDs ''queued'' (seqBase s) (length its))
          \<and> snNextEntrySeq (ssSnap t) = seqBase s + int (length its))"
proof (cases "its = []")
  case True
  with assms show ?thesis by (simp add: queueItems_def unchanged_def)
next
  case False
  let ?s1 = "advanceIntentEpoch s"
  let ?s2 = "if transportTransitionInvalidatedByQueueMutation [] False False zeroSourceIdentity
                       (mode = InsertNext) ?s1 then cancelTransportTransition ?s1 else ?s1"
  obtain needs s3 where p: "invalidatePreloadPlan E True ?s2 = (needs, s3)" by (rule prod.exhaust)
  obtain es s4 where m: "makeEntries ''queued'' OriginQueued (\<lambda>_. -1) 0 its s3 = (es, s4)"
    by (rule prod.exhaust)
  have s3: "ssSnap s3 = (ssSnap ?s2)\<lparr>snNextPreparation := None\<rparr>"
    using snap_updates(6) [of E True ?s2] p by simp
  note m' = makeEntries_spec [OF m]
  have base: "seqBase s3 = seqBase s" by (simp add: seqBase_def s3)
  have s4: "ssSnap s4 = (ssSnap s3)\<lparr>snNextEntrySeq := seqBase s + int (length its)\<rparr>"
    using m'(5) False base by simp
  have q4: "snUserQueue (ssSnap s4) = old" by (simp add: s4 s3 assms(3))
  let ?q = "if mode = InsertNext then es @ old else old @ es"
  let ?u = "markQueueDirty (setUserQueue ?q s4)"
  have r: "(n, err, t) = finishOp E needs False ?u"
    using assms(1) False p m q4 by (simp add: queueItems_def Let_def assms(2) [symmetric] cong: if_cong)
  have n: "n = fst (finishOp E needs False ?u)" "err = None" "t = snd (snd (finishOp E needs False ?u))"
    using arg_cong [OF r, of fst] arg_cong [OF r, of "\<lambda>x. fst (snd x)"] arg_cong [OF r, of "\<lambda>x. snd (snd x)"]
    by simp_all
  have items: "map normalizeSessionItem its = its"
  proof -
    have "list_all playableItem its" unfolding assms(2) by (rule normalizeItems_playable)
    then show ?thesis by (induction its) (auto simp: normalizeSessionItem_playable)
  qed
  have es: "map (normalizeSessionItem \<circ> enItem) es = its" using items m'(1) by (metis map_map)
  have kept: "keptByEdit s t" unfolding n(3) by (rule finish_kept) (simp_all add: s4 s3)
  have seq: "snNextEntrySeq (ssSnap t) = seqBase s + int (length its)"
    unfolding n(3) by (simp add: touch_fields s4) (simp add: seqBase_def)
  show ?thesis
    using False kept seq m'(2) base es
    unfolding n(2) n(1) n(3) touchedQueue by (simp add: comp_def)
qed

theorem queueItems_inserts_witness:
  "case queueItems sampleEnv [sampleItem ''a''] InsertNext sampleSession of (n, err, t) \<Rightarrow>
     err = None \<and> map enEntryID (snUserQueue (ssSnap t)) = [''queued-10'', ''q1'', ''q2'']"
proof -
  obtain n err t where r: "queueItems sampleEnv [sampleItem ''a''] InsertNext sampleSession = (n, err, t)"
    by (metis prod.exhaust)
  have "normalizeItems [sampleItem ''a''] = [sampleItem ''a'']"
    "map enEntryID (snUserQueue (ssSnap sampleSession)) = [''q1'', ''q2'']"
    "freshIDs ''queued'' (seqBase sampleSession) 1 = [''queued-10'']" by code_simp+
  with queueItems_inserts [OF r refl refl] r show ?thesis by simp
qed

text \<open>
  Removing from the user queue.  \<open>RemoveQueuedEntry\<close> takes out the first entry with the given id
  and keeps the others in order; the retry of a pending entry is cancelled.  For an id that is not in the
  queue it returns an error and the session is unchanged.
\<close>

theorem removeQueuedEntry_removes:
  assumes "removeQueuedEntry E entryID s = (n, err, t)" and "q = snUserQueue (ssSnap s)"
    and "i = indexOfEntryID q entryID"
  shows "(i < 0 \<longleftrightarrow> trimSpace entryID \<notin> set (map enEntryID q))
     \<and> (i < 0 \<longrightarrow> err = Some (OtherError (''queued entry '' @ trimSpace entryID @ '' not found'')) \<and> t = s)
     \<and> (0 \<le> i \<longrightarrow> err = None \<and> keptByEdit s t \<and> \<not> ssPendingArmed t
          \<and> enEntryID (q ! nat i) = trimSpace entryID
          \<and> trimSpace entryID \<notin> set (map enEntryID (take (nat i) q))
          \<and> snUserQueue (ssSnap t) = map normalizeQueuedEntry (take (nat i) q @ drop (Suc (nat i)) q))"
proof -
  have absent: "i < 0 \<longleftrightarrow> trimSpace entryID \<notin> set (map enEntryID q)"
    by (simp add: assms(3) indexOfEntryID_def Let_def indexWhere_neg image_iff) metis
  show ?thesis
  proof (cases "i < 0")
    case True
    with assms absent show ?thesis by (simp add: removeQueuedEntry_def failed_def)
  next
    case False
    then have at: "enEntryID (q ! nat i) = trimSpace entryID" "nat i < length q"
      using indexWhere_nth [of "\<lambda>e. enEntryID e = trimSpace entryID" q]
        indexWhere_bounds [of "\<lambda>e. enEntryID e = trimSpace entryID" q]
      by (auto simp: assms(3) indexOfEntryID_def Let_def)
    have "enEntryID (q ! k) \<noteq> trimSpace entryID" if "k < nat i" for k
      using indexWhere_first [of "\<lambda>e. enEntryID e = trimSpace entryID" q k] False that
      by (simp add: assms(3) indexOfEntryID_def Let_def)
    then have first: "trimSpace entryID \<notin> set (map enEntryID (take (nat i) q))"
      using at(2) by (fastforce simp: in_set_conv_nth)
    obtain needs b where f: "removeQueuedEntry E entryID s
        = finishOp E needs False (cancelPendingRetry (markQueueDirty (editedQueue E b (removeAt (nat i) q) s)))"
      using removeQueuedEntry_shape [of s entryID E] False assms(2,3) by auto
    define u where "u = editedQueue E b (removeAt (nat i) q) s"
    have u: "(n, err, t) = finishOp E needs False (cancelPendingRetry (markQueueDirty u))"
      using assms(1) by (simp add: f u_def)
    have q: "snUserQueue (ssSnap u) = removeAt (nat i) q"
      and k: "snCurrentEntry (ssSnap u) = snCurrentEntry (ssSnap s)"
        "snRepeatMode (ssSnap u) = snRepeatMode (ssSnap s)" "snShuffle (ssSnap u) = snShuffle (ssSnap s)"
        "snVolume (ssSnap u) = snVolume (ssSnap s)"
      by (simp_all add: u_def)
    have t: "err = None" "t = snd (snd (finishOp E needs False (cancelPendingRetry (markQueueDirty u))))"
      using arg_cong [OF u, of "\<lambda>x. fst (snd x)"] arg_cong [OF u, of "\<lambda>x. snd (snd x)"] by simp_all
    have "keptByEdit s t" unfolding t(2) by (rule finish_kept) (simp_all add: k)
    moreover have "\<not> ssPendingArmed t"
      unfolding t(2) using kernel_finish [of E needs False "cancelPendingRetry (markQueueDirty u)"]
      by (simp add: kernelOf_def cancelPendingRetry_def)
    moreover have "snUserQueue (ssSnap t)
        = map normalizeQueuedEntry (take (nat i) q @ drop (Suc (nat i)) q)"
      unfolding t(2) touchedQueue by (simp add: q removeAt_def)
    ultimately show ?thesis using False absent at first t(1) by simp
  qed
qed

theorem removeQueuedEntry_removes_witness:
  "case removeQueuedEntry sampleEnv '' q1 '' sampleSession of (n, err, t) \<Rightarrow>
     err = None \<and> map enEntryID (snUserQueue (ssSnap t)) = [''q2'']"
proof -
  obtain n err t where r: "removeQueuedEntry sampleEnv '' q1 '' sampleSession = (n, err, t)"
    by (metis prod.exhaust)
  have i: "indexOfEntryID (snUserQueue (ssSnap sampleSession)) '' q1 '' = 0"
    "snUserQueue (ssSnap sampleSession) = [queued ''q1'', queued ''q2'']" by code_simp+
  show ?thesis
    using removeQueuedEntry_removes [OF r refl refl] r i by (simp add: queued_def sampleEntry_def)
qed

lemma removeAt_map: "removeAt i (map f xs) = map f (removeAt i xs)"
  by (simp add: removeAt_def take_map drop_map)

lemma indexOfEntryID_nth:
  "0 \<le> indexOfEntryID q k \<Longrightarrow> nat (indexOfEntryID q k) < length q"
  using indexWhere_bounds [of "\<lambda>e. enEntryID e = trimSpace k" q]
  by (auto simp: indexOfEntryID_def Let_def)

lemma mset_moveInQueue:
  "i < length xs \<Longrightarrow> mset (moveInQueue i j xs) = mset xs"
  by (simp add: moveInQueue_def mset_removeAt)

lemma moveInQueue_at:
  "i < length xs \<Longrightarrow> j < length xs \<Longrightarrow> moveInQueue i j xs ! j = xs ! i"
  by (simp add: moveInQueue_def insertAt_def nth_append length_removeAt)

text \<open>
  Moving within the user queue.  \<open>MoveQueuedEntry\<close> puts the entry with the given id at the target
  position and permutes nothing else: the others keep their relative order.  An unknown id or a
  position outside the queue is an error, and then, as when the entry is there already, the session is
  unchanged.
\<close>

theorem moveQueuedEntry_moves:
  assumes "moveQueuedEntry E entryID j s = (n, err, t)" and "q = snUserQueue (ssSnap s)"
    and "i = indexOfEntryID q entryID"
  shows "(i < 0 \<or> j < 0 \<or> int (length q) \<le> j \<longrightarrow> err \<noteq> None \<and> t = s)
     \<and> (0 \<le> i \<and> i = j \<longrightarrow> err = None \<and> t = s)
     \<and> (0 \<le> i \<and> 0 \<le> j \<and> j < int (length q) \<and> i \<noteq> j \<longrightarrow>
          err = None \<and> keptByEdit s t \<and> mset (snUserQueue (ssSnap t)) = mset (map normalizeQueuedEntry q)
          \<and> snUserQueue (ssSnap t) ! nat j = normalizeQueuedEntry (q ! nat i)
          \<and> removeAt (nat j) (snUserQueue (ssSnap t)) = map normalizeQueuedEntry (removeAt (nat i) q))"
proof (cases "0 \<le> i \<and> 0 \<le> j \<and> j < int (length q) \<and> i \<noteq> j")
  case False
  have "0 \<le> i \<Longrightarrow> nat i < length q" using indexOfEntryID_nth [of q entryID] assms(3) by simp
  with False assms show ?thesis
    by (auto simp: moveQueuedEntry_def failed_def unchanged_def Let_def split: if_splits)
next
  case True
  have at: "nat i < length q" "nat j < length q"
    using indexOfEntryID_nth [of q entryID] assms(3) True by auto
  obtain needs b where f: "moveQueuedEntry E entryID j s
      = finishOp E needs False (cancelPendingRetry (markQueueDirty (editedQueue E b (moveInQueue (nat i) (nat j) q) s)))"
    using moveQueuedEntry_shape [of s entryID j E] True assms(2,3) by auto
  define u where "u = editedQueue E b (moveInQueue (nat i) (nat j) q) s"
  have u: "(n, err, t) = finishOp E needs False (cancelPendingRetry (markQueueDirty u))"
    using assms(1) by (simp add: f u_def)
  have qu: "snUserQueue (ssSnap u) = moveInQueue (nat i) (nat j) q"
    and k: "snCurrentEntry (ssSnap u) = snCurrentEntry (ssSnap s)"
      "snRepeatMode (ssSnap u) = snRepeatMode (ssSnap s)" "snShuffle (ssSnap u) = snShuffle (ssSnap s)"
      "snVolume (ssSnap u) = snVolume (ssSnap s)"
    by (simp_all add: u_def)
  have t: "err = None" "t = snd (snd (finishOp E needs False (cancelPendingRetry (markQueueDirty u))))"
    using arg_cong [OF u, of "\<lambda>x. fst (snd x)"] arg_cong [OF u, of "\<lambda>x. snd (snd x)"] by simp_all
  have q: "snUserQueue (ssSnap t) = map normalizeQueuedEntry (moveInQueue (nat i) (nat j) q)"
    unfolding t(2) touchedQueue by (simp add: qu)
  have l: "length (removeAt (nat i) q) = length q - 1" "length (moveInQueue (nat i) (nat j) q) = length q"
    using at by (auto simp: length_removeAt moveInQueue_def insertAt_def)
  have "removeAt (nat j) (moveInQueue (nat i) (nat j) q) = removeAt (nat i) q"
    using at l(1) by (simp add: moveInQueue_def removeAt_def [of "nat j"] insertAt_def)
  then have r: "removeAt (nat j) (snUserQueue (ssSnap t)) = map normalizeQueuedEntry (removeAt (nat i) q)"
    unfolding q removeAt_map by simp
  have "keptByEdit s t" unfolding t(2) by (rule finish_kept) (simp_all add: k)
  moreover have "mset (snUserQueue (ssSnap t)) = mset (map normalizeQueuedEntry q)"
    unfolding q using mset_moveInQueue [OF at(1), of "nat j"] by simp
  moreover have "snUserQueue (ssSnap t) ! nat j = normalizeQueuedEntry (q ! nat i)"
    unfolding q using at l moveInQueue_at [OF at] by simp
  ultimately show ?thesis using True t(1) r by simp
qed

theorem moveQueuedEntry_moves_witness:
  "case moveQueuedEntry sampleEnv ''q1'' 1 sampleSession of (n, err, t) \<Rightarrow>
     err = None \<and> snUserQueue (ssSnap t) ! 1 = normalizeQueuedEntry (queued ''q1'')"
proof -
  obtain n err t where r: "moveQueuedEntry sampleEnv ''q1'' 1 sampleSession = (n, err, t)"
    by (metis prod.exhaust)
  have i: "indexOfEntryID (snUserQueue (ssSnap sampleSession)) ''q1'' = 0"
    "snUserQueue (ssSnap sampleSession) = [queued ''q1'', queued ''q2'']" by code_simp+
  show ?thesis using moveQueuedEntry_moves [OF r refl refl] r i by simp
qed

end
