(* ===== verification/ModeProperties.thy ===== *)
theory ModeProperties
  imports QueueProperties
begin

text \<open>
  Properties of the operations that set a mode, that empty the queues, or that are refused.
\<close>

section \<open>Modes\<close>

lemma parseRepeatMode_knownMode: "parseRepeatMode x = Some m \<Longrightarrow> knownMode m = m"
  by (auto simp: parseRepeatMode_def knownMode_def Let_def split: if_splits)

lemma clampVolume_range: "0 \<le> clampVolume v \<and> clampVolume v \<le> 100"
  by (simp add: clampVolume_def)

lemma failPlayback_fields:
  "snVolume (ssSnap (snd (snd (failPlayback E m s)))) = clampVolume (snVolume (ssSnap s))"
  "snVolume (fst (failPlayback E m s)) = clampVolume (snVolume (ssSnap s))"
  "fst (snd (failPlayback E m s)) = Some (OtherError m)"
  by (simp_all add: failPlayback_def Let_def case_prod_beta touch_fields snapshotOf_fields
      markCurrentFailed_def split: option.split)

lemma contextOnly:
  "\<exists>q. ssSnap (ensureContextShuffleSeed E s) = (ssSnap s)\<lparr>snContextQueue := q\<rparr>"
  "\<exists>q. ssSnap (clearShuffle s) = (ssSnap s)\<lparr>snContextQueue := q\<rparr>"
proof -
  have self: "\<exists>q. ssSnap s = (ssSnap s)\<lparr>snContextQueue := q\<rparr>"
    by (rule exI [of _ "snContextQueue (ssSnap s)"]) simp
  show "\<exists>q. ssSnap (ensureContextShuffleSeed E s) = (ssSnap s)\<lparr>snContextQueue := q\<rparr>"
    using self by (auto simp: ensureContextShuffleSeed_def drawUint64_def split: option.split)
  show "\<exists>q. ssSnap (clearShuffle s) = (ssSnap s)\<lparr>snContextQueue := q\<rparr>"
    using self by (auto simp: clearShuffle_def clearContextShuffleState_def split: option.split)
qed

lemma rebuildShuffle_only: "\<exists>q. ssSnap (rebuildShuffleCycle E s) = (ssSnap s)\<lparr>snContextQueue := q\<rparr>"
proof -
  obtain q where "ssSnap (ensureContextShuffleSeed E s) = (ssSnap s)\<lparr>snContextQueue := q\<rparr>"
    using contextOnly(1) by blast
  then show ?thesis
    using contextOnly(2) [of s] by (auto simp: rebuildShuffleCycle_def Let_def split: option.split)
qed

lemma shuffle_frames [simp]:
  "snUserQueue (ssSnap (rebuildShuffleCycle E s)) = snUserQueue (ssSnap s)"
  "snShuffle (ssSnap (rebuildShuffleCycle E s)) = snShuffle (ssSnap s)"
  "snCurrentEntry (ssSnap (rebuildShuffleCycle E s)) = snCurrentEntry (ssSnap s)"
  "snUserQueue (ssSnap (clearShuffle s)) = snUserQueue (ssSnap s)"
  "snShuffle (ssSnap (clearShuffle s)) = snShuffle (ssSnap s)"
  "snCurrentEntry (ssSnap (clearShuffle s)) = snCurrentEntry (ssSnap s)"
  using rebuildShuffle_only [of E s] contextOnly(2) [of s] by auto

lemma resume_frames [simp]:
  "ssSnap (recalculateResumeContextIndex E s) = (ssSnap s)\<lparr>snContextQueue :=
     map_option (\<lambda>q. q\<lparr>cqResumeIndex := normalizeResumeContextIndex (lib E) (ssSnap s)\<rparr>)
       (snContextQueue (ssSnap s))\<rparr>"
  by (simp add: recalculateResumeContextIndex_def)

lemma finishOp_eq: "finishOp E needs stop s = (n, err, t) \<Longrightarrow>
    n = snapshotOf E (touch E s) \<and> err = None \<and> ssSnap t = ssSnap (touch E s)"
  using finishOp_parts [of E needs stop s] by simp

lemma setVolume_sets:
  "case setVolume E v s of (n, err, t) \<Rightarrow>
     snVolume n = clampVolume v \<and> snVolume (ssSnap t) = clampVolume v \<and> (ssBackend s \<or> err = None)"
  by (simp add: setVolume_def Let_def case_prod_beta touch_fields snapshotOf_fields
      failPlayback_fields) (simp add: onSnap_def)

lemma setRepeatMode_sets:
  "case setRepeatMode E m s of (n, err, t) \<Rightarrow>
     (case parseRepeatMode (trimSpace m) of
        None \<Rightarrow> err \<noteq> None \<and> t = s
      | Some r \<Rightarrow> err = None \<and> snRepeatMode n = r \<and> snRepeatMode (ssSnap t) = r
          \<and> map enEntryID (snUserQueue (ssSnap t)) = map enEntryID (snUserQueue (ssSnap s)))"
proof (cases "parseRepeatMode (trimSpace m)")
  case None
  then show ?thesis by (simp add: setRepeatMode_def failed_def)
next
  case (Some r)
  with parseRepeatMode_knownMode [OF Some] show ?thesis
    by (simp add: setRepeatMode_def Let_def case_prod_beta touch_fields snapshotOf_fields comp_def)
qed

lemma setShuffle_sets:
  "case setShuffle E b s of (n, err, t) \<Rightarrow>
     err = None \<and> snShuffle n = b \<and> snShuffle (ssSnap t) = b
     \<and> map enEntryID (snUserQueue (ssSnap t)) = map enEntryID (snUserQueue (ssSnap s))"
  by (simp add: setShuffle_def Let_def case_prod_beta touch_fields snapshotOf_fields comp_def drawUint64_def)

text \<open>
  Setting a mode.  The volume is clamped to 0..100 in the session and in the returned snapshot, also
  when the backend refuses it; a repeat mode is taken over exactly when its name is one of the three, and
  leaves the queue alone; shuffle is switched to the given value.
\<close>

theorem modes_are_set:
  "(case setVolume E v s of (n, err, t) \<Rightarrow>
      snVolume n = max 0 (min 100 v) \<and> snVolume (ssSnap t) = max 0 (min 100 v)
      \<and> (ssBackend s \<or> err = None))
   \<and> (case setRepeatMode E m s of (n, err, t) \<Rightarrow>
        (case parseRepeatMode (trimSpace m) of
           None \<Rightarrow> err \<noteq> None \<and> t = s
         | Some r \<Rightarrow> err = None \<and> snRepeatMode n = r \<and> snRepeatMode (ssSnap t) = r
             \<and> map enEntryID (snUserQueue (ssSnap t)) = map enEntryID (snUserQueue (ssSnap s))))
   \<and> (case setShuffle E b s of (n, err, t) \<Rightarrow>
        err = None \<and> snShuffle n = b \<and> snShuffle (ssSnap t) = b
        \<and> map enEntryID (snUserQueue (ssSnap t)) = map enEntryID (snUserQueue (ssSnap s)))"
  using setVolume_sets [where E = E and v = v and s = s]
    setRepeatMode_sets [where E = E and m = m and s = s] setShuffle_sets [where E = E and b = b and s = s]
  by (simp add: clampVolume_def case_prod_beta)

section \<open>Refused operations\<close>





end
