(* ===== verification/PlayLaws.thy ===== *)
theory PlayLaws
  imports OpLaws
begin

text \<open>
  What playing an entry leaves behind: status and position of a normalised snapshot, the session that
  \<open>playEntry\<close> works on, and its branches as equations.
\<close>

section \<open>Status and position of a normalised snapshot\<close>

definition knownStatus :: "Status \<Rightarrow> Status" where
  "knownStatus st = (case st of StatusOther _ \<Rightarrow> StatusIdle | k \<Rightarrow> k)"

definition cappedBy :: "int option \<Rightarrow> int \<Rightarrow> int" where
  "cappedBy d p = (case d of None \<Rightarrow> p | Some m \<Rightarrow> min p m)"

lemma knownStatus_simps [simp]:
  "knownStatus StatusPlaying = StatusPlaying" "knownStatus StatusPaused = StatusPaused"
  "knownStatus StatusPending = StatusPending" "knownStatus StatusIdle = StatusIdle"
  "knownStatus (knownStatus st) = knownStatus st"
  by (simp_all add: knownStatus_def split: Status.split)

lemma cappedBy_idem [simp]: "cappedBy d (cappedBy d p) = cappedBy d p"
  by (simp add: cappedBy_def split: option.split)

text \<open>The fields that the stages after \<open>normalizeCurrent\<close> leave alone while an entry is current.\<close>

lemma later_stages:
  assumes "snCurrentEntry s \<noteq> None"
  shows "snStatus (normalizeDerived L (normalizeIdle (normalizePosition (normalizeContextState L
      (normalizeLoading s))))) = snStatus s"
    "snDurationMS (normalizeDerived L (normalizeIdle (normalizePosition (normalizeContextState L
      (normalizeLoading s))))) = snDurationMS s"
    "snPositionMS (normalizeDerived L (normalizeIdle (normalizePosition (normalizeContextState L
      (normalizeLoading s))))) = cappedBy (snDurationMS s) (snPositionMS s)"
proof -
  have l: "snStatus (normalizeLoading s) = snStatus s" "snDurationMS (normalizeLoading s) = snDurationMS s"
    "snPositionMS (normalizeLoading s) = snPositionMS s"
    by (simp_all add: normalizeLoading_def Let_def split: option.split)
  have c: "snStatus (normalizeContextState L t) = snStatus t"
    "snDurationMS (normalizeContextState L t) = snDurationMS t"
    "snPositionMS (normalizeContextState L t) = snPositionMS t" for t
    by (simp_all add: normalizeContextState_def clearContextShuffleState_def Let_def split: option.split)
  have p: "snStatus (normalizePosition t) = snStatus t" "snDurationMS (normalizePosition t) = snDurationMS t"
    "snPositionMS (normalizePosition t) = cappedBy (snDurationMS t) (snPositionMS t)" for t
    by (simp_all add: normalizePosition_def cappedBy_def split: option.split)
  have i: "normalizeIdle t = t" if "snCurrentEntry t \<noteq> None" for t
    using that by (cases rule: idle_cases [of t]) auto
  have n: "snCurrentEntry (normalizePosition (normalizeContextState L (normalizeLoading s))) \<noteq> None"
    using assms stages_entries [unfolded sameEntries_def] by (simp add: loading_entries)
  have d: "snDurationMS (normalizeDerived L t) = snDurationMS t" for t
    unfolding normalizeDerived_def Let_def by (simp split: option.split)
  show "snStatus (normalizeDerived L (normalizeIdle (normalizePosition (normalizeContextState L
      (normalizeLoading s))))) = snStatus s"
    "snDurationMS (normalizeDerived L (normalizeIdle (normalizePosition (normalizeContextState L
      (normalizeLoading s))))) = snDurationMS s"
    "snPositionMS (normalizeDerived L (normalizeIdle (normalizePosition (normalizeContextState L
      (normalizeLoading s))))) = cappedBy (snDurationMS s) (snPositionMS s)"
    by (simp_all add: i [OF n] derived_fields d p c l)
qed

definition durationFor :: "SessionEntry \<Rightarrow> int option \<Rightarrow> int option" where
  "durationFor e d = (if d = None then currentDuration (Some (normalizeSessionItem (enItem e))) else d)"

lemma normalize_playing:
  assumes "snCurrentEntry s = Some e"
  shows "snStatus (normalizeSnapshot L s) = knownStatus (snStatus s)"
    "snDurationMS (normalizeSnapshot L s) = durationFor e (snDurationMS s)"
    "snPositionMS (normalizeSnapshot L s) = cappedBy (durationFor e (snDurationMS s)) (snPositionMS s)"
proof -
  let ?q = "normalizeQueues L (normalizeScalars L s)"
  have q: "snCurrentEntry ?q = Some e" "snStatus ?q = knownStatus (snStatus s)"
    "snDurationMS ?q = snDurationMS s" "snPositionMS ?q = snPositionMS s"
    by (simp_all add: normalizeQueues_def normalizeScalars_def knownStatus_def assms)
  have c: "snCurrentEntry (normalizeCurrent ?q) \<noteq> None" by (simp add: current_entries q)
  have d: "snStatus (normalizeCurrent ?q) = knownStatus (snStatus s)"
    "snDurationMS (normalizeCurrent ?q) = durationFor e (snDurationMS s)"
    "snPositionMS (normalizeCurrent ?q) = snPositionMS s"
    by (simp_all add: normalizeCurrent_def q durationFor_def Let_def)
  show "snStatus (normalizeSnapshot L s) = knownStatus (snStatus s)"
    "snDurationMS (normalizeSnapshot L s) = durationFor e (snDurationMS s)"
    "snPositionMS (normalizeSnapshot L s) = cappedBy (durationFor e (snDurationMS s)) (snPositionMS s)"
    unfolding normalizeSnapshot_def using later_stages [OF c] d by simp_all
qed

text \<open>An entry that loads while nothing is current makes the session pending.\<close>

lemma normalize_pending:
  assumes "snCurrentEntry s = None" "snLoadingEntry s \<noteq> None"
  shows "snStatus (normalizeSnapshot L s) = StatusPending"
proof -
  let ?q = "normalizePosition (normalizeContextState L (normalizeLoading (normalizeCurrent
    (normalizeQueues L (normalizeScalars L s)))))"
  have "snCurrentEntry ?q = None \<and> snLoadingEntry ?q \<noteq> None"
    using assms stages_entries [unfolded sameEntries_def]
    by (simp add: loading_entries current_entries normalizeQueues_def normalizeScalars_def)
  then have "snStatus (normalizeIdle ?q) = StatusPending"
    by (cases rule: idle_cases [of ?q]) auto
  then show ?thesis by (simp add: normalizeSnapshot_def derived_fields)
qed

lemma touch_playing:
  assumes "snCurrentEntry (ssSnap s) = Some e"
  shows "snStatus (ssSnap (touch E s)) = knownStatus (snStatus (ssSnap s))"
    "snDurationMS (ssSnap (touch E s)) = durationFor e (snDurationMS (ssSnap s))"
    "snPositionMS (ssSnap (touch E s))
      = cappedBy (durationFor e (snDurationMS (ssSnap s))) (snPositionMS (ssSnap s))"
  using assms by (simp_all add: touch_snap touchedSnap_def normalize_playing)

lemma touch_pending:
  assumes "snCurrentEntry (ssSnap s) = None" "snLoadingEntry (ssSnap s) \<noteq> None"
  shows "snStatus (ssSnap (touch E s)) = StatusPending"
  using assms by (simp add: touch_snap touchedSnap_def normalize_pending)

lemma durationFor_idem [simp]: "durationFor (normalEntry e) (durationFor e d) = durationFor e d"
  by (simp add: durationFor_def normalizeSessionItem_idem)

lemma snapshotOf_playing:
  assumes "snCurrentEntry (ssSnap s) = Some e"
  shows "snStatus (snapshotOf E s) = knownStatus (snStatus (ssSnap s))"
    "snPositionMS (snapshotOf E s)
      = cappedBy (durationFor e (snDurationMS (ssSnap s))) (snPositionMS (ssSnap s))"
  using assms by (simp_all add: snapshotOf_def snapshotCopy_def Let_def normalize_playing)

lemma snapshotOf_pending:
  assumes "snCurrentEntry (ssSnap s) = None" "snLoadingEntry (ssSnap s) \<noteq> None"
  shows "snStatus (snapshotOf E s) = StatusPending"
  using assms by (simp add: snapshotOf_def snapshotCopy_def Let_def normalize_pending)

section \<open>The branches of playing an entry\<close>

text \<open>Where \<open>playEntry\<close> starts from once it was decided that nothing preloaded can be activated.\<close>

definition readied :: "env \<Rightarrow> session \<Rightarrow> session" where
  "readied E s =
     (let s1 = cancelTransportTransition (cancelPendingRetry (advanceIntentEpoch s))
      in clearIf E (fst (invalidatePreloadPlan E True s1)) (snd (invalidatePreloadPlan E True s1)))"

definition restoredPosition :: "env \<Rightarrow> SessionEntry \<Rightarrow> SessionEntry option \<Rightarrow> bool \<Rightarrow> session \<Rightarrow> int" where
  "restoredPosition E e previous keep s =
     (case previous of None \<Rightarrow> 0
      | Some p \<Rightarrow> if keep \<and> enEntryID p = enEntryID e then snPositionMS (snapshotOf E s) else 0)"

lemma playEntry_cold:
  assumes "hasCore E" "ssBackend s" "preloadedActivation E e s = None"
  shows "playEntry E e origin i previous keep preserve s
    = playDirect E e origin i keep preserve (restoredPosition E e previous keep s) (readied E s)"
  using assms
  by (simp add: playEntry_def readied_def restoredPosition_def Let_def case_prod_beta split: option.split)

lemma readied_fields:
  "snUserQueue (ssSnap (readied E s)) = snUserQueue (ssSnap s)"
  "snCurrentEntry (ssSnap (readied E s)) = snCurrentEntry (ssSnap s)"
  "snContextQueue (ssSnap (readied E s)) = snContextQueue (ssSnap s)"
  "snStatus (ssSnap (readied E s)) = snStatus (ssSnap s)"
  "ssTransportPending (readied E s) = None" "\<not> ssPendingArmed (readied E s)"
  "ssPreloadedID (readied E s) = ''''" "ssStarted (readied E s) = ssStarted s"
  "ssBackend (readied E s) = ssBackend s"
proof -
  have p: "ssTransportPending (cancelTransportTransition t) = None" for t by simp
  show "snUserQueue (ssSnap (readied E s)) = snUserQueue (ssSnap s)"
    "snCurrentEntry (ssSnap (readied E s)) = snCurrentEntry (ssSnap s)"
    "snContextQueue (ssSnap (readied E s)) = snContextQueue (ssSnap s)"
    "snStatus (ssSnap (readied E s)) = snStatus (ssSnap s)"
    by (simp_all add: readied_def Let_def)
  have k: "kernelOf (readied E s) = kernelOf (cancelTransportTransition (cancelPendingRetry (advanceIntentEpoch s)))"
    by (simp add: readied_def Let_def)
  have c: "ssPendingArmed (cancelTransportTransition t) = ssPendingArmed t"
    "ssStarted (cancelTransportTransition t) = ssStarted t"
    "ssBackend (cancelTransportTransition t) = ssBackend t" for t
    by (simp_all add: cancelTransportTransition_def clearLoadingState_def invalidateNextActionPlan_def
        onSnap_def split: option.split)
  show "ssTransportPending (readied E s) = None" "\<not> ssPendingArmed (readied E s)"
    "ssStarted (readied E s) = ssStarted s" "ssBackend (readied E s) = ssBackend s"
    using kernelD [OF k] by (simp_all add: p c cancelPendingRetry_def advanceIntentEpoch_def)
  show "ssPreloadedID (readied E s) = ''''"
    by (simp add: readied_def clearIf_def clearBackendPreload_def doCall_def invalidatePreloadPlan_def
        invalidateNextActionPlan_def clearNextPreparationState_def clearBackendPreloadFailure_def
        clearNextPreparationRetry_def onSnap_def Let_def)
qed

text \<open>A preparation that is not finished: the entry loads, and the goroutine that polls it is started.\<close>

lemma playPreparing_fields:
  assumes "playPreparing E e preserve st s = (n, err, t)"
    and "replaced = (snCurrentEntry (ssSnap s) = None \<or> \<not> preserve)"
  shows "err = None" "snLoadingEntry n = Some (normalEntry e)" "snUserQueue n = map normalizeQueuedEntry (snUserQueue (ssSnap s))"
    "snCurrentEntry n = (if replaced then None else map_option normalEntry (snCurrentEntry (ssSnap s)))"
    "replaced \<Longrightarrow> snStatus n = StatusPending"
    "\<not> replaced \<Longrightarrow> snStatus n = knownStatus (snStatus (ssSnap s))"
    "ssTransportPending t = ssTransportPending s" "snLoadingEntry (ssSnap t) = Some (normalEntry e)"
    "ssStarted s \<Longrightarrow> ssPendingArmed t \<and> ssPendingEntry t = enEntryID e"
proof -
  define s2 where "s2 = (if replaced
    then stopTicker (setLoaded '''' '''' (onSnap (\<lambda>n. n\<lparr>snDurationMS := None, snCurrentSourceKind := '''',
      snCurrentPreparation := None\<rparr>) (clearAuthoritativePosition (setStatus StatusPending
        (clearCurrent (setLoading e st s))))))
    else setLoading e st s)"
  define s3 where "s3 = clearNextPreparationState (setLastError '''' s2)"
  define s4 where "s4 = startPendingRetry (enEntryID e) (touch E s3)"
  have "playPreparing E e preserve st s = (snapshotOf E s4, None,
      publishSnapshot E (snapshotOf E s4) (if replaced then doCall BStop s4 else s4))"
    unfolding playPreparing_def Let_def assms(2) [symmetric] s4_def s3_def s2_def by (rule refl)
  then have r: "n = snapshotOf E s4" "err = None"
    "t = publishSnapshot E n (if replaced then doCall BStop s4 else s4)"
    using assms(1) by (metis prod.inject)+
  have snap: "ssSnap s4 = ssSnap (touch E s3)" by (simp add: s4_def)
  have c3: "snLoadingEntry (ssSnap s3) = Some e"
    "snCurrentEntry (ssSnap s3) = (if replaced then None else snCurrentEntry (ssSnap s))"
    "snUserQueue (ssSnap s3) = snUserQueue (ssSnap s)"
    "\<not> replaced \<Longrightarrow> snStatus (ssSnap s3) = snStatus (ssSnap s)"
    by (simp_all add: s3_def s2_def clearAuthoritativePosition_def)
  show "err = None" by (rule r(2))
  have "ssSnap t = ssSnap s4" by (simp add: r)
  then show "snLoadingEntry (ssSnap t) = Some (normalEntry e)" by (simp add: snap touch_fields c3)
  show "snLoadingEntry n = Some (normalEntry e)" "snUserQueue n = map normalizeQueuedEntry (snUserQueue (ssSnap s))"
    "snCurrentEntry n = (if replaced then None else map_option normalEntry (snCurrentEntry (ssSnap s)))"
    by (simp_all add: r snapshotOf_fields snap touch_fields c3 option.map_comp comp_def)
  show "snStatus n = StatusPending" if replaced
    unfolding r(1) using that by (intro snapshotOf_pending) (simp_all add: snap touch_fields c3)
  show "snStatus n = knownStatus (snStatus (ssSnap s))" if nr: "\<not> replaced"
  proof -
    from nr assms(2) obtain c where c: "snCurrentEntry (ssSnap s) = Some c" by auto
    then have "snCurrentEntry (ssSnap s3) = Some c" using nr by (simp add: c3)
    moreover have "snCurrentEntry (ssSnap s4) = Some (normalEntry c)" using calculation by (simp add: snap touch_fields)
    ultimately show ?thesis using nr by (simp add: r snapshotOf_playing snap touch_playing c3)
  qed
  have g: "gear t = gear s"
    using gear_playPreparing [of E e preserve st s] assms(1) by simp
  then show "ssTransportPending t = ssTransportPending s" by (simp add: gear_def)
  have started: "ssStarted (touch E s3) = ssStarted s"
    by (simp add: s3_def s2_def stopTicker_def setLoaded_def onSnap_def clearAuthoritativePosition_def
        setStatus_def clearCurrent_def markQueueDirty_def invalidateNextActionPlan_def setLoading_def
        setLastError_def clearNextPreparationState_def clearBackendPreloadFailure_def
        clearNextPreparationRetry_def)
  assume "ssStarted s"
  with started have "ssPendingArmed s4 \<and> ssPendingEntry s4 = enEntryID e"
    by (simp add: s4_def startPendingRetry_def doCall_def Let_def)
  moreover have "kernelOf t = kernelOf s4" by (simp add: r)
  ultimately show "ssPendingArmed t \<and> ssPendingEntry t = enEntryID e"
    using kernelD [of t s4] by simp
qed


text \<open>What becomes current, and what leaves the user queue with it.\<close>

definition queueAfter :: "EntryOrigin \<Rightarrow> int \<Rightarrow> SessionEntry list \<Rightarrow> SessionEntry list" where
  "queueAfter origin i q =
     (if origin = OriginQueued \<and> 0 \<le> i \<and> i < int (length q) then removeAt (nat i) q else q)"

lemma setCurrent_snap [simp]:
  "snCurrentEntry (ssSnap (setCurrent e origin s)) = Some (e\<lparr>enOrigin := origin\<rparr>)"
  "snUserQueue (ssSnap (setCurrent e origin s)) = snUserQueue (ssSnap s)"
  "snLoadingEntry (ssSnap (setCurrent e origin s)) = snLoadingEntry (ssSnap s)"
  "snStatus (ssSnap (setCurrent e origin s)) = snStatus (ssSnap s)"
  by (simp_all add: setCurrent_def Let_def)

lemma switchCurrent_snap:
  "snCurrentEntry (ssSnap (switchCurrent E e origin i keep r s)) = Some (e\<lparr>enOrigin := origin\<rparr>)"
  "snUserQueue (ssSnap (switchCurrent E e origin i keep r s)) = queueAfter origin i (snUserQueue (ssSnap s))"
  "snLoadingEntry (ssSnap (switchCurrent E e origin i keep r s)) = snLoadingEntry (ssSnap s)"
  "snPositionMS (ssSnap (switchCurrent E e origin i keep r s)) = (if keep then r else 0)"
  "snDurationMS (ssSnap (switchCurrent E e origin i keep r s)) = currentDuration (Some (enItem e))"
  "snStatus (ssSnap (switchCurrent E e origin i keep r s)) = snStatus (ssSnap s)"
  by (simp_all add: switchCurrent_def setDuration_def setAuthoritativePosition_def
      setAuthoritativePositionAt_def recalculateResumeContextIndex_def queueAfter_def Let_def)

lemma nowPlaying_snap [simp]:
  "ssSnap (nowPlaying e st uri s) = (ssSnap s)\<lparr>snStatus := StatusPlaying, snLastError := '''',
     snCurrentSourceKind := psSourceKind st,
     snCurrentPreparation := Some \<lparr>epEntryID = enEntryID e, epStatus = st\<rparr>\<rparr>"
  by (simp add: nowPlaying_def)

lemma currentDuration_normal:
  "durationFor (e\<lparr>enOrigin := origin\<rparr>) (currentDuration (Some (enItem e))) = currentDuration (Some (enItem e))"
proof -
  have "itDurationMS (normalizeSessionItem i) = itDurationMS i" for i
    by (simp add: normalizeSessionItem_def identifyItem_def trimItem_def completeItem_def Let_def)
  then show ?thesis by (simp add: durationFor_def currentDuration_def)
qed

lemma playReady_fields:
  assumes "playReady E e origin i keep r st s = (n, err, t)"
    and "u = doCall (BLoad (psPlayableURI st)) s"
    and "v = doCall BPlay (if r > 0 then doCall (BSeekTo r) u else u)"
    and "callFailed E u = None" and "callFailed E v = None"
  shows "err = None" "snCurrentEntry n = Some (normalEntry (e\<lparr>enOrigin := origin\<rparr>))"
    "snLoadingEntry n = None" "snStatus n = StatusPlaying"
    "snUserQueue n = map normalizeQueuedEntry (queueAfter origin i (snUserQueue (ssSnap s)))"
    "snPositionMS n = cappedBy (currentDuration (Some (enItem e))) (if keep then r else 0)"
    "ssLoadedEntryID t = enEntryID e" "ssLoadedURI t = psPlayableURI st" "\<not> ssPendingArmed t"
    "entryName (snCurrentEntry (ssSnap t)) = Some (enEntryID e, origin)"
proof -
  define s5 where "s5 = clearNextPreparationState (nowPlaying e st (psPlayableURI st)
    (switchCurrent E e origin i keep r (clearLoadingState v)))"
  define s6 where "s6 = touch E (ensureTicker (cancelPendingRetry s5))"
  have "playReady E e origin i keep r st s
      = (snapshotOf E s6, None, preloadNext E (publishSnapshot E (snapshotOf E s6) s6))"
    using assms(4,5) unfolding playReady_def Let_def assms(2) [symmetric] assms(3) [symmetric]
      s6_def s5_def by simp
  then have r: "n = snapshotOf E s6" "err = None" "t = preloadNext E (publishSnapshot E n s6)"
    using assms(1) by (metis prod.inject)+
  have c5: "snCurrentEntry (ssSnap s5) = Some (e\<lparr>enOrigin := origin\<rparr>)" "snLoadingEntry (ssSnap s5) = None"
    "snUserQueue (ssSnap s5) = queueAfter origin i (snUserQueue (ssSnap s))"
    "snStatus (ssSnap s5) = StatusPlaying" "snPositionMS (ssSnap s5) = (if keep then r else 0)"
    "snDurationMS (ssSnap s5) = currentDuration (Some (enItem e))"
    by (simp_all add: s5_def switchCurrent_snap assms(2,3))
  have c6: "snCurrentEntry (ssSnap s6) = Some (normalEntry (e\<lparr>enOrigin := origin\<rparr>))"
    "snStatus (ssSnap s6) = StatusPlaying"
    "snDurationMS (ssSnap s6) = currentDuration (Some (enItem e))"
    "snPositionMS (ssSnap s6) = cappedBy (currentDuration (Some (enItem e))) (if keep then r else 0)"
    using c5 by (simp_all add: s6_def touch_fields touch_playing currentDuration_normal)
  show "err = None" by (rule r(2))
  show "snCurrentEntry n = Some (normalEntry (e\<lparr>enOrigin := origin\<rparr>))" "snLoadingEntry n = None"
    "snUserQueue n = map normalizeQueuedEntry (queueAfter origin i (snUserQueue (ssSnap s)))"
    by (simp_all add: r snapshotOf_fields c6 c5 s6_def touch_fields comp_def)
  show "snStatus n = StatusPlaying"
    "snPositionMS n = cappedBy (currentDuration (Some (enItem e))) (if keep then r else 0)"
    using c6 durationFor_idem [of "e\<lparr>enOrigin := origin\<rparr>" "currentDuration (Some (enItem e))"]
    by (simp_all add: r snapshotOf_playing currentDuration_normal)
  have k: "kernelOf t = kernelOf (cancelPendingRetry s5)" by (simp add: r s6_def)
  show "ssLoadedEntryID t = enEntryID e" "ssLoadedURI t = psPlayableURI st" "\<not> ssPendingArmed t"
    "entryName (snCurrentEntry (ssSnap t)) = Some (enEntryID e, origin)"
    using kernelD [OF k]
    by (simp_all add: c5 entryName_def)
      (simp_all add: cancelPendingRetry_def s5_def nowPlaying_def setLoaded_def disarm_def
        clearNextPreparationState_def clearBackendPreloadFailure_def clearNextPreparationRetry_def onSnap_def)
qed

lemma playReady_failed:
  assumes "playReady E e origin i keep r st s = (n, err, t)"
    and "u = doCall (BLoad (psPlayableURI st)) s"
    and "v = doCall BPlay (if r > 0 then doCall (BSeekTo r) u else u)"
    and "callFailed E u \<noteq> None \<or> callFailed E v \<noteq> None"
  shows "err \<noteq> None" "snUserQueue n = map normalizeQueuedEntry (snUserQueue (ssSnap s))"
proof -
  have snap: "ssSnap u = ssSnap s" "ssSnap v = ssSnap s" by (simp_all add: assms(2,3))
  obtain m x where "playReady E e origin i keep r st s = failed E m x" "ssSnap x = ssSnap s"
    using assms(4) snap unfolding playReady_def Let_def assms(2) [symmetric] assms(3) [symmetric]
    by (cases "callFailed E u"; cases "callFailed E v"; simp)
  with assms(1) show "err \<noteq> None" "snUserQueue n = map normalizeQueuedEntry (snUserQueue (ssSnap s))"
    by (auto simp: failed_def snapshotOf_fields)
qed

section \<open>The user queue while no transition is pending\<close>

text \<open>
  Planning works on slices it shares with the session, and changes them only when a transition is
  pending.  Without one, nothing that plans, preloads, samples or publishes touches the user queue.
\<close>

definition settled :: "string list \<Rightarrow> session \<Rightarrow> bool" where
  "settled q s \<longleftrightarrow> ssTransportPending s = None \<and> map enEntryID (snUserQueue (ssSnap s)) = q"

lemma settled_fields [simp]:
  "settled Q (s\<lparr>ssTicks := k\<rparr>) = settled Q s" "settled Q (s\<lparr>ssTrace := a\<rparr>) = settled Q s"
  "settled Q (s\<lparr>ssNextActionPlan := b\<rparr>) = settled Q s" "settled Q (s\<lparr>ssNextActionBuilds := i\<rparr>) = settled Q s"
  "settled Q (s\<lparr>ssAvailabilityCache := c\<rparr>) = settled Q s" "settled Q (s\<lparr>ssRetryEntryID := d\<rparr>) = settled Q s"
  "settled Q (s\<lparr>ssRetryAt := e\<rparr>) = settled Q s" "settled Q (s\<lparr>ssPreloadedID := f\<rparr>) = settled Q s"
  "settled Q (s\<lparr>ssPreloadedURI := g\<rparr>) = settled Q s" "settled Q (s\<lparr>ssBackendPreloadArmed := h\<rparr>) = settled Q s"
  "settled Q (s\<lparr>ssPreloadFailureEntryID := j\<rparr>) = settled Q s"
  "settled Q (s\<lparr>ssPreloadFailureURI := l\<rparr>) = settled Q s" "settled Q (s\<lparr>ssQueueDirty := m\<rparr>) = settled Q s"
  "settled Q (s\<lparr>ssLastTickerPublishAt := n\<rparr>) = settled Q s" "settled Q (s\<lparr>ssTicker := y\<rparr>) = settled Q s"
  "settled Q (s\<lparr>ssRngDraws := r\<rparr>) = settled Q s" "settled Q (s\<lparr>ssIntentEpoch := u\<rparr>) = settled Q s"
  "settled Q (s\<lparr>ssLoadedEntryID := v\<rparr>) = settled Q s" "settled Q (s\<lparr>ssLoadedURI := w\<rparr>) = settled Q s"
  by (simp_all add: settled_def)

lemma settled_snap: "snUserQueue (f (ssSnap s)) = snUserQueue (ssSnap s) \<Longrightarrow> settled Q (onSnap f s) = settled Q s"
  by (simp add: settled_def onSnap_def)

lemma settled_same [simp]:
  "settled Q (doCall c s) = settled Q s" "settled Q (tick s) = settled Q s"
  "settled Q (invalidateNextActionPlan s) = settled Q s" "settled Q (markQueueDirty s) = settled Q s"
  "settled Q (setEntryAvailability k a s) = settled Q s" "settled Q (cacheAvailability E t a x v s) = settled Q s"
  "settled Q (clearNextPreparationRetry s) = settled Q s" "settled Q (clearBackendPreloadFailure s) = settled Q s"
  "settled Q (clearNextPreparationState s) = settled Q s" "settled Q (clearBackendPreload E b s) = settled Q s"
  "settled Q (clearIf E b s) = settled Q s" "settled Q (disarm s) = settled Q s"
  "settled Q (persistSnapshot E n s) = settled Q s" "settled Q (publishSnapshot E n s) = settled Q s"
  "settled Q (scheduleNextPreparationPoll k x s) = settled Q s"
  "settled Q (recordBackendPreloadFailure E k u s) = settled Q s"
  "settled Q (putNextPreparation e st s) = settled Q s" "settled Q (setNextPreparation E e st s) = settled Q s"
  "settled Q (setPreloaded k u s) = settled Q s"
  by (simp_all add: doCall_def tick_def invalidateNextActionPlan_def markQueueDirty_def
      setEntryAvailability_def cacheAvailability_def clearNextPreparationRetry_def
      clearBackendPreloadFailure_def clearNextPreparationState_def clearBackendPreload_def clearIf_def
      disarm_def persistSnapshot_def publishSnapshot_def scheduleNextPreparationPoll_def
      recordBackendPreloadFailure_def putNextPreparation_def setNextPreparation_def setPreloaded_def
      settled_snap Let_def)

lemma settled_touch [simp]: "settled Q (touch E s) = settled Q s"
  by (simp add: settled_def touch_fields comp_def)

lemma settled_planning [simp]:
  "settled Q s \<Longrightarrow> settled Q (snd (planningSnapshot s))" "settled Q s \<Longrightarrow> settled Q (snd (ensureNextActionPlan E s))"
proof -
  assume a: "settled Q s"
  then show p: "settled Q (snd (planningSnapshot s))"
    by (simp add: planningSnapshot_def planningEffect_def settled_def Let_def)
  show "settled Q (snd (ensureNextActionPlan E s))"
    using a p by (simp add: ensureNextActionPlan_def Let_def case_prod_beta split: option.split)
qed

interpretation resting: preload_frame "settled Q" for Q
  by unfold_locales simp_all

lemmas settled_preload [simp] = resting.resolve resting.preload

end
