(* ===== verification/PlayProperties.thy ===== *)
theory PlayProperties
  imports PlayLaws Samples
begin

text \<open>
  Properties of playing: the outcomes of \<open>playEntry\<close>, the confirmation of a transition by the backend,
  and the pending entry that plays once it is prepared.
\<close>

section \<open>Playing an entry\<close>

lemma callFailed_sample [simp]: "callFailed sampleEnv s = None"
  by (simp add: callFailed_def sampleEnv_def)

lemma trimSpace_uri: "trimSpace ''uri'' = ''uri''"
  by code_simp

text \<open>
  C25: what \<open>playEntry\<close> does when nothing preloaded can be activated.  It asks the core to prepare the
  entry.  An error is passed on; while it is being prepared it becomes the loading entry and is polled,
  and the current entry goes on unless it is to be replaced; an entry that cannot be played is refused,
  with the queue and the current entry kept; a prepared entry that the backend loads and plays becomes
  the current one, at the restored position or at the start, and leaves the user queue it came from.
\<close>

theorem playEntry_outcomes:
  assumes "hasCore E" and "ssBackend s" and "preloadedActivation E e s = None"
    and "u = doCall (CPrepareTarget (itTarget (enItem e)) PurposePlayNow) (readied E s)"
    and "st = replyStatus E (ssTrace u)" and "r = restoredPosition E e previous keep s"
    and "v = doCall (BLoad (psPlayableURI st)) u"
    and "w = doCall BPlay (if r > 0 then doCall (BSeekTo r) v else v)"
    and "playEntry E e origin i previous keep preserve s = (n, err, t)"
    and "q = snUserQueue (ssSnap s)" and "current = snCurrentEntry (ssSnap s)"
  shows "if callFailed E u \<noteq> None then err \<noteq> None \<and> snUserQueue n = map normalizeQueuedEntry q
     else if preparing st then
       err = None \<and> snLoadingEntry n = Some (normalEntry e) \<and> snUserQueue n = map normalizeQueuedEntry q
       \<and> (ssStarted s \<longrightarrow> ssPendingArmed t \<and> ssPendingEntry t = enEntryID e)
       \<and> (if current = None \<or> \<not> preserve then snCurrentEntry n = None \<and> snStatus n = StatusPending
          else snCurrentEntry n = map_option normalEntry current
            \<and> snStatus n = knownStatus (snStatus (ssSnap s)))
     else if \<not> readyStatus st then
       err = Some (EntryUnavailable e st) \<and> snUserQueue n = map normalizeQueuedEntry q
       \<and> snCurrentEntry n = map_option normalEntry current
     else if callFailed E v \<noteq> None \<or> callFailed E w \<noteq> None then
       err \<noteq> None \<and> snUserQueue n = map normalizeQueuedEntry q
     else
       err = None \<and> snCurrentEntry n = Some (normalEntry (e\<lparr>enOrigin := origin\<rparr>))
       \<and> snLoadingEntry n = None \<and> snStatus n = StatusPlaying
       \<and> snUserQueue n = map normalizeQueuedEntry (queueAfter origin i q)
       \<and> snPositionMS n = cappedBy (currentDuration (Some (enItem e))) (if keep then r else 0)
       \<and> ssLoadedEntryID t = enEntryID e \<and> ssLoadedURI t = psPlayableURI st"
proof -
  have d: "playDirect E e origin i keep preserve r (readied E s) = (n, err, t)"
    using playEntry_cold [OF assms(1-3), of origin i previous keep preserve] assms(6,9) by simp
  have q: "snUserQueue (ssSnap u) = q" "snCurrentEntry (ssSnap u) = current"
    "snStatus (ssSnap u) = snStatus (ssSnap s)" "ssStarted u = ssStarted s"
    using assms(4,10,11) by (simp_all add: readied_fields) (simp add: doCall_def readied_fields)
  show ?thesis
  proof (cases "callFailed E u")
    case (Some m)
    then have "playDirect E e origin i keep preserve r (readied E s) = (snapshotOf E u, Some (OtherError m), u)"
      by (simp add: playDirect_def assms(4) [symmetric] Let_def failed_def)
    with d Some q show ?thesis by (auto simp: snapshotOf_fields)
  next
    case ok: None
    show ?thesis
    proof (cases "preparing st")
      case True
      then have "playPreparing E e preserve st u = (n, err, t)"
        using d ok by (simp add: playDirect_def assms(4,5) [symmetric] Let_def)
      from playPreparing_fields [OF this refl] show ?thesis using ok True q by auto
    next
      case np: False
      show ?thesis
      proof (cases "readyStatus st")
        case False
        then have "playDirect E e origin i keep preserve r (readied E s)
            = (snapshotOf E u, Some (EntryUnavailable e st), u)"
          using ok np by (simp add: playDirect_def assms(4,5) [symmetric] Let_def)
        with d ok np False q show ?thesis by (auto simp: snapshotOf_fields)
      next
        case True
        then have p: "playReady E e origin i keep r st u = (n, err, t)"
          using d ok np by (simp add: playDirect_def assms(4,5) [symmetric] Let_def)
        show ?thesis
        proof (cases "callFailed E v = None \<and> callFailed E w = None")
          case False
          then have "callFailed E v \<noteq> None \<or> callFailed E w \<noteq> None" by simp
          from playReady_failed [OF p assms(7,8) this] ok np True this q show ?thesis by simp
        next
          case good: True
          from playReady_fields [OF p assms(7,8)] good show ?thesis using ok np True q by simp
        qed
      qed
    qed
  qed
qed

lemma playEntry_outcomes_witness:
  "case playEntry sampleEnv (queued ''q1'') OriginQueued 0 None False True sampleSession of (n, err, t) \<Rightarrow>
     err = None \<and> snStatus n = StatusPlaying \<and> map enEntryID (snUserQueue n) = [''q2'']
     \<and> snPositionMS n = 0 \<and> ssLoadedURI t = ''uri''"
proof -
  have a: "hasCore sampleEnv" "ssBackend sampleSession"
    "preloadedActivation sampleEnv (queued ''q1'') sampleSession = None"
    by (simp_all add: sampleEnv_def sampleSession_def newSession_def preloadedActivation_def)
  obtain n err t where p: "playEntry sampleEnv (queued ''q1'') OriginQueued 0 None False True sampleSession
      = (n, err, t)" by (metis prod.exhaust)
  have st: "replyStatus sampleEnv x = readyAt ''uri''" for x by (simp add: sampleEnv_def)
  have r: "readyStatus (readyAt ''uri'')" "\<not> preparing (readyAt ''uri'')"
    by (simp_all add: readyStatus_def preparing_def readyAt_def trimSpace_uri)
  have q: "snUserQueue (ssSnap sampleSession) = [queued ''q1'', queued ''q2'']"
    by (simp add: sampleSession_def sampleSnapshot_def)
  show ?thesis
    using playEntry_outcomes [OF a refl refl refl refl refl p refl refl]
    by (simp add: st r p q queueAfter_def removeAt_def cappedBy_def) (simp add: readyAt_def queued_def sampleEntry_def currentDuration_def sampleItem_def)
qed

section \<open>The backend confirms a transition\<close>




section \<open>The end of a track\<close>









end
