(* ===== verification/PendingProperties.thy ===== *)
theory PendingProperties
  imports PlayLaws Samples
begin

text \<open>
  Properties of the goroutine that polls an entry being prepared: when it goes on, when the entry plays,
  and the branch that leaves a new entry without a poll.
\<close>

text \<open>The session after the reply of a poll was recorded.\<close>

definition polled :: "env \<Rightarrow> SessionEntry \<Rightarrow> session \<Rightarrow> session" where
  "polled E e s =
     (let u = doCall (CGetPreparation (itTarget (enItem e))) s
      in touch E (onSnap (\<lambda>n. n\<lparr>snLoadingPreparation :=
           Some \<lparr>epEntryID = enEntryID e, epStatus = replyStatus E (ssTrace u)\<rparr>\<rparr>) u))"

definition pollReply :: "env \<Rightarrow> SessionEntry \<Rightarrow> session \<Rightarrow> PreparationStatus" where
  "pollReply E e s = replyStatus E (ssTrace (doCall (CGetPreparation (itTarget (enItem e))) s))"

definition pollFailed :: "env \<Rightarrow> SessionEntry \<Rightarrow> session \<Rightarrow> bool" where
  "pollFailed E e s \<longleftrightarrow> callFailed E (doCall (CGetPreparation (itTarget (enItem e))) s) \<noteq> None"

lemma kernel_polled [simp]: "kernelOf (polled E e s) = kernelOf s"
  by (simp add: polled_def Let_def kernel_snap)

lemma tryPending_reply:
  assumes "pendingIs k (enEntryID e) s" and "snLoadingEntry (ssSnap s) = Some e" and "hasCore E"
    and "\<not> pollFailed E e s"
  shows "tryPendingPlayback E k (enEntryID e) s =
     (if preparing (pollReply E e s) then Some (False, polled E e s)
      else if \<not> readyStatus (pollReply E e s) then
        map_option (\<lambda>(_, err, s3).
            (True, disarmPending (case err of None \<Rightarrow> s3 | Some er \<Rightarrow> failPendingPlayback E er s3)))
          (playNextAvailable E None False (snCurrentEntry (ssSnap (polled E e s)) \<noteq> None) [] []
             (snCurrentEntry (ssSnap (polled E e s)) = None) (polled E e s))
      else (case completePendingPlayback E e (pollReply E e s) (polled E e s) of
          (None, s3) \<Rightarrow> Some (True, s3)
        | (Some err, s3) \<Rightarrow>
            Some (True, if pendingIs k (enEntryID e) (failPendingPlayback E err s3)
              then disarmPending (failPendingPlayback E err s3) else failPendingPlayback E err s3)))"
  using assms
  by (simp add: tryPendingPlayback_def pollFailed_def pollReply_def polled_def Let_def
      cong: option.case_cong if_cong)

lemma refresh_snap:
  assumes "snCurrentEntry (ssSnap s) = Some e"
  shows "snCurrentEntry (ssSnap (snd (refreshPosition E s))) \<noteq> None"
    "snStatus (ssSnap (snd (refreshPosition E s))) = (if ssBackend s then knownStatus (snStatus (ssSnap s))
       else snStatus (ssSnap s))"
proof -
  have "\<exists>u. snd (refreshPosition E s) = (if ssBackend s then touch E u else s)
      \<and> snCurrentEntry (ssSnap u) = Some e \<and> snStatus (ssSnap u) = snStatus (ssSnap s)"
  proof (cases "ssBackend s")
    case False
    then show ?thesis using assms by (auto simp: refreshPosition_def)
  next
    case True
    then show ?thesis
      unfolding refreshPosition_def Let_def
      by (auto simp: assms setDuration_def setAuthoritativePositionAt_def)
  qed
  then show "snCurrentEntry (ssSnap (snd (refreshPosition E s))) \<noteq> None"
    "snStatus (ssSnap (snd (refreshPosition E s))) = (if ssBackend s then knownStatus (snStatus (ssSnap s))
       else snStatus (ssSnap s))"
    using assms by (auto simp: touch_fields touch_playing)
qed

lemma completePending_plays:
  assumes "ssBackend s" and "readyStatus st" and "l = doCall (BLoad (psPlayableURI st)) s"
    and "callFailed E l = None" and "callFailed E (doCall BPlay l) = None"
  shows "\<exists>t. completePendingPlayback E e st s = (None, t)
     \<and> entryName (snCurrentEntry (ssSnap t)) = Some (enEntryID e, enOrigin e)
     \<and> snLoadingEntry (ssSnap t) = None \<and> snStatus (ssSnap t) = StatusPlaying
     \<and> ssLoadedEntryID t = enEntryID e \<and> ssLoadedURI t = psPlayableURI st
     \<and> \<not> ssPendingArmed t \<and> ssTransportPending t = None"
proof -
  define s3 where "s3 = switchCurrent E e (enOrigin e)
    (if enOrigin e = OriginQueued then indexOfEntryID (snUserQueue (ssSnap (doCall BPlay l))) (enEntryID e) else -1)
    False 0 (clearLoadingState (doCall BPlay l))"
  define s4 where "s4 = disarmPending (nowPlaying e st (psPlayableURI st) s3)"
  define s5 where "s5 = s4\<lparr>ssTransportPending := None, ssTransportToken := ssTransportToken s4 + 1\<rparr>"
  define s6 where "s6 = touch E (ensureTicker s5)"
  define t where "t = publishSnapshot E (snapshotOf E (snd (refreshPosition E s6))) (snd (refreshPosition E s6))"
  have c: "completePendingPlayback E e st s = (None, t)"
    using assms unfolding completePendingPlayback_def Let_def assms(3) [symmetric] s3_def [symmetric]
      s4_def [symmetric] s5_def [symmetric] s6_def [symmetric] t_def [symmetric] by simp
  have n5: "snCurrentEntry (ssSnap s5) = Some (e\<lparr>enOrigin := enOrigin e\<rparr>)" "snLoadingEntry (ssSnap s5) = None"
    "snStatus (ssSnap s5) = StatusPlaying"
    by (simp_all add: s5_def s4_def s3_def switchCurrent_snap)
  have n6: "snCurrentEntry (ssSnap s6) = Some (normalEntry (e\<lparr>enOrigin := enOrigin e\<rparr>))"
    "snStatus (ssSnap s6) = StatusPlaying"
    using n5 by (simp_all add: s6_def touch_fields touch_playing)
  have k: "kernelOf t = kernelOf s5" by (simp add: t_def s6_def)
  have o: "ssLoadedEntryID s5 = enEntryID e" "ssLoadedURI s5 = psPlayableURI st" "\<not> ssPendingArmed s5"
    "ssTransportPending s5 = None"
    by (simp_all add: s5_def s4_def nowPlaying_def setLoaded_def disarm_def disarmPending_def)
  have st: "snStatus (ssSnap t) = StatusPlaying"
    using refresh_snap(2) [OF n6(1), of E] n6(2) by (simp add: t_def)
  have "entryName (snLoadingEntry (ssSnap t)) = None"
    using kernelD(11) [OF k] n5 by (simp add: entryName_def)
  then have "snLoadingEntry (ssSnap t) = None" by (simp add: entryName_def)
  with c kernelD [OF k] n5 o st show ?thesis by (simp add: entryName_def)
qed

text \<open>
  C28: a pending entry plays as soon as it is prepared.  As long as the core cannot answer, or answers
  that it is still preparing, the poll goes on and the entry keeps loading; when it answers that the
  entry is ready and the backend loads and plays it, the entry becomes the current one, nothing loads or
  is polled any more, and the poll ends.
\<close>

theorem pending_entry_plays_when_ready:
  assumes "pendingIs k (enEntryID e) s" and "snLoadingEntry (ssSnap s) = Some e" and "hasCore E"
    and "ssBackend s" and "st = pollReply E e s"
    and "l = doCall (BLoad (psPlayableURI st)) (polled E e s)"
  shows "(pollFailed E e s \<or> preparing st \<longrightarrow>
        (\<exists>t. tryPendingPlayback E k (enEntryID e) s = Some (False, t) \<and> pendingIs k (enEntryID e) t
           \<and> entryName (snLoadingEntry (ssSnap t)) = Some (enEntryID e, enOrigin e)))
     \<and> (\<not> pollFailed E e s \<and> \<not> preparing st \<and> readyStatus st \<and> callFailed E l = None
        \<and> callFailed E (doCall BPlay l) = None \<longrightarrow>
        (\<exists>t. tryPendingPlayback E k (enEntryID e) s = Some (True, t)
           \<and> entryName (snCurrentEntry (ssSnap t)) = Some (enEntryID e, enOrigin e)
           \<and> snLoadingEntry (ssSnap t) = None \<and> snStatus (ssSnap t) = StatusPlaying
           \<and> ssLoadedEntryID t = enEntryID e \<and> ssLoadedURI t = psPlayableURI st
           \<and> \<not> ssPendingArmed t \<and> ssTransportPending t = None))"
proof -
  note r = tryPending_reply [OF assms(1-3)]
  have backend: "ssBackend (polled E e s)" using kernelD(12) [OF kernel_polled] assms(4) by simp
  have p: "pendingIs k (enEntryID e) (polled E e s)"
    using assms(1) kernelD [OF kernel_polled, of E e s] by (simp add: pendingIs_def)
  have n: "entryName (snLoadingEntry (ssSnap (polled E e s))) = Some (enEntryID e, enOrigin e)"
    using kernelD(11) [OF kernel_polled, of E e s] assms(2) by (simp add: entryName_def)
  have f: "pollFailed E e s \<Longrightarrow> tryPendingPlayback E k (enEntryID e) s
      = Some (False, doCall (CGetPreparation (itTarget (enItem e))) s)"
    using assms(1-3) by (simp add: tryPendingPlayback_def pollFailed_def Let_def)
  have w: "preparing st \<Longrightarrow> \<not> pollFailed E e s \<Longrightarrow> tryPendingPlayback E k (enEntryID e) s = Some (False, polled E e s)"
    using r assms(5) by simp
  have a: "pollFailed E e s \<or> preparing st \<longrightarrow>
      (\<exists>t. tryPendingPlayback E k (enEntryID e) s = Some (False, t) \<and> pendingIs k (enEntryID e) t
         \<and> entryName (snLoadingEntry (ssSnap t)) = Some (enEntryID e, enOrigin e))"
    using f w p n assms(1,2)
    by (cases "pollFailed E e s") (auto simp: pendingIs_def doCall_def entryName_def)
  have g: "\<exists>t. tryPendingPlayback E k (enEntryID e) s = Some (True, t)
         \<and> entryName (snCurrentEntry (ssSnap t)) = Some (enEntryID e, enOrigin e)
         \<and> snLoadingEntry (ssSnap t) = None \<and> snStatus (ssSnap t) = StatusPlaying
         \<and> ssLoadedEntryID t = enEntryID e \<and> ssLoadedURI t = psPlayableURI st
         \<and> \<not> ssPendingArmed t \<and> ssTransportPending t = None"
    if h: "\<not> pollFailed E e s" "\<not> preparing st" "readyStatus st" "callFailed E l = None"
      "callFailed E (doCall BPlay l) = None"
    using completePending_plays [OF backend h(3) assms(6) h(4,5), of e] r [OF h(1)] h assms(5) by auto
  show ?thesis using a g by blast
qed

definition waitingSession :: session where
  "waitingSession = (onSnap (\<lambda>n. n\<lparr>snLoadingEntry := Some (queued ''q1'')\<rparr>) sampleSession)
     \<lparr>ssPendingArmed := True, ssPendingEntry := ''q1'', ssPendingToken := 4\<rparr>"

lemma waiting_facts:
  "pendingIs 4 (enEntryID (queued ''q1'')) waitingSession"
  "snLoadingEntry (ssSnap waitingSession) = Some (queued ''q1'')" "ssBackend waitingSession"
  "snCurrentEntry (ssSnap waitingSession) = None"
  by code_simp+

lemma pending_entry_plays_when_ready_witness:
  "\<exists>t. tryPendingPlayback sampleEnv 4 ''q1'' waitingSession = Some (True, t)
     \<and> entryName (snCurrentEntry (ssSnap t)) = Some (''q1'', OriginQueued)
     \<and> snStatus (ssSnap t) = StatusPlaying \<and> ssLoadedURI t = ''uri''"
proof -
  have c: "callFailed sampleEnv s = None" for s by (simp add: callFailed_def sampleEnv_def)
  have u: "trimSpace ''uri'' = ''uri''" by code_simp
  have p: "pollReply sampleEnv e s = readyAt ''uri''" "\<not> pollFailed sampleEnv e s" for e s
    by (simp_all add: pollReply_def pollFailed_def c) (simp add: sampleEnv_def)
  have r: "readyStatus (readyAt ''uri'')" "\<not> preparing (readyAt ''uri'')"
    by (simp_all add: readyStatus_def preparing_def readyAt_def u)
  have h: "hasCore sampleEnv" by (simp add: sampleEnv_def)
  have e: "enEntryID (queued ''q1'') = ''q1''" "enOrigin (queued ''q1'') = OriginQueued"
    "psPlayableURI (readyAt ''uri'') = ''uri''"
    by code_simp+
  show ?thesis
    using pending_entry_plays_when_ready [OF waiting_facts(1,2) h waiting_facts(3) refl refl]
    by (auto simp: p r c e)
qed

section \<open>A new entry without a poll\<close>

text \<open>
  C33: the poll that gives up on its entry leaves the next one without a poll.  When the pending entry
  turns out to be unplayable and the entry chosen in its place has to be prepared as well, the poll of
  that entry is cancelled right after it was started: the entry keeps loading, and every poll that was
  or is still running ends without looking at it.
\<close>

theorem replacement_is_not_polled:
  assumes "pendingIs k (enEntryID e) s" and "snLoadingEntry (ssSnap s) = Some e" and "hasCore E"
    and "\<not> pollFailed E e s" and "\<not> preparing (pollReply E e s)" and "\<not> readyStatus (pollReply E e s)"
    and "playNextAvailable E None False (snCurrentEntry (ssSnap (polled E e s)) \<noteq> None) [] []
           (snCurrentEntry (ssSnap (polled E e s)) = None) (polled E e s) = Some (n, None, w)"
    and "snLoadingEntry (ssSnap w) = Some x"
  shows "\<exists>t. tryPendingPlayback E k (enEntryID e) s = Some (True, t)
     \<and> snLoadingEntry (ssSnap t) = Some x \<and> \<not> ssPendingArmed t
     \<and> (\<forall>j m b. m \<noteq> '''' \<longrightarrow> tryPendingPlayback E j m t = Some (True, t) \<and> finishPendingRetry E j m b t = t)"
proof -
  have "tryPendingPlayback E k (enEntryID e) s = Some (True, disarmPending w)"
    using tryPending_reply [OF assms(1-4)] assms(5-7) by simp
  moreover have "snLoadingEntry (ssSnap (disarmPending w)) = Some x" using assms(8) by simp
  moreover have "\<not> ssPendingArmed (disarmPending w) \<and> ssPendingEntry (disarmPending w) = ''''"
    by (simp add: disarmPending_def)
  ultimately show ?thesis
    by (auto simp: tryPendingPlayback_def finishPendingRetry_def pendingIs_def)
qed

text \<open>The core gives up on the entry it was asked about, and prepares every other one.\<close>

definition stubbornEnv :: env where
  "stubbornEnv = sampleEnv\<lparr>replyStatus := (\<lambda>t. zeroPreparation\<lparr>psPhase :=
     (case t of CGetPreparation x # _ \<Rightarrow> PhaseUnavailable | _ \<Rightarrow> PhasePreparingFetch)\<rparr>)\<rparr>"

definition stuckSession :: session where
  "stuckSession = (onSnap (\<lambda>n. n\<lparr>snLoadingEntry := Some (sampleEntries ! 1)\<rparr>) sampleSession)
     \<lparr>ssPendingArmed := True, ssPendingEntry := ''c1'', ssPendingToken := 4\<rparr>"

lemma stuck_facts:
  "pendingIs 4 (enEntryID (sampleEntries ! 1)) stuckSession"
  "snLoadingEntry (ssSnap stuckSession) = Some (sampleEntries ! 1)"
  "ssBackend stuckSession" "snCurrentEntry (ssSnap stuckSession) = None"
  by code_simp+

lemma stuck_candidate:
  "fst (resolvePlayableFromPlan stubbornEnv [] (polled stubbornEnv (sampleEntries ! 1) stuckSession))
   = (Some \<lparr>pcEntry = normalizeQueuedEntry (queued ''q1''), pcOrigin = OriginQueued, pcQueueIndex = 0\<rparr>, [])"
  by code_simp

lemma replacement_is_not_polled_witness:
  "\<exists>t. tryPendingPlayback stubbornEnv 4 ''c1'' stuckSession = Some (True, t)
     \<and> entryName (snLoadingEntry (ssSnap t)) = Some (''q1'', OriginQueued) \<and> \<not> ssPendingArmed t
     \<and> tryPendingPlayback stubbornEnv 6 ''q1'' t = Some (True, t)"
proof -
  let ?e = "sampleEntries ! 1" and ?c = "normalizeQueuedEntry (queued ''q1'')"
  let ?v = "polled stubbornEnv ?e stuckSession"
  have env: "callFailed stubbornEnv u = None" "hasCore stubbornEnv" "\<not> supportsPreload stubbornEnv" for u
    by (simp_all add: callFailed_def stubbornEnv_def sampleEnv_def)
  have reply: "pollReply stubbornEnv ?e stuckSession = zeroPreparation\<lparr>psPhase := PhaseUnavailable\<rparr>"
    "\<not> pollFailed stubbornEnv ?e stuckSession"
    "replyStatus stubbornEnv (ssTrace (doCall (CPrepareTarget x y) u))
      = zeroPreparation\<lparr>psPhase := PhasePreparingFetch\<rparr>" for x y u
    by (simp_all add: pollReply_def pollFailed_def env) (simp_all add: stubbornEnv_def doCall_def)
  have phase: "\<not> preparing (zeroPreparation\<lparr>psPhase := PhaseUnavailable\<rparr>)"
    "\<not> readyStatus (zeroPreparation\<lparr>psPhase := PhaseUnavailable\<rparr>)"
    "preparing (zeroPreparation\<lparr>psPhase := PhasePreparingFetch\<rparr>)"
    by (simp_all add: preparing_def readyStatus_def)
  obtain s1 where c: "resolvePlayableFromPlan stubbornEnv [] ?v
      = ((Some \<lparr>pcEntry = ?c, pcOrigin = OriginQueued, pcQueueIndex = 0\<rparr>, []), s1)"
    using stuck_candidate by (metis prod.collapse)
  have k: "kernelOf s1 = kernelOf stuckSession"
    using kernel_resolve(1) [of stubbornEnv "[]" ?v] unfolding c snd_conv by simp
  have b: "ssBackend s1" "snCurrentEntry (ssSnap s1) = None" "snCurrentEntry (ssSnap ?v) = None"
    using kernelD(10,12) [OF k] kernelD(10) [OF kernel_polled, of stubbornEnv ?e stuckSession] stuck_facts
    by (simp_all add: entryName_def)
  have a: "preloadedActivation stubbornEnv ?c s1 = None" by (simp add: preloadedActivation_def env)
  obtain n err w where w: "playEntry stubbornEnv ?c OriginQueued 0 None False False s1 = (n, err, w)"
    by (metis prod.exhaust)
  have p: "playPreparing stubbornEnv ?c False (zeroPreparation\<lparr>psPhase := PhasePreparingFetch\<rparr>)
      (doCall (CPrepareTarget (itTarget (enItem ?c)) PurposePlayNow) (readied stubbornEnv s1)) = (n, err, w)"
    using w playEntry_cold [OF env(2) b(1) a, of OriginQueued 0 None False False]
    by (simp add: playDirect_def env reply(3) phase Let_def)
  have l: "err = None" "snLoadingEntry (ssSnap w) = Some (normalEntry ?c)"
    using playPreparing_fields(1) [OF p refl] playPreparing_fields(8) [OF p refl] by simp_all
  have loop: "playNextAvailable stubbornEnv None False False [] [] True ?v = Some (n, None, w)"
    unfolding playNextAvailable_def
    by (subst playNextLoop.simps) (simp add: c w l(1) consumeSkippedUserEntries_def del: One_nat_def)
  have loop': "playNextAvailable stubbornEnv None False (snCurrentEntry (ssSnap ?v) \<noteq> None) [] []
      (snCurrentEntry (ssSnap ?v) = None) ?v = Some (n, None, w)"
    using loop b(3) by simp
  have u: "\<not> preparing (pollReply stubbornEnv ?e stuckSession)"
    "\<not> readyStatus (pollReply stubbornEnv ?e stuckSession)"
    using reply(1) phase by simp_all
  have i: "enEntryID ?e = ''c1''" "enEntryID (normalEntry ?c) = ''q1''" "enOrigin (normalEntry ?c) = OriginQueued"
    by code_simp+
  show ?thesis
    using replacement_is_not_polled [OF stuck_facts(1,2) env(2) reply(2) u loop' l(2)] i
    by (auto simp: entryName_def)
qed

end
