(* ===== verification/PlanProperties.thy ===== *)
theory PlanProperties
  imports PlayLaws Samples
begin

text \<open>
  Properties of planning: the plan in use always fits the state it is used in, and what building a plan
  does to the session while a transition is pending.
\<close>

section \<open>The plan in use\<close>

lemma planKey_current [simp]: "planKey (currentNextActionPlanKey s) = currentNextActionPlanKey s"
  by (simp add: planKey_def currentNextActionPlanKey_def Let_def)

lemma planKey_built [simp]:
  "planKey ((currentNextActionPlanKey s)\<lparr>npVersion := v, npCandidates := cs\<rparr>) = currentNextActionPlanKey s"
  by (simp add: planKey_def currentNextActionPlanKey_def Let_def)

lemma ensure_key: "planKey (fst (ensureNextActionPlan E s)) = currentNextActionPlanKey s"
  by (simp add: ensureNextActionPlan_def Let_def case_prod_beta split: option.split)



text \<open>Building a plan changes nothing its key depends on.\<close>

lemma ensure_effect:
  "snd (ensureNextActionPlan E s) = s
   \<or> (\<exists>b pl. snd (ensureNextActionPlan E s) = (planningEffect s)\<lparr>ssNextActionBuilds := b, ssNextActionPlan := Some pl\<rparr>
        \<and> fst (ensureNextActionPlan E s) = pl)"
  by (auto simp: ensureNextActionPlan_def planningSnapshot_def Let_def split: option.split)

lemma planningEffect_key: "currentNextActionPlanKey (planningEffect s) = currentNextActionPlanKey s"
  by (auto simp: planningEffect_def currentNextActionPlanKey_def setUserQueue_def onContext_def onSnap_def
      Let_def split: option.split)

lemma ensure_plan: "ssNextActionPlan (snd (ensureNextActionPlan E s)) = Some (fst (ensureNextActionPlan E s))"
  by (auto simp: ensureNextActionPlan_def Let_def case_prod_beta split: option.split)

lemma ensure_key_after: "currentNextActionPlanKey (snd (ensureNextActionPlan E s)) = currentNextActionPlanKey s"
proof -
  have "currentNextActionPlanKey (t\<lparr>ssNextActionBuilds := b, ssNextActionPlan := pl\<rparr>) = currentNextActionPlanKey t"
    for t b pl by (simp add: currentNextActionPlanKey_def Let_def cong: option.case_cong)
  then show ?thesis using ensure_effect [of E s] planningEffect_key [of s] by auto
qed

lemma planning_upcoming:
  assumes "ssTransportPending s = None"
  shows "buildUpcomingEntries L (fst (planningSnapshot s)) = buildUpcomingEntries L (ssSnap s)"
    "snCurrentEntry (fst (planningSnapshot s)) = snCurrentEntry (ssSnap s)"
    "snRepeatMode (fst (planningSnapshot s)) = snRepeatMode (ssSnap s)"
proof -
  have e: "snd (planningSnapshot s) = s" "planningEffect s = s"
    using assms by (simp_all add: planningSnapshot_def planningEffect_def Let_def)
  show "buildUpcomingEntries L (fst (planningSnapshot s)) = buildUpcomingEntries L (ssSnap s)"
    by (rule sameContext_upcoming) (use assms e in \<open>simp_all add: sameContext_def planningSnapshot_def Let_def\<close>)
  show "snCurrentEntry (fst (planningSnapshot s)) = snCurrentEntry (ssSnap s)"
    "snRepeatMode (fst (planningSnapshot s)) = snRepeatMode (ssSnap s)"
    using assms by (simp_all add: planningSnapshot_def Let_def)
qed

text \<open>
  C31: the plan in use fits the state.  The plan that is handed out always has the key of the current
  queue version, source version, entry, modes and transition, whatever was cached before; asking again
  yields the same plan and changes nothing; and a plan that is built while no transition is pending lists
  the repeated current entry, if any, and then exactly the upcoming entries that the snapshot shows.
\<close>

theorem plan_fits_the_state:
  "planKey (fst (ensureNextActionPlan E s)) = currentNextActionPlanKey s
   \<and> ensureNextActionPlan E (snd (ensureNextActionPlan E s))
     = (fst (ensureNextActionPlan E s), snd (ensureNextActionPlan E s))
   \<and> (ssTransportPending s = None \<and> ssNextActionPlan s = None \<longrightarrow>
        map plEntryID (npCandidates (fst (ensureNextActionPlan E s)))
        = map enEntryID ((case snCurrentEntry (ssSnap s) of
             Some e \<Rightarrow> if snRepeatMode (ssSnap s) = RepeatOne then [e] else []
           | None \<Rightarrow> []) @ buildUpcomingEntries (lib E) (ssSnap s)))"
proof -
  let ?t = "snd (ensureNextActionPlan E s)"
  have again: "ensureNextActionPlan E ?t = (fst (ensureNextActionPlan E s), ?t)"
    unfolding ensureNextActionPlan_def [of E ?t] Let_def ensure_key_after ensure_plan
    by (simp add: ensure_key)
  have c: "map plEntryID (npCandidates (fst (ensureNextActionPlan E s)))
      = map enEntryID (map pcEntry (drainIterator (newNextActionIterator (lib E) (fst (planningSnapshot s)) {})))"
    if "ssNextActionPlan s = None"
    using that by (simp add: ensureNextActionPlan_def Let_def case_prod_beta planCandidate_def comp_def)
  show ?thesis
    using again ensure_key [of E s] c
    by (simp add: drain_new planning_upcoming cong: option.case_cong if_cong)
qed

lemma plan_fits_the_state_witness:
  "map plEntryID (npCandidates (fst (ensureNextActionPlan sampleEnv playingSession)))
   = [''q1'', ''q2'', ''c1'', ''c2'']"
proof -
  have u: "buildUpcomingEntries (lib sampleEnv) (ssSnap playingSession)
      = [queued ''q1'', queued ''q2'', sampleEntries ! 1, sampleEntries ! 2]"
    "ssTransportPending playingSession = None" "ssNextActionPlan playingSession = None"
    "snRepeatMode (ssSnap playingSession) = RepeatOff"
    "map enEntryID [queued ''q1'', queued ''q2'', sampleEntries ! 1, sampleEntries ! 2]
      = [''q1'', ''q2'', ''c1'', ''c2'']"
    by code_simp+
  show ?thesis
    using plan_fits_the_state [of E playingSession for E] u
    by (auto split: option.splits)
qed

section \<open>Planning while a transition is pending\<close>



end
