(* ===== verification/EpochProperties.thy ===== *)
theory EpochProperties
  imports PlayLaws Samples
begin

text \<open>
  The intent epoch.  Setting a source and rebasing one enumerate the catalog without the lock and carry
  the epoch they started from; an operation of the user that comes in between advances it, and the late
  result is dropped.
\<close>

section \<open>Who advances the epoch\<close>

lemma epoch_kernel: "kernelOf t = kernelOf s \<Longrightarrow> ssIntentEpoch t = ssIntentEpoch s"
  by (rule kernelD(4))

lemma epoch_kept [simp]:
  "ssIntentEpoch (snd (invalidatePreloadPlan E b s)) = ssIntentEpoch s"
  "ssIntentEpoch (clearIf E b s) = ssIntentEpoch s" "ssIntentEpoch (stopBackend s) = ssIntentEpoch s"
  "ssIntentEpoch (publishSnapshot E n s) = ssIntentEpoch s" "ssIntentEpoch (markQueueDirty s) = ssIntentEpoch s"
  "ssIntentEpoch (setCurrentContextIndex i s) = ssIntentEpoch s"
  "ssIntentEpoch (setResumeContextIndex i s) = ssIntentEpoch s"
  "ssIntentEpoch (rebuildShuffleCycle E s) = ssIntentEpoch s" "ssIntentEpoch (clearShuffle s) = ssIntentEpoch s"
  "ssIntentEpoch (recalculateResumeContextIndex E s) = ssIntentEpoch s"
  "ssIntentEpoch (onContext g s) = ssIntentEpoch s" "ssIntentEpoch (setStatus st s) = ssIntentEpoch s"
  "ssIntentEpoch (setUserQueue q s) = ssIntentEpoch s" "ssIntentEpoch (doCall c s) = ssIntentEpoch s"
  "ssIntentEpoch (preloadNext E s) = ssIntentEpoch s"
  "ssIntentEpoch (snd (snd (finishOp E nd stp s))) = ssIntentEpoch s"
  by (rule epoch_kernel, simp)+

lemma epoch_mutators [simp]:
  "ssIntentEpoch (advanceIntentEpoch s) = ssIntentEpoch s + 1"
  "ssIntentEpoch (onSnap f s) = ssIntentEpoch s" "ssIntentEpoch (cancelTransportTransition s) = ssIntentEpoch s"
  "ssIntentEpoch (cancelPendingRetry s) = ssIntentEpoch s" "ssIntentEpoch (startPendingRetry k s) = ssIntentEpoch s"
  "ssIntentEpoch (clearLoadingState s) = ssIntentEpoch s" "ssIntentEpoch (setLastError m s) = ssIntentEpoch s"
  "ssIntentEpoch (detachCurrentContext s) = ssIntentEpoch s" "ssIntentEpoch (setShuffleFlag b s) = ssIntentEpoch s"
  "ssIntentEpoch (installContext q s) = ssIntentEpoch s" "ssIntentEpoch (resetWithoutCurrent s) = ssIntentEpoch s"
  "ssIntentEpoch (settleReset b s) = ssIntentEpoch s"
  by (simp_all add: advanceIntentEpoch_def onSnap_def cancelTransportTransition_def cancelPendingRetry_def
      startPendingRetry_def clearLoadingState_def setLastError_def detachCurrentContext_def
      setShuffleFlag_def installContext_def resetWithoutCurrent_def settleReset_def
      invalidateNextActionPlan_def clearAuthoritativePosition_def clearCurrent_def markQueueDirty_def
      doCall_def setStatus_def setResumeContextIndex_def onContext_def Let_def split: option.split)

lemma epoch_entries [simp]: "ssIntentEpoch (snd (makeEntries prefix origin ix k its s)) = ssIntentEpoch s"
proof (induction its arbitrary: k s)
  case (Cons i its)
  then show ?case by (simp add: nextEntryID_def Let_def case_prod_beta)
qed simp

lemma epoch_buildContext [simp]: "ssIntentEpoch (snd (snd (buildContext inp s))) = ssIntentEpoch s"
  by (simp add: buildContext_def Let_def case_prod_beta)

lemma epoch_edits:
  "ssIntentEpoch (snd (snd (setContext E inp s))) = ssIntentEpoch s + 1"
  "ssIntentEpoch (snd (setSourceBegin s)) = ssIntentEpoch s + 1"
  "normalizeItems its \<noteq> [] \<Longrightarrow> ssIntentEpoch (snd (snd (queueItems E its md s))) = ssIntentEpoch s + 1"
  "0 \<le> indexOfEntryID (snUserQueue (ssSnap s)) k \<Longrightarrow>
     ssIntentEpoch (snd (snd (removeQueuedEntry E k s))) = ssIntentEpoch s + 1"
  "ssIntentEpoch (snd (snd (clearQueue E s))) = ssIntentEpoch s + 1"
  "ssIntentEpoch (snd (snd (setShuffle E b s))) = ssIntentEpoch s + 1"
  by (simp_all add: setContext_def setSourceBegin_def queueItems_def removeQueuedEntry_def clearQueue_def
      setShuffle_def drawUint64_def Let_def case_prod_beta)

lemma epoch_move:
  assumes "0 \<le> indexOfEntryID (snUserQueue (ssSnap s)) k" "0 \<le> j" "j < int (length (snUserQueue (ssSnap s)))"
    "indexOfEntryID (snUserQueue (ssSnap s)) k \<noteq> j"
  shows "ssIntentEpoch (snd (snd (moveQueuedEntry E k j s))) = ssIntentEpoch s + 1"
  using assms by (simp add: moveQueuedEntry_def Let_def case_prod_beta)

lemma epoch_playing [simp]:
  "ssIntentEpoch (setLoading e ps s) = ssIntentEpoch s" "ssIntentEpoch (clearCurrent s) = ssIntentEpoch s"
  "ssIntentEpoch (setLoaded k u s) = ssIntentEpoch s" "ssIntentEpoch (setCurrent e origin s) = ssIntentEpoch s"
  "ssIntentEpoch (nowPlaying e st uri s) = ssIntentEpoch s" "ssIntentEpoch (stopTicker s) = ssIntentEpoch s"
  "ssIntentEpoch (clearAuthoritativePosition s) = ssIntentEpoch s"
  "ssIntentEpoch (clearNextPreparationState s) = ssIntentEpoch s" "ssIntentEpoch (ensureTicker s) = ssIntentEpoch s"
  by (simp_all add: setLoading_def clearCurrent_def setLoaded_def setCurrent_def nowPlaying_def disarm_def
      stopTicker_def clearAuthoritativePosition_def clearNextPreparationState_def ensureTicker_def
      clearBackendPreloadFailure_def clearNextPreparationRetry_def Let_def)

lemma epoch_switch [simp]: "ssIntentEpoch (switchCurrent E e origin i keep r s) = ssIntentEpoch s"
proof -
  have "ssIntentEpoch (setDuration d t) = ssIntentEpoch t" "ssIntentEpoch (setAuthoritativePosition E p t) = ssIntentEpoch t"
    for d p t by (rule epoch_kernel, simp)+
  then show ?thesis by (simp add: switchCurrent_def Let_def)
qed

lemma epoch_direct: "ssIntentEpoch (snd (snd (playDirect E e origin i keep p r s))) = ssIntentEpoch s"
  by (simp add: playDirect_def playPreparing_def playReady_def failed_def Let_def split: option.split)

lemma epoch_activate:
  "case activatePreloadedEntry E e origin i prev st s of
     Inl t \<Rightarrow> ssIntentEpoch t = ssIntentEpoch s | Inr (n, t) \<Rightarrow> ssIntentEpoch t = ssIntentEpoch s"
  by (simp add: activatePreloadedEntry_def startTransportRetry_def Let_def)

lemma epoch_playEntry:
  assumes "hasCore E" "ssBackend s"
  shows "ssIntentEpoch (snd (snd (playEntry E e origin i prev keep p s))) = ssIntentEpoch s + 1"
proof -
  define s1 where "s1 = cancelTransportTransition (cancelPendingRetry (advanceIntentEpoch s))"
  have e1: "ssIntentEpoch s1 = ssIntentEpoch s + 1" by (simp add: s1_def)
  show ?thesis
  proof (cases "preloadedActivation E e s")
    case None
    with assms e1 show ?thesis
      by (simp add: playEntry_def Let_def s1_def [symmetric] case_prod_beta epoch_direct)
  next
    case (Some st)
    with assms e1 epoch_activate [where E = E and e = e and origin = origin and i = i and prev = prev and st = st
        and s = s1] show ?thesis
      by (cases "activatePreloadedEntry E e origin i prev st s1")
        (auto simp: playEntry_def Let_def s1_def [symmetric] case_prod_beta epoch_direct)
  qed
qed

section \<open>Late results\<close>

text \<open>One operation that states a new intent of the user.\<close>

inductive overtakes :: "env \<Rightarrow> session \<Rightarrow> session \<Rightarrow> bool" for E where
  set_context: "overtakes E s (snd (snd (setContext E inp s)))"
| other_source: "overtakes E s (snd (setSourceBegin s))"
| queue_items: "normalizeItems its \<noteq> [] \<Longrightarrow> overtakes E s (snd (snd (queueItems E its md s)))"
| remove_entry: "0 \<le> indexOfEntryID (snUserQueue (ssSnap s)) k \<Longrightarrow>
    overtakes E s (snd (snd (removeQueuedEntry E k s)))"
| move_entry: "0 \<le> indexOfEntryID (snUserQueue (ssSnap s)) k \<Longrightarrow> 0 \<le> j \<Longrightarrow>
    j < int (length (snUserQueue (ssSnap s))) \<Longrightarrow> indexOfEntryID (snUserQueue (ssSnap s)) k \<noteq> j \<Longrightarrow>
    overtakes E s (snd (snd (moveQueuedEntry E k j s)))"
| clear_queue: "overtakes E s (snd (snd (clearQueue E s)))"
| set_shuffle: "overtakes E s (snd (snd (setShuffle E b s)))"
| play_entry: "hasCore E \<Longrightarrow> ssBackend s \<Longrightarrow>
    overtakes E s (snd (snd (playEntry E e origin i prev keep p s)))"

inductive_cases overtakesE: "overtakes E s t"

lemma overtakes_epoch: "overtakes E s t \<Longrightarrow> ssIntentEpoch t = ssIntentEpoch s + 1"
  by (induction rule: overtakes.induct) (simp_all add: epoch_edits epoch_move epoch_playEntry)

lemma overtakes_count: "(overtakes E ^^ n) s t \<Longrightarrow> ssIntentEpoch t = ssIntentEpoch s + of_nat n"
proof (induction n arbitrary: t)
  case (Suc n)
  then obtain u where "(overtakes E ^^ n) s u" "overtakes E u t" by auto
  with Suc.IH overtakes_epoch show ?case by (simp add: algebra_simps)
qed simp

text \<open>
  C29: overtaken results are dropped.  After at least one and fewer than \<open>2^64\<close> new intents of the user
  (a context or a source set, the queue edited, an entry played, shuffle switched), the result of a source
  that was being enumerated for the earlier intent is not installed, and a rebase that was under way
  changes nothing.
\<close>

theorem overtaken_results_are_dropped:
  assumes "(overtakes E ^^ n) s t" and "0 < n" and "n < 2 ^ 64"
  shows "setSourceCommit E (ssIntentEpoch s) (Inr result) b t = (snapshotOf E t, None, t)
     \<and> replaceSourceCommit E (ssIntentEpoch s) (Inr result) b t = (snapshotOf E t, None, t)
     \<and> catalogRebaseCommit E queue (ssIntentEpoch s) ident res t = t"
proof -
  have "of_nat n \<noteq> (0 :: 64 word)"
  proof
    assume "of_nat n = (0 :: 64 word)"
    then have "2 ^ 64 dvd n" using word_of_nat_eq_0_iff [of n, where ?'a = 64] by simp
    then show False using assms(2,3) by (meson dvd_imp_le not_le)
  qed
  then have "ssIntentEpoch t \<noteq> ssIntentEpoch s" using overtakes_count [OF assms(1)] by simp
  then show ?thesis
    by (auto simp: setSourceCommit_def replaceSourceCommit_def catalogRebaseCommit_def unchanged_def Let_def
        split: sum.split prod.split)
qed

lemma overtaken_results_are_dropped_witness:
  "\<exists>t. (overtakes sampleEnv ^^ 2) sampleSession t
     \<and> (\<forall>result b. setSourceCommit sampleEnv 0 (Inr result) b t = (snapshotOf sampleEnv t, None, t))"
proof -
  let ?u = "snd (snd (clearQueue sampleEnv sampleSession))"
  let ?t = "snd (setSourceBegin ?u)"
  have r: "(overtakes sampleEnv ^^ 2) sampleSession ?t"
    unfolding numeral_2_eq_2
    by (rule relpowp_Suc_I [OF relpowp_Suc_I [OF relpowp_0_I]]) (rule overtakes.intros)+
  have "ssIntentEpoch sampleSession = 0" by (simp add: sampleSession_def newSession_def)
  moreover have "(0::nat) < 2" "(2::nat) < 2 ^ 64" by simp_all
  note overtaken_results_are_dropped [OF r this]
  ultimately show ?thesis using r by auto
qed

end
