(* ===== verification/WatchLaws.thy ===== *)
theory WatchLaws
  imports Samples
begin

text \<open>
  The retry goroutines.  A transition handed to the backend is guarded by a goroutine that gives up on it
  after a while, an entry that is being prepared by one that polls it.  Both carry a token, and a token
  that is no longer the session's makes them end.  \<open>watched\<close> states that whatever waits has its
  goroutine; every handler of the session keeps it, and only ever appends to the trace of calls.
\<close>

section \<open>The invariant\<close>

definition guarded :: "64 word \<Rightarrow> call list \<Rightarrow> bool" where
  "guarded k tr \<longleftrightarrow> (\<exists>e origin i prev. GoTransportRetry k e origin i prev \<in> set tr)"

lemma guarded_Cons [simp]:
  "guarded k tr \<Longrightarrow> guarded k (c # tr)" "guarded k (GoTransportRetry k e origin i prev # tr)"
  by (auto simp: guarded_def)

definition watched :: "session \<Rightarrow> bool" where
  "watched s \<longleftrightarrow>
     (case ssTransportPending s of None \<Rightarrow> True
      | Some p \<Rightarrow> ttToken p = ssTransportToken s
          \<and> (ssStarted s \<longrightarrow> guarded (ttToken p) (ssTrace s)))
     \<and> (ssPendingArmed s \<longrightarrow> GoPendingRetry (ssPendingToken s) (ssPendingEntry s) \<in> set (ssTrace s))"

definition live :: "call set \<Rightarrow> session \<Rightarrow> bool" where
  "live T s \<longleftrightarrow> T \<subseteq> set (ssTrace s) \<and> watched s \<and> ssStarted s"

lemma live_fields [simp]:
  "live T (s\<lparr>ssSnap := a0\<rparr>) = live T s" "live T (s\<lparr>ssTicks := k\<rparr>) = live T s"
  "live T (s\<lparr>ssNextActionPlan := b\<rparr>) = live T s" "live T (s\<lparr>ssNextActionBuilds := i\<rparr>) = live T s"
  "live T (s\<lparr>ssAvailabilityCache := c\<rparr>) = live T s" "live T (s\<lparr>ssRetryEntryID := d\<rparr>) = live T s"
  "live T (s\<lparr>ssRetryAt := e\<rparr>) = live T s" "live T (s\<lparr>ssPreloadedID := f\<rparr>) = live T s"
  "live T (s\<lparr>ssPreloadedURI := g\<rparr>) = live T s" "live T (s\<lparr>ssBackendPreloadArmed := h\<rparr>) = live T s"
  "live T (s\<lparr>ssPreloadFailureEntryID := j\<rparr>) = live T s"
  "live T (s\<lparr>ssPreloadFailureURI := l\<rparr>) = live T s" "live T (s\<lparr>ssQueueDirty := m\<rparr>) = live T s"
  "live T (s\<lparr>ssLastTickerPublishAt := n\<rparr>) = live T s" "live T (s\<lparr>ssTicker := q\<rparr>) = live T s"
  "live T (s\<lparr>ssRngDraws := r\<rparr>) = live T s" "live T (s\<lparr>ssIntentEpoch := u\<rparr>) = live T s"
  "live T (s\<lparr>ssLoadedEntryID := v\<rparr>) = live T s" "live T (s\<lparr>ssLoadedURI := w\<rparr>) = live T s"
  "live T (s\<lparr>ssBackend := x\<rparr>) = live T s"
  by (simp_all add: live_def watched_def cong: option.case_cong)

lemma live_wires [simp]:
  "live T s \<Longrightarrow> live T (s\<lparr>ssTransportPending := None, ssTransportToken := k\<rparr>)"
  "live T s \<Longrightarrow> live T (s\<lparr>ssPendingArmed := False, ssPendingEntry := n, ssPendingToken := k\<rparr>)"
  "live T s \<Longrightarrow> live T (doCall c s)"
  by (auto simp: live_def watched_def doCall_def cong: option.case_cong split: option.splits)

section \<open>Mutators\<close>

lemma live_same [simp]:
  "live T (onSnap f s) = live T s" "live T (tick s) = live T s"
  "live T (invalidateNextActionPlan s) = live T s" "live T (markQueueDirty s) = live T s"
  "live T (onContext g s) = live T s" "live T (setCurrentContextIndex i s) = live T s"
  "live T (setResumeContextIndex i s) = live T s" "live T (recalculateResumeContextIndex E s) = live T s"
  "live T (setUserQueue q s) = live T s" "live T (clearNextPreparationRetry s) = live T s"
  "live T (clearBackendPreloadFailure s) = live T s" "live T (clearNextPreparationState s) = live T s"
  "live T (ensureTicker s) = live T s" "live T (stopTicker s) = live T s" "live T (disarm s) = live T s"
  "live T (setAuthoritativePositionAt p at s) = live T s"
  "live T (setAuthoritativePosition E p s) = live T s" "live T (clearAuthoritativePosition s) = live T s"
  "live T (setDuration d s) = live T s" "live T (setStatus st s) = live T s"
  "live T (setLastError m s) = live T s" "live T (setLoading e ps s) = live T s"
  "live T (clearLoadingState s) = live T s" "live T (clearCurrent s) = live T s"
  "live T (setLoaded k u s) = live T s" "live T (advanceIntentEpoch s) = live T s"
  "live T (setShuffleFlag fl s) = live T s" "live T (refreshCurrentContextWindow s) = live T s"
  "live T (pruneEntryAvailability s) = live T s" "live T (syncAuthorityState E s) = live T s"
  by (simp_all add: onSnap_def tick_def invalidateNextActionPlan_def markQueueDirty_def onContext_def
      setCurrentContextIndex_def setResumeContextIndex_def recalculateResumeContextIndex_def
      setUserQueue_def clearNextPreparationRetry_def clearBackendPreloadFailure_def
      clearNextPreparationState_def ensureTicker_def stopTicker_def disarm_def
      setAuthoritativePositionAt_def setAuthoritativePosition_def clearAuthoritativePosition_def
      setDuration_def setStatus_def setLastError_def setLoading_def clearLoadingState_def
      clearCurrent_def setLoaded_def advanceIntentEpoch_def setShuffleFlag_def
      refreshCurrentContextWindow_def pruneEntryAvailability_def syncAuthorityState_def)

lemma live_touch [simp]: "live T (touch E s) = live T s"
  by (simp add: touch_def bumpQueueVersion_def Let_def)

lemma live_entries [simp]:
  "live T (setCurrent e origin s) = live T s" "live T (detachCurrentContext s) = live T s"
  "live T (setEntryAvailability k a s) = live T s" "live T (cacheAvailability E t a x v s) = live T s"
  "live T (nowPlaying e st u s) = live T s" "live T (switchCurrent E e origin i keep r s) = live T s"
  "live T (errorFromSkip s) = live T s" "live T (recordSkipEvent E sk stp s) = live T s"
  "live T (markCurrentFailed E s) = live T s" "live T (snd (invalidatePreloadPlan E b s)) = live T s"
  "live T (scheduleNextPreparationPoll k x s) = live T s"
  "live T (recordBackendPreloadFailure E k u s) = live T s"
  "live T (putNextPreparation e st s) = live T s" "live T (setNextPreparation E e st s) = live T s"
  "live T (setPreloaded k u s) = live T s"
  by (simp_all add: setCurrent_def detachCurrentContext_def setEntryAvailability_def
      cacheAvailability_def nowPlaying_def switchCurrent_def errorFromSkip_def recordSkipEvent_def
      markCurrentFailed_def invalidatePreloadPlan_def scheduleNextPreparationPoll_def
      recordBackendPreloadFailure_def putNextPreparation_def setNextPreparation_def setPreloaded_def
      Let_def split: option.split)

lemma live_calls [simp]:
  "live T s \<Longrightarrow> live T (clearBackendPreload E b s)" "live T s \<Longrightarrow> live T (clearIf E b s)"
  "live T s \<Longrightarrow> live T (stopBackend s)" "live T s \<Longrightarrow> live T (persistSnapshot E n s)"
  "live T s \<Longrightarrow> live T (publishSnapshot E n s)" "live T s \<Longrightarrow> live T (publishTickerSnapshot E n s)"
  "live T s \<Longrightarrow> live T (snd (snd (finishOp E nd stop s)))"
  "live T s \<Longrightarrow> live T (startTransportRetry k e origin i prev s)"
  by (simp_all add: clearBackendPreload_def clearIf_def stopBackend_def persistSnapshot_def
      publishSnapshot_def publishTickerSnapshot_def finishOp_def startTransportRetry_def Let_def
      split: option.split)

lemma live_tokens [simp]:
  "live T s \<Longrightarrow> live T (cancelPendingRetry s)" "live T s \<Longrightarrow> live T (disarmPending s)"
  "live T s \<Longrightarrow> live T (cancelTransportTransition s)" "live T s \<Longrightarrow> live T (startPendingRetry k s)"
proof -
  assume a: "live T s"
  show "live T (cancelPendingRetry s)" "live T (disarmPending s)" "live T (cancelTransportTransition s)"
    using a by (simp_all add: cancelPendingRetry_def disarmPending_def cancelTransportTransition_def
        split: option.split)
  show "live T (startPendingRetry k s)"
    using a by (auto simp: startPendingRetry_def cancelPendingRetry_def doCall_def live_def watched_def
        Let_def split: option.splits)
qed

lemma live_shuffle [simp]:
  "live T (clearShuffle s) = live T s" "live T (ensureContextShuffleSeed E s) = live T s"
  "live T (rebuildShuffleCycle E s) = live T s" "live T (seedShuffle E s) = live T s"
  "live T (ensureShuffleCycle E s) = live T s" "live T (snd (firstContextIndex E s)) = live T s"
proof -
  show c: "live T (clearShuffle s) = live T s" for s by (simp add: clearShuffle_def)
  show e: "live T (ensureContextShuffleSeed E s) = live T s" for s
    by (simp add: ensureContextShuffleSeed_def drawUint64_def split: option.split)
  show r: "live T (rebuildShuffleCycle E s) = live T s" for s
    by (simp add: rebuildShuffleCycle_def c e Let_def split: option.split)
  show "live T (seedShuffle E s) = live T s" by (simp add: seedShuffle_def c e r)
  show n: "live T (ensureShuffleCycle E s) = live T s" by (simp add: ensureShuffleCycle_def r)
  show "live T (snd (firstContextIndex E s)) = live T s" by (simp add: firstContextIndex_def n Let_def)
qed

section \<open>Planning and availability\<close>

lemma live_planning [simp]:
  "live T (planningEffect s) = live T s" "live T (snd (planningSnapshot s)) = live T s"
  "live T (snd (ensureNextActionPlan E s)) = live T s"
proof -
  show e: "live T (planningEffect s) = live T s" for s
    by (simp add: planningEffect_def Let_def split: option.split)
  show p: "live T (snd (planningSnapshot s)) = live T s" by (simp add: planningSnapshot_def Let_def e)
  show "live T (snd (ensureNextActionPlan E s)) = live T s"
    using p by (simp add: ensureNextActionPlan_def Let_def case_prod_beta split: option.split)
qed

interpretation alive: preload_frame "live T" for T
  by unfold_locales simp_all

lemmas live_preload [simp] =
  alive.resolve alive.resolve_previous alive.apply_next alive.preload_ready alive.prepare
  alive.drop_next alive.preload

section \<open>Playing\<close>

lemma live_refresh [simp]: "live T s \<Longrightarrow> live T (snd (refreshPosition E s))"
  by (simp add: refreshPosition_def Let_def)

lemma live_playDirect [simp]:
  "live T s \<Longrightarrow> live T (snd (snd (playDirect E e origin i keep p r s)))"
  by (simp add: playDirect_def playPreparing_def playReady_def failed_def Let_def split: option.split)

lemma live_activate:
  assumes "live T s"
  shows "case activatePreloadedEntry E e origin i prev st s of
     Inl t \<Rightarrow> live T t | Inr (n, t) \<Rightarrow> live T t"
proof -
  define s1 where "s1 = doCall (BActivatePreloaded (psPlayableURI st)) s"
  have l1: "live T s1" using assms by (simp add: s1_def)
  show ?thesis
  proof (cases "callFailed E s1")
    case (Some err)
    then show ?thesis using l1 by (simp add: activatePreloadedEntry_def Let_def s1_def)
  next
    case None
    define k where "k = ssTransportToken s1 + 1"
    define p where "p = \<lparr>ttToken = k, ttEntry = e, ttOrigin = origin,
      ttQueueIndex = i, ttPrevious = prev, ttPlayableURI = psPlayableURI st,
      ttActivation = replyActivation E (ssTrace s1), ttStatus = st,
      ttSourceIdentity = sourceIdentityForEntry e s1, ttKind = ActivatePreloaded\<rparr>"
    define s2 where "s2 = s1\<lparr>ssTransportToken := k, ssTransportPending := Some p\<rparr>"
    define s3 where "s3 = touch E (setLastError '''' (cancelPendingRetry (setLoading e st s2)))"
    have s3: "ssTrace s3 = ssTrace s1" "ssTransportPending s3 = Some p" "ssTransportToken s3 = k"
      "\<not> ssPendingArmed s3" "ssStarted s3 = ssStarted s1"
      by (simp_all add: s3_def s2_def setLastError_def cancelPendingRetry_def setLoading_def onSnap_def)
    have "live T (startTransportRetry k e origin i prev s3)"
      using l1 by (auto simp: live_def watched_def startTransportRetry_def doCall_def s3 p_def)
    then show ?thesis
      using None by (simp add: activatePreloadedEntry_def Let_def s1_def [symmetric] k_def [symmetric]
          p_def [symmetric] s2_def [symmetric] s3_def [symmetric])
  qed
qed

lemma live_playEntry [simp]:
  assumes "live T s"
  shows "live T (snd (snd (playEntry E e origin i prev keep p s)))"
proof -
  define s1 where "s1 = cancelTransportTransition (cancelPendingRetry (advanceIntentEpoch s))"
  have l1: "live T s1" using assms by (simp add: s1_def)
  note a = live_activate [OF l1, where E = E and e = e and origin = origin and i = i and prev = prev]
  show ?thesis
  proof (cases "preloadedActivation E e s")
    case None
    with assms l1 show ?thesis
      by (simp add: playEntry_def Let_def failed_def s1_def [symmetric] case_prod_beta)
  next
    case (Some st)
    with a [of st] assms show ?thesis
      by (cases "activatePreloadedEntry E e origin i prev st s1")
        (auto simp: playEntry_def Let_def failed_def s1_def [symmetric] case_prod_beta)
  qed
qed

lemma live_skips [simp]:
  "live T s \<Longrightarrow> live T (snd (applySkipEvent E sk stp s))"
  "live T s \<Longrightarrow> live T (snd (stopAfterSkipped E p sk s))"
  "live T s \<Longrightarrow> live T (snd (settleAfterSkipped E sk s))"
  "live T s \<Longrightarrow> live T (snd (consumeSkippedUserEntries E sk c n s))"
  by (simp_all add: applySkipEvent_def stopAfterSkipped_def settleAfterSkipped_def
      consumeSkippedUserEntries_def Let_def case_prod_beta split: option.split)

section \<open>Loops\<close>

lemma live_observe:
  "observeSeek E deadline target s = Some r \<Longrightarrow> live T s \<Longrightarrow> live T (snd r)"
proof (induct rule: observeSeek.raw_induct [rotated 1, consumes 1])
  case (1 loop E deadline target s r)
  then show ?case by (auto simp: Let_def split: if_splits)
qed

lemma live_afterSeek: "refreshPositionAfterSeek E target s = Some t \<Longrightarrow> live T s \<Longrightarrow> live T t"
  using live_observe [of E "nowNanos E s + seekObserveTimeout" target "tick (tick s)"]
  by (fastforce simp: refreshPositionAfterSeek_def Let_def bind_eq_Some_conv split: if_splits option.splits)

lemma live_playNextLoop:
  "playNextLoop E prev keep p stop blocked sk s = Some r \<Longrightarrow> live T s \<Longrightarrow> live T (snd (snd r))"
proof (induct rule: playNextLoop.raw_induct [rotated 1, consumes 1])
  case (1 loop E prev keep p stop blocked sk s r)
  obtain c u s1 where c: "resolvePlayableFromPlan E blocked s = ((c, u), s1)" by (metis prod.exhaust)
  have l1: "live T s1" using alive.resolve [OF 1(3), of E blocked] c by simp
  show ?case
  proof (cases c)
    case None
    with 1(2) c l1 show ?thesis by (auto simp: Let_def case_prod_beta split: if_splits)
  next
    case (Some d)
    obtain n err s2 where e: "playEntry E (pcEntry d) (pcOrigin d) (pcQueueIndex d) prev keep p s1
        = (n, err, s2)" by (metis prod.exhaust)
    have l2: "live T s2" using live_playEntry [OF l1, of E "pcEntry d"] e by (metis snd_conv)
    show ?thesis
    proof (cases err)
      case None
      then show ?thesis using 1(2) c Some e l2 by (auto simp: Let_def case_prod_beta)
    next
      case err: (Some er)
      show ?thesis
      proof (cases er)
        case (OtherError m)
        then show ?thesis using 1(2) c Some e err l2 by auto
      next
        case (EntryUnavailable e' st)
        with 1(2) c Some e err have "loop E prev keep p stop (enEntryID (pcEntry d) # blocked)
            ((sk @ u) @ [unavailableSkip (pcEntry d) (EntryUnavailable e' st) st]) s2 = Some r"
          by (simp add: Let_def)
        from 1(1) [OF this l2] show ?thesis .
      qed
    qed
  qed
qed

lemma live_playNext:
  "playNextAvailable E prev keep p blocked sk stop s = Some r \<Longrightarrow> live T s \<Longrightarrow> live T (snd (snd r))"
  unfolding playNextAvailable_def by (rule live_playNextLoop)

lemma live_playPreviousLoop:
  "playPreviousLoop E prev keep p blocked sk s = Some r \<Longrightarrow> live T s \<Longrightarrow> live T (snd (snd r))"
proof (induct rule: playPreviousLoop.raw_induct [rotated 1, consumes 1])
  case (1 loop E prev keep p blocked sk s r)
  obtain c u s1 where c: "resolvePreviousPlayableCandidate E blocked s = (c, u, s1)"
    by (metis prod.exhaust)
  have l1: "live T s1" using alive.resolve_previous [OF 1(3), of E blocked] c by simp
  show ?case
  proof (cases c)
    case (Inl err)
    with 1(2) c l1 show ?thesis by (auto simp: failed_def)
  next
    case (Inr d)
    show ?thesis
    proof (cases d)
      case None
      with 1(2) c Inr l1 show ?thesis
        by (auto simp: Let_def case_prod_beta unchanged_def split: if_splits option.splits)
    next
      case (Some d')
      obtain n err s2 where e: "playEntry E (pcEntry d') (pcOrigin d') (pcQueueIndex d') prev keep p s1
          = (n, err, s2)" by (metis prod.exhaust)
      have l2: "live T s2" using live_playEntry [OF l1, of E "pcEntry d'"] e by (metis snd_conv)
      show ?thesis
      proof (cases err)
        case None
        then show ?thesis using 1(2) c Inr Some e l2 by (auto simp: Let_def case_prod_beta)
      next
        case err: (Some er)
        show ?thesis
        proof (cases er)
          case (OtherError m)
          then show ?thesis using 1(2) c Inr Some e err l2 by auto
        next
          case (EntryUnavailable e' st)
          with 1(2) c Inr Some e err have "loop E prev keep p (enEntryID (pcEntry d') # blocked)
              ((sk @ u) @ [unavailableSkip (pcEntry d') (EntryUnavailable e' st) st]) s2 = Some r"
            by (simp add: Let_def)
          from 1(1) [OF this l2] show ?thesis .
        qed
      qed
    qed
  qed
qed

section \<open>The operations\<close>

lemma live_failPlayback [simp]: "live T s \<Longrightarrow> live T (snd (snd (failPlayback E m s)))"
  by (simp add: failPlayback_def Let_def case_prod_beta)

lemma live_playTarget [simp]: "live T (snd (playTarget E s)) = live T s"
proof -
  obtain i s1 where i: "firstContextIndex E s = (i, s1)" by (rule prod.exhaust)
  then have "live T s1 = live T s" using live_shuffle(6) [of T E s] by simp
  with i show ?thesis by (simp add: playTarget_def Let_def split: option.split)
qed

lemma live_transport [simp]:
  "live T s \<Longrightarrow> live T (snd (snd (resumePlayback E s)))"
  "live T s \<Longrightarrow> live T (snd (snd (pausePlayback E s)))"
  "live T s \<Longrightarrow> live T (snd (snd (selectEntry E k s)))"
  "live T s \<Longrightarrow> live T (snd (snd (selectQueueIndex E i s)))"
  by (auto simp: resumePlayback_def pausePlayback_def selectEntry_def selectQueueIndex_def
      indexError_def failed_def unchanged_def Let_def split: option.split)

lemma live_seek: "seekTo E x s = Some r \<Longrightarrow> live T s \<Longrightarrow> live T (snd (snd r))"
proof -
  assume a: "seekTo E x s = Some r" and l: "live T s"
  have "refreshPositionAfterSeek E q (doCall (BSeekTo q) s) = Some t \<Longrightarrow> live T t" for q t
    using live_afterSeek l by simp
  with a l show ?thesis
    by (auto simp: seekTo_def Let_def unchanged_def bind_eq_Some_conv split: if_splits option.splits)
qed

lemma live_play: "play E s = Some r \<Longrightarrow> live T s \<Longrightarrow> live T (snd (snd r))"
proof -
  assume a: "play E s = Some r" and l: "live T s"
  obtain t s1 where t: "playTarget E s = (t, s1)" by (rule prod.exhaust)
  have l1: "live T s1" using live_playTarget [of T E s] t l by simp
  show ?thesis
  proof (cases t)
    case None
    with a t l l1 show ?thesis
      by (auto simp: play_def Let_def unchanged_def failed_def split: if_splits)
  next
    case (Some x)
    obtain tg og qi where x: "x = (tg, og, qi)" by (metis prod.exhaust)
    obtain m err s2 where pe: "playEntry E tg og qi None False True s1 = (m, err, s2)"
      by (metis prod.exhaust)
    have l2: "live T s2" using live_playEntry [OF l1, of E tg og qi None False True] pe by simp
    show ?thesis
      using a t Some x pe l l1 l2
      by (auto simp: play_def Let_def unchanged_def dest: live_playNext
          split: if_splits option.splits sessionError.splits)
  qed
qed

lemma live_toggle: "togglePlayback E s = Some r \<Longrightarrow> live T s \<Longrightarrow> live T (snd (snd r))"
  by (auto simp: togglePlayback_def Let_def dest: live_play split: if_splits)

lemma live_next: "nextTrack E s = Some r \<Longrightarrow> live T s \<Longrightarrow> live T (snd (snd r))"
  by (auto simp: nextTrack_def Let_def dest: live_seek live_playNext split: if_splits)

lemma live_previous: "previousTrack E s = Some r \<Longrightarrow> live T s \<Longrightarrow> live T (snd (snd r))"
  by (auto simp: previousTrack_def playPreviousAvailable_def Let_def unchanged_def
      dest: live_seek live_playPreviousLoop split: if_splits)

section \<open>Editing\<close>

lemma live_makeEntries [simp]: "live T (snd (makeEntries prefix origin ix k its s)) = live T s"
proof (induction its arbitrary: k s)
  case (Cons i its)
  then show ?case by (simp add: nextEntryID_def Let_def case_prod_beta)
qed simp

lemma live_building [simp]:
  "live T (snd (snd (buildContext inp s))) = live T s"
  "live T (snd (buildSourceContext E req cands start s)) = live T s"
  "live T s \<Longrightarrow> live T (installContext q s)" "live T (resetWithoutCurrent s) = live T s"
  "live T (settleReset b s) = live T s" "live T (resetUnlessCurrent c b s) = live T s"
  by (simp_all add: buildContext_def buildSourceContext_def installContext_def resetWithoutCurrent_def
      settleReset_def resetUnlessCurrent_def drawUint64_def Let_def case_prod_beta)

lemma live_editing [simp]:
  "live T s \<Longrightarrow> live T (snd (snd (setContext E inp s)))"
  "live T s \<Longrightarrow> live T (snd (snd (setSourceCommit E ep res b s)))"
  "live T s \<Longrightarrow> live T (snd (snd (queueItems E its md s)))"
  "live T s \<Longrightarrow> live T (snd (snd (removeQueuedEntry E k s)))"
  "live T s \<Longrightarrow> live T (snd (snd (moveQueuedEntry E k i s)))"
  "live T s \<Longrightarrow> live T (snd (snd (clearQueue E s)))"
  "live T s \<Longrightarrow> live T (snd (snd (setVolume E v s)))"
  "live T s \<Longrightarrow> live T (snd (snd (setRepeatMode E m s)))"
  "live T s \<Longrightarrow> live T (snd (snd (setShuffle E b s)))"
  by (simp_all add: setContext_def setSourceCommit_def queueItems_def removeQueuedEntry_def
      moveQueuedEntry_def clearQueue_def setVolume_def setRepeatMode_def setShuffle_def drawUint64_def
      unchanged_def failed_def Let_def case_prod_beta split: sum.split option.split)

lemma live_replacing [simp]:
  "live T s \<Longrightarrow> live T (snd (snd (playReplaced E nd tg cu s)))"
  "live T s \<Longrightarrow> live T (snd (snd (replaceContextAndPlay E inp s)))"
  "live T s \<Longrightarrow> live T (snd (snd (replaceSourceCommit E ep res b s)))"
proof -
  show p: "live T s \<Longrightarrow> live T (snd (snd (playReplaced E nd tg cu s)))" for s nd tg cu
    by (simp add: playReplaced_def Let_def split: option.split)
  show "live T s \<Longrightarrow> live T (snd (snd (replaceContextAndPlay E inp s)))"
    "live T s \<Longrightarrow> live T (snd (snd (replaceSourceCommit E ep res b s)))"
    by (simp_all add: replaceContextAndPlay_def replaceSourceCommit_def unchanged_def failed_def p Let_def
        case_prod_beta split: sum.split)
qed

section \<open>Events, timers and the catalog\<close>

lemma live_interrupted [simp]: "live T s \<Longrightarrow> live T (handleInterruptedTrackEnd E err s)"
  by (simp add: handleInterruptedTrackEnd_def Let_def case_prod_beta)

lemma live_fileLoaded [simp]: "live T s \<Longrightarrow> live T (handleFileLoaded E ev s)"
  by (simp add: handleFileLoaded_def Let_def case_prod_beta split: option.split)

lemma live_eof: "handleTrackEOF E ev s = Some t \<Longrightarrow> live T s \<Longrightarrow> live T t"
proof -
  assume a: "handleTrackEOF E ev s = Some t" and l: "live T s"
  obtain c k s1 where r: "resolvePlayableFromPlan E [] s = ((c, k), s1)" by (metis prod.exhaust)
  have l1: "live T s1" using alive.resolve [OF l, of E "[]"] r by simp
  have p: "live T (eofWhileLoading E s)" "live T (eofAtEnd E cu s1)" "live T (eofPreloaded E d k s1)" for cu d
    using l l1 by (simp_all add: eofWhileLoading_def eofAtEnd_def eofPreloaded_def Let_def
        split: option.split)
  have n: "playNextAvailable E cu False False [] [] True s1 = Some x \<Longrightarrow> live T (snd (snd x))" for cu x
    using live_playNext l1 by blast
  show ?thesis
    using a l l1 p n r unfolding handleTrackEOF_def Let_def by (auto split: if_splits option.splits)
qed

lemma live_event: "handleBackendEvent E ev s = Some t \<Longrightarrow> live T s \<Longrightarrow> live T t"
  unfolding handleBackendEvent_def
  by (auto simp: Let_def case_prod_beta dest: live_eof
      split: BackendEventType.splits TrackEndReason.splits if_splits option.splits)

lemma live_ticker [simp]: "live T s \<Longrightarrow> live T (tickerFired E s)"
proof -
  assume l: "live T s"
  obtain n s1 where r: "refreshPosition E s = (n, s1)" by (rule prod.exhaust)
  have "live T s1" using live_refresh [OF l, of E] r by simp
  with l r show ?thesis by (simp add: tickerFired_def Let_def split: option.split)
qed

lemma live_timers [simp]:
  "live T s \<Longrightarrow> live T (transportTimeout E k e origin i prev s)"
  "live T s \<Longrightarrow> live T (finishPendingRetry E k n b s)" "live T s \<Longrightarrow> live T (failPendingPlayback E err s)"
  "live T s \<Longrightarrow> live T (snd (completePendingPlayback E e st s))"
  by (simp_all add: transportTimeout_def finishPendingRetry_def failPendingPlayback_def
      completePendingPlayback_def Let_def case_prod_beta split: option.split)

lemma live_tryPending: "tryPendingPlayback E k n s = Some (b, t) \<Longrightarrow> live T s \<Longrightarrow> live T t"
proof -
  assume a: "tryPendingPlayback E k n s = Some (b, t)" and l: "live T s"
  show ?thesis
  proof (cases "snLoadingEntry (ssSnap s)")
    case None
    with a l show ?thesis by (auto simp: tryPendingPlayback_def split: if_splits)
  next
    case (Some e)
    define s1 where "s1 = doCall (CGetPreparation (itTarget (enItem e))) s"
    define st where "st = replyStatus E (ssTrace s1)"
    define s2 where "s2 = touch E (onSnap (\<lambda>m. m\<lparr>snLoadingPreparation :=
      Some \<lparr>epEntryID = n, epStatus = st\<rparr>\<rparr>) s1)"
    have l2: "live T s1" "live T s2" using l by (simp_all add: s1_def s2_def)
    have n': "playNextAvailable E None False h [] [] h' s2 = Some (m, er, u) \<Longrightarrow> live T u" for h h' m er u
      using live_playNext l2(2) by fastforce
    obtain err s3 where c: "completePendingPlayback E e st s2 = (err, s3)" by (rule prod.exhaust)
    have "live T s3" using live_timers(4) [OF l2(2), of E e st] c by simp
    then show ?thesis
      using a l l2 Some c
      unfolding tryPendingPlayback_def Some option.case Let_def s1_def [symmetric] st_def [symmetric]
        s2_def [symmetric]
      by (auto simp: map_option_case dest!: n' split: if_splits option.splits prod.splits)
  qed
qed

lemma live_restorePending: "live T s \<Longrightarrow> live T (snd (restorePending es ident s))"
proof (cases "ssTransportPending s")
  case (Some p)
  assume l: "live T s"
  then have "live T (s\<lparr>ssTransportPending := Some (p\<lparr>ttEntry := e, ttSourceIdentity := ident\<rparr>)\<rparr>)" for e
    using Some by (auto simp: live_def watched_def)
  with l Some show ?thesis by (simp add: restorePending_def split: option.split)
qed (simp add: restorePending_def)

lemma live_installRebuilt [simp]: "live T (installRebuilt E q p s) = live T s"
  by (simp add: installRebuilt_def Let_def drawUint64_def split: option.split)

lemma live_applyRebuilt [simp]:
  assumes "live T s"
  shows "live T (snd (snd (applyRebuiltSourceContext E q ident b s)))"
proof -
  obtain rp s2 where r: "restorePending (cqAllEntries q) ident (snd (invalidatePreloadPlan E b s)) = (rp, s2)"
    by (rule prod.exhaust)
  have "live T s2"
    using live_restorePending [of T "snd (invalidatePreloadPlan E b s)" "cqAllEntries q" ident] r assms
    by simp
  then show ?thesis
    unfolding applyRebuiltSourceContext_def Let_def
    using r by (auto simp: case_prod_beta split: option.split)
qed

lemma live_catalog [simp]:
  "live T s \<Longrightarrow> live T (handleAvailabilityChange E cev s)"
  "live T s \<Longrightarrow> live T (catalogRebaseCommit E q ep ident res s)"
  "live T s \<Longrightarrow> live T (restoreSourceBackedContext E q res2 s)"
proof -
  assume l: "live T s"
  show "live T (handleAvailabilityChange E cev s)"
    unfolding handleAvailabilityChange_def Let_def using l by (simp del: fun_upd_apply)
  show "live T (catalogRebaseCommit E q ep ident res s)" "live T (restoreSourceBackedContext E q res2 s)"
    using l by (auto simp: catalogRebaseCommit_def restoreSourceBackedContext_def Let_def case_prod_beta
        split: sum.split prod.split)
qed

lemma live_lifecycle [simp]:
  "live T s \<Longrightarrow> live T (startFinish E s)" "live T s \<Longrightarrow> live T (closeSession E s)"
  by (simp_all add: startFinish_def closeSession_def persistFinalSnapshot_def Let_def)

end
