(* ===== verification/Runs.thy ===== *)
theory Runs
  imports WatchLaws
begin

text \<open>
  The session as a state machine.  A step is one handler run to its end: an operation of the user, an
  event of the backend, the firing of a timer, or a change of the catalog.  The world decides which step
  comes next and with which arguments; a timer or a poll fires only after its goroutine was started, and
  the two halves of an operation that works without the lock are separate steps, so that anything may
  happen between them.
\<close>

section \<open>Steps\<close>

text \<open>The handlers that play, stop and move on; none of them is asked to change a mode.\<close>

inductive transports :: "env \<Rightarrow> session \<Rightarrow> session \<Rightarrow> bool" for E where
  play: "play E s = Some r \<Longrightarrow> transports E s (snd (snd r))"
| pause: "transports E s (snd (snd (pausePlayback E s)))"
| toggle: "togglePlayback E s = Some r \<Longrightarrow> transports E s (snd (snd r))"
| next_track: "nextTrack E s = Some r \<Longrightarrow> transports E s (snd (snd r))"
| previous_track: "previousTrack E s = Some r \<Longrightarrow> transports E s (snd (snd r))"
| seek: "seekTo E x s = Some r \<Longrightarrow> transports E s (snd (snd r))"
| select: "transports E s (snd (snd (selectEntry E k s)))"
| select_index: "transports E s (snd (snd (selectQueueIndex E i s)))"
| backend_event: "handleBackendEvent E ev s = Some t \<Longrightarrow> transports E s t"
| ticker: "ssTicker s \<Longrightarrow> transports E s (tickerFired E s)"
| transport_timer:
    "GoTransportRetry k e origin i prev \<in> set (ssTrace s) \<Longrightarrow>
     transports E s (transportTimeout E k e origin i prev s)"
| pending_poll:
    "GoPendingRetry k n \<in> set (ssTrace s) \<Longrightarrow> tryPendingPlayback E k n s = Some (b, t) \<Longrightarrow> transports E s t"
| pending_end: "GoPendingRetry k n \<in> set (ssTrace s) \<Longrightarrow> transports E s (finishPendingRetry E k n b s)"
| availability: "transports E s (handleAvailabilityChange E cev s)"
| rebase: "transports E s (catalogRebaseCommit E q ep ident res s)"

text \<open>The handlers that edit the queues, replace the context or set a mode, and the end of \<open>Start\<close>.\<close>

inductive edits :: "env \<Rightarrow> session \<Rightarrow> session \<Rightarrow> bool" for E where
  set_context: "edits E s (snd (snd (setContext E inp s)))"
| replace_context: "edits E s (snd (snd (replaceContextAndPlay E inp s)))"
| source_begin: "edits E s (snd (setSourceBegin s))"
| source_commit: "edits E s (snd (snd (setSourceCommit E ep res b s)))"
| replace_source: "edits E s (snd (snd (replaceSourceCommit E ep res b s)))"
| queue_items: "edits E s (snd (snd (queueItems E its md s)))"
| remove_entry: "edits E s (snd (snd (removeQueuedEntry E k s)))"
| move_entry: "edits E s (snd (snd (moveQueuedEntry E k i s)))"
| clear_queue: "edits E s (snd (snd (clearQueue E s)))"
| set_volume: "edits E s (snd (snd (setVolume E v s)))"
| set_repeat: "edits E s (snd (snd (setRepeatMode E m s)))"
| set_shuffle: "edits E s (snd (snd (setShuffle E b s)))"
| restore_source: "edits E s (restoreSourceBackedContext E q res2 s)"
| finish_start: "edits E s (startFinish E s)"
| close_session: "edits E s (closeSession E s)"

definition step :: "env \<Rightarrow> session \<Rightarrow> session \<Rightarrow> bool" where
  "step E s t \<longleftrightarrow> transports E s t \<or> edits E s t"

text \<open>What a session that was started on a stored snapshot, or on none, can become.\<close>

inductive reachable :: "env \<Rightarrow> session \<Rightarrow> bool" for E where
  start: "startLoad E stored newSession = (err, s) \<Longrightarrow> reachable E s"
| step: "reachable E s \<Longrightarrow> step E s t \<Longrightarrow> reachable E t"

inductive_cases reachableE: "reachable E s"

text \<open>An invariant of the machine: it holds after the start and every step keeps it.\<close>

locale session_invariant =
  fixes E :: env and inv :: "session \<Rightarrow> bool"
  assumes initially: "startLoad E stored newSession = (err, s) \<Longrightarrow> inv s"
    and transported: "transports E s t \<Longrightarrow> inv s \<Longrightarrow> inv t"
    and edited: "edits E s t \<Longrightarrow> inv s \<Longrightarrow> inv t"
begin

lemma step_keeps: "step E s t \<Longrightarrow> inv s \<Longrightarrow> inv t"
  using transported edited by (auto simp: step_def)

lemma always: "reachable E s \<Longrightarrow> inv s"
  by (induction rule: reachable.induct) (auto dest: initially step_keeps)

lemma onwards: "(step E)\<^sup>*\<^sup>* s t \<Longrightarrow> inv s \<Longrightarrow> inv t"
  by (induction rule: rtranclp_induct) (auto dest: step_keeps)

end

section \<open>The invariant of the retry goroutines\<close>

lemma live_transports: "transports E s t \<Longrightarrow> live T s \<Longrightarrow> live T t"
proof (induction rule: transports.induct)
  case (pending_poll k n s b t)
  then show ?case by (rule_tac live_tryPending)
qed (auto dest: live_play live_toggle live_next live_previous live_seek live_event)

lemma live_edits: "edits E s t \<Longrightarrow> live T s \<Longrightarrow> live T t"
  by (induction rule: edits.induct) (simp_all add: setSourceBegin_def Let_def)

lemma live_start: "startLoad E stored newSession = (err, s) \<Longrightarrow> live {} s"
proof -
  have n: "live {} (newSession\<lparr>ssStarted := True\<rparr>)"
    by (simp add: live_def watched_def newSession_def)
  have l: "live {} s1 \<Longrightarrow> live {} (disarm (setLoaded '''' '''' (s1\<lparr>ssPreloadedID := '''', ssPreloadedURI := ''''\<rparr>)))"
    for s1 by simp
  assume "startLoad E stored newSession = (err, s)"
  with n l show ?thesis
    by (auto simp: startLoad_def Let_def newSession_def split: if_splits sum.splits)
qed

interpretation watch: session_invariant E "live {}" for E
  by unfold_locales (auto dest: live_start live_transports live_edits)

end
