(* ===== verification/RunProperties.thy ===== *)
theory RunProperties
  imports Runs PlayLaws
begin

text \<open>
  Properties of the runs of a session: what transport handlers never change, that whatever waits is
  guarded by a goroutine, and that goroutines of finished work do nothing.
\<close>

section \<open>Modes\<close>

lemma transports_modes: "transports E s t \<Longrightarrow> modes t = modes s"
proof -
  assume "transports E s t"
  then have "quiet s t"
  proof (induction rule: transports.induct)
    case (pending_poll k n s b t)
    then show ?case by (rule_tac quiet_tryPending)
  next
    case (ticker s)
    then show ?case by (intro quiet_gear) simp
  next
    case (pending_end k n s b)
    then show ?case by (intro quiet_gear) simp
  next
    case (availability s cev)
    then show ?case by (intro quiet_gear) simp
  qed (auto dest: quiet_play quiet_toggle quiet_next quiet_previous quiet_seek quiet_event)
  then show ?thesis by (simp add: quiet_def)
qed

text \<open>
  No run of transport handlers changes a mode.  However long the session plays, skips, seeks,
  retries, receives events of the backend and is rebased, its volume, repeat mode and shuffle flag stay
  what the user set, and it stays started and connected to its backend.
\<close>

theorem transport_keeps_modes:
  assumes "(transports E)\<^sup>*\<^sup>* s t"
  shows "clampVolume (snVolume (ssSnap t)) = clampVolume (snVolume (ssSnap s))
     \<and> knownMode (snRepeatMode (ssSnap t)) = knownMode (snRepeatMode (ssSnap s))
     \<and> snShuffle (ssSnap t) = snShuffle (ssSnap s)
     \<and> ssBackend t = ssBackend s \<and> ssStarted t = ssStarted s"
proof -
  have "modes t = modes s"
    using assms by (induction rule: rtranclp_induct) (auto dest: transports_modes)
  then show ?thesis by (simp add: modes_def)
qed

lemma transport_keeps_modes_witness:
  "\<exists>t. (transports sampleEnv)\<^sup>*\<^sup>* playingSession t \<and> snStatus (ssSnap t) = StatusPaused
     \<and> clampVolume (snVolume (ssSnap t)) = 100 \<and> snShuffle (ssSnap t) = snShuffle (ssSnap playingSession)"
proof -
  let ?t = "snd (snd (pausePlayback sampleEnv playingSession))"
  have r: "(transports sampleEnv)\<^sup>*\<^sup>* playingSession ?t" by (intro r_into_rtranclp transports.pause)
  have v: "clampVolume (snVolume (ssSnap playingSession)) = 100" "snStatus (ssSnap ?t) = StatusPaused"
    by code_simp+
  from transport_keeps_modes [OF r] v r show ?thesis by metis
qed

section \<open>Guards of what waits\<close>


lemma preloadedID_frames [simp]:
  "ssPreloadedID (clearIf E b s) = ssPreloadedID s"
  "ssPreloadedID (cancelTransportTransition s) = ssPreloadedID s"
  "ssPreloadedID (snd (invalidatePreloadPlan E b s)) = ''''"
  by (simp_all add: clearIf_def clearBackendPreload_def doCall_def cancelTransportTransition_def
      invalidateNextActionPlan_def clearLoadingState_def onSnap_def invalidatePreloadPlan_def
      clearNextPreparationState_def clearBackendPreloadFailure_def clearNextPreparationRetry_def
      Let_def split: option.split)






text \<open>
  A session just started on a stored album, in a world where every preparation is still being fetched:
  the entry that is selected has to wait.
\<close>

definition fetchingStatus :: PreparationStatus where
  "fetchingStatus = zeroPreparation\<lparr>psPhase := PhasePreparingFetch\<rparr>"

definition fetchingEnv :: env where
  "fetchingEnv = sampleEnv\<lparr>replyStatus := \<lambda>t. fetchingStatus\<rparr>"

definition startedSession :: session where
  "startedSession = snd (startLoad fetchingEnv (Inr (sampleSnapshot 0 [''q1''])) newSession)"


lemma started_reachable: "reachable fetchingEnv startedSession"
  unfolding startedSession_def by (rule reachable.start) (rule surjective_pairing)




text \<open>
  C30: goroutines of finished work do nothing.  A transition's timer or a poll whose token is no longer
  the session's leaves every reachable session exactly as it is, and ends; and once a transition is
  cancelled its own timer has such a token.
\<close>

theorem stale_goroutines_do_nothing:
  assumes "reachable E s"
  shows "(k \<noteq> ssTransportToken s \<longrightarrow> transportTimeout E k e origin i prev s = s)
     \<and> (k \<noteq> ssPendingToken s \<longrightarrow>
          tryPendingPlayback E k n s = Some (True, s) \<and> finishPendingRetry E k n b s = s)
     \<and> (\<forall>p. ssTransportPending s = Some p \<longrightarrow>
          transportTimeout E (ttToken p) e origin i prev (cancelTransportTransition s)
          = cancelTransportTransition s)"
proof -
  have "watched s" using watch.always [OF assms] by (simp add: live_def)
  then show ?thesis
    by (auto simp: watched_def transportTimeout_def tryPendingPlayback_def finishPendingRetry_def
        pendingIs_def split: option.split)
qed

lemma stale_goroutines_do_nothing_witness:
  "ssTransportToken startedSession = 0
   \<and> transportTimeout fetchingEnv 7 (queued ''q1'') OriginQueued 0 None
       startedSession
     = startedSession"
proof -
  have t: "ssTransportToken startedSession = 0" by code_simp
  then have "7 \<noteq> ssTransportToken startedSession" by simp
  with t stale_goroutines_do_nothing [OF started_reachable] show ?thesis by blast
qed

end
