(* ===== verification/IdLaws.thy ===== *)
theory IdLaws
  imports PlayLaws
begin

text \<open>
  The identifiers a session knows.  Looking for something to play never brings in an identifier that the
  queues, the current entry, a pending transition or the cached plan did not have before; so a search
  that rules out one identifier after another comes to an end.
\<close>

section \<open>The identifiers of a session\<close>

definition entryIds :: "SessionEntry list \<Rightarrow> string set" where
  "entryIds es = enEntryID ` set es"

definition contextIds :: "ContextQueue option \<Rightarrow> string set" where
  "contextIds c = (case c of None \<Rightarrow> {} | Some q \<Rightarrow> entryIds (cqEntries q) \<union> entryIds (cqAllEntries q))"

definition snapIds :: "SessionSnapshot \<Rightarrow> string set" where
  "snapIds n = entryIds (snUserQueue n) \<union> contextIds (snContextQueue n)
     \<union> enEntryID ` set_option (snCurrentEntry n)"

definition wireIds :: "session \<Rightarrow> string set" where
  "wireIds s = (\<lambda>p. enEntryID (ttEntry p)) ` set_option (ssTransportPending s)
     \<union> (\<Union>p \<in> set_option (ssNextActionPlan s). plEntryID ` set (npCandidates p))"

definition sessionIds :: "session \<Rightarrow> string set" where
  "sessionIds s = snapIds (ssSnap s) \<union> wireIds s"

definition within :: "string set \<Rightarrow> session \<Rightarrow> bool" where
  "within A s \<longleftrightarrow> sessionIds s \<subseteq> A"

lemma within_parts:
  "within A s \<longleftrightarrow> entryIds (snUserQueue (ssSnap s)) \<subseteq> A \<and> contextIds (snContextQueue (ssSnap s)) \<subseteq> A
     \<and> enEntryID ` set_option (snCurrentEntry (ssSnap s)) \<subseteq> A \<and> wireIds s \<subseteq> A"
  by (auto simp: within_def sessionIds_def snapIds_def)

lemma finite_sessionIds: "finite (sessionIds s)"
  by (simp add: sessionIds_def snapIds_def wireIds_def entryIds_def contextIds_def split: option.split)

lemma entryIds_simps [simp]:
  "entryIds [] = {}" "entryIds (e # es) = insert (enEntryID e) (entryIds es)"
  "entryIds (es @ fs) = entryIds es \<union> entryIds fs"
  "entryIds (map normalizeQueuedEntry es) = entryIds es"
  by (simp_all add: entryIds_def image_Un image_image)

lemma entryIds_mono: "set es \<subseteq> set fs \<Longrightarrow> entryIds es \<subseteq> entryIds fs"
  by (auto simp: entryIds_def)

lemma entryIds_allEntries: "entryIds (contextAllEntries n) \<subseteq> contextIds (snContextQueue n)"
  by (auto simp: contextAllEntries_def contextIds_def split: option.split)

section \<open>Normalising\<close>

lemma entryIds_normalContext: "entryIds (map (normalizeContextEntry w) (enumerate k es)) = entryIds es"
proof -
  have "map enEntryID (map (normalizeContextEntry w) (enumerate k es)) = map enEntryID es"
    by (rule nth_equalityI) (simp_all add: nth_enumerate_eq normalizeContextEntry_def Let_def)
  then show ?thesis by (metis entryIds_def set_map)
qed

lemma contextIds_normalize: "contextIds (Option.bind c normalizeContextQueue) \<subseteq> contextIds c"
proof (cases c)
  case (Some q)
  show ?thesis
  proof (cases "cqAllEntries q \<noteq> [] \<or> cqEntries q \<noteq> []")
    case True
    show ?thesis
      unfolding Some Option.bind.bind_lunit normalizeContextQueue_full(2) [OF True refl refl refl]
      by (auto simp: contextIds_def entryIds_normalContext)
  next
    case False
    then show ?thesis by (simp add: Some normalizeContextQueue_empty contextIds_def)
  qed
qed (simp add: contextIds_def)

lemma refreshWindow_all:
  "cqAllEntries (refreshWindow q) = (if cqAllEntries q = [] then cqEntries q else cqAllEntries q)"
  by (simp add: refreshWindow_def Let_def)

lemma refreshWindow_slice: "set (cqEntries (refreshWindow q)) \<subseteq> set (cqAllEntries (refreshWindow q))"
proof -
  have "set (take k (drop j es)) \<subseteq> set es" for k j and es :: "SessionEntry list"
    by (meson set_drop_subset set_take_subset subset_trans)
  then show ?thesis
    by (cases "isSourceBackedContext (Some q)"; cases "cqAllEntries q = []"; cases "cqEntries q = []")
      (simp_all add: refreshWindow_def Let_def split del: if_split)
qed

lemma contextIds_refresh: "contextIds (map_option refreshWindow c) \<subseteq> contextIds c"
proof (cases c)
  case (Some q)
  have "entryIds (cqEntries (refreshWindow q)) \<subseteq> entryIds (cqAllEntries (refreshWindow q))"
    by (rule entryIds_mono) (rule refreshWindow_slice)
  then show ?thesis using Some by (auto simp: contextIds_def refreshWindow_all split: if_splits)
qed (simp add: contextIds_def)

lemma contextIds_stages:
  "contextIds (snContextQueue (normalizeCurrent n)) = contextIds (snContextQueue n)"
  "contextIds (snContextQueue (normalizeLoading n)) = contextIds (snContextQueue n)"
  "contextIds (snContextQueue (normalizeContextState L n)) = contextIds (snContextQueue n)"
  "contextIds (snContextQueue (normalizePosition n)) = contextIds (snContextQueue n)"
  "contextIds (snContextQueue (normalizeIdle n)) = contextIds (snContextQueue n)"
  "contextIds (snContextQueue (normalizeDerived L n)) = contextIds (snContextQueue n)"
  by (simp_all add: idle_fields derived_fields)
     (auto simp: normalizeCurrent_def normalizeLoading_def normalizeContextState_def
       normalizePosition_def clearContextShuffleState_def contextIds_def Let_def split: option.split)

lemma contextIds_normalizeSnapshot:
  "contextIds (snContextQueue (normalizeSnapshot L n)) \<subseteq> contextIds (snContextQueue n)"
  using contextIds_normalize
  by (simp add: normalizeSnapshot_def contextIds_stages normalizeQueues_def normalizeScalars_def)

lemma within_touch: "within A s \<Longrightarrow> within A (touch E s)"
proof -
  assume a: "within A s"
  have "snContextQueue (ssSnap (touch E s)) = snContextQueue (touchedSnap E s)" by (rule touch_snap)
  then have "contextIds (snContextQueue (ssSnap (touch E s))) \<subseteq> contextIds (snContextQueue (ssSnap s))"
    using contextIds_normalizeSnapshot contextIds_refresh by (fastforce simp: touchedSnap_def)
  moreover have "enEntryID ` set_option (map_option normalEntry e) = enEntryID ` set_option e" for e
    by (cases e) simp_all
  ultimately show ?thesis using a by (auto simp: within_parts touch_fields wireIds_def)
qed

section \<open>Mutators\<close>

lemma within_fields [simp]:
  "within A (s\<lparr>ssTicks := k\<rparr>) = within A s" "within A (s\<lparr>ssTrace := a\<rparr>) = within A s"
  "within A (s\<lparr>ssNextActionBuilds := i\<rparr>) = within A s" "within A (s\<lparr>ssAvailabilityCache := c\<rparr>) = within A s"
  "within A (s\<lparr>ssRetryEntryID := d\<rparr>) = within A s" "within A (s\<lparr>ssRetryAt := e\<rparr>) = within A s"
  "within A (s\<lparr>ssPreloadedID := f\<rparr>) = within A s" "within A (s\<lparr>ssPreloadedURI := g\<rparr>) = within A s"
  "within A (s\<lparr>ssBackendPreloadArmed := h\<rparr>) = within A s"
  "within A (s\<lparr>ssPreloadFailureEntryID := j\<rparr>) = within A s"
  "within A (s\<lparr>ssPreloadFailureURI := l\<rparr>) = within A s" "within A (s\<lparr>ssQueueDirty := m\<rparr>) = within A s"
  "within A (s\<lparr>ssIntentEpoch := u\<rparr>) = within A s" "within A (s\<lparr>ssTransportToken := w\<rparr>) = within A s"
  "within A (s\<lparr>ssPendingArmed := x, ssPendingEntry := y, ssPendingToken := z\<rparr>) = within A s"
  by (simp_all add: within_def sessionIds_def wireIds_def)

lemma within_dropped [simp]:
  "within A s \<Longrightarrow> within A (s\<lparr>ssNextActionPlan := None\<rparr>)"
  "within A s \<Longrightarrow> within A (s\<lparr>ssTransportPending := None\<rparr>)"
  by (auto simp: within_def sessionIds_def wireIds_def)

lemma within_snap:
  "snUserQueue (f (ssSnap s)) = snUserQueue (ssSnap s) \<Longrightarrow> snContextQueue (f (ssSnap s)) = snContextQueue (ssSnap s)
   \<Longrightarrow> snCurrentEntry (f (ssSnap s)) = snCurrentEntry (ssSnap s) \<Longrightarrow> within A (onSnap f s) = within A s"
  by (simp add: within_def sessionIds_def wireIds_def snapIds_def onSnap_def)

lemma within_mutators [simp]:
  "within A (doCall c s) = within A s" "within A (tick s) = within A s"
  "within A s \<Longrightarrow> within A (invalidateNextActionPlan s)" "within A s \<Longrightarrow> within A (markQueueDirty s)"
  "within A s \<Longrightarrow> within A (setEntryAvailability k a s)"
  "within A (clearNextPreparationRetry s) = within A s" "within A (clearBackendPreloadFailure s) = within A s"
  "within A (clearNextPreparationState s) = within A s"
  "within A (scheduleNextPreparationPoll k x s) = within A s"
  "within A (recordBackendPreloadFailure E k u s) = within A s"
  "within A (putNextPreparation e st s) = within A s" "within A (setPreloaded k u s) = within A s"
  "within A (clearBackendPreload E b s) = within A s" "within A (clearIf E b s) = within A s"
  "within A s \<Longrightarrow> within A (clearLoadingState s)" "within A (cancelPendingRetry s) = within A s"
  "within A (advanceIntentEpoch s) = within A s" "within A s \<Longrightarrow> within A (cancelTransportTransition s)"
  "within A s \<Longrightarrow> within A (snd (invalidatePreloadPlan E b s))"
  by (simp_all add: doCall_def tick_def invalidateNextActionPlan_def markQueueDirty_def
      setEntryAvailability_def clearNextPreparationRetry_def clearBackendPreloadFailure_def
      clearNextPreparationState_def scheduleNextPreparationPoll_def recordBackendPreloadFailure_def
      putNextPreparation_def setPreloaded_def clearBackendPreload_def clearIf_def clearLoadingState_def
      cancelPendingRetry_def advanceIntentEpoch_def cancelTransportTransition_def
      invalidatePreloadPlan_def within_snap Let_def split: option.split)

section \<open>Planning\<close>

text \<open>What comes next or came before is taken from the queues and the current entry.\<close>

lemma entryIds_bound:
  "entryIds xs \<subseteq> B \<Longrightarrow> entryIds (take k xs) \<subseteq> B" "entryIds xs \<subseteq> B \<Longrightarrow> entryIds (drop k xs) \<subseteq> B"
  "entryIds xs \<subseteq> B \<Longrightarrow> entryIds ys \<subseteq> B \<Longrightarrow> entryIds (xs @ ys) \<subseteq> B"
  "(b \<Longrightarrow> entryIds xs \<subseteq> B) \<Longrightarrow> (\<not> b \<Longrightarrow> entryIds ys \<subseteq> B) \<Longrightarrow> entryIds (if b then xs else ys) \<subseteq> B"
  "entryIds [] \<subseteq> B"
proof -
  show "entryIds xs \<subseteq> B \<Longrightarrow> entryIds (take k xs) \<subseteq> B" "entryIds xs \<subseteq> B \<Longrightarrow> entryIds (drop k xs) \<subseteq> B"
    by (meson entryIds_mono set_take_subset set_drop_subset subset_trans)+
qed simp_all

lemma cycleEntries_bound:
  assumes "\<And>i. i \<in> set c \<Longrightarrow> 0 \<le> i \<and> i < int (length (contextAllEntries n))"
  shows "entryIds (cycleEntries n c) \<subseteq> entryIds (contextAllEntries n)"
  using assms by (fastforce simp: cycleEntries_def entryIds_def)

lemma upcoming_within: "entryIds (buildUpcomingEntries L n) \<subseteq> snapIds n"
proof -
  let ?c = "effectiveShuffleCycle L n" and ?all = "contextAllEntries n" and ?B = "snapIds n"
  have all: "entryIds ?all \<subseteq> ?B" "entryIds (snUserQueue n) \<subseteq> ?B"
    using entryIds_allEntries [of n] by (auto simp: snapIds_def)
  have c: "entryIds (cycleEntries n xs) \<subseteq> ?B" if "set xs \<subseteq> set ?c" for xs
    using that isCycle_facts(3) [OF effectiveShuffleCycle_isCycle [of n L]]
    by (intro subset_trans [OF cycleEntries_bound all(1)]) auto
  have single: "entryIds (cycleEntries n [?c ! 0]) \<subseteq> ?B" if "length ?c = 1"
    using that by (intro c) (cases ?c; simp)
  have a1: "entryIds [?all ! 0] \<subseteq> ?B" if "length ?all = 1"
    using that all(1) by (cases ?all) simp_all
  show ?thesis
    unfolding buildUpcomingEntries_def Let_def
    by (intro entryIds_bound all c single a1 set_take_subset set_drop_subset order_refl)
qed

lemma within_repositioned: "within A (onContext (\<lambda>q. q\<lparr>cqCurrentIndex := i\<rparr>) s) = within A s"
proof -
  have "contextIds (map_option (\<lambda>q. q\<lparr>cqCurrentIndex := i\<rparr>) x) = contextIds x" for x
    by (cases x) (simp_all add: contextIds_def)
  then show ?thesis by (simp add: onContext_def onSnap_def within_parts wireIds_def)
qed

lemma within_requeued: "within A s \<Longrightarrow> entryIds q \<subseteq> A \<Longrightarrow> within A (setUserQueue q s)"
  by (simp add: setUserQueue_def onSnap_def within_parts wireIds_def)

lemma entryIds_removeAt: "entryIds (removeAt i xs) \<subseteq> entryIds xs"
  by (auto simp: removeAt_def entryIds_def dest: in_set_takeD in_set_dropD)

lemma planningEffect_within: "within A s \<Longrightarrow> within A (planningEffect s)"
proof (cases "ssTransportPending s")
  case (Some p)
  assume a: "within A s"
  let ?q = "snUserQueue (ssSnap s)"
  define s1 where "s1 = (if ttOrigin p = OriginContext
    then onContext (\<lambda>q. q\<lparr>cqCurrentIndex := enContextIndex (ttEntry p)\<rparr>) s else s)"
  have s1: "within A s1" "snUserQueue (ssSnap s1) = ?q"
    using a by (simp_all add: s1_def within_repositioned)
  have "entryIds (appendInPlace i ?q) \<subseteq> A" if "pendingQueueHit s p" for i
  proof -
    have "?q \<noteq> []" using that by (auto simp: pendingQueueHit_def)
    then have "enEntryID (last ?q) \<in> entryIds ?q" by (simp add: entryIds_def)
    then show ?thesis
      using entryIds_removeAt [of i ?q] a by (auto simp: appendInPlace_def within_parts)
  qed
  with s1 show ?thesis
    by (simp add: planningEffect_def Some Let_def s1_def [symmetric] within_requeued)
qed (simp add: planningEffect_def)

lemma planning_within:
  assumes "within A s"
  shows "snapIds (fst (planningSnapshot s)) \<subseteq> A" "within A (snd (planningSnapshot s))"
proof -
  note e = planningEffect_within [OF assms]
  then show "within A (snd (planningSnapshot s))" by (simp add: planningSnapshot_def Let_def)
  have q: "entryIds (snUserQueue (ssSnap s)) \<subseteq> A" "entryIds (removeAt i (snUserQueue (ssSnap s))) \<subseteq> A"
    "contextIds (snContextQueue (ssSnap (planningEffect s))) \<subseteq> A"
    "enEntryID ` set_option (snCurrentEntry (ssSnap s)) \<subseteq> A" "wireIds s \<subseteq> A" for i
    using assms e subset_trans [OF entryIds_removeAt] by (simp_all add: within_parts)
  show "snapIds (fst (planningSnapshot s)) \<subseteq> A"
  proof (cases "ssTransportPending s")
    case (Some p)
    then have "enEntryID (ttEntry p) \<in> A" using q(5) by (simp add: wireIds_def)
    with Some q show ?thesis by (simp add: planningSnapshot_def Let_def snapIds_def)
  qed (use q in \<open>simp add: planningSnapshot_def Let_def snapIds_def\<close>)
qed

lemma drained_within: "plEntryID ` set (map planCandidate (drainIterator (newNextActionIterator L n {}))) \<subseteq> snapIds n"
proof -
  let ?d = "drainIterator (newNextActionIterator L n {})"
  have "plEntryID ` set (map planCandidate ?d) = entryIds (map pcEntry ?d)"
    by (simp add: entryIds_def planCandidate_def image_image)
  also have "\<dots> \<subseteq> snapIds n"
    using upcoming_within [of L n]
    by (auto simp: drain_new snapIds_def split: option.splits if_splits)
  finally show ?thesis .
qed

lemma ensure_within: "within A s \<Longrightarrow> within A (snd (ensureNextActionPlan E s))"
  "within A s \<Longrightarrow> plEntryID ` set (npCandidates (fst (ensureNextActionPlan E s))) \<subseteq> A"
proof -
  assume a: "within A s"
  obtain n s1 where p: "planningSnapshot s = (n, s1)" by (rule prod.exhaust)
  note b = planning_within [OF a, unfolded p fst_conv snd_conv]
  have d: "plEntryID ` set (map planCandidate (drainIterator (newNextActionIterator (lib E) n {}))) \<subseteq> A"
    using drained_within b(1) by (rule subset_trans)
  have k: "ssNextActionPlan s = Some plan \<Longrightarrow> plEntryID ` set (npCandidates plan) \<subseteq> A" for plan
    using a by (auto simp: within_parts wireIds_def)
  have w: "within A (s1\<lparr>ssNextActionBuilds := x, ssNextActionPlan :=
      Some (m\<lparr>npVersion := v, npCandidates := map planCandidate (drainIterator (newNextActionIterator (lib E) n {}))\<rparr>)\<rparr>)" for x m v
    using b(2) d by (auto simp: within_parts wireIds_def)
  show "within A (snd (ensureNextActionPlan E s))"
    using a w by (auto simp: ensureNextActionPlan_def p Let_def split: option.split)
  show "plEntryID ` set (npCandidates (fst (ensureNextActionPlan E s))) \<subseteq> A"
    using k d by (auto simp: ensureNextActionPlan_def p Let_def split: option.split)
qed

interpretation enclosed: preload_frame "within A" for A
  by unfold_locales (simp_all add: within_touch ensure_within planning_within cacheAvailability_def)

end
