(* ===== verification/Returns.thy ===== *)
theory Returns
  imports IdLaws OrderProperties Samples
begin

text \<open>
  Searches come to an end.  The loops that look for something to play rule out one identifier after
  another; the identifiers they can propose are those the session knows, and playing an entry that turns
  out to be unavailable adds none.
\<close>

section \<open>What a resolution proposes\<close>

definition tidy :: "string set \<Rightarrow> bool" where
  "tidy A \<longleftrightarrow> finite A \<and> (\<forall>x \<in> A. trimSpace x = x)"

lemma found_within: "findEntryByID n k = Some e \<Longrightarrow> enEntryID e = trimSpace k"
  by (auto simp: findEntryByID_def Let_def find_Some_iff split: if_splits option.splits)

lemma candidate_within:
  assumes "playbackCandidateFromPlanned s c = Some r" "within A s" "tidy A" "plEntryID c \<in> A"
  shows "enEntryID (pcEntry r) = plEntryID c"
proof -
  have "trimSpace (plEntryID c) = plEntryID c" using assms by (simp add: tidy_def)
  with assms(1) show ?thesis
    by (auto simp: playbackCandidateFromPlanned_def Let_def dest: found_within
        split: if_splits option.splits)
qed

text \<open>The candidates a search starts from, and what it may answer.\<close>

definition open_in :: "string set \<Rightarrow> string list \<Rightarrow> plannedCandidate list \<Rightarrow> bool" where
  "open_in A blocked cs \<longleftrightarrow> (\<forall>c \<in> set cs. plEntryID c \<in> A - set blocked)"

definition fresh :: "string set \<Rightarrow> string list \<Rightarrow> playbackCandidate option \<Rightarrow> bool" where
  "fresh A blocked r \<longleftrightarrow> (\<forall>c. r = Some c \<longrightarrow> enEntryID (pcEntry c) \<in> A - set blocked)"

lemma fresh_None [simp]: "fresh A blocked None"
  by (simp add: fresh_def)

lemma fresh_candidate:
  "open_in A blocked cs \<Longrightarrow> c \<in> set cs \<Longrightarrow> within A s \<Longrightarrow> tidy A \<Longrightarrow>
   fresh A blocked (playbackCandidateFromPlanned s c)"
  using candidate_within by (fastforce simp: fresh_def open_in_def)

lemma fresh_unchecked:
  "open_in A blocked cs \<Longrightarrow> within A s \<Longrightarrow> tidy A \<Longrightarrow>
   fresh A blocked (fst (firstUncheckedCandidate s known sk cs))"
proof (induction cs arbitrary: sk)
  case (Cons c cs)
  have "fresh A blocked (playbackCandidateFromPlanned s c)"
    by (rule fresh_candidate [OF Cons.prems(1) _ Cons.prems(2,3)]) simp
  moreover have "open_in A blocked cs" using Cons.prems(1) by (simp add: open_in_def)
  ultimately show ?case using Cons by (cases "playbackCandidateFromPlanned s c") (auto split: option.split)
qed simp

lemma fresh_firstResolved:
  "open_in A blocked cs \<Longrightarrow> within A s \<Longrightarrow> tidy A \<Longrightarrow> fresh A blocked (firstResolved s cs)"
proof (induction cs)
  case (Cons c cs)
  have "fresh A blocked (playbackCandidateFromPlanned s c)"
    by (rule fresh_candidate [OF Cons.prems(1) _ Cons.prems(2,3)]) simp
  moreover have "open_in A blocked cs" using Cons.prems(1) by (simp add: open_in_def)
  ultimately show ?case using Cons by (cases "playbackCandidateFromPlanned s c") (auto split: option.split)
qed simp

lemma fresh_batch:
  assumes "open_in A blocked cs" "within A s" "tidy A"
  shows "fresh A blocked (fst (fst (resolvePlayableCandidateBatch E v cs s)))"
proof -
  obtain known ts s1 where c: "cachedTargets E (nowNanos E s) v cs Map.empty [] [] (tick s) = (known, ts, s1)"
    by (metis prod.exhaust)
  have w1: "within A s1"
    using enclosed.targets [OF enclosed.ticked [OF assms(2)], of E "nowNanos E s" v cs Map.empty "[]" "[]"] c
    by simp
  have w2: "within A (snd (storeAvailabilities E x v items known (doCall (CListAvailability ts) s1)))" for x items
    using enclosed.store enclosed.called w1 by blast
  show ?thesis
    using assms w1 w2
    by (simp add: resolvePlayableCandidateBatch_def c Let_def case_prod_beta fresh_unchecked
        enclosed.mark_all enclosed.called)
qed

lemma fresh_batches:
  "\<forall>b \<in> set bs. open_in A blocked b \<Longrightarrow> within A s \<Longrightarrow> tidy A \<Longrightarrow>
   fresh A blocked (fst (fst (resolveBatches E v bs sk s)))"
proof (induction bs arbitrary: sk s)
  case (Cons b bs)
  obtain r k st s1 where b: "resolvePlayableCandidateBatch E v b s = ((r, k, st), s1)"
    by (metis prod.exhaust)
  have "within A s1" using enclosed.batch [OF Cons.prems(2), of E v b] b by simp
  moreover have "fresh A blocked r" using fresh_batch [of A blocked b s E v] Cons.prems b by simp
  ultimately show ?case using Cons b by (cases r) simp_all
qed simp

lemma chunks_open: "open_in A blocked cs \<Longrightarrow> \<forall>b \<in> set (chunks cs). open_in A blocked b"
proof (induction cs rule: chunks.induct)
  case (2 x xs)
  let ?n = availabilityBatchSize
  have "open_in A blocked (take ?n (x # xs))" "open_in A blocked (drop ?n (x # xs))"
    using "2.prems" unfolding open_in_def by (meson in_set_takeD in_set_dropD)+
  with "2.IH" show ?case by simp
qed simp

lemma fresh_attempts:
  "within A s \<Longrightarrow> tidy A \<Longrightarrow> fresh A blocked (fst (fst (resolveAttempts E n blocked s)))"
proof (induction n arbitrary: s)
  case (Suc n)
  obtain plan s1 where p: "ensureNextActionPlan E s = (plan, s1)" by (rule prod.exhaust)
  note e = ensure_within [OF Suc.prems(1), of E, unfolded p fst_conv snd_conv]
  let ?open = "filter (\<lambda>c. plEntryID c \<notin> set blocked) (npCandidates plan)"
  have o: "open_in A blocked ?open" using e(2) by (auto simp: open_in_def)
  obtain r k st s2 where b: "resolveBatches E (npSourceVersion plan) (chunks ?open) [] s1 = ((r, k, st), s2)"
    by (metis prod.exhaust)
  have f: "fresh A blocked r"
    using fresh_batches [OF chunks_open [OF o] e(1) Suc.prems(2), of E "npSourceVersion plan" "[]"] b by simp
  have "within A (invalidateNextActionPlan s2)"
    using enclosed.batches [OF e(1), of E "npSourceVersion plan" "chunks ?open" "[]"] b by simp
  with Suc.IH Suc.prems(2) f o e(1) show ?case
    by (cases r) (simp_all add: p b Let_def fresh_firstResolved)
qed simp

lemma fresh_resolve:
  assumes "resolvePlayableFromPlan E blocked s = ((Some c, sk), s1)" "within A s" "tidy A"
  shows "enEntryID (pcEntry c) \<in> A - set blocked"
  using fresh_attempts [OF assms(2,3), of blocked E 2] assms(1)
  by (simp add: resolvePlayableFromPlan_def fresh_def)

section \<open>Playing an unavailable entry\<close>

lemma within_ended [simp]:
  "within A s \<Longrightarrow> activatePreloadedEntry E e origin i prev st s = Inl t \<Longrightarrow> within A t"
  by (auto simp: activatePreloadedEntry_def Let_def split: if_splits)

lemma unavailable_direct:
  assumes "playDirect E e origin i keep p r s = (n, Some (EntryUnavailable e' st), t)" "within A s"
  shows "within A t"
  using assms
  by (auto simp: playDirect_def playPreparing_def playReady_def failed_def Let_def
      split: option.splits if_splits)

lemma unavailable_within:
  assumes "playEntry E e origin i prev keep p s = (n, Some (EntryUnavailable e' st), t)" "within A s"
  shows "within A t"
proof -
  let ?s1 = "cancelTransportTransition (cancelPendingRetry (advanceIntentEpoch s))"
  have w: "within A ?s1" using assms(2) by simp
  show ?thesis
  proof (cases "preloadedActivation E e s")
    case None
    have "within A (clearIf E nd (snd (invalidatePreloadPlan E True ?s1)))" for nd using w by simp
    with None assms(1) show ?thesis
      by (auto simp: playEntry_def failed_def Let_def case_prod_beta split: if_splits dest: unavailable_direct)
  next
    case (Some st')
    show ?thesis
    proof (cases "activatePreloadedEntry E e origin i prev st' ?s1")
      case (Inl s2)
      then have "within A s2" using w by simp
      then have "within A (clearIf E nd (snd (invalidatePreloadPlan E True s2)))" for nd by simp
      with Some Inl assms(1) show ?thesis
        by (auto simp: playEntry_def failed_def Let_def case_prod_beta split: if_splits dest: unavailable_direct)
    next
      case (Inr x)
      with Some assms(1) show ?thesis
        by (cases x) (auto simp: playEntry_def failed_def Let_def split: if_splits)
    qed
  qed
qed

section \<open>The loops end\<close>

text \<open>Ruling out one more identifier leaves fewer.\<close>

lemma fewer_left: "tidy A \<Longrightarrow> x \<in> A - set blocked \<Longrightarrow> card (A - set (x # blocked)) < card (A - set blocked)"
  by (rule psubset_card_mono) (auto simp: tidy_def)

lemma playNextLoop_returns:
  "tidy A \<Longrightarrow> within A s \<Longrightarrow> playNextLoop E prev keep p stop blocked skipped s \<noteq> None"
proof (induction "card (A - set blocked)" arbitrary: blocked skipped s rule: less_induct)
  case less
  obtain cand un s1 where r: "resolvePlayableFromPlan E blocked s = ((cand, un), s1)" by (metis prod.exhaust)
  have w1: "within A s1" using enclosed.resolve [OF less.prems(2), of E blocked] r by simp
  show ?case
  proof (cases cand)
    case None
    then show ?thesis by (subst playNextLoop.simps) (simp add: r Let_def case_prod_beta)
  next
    case (Some c)
    obtain n err t where e: "playEntry E (pcEntry c) (pcOrigin c) (pcQueueIndex c) prev keep p s1 = (n, err, t)"
      by (metis prod.exhaust)
    have "enEntryID (pcEntry c) \<in> A - set blocked"
      using fresh_resolve [OF r [unfolded Some] less.prems(2,1)] .
    note IH = less.hyps [OF fewer_left [OF less.prems(1) this] less.prems(1)]
    have "err = Some (EntryUnavailable e' st) \<Longrightarrow> within A t" for e' st
      using unavailable_within [OF _ w1] e by simp
    with IH show ?thesis
      by (subst playNextLoop.simps)
        (simp add: r Some e Let_def case_prod_beta split: option.split sessionError.split)
  qed
qed

section \<open>The previous entry\<close>

lemma previous_valid: "j \<in> set (previousActionIndexes L n) \<Longrightarrow> isValidContextIndex n j"
proof -
  have "j \<in> set (previousChain L n [] i) \<Longrightarrow> isValidContextIndex n j" for i
    using previousChain_spec [of "[]" n L i] by simp
  then show "j \<in> set (previousActionIndexes L n) \<Longrightarrow> isValidContextIndex n j"
    by (auto simp: previousActionIndexes_def Let_def split: option.splits if_splits)
qed

lemma previous_within: "plEntryID ` set (buildPreviousActionPlan L n) \<subseteq> snapIds n"
proof -
  have "enEntryID (contextEntryAt n j) \<in> entryIds (contextAllEntries n)" if "isValidContextIndex n j" for j
    using that by (auto simp: isValidContextIndex_def contextEntryAt_def contextCount_def entryIds_def
        intro!: imageI nth_mem)
  then show ?thesis
    using previous_valid [of _ L n] entryIds_allEntries [of n]
    by (fastforce simp: buildPreviousActionPlan_def plannedFromContext_def snapIds_def Let_def)
qed

lemma fresh_previousLoop:
  "plEntryID ` set cs \<subseteq> A \<Longrightarrow> within A s \<Longrightarrow> tidy A \<Longrightarrow>
   previousLoop E now v blocked sk cs s = (Inr r, sk', t) \<Longrightarrow> fresh A blocked r"
proof (induction cs arbitrary: sk s)
  case (Cons c cs)
  show ?case
  proof (cases "plEntryID c \<in> set blocked")
    case True
    with Cons show ?thesis by simp
  next
    case False
    obtain x s1 where x: "previousAvailability E now v (plTarget c) s = (x, s1)" by (rule prod.exhaust)
    have w1: "within A s1" "within A (setEntryAvailability k a s1)" for k a
      using enclosed.previous_availability [OF Cons.prems(2), of E now v "plTarget c"] x by simp_all
    have f: "fresh A blocked (playbackCandidateFromPlanned s1 c)"
      by (rule fresh_candidate [of A blocked "[c]"])
        (use Cons.prems w1 False in \<open>simp_all add: open_in_def\<close>)
    have IH: "previousLoop E now v blocked sk cs u = (Inr r, sk', t) \<Longrightarrow> within A u \<Longrightarrow> fresh A blocked r"
      for sk u using Cons.IH Cons.prems by simp
    show ?thesis
      using Cons.prems(4) False f w1
      by (auto simp: x Let_def dest!: IH split: sum.splits option.splits if_splits)
  qed
qed simp

lemma fresh_resolvePrevious:
  assumes "resolvePreviousPlayableCandidate E blocked s = (Inr (Some c), sk, t)" "within A s" "tidy A"
  shows "enEntryID (pcEntry c) \<in> A - set blocked"
proof -
  obtain n s1 where p: "planningSnapshot s = (n, s1)" by (rule prod.exhaust)
  note w = planning_within [OF assms(2), unfolded p fst_conv snd_conv]
  have "plEntryID ` set (buildPreviousActionPlan (lib E) n) \<subseteq> A"
    using previous_within w(1) by (rule subset_trans)
  from fresh_previousLoop [OF this enclosed.ticked [OF w(2)] assms(3)] assms(1)
  show ?thesis
    by (auto simp: resolvePreviousPlayableCandidate_def p Let_def fresh_def split: if_splits)
qed

lemma playPreviousLoop_returns:
  "tidy A \<Longrightarrow> within A s \<Longrightarrow> playPreviousLoop E prev keep p blocked skipped s \<noteq> None"
proof (induction "card (A - set blocked)" arbitrary: blocked skipped s rule: less_induct)
  case less
  obtain res un s1 where r: "resolvePreviousPlayableCandidate E blocked s = (res, un, s1)" by (metis prod.exhaust)
  have w1: "within A s1" using enclosed.resolve_previous [OF less.prems(2), of E blocked] r by simp
  show ?case
  proof (cases res)
    case (Inr cand)
    show ?thesis
    proof (cases cand)
      case None
      then show ?thesis
        by (subst playPreviousLoop.simps) (simp add: r Inr Let_def case_prod_beta del: not_None_eq split: option.split)
    next
      case (Some c)
      obtain n err t where e: "playEntry E (pcEntry c) (pcOrigin c) (pcQueueIndex c) prev keep p s1 = (n, err, t)"
        by (metis prod.exhaust)
      have "enEntryID (pcEntry c) \<in> A - set blocked"
        using fresh_resolvePrevious [OF r [unfolded Inr Some] less.prems(2,1)] .
      note IH = less.hyps [OF fewer_left [OF less.prems(1) this] less.prems(1)]
      have "err = Some (EntryUnavailable e' st) \<Longrightarrow> within A t" for e' st
        using unavailable_within [OF _ w1] e by simp
      with IH show ?thesis
        by (subst playPreviousLoop.simps)
          (simp add: r Inr Some e Let_def case_prod_beta split: option.split sessionError.split)
    qed
  qed (subst playPreviousLoop.simps, simp add: r)
qed

section \<open>The observation of a seek\<close>

text \<open>The monotonic clock passes every instant for good.\<close>

definition advancing :: "env \<Rightarrow> bool" where
  "advancing E \<longleftrightarrow> (\<forall>t. \<exists>n. \<forall>j \<ge> n. t < clock E j)"

lemma observeSeek_returns: "advancing E \<Longrightarrow> observeSeek E deadline target s \<noteq> None"
proof -
  assume "advancing E"
  then obtain n where n: "\<And>j. n \<le> j \<Longrightarrow> deadline < clock E j" by (auto simp: advancing_def)
  show ?thesis
  proof (induction "n - ssTicks s" arbitrary: s rule: less_induct)
    case less
    let ?s2 = "tick (doCall BPositionMS (tick s))"
    have ticks: "ssTicks ?s2 = ssTicks s + 2" "ssTicks (tick ?s2) = ssTicks s + 3"
      by (simp_all add: tick_def doCall_def)
    show ?case
    proof (cases "nowNanos E ?s2 > deadline")
      case True
      then show ?thesis by (subst observeSeek.simps) (simp add: Let_def)
    next
      case False
      then have "\<not> n \<le> ssTicks s + 2" using n [of "ssTicks s + 2"] ticks(1) by (auto simp: nowNanos_def)
      then have "observeSeek E deadline target (tick ?s2) \<noteq> None"
        by (intro less.hyps) (simp add: ticks)
      then show ?thesis by (subst observeSeek.simps) (simp add: Let_def)
    qed
  qed
qed

lemma seekTo_returns: "advancing E \<Longrightarrow> seekTo E p s \<noteq> None"
proof -
  assume a: "advancing E"
  have "refreshPositionAfterSeek E q u \<noteq> None" for q u
    using observeSeek_returns [OF a]
    by (simp add: refreshPositionAfterSeek_def Let_def bind_eq_None_conv case_prod_beta del: not_None_eq)
  then show ?thesis
    by (simp add: seekTo_def Let_def bind_eq_None_conv del: not_None_eq split: option.split)
qed

section \<open>The operations\<close>

lemma within_ids: "within (sessionIds s) s"
  by (simp add: within_def)

lemma playTarget_within:
  assumes "playTarget E s = (x, t)" "within A s"
  shows "within A t"
proof -
  have c: "contextIds (map_option f q) = contextIds q"
    if "\<And>q. cqEntries (f q) = cqEntries q \<and> cqAllEntries (f q) = cqAllEntries q" for f q
    using that by (cases q) (simp_all add: contextIds_def)
  have o: "within A (onContext f u) = within A u"
    if "\<And>q. cqEntries (f q) = cqEntries q \<and> cqAllEntries (f q) = cqAllEntries q" for f u
    by (simp add: onContext_def onSnap_def within_parts wireIds_def c [OF that])
  have sh: "within A (clearShuffle u) = within A u" for u
    by (simp add: clearShuffle_def clearContextShuffleState_def onSnap_def within_parts wireIds_def c)
  have "within A (ensureContextShuffleSeed E u) = within A u" for u
    by (simp add: ensureContextShuffleSeed_def drawUint64_def o split: option.split)
      (simp add: within_parts wireIds_def)
  then have "within A (ensureShuffleCycle E s) = within A s"
    by (simp add: ensureShuffleCycle_def rebuildShuffleCycle_def o sh Let_def split: option.split)
  then have "within A (snd (firstContextIndex E s))"
    using assms(2) by (simp add: firstContextIndex_def Let_def)
  then show ?thesis
    using assms by (auto simp: playTarget_def Let_def case_prod_beta split: option.splits if_splits)
qed

lemma play_returns:
  assumes "tidy A" "within A s"
  shows "play E s \<noteq> None"
proof -
  obtain x t where x: "playTarget E s = (x, t)" by (rule prod.exhaust)
  have w: "within A t" by (rule playTarget_within [OF x assms(2)])
  have n: "playNextAvailable E prev keep p b sk stop u \<noteq> None" if "within A u" for prev keep p b sk stop u
    using playNextLoop_returns [OF assms(1) that] by (simp add: playNextAvailable_def)
  show ?thesis
  proof (cases x)
    case (Some y)
    obtain target origin i where y: "y = (target, origin, i)" by (metis prod.exhaust)
    obtain m err u where e: "playEntry E target origin i None False True t = (m, err, u)"
      by (metis prod.exhaust)
    have "err = Some (EntryUnavailable e' st) \<Longrightarrow> within A u" for e' st
      using unavailable_within [OF _ w] e by simp
    with n show ?thesis
      by (simp add: play_def x Some y e Let_def del: not_None_eq split: option.split sessionError.split)
  qed (simp add: play_def x Let_def del: not_None_eq)
qed

lemma eof_returns:
  assumes "tidy A" "within A s"
  shows "handleTrackEOF E ev s \<noteq> None"
proof -
  obtain c k s1 where r: "resolvePlayableFromPlan E [] s = ((c, k), s1)" by (metis prod.exhaust)
  have "within A s1" using enclosed.resolve [OF assms(2), of E "[]"] r by simp
  then have "playNextAvailable E prev keep p [] [] stop s1 \<noteq> None" for prev keep p stop
    using playNextLoop_returns [OF assms(1)] by (simp add: playNextAvailable_def)
  then show ?thesis
    by (simp add: handleTrackEOF_def r Let_def option.map_disc_iff del: not_None_eq split: option.split)
qed

lemma event_returns: "tidy A \<Longrightarrow> within A s \<Longrightarrow> handleBackendEvent E ev s \<noteq> None"
  by (simp add: handleBackendEvent_def Let_def case_prod_beta eof_returns del: not_None_eq
      split: BackendEventType.split TrackEndReason.split option.split)

lemma tryPending_returns:
  assumes "tidy A" "within A s"
  shows "tryPendingPlayback E k n s \<noteq> None"
proof (cases "snLoadingEntry (ssSnap s)")
  case (Some e)
  let ?s1 = "doCall (CGetPreparation (itTarget (enItem e))) s"
  have "within A (touch E (onSnap (\<lambda>m. m\<lparr>snLoadingPreparation := x\<rparr>) ?s1))" for x
    using assms(2) by (simp add: within_touch within_snap)
  then have "playNextAvailable E None False p [] [] stop
      (touch E (onSnap (\<lambda>m. m\<lparr>snLoadingPreparation := x\<rparr>) ?s1)) \<noteq> None" for p stop x
    using playNextLoop_returns [OF assms(1)] by (simp add: playNextAvailable_def)
  then show ?thesis
    by (simp add: tryPendingPlayback_def Some Let_def case_prod_beta option.map_disc_iff
        del: not_None_eq split: option.split)
qed (simp add: tryPendingPlayback_def del: not_None_eq)

text \<open>
  C9: every operation returns.  Whatever the backend, the core and the catalog answer, and however many
  entries turn out to be unavailable, playing, skipping, seeking, the backend's events and the polls of a
  pending entry come back: the entries a search rules out are taken from a finite set, and the wait after
  a seek ends with the clock.
\<close>

theorem operations_return:
  assumes "\<forall>k \<in> sessionIds s. trimSpace k = k" and "advancing E"
  shows "play E s \<noteq> None \<and> togglePlayback E s \<noteq> None \<and> nextTrack E s \<noteq> None
     \<and> previousTrack E s \<noteq> None \<and> seekTo E p s \<noteq> None \<and> handleBackendEvent E ev s \<noteq> None
     \<and> tryPendingPlayback E token n s \<noteq> None"
proof -
  have a: "tidy (sessionIds s)" using assms(1) by (simp add: tidy_def finite_sessionIds)
  note r = play_returns [OF a within_ids, of E] seekTo_returns [OF assms(2), of _ s]
    event_returns [OF a within_ids, of E ev] tryPending_returns [OF a within_ids, of E token n]
  have "playNextAvailable E c False True [] [] True s \<noteq> None" "playPreviousAvailable E c False True s \<noteq> None" for c
    using playNextLoop_returns [OF a within_ids] playPreviousLoop_returns [OF a within_ids]
    by (simp_all add: playNextAvailable_def playPreviousAvailable_def)
  with r show ?thesis
    by (simp add: togglePlayback_def nextTrack_def previousTrack_def Let_def del: not_None_eq)
qed

lemma operations_return_witness:
  "nextTrack sampleEnv playingSession \<noteq> None \<and> previousTrack sampleEnv playingSession \<noteq> None
   \<and> sessionIds playingSession = {''c0'', ''c1'', ''c2'', ''q1'', ''q2''}"
proof -
  have i: "sessionIds playingSession = {''c0'', ''c1'', ''c2'', ''q1'', ''q2''}"
    by (auto simp: sessionIds_def snapIds_def wireIds_def entryIds_def contextIds_def playingSession_def
        sampleSession_def playingSnapshot_def sampleSnapshot_def sampleContext_def sampleEntries_def
        queued_def sampleEntry_def newSession_def)
  have t: "\<forall>k \<in> sessionIds playingSession. trimSpace k = k"
    unfolding i ball_simps by (intro conjI TrueI; code_simp)
  have c: "advancing sampleEnv"
    unfolding advancing_def by (intro allI, rule_tac x = "nat (t + 1)" in exI) (auto simp: sampleEnv_def)
  show ?thesis using operations_return [OF t c] i by blast
qed

end
