(* ===== verification/RegistryAuth.thy ===== *)
theory RegistryAuth
  imports Prelude
begin

text \<open>
  The signed documents of the network plane (\<open>src/shared/registryauth/registryauth.go\<close>): the chain of
  admission authorities below a library's root key, membership certificates, invites and revocations,
  with the bytes that are signed and the checks of every document.  Base64, Ed25519 and the JSON text of
  a string are Go's library, the fields of \<open>authlib\<close>; the JSON objects around the strings are written
  out.  Instants are nanoseconds since the zero time of Go.
\<close>

section \<open>Library functions\<close>

record authlib = golib +
  b64Decode :: "string \<Rightarrow> string + string"
  b64Encode :: "string \<Rightarrow> string"
  edVerify :: "string \<Rightarrow> string \<Rightarrow> string \<Rightarrow> bool"
  edSign :: "string \<Rightarrow> string \<Rightarrow> string"
  edPublic :: "string \<Rightarrow> string"
  jsonString :: "string \<Rightarrow> string"

text \<open>Documented behaviour, hypotheses where a property needs them.\<close>

definition jsonDelimits :: "authlib \<Rightarrow> bool" where
  "jsonDelimits L \<longleftrightarrow>
     (\<forall>a b x y. jsonString L a @ x = jsonString L b @ y \<longrightarrow> jsonString L a = jsonString L b \<and> x = y)"

definition keysWork :: "authlib \<Rightarrow> bool" where
  "keysWork L \<longleftrightarrow>
     (\<forall>k m. edVerify L (edPublic L k) m (edSign L k m)) \<and> (\<forall>k. length (edPublic L k) = 32)
     \<and> (\<forall>b. b64Decode L (b64Encode L b) = Inr b) \<and> (\<forall>b. trimSpace (b64Encode L b) = b64Encode L b)
     \<and> (\<forall>b. b \<noteq> [] \<longrightarrow> b64Encode L b \<noteq> [])"

text \<open>\<open>UTC().Unix()\<close> and \<open>UTC().UnixNano()\<close>.\<close>

definition unixSeconds :: "int \<Rightarrow> int" where
  "unixSeconds t = t div 1000000000 - 62135596800"

definition unixNanos :: "int \<Rightarrow> int" where
  "unixNanos t = t - 62135596800 * 1000000000"

section \<open>Documents\<close>

record PresenceRecord =
  prLibraryID :: string
  prDeviceID :: string
  prPeerID :: string
  prAddrs :: "string list"
  prExpiresAt :: int
  prUpdatedAt :: int

record AdmissionAuthority =
  aaVersion :: int
  aaPublicKey :: string
  aaPrevVersion :: int
  aaSignedByKind :: string
  aaSig :: string
  aaCreatedAt :: int

definition zeroAuthority :: AdmissionAuthority where
  "zeroAuthority = \<lparr>aaVersion = 0, aaPublicKey = '''', aaPrevVersion = 0, aaSignedByKind = '''',
     aaSig = '''', aaCreatedAt = 0\<rparr>"

record MembershipCert =
  mcLibraryID :: string
  mcDeviceID :: string
  mcPeerID :: string
  mcRole :: string
  mcAuthorityVersion :: int
  mcSerial :: int
  mcIssuedAt :: int
  mcExpiresAt :: int
  mcSig :: string

record TransportPeerAuth =
  paCert :: MembershipCert
  paChain :: "AdmissionAuthority list"

record InviteAttestation =
  iaLibraryID :: string
  iaTokenID :: string
  iaOwnerPeerID :: string
  iaRootPublicKey :: string
  iaExpiresAt :: int
  iaSig :: string

record MembershipRevocation =
  mrDeviceID :: string
  mrMaxSerial :: int

record RevocationSync =
  rsLibraryID :: string
  rsRootPublicKey :: string
  rsRevision :: int
  rsRevocations :: "MembershipRevocation list"
  rsSig :: string

definition signedByRoot :: string where
  "signedByRoot = ''root''"

definition signedByAuthority :: string where
  "signedByAuthority = ''authority''"

section \<open>Helpers\<close>

text \<open>\<open>seen\<close> holds what was kept so far, in reverse order.\<close>

fun compactFrom :: "string list \<Rightarrow> string list \<Rightarrow> string list" where
  "compactFrom seen [] = rev seen"
| "compactFrom seen (x # xs) =
     (let item = trimSpace x in
      if item = '''' then compactFrom seen xs
      else if item \<in> set seen then compactFrom seen xs
      else compactFrom (item # seen) xs)"

definition compactNonEmptyStrings :: "string list \<Rightarrow> string list" where
  "compactNonEmptyStrings items = compactFrom [] items"

definition normalizeRole :: "authlib \<Rightarrow> string \<Rightarrow> string" where
  "normalizeRole L role = lowerCase L (trimSpace role)"

definition decodeEd25519PublicKey :: "authlib \<Rightarrow> string \<Rightarrow> string + string" where
  "decodeEd25519PublicKey L encoded =
     (case b64Decode L (trimSpace encoded) of
        Inl err \<Rightarrow> Inl (''decode public key: '' @ err)
      | Inr key \<Rightarrow> if length key \<noteq> 32 then Inl ''invalid public key size'' else Inr key)"

definition decodeEd25519PrivateKey :: "authlib \<Rightarrow> string \<Rightarrow> string + string" where
  "decodeEd25519PrivateKey L encoded =
     (case b64Decode L (trimSpace encoded) of
        Inl err \<Rightarrow> Inl (''decode private key: '' @ err)
      | Inr key \<Rightarrow> if length key \<noteq> 64 then Inl ''invalid private key size'' else Inr key)"

section \<open>The signed bytes\<close>

text \<open>\<open>json.Marshal\<close> of a struct: its fields in order, without spaces.\<close>

definition jsonField :: "string \<times> string \<Rightarrow> string" where
  "jsonField f = ''\"'' @ fst f @ ''\":'' @ snd f"

fun jsonFields :: "(string \<times> string) list \<Rightarrow> string" where
  "jsonFields [] = ''}''"
| "jsonFields (f # fs) = '','' @ jsonField f @ jsonFields fs"

fun jsonObject :: "(string \<times> string) list \<Rightarrow> string" where
  "jsonObject [] = ''{}''"
| "jsonObject (f # fs) = ''{'' @ jsonField f @ jsonFields fs"

fun jsonArray :: "string list \<Rightarrow> string" where
  "jsonArray [] = '']''"
| "jsonArray [x] = x @ '']''"
| "jsonArray (x # y # ys) = x @ '','' @ jsonArray (y # ys)"

definition admissionAuthoritySigningPayload :: "authlib \<Rightarrow> string \<Rightarrow> AdmissionAuthority \<Rightarrow> string" where
  "admissionAuthoritySigningPayload L libraryID a =
     jsonObject [(''library_id'', jsonString L (trimSpace libraryID)),
       (''version'', decimal (aaVersion a)),
       (''public_key'', jsonString L (trimSpace (aaPublicKey a))),
       (''prev_version'', decimal (aaPrevVersion a)),
       (''signed_by_kind'', jsonString L (trimSpace (aaSignedByKind a))),
       (''created_at_ns'', decimal (aaCreatedAt a))]"

definition membershipCertSigningPayload :: "authlib \<Rightarrow> MembershipCert \<Rightarrow> string" where
  "membershipCertSigningPayload L c =
     jsonObject [(''library_id'', jsonString L (trimSpace (mcLibraryID c))),
       (''device_id'', jsonString L (trimSpace (mcDeviceID c))),
       (''peer_id'', jsonString L (trimSpace (mcPeerID c))),
       (''role'', jsonString L (normalizeRole L (mcRole c))),
       (''authority_version'', decimal (mcAuthorityVersion c)),
       (''serial'', decimal (mcSerial c)),
       (''issued_at'', decimal (mcIssuedAt c)),
       (''expires_at'', decimal (mcExpiresAt c))]"

definition inviteAttestationSigningPayload :: "authlib \<Rightarrow> InviteAttestation \<Rightarrow> string" where
  "inviteAttestationSigningPayload L i =
     jsonObject [(''library_id'', jsonString L (trimSpace (iaLibraryID i))),
       (''token_id'', jsonString L (trimSpace (iaTokenID i))),
       (''owner_peer_id'', jsonString L (trimSpace (iaOwnerPeerID i))),
       (''root_public_key'', jsonString L (trimSpace (iaRootPublicKey i))),
       (''expires_at'', decimal (iaExpiresAt i))]"

text \<open>The revocations are trimmed and sorted by device and serial before they are signed.\<close>

definition revocationJSON :: "authlib \<Rightarrow> MembershipRevocation \<Rightarrow> string" where
  "revocationJSON L r =
     jsonObject [(''deviceId'', jsonString L (mrDeviceID r)), (''maxSerial'', decimal (mrMaxSerial r))]"

text \<open>Go compares strings byte by byte.\<close>

definition bytesOf :: "string \<Rightarrow> nat list" where
  "bytesOf s = map of_char s"

definition revocationBefore :: "MembershipRevocation \<Rightarrow> MembershipRevocation \<Rightarrow> bool" where
  "revocationBefore a b \<longleftrightarrow>
     (if mrDeviceID a = mrDeviceID b then mrMaxSerial a < mrMaxSerial b
      else ord_class.lexordp (bytesOf (mrDeviceID a)) (bytesOf (mrDeviceID b)))"

text \<open>Entries that compare as equal are equal, so every sorting routine yields the same list.\<close>

fun insertRevocation :: "MembershipRevocation \<Rightarrow> MembershipRevocation list \<Rightarrow> MembershipRevocation list" where
  "insertRevocation r [] = [r]"
| "insertRevocation r (x # xs) = (if revocationBefore x r then x # insertRevocation r xs else r # x # xs)"

definition sortRevocations :: "MembershipRevocation list \<Rightarrow> MembershipRevocation list" where
  "sortRevocations rs = foldr insertRevocation rs []"

definition revocationSyncSigningPayload :: "authlib \<Rightarrow> RevocationSync \<Rightarrow> string" where
  "revocationSyncSigningPayload L r =
     (let revocations = sortRevocations (map (\<lambda>m. m\<lparr>mrDeviceID := trimSpace (mrDeviceID m)\<rparr>) (rsRevocations r))
      in jsonObject ([(''library_id'', jsonString L (trimSpace (rsLibraryID r))),
           (''root_public_key'', jsonString L (trimSpace (rsRootPublicKey r))),
           (''revision'', decimal (rsRevision r))]
         @ (if revocations = [] then []
            else [(''membership_revocations'', ''['' @ jsonArray (map (revocationJSON L) revocations))])))"

section \<open>Signing\<close>

definition signRevocationSync :: "authlib \<Rightarrow> RevocationSync \<Rightarrow> string \<Rightarrow> string + RevocationSync" where
  "signRevocationSync L req encodedPrivateKey =
     (case decodeEd25519PrivateKey L encodedPrivateKey of
        Inl err \<Rightarrow> Inl err
      | Inr key \<Rightarrow>
          let derived = b64Encode L (edPublic L key) in
          if trimSpace (rsRootPublicKey req) \<noteq> '''' \<and> trimSpace (rsRootPublicKey req) \<noteq> derived
          then Inl ''revocation sync root public key mismatch''
          else
            let req1 = (if trimSpace (rsRootPublicKey req) = '''' then req\<lparr>rsRootPublicKey := derived\<rparr> else req)
            in Inr (req1\<lparr>rsSig := edSign L key (revocationSyncSigningPayload L req1)\<rparr>))"

definition signInviteAttestation :: "authlib \<Rightarrow> InviteAttestation \<Rightarrow> string \<Rightarrow> string + InviteAttestation" where
  "signInviteAttestation L i encodedPrivateKey =
     (case decodeEd25519PrivateKey L encodedPrivateKey of
        Inl err \<Rightarrow> Inl err
      | Inr key \<Rightarrow>
          let derived = b64Encode L (edPublic L key) in
          if trimSpace (iaRootPublicKey i) \<noteq> '''' \<and> trimSpace (iaRootPublicKey i) \<noteq> derived
          then Inl ''invite attestation root public key mismatch''
          else
            let i1 = (if trimSpace (iaRootPublicKey i) = '''' then i\<lparr>iaRootPublicKey := derived\<rparr> else i)
            in Inr (i1\<lparr>iaSig := edSign L key (inviteAttestationSigningPayload L i1)\<rparr>))"

section \<open>Verification\<close>

text \<open>\<open>None\<close> is success.\<close>

definition verifyRevocationSync :: "authlib \<Rightarrow> RevocationSync \<Rightarrow> string option" where
  "verifyRevocationSync L req0 =
     (let req = req0\<lparr>rsLibraryID := trimSpace (rsLibraryID req0), rsRootPublicKey := trimSpace (rsRootPublicKey req0)\<rparr> in
      if rsLibraryID req = '''' \<or> rsRootPublicKey req = '''' then Some ''revocation sync is incomplete''
      else if rsRevision req \<le> 0 then Some ''revocation sync revision is invalid''
      else case decodeEd25519PublicKey L (rsRootPublicKey req) of
        Inl err \<Rightarrow> Some (''decode revocation root public key: '' @ err)
      | Inr key \<Rightarrow>
          if \<not> edVerify L key (revocationSyncSigningPayload L req) (rsSig req)
          then Some ''invalid revocation sync signature'' else None)"

definition verifyInviteAttestation :: "authlib \<Rightarrow> InviteAttestation \<Rightarrow> int \<Rightarrow> string option" where
  "verifyInviteAttestation L i0 now =
     (let i = i0\<lparr>iaLibraryID := trimSpace (iaLibraryID i0), iaTokenID := trimSpace (iaTokenID i0),
            iaOwnerPeerID := trimSpace (iaOwnerPeerID i0), iaRootPublicKey := trimSpace (iaRootPublicKey i0)\<rparr> in
      if iaLibraryID i = '''' \<or> iaTokenID i = '''' \<or> iaOwnerPeerID i = '''' \<or> iaRootPublicKey i = ''''
      then Some ''invite attestation is incomplete''
      else if iaExpiresAt i > 0 \<and> unixSeconds now > iaExpiresAt i then Some ''invite attestation expired''
      else case decodeEd25519PublicKey L (iaRootPublicKey i) of
        Inl err \<Rightarrow> Some (''decode invite root public key: '' @ err)
      | Inr key \<Rightarrow>
          if \<not> edVerify L key (inviteAttestationSigningPayload L i) (iaSig i)
          then Some ''invalid invite attestation signature'' else None)"

text \<open>The switch in the loop over the chain, after the version was checked.\<close>

definition authorityError ::
  "authlib \<Rightarrow> string \<Rightarrow> string \<Rightarrow> AdmissionAuthority \<Rightarrow> AdmissionAuthority \<Rightarrow> string option" where
  "authorityError L libraryID rootPub previous d =
     (let payload = admissionAuthoritySigningPayload L libraryID d in
      if aaVersion d = 1 then
        (if aaPrevVersion d \<noteq> 0 then Some ''admission authority v1 prev version mismatch''
         else if trimSpace (aaSignedByKind d) \<noteq> signedByRoot then Some ''admission authority v1 must be root-signed''
         else if \<not> edVerify L rootPub payload (aaSig d) then Some ''invalid admission authority root signature''
         else None)
      else if aaPrevVersion d \<noteq> aaVersion previous then Some ''admission authority prev version mismatch''
      else if trimSpace (aaSignedByKind d) \<noteq> signedByAuthority
        then Some ''admission authority rotation must be authority-signed''
      else case decodeEd25519PublicKey L (aaPublicKey previous) of
        Inl err \<Rightarrow> Some (''decode prior admission authority key: '' @ err)
      | Inr prevPub \<Rightarrow>
          if \<not> edVerify L prevPub payload (aaSig d)
          then Some ''invalid admission authority rotation signature'' else None)"

fun verifyChainFrom ::
  "authlib \<Rightarrow> string \<Rightarrow> string \<Rightarrow> nat \<Rightarrow> AdmissionAuthority \<Rightarrow> AdmissionAuthority list
    \<Rightarrow> string + AdmissionAuthority" where
  "verifyChainFrom L libraryID rootPub idx previous [] = Inr previous"
| "verifyChainFrom L libraryID rootPub idx previous (d # rest) =
     (if aaVersion d \<noteq> int idx + 1 then Inl ''admission authority chain is not contiguous''
      else case authorityError L libraryID rootPub previous d of
        Some err \<Rightarrow> Inl err
      | None \<Rightarrow> verifyChainFrom L libraryID rootPub (Suc idx) d rest)"

text \<open>
  \<open>sort.Slice\<close> is not stable; but a chain in which two versions are equal is refused whichever of the
  two comes first, so the stable sort of the model accepts the same chains.
\<close>

definition verifyAdmissionAuthorityChain ::
  "authlib \<Rightarrow> string \<Rightarrow> AdmissionAuthority list \<Rightarrow> string \<Rightarrow> string + AdmissionAuthority" where
  "verifyAdmissionAuthorityChain L libraryID chain rootPublicKey =
     (if chain = [] then Inl ''admission authority chain is required''
      else case decodeEd25519PublicKey L rootPublicKey of
        Inl err \<Rightarrow> Inl (''decode root public key: '' @ err)
      | Inr rootPub \<Rightarrow> verifyChainFrom L libraryID rootPub 0 zeroAuthority (sort_key aaVersion chain))"

text \<open>The tail of both checks of a certificate: the signature of the authority it names.\<close>

definition certSignatureError :: "authlib \<Rightarrow> MembershipCert \<Rightarrow> AdmissionAuthority list \<Rightarrow> string option" where
  "certSignatureError L cert chain =
     (case find (\<lambda>a. aaVersion a = mcAuthorityVersion cert) chain of
        None \<Rightarrow> Some ''membership certificate authority not found''
      | Some authority \<Rightarrow>
          (case decodeEd25519PublicKey L (aaPublicKey authority) of
             Inl err \<Rightarrow> Some (''decode membership authority key: '' @ err)
           | Inr pub \<Rightarrow>
               if \<not> edVerify L pub (membershipCertSigningPayload L cert) (mcSig cert)
               then Some ''invalid membership certificate signature'' else None))"

definition verifyMembershipCert ::
  "authlib \<Rightarrow> MembershipCert \<Rightarrow> AdmissionAuthority list \<Rightarrow> string \<Rightarrow> int \<Rightarrow> string \<Rightarrow> string \<Rightarrow> string
    \<Rightarrow> string option" where
  "verifyMembershipCert L cert chain rootPublicKey now libraryID deviceID actualPeerID =
     (if trimSpace (mcLibraryID cert) \<noteq> trimSpace libraryID then Some ''membership certificate library mismatch''
      else if trimSpace (mcDeviceID cert) \<noteq> trimSpace deviceID then Some ''membership certificate device mismatch''
      else if trimSpace (mcPeerID cert) = '''' \<or> trimSpace (mcPeerID cert) \<noteq> trimSpace actualPeerID
        then Some ''membership certificate peer mismatch''
      else if mcSerial cert \<le> 0 then Some ''membership certificate serial is invalid''
      else if mcAuthorityVersion cert \<le> 0 then Some ''membership certificate authority version is invalid''
      else if mcExpiresAt cert > 0 \<and> unixNanos now > mcExpiresAt cert then Some ''membership certificate expired''
      else case verifyAdmissionAuthorityChain L libraryID chain rootPublicKey of
        Inl err \<Rightarrow> Some err
      | Inr head \<Rightarrow>
          if aaVersion head \<noteq> mcAuthorityVersion cert then Some ''membership certificate authority version is stale''
          else certSignatureError L cert chain)"

definition verifyHistoricalMembershipCert ::
  "authlib \<Rightarrow> MembershipCert \<Rightarrow> AdmissionAuthority list \<Rightarrow> string \<Rightarrow> string \<Rightarrow> string \<Rightarrow> string
    \<Rightarrow> string option" where
  "verifyHistoricalMembershipCert L cert chain rootPublicKey libraryID deviceID actualPeerID =
     (if trimSpace (mcLibraryID cert) \<noteq> trimSpace libraryID then Some ''membership certificate library mismatch''
      else if trimSpace (mcDeviceID cert) \<noteq> trimSpace deviceID then Some ''membership certificate device mismatch''
      else if trimSpace (mcPeerID cert) = '''' \<or> trimSpace (mcPeerID cert) \<noteq> trimSpace actualPeerID
        then Some ''membership certificate peer mismatch''
      else if mcSerial cert \<le> 0 \<or> mcAuthorityVersion cert \<le> 0 then Some ''membership certificate is invalid''
      else case verifyAdmissionAuthorityChain L libraryID chain rootPublicKey of
        Inl err \<Rightarrow> Some err
      | Inr _ \<Rightarrow> certSignatureError L cert chain)"

end
