(* ===== verification/Database.thy ===== *)
theory Database
  imports Prelude
begin

text \<open>
  Programs over database tables.  A query or statement may fail: \<open>dbFault\<close> tells, by the number of calls
  made before, which ones do; the clock is read once more with every \<open>clockDB\<close>.  A transaction that fails
  leaves the tables as they were.  The tables are the fields that a component adds to \<open>dbstate\<close>.

  A relation between tables that calls, clock readings and rollbacks respect is respected by every
  composition of them; the interface \<open>db_frame\<close> states this once.
\<close>

section \<open>Calls\<close>

record dbstate =
  dbCalls :: nat
  dbTicks :: nat

record dbenv =
  dbClock :: "nat \<Rightarrow> int"
  dbFault :: "nat \<Rightarrow> string option"

type_synonym ('s, 'a) db = "'s dbstate_scheme \<Rightarrow> (string + 'a) \<times> 's dbstate_scheme"

definition okDB :: "'a \<Rightarrow> ('s, 'a) db" where
  "okDB v s = (Inr v, s)"

definition failDB :: "string \<Rightarrow> ('s, 'a) db" where
  "failDB err s = (Inl err, s)"

definition bindDB :: "('s, 'a) db \<Rightarrow> ('a \<Rightarrow> ('s, 'b) db) \<Rightarrow> ('s, 'b) db" where
  "bindDB m f s = (case m s of (Inl err, t) \<Rightarrow> (Inl err, t) | (Inr v, t) \<Rightarrow> f v t)"

definition countCall :: "'s dbstate_scheme \<Rightarrow> 's dbstate_scheme" where
  "countCall s = s\<lparr>dbCalls := Suc (dbCalls s)\<rparr>"

definition queryDB :: "'e dbenv_scheme \<Rightarrow> ('s dbstate_scheme \<Rightarrow> 'a) \<Rightarrow> ('s, 'a) db" where
  "queryDB E g s =
     (case dbFault E (dbCalls s) of
        Some err \<Rightarrow> (Inl err, countCall s)
      | None \<Rightarrow> (Inr (g s), countCall s))"

definition execDB :: "'e dbenv_scheme \<Rightarrow> ('s dbstate_scheme \<Rightarrow> 's dbstate_scheme) \<Rightarrow> ('s, unit) db" where
  "execDB E f s =
     (case dbFault E (dbCalls s) of
        Some err \<Rightarrow> (Inl err, countCall s)
      | None \<Rightarrow> (Inr (), f (countCall s)))"

definition clockDB :: "'e dbenv_scheme \<Rightarrow> ('s, int) db" where
  "clockDB E s = (Inr (dbClock E (dbTicks s)), s\<lparr>dbTicks := Suc (dbTicks s)\<rparr>)"

definition rollbackTo :: "'s dbstate_scheme \<Rightarrow> 's dbstate_scheme \<Rightarrow> 's dbstate_scheme" where
  "rollbackTo s t = s\<lparr>dbCalls := dbCalls t, dbTicks := dbTicks t\<rparr>"

definition transaction :: "'e dbenv_scheme \<Rightarrow> ('s, 'a) db \<Rightarrow> ('s, 'a) db" where
  "transaction E m s =
     (case dbFault E (dbCalls s) of
        Some err \<Rightarrow> (Inl err, countCall s)
      | None \<Rightarrow>
          (case m (countCall s) of
             (Inl err, t) \<Rightarrow> (Inl err, rollbackTo s t)
           | (Inr v, t) \<Rightarrow>
               (case dbFault E (dbCalls t) of
                  Some err \<Rightarrow> (Inl err, rollbackTo s (countCall t))
                | None \<Rightarrow> (Inr v, countCall t))))"

section \<open>Relations kept by database programs\<close>

locale db_frame =
  fixes rel :: "'s dbstate_scheme \<Rightarrow> 's dbstate_scheme \<Rightarrow> bool"
  assumes unchanged: "rel s s"
    and composed: "rel s t \<Longrightarrow> rel t u \<Longrightarrow> rel s u"
    and counted: "rel s (countCall s)"
    and timed: "rel s (s\<lparr>dbTicks := n\<rparr>)"
    and restored: "rel s (rollbackTo s t)"
begin

definition kept :: "('s, 'a) db \<Rightarrow> bool" where
  "kept m \<longleftrightarrow> (\<forall>s. rel s (snd (m s)))"

lemma keptD: "kept m \<Longrightarrow> rel s (snd (m s))"
  by (simp add: kept_def)

lemma kept_ok: "kept (okDB v)" "kept (failDB err)"
  by (simp_all add: kept_def okDB_def failDB_def unchanged)

lemma kept_query: "kept (queryDB E g)"
  by (simp add: kept_def queryDB_def counted split: option.split)

lemma kept_clock: "kept (clockDB E)"
  by (simp add: kept_def clockDB_def timed)

lemma kept_exec: "(\<And>s. rel s (f s)) \<Longrightarrow> kept (execDB E f)"
  using composed [OF counted] by (simp add: kept_def execDB_def counted split: option.split)

lemma kept_bind: "kept m \<Longrightarrow> (\<And>v. kept (f v)) \<Longrightarrow> kept (bindDB m f)"
proof -
  assume m: "kept m" and f: "\<And>v. kept (f v)"
  have "rel s (snd (bindDB m f s))" for s
  proof (cases "m s")
    case (Pair r t)
    then show ?thesis
      using keptD [OF m, of s] composed [OF _ keptD [OF f], of s t]
      by (cases r) (simp_all add: bindDB_def)
  qed
  then show ?thesis by (simp add: kept_def)
qed

lemma kept_transaction: "kept m \<Longrightarrow> kept (transaction E m)"
proof -
  assume m: "kept m"
  have "rel s (snd (transaction E m s))" for s
  proof (cases "m (countCall s)")
    case (Pair r t)
    have "rel s t" using composed [OF counted keptD [OF m]] Pair by (metis snd_conv)
    then have "rel s (countCall t)" by (rule composed) (rule counted)
    with Pair show ?thesis
      by (cases r) (simp_all add: transaction_def counted restored split: option.split)
  qed
  then show ?thesis by (simp add: kept_def)
qed

end

section \<open>Results\<close>

text \<open>A call that succeeds, read backwards.\<close>

lemma okDB_result: "okDB v s = (Inr w, t) \<longleftrightarrow> w = v \<and> t = s"
  by (auto simp: okDB_def)

lemma failDB_result: "\<not> failDB err s = (Inr w, t)"
  by (simp add: failDB_def)

lemma bindDB_result: "bindDB m f s = (Inr w, t) \<longleftrightarrow> (\<exists>v u. m s = (Inr v, u) \<and> f v u = (Inr w, t))"
  by (auto simp: bindDB_def split: prod.split sum.split)

lemma queryDB_result:
  "queryDB E g s = (Inr w, t) \<longleftrightarrow> dbFault E (dbCalls s) = None \<and> w = g s \<and> t = countCall s"
  by (auto simp: queryDB_def split: option.split)

lemma execDB_result:
  "execDB E f s = (Inr w, t) \<longleftrightarrow> dbFault E (dbCalls s) = None \<and> t = f (countCall s)"
  by (auto simp: execDB_def split: option.split)

lemma clockDB_result:
  "clockDB E s = (Inr w, t) \<longleftrightarrow> w = dbClock E (dbTicks s) \<and> t = s\<lparr>dbTicks := Suc (dbTicks s)\<rparr>"
  by (auto simp: clockDB_def)

lemma transaction_result:
  "transaction E m s = (Inr w, t) \<longleftrightarrow>
     dbFault E (dbCalls s) = None
     \<and> (\<exists>u. m (countCall s) = (Inr w, u) \<and> dbFault E (dbCalls u) = None \<and> t = countCall u)"
  by (auto simp: transaction_def split: option.split prod.split sum.split)

lemmas db_results = okDB_result failDB_result bindDB_result queryDB_result execDB_result clockDB_result
  transaction_result

end
