(* ===== verification/Relayd.thy ===== *)
theory Relayd
  imports RegistryAuth Database "HOL-Library.AList"
begin

text \<open>
  The registry of the relay daemon (\<open>src/relayd/main.go\<close>): its SQLite tables as association lists, its
  queries, transactions and HTTP handlers as database programs, and the access control of the circuit
  relay.  The metrics and the log are not modelled.
\<close>

section \<open>State\<close>

datatype addrComponent = P2PComponent string | CircuitComponent | OtherComponent string

text \<open>\<open>reMultiaddr\<close> is \<open>ma.NewMultiaddr\<close>: the printed form and the components, or an error.\<close>

record relayEnv = dbenv +
  reLib :: authlib
  reMultiaddr :: "string \<Rightarrow> string + (string \<times> addrComponent list)"

record memberRow =
  mbPeerID :: string
  mbCertSerial :: int
  mbCertExpiresAt :: int
  mbUpdatedAt :: int

record presenceRow =
  pwAddrs :: "string list"
  pwExpiresAt :: int
  pwUpdatedAt :: int

record revisionRow =
  rvRootPublicKey :: string
  rvRevision :: int
  rvUpdatedAt :: int

record revokedRow =
  rkMaxSerial :: int
  rkRevision :: int
  rkUpdatedAt :: int

record relay = dbstate +
  rlRoots :: "(string \<times> (string \<times> int)) list"
  rlMembers :: "((string \<times> string) \<times> memberRow) list"
  rlPresence :: "((string \<times> string \<times> string) \<times> presenceRow) list"
  rlRevisions :: "(string \<times> revisionRow) list"
  rlRevoked :: "((string \<times> string) \<times> revokedRow) list"

type_synonym 'a relayDB = "relay \<Rightarrow> (string + 'a) \<times> relay"

record verifiedMembership =
  vmLibraryID :: string
  vmDeviceID :: string
  vmPeerID :: string
  vmRootPublicKey :: string
  vmCertSerial :: int
  vmCertExpiresAt :: int

section \<open>Roots, members and revocations\<close>

definition libraryRootPublicKeyQuery :: "relayEnv \<Rightarrow> string \<Rightarrow> string option relayDB" where
  "libraryRootPublicKeyQuery E libraryID0 =
     (let libraryID = trimSpace libraryID0 in
      if libraryID = '''' then okDB None
      else queryDB E (\<lambda>s. map_option (\<lambda>r. trimSpace (fst r)) (map_of (rlRoots s) libraryID)))"

definition pinLibraryRootQuery :: "relayEnv \<Rightarrow> string \<Rightarrow> string \<Rightarrow> unit relayDB" where
  "pinLibraryRootQuery E libraryID0 rootPublicKey0 =
     (let libraryID = trimSpace libraryID0; rootPublicKey = trimSpace rootPublicKey0 in
      if libraryID = '''' \<or> rootPublicKey = '''' then failDB ''library id and root public key are required''
      else bindDB (libraryRootPublicKeyQuery E libraryID) (\<lambda>existing.
        case existing of
          Some root \<Rightarrow>
            if root \<noteq> rootPublicKey then failDB ''library root public key mismatch''
            else bindDB (clockDB E) (\<lambda>now. execDB E (\<lambda>s.
              s\<lparr>rlRoots := map (\<lambda>(l, k, u). (l, k, if l = libraryID then unixSeconds now else u)) (rlRoots s)\<rparr>))
        | None \<Rightarrow>
            bindDB (clockDB E) (\<lambda>now. execDB E (\<lambda>s.
              s\<lparr>rlRoots := AList.update libraryID (rootPublicKey, unixSeconds now) (rlRoots s)\<rparr>))))"

definition membershipRevokedQuery :: "relayEnv \<Rightarrow> string \<Rightarrow> string \<Rightarrow> int \<Rightarrow> bool relayDB" where
  "membershipRevokedQuery E libraryID deviceID serial =
     queryDB E (\<lambda>s.
       case map_of (rlRevoked s) (trimSpace libraryID, trimSpace deviceID) of
         None \<Rightarrow> False | Some r \<Rightarrow> serial \<le> rkMaxSerial r)"

definition persistMemberAuthStateQuery :: "relayEnv \<Rightarrow> verifiedMembership \<Rightarrow> unit relayDB" where
  "persistMemberAuthStateQuery E m =
     (let key = (vmLibraryID m, vmDeviceID m);
          store = bindDB (clockDB E) (\<lambda>now. execDB E (\<lambda>s.
            s\<lparr>rlMembers := AList.update key
                \<lparr>mbPeerID = vmPeerID m, mbCertSerial = vmCertSerial m,
                  mbCertExpiresAt = vmCertExpiresAt m, mbUpdatedAt = unixSeconds now\<rparr> (rlMembers s)\<rparr>))
      in bindDB (queryDB E (\<lambda>s. map_of (rlMembers s) key)) (\<lambda>existing.
        case existing of
          None \<Rightarrow> store
        | Some row \<Rightarrow>
            if mbCertSerial row > vmCertSerial m then failDB ''membership certificate serial is stale''
            else if mbCertSerial row = vmCertSerial m \<and> trimSpace (mbPeerID row) \<noteq> ''''
                    \<and> trimSpace (mbPeerID row) \<noteq> vmPeerID m
            then failDB ''membership certificate peer mismatch''
            else store))"

definition authenticateMembershipTx ::
  "relayEnv \<Rightarrow> string \<Rightarrow> string \<Rightarrow> TransportPeerAuth \<Rightarrow> verifiedMembership relayDB" where
  "authenticateMembershipTx E libraryID0 claimedRoot0 auth =
     (let L = reLib E; libraryID = trimSpace libraryID0; claimedRoot = trimSpace claimedRoot0;
          cert = (paCert auth)\<lparr>mcLibraryID := trimSpace (mcLibraryID (paCert auth)),
            mcDeviceID := trimSpace (mcDeviceID (paCert auth)), mcPeerID := trimSpace (mcPeerID (paCert auth))\<rparr>
      in bindDB (libraryRootPublicKeyQuery E libraryID) (\<lambda>pinned.
        let root = (case pinned of Some k \<Rightarrow> if claimedRoot = '''' then k else claimedRoot | None \<Rightarrow> claimedRoot) in
        if (case pinned of Some k \<Rightarrow> root \<noteq> k | None \<Rightarrow> False)
        then failDB ''library root public key mismatch''
        else if pinned = None \<and> root = '''' then failDB ''root public key is required''
        else bindDB (clockDB E) (\<lambda>now.
          case verifyMembershipCert L cert (paChain auth) root now libraryID (mcDeviceID cert) (mcPeerID cert) of
            Some err \<Rightarrow> failDB err
          | None \<Rightarrow>
              bindDB (membershipRevokedQuery E libraryID (mcDeviceID cert) (mcSerial cert)) (\<lambda>revoked.
                if revoked then failDB ''membership certificate is revoked''
                else
                  let member = \<lparr>vmLibraryID = libraryID, vmDeviceID = mcDeviceID cert,
                        vmPeerID = mcPeerID cert, vmRootPublicKey = root, vmCertSerial = mcSerial cert,
                        vmCertExpiresAt = mcExpiresAt cert\<rparr>
                  in bindDB (pinLibraryRootQuery E libraryID root) (\<lambda>_.
                     bindDB (persistMemberAuthStateQuery E member) (\<lambda>_. okDB member))))))"

definition authenticateMembership ::
  "relayEnv \<Rightarrow> string \<Rightarrow> string \<Rightarrow> TransportPeerAuth \<Rightarrow> verifiedMembership relayDB" where
  "authenticateMembership E libraryID0 claimedRoot0 auth =
     (let libraryID = trimSpace libraryID0; c = paCert auth in
      if libraryID = '''' \<or> trimSpace (mcDeviceID c) = '''' \<or> trimSpace (mcPeerID c) = ''''
      then failDB ''library id, device id, and peer id are required''
      else if trimSpace (mcLibraryID c) \<noteq> libraryID then failDB ''membership certificate library mismatch''
      else transaction E (authenticateMembershipTx E libraryID (trimSpace claimedRoot0) auth))"

text \<open>The rows of one synchronisation; \<open>ON CONFLICT\<close> keeps the larger serial and revision.\<close>

definition mergeRevoked :: "revokedRow option \<Rightarrow> revokedRow \<Rightarrow> revokedRow" where
  "mergeRevoked old new =
     (case old of None \<Rightarrow> new
      | Some r \<Rightarrow> new\<lparr>rkMaxSerial := max (rkMaxSerial r) (rkMaxSerial new),
          rkRevision := max (rkRevision r) (rkRevision new)\<rparr>)"

fun storeRevocations ::
  "relayEnv \<Rightarrow> string \<Rightarrow> int \<Rightarrow> int \<Rightarrow> MembershipRevocation list \<Rightarrow> unit relayDB" where
  "storeRevocations E libraryID revision now [] = okDB ()"
| "storeRevocations E libraryID revision now (r # rs) =
     (let deviceID = trimSpace (mrDeviceID r) in
      if deviceID = '''' \<or> mrMaxSerial r \<le> 0 then storeRevocations E libraryID revision now rs
      else bindDB (execDB E (\<lambda>s.
          let key = (libraryID, deviceID);
              row = \<lparr>rkMaxSerial = mrMaxSerial r, rkRevision = revision, rkUpdatedAt = now\<rparr>
          in s\<lparr>rlRevoked := AList.update key (mergeRevoked (map_of (rlRevoked s) key) row) (rlRevoked s)\<rparr>))
        (\<lambda>_. storeRevocations E libraryID revision now rs))"

definition applyRevocationSync :: "relayEnv \<Rightarrow> RevocationSync \<Rightarrow> bool relayDB" where
  "applyRevocationSync E req =
     (let libraryID = trimSpace (rsLibraryID req) in
      transaction E
        (bindDB (queryDB E (\<lambda>s. map_of (rlRevisions s) libraryID)) (\<lambda>existing.
          if (case existing of Some r \<Rightarrow> rvRevision r \<ge> rsRevision req | None \<Rightarrow> False) then okDB False
          else bindDB (clockDB E) (\<lambda>now.
            bindDB (execDB E (\<lambda>s. s\<lparr>rlRevisions := AList.update libraryID
                \<lparr>rvRootPublicKey = trimSpace (rsRootPublicKey req), rvRevision = rsRevision req,
                  rvUpdatedAt = unixSeconds now\<rparr> (rlRevisions s)\<rparr>)) (\<lambda>_.
            bindDB (storeRevocations E libraryID (rsRevision req) (unixSeconds now) (rsRevocations req)) (\<lambda>_.
              okDB True))))))"

section \<open>Presence\<close>

definition maxPresenceAddrs :: nat where
  "maxPresenceAddrs = 16"

definition maxPresenceAddrsBytes :: nat where
  "maxPresenceAddrsBytes = 8192"

definition finalMultiaddrPeerID :: "addrComponent list \<Rightarrow> string" where
  "finalMultiaddrPeerID cs =
     foldl (\<lambda>value c. case c of P2PComponent v \<Rightarrow> trimSpace v | _ \<Rightarrow> value) '''' cs"

definition hasCircuit :: "addrComponent list \<Rightarrow> bool" where
  "hasCircuit cs \<longleftrightarrow> CircuitComponent \<in> set cs"

text \<open>The loop of \<open>validatePresenceAddrs\<close>; \<open>used\<close> counts the bytes read so far.\<close>

fun checkAddrs :: "relayEnv \<Rightarrow> string \<Rightarrow> nat \<Rightarrow> string list \<Rightarrow> string + string list" where
  "checkAddrs E peerID used [] = Inr []"
| "checkAddrs E peerID used (v # vs) =
     (let used' = used + length v in
      if used' > maxPresenceAddrsBytes then Inl ''addresses exceed 8192 bytes''
      else case reMultiaddr E v of
        Inl err \<Rightarrow> Inl (''parse address '' @ quoted (reLib E) v @ '': '' @ err)
      | Inr (printed, cs) \<Rightarrow>
          if trimSpace peerID \<noteq> '''' \<and> finalMultiaddrPeerID cs = ''''
          then Inl (''address '' @ quoted (reLib E) v @ '' is missing final peer id'')
          else if trimSpace peerID \<noteq> '''' \<and> finalMultiaddrPeerID cs \<noteq> trimSpace peerID
          then Inl (''address '' @ quoted (reLib E) v @ '' peer id mismatch'')
          else map_sum id (\<lambda>out. printed # out) (checkAddrs E peerID used' vs))"

definition validatePresenceAddrs :: "relayEnv \<Rightarrow> string list \<Rightarrow> string \<Rightarrow> string + string list" where
  "validatePresenceAddrs E addrs0 peerID =
     (let addrs = compactNonEmptyStrings addrs0 in
      if length addrs > maxPresenceAddrs
      then Inl (''too many addresses: '' @ decimal (int (length addrs)) @ '' > 16'')
      else map_sum id compactNonEmptyStrings (checkAddrs E peerID 0 addrs))"

definition inviteLookupRelayAddrsForPeer :: "relayEnv \<Rightarrow> string list \<Rightarrow> string \<Rightarrow> string list" where
  "inviteLookupRelayAddrsForPeer E addrs peerID =
     (case validatePresenceAddrs E addrs peerID of
        Inl _ \<Rightarrow> []
      | Inr valid \<Rightarrow>
          compactNonEmptyStrings (filter (\<lambda>a.
            case reMultiaddr E a of Inl _ \<Rightarrow> False | Inr (_, cs) \<Rightarrow> hasCircuit cs) valid))"

text \<open>\<open>ORDER BY updated_at DESC LIMIT 1\<close>.\<close>

fun latestPresence ::
  "((string \<times> string \<times> string) \<times> presenceRow) list \<Rightarrow> ((string \<times> string \<times> string) \<times> presenceRow) option" where
  "latestPresence [] = None"
| "latestPresence (r # rs) =
     (case latestPresence rs of
        None \<Rightarrow> Some r
      | Some b \<Rightarrow> if pwUpdatedAt (snd b) > pwUpdatedAt (snd r) then Some b else Some r)"

definition secondsTime :: "int \<Rightarrow> int" where
  "secondsTime n = (n + 62135596800) * 1000000000"

definition lookupPresence :: "relayEnv \<Rightarrow> string \<Rightarrow> string \<Rightarrow> PresenceRecord option relayDB" where
  "lookupPresence E libraryID peerID =
     (if trimSpace peerID = '''' then okDB None
      else bindDB (clockDB E) (\<lambda>now. queryDB E (\<lambda>s.
        map_option (\<lambda>((l, d, p), row).
            \<lparr>prLibraryID = l, prDeviceID = d, prPeerID = p, prAddrs = compactNonEmptyStrings (pwAddrs row),
              prExpiresAt = secondsTime (pwExpiresAt row), prUpdatedAt = secondsTime (pwUpdatedAt row)\<rparr>)
          (latestPresence (filter (\<lambda>((l, d, p), row).
             p = trimSpace peerID \<and> pwExpiresAt row \<ge> unixSeconds now
             \<and> (trimSpace libraryID \<noteq> '''' \<longrightarrow> l = trimSpace libraryID)) (rlPresence s))))))"

section \<open>Handlers\<close>

text \<open>What \<open>decodeJSON\<close> and the method check make of a request.\<close>

datatype 'a request = NotPost | BadBody int | Posted 'a

datatype reply =
    HttpError int string
  | NotFound
  | ReplyOk
  | ReplyAuthorized string int
  | ReplyApplied bool
  | ReplyRecord PresenceRecord

definition answer :: "('a \<Rightarrow> relay \<Rightarrow> reply \<times> relay) \<Rightarrow> 'a request \<Rightarrow> relay \<Rightarrow> reply \<times> relay" where
  "answer h r s =
     (case r of
        NotPost \<Rightarrow> (HttpError 405 ''method not allowed'', s)
      | BadBody status \<Rightarrow> (HttpError status ''decode request'', s)
      | Posted req \<Rightarrow> h req s)"

text \<open>\<open>Record\<close>, \<open>RootPublicKey\<close> and \<open>Auth\<close> of a \<open>PresenceAnnounceRequest\<close>.\<close>

definition presenceWindow :: int where
  "presenceWindow = 90 * 1000000000"

definition announceRecord :: "relayEnv \<Rightarrow> PresenceRecord \<Rightarrow> PresenceRecord relayDB" where
  "announceRecord E r0 =
     bindDB (if prUpdatedAt r0 = 0 then clockDB E else okDB (prUpdatedAt r0)) (\<lambda>updated.
       okDB (r0\<lparr>prUpdatedAt := updated,
         prExpiresAt := (if prExpiresAt r0 = 0 \<or> prExpiresAt r0 < updated \<or> prExpiresAt r0 > updated + presenceWindow
                         then updated + presenceWindow else prExpiresAt r0)\<rparr>))"

definition storePresence :: "relayEnv \<Rightarrow> PresenceRecord \<Rightarrow> unit relayDB" where
  "storePresence E r = execDB E (\<lambda>s.
     s\<lparr>rlPresence := AList.update (prLibraryID r, prDeviceID r, prPeerID r)
       \<lparr>pwAddrs = prAddrs r, pwExpiresAt = unixSeconds (prExpiresAt r),
         pwUpdatedAt = unixSeconds (prUpdatedAt r)\<rparr> (rlPresence s)\<rparr>)"

definition presenceAnnounce ::
  "relayEnv \<Rightarrow> PresenceRecord \<times> string \<times> TransportPeerAuth \<Rightarrow> relay \<Rightarrow> reply \<times> relay" where
  "presenceAnnounce E req s =
     (case req of (record0, rootPublicKey, auth) \<Rightarrow>
        case authenticateMembership E (prLibraryID record0) rootPublicKey auth s of
          (Inl err, s1) \<Rightarrow> (HttpError 401 (''authenticate presence announce: '' @ err), s1)
        | (Inr m, s1) \<Rightarrow>
            let r = record0\<lparr>prLibraryID := trimSpace (prLibraryID record0),
                  prDeviceID := trimSpace (prDeviceID record0), prPeerID := trimSpace (prPeerID record0)\<rparr> in
            if prLibraryID r = '''' \<or> prDeviceID r = '''' \<or> prPeerID r = ''''
            then (HttpError 400 ''libraryId, deviceId, and peerId are required'', s1)
            else if prLibraryID r \<noteq> vmLibraryID m \<or> prDeviceID r \<noteq> vmDeviceID m \<or> prPeerID r \<noteq> vmPeerID m
            then (HttpError 403 ''presence record identity does not match authenticated membership'', s1)
            else case validatePresenceAddrs E (prAddrs r) (prPeerID r) of
              Inl err \<Rightarrow> (HttpError 400 (''validate presence addrs: '' @ err), s1)
            | Inr addrs \<Rightarrow>
                (case bindDB (announceRecord E (r\<lparr>prAddrs := addrs\<rparr>)) (storePresence E) s1 of
                   (Inl err, s2) \<Rightarrow> (HttpError 500 (''store presence: '' @ err), s2)
                 | (Inr _, s2) \<Rightarrow> (ReplyOk, s2)))"

definition handlePresenceAnnounce ::
  "relayEnv \<Rightarrow> (PresenceRecord \<times> string \<times> TransportPeerAuth) request \<Rightarrow> relay \<Rightarrow> reply \<times> relay" where
  "handlePresenceAnnounce E = answer (presenceAnnounce E)"

text \<open>\<open>LibraryID\<close>, \<open>PeerID\<close>, \<open>RootPublicKey\<close> and \<open>Auth\<close> of a \<open>MemberLookupRequest\<close>.\<close>

definition presenceMember ::
  "relayEnv \<Rightarrow> string \<times> string \<times> string \<times> TransportPeerAuth \<Rightarrow> relay \<Rightarrow> reply \<times> relay" where
  "presenceMember E req s =
     (case req of (libraryID, peerID, rootPublicKey, auth) \<Rightarrow>
        case authenticateMembership E libraryID rootPublicKey auth s of
          (Inl err, s1) \<Rightarrow> (HttpError 401 (''authenticate member lookup: '' @ err), s1)
        | (Inr m, s1) \<Rightarrow>
            if trimSpace libraryID \<noteq> vmLibraryID m then (HttpError 403 ''library lookup is not authorized'', s1)
            else case lookupPresence E libraryID peerID s1 of
              (Inl err, s2) \<Rightarrow> (HttpError 500 (''lookup member: '' @ err), s2)
            | (Inr None, s2) \<Rightarrow> (NotFound, s2)
            | (Inr (Some r), s2) \<Rightarrow> (ReplyRecord r, s2))"

definition handlePresenceMember ::
  "relayEnv \<Rightarrow> (string \<times> string \<times> string \<times> TransportPeerAuth) request \<Rightarrow> relay \<Rightarrow> reply \<times> relay" where
  "handlePresenceMember E = answer (presenceMember E)"

definition relayAuthorize ::
  "relayEnv \<Rightarrow> string \<times> string \<times> TransportPeerAuth \<Rightarrow> relay \<Rightarrow> reply \<times> relay" where
  "relayAuthorize E req s =
     (case req of (libraryID, rootPublicKey, auth) \<Rightarrow>
        case authenticateMembership E libraryID rootPublicKey auth s of
          (Inl err, s1) \<Rightarrow> (HttpError 401 (''authenticate relay authorization: '' @ err), s1)
        | (Inr m, s1) \<Rightarrow> (ReplyAuthorized (vmPeerID m) (vmCertExpiresAt m), s1))"

definition handleRelayAuthorize ::
  "relayEnv \<Rightarrow> (string \<times> string \<times> TransportPeerAuth) request \<Rightarrow> relay \<Rightarrow> reply \<times> relay" where
  "handleRelayAuthorize E = answer (relayAuthorize E)"

definition revocationSync :: "relayEnv \<Rightarrow> RevocationSync \<Rightarrow> relay \<Rightarrow> reply \<times> relay" where
  "revocationSync E req s =
     (case verifyRevocationSync (reLib E) req of
        Some err \<Rightarrow> (HttpError 401 (''authenticate revocation sync: '' @ err), s)
      | None \<Rightarrow>
          (case pinLibraryRootQuery E (rsLibraryID req) (rsRootPublicKey req) s of
             (Inl err, s1) \<Rightarrow> (HttpError 401 (''pin revocation library root: '' @ err), s1)
           | (Inr _, s1) \<Rightarrow>
               (case applyRevocationSync E req s1 of
                  (Inl err, s2) \<Rightarrow> (HttpError 500 (''store revocation sync: '' @ err), s2)
                | (Inr applied, s2) \<Rightarrow> (ReplyApplied applied, s2))))"

definition handleRevocationSync :: "relayEnv \<Rightarrow> RevocationSync request \<Rightarrow> relay \<Rightarrow> reply \<times> relay" where
  "handleRevocationSync E = answer (revocationSync E)"

definition inviteOwner :: "relayEnv \<Rightarrow> InviteAttestation \<Rightarrow> relay \<Rightarrow> reply \<times> relay" where
  "inviteOwner E i s =
     (let now = dbClock E (dbTicks s); s0 = s\<lparr>dbTicks := Suc (dbTicks s)\<rparr> in
      case verifyInviteAttestation (reLib E) i now of
        Some err \<Rightarrow> (HttpError 401 (''authenticate invite lookup: '' @ err), s0)
      | None \<Rightarrow>
          (case pinLibraryRootQuery E (iaLibraryID i) (iaRootPublicKey i) s0 of
             (Inl err, s1) \<Rightarrow> (HttpError 401 (''pin invite library root: '' @ err), s1)
           | (Inr _, s1) \<Rightarrow>
               (case lookupPresence E (iaLibraryID i) (iaOwnerPeerID i) s1 of
                  (Inl err, s2) \<Rightarrow> (HttpError 500 (''lookup owner: '' @ err), s2)
                | (Inr None, s2) \<Rightarrow> (NotFound, s2)
                | (Inr (Some r), s2) \<Rightarrow>
                    let addrs = inviteLookupRelayAddrsForPeer E (prAddrs r) (iaOwnerPeerID i) in
                    if addrs = [] then (NotFound, s2) else (ReplyRecord (r\<lparr>prAddrs := addrs\<rparr>), s2))))"

definition handleInviteOwner :: "relayEnv \<Rightarrow> InviteAttestation request \<Rightarrow> relay \<Rightarrow> reply \<times> relay" where
  "handleInviteOwner E = answer (inviteOwner E)"

text \<open>The routes of the registry in \<open>main\<close>.\<close>

datatype httpRequest =
    Announce "(PresenceRecord \<times> string \<times> TransportPeerAuth) request"
  | Member "(string \<times> string \<times> string \<times> TransportPeerAuth) request"
  | Authorize "(string \<times> string \<times> TransportPeerAuth) request"
  | Revoke "RevocationSync request"
  | Owner "InviteAttestation request"

fun registryMux :: "relayEnv \<Rightarrow> httpRequest \<Rightarrow> relay \<Rightarrow> reply \<times> relay" where
  "registryMux E (Announce r) s = handlePresenceAnnounce E r s"
| "registryMux E (Member r) s = handlePresenceMember E r s"
| "registryMux E (Authorize r) s = handleRelayAuthorize E r s"
| "registryMux E (Revoke r) s = handleRevocationSync E r s"
| "registryMux E (Owner r) s = handleInviteOwner E r s"

section \<open>Relay access and cleaning up\<close>

definition relayPeerAuthorized :: "relayEnv \<Rightarrow> string \<Rightarrow> relay \<Rightarrow> bool \<times> relay" where
  "relayPeerAuthorized E peerID s =
     (if trimSpace peerID = '''' then (False, s)
      else case bindDB (clockDB E) (\<lambda>now. queryDB E (\<lambda>t.
          list_ex (\<lambda>(_, row). mbPeerID row = trimSpace peerID
            \<and> (mbCertExpiresAt row \<le> 0 \<or> mbCertExpiresAt row \<ge> unixNanos now)) (rlMembers t))) s of
        (Inl _, s1) \<Rightarrow> (False, s1)
      | (Inr b, s1) \<Rightarrow> (b, s1))"

definition allowReserve :: "relayEnv \<Rightarrow> string \<Rightarrow> relay \<Rightarrow> bool \<times> relay" where
  "allowReserve E p s = relayPeerAuthorized E p s"

definition allowConnect :: "relayEnv \<Rightarrow> string \<Rightarrow> string \<Rightarrow> relay \<Rightarrow> bool \<times> relay" where
  "allowConnect E src dest s = relayPeerAuthorized E dest s"

text \<open>The two statements are independent; a failure of one is only logged.\<close>

definition cleanupExpiredRegistryState :: "relayEnv \<Rightarrow> int \<Rightarrow> relay \<Rightarrow> relay" where
  "cleanupExpiredRegistryState E now s =
     (let (_, s1) = execDB E (\<lambda>t. t\<lparr>rlPresence :=
            filter (\<lambda>(_, r). \<not> pwExpiresAt r < unixSeconds now) (rlPresence t)\<rparr>) s;
          (_, s2) = execDB E (\<lambda>t. t\<lparr>rlMembers :=
            filter (\<lambda>(_, r). \<not> (mbCertExpiresAt r > 0 \<and> mbCertExpiresAt r < unixNanos now)) (rlMembers t)\<rparr>) s1
      in s2)"

end
