(* ===== verification/AuthLaws.thy ===== *)
theory AuthLaws
  imports RegistryAuth "HOL-Library.Multiset"
begin

text \<open>
  What the checks of \<open>RegistryAuth\<close> mean: the abstract notion of a chain of authorities below a root
  key, which the loop of the code decides, and the signed bytes, which determine the kind and the
  contents of a document.
\<close>

section \<open>Chains of authorities\<close>

text \<open>
  The first authority is signed by the root, every later one by its predecessor; versions count from 1.
\<close>

inductive certifies :: "authlib \<Rightarrow> string \<Rightarrow> string \<Rightarrow> AdmissionAuthority list \<Rightarrow> bool" for L lib rootPub where
  root: "aaVersion d = 1 \<Longrightarrow> aaPrevVersion d = 0 \<Longrightarrow> trimSpace (aaSignedByKind d) = signedByRoot \<Longrightarrow>
    edVerify L rootPub (admissionAuthoritySigningPayload L lib d) (aaSig d) \<Longrightarrow>
    certifies L lib rootPub [d]"
| rotate: "certifies L lib rootPub (ds @ [p]) \<Longrightarrow> aaVersion d = aaVersion p + 1 \<Longrightarrow>
    aaPrevVersion d = aaVersion p \<Longrightarrow> trimSpace (aaSignedByKind d) = signedByAuthority \<Longrightarrow>
    decodeEd25519PublicKey L (aaPublicKey p) = Inr key \<Longrightarrow>
    edVerify L key (admissionAuthoritySigningPayload L lib d) (aaSig d) \<Longrightarrow>
    certifies L lib rootPub (ds @ [p, d])"

inductive_cases certifies_snocE: "certifies L lib rootPub (ds @ [d])"

lemma certifies_nonempty: "certifies L lib r ds \<Longrightarrow> ds \<noteq> []"
  by (induction rule: certifies.induct) simp_all

lemma certifies_versions:
  "certifies L lib r ds \<Longrightarrow> map aaVersion ds = map (\<lambda>i. int i + 1) [0..<length ds]"
proof (induction rule: certifies.induct)
  case (rotate ds p d key)
  then have "aaVersion p = int (length ds) + 1" by simp
  with rotate show ?case by simp
qed simp

lemma certifies_head: "certifies L lib r ds \<Longrightarrow> 0 < aaVersion (last ds)"
proof -
  assume c: "certifies L lib r ds"
  then have "aaVersion (last ds) = last (map aaVersion ds)" by (simp add: last_map certifies_nonempty)
  also have "\<dots> > 0" unfolding certifies_versions [OF c] using certifies_nonempty [OF c] by (simp add: last_map)
  finally show ?thesis .
qed

lemma certifies_prefix: "certifies L lib r (ds @ es) \<Longrightarrow> ds \<noteq> [] \<Longrightarrow> certifies L lib r ds"
proof (induction es rule: rev_induct)
  case (snoc e es)
  from snoc.prems(1) have "certifies L lib r ((ds @ es) @ [e])" by simp
  then have "certifies L lib r (ds @ es)"
  proof cases
    case root
    with snoc.prems(2) show ?thesis by simp
  next
    case (rotate cs p)
    then have "ds @ es = cs @ [p]" by (metis append.assoc append_Cons append_Nil butlast_snoc)
    with rotate show ?thesis by simp
  qed
  with snoc show ?case by blast
qed simp

lemma certifies_extend:
  assumes "certifies L lib r ds"
  shows "certifies L lib r (ds @ [d]) \<longleftrightarrow>
    aaVersion d = int (length ds) + 1 \<and> authorityError L lib r (last ds) d = None"
proof -
  obtain cs p where ds: "ds = cs @ [p]" using certifies_nonempty [OF assms] by (metis rev_exhaust)
  have p: "aaVersion p = int (length cs) + 1" using certifies_versions [OF assms] by (simp add: ds)
  show ?thesis
  proof
    assume "certifies L lib r (ds @ [d])"
    then show "aaVersion d = int (length ds) + 1 \<and> authorityError L lib r (last ds) d = None"
    proof cases
      case root
      then show ?thesis by (simp add: ds)
    next
      case (rotate cs' p' key)
      then have "p' = p" by (simp add: ds)
      with rotate p show ?thesis by (simp add: ds authorityError_def Let_def)
    qed
  next
    assume "aaVersion d = int (length ds) + 1 \<and> authorityError L lib r (last ds) d = None"
    then show "certifies L lib r (ds @ [d])"
      using certifies.rotate [of L lib r cs p d] assms p
      by (auto simp: ds authorityError_def Let_def split: if_splits sum.splits)
  qed
qed

lemma certifies_first:
  "certifies L lib r [d] \<longleftrightarrow> aaVersion d = 1 \<and> authorityError L lib r zeroAuthority d = None"
proof -
  have "certifies L lib r ([] @ [d]) \<Longrightarrow> aaVersion d = 1 \<and> authorityError L lib r zeroAuthority d = None"
    by (cases rule: certifies_snocE) (auto simp: authorityError_def Let_def)
  then show ?thesis
    using certifies.root [of d L r lib] by (auto simp: authorityError_def Let_def split: if_splits)
qed

lemma chainFrom_iff:
  "certifies L lib r ds \<Longrightarrow>
   verifyChainFrom L lib r (length ds) (last ds) es = Inr h \<longleftrightarrow> certifies L lib r (ds @ es) \<and> last (ds @ es) = h"
proof (induction es arbitrary: ds)
  case (Cons e es)
  show ?case
  proof (cases "certifies L lib r (ds @ [e])")
    case True
    with Cons.IH [OF this] certifies_extend [OF Cons.prems] show ?thesis by simp
  next
    case False
    then have "\<not> certifies L lib r (ds @ e # es)" using certifies_prefix [of L lib r "ds @ [e]" es] by auto
    with False certifies_extend [OF Cons.prems, of e] show ?thesis by (auto split: option.split)
  qed
qed auto

lemma chain_iff:
  "verifyChainFrom L lib r 0 zeroAuthority ds = Inr h \<and> ds \<noteq> [] \<longleftrightarrow> certifies L lib r ds \<and> last ds = h"
proof (cases ds)
  case (Cons d es)
  show ?thesis
  proof (cases "certifies L lib r [d]")
    case True
    with chainFrom_iff [OF this, of es h] certifies_first [of L lib r d] Cons show ?thesis by simp
  next
    case False
    then have "\<not> certifies L lib r ds" using certifies_prefix [of L lib r "[d]" es] Cons by auto
    with False certifies_first [of L lib r d] Cons show ?thesis by (auto split: option.split)
  qed
qed (auto dest: certifies_nonempty)

lemma certifies_sorted:
  assumes "certifies L lib r ds"
  shows "sorted (map aaVersion ds)" "inj_on aaVersion (set ds)" "distinct (map aaVersion ds)"
proof -
  note v = certifies_versions [OF assms]
  show "sorted (map aaVersion ds)" unfolding v by (simp add: sorted_iff_nth_mono)
  show d: "distinct (map aaVersion ds)" unfolding v by (simp add: distinct_map inj_on_def)
  then show "inj_on aaVersion (set ds)" by (simp add: distinct_map)
qed

lemma chain_accepted_iff:
  "verifyAdmissionAuthorityChain L lib chain rootKey = Inr h \<longleftrightarrow>
    (\<exists>r ds. decodeEd25519PublicKey L rootKey = Inr r \<and> certifies L lib r ds \<and> mset ds = mset chain \<and> last ds = h)"
  (is "?l \<longleftrightarrow> ?r")
proof
  assume ?l
  then obtain r where "decodeEd25519PublicKey L rootKey = Inr r" "chain \<noteq> []"
    "verifyChainFrom L lib r 0 zeroAuthority (sort_key aaVersion chain) = Inr h"
    by (auto simp: verifyAdmissionAuthorityChain_def split: if_splits sum.splits)
  moreover have "sort_key aaVersion chain \<noteq> []" using \<open>chain \<noteq> []\<close> by (metis mset_sort mset_zero_iff)
  ultimately show ?r using chain_iff [of L lib r "sort_key aaVersion chain" h] mset_sort by blast
next
  assume ?r
  then obtain r ds where d: "decodeEd25519PublicKey L rootKey = Inr r" "certifies L lib r ds"
    "mset ds = mset chain" "last ds = h" by blast
  have s: "set ds = set chain" using d(3) by (rule mset_eq_setD)
  have "sort_key aaVersion chain = ds"
    using certifies_sorted [OF d(2)] d(3) s by (intro sort_key_inj_key_eq) simp_all
  moreover have "chain \<noteq> []" using d(3) certifies_nonempty [OF d(2)] by auto
  ultimately show ?l
    using chain_iff [of L lib r ds h] d by (simp add: verifyAdmissionAuthorityChain_def)
qed

text \<open>The certificate's authority is the head of its chain.\<close>

lemma find_version:
  assumes "distinct (map aaVersion chain)" "a \<in> set chain"
  shows "find (\<lambda>x. aaVersion x = aaVersion a) chain = Some a"
  using assms by (induction chain) auto

text \<open>
  A certificate is vouched for below a root key: the authorities of its chain certify each other in some
  order, the last of them is the one the certificate names, and its key signed the certificate.
\<close>

definition vouched :: "authlib \<Rightarrow> string \<Rightarrow> string \<Rightarrow> MembershipCert \<Rightarrow> AdmissionAuthority list \<Rightarrow> bool" where
  "vouched L lib rootKey c chain \<longleftrightarrow>
     (\<exists>r ds key. decodeEd25519PublicKey L rootKey = Inr r \<and> certifies L lib r ds \<and> mset ds = mset chain
       \<and> aaVersion (last ds) = mcAuthorityVersion c \<and> decodeEd25519PublicKey L (aaPublicKey (last ds)) = Inr key
       \<and> edVerify L key (membershipCertSigningPayload L c) (mcSig c))"

lemma signature_of_head:
  assumes "certifies L lib r ds" "mset ds = mset chain" "aaVersion (last ds) = mcAuthorityVersion c"
  shows "certSignatureError L c chain = None \<longleftrightarrow>
    (\<exists>key. decodeEd25519PublicKey L (aaPublicKey (last ds)) = Inr key
       \<and> edVerify L key (membershipCertSigningPayload L c) (mcSig c))"
proof -
  have "mset (map aaVersion ds) = mset (map aaVersion chain)" using assms(2) by simp
  then have "distinct (map aaVersion chain)"
    using certifies_sorted(3) [OF assms(1)] mset_eq_imp_distinct_iff by blast
  moreover have "last ds \<in> set chain"
    using last_in_set [OF certifies_nonempty [OF assms(1)]] mset_eq_setD [OF assms(2)] by metis
  ultimately have "find (\<lambda>x. aaVersion x = mcAuthorityVersion c) chain = Some (last ds)"
    using find_version assms(3) by metis
  then show ?thesis by (simp add: certSignatureError_def split: sum.split)
qed

lemma certificate_vouched:
  "verifyMembershipCert L c chain rootKey now lib dev peer = None \<longleftrightarrow>
     trimSpace (mcLibraryID c) = trimSpace lib \<and> trimSpace (mcDeviceID c) = trimSpace dev
     \<and> trimSpace (mcPeerID c) \<noteq> '''' \<and> trimSpace (mcPeerID c) = trimSpace peer \<and> 0 < mcSerial c
     \<and> (mcExpiresAt c \<le> 0 \<or> unixNanos now \<le> mcExpiresAt c) \<and> vouched L lib rootKey c chain"
proof -
  have "(\<exists>h. verifyAdmissionAuthorityChain L lib chain rootKey = Inr h \<and> aaVersion h = mcAuthorityVersion c
      \<and> certSignatureError L c chain = None) \<longleftrightarrow>
    (\<exists>r ds. decodeEd25519PublicKey L rootKey = Inr r \<and> certifies L lib r ds \<and> mset ds = mset chain
      \<and> aaVersion (last ds) = mcAuthorityVersion c \<and> certSignatureError L c chain = None)"
    unfolding chain_accepted_iff by blast
  also have "\<dots> \<longleftrightarrow> vouched L lib rootKey c chain"
    unfolding vouched_def using signature_of_head by (simp cong: conj_cong)
  finally have "(\<exists>h. verifyAdmissionAuthorityChain L lib chain rootKey = Inr h \<and> aaVersion h = mcAuthorityVersion c
      \<and> certSignatureError L c chain = None) \<longleftrightarrow> vouched L lib rootKey c chain" .
  moreover have "vouched L lib rootKey c chain \<Longrightarrow> 0 < mcAuthorityVersion c"
    unfolding vouched_def using certifies_head by metis
  ultimately show ?thesis
    by (auto simp: verifyMembershipCert_def not_le split: if_splits sum.splits)
qed

section \<open>Signed bytes\<close>

text \<open>A document that is signed, and what two documents with the same signed bytes have in common.\<close>

datatype document =
    DocAuthority string AdmissionAuthority
  | DocCert MembershipCert
  | DocInvite InviteAttestation
  | DocRevocations RevocationSync

fun signedBytes :: "authlib \<Rightarrow> document \<Rightarrow> string" where
  "signedBytes L (DocAuthority lib a) = admissionAuthoritySigningPayload L lib a"
| "signedBytes L (DocCert c) = membershipCertSigningPayload L c"
| "signedBytes L (DocInvite i) = inviteAttestationSigningPayload L i"
| "signedBytes L (DocRevocations r) = revocationSyncSigningPayload L r"

definition sameText :: "authlib \<Rightarrow> string \<Rightarrow> string \<Rightarrow> bool" where
  "sameText L a b \<longleftrightarrow> jsonString L a = jsonString L b"

definition signedRevocations :: "RevocationSync \<Rightarrow> MembershipRevocation list" where
  "signedRevocations r =
     sortRevocations (map (\<lambda>m. m\<lparr>mrDeviceID := trimSpace (mrDeviceID m)\<rparr>) (rsRevocations r))"

fun sameContents :: "authlib \<Rightarrow> document \<Rightarrow> document \<Rightarrow> bool" where
  "sameContents L (DocAuthority l a) (DocAuthority m b) \<longleftrightarrow>
     sameText L (trimSpace l) (trimSpace m) \<and> aaVersion a = aaVersion b
     \<and> sameText L (trimSpace (aaPublicKey a)) (trimSpace (aaPublicKey b))
     \<and> aaPrevVersion a = aaPrevVersion b
     \<and> sameText L (trimSpace (aaSignedByKind a)) (trimSpace (aaSignedByKind b))
     \<and> aaCreatedAt a = aaCreatedAt b"
| "sameContents L (DocCert c) (DocCert d) \<longleftrightarrow>
     sameText L (trimSpace (mcLibraryID c)) (trimSpace (mcLibraryID d))
     \<and> sameText L (trimSpace (mcDeviceID c)) (trimSpace (mcDeviceID d))
     \<and> sameText L (trimSpace (mcPeerID c)) (trimSpace (mcPeerID d))
     \<and> sameText L (normalizeRole L (mcRole c)) (normalizeRole L (mcRole d))
     \<and> mcAuthorityVersion c = mcAuthorityVersion d \<and> mcSerial c = mcSerial d
     \<and> mcIssuedAt c = mcIssuedAt d \<and> mcExpiresAt c = mcExpiresAt d"
| "sameContents L (DocInvite i) (DocInvite j) \<longleftrightarrow>
     sameText L (trimSpace (iaLibraryID i)) (trimSpace (iaLibraryID j))
     \<and> sameText L (trimSpace (iaTokenID i)) (trimSpace (iaTokenID j))
     \<and> sameText L (trimSpace (iaOwnerPeerID i)) (trimSpace (iaOwnerPeerID j))
     \<and> sameText L (trimSpace (iaRootPublicKey i)) (trimSpace (iaRootPublicKey j))
     \<and> iaExpiresAt i = iaExpiresAt j"
| "sameContents L (DocRevocations r) (DocRevocations s) \<longleftrightarrow>
     sameText L (trimSpace (rsLibraryID r)) (trimSpace (rsLibraryID s))
     \<and> sameText L (trimSpace (rsRootPublicKey r)) (trimSpace (rsRootPublicKey s))
     \<and> rsRevision r = rsRevision s
     \<and> list_all2 (\<lambda>m k. sameText L (mrDeviceID m) (mrDeviceID k) \<and> mrMaxSerial m = mrMaxSerial k)
         (signedRevocations r) (signedRevocations s)"
| "sameContents L a b \<longleftrightarrow> False"

text \<open>Where a number ends.\<close>

definition stops :: "string \<Rightarrow> bool" where
  "stops x \<longleftrightarrow> (\<exists>y. x = CHR '','' # y \<or> x = CHR ''}'' # y)"

lemma stops_fields [simp]: "stops (jsonFields fs @ x)" "stops (jsonFields fs)"
  by (cases fs; simp add: stops_def)+

lemma decimal_chars: "c \<in> set (decimal n) \<Longrightarrow> c \<noteq> CHR '','' \<and> c \<noteq> CHR ''}''"
proof -
  have d: "digitChar k \<noteq> CHR '','' \<and> digitChar k \<noteq> CHR ''}''" if "k < 10" for k
    using that by (simp add: digitChar_def char_of_eq_iff take_bit_eq_mod) 
  have "c \<in> set (decimalNat m) \<Longrightarrow> c \<noteq> CHR '','' \<and> c \<noteq> CHR ''}''" for m
  proof (induction m rule: decimalNat.induct)
    case (1 m)
    then show ?case using d by (subst (asm) (2) decimalNat.simps) (auto split: if_splits)
  qed
  then show "c \<in> set (decimal n) \<Longrightarrow> c \<noteq> CHR '','' \<and> c \<noteq> CHR ''}''"
    by (auto simp: decimal_def split: if_splits)
qed

lemma decimal_inj: "decimal m = decimal n \<longleftrightarrow> m = n"
proof -
  have "hd (decimalNat k) \<noteq> CHR ''-''" for k
  proof (induction k rule: decimalNat.induct)
    case (1 k)
    then show ?case
      by (subst decimalNat.simps) (auto simp: digitChar_not_minus hd_append decimalNat_nonempty)
  qed
  then have "decimalNat k \<noteq> CHR ''-'' # x" for k x by (metis list.sel(1))
  then show ?thesis by (auto simp: decimal_def decimalNat_inj dest: sym)
qed

lemma decimal_delimits:
  assumes "decimal m @ x = decimal n @ y" "stops x" "stops y"
  shows "m = n \<and> x = y"
proof -
  let ?P = "\<lambda>c. c \<noteq> CHR '','' \<and> c \<noteq> CHR ''}''"
  have "takeWhile ?P (decimal k @ z) = decimal k" if "stops z" for k z
    using that decimal_chars by (subst takeWhile_append2) (auto simp: stops_def)
  with assms have "decimal m = decimal n" by metis
  with assms(1) show ?thesis by (simp add: decimal_inj)
qed

lemma text_delimits:
  "jsonDelimits L \<Longrightarrow> jsonString L a @ x = jsonString L b @ y \<Longrightarrow> sameText L a b \<and> x = y"
  unfolding jsonDelimits_def sameText_def by blast

lemma fields_string:
  assumes "jsonDelimits L"
  shows "jsonFields ((k, jsonString L a) # fs) @ x = jsonFields ((k, jsonString L b) # gs) @ y \<longleftrightarrow>
    sameText L a b \<and> jsonFields fs @ x = jsonFields gs @ y"
  using text_delimits [OF assms, of a "jsonFields fs @ x" b "jsonFields gs @ y"]
  by (auto simp: jsonField_def sameText_def)

lemma fields_int:
  "jsonFields ((k, decimal a) # fs) @ x = jsonFields ((k, decimal b) # gs) @ y \<longleftrightarrow>
    a = b \<and> jsonFields fs @ x = jsonFields gs @ y"
  using decimal_delimits [of a "jsonFields fs @ x" b "jsonFields gs @ y"] by (auto simp: jsonField_def)

lemma object_string:
  assumes "jsonDelimits L"
  shows "jsonObject ((k, jsonString L a) # fs) @ x = jsonObject ((k, jsonString L b) # gs) @ y \<longleftrightarrow>
    sameText L a b \<and> jsonFields fs @ x = jsonFields gs @ y"
  using text_delimits [OF assms, of a "jsonFields fs @ x" b "jsonFields gs @ y"]
  by (auto simp: jsonField_def sameText_def)

text \<open>The same equations at the end of the bytes.\<close>

lemmas fields_end = fields_string [where x = "[]" and y = "[]", simplified append_Nil2]
  fields_int [where x = "[]" and y = "[]", simplified append_Nil2]
  object_string [where x = "[]" and y = "[]", simplified append_Nil2]

lemma fields_keys:
  "fst f \<noteq> [] \<Longrightarrow> fst g \<noteq> [] \<Longrightarrow> hd (fst f) \<noteq> hd (fst g) \<Longrightarrow> jsonFields (f # fs) \<noteq> jsonFields (g # gs)"
  by (cases "fst f"; cases "fst g") (auto simp: jsonField_def)

lemma revocationJSON_delimits:
  assumes "jsonDelimits L" "revocationJSON L a @ u = revocationJSON L b @ v"
  shows "sameText L (mrDeviceID a) (mrDeviceID b) \<and> mrMaxSerial a = mrMaxSerial b \<and> u = v"
  using assms(2) unfolding revocationJSON_def object_string [OF assms(1)] fields_int by simp

lemma revocations_array:
  "jsonArray (map (revocationJSON L) (r # rs)) @ u
    = revocationJSON L r @ (if rs = [] then '']'' @ u else '','' @ jsonArray (map (revocationJSON L) rs) @ u)"
  by (cases rs) simp_all

lemma revocations_delimit:
  assumes "jsonDelimits L"
  shows "jsonArray (map (revocationJSON L) rs) @ x = jsonArray (map (revocationJSON L) ss) @ y \<Longrightarrow>
    list_all2 (\<lambda>m k. sameText L (mrDeviceID m) (mrDeviceID k) \<and> mrMaxSerial m = mrMaxSerial k) rs ss \<and> x = y"
proof (induction rs arbitrary: ss)
  case Nil
  then show ?case
    by (cases ss) (simp_all add: revocations_array del: list.map, simp add: revocationJSON_def)
next
  case (Cons r rs)
  show ?case
  proof (cases ss)
    case Nil
    with Cons.prems have "jsonArray (map (revocationJSON L) (r # rs)) @ x = jsonArray [] @ y"
      by (simp only: list.map)
    then show ?thesis by (simp only: revocations_array) (simp add: revocationJSON_def)
  next
    case (Cons s ss')
    note e = Cons.prems [unfolded Cons revocations_array]
    from revocationJSON_delimits [OF assms e] Cons.IH [of ss'] show ?thesis
      by (cases "rs = []"; cases "ss' = []") (auto simp: Cons)
  qed
qed

lemma signedBytes_determine:
  assumes "jsonDelimits L" "signedBytes L a = signedBytes L b"
  shows "sameContents L a b"
proof -
  note f = fields_end(1) [OF assms(1)] fields_end(2) fields_end(3) [OF assms(1)]
  have rev: "jsonFields (if rs = [] then [] else [(k, ''['' @ jsonArray (map (revocationJSON L) rs))])
      = jsonFields (if ss = [] then [] else [(k, ''['' @ jsonArray (map (revocationJSON L) ss))]) \<Longrightarrow>
    list_all2 (\<lambda>m k. sameText L (mrDeviceID m) (mrDeviceID k) \<and> mrMaxSerial m = mrMaxSerial k) rs ss" for k and rs ss :: "MembershipRevocation list"
    using revocations_delimit [OF assms(1), of rs "''}''" ss "''}''"]
    by (auto simp: jsonField_def split: if_splits)
  show ?thesis
    using assms(2)
    by (cases a; cases b)
      (auto simp: admissionAuthoritySigningPayload_def membershipCertSigningPayload_def f
        inviteAttestationSigningPayload_def revocationSyncSigningPayload_def Let_def signedRevocations_def
        append_Cons append_Nil simp del: jsonFields.simps jsonObject.simps
        dest: rev notE [OF fields_keys, rotated 3])
qed

section \<open>Signing and checking\<close>

lemma signed_key:
  assumes "keysWork L" "trimSpace k = b64Encode L (edPublic L d)"
  shows "k \<noteq> []" "trimSpace k \<noteq> []" "decodeEd25519PublicKey L k = Inr (edPublic L d)"
    "decodeEd25519PublicKey L (trimSpace k) = Inr (edPublic L d)" "edVerify L (edPublic L d) m (edSign L d m)"
proof -
  have "edPublic L d \<noteq> []" using assms(1) by (metis keysWork_def list.size(3) zero_neq_numeral)
  then show t: "trimSpace k \<noteq> []" using assms by (simp add: keysWork_def)
  then show "k \<noteq> []" by auto
  show "decodeEd25519PublicKey L k = Inr (edPublic L d)" "decodeEd25519PublicKey L (trimSpace k) = Inr (edPublic L d)"
    "edVerify L (edPublic L d) m (edSign L d m)"
    using assms by (simp_all add: decodeEd25519PublicKey_def keysWork_def)
qed

lemma signed_invite_verifies:
  assumes "keysWork L" "signInviteAttestation L i k = Inr j" "trimSpace (iaLibraryID i) \<noteq> []"
    "trimSpace (iaTokenID i) \<noteq> []" "trimSpace (iaOwnerPeerID i) \<noteq> []"
    "iaExpiresAt i \<le> 0 \<or> unixSeconds now \<le> iaExpiresAt i"
  shows "verifyInviteAttestation L j now = None"
proof -
  obtain d i1 where j: "j = i1\<lparr>iaSig := edSign L d (inviteAttestationSigningPayload L i1)\<rparr>"
    and root: "trimSpace (iaRootPublicKey i1) = b64Encode L (edPublic L d)"
    and same: "iaLibraryID i1 = iaLibraryID i" "iaTokenID i1 = iaTokenID i" "iaOwnerPeerID i1 = iaOwnerPeerID i"
      "iaExpiresAt i1 = iaExpiresAt i"
    using assms(1,2)
    by (auto simp: signInviteAttestation_def Let_def keysWork_def split: if_splits sum.splits)
  note key = signed_key [OF assms(1) root]
  have "inviteAttestationSigningPayload L (j\<lparr>iaLibraryID := trimSpace (iaLibraryID j),
      iaTokenID := trimSpace (iaTokenID j), iaOwnerPeerID := trimSpace (iaOwnerPeerID j),
      iaRootPublicKey := trimSpace (iaRootPublicKey j)\<rparr>) = inviteAttestationSigningPayload L i1"
    by (simp add: inviteAttestationSigningPayload_def j)
  then show ?thesis
    using assms(3-6) key unfolding verifyInviteAttestation_def Let_def by (auto simp: j same)
qed

lemma signed_revocations_verify:
  assumes "keysWork L" "signRevocationSync L q k = Inr r" "trimSpace (rsLibraryID q) \<noteq> []" "0 < rsRevision q"
  shows "verifyRevocationSync L r = None"
proof -
  obtain d q1 where r: "r = q1\<lparr>rsSig := edSign L d (revocationSyncSigningPayload L q1)\<rparr>"
    and root: "trimSpace (rsRootPublicKey q1) = b64Encode L (edPublic L d)"
    and same: "rsLibraryID q1 = rsLibraryID q" "rsRevision q1 = rsRevision q"
    using assms(1,2)
    by (auto simp: signRevocationSync_def Let_def keysWork_def split: if_splits sum.splits)
  note key = signed_key [OF assms(1) root]
  have "revocationSyncSigningPayload L (r\<lparr>rsLibraryID := trimSpace (rsLibraryID r),
      rsRootPublicKey := trimSpace (rsRootPublicKey r)\<rparr>) = revocationSyncSigningPayload L q1"
    by (simp add: revocationSyncSigningPayload_def r)
  then show ?thesis
    using assms(3,4) key unfolding verifyRevocationSync_def Let_def by (auto simp: r same)
qed

end
