(* ===== verification/RelaydLaws.thy ===== *)
theory RelaydLaws
  imports Relayd AuthLaws
begin

text \<open>
  What the registry keeps from request to request: the interface \<open>db_frame\<close>, extended by the registry's
  reads, is interpreted for the relation \<open>advances\<close> (pinned roots stay, revocations only grow) and for the
  relation that the members and the presence records stay.
\<close>

section \<open>Reads\<close>

locale relay_frame = db_frame rel for rel :: "relay \<Rightarrow> relay \<Rightarrow> bool"
begin

lemma kept_reads:
  "kept (libraryRootPublicKeyQuery E l)" "kept (membershipRevokedQuery E l d n)" "kept (lookupPresence E l p)"
  by (simp_all add: libraryRootPublicKeyQuery_def membershipRevokedQuery_def lookupPresence_def Let_def
      kept_query kept_ok kept_bind kept_clock)

lemma kept_announceRecord: "kept (announceRecord E r)"
  by (simp add: announceRecord_def kept_bind kept_ok kept_clock)

end

section \<open>Roots and revocations\<close>

text \<open>The root that is pinned for a library, and the largest serial revoked for a device.\<close>

definition pinnedRoot :: "relay \<Rightarrow> string \<Rightarrow> string option" where
  "pinnedRoot s l = map_option (\<lambda>r. trimSpace (fst r)) (map_of (rlRoots s) l)"

definition revokedUpTo :: "relay \<Rightarrow> string \<Rightarrow> string \<Rightarrow> int" where
  "revokedUpTo s l d = (case map_of (rlRevoked s) (l, d) of None \<Rightarrow> 0 | Some r \<Rightarrow> max 0 (rkMaxSerial r))"

definition revision :: "relay \<Rightarrow> string \<Rightarrow> int option" where
  "revision s l = map_option rvRevision (map_of (rlRevisions s) l)"

definition advances :: "relay \<Rightarrow> relay \<Rightarrow> bool" where
  "advances s t \<longleftrightarrow>
     (\<forall>l k. pinnedRoot s l = Some k \<longrightarrow> pinnedRoot t l = Some k)
     \<and> (\<forall>l d. revokedUpTo s l d \<le> revokedUpTo t l d)
     \<and> (\<forall>l n. revision s l = Some n \<longrightarrow> (\<exists>m \<ge> n. revision t l = Some m))"

lemma advances_refl [simp]: "advances s s"
  by (auto simp: advances_def)

lemma advances_same:
  "rlRoots t = rlRoots s \<Longrightarrow> rlRevoked t = rlRevoked s \<Longrightarrow> rlRevisions t = rlRevisions s \<Longrightarrow> advances s t"
  by (auto simp: advances_def pinnedRoot_def revokedUpTo_def revision_def)

interpretation monotone: relay_frame advances
proof unfold_locales
  fix s t u assume "advances s t" "advances t u"
  then show "advances s u" by (fastforce simp: advances_def intro: order_trans)
qed (simp_all add: advances_same countCall_def rollbackTo_def)

lemma map_of_touched: "map_of (map (\<lambda>(l, k, u). (l, k, f l u)) rs) l = map_option (\<lambda>(k, u). (k, f l u)) (map_of rs l)"
  by (induction rs) auto

text \<open>Pinning reads the pinned root first, in the tables it then changes.\<close>

lemma pin_kept: "monotone.kept (pinLibraryRootQuery E l k)"
proof -
  have touch: "advances s (s\<lparr>rlRoots := map (\<lambda>(x, k, u). (x, k, if x = l then n else u)) (rlRoots s)\<rparr>)" for s l n
    using map_of_touched [where f = "\<lambda>x u. if x = l then n else u" and rs = "rlRoots s"]
    by (auto simp: advances_def pinnedRoot_def revokedUpTo_def revision_def)
  have new: "map_of (rlRoots s) l = None \<Longrightarrow> advances s (s\<lparr>rlRoots := AList.update l r (rlRoots s)\<rparr>)" for s l r
    by (auto simp: advances_def pinnedRoot_def revokedUpTo_def revision_def update_conv)
  have same: "advances s (t\<lparr>dbTicks := n\<rparr>) = advances s t" "advances s (countCall t) = advances s t" for s t n
    by (simp_all add: advances_def pinnedRoot_def revokedUpTo_def revision_def countCall_def)
  have "advances s (snd (pinLibraryRootQuery E l k s))" for s
  proof -
    let ?s = "countCall (countCall s\<lparr>dbTicks := Suc (dbTicks s)\<rparr>)"
    have r: "rlRoots ?s = rlRoots s" "dbTicks (countCall s) = dbTicks s" by (simp_all add: countCall_def)
    have b: "advances s t" if "advances ?s t" for t
      using that by (simp add: advances_def pinnedRoot_def revokedUpTo_def revision_def countCall_def)
    show ?thesis
      using b [OF touch [of ?s "trimSpace l"]] b [OF new [of ?s "trimSpace l"]] r
      by (auto simp: pinLibraryRootQuery_def libraryRootPublicKeyQuery_def bindDB_def queryDB_def
          execDB_def clockDB_def okDB_def failDB_def Let_def same split: option.split)
  qed
  then show ?thesis by (simp add: monotone.kept_def)
qed

lemma persist_kept: "monotone.kept (persistMemberAuthStateQuery E m)"
  by (auto simp: persistMemberAuthStateQuery_def Let_def advances_same
      intro!: monotone.kept_bind monotone.kept_query monotone.kept_ok monotone.kept_clock monotone.kept_exec
      split: option.split)

lemma authenticate_kept: "monotone.kept (authenticateMembership E l k a)"
proof -
  have "monotone.kept (authenticateMembershipTx E l k a)" for l k
    unfolding authenticateMembershipTx_def Let_def
    by (intro monotone.kept_bind monotone.kept_reads monotone.kept_clock)
      (auto intro!: monotone.kept_bind monotone.kept_reads monotone.kept_clock monotone.kept_ok pin_kept
        persist_kept split: option.split)
  then show ?thesis
    by (simp add: authenticateMembership_def Let_def monotone.kept_ok monotone.kept_transaction)
qed

lemma storeRevocations_kept: "monotone.kept (storeRevocations E l n now rs)"
proof (induction rs)
  case (Cons r rs)
  have "advances s (s\<lparr>rlRevoked := AList.update key (mergeRevoked (map_of (rlRevoked s) key) row) (rlRevoked s)\<rparr>)"
    for s key row
    by (auto simp: advances_def pinnedRoot_def revokedUpTo_def revision_def update_conv mergeRevoked_def
        split: option.split)
  with Cons show ?case
    by (simp add: Let_def monotone.kept_bind monotone.kept_exec)
qed (simp add: monotone.kept_ok)

lemma revisions_kept:
  assumes "\<not> (case map_of (rlRevisions s) l of Some r \<Rightarrow> rvRevision r \<ge> rvRevision row | None \<Rightarrow> False)"
  shows "advances s (s\<lparr>rlRevisions := AList.update l row (rlRevisions s)\<rparr>)"
  using assms
  by (auto simp: advances_def pinnedRoot_def revokedUpTo_def revision_def update_conv split: option.splits)

lemma sync_kept: "monotone.kept (applyRevocationSync E req)"
proof -
  let ?l = "trimSpace (rsLibraryID req)"
  define rest where "rest = (\<lambda>now. storeRevocations E ?l (rsRevision req) now (rsRevocations req))"
  define m where "m = bindDB (queryDB E (\<lambda>s. map_of (rlRevisions s) ?l)) (\<lambda>existing.
    if (case existing of Some r \<Rightarrow> rvRevision r \<ge> rsRevision req | None \<Rightarrow> False) then okDB False
    else bindDB (clockDB E) (\<lambda>now.
      bindDB (execDB E (\<lambda>s. s\<lparr>rlRevisions := AList.update ?l
          \<lparr>rvRootPublicKey = trimSpace (rsRootPublicKey req), rvRevision = rsRevision req,
            rvUpdatedAt = unixSeconds now\<rparr> (rlRevisions s)\<rparr>)) (\<lambda>_.
      bindDB (rest (unixSeconds now)) (\<lambda>_. okDB True))))"
  have "monotone.kept (bindDB (rest n) (\<lambda>_. okDB True))" for n
    by (simp add: rest_def monotone.kept_bind storeRevocations_kept monotone.kept_ok)
  note rest = monotone.composed [OF _ monotone.keptD [OF this, unfolded bindDB_def]]
  have "advances s (snd (m s))" for s
  proof -
    let ?s = "countCall (countCall s\<lparr>dbTicks := Suc (dbTicks s)\<rparr>)"
    have r: "rlRevisions ?s = rlRevisions s" "dbTicks (countCall s) = dbTicks s" by (simp_all add: countCall_def)
    have b: "advances s t" if "advances ?s t" for t
      using that by (simp add: advances_def pinnedRoot_def revokedUpTo_def revision_def countCall_def)
    have c: "advances s (countCall s)" "advances s ?s" by (simp_all add: advances_same countCall_def)
    show ?thesis
      using b [OF revisions_kept [where s = ?s and l = ?l]] c
      by (auto simp: m_def bindDB_def queryDB_def execDB_def clockDB_def okDB_def r intro!: rest
          split: option.splits)
  qed
  then have "monotone.kept (transaction E m)"
    by (intro monotone.kept_transaction) (simp add: monotone.kept_def)
  then show ?thesis unfolding applyRevocationSync_def Let_def m_def rest_def .
qed

section \<open>Requests\<close>

lemma presence_kept: "rlRoots t = rlRoots s \<Longrightarrow> rlRevoked t = rlRevoked s \<Longrightarrow> rlRevisions t = rlRevisions s
    \<Longrightarrow> advances r s \<Longrightarrow> advances r t"
  using monotone.composed advances_same by blast

lemma storePresence_kept: "monotone.kept (storePresence E r)"
  by (simp add: storePresence_def monotone.kept_exec advances_same)

lemma kept_step: "monotone.kept m \<Longrightarrow> advances r s \<Longrightarrow> m s = (x, t) \<Longrightarrow> advances r t"
  using monotone.composed monotone.keptD by (metis snd_conv)

lemma authenticated_step: "authenticateMembership E l k a s = (x, t) \<Longrightarrow> advances s t"
  using kept_step [OF authenticate_kept monotone.unchanged] by blast

lemma announce_advances: "advances s (snd (presenceAnnounce E req s))"
  using kept_step [OF monotone.kept_bind, OF monotone.kept_announceRecord storePresence_kept]
  by (auto simp: presenceAnnounce_def Let_def dest: authenticated_step split: prod.split sum.split)

lemma member_advances: "advances s (snd (presenceMember E req s))"
  using kept_step [OF monotone.kept_reads(3)]
  by (auto simp: presenceMember_def dest: authenticated_step split: prod.split sum.split option.split)

lemma authorize_advances: "advances s (snd (relayAuthorize E req s))"
  by (auto simp: relayAuthorize_def dest: authenticated_step split: prod.split sum.split)

lemma sync_advances: "advances s (snd (revocationSync E req s))"
proof -
  let ?pin = "pinLibraryRootQuery E (rsLibraryID req) (rsRootPublicKey req)"
  have one: "?pin s = (x, t) \<Longrightarrow> advances s t" for x t by (rule kept_step [OF pin_kept monotone.unchanged])
  show ?thesis
    by (auto simp: revocationSync_def monotone.unchanged intro: one kept_step [OF sync_kept one]
        split: prod.split sum.split option.split)
qed

lemma invite_advances: "advances s (snd (inviteOwner E i s))"
proof -
  let ?pin = "pinLibraryRootQuery E (iaLibraryID i) (iaRootPublicKey i)"
  have one: "?pin (s\<lparr>dbTicks := n\<rparr>) = (x, t) \<Longrightarrow> advances s t" for n x t
    by (rule kept_step [OF pin_kept monotone.timed])
  show ?thesis
    by (auto simp: inviteOwner_def Let_def monotone.timed
        intro: one kept_step [OF monotone.kept_reads(3) one] split: prod.split sum.split option.split)
qed

lemma acl_advances: "advances s (snd (relayPeerAuthorized E p s))"
proof -
  have "monotone.kept (bindDB (clockDB E) (\<lambda>now. queryDB E (g now)))" for g :: "int \<Rightarrow> relay \<Rightarrow> bool"
    by (intro monotone.kept_bind monotone.kept_clock monotone.kept_query)
  from kept_step [OF this monotone.unchanged] show ?thesis
    by (auto simp: relayPeerAuthorized_def split: prod.split sum.split)
qed

lemma cleanup_advances: "advances s (cleanupExpiredRegistryState E now s)"
proof -
  have "monotone.kept (execDB E (\<lambda>t. t\<lparr>rlPresence := f t\<rparr>))" "monotone.kept (execDB E (\<lambda>t. t\<lparr>rlMembers := g t\<rparr>))"
    for f g by (simp_all add: monotone.kept_exec advances_same)
  note one = kept_step [OF this(1) monotone.unchanged] and two = kept_step [OF this(2)]
  show ?thesis
    unfolding cleanupExpiredRegistryState_def Let_def by (auto split: prod.split intro: two [OF one])
qed

text \<open>One thing the daemon does: a handler, a question of the circuit relay, or the cleaner's tick.\<close>

inductive served :: "relayEnv \<Rightarrow> relay \<Rightarrow> relay \<Rightarrow> bool" for E where
  answered: "served E s (snd (registryMux E req s))"
| reserved: "served E s (snd (allowReserve E p s))"
| connected: "served E s (snd (allowConnect E p d s))"
| cleaned: "served E s (cleanupExpiredRegistryState E now s)"

lemmas registryMux_defs = handlePresenceAnnounce_def handlePresenceMember_def handleRelayAuthorize_def
  handleRevocationSync_def handleInviteOwner_def answer_def

lemma registryMux_advances: "advances s (snd (registryMux E req s))"
  by (cases req) (simp_all add: registryMux_defs announce_advances member_advances authorize_advances
      sync_advances invite_advances split: request.split)

lemma served_advances: "served E s t \<Longrightarrow> advances s t"
  by (induction rule: served.induct)
    (simp_all add: allowReserve_def allowConnect_def registryMux_advances acl_advances cleanup_advances)

lemma runs_advance: "(served E)\<^sup>*\<^sup>* s t \<Longrightarrow> advances s t"
proof (induction rule: rtranclp_induct)
  case (step t u)
  then show ?case using monotone.composed served_advances by blast
qed simp

section \<open>What an answer means\<close>

text \<open>The tables without the counters of calls and readings.\<close>

definition sameTables :: "relay \<Rightarrow> relay \<Rightarrow> bool" where
  "sameTables s t \<longleftrightarrow> rlRoots t = rlRoots s \<and> rlMembers t = rlMembers s \<and> rlPresence t = rlPresence s
     \<and> rlRevisions t = rlRevisions s \<and> rlRevoked t = rlRevoked s"

lemma sameTables_counters [simp]:
  "sameTables s (countCall t) = sameTables s t" "sameTables s (t\<lparr>dbTicks := n\<rparr>) = sameTables s t"
  "sameTables (countCall s) t = sameTables s t" "sameTables (s\<lparr>dbTicks := n\<rparr>) t = sameTables s t" "sameTables s s" "sameTables s (rollbackTo s t)"
  by (simp_all add: sameTables_def countCall_def rollbackTo_def)

lemma countCall_ticks [simp]: "dbTicks (countCall s) = dbTicks s"
  by (simp add: countCall_def)

lemma transaction_fails: "transaction E m s = (Inl err, t) \<Longrightarrow> sameTables s t"
  by (auto simp: transaction_def split: option.splits prod.splits sum.splits)

lemma authenticate_fails: "authenticateMembership E l k a s = (Inl err, t) \<Longrightarrow> sameTables s t"
  by (auto simp: authenticateMembership_def Let_def failDB_def dest: transaction_fails split: if_splits)

lemma pin_result:
  assumes "pinLibraryRootQuery E l k s = (Inr u, t)"
  shows "trimSpace l \<noteq> ''''" "pinnedRoot s (trimSpace l) = None \<or> pinnedRoot s (trimSpace l) = Some (trimSpace k)"
    "pinnedRoot t (trimSpace l) = Some (trimSpace k)" "rlMembers t = rlMembers s" "rlPresence t = rlPresence s"
    "rlRevoked t = rlRevoked s" "rlRevisions t = rlRevisions s"
proof -
  have touched: "map_of (map (\<lambda>(x, k, u). (x, k, if x = l then n else u)) rs) l = map_option (\<lambda>(k, u). (k, n)) (map_of rs l)"
    for l n and rs :: "(string \<times> string \<times> int) list"
    using map_of_touched [where f = "\<lambda>x u. if x = l then n else u" and rs = rs and l = l] by simp
  show "trimSpace l \<noteq> ''''" "pinnedRoot s (trimSpace l) = None \<or> pinnedRoot s (trimSpace l) = Some (trimSpace k)"
    "pinnedRoot t (trimSpace l) = Some (trimSpace k)" "rlMembers t = rlMembers s" "rlPresence t = rlPresence s"
    "rlRevoked t = rlRevoked s" "rlRevisions t = rlRevisions s"
    using assms
    by (auto simp: pinLibraryRootQuery_def libraryRootPublicKeyQuery_def db_results Let_def countCall_def
        pinnedRoot_def touched update_conv split: if_splits option.splits)
qed

lemma persist_result:
  assumes "persistMemberAuthStateQuery E m s = (Inr u, t)"
  shows "\<exists>now. rlMembers t = AList.update (vmLibraryID m, vmDeviceID m)
      \<lparr>mbPeerID = vmPeerID m, mbCertSerial = vmCertSerial m, mbCertExpiresAt = vmCertExpiresAt m, mbUpdatedAt = now\<rparr>
      (rlMembers s)"
    "map_of (rlMembers s) (vmLibraryID m, vmDeviceID m) = Some row \<Longrightarrow> mbCertSerial row \<le> vmCertSerial m
      \<and> (mbCertSerial row = vmCertSerial m \<longrightarrow> trimSpace (mbPeerID row) = '''' \<or> trimSpace (mbPeerID row) = vmPeerID m)"
    "rlRoots t = rlRoots s" "rlPresence t = rlPresence s" "rlRevoked t = rlRevoked s" "rlRevisions t = rlRevisions s"
  using assms
  by (auto simp: persistMemberAuthStateQuery_def db_results Let_def countCall_def
      split: if_splits option.splits)

text \<open>The certificate of a membership, trimmed as the registry trims it.\<close>

definition certFor :: "TransportPeerAuth \<Rightarrow> MembershipCert" where
  "certFor auth = (paCert auth)\<lparr>mcLibraryID := trimSpace (mcLibraryID (paCert auth)),
     mcDeviceID := trimSpace (mcDeviceID (paCert auth)), mcPeerID := trimSpace (mcPeerID (paCert auth))\<rparr>"

lemma vouched_certFor: "vouched L lib k (certFor auth) chain = vouched L lib k (paCert auth) chain"
  by (simp add: vouched_def certFor_def membershipCertSigningPayload_def)

text \<open>What an authenticated membership rests on, and the row it leaves.\<close>

definition memberOf :: "relayEnv \<Rightarrow> TransportPeerAuth \<Rightarrow> verifiedMembership \<Rightarrow> bool" where
  "memberOf E auth m \<longleftrightarrow>
     (let c = paCert auth in
      vmLibraryID m = trimSpace (mcLibraryID c) \<and> vmDeviceID m = trimSpace (mcDeviceID c)
      \<and> vmPeerID m = trimSpace (mcPeerID c) \<and> vmLibraryID m \<noteq> '''' \<and> vmDeviceID m \<noteq> '''' \<and> vmPeerID m \<noteq> ''''
      \<and> 0 < vmCertSerial m \<and> vmCertSerial m = mcSerial c \<and> vmCertExpiresAt m = mcExpiresAt c
      \<and> vouched (reLib E) (vmLibraryID m) (vmRootPublicKey m) c (paChain auth))"

lemma revoked_result:
  assumes "membershipRevokedQuery E l d n s = (Inr False, t)" "0 < n"
  shows "t = countCall s" "revokedUpTo s (trimSpace l) (trimSpace d) < n"
  using assms by (auto simp: membershipRevokedQuery_def queryDB_result revokedUpTo_def split: option.splits)

lemma root_query_result:
  "trimSpace l \<noteq> [] \<Longrightarrow> libraryRootPublicKeyQuery E l s = (Inr p, t) \<longleftrightarrow>
    dbFault E (dbCalls s) = None \<and> p = pinnedRoot s (trimSpace l) \<and> t = countCall s"
  by (simp add: libraryRootPublicKeyQuery_def Let_def queryDB_result pinnedRoot_def)

lemma authenticateTx_result:
  assumes "authenticateMembershipTx E l k auth s = (Inr m, t)" "trimSpace l \<noteq> []"
    "trimSpace (mcDeviceID (paCert auth)) \<noteq> []" "trimSpace (mcPeerID (paCert auth)) \<noteq> []"
    "trimSpace (mcLibraryID (paCert auth)) = trimSpace l"
  obtains u v where "memberOf E auth m" "vmLibraryID m = trimSpace l" "sameTables s u"
    "revokedUpTo s (vmLibraryID m) (vmDeviceID m) < vmCertSerial m"
    "vmCertExpiresAt m \<le> 0 \<or> unixNanos (dbClock E (dbTicks s)) \<le> vmCertExpiresAt m"
    "pinLibraryRootQuery E (vmLibraryID m) (vmRootPublicKey m) u = (Inr (), v)"
    "trimSpace (vmRootPublicKey m) = vmRootPublicKey m" "persistMemberAuthStateQuery E m v = (Inr (), t)"
proof -
  let ?c = "certFor auth"
  define root where "root = (case pinnedRoot s (trimSpace l) of
    Some p \<Rightarrow> if trimSpace k = [] then p else trimSpace k | None \<Rightarrow> trimSpace k)"
  have root_trimmed: "trimSpace root = root"
    by (auto simp: root_def pinnedRoot_def split: option.split)
  have "(if (case pinnedRoot s (trimSpace l) of Some p \<Rightarrow> root \<noteq> p | None \<Rightarrow> False)
      then failDB ''library root public key mismatch''
      else if pinnedRoot s (trimSpace l) = None \<and> root = [] then failDB ''root public key is required''
      else bindDB (clockDB E) (\<lambda>now.
          case verifyMembershipCert (reLib E) ?c (paChain auth) root now (trimSpace l) (mcDeviceID ?c) (mcPeerID ?c) of
            Some err \<Rightarrow> failDB err
          | None \<Rightarrow>
              bindDB (membershipRevokedQuery E (trimSpace l) (mcDeviceID ?c) (mcSerial ?c)) (\<lambda>revoked.
                if revoked then failDB ''membership certificate is revoked''
                else
                  let member = \<lparr>vmLibraryID = trimSpace l, vmDeviceID = mcDeviceID ?c,
                        vmPeerID = mcPeerID ?c, vmRootPublicKey = root, vmCertSerial = mcSerial ?c,
                        vmCertExpiresAt = mcExpiresAt ?c\<rparr>
                  in bindDB (pinLibraryRootQuery E (trimSpace l) root) (\<lambda>_.
                     bindDB (persistMemberAuthStateQuery E member) (\<lambda>_. okDB member))))) (countCall s) = (Inr m, t)"
    using assms(1,2)
    unfolding authenticateMembershipTx_def Let_def certFor_def [symmetric]
      bindDB_result [of "libraryRootPublicKeyQuery E _"] root_def
    by (clarsimp simp only: root_query_result trimSpace_idem simp_thms)
  then obtain u1 v where
    v: "verifyMembershipCert (reLib E) ?c (paChain auth) root (dbClock E (dbTicks s)) (trimSpace l)
        (mcDeviceID ?c) (mcPeerID ?c) = None"
      "membershipRevokedQuery E (trimSpace l) (mcDeviceID ?c) (mcSerial ?c) (countCall s\<lparr>dbTicks := Suc (dbTicks s)\<rparr>)
        = (Inr False, u1)"
      "pinLibraryRootQuery E (trimSpace l) root u1 = (Inr (), v)"
      "m = \<lparr>vmLibraryID = trimSpace l, vmDeviceID = mcDeviceID ?c, vmPeerID = mcPeerID ?c,
        vmRootPublicKey = root, vmCertSerial = mcSerial ?c, vmCertExpiresAt = mcExpiresAt ?c\<rparr>"
      "persistMemberAuthStateQuery E m v = (Inr (), t)"
    by (auto simp: db_results Let_def split: if_splits option.splits)
  note c = v(1) [unfolded certificate_vouched vouched_certFor]
  note r = revoked_result [OF v(2)]
  have "sameTables s u1" using r(1) c by simp
  moreover have "revokedUpTo s (vmLibraryID m) (vmDeviceID m) < vmCertSerial m"
    using r(2) c by (simp add: v(4) countCall_def revokedUpTo_def certFor_def)
  moreover have "memberOf E auth m"
    using c assms(2-5) by (simp add: memberOf_def v(4) certFor_def Let_def)
  ultimately show thesis
    using that [of u1 v] v(3,5) c root_trimmed by (simp add: v(4))
qed

lemma authenticate_result:
  assumes "authenticateMembership E l k auth s = (Inr m, t)"
  shows "memberOf E auth m" "vmLibraryID m = trimSpace l"
    "revokedUpTo s (vmLibraryID m) (vmDeviceID m) < vmCertSerial m"
    "vmCertExpiresAt m \<le> 0 \<or> unixNanos (dbClock E (dbTicks s)) \<le> vmCertExpiresAt m"
    "pinnedRoot s (vmLibraryID m) = None \<or> pinnedRoot s (vmLibraryID m) = Some (vmRootPublicKey m)"
    "pinnedRoot t (vmLibraryID m) = Some (vmRootPublicKey m)"
    "\<exists>now. rlMembers t = AList.update (vmLibraryID m, vmDeviceID m)
      \<lparr>mbPeerID = vmPeerID m, mbCertSerial = vmCertSerial m, mbCertExpiresAt = vmCertExpiresAt m, mbUpdatedAt = now\<rparr>
      (rlMembers s)"
    "map_of (rlMembers s) (vmLibraryID m, vmDeviceID m) = Some row \<Longrightarrow> mbCertSerial row \<le> vmCertSerial m"
    "rlPresence t = rlPresence s" "rlRevoked t = rlRevoked s" "rlRevisions t = rlRevisions s"
proof -
  from assms obtain w where
    a: "authenticateMembershipTx E (trimSpace l) (trimSpace k) auth (countCall s) = (Inr m, w)" "t = countCall w"
      "trimSpace l \<noteq> []" "trimSpace (mcDeviceID (paCert auth)) \<noteq> []" "trimSpace (mcPeerID (paCert auth)) \<noteq> []"
      "trimSpace (mcLibraryID (paCert auth)) = trimSpace l"
    by (auto simp: authenticateMembership_def Let_def db_results split: if_splits)
  obtain u v where b: "memberOf E auth m" "vmLibraryID m = trimSpace (trimSpace l)" "sameTables (countCall s) u"
    "revokedUpTo (countCall s) (vmLibraryID m) (vmDeviceID m) < vmCertSerial m"
    "vmCertExpiresAt m \<le> 0 \<or> unixNanos (dbClock E (dbTicks (countCall s))) \<le> vmCertExpiresAt m"
    "pinLibraryRootQuery E (vmLibraryID m) (vmRootPublicKey m) u = (Inr (), v)"
    "trimSpace (vmRootPublicKey m) = vmRootPublicKey m" "persistMemberAuthStateQuery E m v = (Inr (), w)"
    by (rule authenticateTx_result [OF a(1)]) (use a that in auto)
  note pin = pin_result [OF b(6)] and row = persist_result [OF b(8)]
  show "memberOf E auth m" "vmLibraryID m = trimSpace l"
    "vmCertExpiresAt m \<le> 0 \<or> unixNanos (dbClock E (dbTicks s)) \<le> vmCertExpiresAt m"
    "revokedUpTo s (vmLibraryID m) (vmDeviceID m) < vmCertSerial m"
    using b by (simp_all add: revokedUpTo_def countCall_def)
  have l: "trimSpace (vmLibraryID m) = vmLibraryID m" using b(2) by simp
  show "pinnedRoot s (vmLibraryID m) = None \<or> pinnedRoot s (vmLibraryID m) = Some (vmRootPublicKey m)"
    using pin(2) b(3,7) by (simp add: pinnedRoot_def sameTables_def countCall_def l)
  show "pinnedRoot t (vmLibraryID m) = Some (vmRootPublicKey m)"
    using pin(3) row(3) b(7) by (simp add: pinnedRoot_def a(2) countCall_def l)
  show "\<exists>now. rlMembers t = AList.update (vmLibraryID m, vmDeviceID m)
      \<lparr>mbPeerID = vmPeerID m, mbCertSerial = vmCertSerial m, mbCertExpiresAt = vmCertExpiresAt m, mbUpdatedAt = now\<rparr>
      (rlMembers s)"
    "map_of (rlMembers s) (vmLibraryID m, vmDeviceID m) = Some row \<Longrightarrow> mbCertSerial row \<le> vmCertSerial m"
    "rlPresence t = rlPresence s" "rlRevoked t = rlRevoked s" "rlRevisions t = rlRevisions s"
    using row pin(4-7) b(3) by (auto simp: sameTables_def a(2) countCall_def)
qed

section \<open>Members and presence\<close>

text \<open>Most programs leave the members and the presence records alone.\<close>

definition sameRows :: "relay \<Rightarrow> relay \<Rightarrow> bool" where
  "sameRows s t \<longleftrightarrow> rlMembers t = rlMembers s \<and> rlPresence t = rlPresence s"

interpretation still: relay_frame sameRows
  by unfold_locales (simp_all add: sameRows_def countCall_def rollbackTo_def)

lemma still_exec: "(\<And>s. rlMembers (f s) = rlMembers s \<and> rlPresence (f s) = rlPresence s) \<Longrightarrow> still.kept (execDB E f)"
  by (simp add: still.kept_exec sameRows_def)

lemma pin_still: "still.kept (pinLibraryRootQuery E l k)"
  by (auto simp: pinLibraryRootQuery_def Let_def intro!: still.kept_bind still.kept_ok still.kept_reads
      still.kept_clock still_exec split: option.split)

lemma storeRevocations_still: "still.kept (storeRevocations E l n now rs)"
  by (induction rs) (auto simp: Let_def intro!: still.kept_bind still.kept_ok still_exec)

lemma sync_still: "still.kept (applyRevocationSync E req)"
  unfolding applyRevocationSync_def Let_def
  by (intro still.kept_transaction still.kept_bind still.kept_query)
    (auto intro!: still.kept_bind still.kept_ok still.kept_clock still_exec storeRevocations_still)

text \<open>An address the registry stores for a peer: the printed form of a multiaddress that ends in the peer.\<close>

definition leadsTo :: "relayEnv \<Rightarrow> string \<Rightarrow> string \<Rightarrow> bool" where
  "leadsTo E p a \<longleftrightarrow>
     (\<exists>v printed cs. reMultiaddr E v = Inr (printed, cs) \<and> finalMultiaddrPeerID cs = p \<and> a = trimSpace printed)"

lemma compactFrom_bounds:
  "length (compactFrom seen xs) \<le> length seen + length xs"
  "set (compactFrom seen xs) \<subseteq> set seen \<union> trimSpace ` set xs"
proof (induction seen xs rule: compactFrom.induct)
  case (2 seen x xs)
  { case 1 show ?case using 2 [OF refl] by (cases "trimSpace x = []"; cases "trimSpace x \<in> set seen") auto }
  { case 2 show ?case using "2.IH" [OF refl] by (cases "trimSpace x = []"; cases "trimSpace x \<in> set seen") auto }
qed simp_all

lemma compact_bounds:
  "length (compactNonEmptyStrings xs) \<le> length xs" "set (compactNonEmptyStrings xs) \<subseteq> trimSpace ` set xs"
  using compactFrom_bounds [of "[]" xs] by (simp_all add: compactNonEmptyStrings_def)

lemma checkAddrs_result:
  "checkAddrs E p n vs = Inr out \<Longrightarrow> trimSpace p \<noteq> [] \<Longrightarrow>
    length out = length vs \<and> (\<forall>a \<in> set out. leadsTo E (trimSpace p) (trimSpace a))"
proof (induction E p n vs arbitrary: out rule: checkAddrs.induct)
  case (2 E p n v vs)
  from "2.prems" obtain pr cs out' where a: "n + length v \<le> maxPresenceAddrsBytes" "reMultiaddr E v = Inr (pr, cs)"
    "finalMultiaddrPeerID cs = trimSpace p" "checkAddrs E p (n + length v) vs = Inr out'" "out = pr # out'"
    by (auto simp: Let_def map_sum_def split: if_splits sum.splits prod.splits)
  have "leadsTo E (trimSpace p) (trimSpace pr)" using a(2,3) by (auto simp: leadsTo_def)
  moreover have "length out' = length vs \<and> (\<forall>a \<in> set out'. leadsTo E (trimSpace p) (trimSpace a))"
    using "2.IH" a "2.prems"(2) by auto
  ultimately show ?case using a(5) by simp
qed simp

lemma validated_addrs:
  assumes "validatePresenceAddrs E addrs p = Inr out" "trimSpace p \<noteq> []"
  shows "length out \<le> maxPresenceAddrs" "a \<in> set out \<Longrightarrow> leadsTo E (trimSpace p) a"
proof -
  from assms(1) obtain vs where v: "checkAddrs E p 0 (compactNonEmptyStrings addrs) = Inr vs"
    "length (compactNonEmptyStrings addrs) \<le> maxPresenceAddrs" "out = compactNonEmptyStrings vs"
    by (auto simp: validatePresenceAddrs_def Let_def map_sum_def split: if_splits sum.splits)
  note c = checkAddrs_result [OF v(1) assms(2)] and b = compact_bounds [of vs]
  show "length out \<le> maxPresenceAddrs" "a \<in> set out \<Longrightarrow> leadsTo E (trimSpace p) a"
    using c b v(2,3) by auto
qed

text \<open>
  Every row of a member or of its presence rests on a certificate that the pinned root of the library
  vouches for.
\<close>

definition vouchedMember :: "relayEnv \<Rightarrow> relay \<Rightarrow> string \<Rightarrow> string \<Rightarrow> string \<Rightarrow> int \<Rightarrow> int \<Rightarrow> bool" where
  "vouchedMember E s l d p serial expires \<longleftrightarrow>
     (\<exists>root c chain. pinnedRoot s l = Some root \<and> vouched (reLib E) l root c chain
       \<and> trimSpace (mcLibraryID c) = l \<and> trimSpace (mcDeviceID c) = d \<and> trimSpace (mcPeerID c) = p
       \<and> l \<noteq> [] \<and> d \<noteq> [] \<and> p \<noteq> [] \<and> 0 < serial \<and> serial = mcSerial c \<and> expires = mcExpiresAt c)"

definition membersOk :: "relayEnv \<Rightarrow> relay \<Rightarrow> bool" where
  "membersOk E s \<longleftrightarrow> (\<forall>((l, d), r) \<in> set (rlMembers s).
     vouchedMember E s l d (mbPeerID r) (mbCertSerial r) (mbCertExpiresAt r))"

definition presenceRowOk :: "relayEnv \<Rightarrow> relay \<Rightarrow> string \<times> string \<times> string \<Rightarrow> presenceRow \<Rightarrow> bool" where
  "presenceRowOk E s key r \<longleftrightarrow>
     (case key of (l, d, p) \<Rightarrow> (\<exists>serial expires. vouchedMember E s l d p serial expires)
       \<and> length (pwAddrs r) \<le> maxPresenceAddrs \<and> (\<forall>a \<in> set (pwAddrs r). leadsTo E p a)
       \<and> pwUpdatedAt r \<le> pwExpiresAt r \<and> pwExpiresAt r \<le> pwUpdatedAt r + 90)"

definition presenceOk :: "relayEnv \<Rightarrow> relay \<Rightarrow> bool" where
  "presenceOk E s \<longleftrightarrow> (\<forall>(key, r) \<in> set (rlPresence s). presenceRowOk E s key r)"

lemma vouchedMember_advances: "advances s t \<Longrightarrow> vouchedMember E s l d p n x \<Longrightarrow> vouchedMember E t l d p n x"
  unfolding vouchedMember_def advances_def by blast

lemma presenceRowOk_advances: "advances s t \<Longrightarrow> presenceRowOk E s key r \<Longrightarrow> presenceRowOk E t key r"
  unfolding presenceRowOk_def using vouchedMember_advances by (cases key) (simp, blast)

lemma rowsOk_advances:
  assumes "advances s t" "membersOk E s" "presenceOk E s" "set (rlMembers t) \<subseteq> set (rlMembers s)"
    "set (rlPresence t) \<subseteq> set (rlPresence s)"
  shows "membersOk E t \<and> presenceOk E t"
proof
  note adv = vouchedMember_advances [OF assms(1)]
  show "membersOk E t"
    using assms(2,4) unfolding membersOk_def by (auto intro!: adv)
  show "presenceOk E t"
    using assms(3,5) presenceRowOk_advances [OF assms(1)] unfolding presenceOk_def by fastforce
qed

lemma set_update: "set (AList.update k v al) \<subseteq> insert (k, v) (set al)"
  by (induction al) auto

lemma memberOf_vouched:
  "memberOf E auth m \<Longrightarrow> pinnedRoot t (vmLibraryID m) = Some (vmRootPublicKey m) \<Longrightarrow>
    vouchedMember E t (vmLibraryID m) (vmDeviceID m) (vmPeerID m) (vmCertSerial m) (vmCertExpiresAt m)"
  unfolding memberOf_def vouchedMember_def Let_def by metis

lemma authenticate_rowsOk:
  assumes "authenticateMembership E l k auth s = (r, t)" "membersOk E s" "presenceOk E s"
  shows "membersOk E t \<and> presenceOk E t"
proof (cases r)
  case (Inl err)
  with assms(1) have "sameTables s t" by (simp add: authenticate_fails)
  then show ?thesis
    by (intro rowsOk_advances [OF _ assms(2,3)]) (auto simp: sameTables_def intro: advances_same)
next
  case (Inr m)
  note a = authenticate_result [OF assms(1) [unfolded Inr]]
  note adv = authenticated_step [OF assms(1)]
  obtain row where row: "rlMembers t = AList.update (vmLibraryID m, vmDeviceID m) row (rlMembers s)"
    "mbPeerID row = vmPeerID m" "mbCertSerial row = vmCertSerial m" "mbCertExpiresAt row = vmCertExpiresAt m"
    using a(7) by auto
  have "vouchedMember E t l d (mbPeerID r) (mbCertSerial r) (mbCertExpiresAt r)"
    if "((l, d), r) \<in> set (rlMembers t)" for l d r
  proof (cases "((l, d), r) = ((vmLibraryID m, vmDeviceID m), row)")
    case True
    then show ?thesis using memberOf_vouched [OF a(1,6)] row(2-4) by simp
  next
    case False
    with that set_update [of "(vmLibraryID m, vmDeviceID m)" row "rlMembers s"]
    have "((l, d), r) \<in> set (rlMembers s)" unfolding row(1) by blast
    then show ?thesis
      using assms(2) vouchedMember_advances [OF adv] unfolding membersOk_def by blast
  qed
  moreover have "presenceOk E t"
    using assms(3) presenceRowOk_advances [OF adv] unfolding presenceOk_def a(9) by fastforce
  ultimately show ?thesis by (auto simp: membersOk_def)
qed

definition rowsOk :: "relayEnv \<Rightarrow> relay \<Rightarrow> bool" where
  "rowsOk E s \<longleftrightarrow> membersOk E s \<and> presenceOk E s"

lemma rowsOk_still: "sameRows s t \<Longrightarrow> advances s t \<Longrightarrow> rowsOk E s \<Longrightarrow> rowsOk E t"
  using rowsOk_advances by (simp add: rowsOk_def sameRows_def)

lemma rowsOk_kept: "still.kept p \<Longrightarrow> monotone.kept p \<Longrightarrow> p s = (x, t) \<Longrightarrow> rowsOk E s \<Longrightarrow> rowsOk E t"
  by (metis rowsOk_still still.keptD monotone.keptD snd_conv)

lemma rowsOk_authenticate: "authenticateMembership E l k auth s = (x, t) \<Longrightarrow> rowsOk E s \<Longrightarrow> rowsOk E t"
  using authenticate_rowsOk by (simp add: rowsOk_def)

lemma unixSeconds_window: "unixSeconds (t + presenceWindow) = unixSeconds t + 90"
  by (simp add: unixSeconds_def presenceWindow_def) 

lemma unixSeconds_mono: "a \<le> b \<Longrightarrow> unixSeconds a \<le> unixSeconds b"
  by (simp add: unixSeconds_def zdiv_mono1)

lemma announceRecord_total: "\<exists>r' t. announceRecord E r s = (Inr r', t)"
  by (simp add: announceRecord_def bindDB_def clockDB_def okDB_def)

lemma announceRecord_result:
  assumes "announceRecord E r s = (Inr r', t)"
  shows "prLibraryID r' = prLibraryID r" "prDeviceID r' = prDeviceID r" "prPeerID r' = prPeerID r"
    "prAddrs r' = prAddrs r" "prUpdatedAt r' \<le> prExpiresAt r'" "prExpiresAt r' \<le> prUpdatedAt r' + presenceWindow"
    "sameRows s t" "advances s t"
  using assms monotone.timed monotone.unchanged
  by (auto simp: announceRecord_def db_results presenceWindow_def sameRows_def split: if_splits)

lemma storePresence_rowsOk:
  assumes "storePresence E r s = (x, t)" "rowsOk E s"
    "vouchedMember E s (prLibraryID r) (prDeviceID r) (prPeerID r) n e" "length (prAddrs r) \<le> maxPresenceAddrs"
    "\<And>a. a \<in> set (prAddrs r) \<Longrightarrow> leadsTo E (prPeerID r) a" "prUpdatedAt r \<le> prExpiresAt r"
    "prExpiresAt r \<le> prUpdatedAt r + presenceWindow"
  shows "rowsOk E t"
proof (cases "dbFault E (dbCalls s)")
  case None
  let ?row = "\<lparr>pwAddrs = prAddrs r, pwExpiresAt = unixSeconds (prExpiresAt r), pwUpdatedAt = unixSeconds (prUpdatedAt r)\<rparr>"
  let ?key = "(prLibraryID r, prDeviceID r, prPeerID r)"
  have t: "rlPresence t = AList.update ?key ?row (rlPresence s)" "rlMembers t = rlMembers s"
    using assms(1) None by (auto simp: storePresence_def execDB_def countCall_def)
  have adv: "advances s t" using kept_step [OF storePresence_kept monotone.unchanged assms(1)] .
  have row: "pwUpdatedAt ?row \<le> pwExpiresAt ?row" "pwExpiresAt ?row \<le> pwUpdatedAt ?row + 90"
    using unixSeconds_mono [OF assms(6)] unixSeconds_mono [OF assms(7)] by (simp_all add: unixSeconds_window)
  have m: "membersOk E t"
    using assms(2) unfolding rowsOk_def membersOk_def t(2) by (auto intro!: vouchedMember_advances [OF adv])
  have new: "presenceRowOk E t ?key ?row"
    using vouchedMember_advances [OF adv assms(3)] assms(4,5) row by (auto simp: presenceRowOk_def)
  have "presenceRowOk E t key r'" if "(key, r') \<in> set (rlPresence t)" for key r'
  proof (cases "(key, r') = (?key, ?row)")
    case False
    with that set_update [of ?key ?row "rlPresence s"] have "(key, r') \<in> set (rlPresence s)"
      unfolding t(1) by blast
    then show ?thesis
      using assms(2) presenceRowOk_advances [OF adv] unfolding rowsOk_def presenceOk_def by blast
  qed (use new in simp)
  then have "presenceOk E t" by (auto simp: presenceOk_def)
  with m show ?thesis by (simp add: rowsOk_def)
next
  case (Some err)
  then have "t = countCall s" using assms(1) by (simp add: storePresence_def execDB_def)
  then show ?thesis using rowsOk_still [OF still.counted monotone.counted assms(2)] by simp
qed

lemma announce_rowsOk:
  assumes "rowsOk E s"
  shows "rowsOk E (snd (presenceAnnounce E req s))"
proof -
  obtain rec k auth where req: "req = (rec, k, auth)" by (cases req)
  obtain x s1 where a: "authenticateMembership E (prLibraryID rec) k auth s = (x, s1)" by force
  note s1 = rowsOk_authenticate [OF a assms]
  let ?r = "rec\<lparr>prLibraryID := trimSpace (prLibraryID rec), prDeviceID := trimSpace (prDeviceID rec),
    prPeerID := trimSpace (prPeerID rec)\<rparr>"
  show ?thesis
  proof (cases x)
    case (Inl err)
    with a s1 show ?thesis by (simp add: presenceAnnounce_def req)
  next
    case (Inr m)
    note m = authenticate_result [OF a [unfolded Inr]]
    have stored: "rowsOk E t"
      if st: "bindDB (announceRecord E (?r\<lparr>prAddrs := addrs\<rparr>)) (storePresence E) s1 = (y, t)"
        "validatePresenceAddrs E (prAddrs ?r) (prPeerID ?r) = Inr addrs"
        "prLibraryID ?r = vmLibraryID m" "prDeviceID ?r = vmDeviceID m" "prPeerID ?r = vmPeerID m" for addrs y t
    proof -
      obtain r s2 where r: "announceRecord E (?r\<lparr>prAddrs := addrs\<rparr>) s1 = (Inr r, s2)" "storePresence E r s2 = (y, t)"
        using st announceRecord_total [of E "?r\<lparr>prAddrs := addrs\<rparr>" s1] by (auto simp: bindDB_def)
      note res = announceRecord_result [OF r(1)]
      have p: "trimSpace (prPeerID ?r) = prPeerID ?r" "trimSpace (prPeerID ?r) \<noteq> []"
        using that(5) m(1) by (auto simp: memberOf_def Let_def)
      have v: "vouchedMember E s2 (prLibraryID r) (prDeviceID r) (prPeerID r) (vmCertSerial m) (vmCertExpiresAt m)"
        using vouchedMember_advances [OF res(8) memberOf_vouched [OF m(1,6)]] res(1-3) that(3-5) by simp
      show ?thesis
      proof (rule storePresence_rowsOk [OF r(2) rowsOk_still [OF res(7,8) s1] v _ _ res(5,6)])
        show "length (prAddrs r) \<le> maxPresenceAddrs"
          using validated_addrs(1) [OF that(2) p(2)] res(4) by simp
        show "leadsTo E (prPeerID r) a" if "a \<in> set (prAddrs r)" for a
          using validated_addrs(2) [OF \<open>validatePresenceAddrs E (prAddrs ?r) (prPeerID ?r) = Inr addrs\<close> p(2), of a]
            that res(3,4) p(1) by simp
      qed
    qed
    show ?thesis
      using s1 stored by (auto simp: presenceAnnounce_def req a Inr Let_def split: sum.split prod.split)
  qed
qed

lemma reads_still: "still.kept (lookupPresence E l p)"
  by (rule still.kept_reads)

lemma member_rowsOk: "rowsOk E s \<Longrightarrow> rowsOk E (snd (presenceMember E req s))"
  by (auto simp: presenceMember_def split: prod.split sum.split option.split
      intro: rowsOk_authenticate rowsOk_kept [OF reads_still monotone.kept_reads(3)])

lemma authorize_rowsOk: "rowsOk E s \<Longrightarrow> rowsOk E (snd (relayAuthorize E req s))"
  by (auto simp: relayAuthorize_def split: prod.split sum.split intro: rowsOk_authenticate)

lemma sync_rowsOk: "rowsOk E s \<Longrightarrow> rowsOk E (snd (revocationSync E req s))"
  by (auto simp: revocationSync_def split: prod.split sum.split option.split
      intro: rowsOk_kept [OF pin_still pin_kept] rowsOk_kept [OF sync_still sync_kept])

lemma rowsOk_timed: "rowsOk E s \<Longrightarrow> rowsOk E (s\<lparr>dbTicks := n\<rparr>)"
  using rowsOk_still [OF still.timed monotone.timed] .

lemma invite_rowsOk:
  assumes "rowsOk E s"
  shows "rowsOk E (snd (inviteOwner E i s))"
proof -
  let ?pin = "pinLibraryRootQuery E (iaLibraryID i) (iaRootPublicKey i)"
  have one: "?pin (s\<lparr>dbTicks := n\<rparr>) = (x, t) \<Longrightarrow> rowsOk E t" for n x t
    by (rule rowsOk_kept [OF pin_still pin_kept _ rowsOk_timed [OF assms]])
  show ?thesis
    by (auto simp: inviteOwner_def Let_def rowsOk_timed [OF assms]
        intro: one rowsOk_kept [OF reads_still monotone.kept_reads(3) _ one] split: prod.split sum.split option.split)
qed

lemma acl_rowsOk: "rowsOk E s \<Longrightarrow> rowsOk E (snd (relayPeerAuthorized E p s))"
proof -
  have "sameRows s (snd (relayPeerAuthorized E p s))"
    by (auto simp: relayPeerAuthorized_def bindDB_def clockDB_def queryDB_def sameRows_def countCall_def
        split: option.split)
  then show "rowsOk E s \<Longrightarrow> ?thesis" using rowsOk_still acl_advances by blast
qed

lemma cleanup_rowsOk: "rowsOk E s \<Longrightarrow> rowsOk E (cleanupExpiredRegistryState E now s)"
proof -
  have "set (rlMembers (cleanupExpiredRegistryState E now s)) \<subseteq> set (rlMembers s)"
    "set (rlPresence (cleanupExpiredRegistryState E now s)) \<subseteq> set (rlPresence s)"
    by (auto simp: cleanupExpiredRegistryState_def execDB_def countCall_def Let_def split: option.splits)
  then show "rowsOk E s \<Longrightarrow> ?thesis" using rowsOk_advances [OF cleanup_advances] by (simp add: rowsOk_def)
qed

lemma registryMux_rowsOk: "rowsOk E s \<Longrightarrow> rowsOk E (snd (registryMux E req s))"
  by (cases req) (simp_all add: registryMux_defs announce_rowsOk member_rowsOk authorize_rowsOk sync_rowsOk
      invite_rowsOk split: request.split)

lemma served_rowsOk: "served E s t \<Longrightarrow> rowsOk E s \<Longrightarrow> rowsOk E t"
  by (induction rule: served.induct)
    (simp_all add: allowReserve_def allowConnect_def registryMux_rowsOk acl_rowsOk cleanup_rowsOk)

text \<open>The tables of a fresh database, and what the daemon can make of them.\<close>

definition freshRelay :: relay where
  "freshRelay = \<lparr>dbCalls = 0, dbTicks = 0, rlRoots = [], rlMembers = [], rlPresence = [], rlRevisions = [],
     rlRevoked = []\<rparr>"

definition operating :: "relayEnv \<Rightarrow> relay \<Rightarrow> bool" where
  "operating E s \<longleftrightarrow> (served E)\<^sup>*\<^sup>* freshRelay s"

lemma operating_rowsOk: "operating E s \<Longrightarrow> rowsOk E s"
  unfolding operating_def
proof (induction rule: rtranclp_induct)
  case base
  show ?case by (simp add: freshRelay_def rowsOk_def membersOk_def presenceOk_def)
next
  case (step t u)
  then show ?case using served_rowsOk by blast
qed

section \<open>Answers\<close>

lemma sync_sameRows: "sameRows s (snd (revocationSync E req s))"
proof -
  let ?pin = "pinLibraryRootQuery E (rsLibraryID req) (rsRootPublicKey req)"
  have pin: "?pin s = (x, t) \<Longrightarrow> sameRows s t" for x t using still.keptD [OF pin_still] by (metis snd_conv)
  have "applyRevocationSync E req t = (y, u) \<Longrightarrow> sameRows t u" for t y u
    using still.keptD [OF sync_still] by (metis snd_conv)
  then show ?thesis
    by (auto simp: revocationSync_def still.unchanged intro: pin still.composed [OF pin]
        split: prod.split sum.split option.split)
qed

text \<open>A refused request leaves the tables alone.\<close>

lemma pin_fails: "pinLibraryRootQuery E l k s = (Inl err, t) \<Longrightarrow> sameTables s t"
  by (auto simp: pinLibraryRootQuery_def libraryRootPublicKeyQuery_def bindDB_def queryDB_def execDB_def
      clockDB_def okDB_def failDB_def Let_def split: if_splits option.splits)

lemma refused_request: "fst (registryMux E req s) = HttpError status msg \<Longrightarrow> status \<noteq> 500 \<Longrightarrow> status \<noteq> 403
    \<Longrightarrow> (\<And>a. req = Announce (Posted a) \<Longrightarrow> status \<noteq> 400) \<Longrightarrow> sameTables s (snd (registryMux E req s))"
proof (cases req)
  case (Announce r)
  then show "fst (registryMux E req s) = HttpError status msg \<Longrightarrow> status \<noteq> 500 \<Longrightarrow> status \<noteq> 403
    \<Longrightarrow> (\<And>a. req = Announce (Posted a) \<Longrightarrow> status \<noteq> 400) \<Longrightarrow> ?thesis"
    by (auto simp: registryMux_defs presenceAnnounce_def Let_def dest: authenticate_fails
        split: request.splits prod.splits sum.splits if_splits)
next
  case (Member r)
  then show "fst (registryMux E req s) = HttpError status msg \<Longrightarrow> status \<noteq> 500 \<Longrightarrow> status \<noteq> 403 \<Longrightarrow> ?thesis"
    by (auto simp: registryMux_defs presenceMember_def dest: authenticate_fails
        split: request.splits prod.splits sum.splits if_splits option.splits)
next
  case (Authorize r)
  then show "fst (registryMux E req s) = HttpError status msg \<Longrightarrow> ?thesis"
    by (auto simp: registryMux_defs relayAuthorize_def dest: authenticate_fails
        split: request.splits prod.splits sum.splits)
next
  case (Revoke r)
  then show "fst (registryMux E req s) = HttpError status msg \<Longrightarrow> status \<noteq> 500 \<Longrightarrow> ?thesis"
    by (auto simp: registryMux_defs revocationSync_def dest: pin_fails
        split: request.splits prod.splits sum.splits option.splits)
next
  case (Owner r)
  then show "fst (registryMux E req s) = HttpError status msg \<Longrightarrow> status \<noteq> 500 \<Longrightarrow> ?thesis"
    by (auto simp: registryMux_defs inviteOwner_def Let_def dest: pin_fails
        split: request.splits prod.splits sum.splits option.splits if_splits)
qed

text \<open>The presence rows a lookup may answer with, and the answer.\<close>

definition liveFor :: "relayEnv \<Rightarrow> relay \<Rightarrow> string \<Rightarrow> string \<Rightarrow> (string \<times> string \<times> string) \<times> presenceRow \<Rightarrow> bool" where
  "liveFor E s l p e \<longleftrightarrow> e \<in> set (rlPresence s) \<and> snd (snd (fst e)) = trimSpace p
     \<and> (trimSpace l = [] \<or> fst (fst e) = trimSpace l) \<and> unixSeconds (dbClock E (dbTicks s)) \<le> pwExpiresAt (snd e)"

lemma latestPresence_result:
  "(latestPresence rs = None \<longleftrightarrow> rs = []) \<and>
   (latestPresence rs = Some e \<longrightarrow> e \<in> set rs \<and> (\<forall>d \<in> set rs. pwUpdatedAt (snd d) \<le> pwUpdatedAt (snd e)))"
proof (induction rs arbitrary: e)
  case (Cons r rs)
  show ?case
  proof (cases "latestPresence rs")
    case None
    with Cons.IH show ?thesis by auto
  next
    case (Some b)
    with Cons.IH [of b] show ?thesis
      by (cases "pwUpdatedAt (snd r) < pwUpdatedAt (snd b)") (auto intro: order_trans)
  qed
qed simp

lemma lookup_result:
  assumes "lookupPresence E l p s = (Inr res, t)" "trimSpace p \<noteq> []"
  shows "res = None \<Longrightarrow> \<not> liveFor E s l p e"
    "res = Some r \<Longrightarrow> \<exists>row. liveFor E s l p ((prLibraryID r, prDeviceID r, prPeerID r), row)
       \<and> (\<forall>e. liveFor E s l p e \<longrightarrow> pwUpdatedAt (snd e) \<le> pwUpdatedAt row)
       \<and> prAddrs r = compactNonEmptyStrings (pwAddrs row)"
proof -
  let ?rs = "filter (\<lambda>((l', d, p'), row). p' = trimSpace p \<and> pwExpiresAt row \<ge> unixSeconds (dbClock E (dbTicks s))
    \<and> (trimSpace l \<noteq> [] \<longrightarrow> l' = trimSpace l)) (rlPresence s)"
  have live: "e \<in> set ?rs \<longleftrightarrow> liveFor E s l p e" for e
    by (auto simp: liveFor_def split: prod.splits)
  have res: "res = map_option (\<lambda>((l, d, p), row).
            \<lparr>prLibraryID = l, prDeviceID = d, prPeerID = p, prAddrs = compactNonEmptyStrings (pwAddrs row),
              prExpiresAt = secondsTime (pwExpiresAt row), prUpdatedAt = secondsTime (pwUpdatedAt row)\<rparr>)
          (latestPresence ?rs)"
    using assms by (auto simp: lookupPresence_def db_results)
  note lat = latestPresence_result [of ?rs]
  show "res = None \<Longrightarrow> \<not> liveFor E s l p e"
    using res lat live [of e] by (auto simp: map_option_is_None)
  show "\<exists>row. liveFor E s l p ((prLibraryID r, prDeviceID r, prPeerID r), row)
       \<and> (\<forall>e. liveFor E s l p e \<longrightarrow> pwUpdatedAt (snd e) \<le> pwUpdatedAt row)
       \<and> prAddrs r = compactNonEmptyStrings (pwAddrs row)" if "res = Some r"
  proof -
    from that res obtain l' d p' row where e: "latestPresence ?rs = Some ((l', d, p'), row)"
      "r = \<lparr>prLibraryID = l', prDeviceID = d, prPeerID = p', prAddrs = compactNonEmptyStrings (pwAddrs row),
              prExpiresAt = secondsTime (pwExpiresAt row), prUpdatedAt = secondsTime (pwUpdatedAt row)\<rparr>"
      by auto
    from latestPresence_result [of ?rs "((l', d, p'), row)"] e(1)
    have "((l', d, p'), row) \<in> set ?rs" "\<forall>e \<in> set ?rs. pwUpdatedAt (snd e) \<le> pwUpdatedAt row" by auto
    then show ?thesis unfolding live Ball_def using e(2) by auto
  qed
qed

end
