(* ===== verification/RelaydSamples.thy ===== *)
theory RelaydSamples
  imports RelaydLaws Samples
begin

text \<open>
  A concrete signature scheme, certificates below one root and a registry that serves them, for the
  witnesses.  A signature is the public key before the bytes that it signs; Base64 is a pair of brackets.
\<close>

fun sampleEscaped :: "string \<Rightarrow> string" where
  "sampleEscaped [] = []"
| "sampleEscaped (c # s) =
     (if c = CHR ''\"'' \<or> c = CHR 0x5C then CHR 0x5C # c # sampleEscaped s else c # sampleEscaped s)"

definition sampleJSON :: "string \<Rightarrow> string" where
  "sampleJSON s = ''\"'' @ sampleEscaped s @ ''\"''"

definition samplePublic :: "string \<Rightarrow> string" where
  "samplePublic key = take 32 (key @ replicate 32 CHR ''#'')"

definition sampleAuth :: authlib where
  "sampleAuth = golib.extend sampleLib
     \<lparr>b64Decode = (\<lambda>s. if 2 \<le> length s \<and> hd s = CHR ''<'' \<and> last s = CHR ''>'' then Inr (butlast (tl s))
         else Inl ''illegal base64 data''),
      b64Encode = (\<lambda>b. ''<'' @ b @ ''>''), edVerify = (\<lambda>p m sig. sig = p @ m),
      edSign = (\<lambda>k m. samplePublic k @ m), edPublic = samplePublic, jsonString = sampleJSON\<rparr>"

lemma sampleAuth_simps [simp]:
  "b64Decode sampleAuth s = (if 2 \<le> length s \<and> hd s = CHR ''<'' \<and> last s = CHR ''>'' then Inr (butlast (tl s))
     else Inl ''illegal base64 data'')"
  "b64Encode sampleAuth b = ''<'' @ b @ ''>''" "edVerify sampleAuth p m sig = (sig = p @ m)"
  "edSign sampleAuth k m = samplePublic k @ m" "edPublic sampleAuth = samplePublic"
  "jsonString sampleAuth = sampleJSON" "lowerCase sampleAuth = toLower"
  by (simp_all add: sampleAuth_def sampleLib_def golib.defs)

lemma samplePublic_length [simp]: "length (samplePublic k) = 32"
  by (simp add: samplePublic_def)

text \<open>Every string in brackets is trimmed.\<close>

lemma bracketed_trimmed: "trimSpace (''<'' @ b @ ''>'') = ''<'' @ b @ ''>''"
proof -
  have "first_strip space_seqs (CHR ''<'' # x) = None" for x
    unfolding first_strip_None by (auto simp: space_seqs_def)
  moreover have "first_strip (map rev space_seqs) (CHR ''>'' # x) = None" for x
    unfolding first_strip_None by (auto simp: space_seqs_def)
  ultimately show ?thesis
    by (simp add: trimSpace_def trimLeft_def trimRight_def strip_all_fixed)
qed

lemma sample_keysWork: "keysWork sampleAuth"
  using bracketed_trimmed by (simp add: keysWork_def)

lemma escaped_delimits:
  "sampleEscaped a @ CHR ''\"'' # x = sampleEscaped b @ CHR ''\"'' # y \<Longrightarrow> a = b \<and> x = y"
proof (induction a arbitrary: b)
  case Nil
  then show ?case by (cases b) (simp_all split: if_splits)
next
  case (Cons c a)
  show ?case
  proof (cases b)
    case Nil
    with Cons.prems show ?thesis by (simp split: if_splits)
  next
    case b: (Cons d b')
    with Cons.prems have "c = d \<and> sampleEscaped a @ CHR ''\"'' # x = sampleEscaped b' @ CHR ''\"'' # y"
      by (simp split: if_splits)
    with Cons.IH b show ?thesis by simp
  qed
qed

lemma sample_jsonDelimits: "jsonDelimits sampleAuth"
  unfolding jsonDelimits_def by (auto simp: sampleJSON_def dest: escaped_delimits)

definition sampleRootKey :: string where
  "sampleRootKey = replicate 64 CHR ''r''"

definition sampleAdminKey :: string where
  "sampleAdminKey = replicate 64 CHR ''a''"

definition sampleRoot :: string where
  "sampleRoot = ''<'' @ samplePublic sampleRootKey @ ''>''"

definition sampleAuthority :: AdmissionAuthority where
  "sampleAuthority =
     (let a = \<lparr>aaVersion = 1, aaPublicKey = ''<'' @ samplePublic sampleAdminKey @ ''>'', aaPrevVersion = 0,
        aaSignedByKind = ''root'', aaSig = '''', aaCreatedAt = 5\<rparr>
      in a\<lparr>aaSig := samplePublic sampleRootKey @ admissionAuthoritySigningPayload sampleAuth ''lib'' a\<rparr>)"

definition sampleCert :: "string \<Rightarrow> int \<Rightarrow> MembershipCert" where
  "sampleCert device serial =
     (let c = \<lparr>mcLibraryID = ''lib'', mcDeviceID = device, mcPeerID = ''p'' @ device, mcRole = ''member'',
        mcAuthorityVersion = 1, mcSerial = serial, mcIssuedAt = 7, mcExpiresAt = 0, mcSig = ''''\<rparr>
      in c\<lparr>mcSig := samplePublic sampleAdminKey @ membershipCertSigningPayload sampleAuth c\<rparr>)"

definition samplePeerAuth :: "string \<Rightarrow> int \<Rightarrow> TransportPeerAuth" where
  "samplePeerAuth device serial = \<lparr>paCert = sampleCert device serial, paChain = [sampleAuthority]\<rparr>"

definition sampleRelayEnv :: relayEnv where
  "sampleRelayEnv = \<lparr>dbClock = (\<lambda>n. (62135596800 + int n) * 1000000000), dbFault = (\<lambda>_. None), reLib = sampleAuth,
     reMultiaddr = (\<lambda>v. Inr (v, [CircuitComponent, P2PComponent (drop 1 v)]))\<rparr>"

definition sampleRevocations :: RevocationSync where
  "sampleRevocations =
     (let r = \<lparr>rsLibraryID = ''lib'', rsRootPublicKey = sampleRoot, rsRevision = 3,
        rsRevocations = [\<lparr>mrDeviceID = ''d'', mrMaxSerial = 2\<rparr>], rsSig = ''''\<rparr>
      in r\<lparr>rsSig := samplePublic sampleRootKey @ revocationSyncSigningPayload sampleAuth r\<rparr>)"

definition sampleMember :: "string \<Rightarrow> int \<Rightarrow> verifiedMembership" where
  "sampleMember device serial =
     \<lparr>vmLibraryID = ''lib'', vmDeviceID = device, vmPeerID = ''p'' @ device, vmRootPublicKey = sampleRoot,
       vmCertSerial = serial, vmCertExpiresAt = 0\<rparr>"

lemma sampleMember_simps [simp]:
  "vmLibraryID (sampleMember d n) = ''lib''" "vmDeviceID (sampleMember d n) = d"
  "vmRootPublicKey (sampleMember d n) = sampleRoot" "vmCertSerial (sampleMember d n) = n"
  by (simp_all add: sampleMember_def)

definition sampleInvite :: InviteAttestation where
  "sampleInvite = \<lparr>iaLibraryID = ''lib'', iaTokenID = ''t'', iaOwnerPeerID = ''pd'', iaRootPublicKey = '''',
     iaExpiresAt = 0, iaSig = ''''\<rparr>"

definition sampleRecord :: PresenceRecord where
  "sampleRecord = \<lparr>prLibraryID = ''lib'', prDeviceID = ''d'', prPeerID = ''pd'', prAddrs = [''/pd''],
     prExpiresAt = 0, prUpdatedAt = 0\<rparr>"

text \<open>A registry after the announcement of one device.\<close>

definition sampleServing :: relay where
  "sampleServing = snd (registryMux sampleRelayEnv
     (Announce (Posted (sampleRecord, sampleRoot, samplePeerAuth ''d'' 2))) freshRelay)"

end
