(* ===== verification/RelaydProperties.thy ===== *)
theory RelaydProperties
  imports RelaydSamples
begin

text \<open>
  The network plane: the signed documents, and the registry of the relay daemon that admits members by
  them.
\<close>

section \<open>Signed documents\<close>

text \<open>
  C5: \<open>verifyMembershipCert\<close> accepts exactly the certificates that name the library, the device and the
  peer asked for, have a positive serial, are not expired, and are vouched for below the root key: the
  given authorities can be put in an order in which the first is signed by the root, each later one by
  its predecessor, and the last one is the one the certificate names and signed it.
\<close>

theorem certificate_accepted_iff:
  "verifyMembershipCert L c chain rootKey now library device peer = None \<longleftrightarrow>
     trimSpace (mcLibraryID c) = trimSpace library \<and> trimSpace (mcDeviceID c) = trimSpace device
     \<and> trimSpace (mcPeerID c) \<noteq> '''' \<and> trimSpace (mcPeerID c) = trimSpace peer \<and> 0 < mcSerial c
     \<and> (mcExpiresAt c \<le> 0 \<or> unixNanos now \<le> mcExpiresAt c)
     \<and> (\<exists>r ds key. decodeEd25519PublicKey L rootKey = Inr r \<and> certifies L library r ds \<and> mset ds = mset chain
          \<and> aaVersion (last ds) = mcAuthorityVersion c \<and> decodeEd25519PublicKey L (aaPublicKey (last ds)) = Inr key
          \<and> edVerify L key (membershipCertSigningPayload L c) (mcSig c))"
  unfolding certificate_vouched vouched_def ..

text \<open>
  C22: the signed bytes tell documents apart: if JSON strings are delimited, two documents with the same
  signed bytes are of the same kind (authority, certificate, invite or revocations) and agree in every
  signed field, so a signature made for one document cannot be used for another one.
\<close>

theorem signed_bytes_determine_document:
  assumes "jsonDelimits L" and "signedBytes L a = signedBytes L b"
  shows "sameContents L a b"
  using signedBytes_determine [OF assms] .

theorem signed_bytes_determine_document_witness:
  "sameContents sampleAuth (DocCert (sampleCert ''d'' 2)) (DocCert ((sampleCert ''d'' 2)\<lparr>mcDeviceID := '' d'', mcRole := ''Member '', mcSig := ''''\<rparr>))"
proof (rule signed_bytes_determine_document [OF sample_jsonDelimits])
  show "signedBytes sampleAuth (DocCert (sampleCert ''d'' 2)) = signedBytes sampleAuth (DocCert ((sampleCert ''d'' 2)\<lparr>mcDeviceID := '' d'', mcRole := ''Member '', mcSig := ''''\<rparr>))"
    by code_simp
qed

text \<open>
  C23: what a root key signs is verified: for a signature scheme and an encoding that work, an invite that
  \<open>SignInviteAttestation\<close> returns passes \<open>VerifyInviteAttestation\<close> as long as its identifiers are not
  blank and it has not expired, and a revocation list that \<open>SignRevocationSync\<close> returns passes
  \<open>VerifyRevocationSync\<close> when its library is not blank and its revision is positive.
\<close>

theorem signed_documents_verify:
  assumes "keysWork L" and "signInviteAttestation L i k = Inr j" and "signRevocationSync L q k = Inr r"
    and "trimSpace (iaLibraryID i) \<noteq> ''''" "trimSpace (iaTokenID i) \<noteq> ''''" "trimSpace (iaOwnerPeerID i) \<noteq> ''''"
    and "iaExpiresAt i \<le> 0 \<or> unixSeconds now \<le> iaExpiresAt i"
    and "trimSpace (rsLibraryID q) \<noteq> ''''" "0 < rsRevision q"
  shows "verifyInviteAttestation L j now = None \<and> verifyRevocationSync L r = None"
  using signed_invite_verifies [OF assms(1,2,4-7)] signed_revocations_verify [OF assms(1,3,8,9)] ..

theorem signed_documents_verify_witness:
  "verifyInviteAttestation sampleAuth (sampleInvite\<lparr>iaRootPublicKey := sampleRoot, iaSig :=
       samplePublic sampleRootKey @ inviteAttestationSigningPayload sampleAuth (sampleInvite\<lparr>iaRootPublicKey := sampleRoot\<rparr>)\<rparr>) 0
     = None
   \<and> verifyRevocationSync sampleAuth sampleRevocations = None"
proof (rule signed_documents_verify [OF sample_keysWork, where i = sampleInvite and q = "sampleRevocations\<lparr>rsSig := ''''\<rparr>"
      and k = "''<'' @ sampleRootKey @ ''>''"])
  show "signInviteAttestation sampleAuth sampleInvite (''<'' @ sampleRootKey @ ''>'') =
      Inr (sampleInvite\<lparr>iaRootPublicKey := sampleRoot, iaSig :=
        samplePublic sampleRootKey @ inviteAttestationSigningPayload sampleAuth (sampleInvite\<lparr>iaRootPublicKey := sampleRoot\<rparr>)\<rparr>)"
    by code_simp
  show "signRevocationSync sampleAuth (sampleRevocations\<lparr>rsSig := ''''\<rparr>) (''<'' @ sampleRootKey @ ''>'') = Inr sampleRevocations"
    by code_simp
  show "trimSpace (iaLibraryID sampleInvite) \<noteq> ''''" "trimSpace (iaTokenID sampleInvite) \<noteq> ''''"
    "trimSpace (iaOwnerPeerID sampleInvite) \<noteq> ''''"
    "iaExpiresAt sampleInvite \<le> 0 \<or> unixSeconds 0 \<le> iaExpiresAt sampleInvite"
    "trimSpace (rsLibraryID (sampleRevocations\<lparr>rsSig := ''''\<rparr>)) \<noteq> ''''"
    "0 < rsRevision (sampleRevocations\<lparr>rsSig := ''''\<rparr>)"
    by code_simp+
qed

section \<open>The registry\<close>

text \<open>
  C11: a membership is authenticated only by a certificate for that library, device and peer that is vouched
  for below the library's root key, has a positive serial above every revoked serial of the device and no
  lower than the stored one, and has not expired by the clock; the root is the pinned one, or becomes it,
  and the member's row, and no other row, holds the certificate afterwards.
\<close>

theorem authenticated_member_is_vouched:
  assumes "authenticateMembership E library claimed auth s = (Inr m, t)"
  shows "memberOf E auth m \<and> vmLibraryID m = trimSpace library
    \<and> revokedUpTo s (vmLibraryID m) (vmDeviceID m) < vmCertSerial m
    \<and> (vmCertExpiresAt m \<le> 0 \<or> unixNanos (dbClock E (dbTicks s)) \<le> vmCertExpiresAt m)
    \<and> pinnedRoot s (vmLibraryID m) \<in> {None, Some (vmRootPublicKey m)}
    \<and> pinnedRoot t (vmLibraryID m) = Some (vmRootPublicKey m)
    \<and> (case map_of (rlMembers s) (vmLibraryID m, vmDeviceID m) of
         None \<Rightarrow> True | Some row \<Rightarrow> mbCertSerial row \<le> vmCertSerial m)
    \<and> (\<exists>now. rlMembers t = AList.update (vmLibraryID m, vmDeviceID m)
         \<lparr>mbPeerID = vmPeerID m, mbCertSerial = vmCertSerial m, mbCertExpiresAt = vmCertExpiresAt m, mbUpdatedAt = now\<rparr>
         (rlMembers s))
    \<and> rlPresence t = rlPresence s \<and> rlRevoked t = rlRevoked s \<and> rlRevisions t = rlRevisions s"
  using authenticate_result [OF assms] by (auto split: option.split)

theorem authenticated_member_is_vouched_witness:
  "memberOf sampleRelayEnv (samplePeerAuth ''d'' 2) (sampleMember ''d'' 2)
    \<and> pinnedRoot (snd (authenticateMembership sampleRelayEnv '' lib'' sampleRoot (samplePeerAuth ''d'' 2) freshRelay)) ''lib''
      = Some sampleRoot"
proof -
  have "fst (authenticateMembership sampleRelayEnv '' lib'' sampleRoot (samplePeerAuth ''d'' 2) freshRelay)
      = Inr (sampleMember ''d'' 2)"
    by code_simp
  then show ?thesis
    using authenticated_member_is_vouched [of sampleRelayEnv "'' lib''" sampleRoot "samplePeerAuth ''d'' 2" freshRelay
        "sampleMember ''d'' 2"]
    by (metis prod.collapse sampleMember_simps)
qed



text \<open>
  C24: in every state the daemon can reach from an empty database, each row of a member, and each presence
  record, belongs to a library whose root is pinned and to a device and peer with a certificate that this
  root vouches for; a presence record has at most 16 addresses, each the printed form of a multiaddress
  that ends in the record's peer, and expires between 0 and 90 seconds after its update time.
\<close>

theorem registry_rows_are_vouched:
  assumes "operating E s"
  shows "(\<forall>((l, d), r) \<in> set (rlMembers s).
      vouchedMember E s l d (mbPeerID r) (mbCertSerial r) (mbCertExpiresAt r))
    \<and> (\<forall>((l, d, p), r) \<in> set (rlPresence s).
      (\<exists>serial expires. vouchedMember E s l d p serial expires)
      \<and> length (pwAddrs r) \<le> maxPresenceAddrs \<and> (\<forall>a \<in> set (pwAddrs r). leadsTo E p a)
      \<and> pwUpdatedAt r \<le> pwExpiresAt r \<and> pwExpiresAt r \<le> pwUpdatedAt r + 90)"
  using operating_rowsOk [OF assms] unfolding rowsOk_def membersOk_def presenceOk_def presenceRowOk_def by auto

theorem registry_rows_are_vouched_witness:
  "vouchedMember sampleRelayEnv sampleServing ''lib'' ''d'' ''pd'' 2 0
    \<and> leadsTo sampleRelayEnv ''pd'' ''/pd''"
proof -
  have o: "operating sampleRelayEnv sampleServing"
    unfolding operating_def sampleServing_def by (intro r_into_rtranclp served.answered)
  have m: "rlMembers sampleServing = [((''lib'', ''d''),
      \<lparr>mbPeerID = ''pd'', mbCertSerial = 2, mbCertExpiresAt = 0, mbUpdatedAt = 2\<rparr>)]"
    and p: "rlPresence sampleServing = [((''lib'', ''d'', ''pd''),
      \<lparr>pwAddrs = [''/pd''], pwExpiresAt = 93, pwUpdatedAt = 3\<rparr>)]"
    by code_simp+
  show ?thesis using registry_rows_are_vouched [OF o] unfolding m p by simp
qed

text \<open>
  A lookup of a peer answers with the record of a live row of that peer (of the given library, or of any
  library when none is given), one that no live row of the peer is newer than; it answers with nothing only
  when there is no live row, that is none whose expiry is not before the clock.
\<close>

theorem lookup_answers_newest_live:
  assumes "lookupPresence E l p s = (Inr res, t)" and "trimSpace p \<noteq> ''''"
  shows "case res of
      None \<Rightarrow> \<not> (\<exists>e. liveFor E s l p e)
    | Some r \<Rightarrow> \<exists>row. liveFor E s l p ((prLibraryID r, prDeviceID r, prPeerID r), row)
        \<and> prAddrs r = compactNonEmptyStrings (pwAddrs row)
        \<and> (\<forall>e. liveFor E s l p e \<longrightarrow> pwUpdatedAt (snd e) \<le> pwUpdatedAt row)"
  using lookup_result [OF assms] by (auto split: option.split)

theorem lookup_answers_newest_live_witness:
  "\<exists>row. liveFor sampleRelayEnv sampleServing '''' ''pd'' ((''lib'', ''d'', ''pd''), row)"
proof -
  have "fst (lookupPresence sampleRelayEnv '''' ''pd'' sampleServing) = Inr (Some
      \<lparr>prLibraryID = ''lib'', prDeviceID = ''d'', prPeerID = ''pd'', prAddrs = [''/pd''],
        prExpiresAt = secondsTime 93, prUpdatedAt = secondsTime 3\<rparr>)" "trimSpace ''pd'' \<noteq> ''''"
    by code_simp+
  then show ?thesis
    using lookup_answers_newest_live [of sampleRelayEnv "''''" "''pd''" sampleServing]
    by (cases "lookupPresence sampleRelayEnv '''' ''pd'' sampleServing") fastforce
qed

text \<open>
  C36: a request that the registry refuses as unauthenticated, or for its method, leaves every table as it
  was: pinned roots, members, presence, revisions and revocations.
\<close>

theorem refused_request_changes_nothing:
  assumes "fst (registryMux E req s) = HttpError status msg" and "status = 401 \<or> status = 405"
  shows "sameTables s (snd (registryMux E req s))"
  using refused_request [OF assms(1)] assms(2) by auto

theorem refused_request_changes_nothing_witness:
  "sameTables sampleServing (snd (registryMux sampleRelayEnv
     (Announce (Posted (sampleRecord, '''', samplePeerAuth ''d'' 1))) sampleServing))"
proof -
  have "fst (registryMux sampleRelayEnv (Announce (Posted (sampleRecord, '''', samplePeerAuth ''d'' 1))) sampleServing)
      = HttpError 401 ''authenticate presence announce: membership certificate serial is stale''"
    by code_simp
  then show ?thesis by (rule refused_request_changes_nothing) simp
qed

text \<open>
  C40: the relay decides by the member rows alone.  After a revocation request, whatever it was, a peer may
  reserve a slot exactly when the query succeeds and one of the member rows before the request has this
  peer and an expiry that is absent or not past; revoking a device takes no access to the relay away.
\<close>

theorem relay_access_ignores_revocations:
  "fst (allowReserve E p (snd (registryMux E (Revoke r) s))) \<longleftrightarrow>
     trimSpace p \<noteq> '''' \<and> dbFault E (dbCalls (snd (registryMux E (Revoke r) s))) = None
     \<and> list_ex (\<lambda>(_, row). mbPeerID row = trimSpace p \<and> (mbCertExpiresAt row \<le> 0
         \<or> unixNanos (dbClock E (dbTicks (snd (registryMux E (Revoke r) s)))) \<le> mbCertExpiresAt row)) (rlMembers s)"
proof -
  have "rlMembers (snd (revocationSync E req s)) = rlMembers s" for req
    using sync_sameRows [of s E req] by (simp add: sameRows_def)
  then show ?thesis
    by (auto simp: allowReserve_def relayPeerAuthorized_def bindDB_def clockDB_def queryDB_def
        registryMux_defs countCall_def split: option.split request.split)
qed

end
