(* ===== verification/PositionKeys.thy ===== *)
theory PositionKeys
  imports Prelude
begin

text \<open>
  The position keys of playlist items (\<open>src/internal/desktopcore/service_playlist.go\<close>): decimal numbers
  padded to 30 digits, so that the order of the database's text column is the order of the numbers.  A
  new item gets the number halfway between its neighbours, or halfway to the largest key at the end.
\<close>

section \<open>The code\<close>

definition positionKeyWidth :: nat where
  "positionKeyWidth = 30"

definition positionKeyStride :: int where
  "positionKeyStride = 1000000000000"

definition formatPositionKey :: "int \<Rightarrow> string" where
  "formatPositionKey v =
     (let s = decimal v in replicate (positionKeyWidth - length s) CHR ''0'' @ s)"

definition maxPositionKeyValue :: int where
  "maxPositionKeyValue = 10 ^ positionKeyWidth - 1"

text \<open>\<open>SetString(v, 10)\<close> of \<open>math/big\<close>: an optional sign and at least one digit.\<close>

definition isDigit :: "char \<Rightarrow> bool" where
  "isDigit c \<longleftrightarrow> 48 \<le> (of_char c :: nat) \<and> (of_char c :: nat) \<le> 57"

definition digitsValue :: "string \<Rightarrow> int" where
  "digitsValue s = foldl (\<lambda>n c. 10 * n + (of_char c - 48)) 0 s"

definition parseDigits :: "string \<Rightarrow> int option" where
  "parseDigits s = (if s \<noteq> '''' \<and> list_all isDigit s then Some (digitsValue s) else None)"

definition parsePositionKey :: "string \<Rightarrow> int option" where
  "parsePositionKey v0 =
     (case trimSpace v0 of
        [] \<Rightarrow> None
      | c # cs \<Rightarrow>
          if c = CHR ''-'' then map_option uminus (parseDigits cs)
          else if c = CHR ''+'' then parseDigits cs
          else parseDigits (c # cs))"

definition positionKeyForIndex :: "int \<Rightarrow> string" where
  "positionKeyForIndex index = formatPositionKey (max 1 index * positionKeyStride)"

definition defaultPositionKey :: string where
  "defaultPositionKey = positionKeyForIndex 1"

text \<open>\<open>Div\<close> of \<open>math/big\<close> is Euclidean; the divisor is positive here.\<close>

definition midpointPositionKey :: "string \<Rightarrow> string \<Rightarrow> string option" where
  "midpointPositionKey prevKey nextKey =
     (let prev = (case parsePositionKey prevKey of Some p \<Rightarrow> p | None \<Rightarrow> 0);
          next = (if trimSpace nextKey = '''' then Some maxPositionKeyValue else parsePositionKey nextKey)
      in case next of
           None \<Rightarrow> None
         | Some n \<Rightarrow>
             if n \<le> prev then None
             else if n - prev \<le> 1 then None
             else
               let mid = prev + (n - prev) div 2
               in if mid \<le> prev \<or> mid \<ge> n then None else Some (formatPositionKey mid))"

section \<open>Keys of a fixed width\<close>

text \<open>The bytes of a key, as the database compares them.\<close>

definition keyBytes :: "string \<Rightarrow> nat list" where
  "keyBytes s = map of_char s"

definition keyBefore :: "string \<Rightarrow> string \<Rightarrow> bool" where
  "keyBefore a b \<longleftrightarrow> ord_class.lexordp (keyBytes a) (keyBytes b)"

text \<open>The last \<open>w\<close> digits of a number.\<close>

primrec fixedDigits :: "nat \<Rightarrow> nat \<Rightarrow> string" where
  "fixedDigits 0 n = []"
| "fixedDigits (Suc w) n = fixedDigits w (n div 10) @ [digitChar (n mod 10)]"

lemma length_fixedDigits [simp]: "length (fixedDigits w n) = w"
  by (induction w arbitrary: n) simp_all

lemma of_digitChar:
  "d < 10 \<Longrightarrow> (of_char (digitChar d) :: nat) = 48 + d"
  "d < 10 \<Longrightarrow> (of_char (digitChar d) :: int) = 48 + int d"
proof -
  show n: "(of_char (digitChar d) :: nat) = 48 + d" if "d < 10"
    using that by (simp add: digitChar_def take_bit_eq_mod)
  show "(of_char (digitChar d) :: int) = 48 + int d" if "d < 10"
    using arg_cong [OF n [OF that], of int] by (simp add: of_nat_of_char)
qed

lemma zeroDigitChar: "digitChar 0 = CHR ''0''"
  by code_simp

lemma fixedDigits_zero: "fixedDigits w 0 = replicate w CHR ''0''"
  by (induction w) (simp_all add: zeroDigitChar replicate_append_same)

lemma fixedDigits_padded:
  "n < 10 ^ w \<Longrightarrow> 0 < w \<Longrightarrow> replicate (w - length (decimalNat n)) CHR ''0'' @ decimalNat n = fixedDigits w n"
proof (induction w arbitrary: n)
  case (Suc w)
  show ?case
  proof (cases "n < 10")
    case True
    then show ?thesis by (simp add: decimalNat.simps [of n] fixedDigits_zero)
  next
    case False
    then have "n div 10 < 10 ^ w" "0 < w" using Suc.prems by (auto intro: ccontr [of "0 < w"])
    from Suc.IH [OF this] False show ?thesis by (simp add: decimalNat.simps [of n])
  qed
qed simp

lemma fixedDigits_isDigit: "c \<in> set (fixedDigits w n) \<Longrightarrow> isDigit c"
  by (induction w arbitrary: n) (auto simp: isDigit_def of_digitChar)

lemma digitsValue_snoc: "digitsValue (s @ [c]) = 10 * digitsValue s + (of_char c - 48)"
  by (simp add: digitsValue_def)

lemma digitsValue_fixedDigits: "n < 10 ^ w \<Longrightarrow> digitsValue (fixedDigits w n) = int n"
proof (induction w arbitrary: n)
  case (Suc w)
  have "n div 10 < 10 ^ w" using Suc.prems by auto
  with Suc.IH show ?case by (simp add: digitsValue_snoc of_digitChar zmod_int zdiv_int)
qed (simp add: digitsValue_def)

text \<open>Order of the keys and order of the numbers.\<close>

lemma lexordp_snoc:
  fixes u v :: "nat list"
  assumes "length u = length v"
  shows "ord_class.lexordp (u @ [x]) (v @ [y]) \<longleftrightarrow> ord_class.lexordp u v \<or> u = v \<and> x < y"
  using assms by (induction u v rule: list_induct2) auto

lemma lexordp_irrefl: "\<not> ord_class.lexordp u (u :: nat list)"
  by (induction u) auto

lemma digits_order: "m < n \<longleftrightarrow> m div 10 < n div 10 \<or> m div 10 = n div 10 \<and> m mod 10 < n mod (10 :: nat)"
proof -
  have "c < 10 \<Longrightarrow> d < 10 \<Longrightarrow> a * 10 + c < b * 10 + d \<longleftrightarrow> a < b \<or> a = b \<and> c < d" for a b c d :: nat
    by linarith
  from this [of "m mod 10" "n mod 10" "m div 10" "n div 10"] show ?thesis by simp
qed

lemma keyBefore_fixedDigits:
  "m < 10 ^ w \<Longrightarrow> n < 10 ^ w \<Longrightarrow> keyBefore (fixedDigits w m) (fixedDigits w n) \<longleftrightarrow> m < n"
proof (induction w arbitrary: m n)
  case (Suc w)
  let ?d = "\<lambda>k. fixedDigits w (k div 10)"
  have bound: "m div 10 < 10 ^ w" "n div 10 < 10 ^ w" using Suc.prems by auto
  have "?d m = ?d n \<longleftrightarrow> m div 10 = n div 10"
    using digitsValue_fixedDigits [OF bound(1)] digitsValue_fixedDigits [OF bound(2)] by (metis of_nat_eq_iff)
  moreover have "keyBytes (?d m) = keyBytes (?d n) \<longleftrightarrow> ?d m = ?d n"
    unfolding keyBytes_def by (rule inj_map_eq_map) (simp add: inj_def)
  moreover have "m < n \<longleftrightarrow> m div 10 < n div 10 \<or> m div 10 = n div 10 \<and> m mod 10 < n mod 10"
    by (rule digits_order)
  moreover have "keyBefore (fixedDigits (Suc w) m) (fixedDigits (Suc w) n) \<longleftrightarrow>
      keyBefore (?d m) (?d n) \<or> keyBytes (?d m) = keyBytes (?d n) \<and> m mod 10 < n mod 10"
    by (simp add: keyBefore_def keyBytes_def lexordp_snoc of_digitChar)
  ultimately show ?case
    using Suc.IH [OF bound] by metis
qed (simp add: keyBefore_def keyBytes_def)

section \<open>Keys and their numbers\<close>

text \<open>The numbers that have a key of 30 digits.\<close>

definition keyRange :: "int \<Rightarrow> bool" where
  "keyRange v \<longleftrightarrow> 0 \<le> v \<and> v \<le> maxPositionKeyValue"

lemma format_fixedDigits: "keyRange v \<Longrightarrow> formatPositionKey v = fixedDigits 30 (nat v)"
proof -
  assume "keyRange v"
  then have v: "0 \<le> v" "nat v < 10 ^ 30"
    by (simp_all add: keyRange_def maxPositionKeyValue_def positionKeyWidth_def nat_less_iff)
  then show ?thesis
    using fixedDigits_padded [of "nat v" 30]
    by (simp add: formatPositionKey_def decimal_def positionKeyWidth_def Let_def)
qed

lemma keyRange_nat: "keyRange v \<Longrightarrow> nat v < 10 ^ 30"
  by (simp add: keyRange_def maxPositionKeyValue_def positionKeyWidth_def nat_less_iff)

lemma keyBefore_format: "keyRange m \<Longrightarrow> keyRange n \<Longrightarrow>
    keyBefore (formatPositionKey m) (formatPositionKey n) \<longleftrightarrow> m < n"
  using keyBefore_fixedDigits [OF keyRange_nat keyRange_nat, of m n]
  by (auto simp: format_fixedDigits keyRange_def)

lemma trim_digits: "list_all isDigit s \<Longrightarrow> trimSpace s = s"
proof -
  assume s: "list_all isDigit s"
  have w: "list_all (\<lambda>w. w \<noteq> [] \<and> \<not> isDigit (hd w) \<and> \<not> isDigit (last w)) space_seqs" by code_simp
  have "w \<in> set space_seqs \<Longrightarrow> s \<noteq> w @ t" for w t
    using s w by (cases w) (auto simp: list_all_iff)
  then have l: "first_strip space_seqs s = None" by (simp add: first_strip_None)
  have "w \<in> set space_seqs \<Longrightarrow> rev s \<noteq> rev w @ t" for w t
  proof
    assume m: "w \<in> set space_seqs" and e: "rev s = rev w @ t"
    then have "s = rev t @ w" by (metis rev_append rev_rev_ident)
    with s w m show False by (auto simp: list_all_iff)
  qed
  then have "first_strip (map rev space_seqs) (rev s) = None" by (auto simp: first_strip_None)
  with l show ?thesis by (simp add: trimSpace_def trimLeft_def trimRight_def strip_all_fixed)
qed

lemma parse_format: "keyRange v \<Longrightarrow> parsePositionKey (formatPositionKey v) = Some v"
proof -
  assume v: "keyRange v"
  let ?s = "fixedDigits 30 (nat v)"
  have d: "list_all isDigit ?s" using fixedDigits_isDigit by (auto simp: list_all_iff)
  obtain c cs where s: "?s = c # cs" by (metis length_fixedDigits length_0_conv neq_Nil_conv zero_neq_numeral)
  with d have "isDigit c" by simp
  then have c: "c \<noteq> CHR ''-''" "c \<noteq> CHR ''+''" by (auto simp: isDigit_def)
  have "parseDigits ?s = Some v"
    using d v digitsValue_fixedDigits [OF keyRange_nat [OF v]] by (simp add: parseDigits_def s keyRange_def)
  with c d show ?thesis
    by (simp add: parsePositionKey_def format_fixedDigits [OF v] trim_digits) (simp add: s)
qed

lemma format_not_blank: "keyRange v \<Longrightarrow> trimSpace (formatPositionKey v) \<noteq> []"
  using parse_format [of v] by (auto simp: parsePositionKey_def)

text \<open>Between two keys, and behind the last one.\<close>

lemma keyRange_between: "0 \<le> p \<Longrightarrow> n \<le> maxPositionKeyValue \<Longrightarrow> p < m \<Longrightarrow> m < n \<Longrightarrow> keyRange m"
  by (simp add: keyRange_def)

lemma midpoint_between:
  assumes "keyRange p" "keyRange n"
  shows "midpointPositionKey (formatPositionKey p) (formatPositionKey n) =
    (if n - p \<le> 1 then None else Some (formatPositionKey (p + (n - p) div 2)))"
  using assms by (auto simp: midpointPositionKey_def parse_format format_not_blank Let_def)

lemma midpoint_ends:
  "keyRange n \<Longrightarrow> midpointPositionKey '''' (formatPositionKey n) =
    (if n \<le> 1 then None else Some (formatPositionKey (n div 2)))"
  "keyRange p \<Longrightarrow> midpointPositionKey (formatPositionKey p) '''' =
    (if maxPositionKeyValue - p \<le> 1 then None else Some (formatPositionKey (p + (maxPositionKeyValue - p) div 2)))"
  "midpointPositionKey '''' '''' = Some (formatPositionKey (maxPositionKeyValue div 2))"
proof -
  have b: "parsePositionKey '''' = None" by (simp add: parsePositionKey_def)
  show "midpointPositionKey '''' '''' = Some (formatPositionKey (maxPositionKeyValue div 2))"
    by (simp add: midpointPositionKey_def b Let_def maxPositionKeyValue_def positionKeyWidth_def)
  show "keyRange n \<Longrightarrow> midpointPositionKey '''' (formatPositionKey n) =
    (if n \<le> 1 then None else Some (formatPositionKey (n div 2)))"
    by (auto simp: midpointPositionKey_def b parse_format format_not_blank Let_def)
  show "keyRange p \<Longrightarrow> midpointPositionKey (formatPositionKey p) '''' =
    (if maxPositionKeyValue - p \<le> 1 then None else Some (formatPositionKey (p + (maxPositionKeyValue - p) div 2)))"
    by (auto simp: midpointPositionKey_def b parse_format Let_def)
qed

end
