(* ===== verification/Replica.thy ===== *)
theory Replica
  imports RegistryAuth Database ItemMapping PositionKeys "HOL-Library.AList"
begin

text \<open>
  The replicated state of a library (\<open>src/internal/desktopcore\<close>): the tables of \<open>models.go\<close> that
  replication writes, as association lists by their primary keys, the entries of the operation log
  (\<open>service_checkpoint.go\<close>) and their payloads (\<open>oplog_contracts.go\<close>, \<open>oplog_apply.go\<close>).

  Decoding a JSON value into a struct is written out, except that the text of the decoder's error is not.
\<close>

section \<open>JSON values\<close>

text \<open>A number that is not an integer is kept as its text.\<close>

datatype json =
    JNull
  | JBool bool
  | JInt int
  | JNumber string
  | JStr string
  | JArr "json list"
  | JObj "(string \<times> json) list"

definition bindR :: "string + 'a \<Rightarrow> ('a \<Rightarrow> string + 'b) \<Rightarrow> string + 'b" where
  "bindR r f = (case r of Inl err \<Rightarrow> Inl err | Inr v \<Rightarrow> f v)"

text \<open>
  A field of the target struct: members are matched without regard to case, one after the other, and a
  value that does not fit the field is an error; \<open>null\<close> leaves a string, a number or a truth value as it was
  and empties a slice.
\<close>

primrec fieldFrom ::
  "'l golib_scheme \<Rightarrow> ('a \<Rightarrow> json \<Rightarrow> 'a option) \<Rightarrow> string \<Rightarrow> 'a \<Rightarrow> (string \<times> json) list \<Rightarrow> string + 'a" where
  "fieldFrom L conv key acc [] = Inr acc"
| "fieldFrom L conv key acc (f # fs) =
     (if \<not> equalFold L (fst f) key then fieldFrom L conv key acc fs
      else case conv acc (snd f) of
        Some v \<Rightarrow> fieldFrom L conv key v fs
      | None \<Rightarrow> Inl (''json: cannot unmarshal into Go struct field '' @ key))"

fun asStr :: "string \<Rightarrow> json \<Rightarrow> string option" where
  "asStr acc (JStr s) = Some s" | "asStr acc JNull = Some acc" | "asStr acc _ = None"

fun asInt :: "int \<Rightarrow> json \<Rightarrow> int option" where
  "asInt acc (JInt n) = (if - (2 ^ 63) \<le> n \<and> n < 2 ^ 63 then Some n else None)"
| "asInt acc JNull = Some acc"
| "asInt acc _ = None"

fun asBool :: "bool \<Rightarrow> json \<Rightarrow> bool option" where
  "asBool acc (JBool b) = Some b" | "asBool acc JNull = Some acc" | "asBool acc _ = None"

fun strings :: "json list \<Rightarrow> string list option" where
  "strings [] = Some []"
| "strings (JStr s # js) = map_option (\<lambda>ss. s # ss) (strings js)"
| "strings (JNull # js) = map_option (\<lambda>ss. '''' # ss) (strings js)"
| "strings (_ # js) = None"

text \<open>A slice; \<open>None\<close> is the nil slice.\<close>

fun asStrings :: "string list option \<Rightarrow> json \<Rightarrow> string list option option" where
  "asStrings acc (JArr js) = map_option Some (strings js)"
| "asStrings acc JNull = Some None"
| "asStrings acc _ = None"

definition strField :: "'l golib_scheme \<Rightarrow> string \<Rightarrow> (string \<times> json) list \<Rightarrow> string + string" where
  "strField L key fs = fieldFrom L asStr key '''' fs"

definition intField :: "'l golib_scheme \<Rightarrow> string \<Rightarrow> (string \<times> json) list \<Rightarrow> string + int" where
  "intField L key fs = fieldFrom L asInt key 0 fs"

definition boolField :: "'l golib_scheme \<Rightarrow> string \<Rightarrow> (string \<times> json) list \<Rightarrow> string + bool" where
  "boolField L key fs = fieldFrom L asBool key False fs"

text \<open>\<open>json.Unmarshal\<close> into a struct, given the parser of JSON texts.\<close>

definition unmarshal ::
  "(string \<Rightarrow> string + json) \<Rightarrow> string \<Rightarrow> ((string \<times> json) list \<Rightarrow> string + 'a) \<Rightarrow> string + 'a" where
  "unmarshal parse s decode =
     (case parse s of
        Inl err \<Rightarrow> Inl err
      | Inr (JObj fs) \<Rightarrow> decode fs
      | Inr JNull \<Rightarrow> decode []
      | Inr _ \<Rightarrow> Inl ''json: cannot unmarshal into Go value'')"

text \<open>The delete operations leave the struct zero for a blank text.\<close>

definition unmarshalUnlessBlank ::
  "(string \<Rightarrow> string + json) \<Rightarrow> string \<Rightarrow> ((string \<times> json) list \<Rightarrow> string + 'a) \<Rightarrow> string + 'a" where
  "unmarshalUnlessBlank parse s decode = (if trimSpace s = '''' then decode [] else unmarshal parse s decode)"

section \<open>Log entries\<close>

record oplogEntry =
  oeOpID :: string
  oeDeviceID :: string
  oeSeq :: int
  oeTSNS :: int
  oeEntityType :: string
  oeEntityID :: string
  oeOpKind :: string
  oePayload :: string
  oeSignerPeerID :: string
  oeSignerAuthorityVersion :: int
  oeSignerCertSerial :: int
  oeSignerRole :: string
  oeSignerIssuedAt :: int
  oeSignerExpiresAt :: int
  oeSignerCertSig :: string
  oeSig :: string

record playlistPayload =
  ppPlaylistID :: string
  ppName :: string
  ppKind :: string
  ppCreatedBy :: string

record playlistItemPayload =
  ipPlaylistID :: string
  ipItemID :: string
  ipRecordingID :: string
  ipPositionKey :: string
  ipLiked :: bool

record Tags =
  tgTitle :: string
  tgAlbum :: string
  tgAlbumArtist :: string
  tgArtists :: "string list option"
  tgTrackNo :: int
  tgDiscNo :: int
  tgYear :: int
  tgDurationMS :: int
  tgContainer :: string
  tgCodec :: string
  tgBitrate :: int
  tgSampleRate :: int
  tgChannels :: int
  tgIsLossless :: bool
  tgQualityRank :: int

definition zeroTags :: Tags where
  "zeroTags = \<lparr>tgTitle = '''', tgAlbum = '''', tgAlbumArtist = '''', tgArtists = None, tgTrackNo = 0,
     tgDiscNo = 0, tgYear = 0, tgDurationMS = 0, tgContainer = '''', tgCodec = '''', tgBitrate = 0,
     tgSampleRate = 0, tgChannels = 0, tgIsLossless = False, tgQualityRank = 0\<rparr>"

record sourceFilePayload =
  spDeviceID :: string
  spSourceFileID :: string
  spLibraryID :: string
  spLocalPath :: string
  spEditionScopeKey :: string
  spMTimeNS :: int
  spSizeBytes :: int
  spHashAlgo :: string
  spHashHex :: string
  spTags :: Tags
  spIsPresent :: bool

record preferencePayload =
  vpDeviceID :: string
  vpScopeType :: string
  vpClusterID :: string
  vpChosenVariantID :: string
  vpUpdatedAtNS :: int

record assetPayload =
  apAssetID :: string
  apSourceFileID :: string
  apTrackVariantID :: string
  apProfile :: string
  apBlobID :: string
  apMIME :: string
  apDurationMS :: int
  apBitrate :: int
  apCodec :: string
  apContainer :: string
  apCreatedByDeviceID :: string
  apCreatedAtNS :: int
  apUpdatedAtNS :: int

record cachePayload =
  cpDeviceID :: string
  cpAssetID :: string
  cpIsCached :: bool
  cpLastVerifiedAtNS :: int
  cpHasLastVerifiedAt :: bool
  cpUpdatedAtNS :: int

record artworkPayload =
  wpScopeType :: string
  wpScopeID :: string
  wpVariant :: string
  wpBlobID :: string
  wpMIME :: string
  wpFileExt :: string
  wpW :: int
  wpH :: int
  wpBytes :: int
  wpChosenSource :: string
  wpUpdatedAtNS :: int

definition decodePlaylist :: "'l golib_scheme \<Rightarrow> (string \<times> json) list \<Rightarrow> string + playlistPayload" where
  "decodePlaylist L fs =
     bindR (strField L ''playlistId'' fs) (\<lambda>i. bindR (strField L ''name'' fs) (\<lambda>n.
     bindR (strField L ''kind'' fs) (\<lambda>k. bindR (strField L ''createdBy'' fs) (\<lambda>c.
       Inr \<lparr>ppPlaylistID = i, ppName = n, ppKind = k, ppCreatedBy = c\<rparr>))))"

definition decodePlaylistDelete :: "'l golib_scheme \<Rightarrow> (string \<times> json) list \<Rightarrow> string + string" where
  "decodePlaylistDelete L fs = strField L ''playlistId'' fs"

definition decodePlaylistItem :: "'l golib_scheme \<Rightarrow> (string \<times> json) list \<Rightarrow> string + playlistItemPayload" where
  "decodePlaylistItem L fs =
     bindR (strField L ''playlistId'' fs) (\<lambda>p. bindR (strField L ''itemId'' fs) (\<lambda>i.
     bindR (strField L ''recordingId'' fs) (\<lambda>r. bindR (strField L ''positionKey'' fs) (\<lambda>k.
     bindR (boolField L ''liked'' fs) (\<lambda>l.
       Inr \<lparr>ipPlaylistID = p, ipItemID = i, ipRecordingID = r, ipPositionKey = k, ipLiked = l\<rparr>)))))"

definition decodePlaylistItemDelete :: "'l golib_scheme \<Rightarrow> (string \<times> json) list \<Rightarrow> string + playlistItemPayload" where
  "decodePlaylistItemDelete L fs =
     bindR (strField L ''playlistId'' fs) (\<lambda>p. bindR (strField L ''itemId'' fs) (\<lambda>i.
     bindR (strField L ''recordingId'' fs) (\<lambda>r. bindR (boolField L ''liked'' fs) (\<lambda>l.
       Inr \<lparr>ipPlaylistID = p, ipItemID = i, ipRecordingID = r, ipPositionKey = '''', ipLiked = l\<rparr>))))"

definition decodePreference :: "'l golib_scheme \<Rightarrow> (string \<times> json) list \<Rightarrow> string + preferencePayload" where
  "decodePreference L fs =
     bindR (strField L ''deviceId'' fs) (\<lambda>d. bindR (strField L ''scopeType'' fs) (\<lambda>s.
     bindR (strField L ''clusterId'' fs) (\<lambda>c. bindR (strField L ''chosenVariantId'' fs) (\<lambda>v.
     bindR (intField L ''updatedAtNs'' fs) (\<lambda>u.
       Inr \<lparr>vpDeviceID = d, vpScopeType = s, vpClusterID = c, vpChosenVariantID = v, vpUpdatedAtNS = u\<rparr>)))))"

definition decodeAsset :: "'l golib_scheme \<Rightarrow> (string \<times> json) list \<Rightarrow> string + assetPayload" where
  "decodeAsset L fs =
     bindR (strField L ''optimizedAssetId'' fs) (\<lambda>a. bindR (strField L ''sourceFileId'' fs) (\<lambda>s.
     bindR (strField L ''trackVariantId'' fs) (\<lambda>t. bindR (strField L ''profile'' fs) (\<lambda>p.
     bindR (strField L ''blobId'' fs) (\<lambda>b. bindR (strField L ''mime'' fs) (\<lambda>m.
     bindR (intField L ''durationMs'' fs) (\<lambda>d. bindR (intField L ''bitrate'' fs) (\<lambda>r.
     bindR (strField L ''codec'' fs) (\<lambda>c. bindR (strField L ''container'' fs) (\<lambda>n.
     bindR (strField L ''createdByDeviceId'' fs) (\<lambda>y. bindR (intField L ''createdAtNs'' fs) (\<lambda>x.
     bindR (intField L ''updatedAtNs'' fs) (\<lambda>u.
       Inr \<lparr>apAssetID = a, apSourceFileID = s, apTrackVariantID = t, apProfile = p, apBlobID = b, apMIME = m,
         apDurationMS = d, apBitrate = r, apCodec = c, apContainer = n, apCreatedByDeviceID = y,
         apCreatedAtNS = x, apUpdatedAtNS = u\<rparr>)))))))))))))"

text \<open>The fields of \<open>Tags\<close> have no names of their own; a second object adds to the first.\<close>

definition decodeTags :: "'l golib_scheme \<Rightarrow> Tags \<Rightarrow> (string \<times> json) list \<Rightarrow> string + Tags" where
  "decodeTags L t fs =
     bindR (fieldFrom L asStr ''Title'' (tgTitle t) fs) (\<lambda>a.
     bindR (fieldFrom L asStr ''Album'' (tgAlbum t) fs) (\<lambda>b.
     bindR (fieldFrom L asStr ''AlbumArtist'' (tgAlbumArtist t) fs) (\<lambda>c.
     bindR (fieldFrom L asStrings ''Artists'' (tgArtists t) fs) (\<lambda>d.
     bindR (fieldFrom L asInt ''TrackNo'' (tgTrackNo t) fs) (\<lambda>e.
     bindR (fieldFrom L asInt ''DiscNo'' (tgDiscNo t) fs) (\<lambda>f.
     bindR (fieldFrom L asInt ''Year'' (tgYear t) fs) (\<lambda>g.
     bindR (fieldFrom L asInt ''DurationMS'' (tgDurationMS t) fs) (\<lambda>h.
     bindR (fieldFrom L asStr ''Container'' (tgContainer t) fs) (\<lambda>i.
     bindR (fieldFrom L asStr ''Codec'' (tgCodec t) fs) (\<lambda>j.
     bindR (fieldFrom L asInt ''Bitrate'' (tgBitrate t) fs) (\<lambda>k.
     bindR (fieldFrom L asInt ''SampleRate'' (tgSampleRate t) fs) (\<lambda>l.
     bindR (fieldFrom L asInt ''Channels'' (tgChannels t) fs) (\<lambda>m.
     bindR (fieldFrom L asBool ''IsLossless'' (tgIsLossless t) fs) (\<lambda>n.
     bindR (fieldFrom L asInt ''QualityRank'' (tgQualityRank t) fs) (\<lambda>q.
       Inr \<lparr>tgTitle = a, tgAlbum = b, tgAlbumArtist = c, tgArtists = d, tgTrackNo = e, tgDiscNo = f,
         tgYear = g, tgDurationMS = h, tgContainer = i, tgCodec = j, tgBitrate = k, tgSampleRate = l,
         tgChannels = m, tgIsLossless = n, tgQualityRank = q\<rparr>)))))))))))))))"

definition asTags :: "'l golib_scheme \<Rightarrow> Tags \<Rightarrow> json \<Rightarrow> Tags option" where
  "asTags L t j =
     (case j of
        JObj fs \<Rightarrow> (case decodeTags L t fs of Inr u \<Rightarrow> Some u | Inl _ \<Rightarrow> None)
      | JNull \<Rightarrow> Some t
      | _ \<Rightarrow> None)"

definition decodeSourceFile :: "'l golib_scheme \<Rightarrow> (string \<times> json) list \<Rightarrow> string + sourceFilePayload" where
  "decodeSourceFile L fs =
     bindR (strField L ''deviceId'' fs) (\<lambda>d. bindR (strField L ''sourceFileId'' fs) (\<lambda>s.
     bindR (strField L ''libraryId'' fs) (\<lambda>l. bindR (strField L ''localPath'' fs) (\<lambda>p.
     bindR (strField L ''editionScopeKey'' fs) (\<lambda>k. bindR (intField L ''mTimeNs'' fs) (\<lambda>m.
     bindR (intField L ''sizeBytes'' fs) (\<lambda>z. bindR (strField L ''hashAlgo'' fs) (\<lambda>a.
     bindR (strField L ''hashHex'' fs) (\<lambda>h. bindR (fieldFrom L (asTags L) ''tags'' zeroTags fs) (\<lambda>t.
     bindR (boolField L ''isPresent'' fs) (\<lambda>b.
       Inr \<lparr>spDeviceID = d, spSourceFileID = s, spLibraryID = l, spLocalPath = p, spEditionScopeKey = k,
         spMTimeNS = m, spSizeBytes = z, spHashAlgo = a, spHashHex = h, spTags = t, spIsPresent = b\<rparr>)))))))))))"

definition decodeAssetDelete :: "'l golib_scheme \<Rightarrow> (string \<times> json) list \<Rightarrow> string + string" where
  "decodeAssetDelete L fs = strField L ''optimizedAssetId'' fs"

definition decodeCache :: "'l golib_scheme \<Rightarrow> (string \<times> json) list \<Rightarrow> string + cachePayload" where
  "decodeCache L fs =
     bindR (strField L ''deviceId'' fs) (\<lambda>d. bindR (strField L ''optimizedAssetId'' fs) (\<lambda>a.
     bindR (boolField L ''isCached'' fs) (\<lambda>c. bindR (intField L ''lastVerifiedAtNs'' fs) (\<lambda>l.
     bindR (boolField L ''hasLastVerifiedAt'' fs) (\<lambda>h. bindR (intField L ''updatedAtNs'' fs) (\<lambda>u.
       Inr \<lparr>cpDeviceID = d, cpAssetID = a, cpIsCached = c, cpLastVerifiedAtNS = l, cpHasLastVerifiedAt = h,
         cpUpdatedAtNS = u\<rparr>))))))"

definition decodeArtwork :: "'l golib_scheme \<Rightarrow> (string \<times> json) list \<Rightarrow> string + artworkPayload" where
  "decodeArtwork L fs =
     bindR (strField L ''scopeType'' fs) (\<lambda>s. bindR (strField L ''scopeId'' fs) (\<lambda>i.
     bindR (strField L ''variant'' fs) (\<lambda>v. bindR (strField L ''blobId'' fs) (\<lambda>b.
     bindR (strField L ''mime'' fs) (\<lambda>m. bindR (strField L ''fileExt'' fs) (\<lambda>e.
     bindR (intField L ''w'' fs) (\<lambda>w. bindR (intField L ''h'' fs) (\<lambda>h. bindR (intField L ''bytes'' fs) (\<lambda>n.
     bindR (strField L ''chosenSource'' fs) (\<lambda>c. bindR (strField L ''chosenSourceRef'' fs) (\<lambda>_.
     bindR (intField L ''updatedAtNs'' fs) (\<lambda>u.
       Inr \<lparr>wpScopeType = s, wpScopeID = i, wpVariant = v, wpBlobID = b, wpMIME = m, wpFileExt = e, wpW = w,
         wpH = h, wpBytes = n, wpChosenSource = c, wpUpdatedAtNS = u\<rparr>))))))))))))"

definition decodeArtworkDelete :: "'l golib_scheme \<Rightarrow> (string \<times> json) list \<Rightarrow> string + (string \<times> string \<times> string)" where
  "decodeArtworkDelete L fs =
     bindR (strField L ''scopeType'' fs) (\<lambda>s. bindR (strField L ''scopeId'' fs) (\<lambda>i.
     bindR (strField L ''variant'' fs) (\<lambda>v. Inr (s, i, v))))"

definition decodeLibrary :: "'l golib_scheme \<Rightarrow> (string \<times> json) list \<Rightarrow> string + (string \<times> string)" where
  "decodeLibrary L fs = bindR (strField L ''libraryId'' fs) (\<lambda>l. bindR (strField L ''name'' fs) (\<lambda>n. Inr (l, n)))"

section \<open>Tables\<close>

record libraryRow =
  lbName :: string
  lbRootPublicKey :: string
  lbRootPrivateKey :: string
  lbLibraryKey :: string
  lbRegistryURL :: string
  lbRelayBootstrapAddrsJSON :: string
  lbCreatedAt :: int

record playlistRow =
  plName :: string
  plKind :: string
  plCreatedBy :: string
  plCreatedAt :: int
  plUpdatedAt :: int
  plDeletedAt :: "int option"

record playlistItemRow =
  piTrackVariantID :: string
  piAddedAt :: int
  piUpdatedAt :: int
  piPositionKey :: string
  piDeletedAt :: "int option"

record preferenceRow =
  vrChosenVariantID :: string
  vrUpdatedAt :: int

record assetRow =
  arSourceFileID :: string
  arTrackVariantID :: string
  arProfile :: string
  arBlobID :: string
  arMIME :: string
  arDurationMS :: int
  arBitrate :: int
  arCodec :: string
  arContainer :: string
  arCreatedByDeviceID :: string
  arCreatedAt :: int
  arUpdatedAt :: int

record cacheRow =
  crIsCached :: bool
  crLastVerifiedAt :: "int option"
  crUpdatedAt :: int

record artworkRow =
  wrBlobID :: string
  wrMIME :: string
  wrFileExt :: string
  wrW :: int
  wrH :: int
  wrBytes :: int
  wrChosenSource :: string
  wrChosenSourceRef :: string
  wrUpdatedAt :: int

record trackVariantRow =
  tvTrackClusterID :: string
  tvKeyNorm :: string
  tvTitle :: string
  tvDurationMS :: int
  tvCreatedAt :: int
  tvUpdatedAt :: int

record albumVariantRow =
  avAlbumClusterID :: string
  avTitle :: string
  avYear :: "int option"
  avEdition :: string
  avKeyNorm :: string
  avCreatedAt :: int
  avUpdatedAt :: int

record artistRow =
  atName :: string
  atNameSort :: string

record sourceFileRow =
  sfTrackVariantID :: string
  sfLocalPath :: string
  sfPathKey :: string
  sfSourceFingerprint :: string
  sfEditionScopeKey :: string
  sfHashAlgo :: string
  sfHashHex :: string
  sfMTimeNS :: int
  sfSizeBytes :: int
  sfContainer :: string
  sfCodec :: string
  sfBitrate :: int
  sfSampleRate :: int
  sfChannels :: int
  sfIsLossless :: bool
  sfQualityRank :: int
  sfDurationMS :: int
  sfTagsJSON :: string
  sfLastSeenAt :: int
  sfIsPresent :: bool
  sfCreatedAt :: int
  sfUpdatedAt :: int

text \<open>A path a device keeps for itself, and the source of an artwork, which is not replicated either.\<close>

record localPathRow =
  lpLocalPath :: string
  lpPathKey :: string
  lpUpdatedAt :: int

record artworkRefRow =
  afChosenSource :: string
  afChosenSourceRef :: string
  afUpdatedAt :: int

record replica = dbstate +
  rpLibraries :: "(string \<times> libraryRow) list"
  rpAuthorities :: "(string \<times> AdmissionAuthority) list"
  rpOplog :: "(string \<times> oplogEntry) list"
  rpClocks :: "((string \<times> string) \<times> int) list"
  rpPlaylists :: "((string \<times> string) \<times> playlistRow) list"
  rpItems :: "((string \<times> string \<times> string) \<times> playlistItemRow) list"
  rpPreferences :: "((string \<times> string \<times> string \<times> string) \<times> preferenceRow) list"
  rpAssets :: "((string \<times> string) \<times> assetRow) list"
  rpCaches :: "((string \<times> string \<times> string) \<times> cacheRow) list"
  rpArtwork :: "((string \<times> string \<times> string \<times> string) \<times> artworkRow) list"
  rpTrackVariants :: "((string \<times> string) \<times> trackVariantRow) list"
  rpAlbumVariants :: "((string \<times> string) \<times> albumVariantRow) list"
  rpAlbumTracks :: "((string \<times> string \<times> string \<times> int \<times> int) \<times> string option) list"
  rpArtists :: "((string \<times> string) \<times> artistRow) list"
  rpCredits :: "((string \<times> string \<times> string \<times> string \<times> string \<times> int) \<times> unit) list"
  rpSourceFiles :: "((string \<times> string \<times> string) \<times> sourceFileRow) list"
  rpLocalPaths :: "((string \<times> string \<times> string) \<times> localPathRow) list"
  rpArtworkRefs :: "((string \<times> string \<times> string \<times> string) \<times> artworkRefRow) list"

type_synonym 'a replicaDB = "replica \<Rightarrow> (string + 'a) \<times> replica"

section \<open>Environment\<close>

text \<open>
  \<^item> \<open>deSha8\<close>: the first eight bytes of a SHA-256 sum, in hexadecimal; \<open>deUUID5\<close>: the UUID of
    \<open>uuid.NewSHA1\<close> in the OID name space; \<open>deNewUUID k\<close>: the UUID that \<open>uuid.NewString\<close> draws at the
    \<open>k\<close>-th reading of the clock or the generator;
  \<^item> \<open>dePeerKey\<close>: the public key in a peer id, \<open>peer.Decode\<close> with \<open>ExtractPublicKey\<close>; \<open>deKeyVerify\<close>:
    \<open>Verify\<close> of a libp2p key;
  \<^item> \<open>deParse\<close>: the value of a JSON text, or the error of the parser; \<open>deMarshal\<close>: the text that
    \<open>json.Marshal\<close> prints; \<open>deJSONBytes\<close>: the JSON text of a byte slice;
  \<^item> \<open>deMimeExtensions\<close>: \<open>mime.ExtensionsByType\<close>;
  \<^item> \<open>deWindows\<close>: whether the program runs on Windows.
\<close>

record replicaEnv = dbenv +
  deLib :: authlib
  deSha8 :: "string \<Rightarrow> string"
  deUUID5 :: "string \<Rightarrow> string"
  deNewUUID :: "nat \<Rightarrow> string"
  dePeerKey :: "string \<Rightarrow> string + string"
  deKeyVerify :: "string \<Rightarrow> string \<Rightarrow> string \<Rightarrow> string + bool"
  deJSONBytes :: "string \<Rightarrow> string"
  deParse :: "string \<Rightarrow> string + json"
  deMarshal :: "json \<Rightarrow> string"
  deMimeExtensions :: "string \<Rightarrow> string list"
  deWindows :: bool

definition liftDB :: "string + 'a \<Rightarrow> ('s, 'a) db" where
  "liftDB r s = (r, s)"

text \<open>A statement that the database may refuse, as a constraint does.\<close>

definition stmtDB :: "'e dbenv_scheme \<Rightarrow> ('s dbstate_scheme \<Rightarrow> string + 's dbstate_scheme) \<Rightarrow> ('s, unit) db" where
  "stmtDB E f s =
     (case dbFault E (dbCalls s) of
        Some err \<Rightarrow> (Inl err, countCall s)
      | None \<Rightarrow> (case f (countCall s) of Inl err \<Rightarrow> (Inl err, countCall s) | Inr t \<Rightarrow> (Inr (), t)))"

text \<open>Insert or, where the key is taken, merge; insert a row whose key must be new; insert it if it is.\<close>

definition upsertRow :: "'k \<Rightarrow> 'v \<Rightarrow> ('v \<Rightarrow> 'v) \<Rightarrow> ('k \<times> 'v) list \<Rightarrow> ('k \<times> 'v) list" where
  "upsertRow k new merge rows =
     AList.update k (case map_of rows k of None \<Rightarrow> new | Some old \<Rightarrow> merge old) rows"

definition insertRow :: "'k \<Rightarrow> 'v \<Rightarrow> ('k \<times> 'v) list \<Rightarrow> string + ('k \<times> 'v) list" where
  "insertRow k new rows =
     (if map_of rows k = None then Inr (AList.update k new rows) else Inl ''UNIQUE constraint failed'')"

definition keepRow :: "'k \<Rightarrow> 'v \<Rightarrow> ('k \<times> 'v) list \<Rightarrow> ('k \<times> 'v) list" where
  "keepRow k new rows = upsertRow k new id rows"

text \<open>Update and delete by key.\<close>

definition updateRow :: "'k \<Rightarrow> ('v \<Rightarrow> 'v) \<Rightarrow> ('k \<times> 'v) list \<Rightarrow> ('k \<times> 'v) list" where
  "updateRow k f rows = map (\<lambda>(x, v). if x = k then (x, f v) else (x, v)) rows"

definition deleteRow :: "'k \<Rightarrow> ('k \<times> 'v) list \<Rightarrow> ('k \<times> 'v) list" where
  "deleteRow k rows = filter (\<lambda>r. fst r \<noteq> k) rows"

text \<open>\<open>ORDER BY\<close> and sorting in Go, by a strict order.\<close>

fun insertBy :: "('a \<Rightarrow> 'a \<Rightarrow> bool) \<Rightarrow> 'a \<Rightarrow> 'a list \<Rightarrow> 'a list" where
  "insertBy before x [] = [x]"
| "insertBy before x (y # ys) = (if before y x then y # insertBy before x ys else x # y # ys)"

definition orderBy :: "('a \<Rightarrow> 'a \<Rightarrow> bool) \<Rightarrow> 'a list \<Rightarrow> 'a list" where
  "orderBy before xs = foldr (insertBy before) xs []"

definition newUUID :: "replicaEnv \<Rightarrow> string replicaDB" where
  "newUUID E s = (Inr (deNewUUID E (dbTicks s)), s\<lparr>dbTicks := Suc (dbTicks s)\<rparr>)"

section \<open>Identifiers\<close>

definition roleMember :: string where
  "roleMember = ''member''"

text \<open>\<open>normalizeRole\<close> of this package; unlike the registry's, it maps unknown roles to members.\<close>

definition normalizeLocalRole :: "'l golib_scheme \<Rightarrow> string \<Rightarrow> string" where
  "normalizeLocalRole L role =
     (let r = lowerCase L (trimSpace role) in
      if r \<in> {''owner'', ''admin'', ''member'', ''guest''} then r else roleMember)"

definition stableNameID :: "replicaEnv \<Rightarrow> string \<Rightarrow> string \<Rightarrow> string" where
  "stableNameID E kind key = deUUID5 E (kind @ '':'' @ trimSpace key)"

definition likedPlaylistIDForLibrary :: "replicaEnv \<Rightarrow> string \<Rightarrow> string" where
  "likedPlaylistIDForLibrary E libraryID = ''liked-'' @ deSha8 E (''liked:'' @ trimSpace libraryID)"

definition offlinePlaylistIDForDevice :: "replicaEnv \<Rightarrow> string \<Rightarrow> string \<Rightarrow> string" where
  "offlinePlaylistIDForDevice E libraryID deviceID =
     ''offline-'' @ deSha8 E (''offline:'' @ trimSpace libraryID @ '':'' @ trimSpace deviceID)"

definition likedItemID :: "replicaEnv \<Rightarrow> string \<Rightarrow> string \<Rightarrow> string" where
  "likedItemID E playlistID libraryRecordingID =
     stableNameID E ''liked_item'' (trimSpace playlistID @ '':'' @ trimSpace libraryRecordingID)"

definition isReservedPlaylistKind :: "'l golib_scheme \<Rightarrow> string \<Rightarrow> bool" where
  "isReservedPlaylistKind L kind \<longleftrightarrow> lowerCase L (trimSpace kind) \<in> {''liked'', ''offline''}"

definition sourceFileEntityID :: "string \<Rightarrow> string \<Rightarrow> string" where
  "sourceFileEntityID deviceID0 sourceFileID0 =
     (let d = trimSpace deviceID0; s = trimSpace sourceFileID0 in
      if d = '''' then s else if s = '''' then d else d @ '':'' @ s)"

definition deviceVariantPreferenceEntityID :: "string \<Rightarrow> string \<Rightarrow> string \<Rightarrow> string" where
  "deviceVariantPreferenceEntityID deviceID0 scopeType0 clusterID0 =
     (let d = trimSpace deviceID0; s = trimSpace scopeType0; c = trimSpace clusterID0 in
      if d = '''' then s @ '':'' @ c else if s = '''' then d @ '':'' @ c else d @ '':'' @ s @ '':'' @ c)"

definition optimizedAssetEntityID :: "string \<Rightarrow> string" where
  "optimizedAssetEntityID optimizedAssetID = trimSpace optimizedAssetID"

definition deviceAssetCacheEntityID :: "string \<Rightarrow> string \<Rightarrow> string" where
  "deviceAssetCacheEntityID deviceID0 assetID0 =
     (let d = trimSpace deviceID0; a = trimSpace assetID0 in
      if d = '''' then a else if a = '''' then d else d @ '':'' @ a)"

definition artworkVariantEntityID :: "string \<Rightarrow> string \<Rightarrow> string \<Rightarrow> string" where
  "artworkVariantEntityID scopeType0 scopeID0 variant0 =
     (let t = trimSpace scopeType0; i = trimSpace scopeID0; v = trimSpace variant0 in
      if t = '''' then i @ '':'' @ v else if i = '''' then t @ '':'' @ v else t @ '':'' @ i @ '':'' @ v)"

text \<open>\<open>strings.SplitN\<close> at colons.\<close>

fun splitColon :: "string \<Rightarrow> string \<times> string option" where
  "splitColon [] = ([], None)"
| "splitColon (c # s) =
     (if c = CHR '':'' then ([], Some s) else (case splitColon s of (a, r) \<Rightarrow> (c # a, r)))"

fun splitNColon :: "nat \<Rightarrow> string \<Rightarrow> string list" where
  "splitNColon 0 s = []"
| "splitNColon (Suc 0) s = [s]"
| "splitNColon (Suc (Suc n)) s =
     (case splitColon s of (a, None) \<Rightarrow> [a] | (a, Some r) \<Rightarrow> a # splitNColon (Suc n) r)"

text \<open>The fields of an identity: those of the payload, then the parts of the entity id.\<close>

definition orPart :: "string \<Rightarrow> string \<Rightarrow> string" where
  "orPart v part = (if trimSpace v = '''' then trimSpace part else trimSpace v)"

definition twoPartIdentity :: "string \<Rightarrow> string \<Rightarrow> string \<Rightarrow> string \<times> string" where
  "twoPartIdentity entityID a b =
     (case splitNColon 2 (trimSpace entityID) of
        [p, q] \<Rightarrow> (orPart a p, orPart b q)
      | _ \<Rightarrow> (trimSpace a, trimSpace b))"

definition threePartIdentity :: "string \<Rightarrow> string \<Rightarrow> string \<Rightarrow> string \<Rightarrow> string \<times> string \<times> string" where
  "threePartIdentity entityID a b c =
     (case splitNColon 3 (trimSpace entityID) of
        [p, q, r] \<Rightarrow> (orPart a p, orPart b q, orPart c r)
      | _ \<Rightarrow> (trimSpace a, trimSpace b, trimSpace c))"

definition sourceFileIdentityForEntry :: "oplogEntry \<Rightarrow> string \<Rightarrow> string \<Rightarrow> string \<times> string" where
  "sourceFileIdentityForEntry e deviceID sourceFileID = twoPartIdentity (oeEntityID e) deviceID sourceFileID"

definition deviceVariantPreferenceIdentityForEntry :: "oplogEntry \<Rightarrow> preferencePayload \<Rightarrow> string \<times> string \<times> string" where
  "deviceVariantPreferenceIdentityForEntry e p =
     threePartIdentity (oeEntityID e) (vpDeviceID p) (vpScopeType p) (vpClusterID p)"

definition deviceAssetCacheIdentityForEntry :: "oplogEntry \<Rightarrow> cachePayload \<Rightarrow> string \<times> string" where
  "deviceAssetCacheIdentityForEntry e p = twoPartIdentity (oeEntityID e) (cpDeviceID p) (cpAssetID p)"

definition artworkVariantIdentityForEntry :: "oplogEntry \<Rightarrow> string \<Rightarrow> string \<Rightarrow> string \<Rightarrow> string \<times> string \<times> string" where
  "artworkVariantIdentityForEntry e t i v = threePartIdentity (oeEntityID e) t i v"

section \<open>Times\<close>

definition timeOfNanos :: "int \<Rightarrow> int" where
  "timeOfNanos ns = ns + 62135596800 * 1000000000"

definition oplogMutationTime :: "replicaEnv \<Rightarrow> oplogEntry \<Rightarrow> int replicaDB" where
  "oplogMutationTime E e = (if oeTSNS e \<le> 0 then clockDB E else okDB (timeOfNanos (oeTSNS e)))"

definition oplogPayloadTime :: "replicaEnv \<Rightarrow> int \<Rightarrow> oplogEntry \<Rightarrow> int replicaDB" where
  "oplogPayloadTime E payloadNS e =
     (if payloadNS > 0 then okDB (timeOfNanos payloadNS) else oplogMutationTime E e)"

text \<open>\<open>normalizeArtworkFileExt\<close>; the recursive call, on an extension, ends after one level.\<close>

definition normalizeFileExt :: "'l golib_scheme \<Rightarrow> string \<Rightarrow> string" where
  "normalizeFileExt L fileExt0 =
     (let ext = trimSpace (lowerCase L fileExt0) in
      if ext = '''' then ''''
      else
        let dotted = (if hd ext = CHR ''.'' then ext else CHR ''.'' # ext)
        in if dotted \<in> {''.jpeg'', ''.jpe''} then ''.jpg'' else dotted)"

definition normalizeArtworkFileExt :: "replicaEnv \<Rightarrow> string \<Rightarrow> string \<Rightarrow> string" where
  "normalizeArtworkFileExt E fileExt mimeType =
     (if normalizeFileExt (deLib E) fileExt \<noteq> '''' then normalizeFileExt (deLib E) fileExt
      else
        let m = trimSpace (lowerCase (deLib E) mimeType) in
        if m = ''image/jpeg'' then ''.jpg''
        else if m = ''image/png'' then ''.png''
        else if m = ''image/webp'' then ''.webp''
        else if m = ''image/avif'' then ''.avif''
        else if m = ''image/gif'' then ''.gif''
        else firstNonEmpty (map (normalizeFileExt (deLib E)) (deMimeExtensions E m)))"

end
