(* ===== verification/Ingest.thy ===== *)
theory Ingest
  imports Replica
begin

text \<open>
  The catalog rows that one source file stands for (\<open>ingest_materialize.go\<close>, \<open>local_metadata.go\<close>,
  \<open>catalog_identity.go\<close> and the keys of \<open>service_ingest_scan.go\<close>): its track and album variants, their
  artists and credits, and the row of the file itself, as ingesting a file or replaying its log entry
  writes them.
\<close>

section \<open>Keys\<close>

lemma first_strip_space_shorter: "first_strip space_seqs s = Some t \<Longrightarrow> length t < length s"
  by (auto dest!: first_strip_Some dest: space_seqs_nonempty)

text \<open>\<open>strings.Fields\<close>; \<open>word\<close> holds the current word in reverse.\<close>

function fieldsFrom :: "string \<Rightarrow> string \<Rightarrow> string list" where
  "fieldsFrom word s =
     (case first_strip space_seqs s of
        Some t \<Rightarrow> (if word = '''' then fieldsFrom '''' t else rev word # fieldsFrom '''' t)
      | None \<Rightarrow>
          (case s of
             [] \<Rightarrow> (if word = '''' then [] else [rev word])
           | c # cs \<Rightarrow> fieldsFrom (c # word) cs))"
  by pat_completeness auto

termination
  by (relation "measure (\<lambda>(word, s). length s)") (auto dest: first_strip_space_shorter)

definition fields :: "string \<Rightarrow> string list" where
  "fields s = fieldsFrom '''' s"

definition normalizeCatalogKey :: "replicaEnv \<Rightarrow> string \<Rightarrow> string" where
  "normalizeCatalogKey E v = joinWith '' '' (fields (lowerCase (deLib E) (trimSpace v)))"

definition firstArtist :: "string list \<Rightarrow> string" where
  "firstArtist artists = (case artists of [] \<Rightarrow> '''' | a # _ \<Rightarrow> trimSpace a)"

definition artistsOf :: "Tags \<Rightarrow> string list" where
  "artistsOf t = (case tgArtists t of None \<Rightarrow> [] | Some ss \<Rightarrow> ss)"

definition normalizedRecordKeys :: "replicaEnv \<Rightarrow> Tags \<Rightarrow> string \<times> string \<times> string" where
  "normalizedRecordKeys E t =
     (let primaryArtist = firstArtist (artistsOf t);
          albumArtist = firstNonEmpty [tgAlbumArtist t, primaryArtist]
      in (normalizeCatalogKey E (joinWith ''|'' [primaryArtist, tgTitle t]),
          normalizeCatalogKey E (joinWith ''|'' [albumArtist, tgAlbum t, decimal (tgYear t)]),
          normalizeCatalogKey E (joinWith ''|'' [albumArtist, tgAlbum t])))"

definition normalizedTrackClusterKey :: "replicaEnv \<Rightarrow> string \<Rightarrow> string \<Rightarrow> string" where
  "normalizedTrackClusterKey E recordingKey groupKey =
     (if trimSpace groupKey = '''' then trimSpace recordingKey
      else normalizeCatalogKey E (joinWith ''|'' [trimSpace recordingKey, trimSpace groupKey]))"

definition maxTrackNumber :: "int \<Rightarrow> int" where
  "maxTrackNumber v = (if v \<le> 0 then 1 else v)"

definition explicitTrackVariantID :: "replicaEnv \<Rightarrow> string \<Rightarrow> string \<Rightarrow> int \<Rightarrow> int \<Rightarrow> string" where
  "explicitTrackVariantID E recordingKey editionScopeKey discNo trackNo =
     stableNameID E ''recording_variant''
       (joinWith ''|'' [trimSpace recordingKey, trimSpace editionScopeKey,
          trimSpace (decimal (maxTrackNumber discNo)), trimSpace (decimal (maxTrackNumber trackNo))])"

definition explicitAlbumVariantID :: "replicaEnv \<Rightarrow> string \<Rightarrow> string \<Rightarrow> string" where
  "explicitAlbumVariantID E albumKey editionScopeKey =
     stableNameID E ''album_variant'' (trimSpace albumKey @ ''|'' @ trimSpace editionScopeKey)"

definition scanRootKey :: "replicaEnv \<Rightarrow> string \<Rightarrow> string" where
  "scanRootKey E root0 =
     (let root = pathClean (deLib E) (trimSpace root0)
      in if deWindows E then lowerCase (deLib E) root else root)"

definition localPathKey :: "replicaEnv \<Rightarrow> string \<Rightarrow> string" where
  "localPathKey E path = scanRootKey E (pathClean (deLib E) (trimSpace path))"

definition opaqueSourcePathKey :: "string \<Rightarrow> string" where
  "opaqueSourcePathKey sourceFileID =
     (if trimSpace sourceFileID = '''' then ''opaque:unknown'' else ''opaque:'' @ trimSpace sourceFileID)"

definition sourceFileIDForDevicePath :: "replicaEnv \<Rightarrow> string \<Rightarrow> string \<Rightarrow> string" where
  "sourceFileIDForDevicePath E deviceID path =
     (let pathKey = localPathKey E path in
      if pathKey = '''' then '''' else stableNameID E ''source_file_path'' (trimSpace deviceID @ ''|'' @ pathKey))"

section \<open>Tags as stored\<close>

text \<open>\<open>json.Marshal\<close> prints the members of a map in the order of their names.\<close>

definition tagsSnapshot :: "Tags \<Rightarrow> json" where
  "tagsSnapshot t = JObj
     [(''album'', JStr (tgAlbum t)), (''album_artist'', JStr (tgAlbumArtist t)),
      (''artists'', (case tgArtists t of None \<Rightarrow> JNull | Some ss \<Rightarrow> JArr (map JStr ss))),
      (''bitrate'', JInt (tgBitrate t)), (''channels'', JInt (tgChannels t)), (''codec'', JStr (tgCodec t)),
      (''container'', JStr (tgContainer t)), (''disc'', JInt (tgDiscNo t)),
      (''duration_ms'', JInt (tgDurationMS t)), (''is_lossless'', JBool (tgIsLossless t)),
      (''quality_rank'', JInt (tgQualityRank t)), (''sample_rate'', JInt (tgSampleRate t)),
      (''title'', JStr (tgTitle t)), (''track'', JInt (tgTrackNo t)), (''year'', JInt (tgYear t))]"

definition decodeTagsSnapshot :: "'l golib_scheme \<Rightarrow> (string \<times> json) list \<Rightarrow> string + Tags" where
  "decodeTagsSnapshot L fs =
     bindR (strField L ''title'' fs) (\<lambda>a. bindR (strField L ''album'' fs) (\<lambda>b.
     bindR (strField L ''album_artist'' fs) (\<lambda>c. bindR (fieldFrom L asStrings ''artists'' None fs) (\<lambda>d.
     bindR (intField L ''track'' fs) (\<lambda>e. bindR (intField L ''disc'' fs) (\<lambda>f.
     bindR (intField L ''year'' fs) (\<lambda>g. bindR (intField L ''duration_ms'' fs) (\<lambda>h.
     bindR (strField L ''container'' fs) (\<lambda>i. bindR (strField L ''codec'' fs) (\<lambda>j.
     bindR (intField L ''bitrate'' fs) (\<lambda>k. bindR (intField L ''sample_rate'' fs) (\<lambda>l.
     bindR (intField L ''channels'' fs) (\<lambda>m. bindR (boolField L ''is_lossless'' fs) (\<lambda>n.
     bindR (intField L ''quality_rank'' fs) (\<lambda>q.
       Inr \<lparr>tgTitle = a, tgAlbum = b, tgAlbumArtist = c,
         tgArtists = (if d = None \<or> d = Some [] then None else d), tgTrackNo = e, tgDiscNo = f,
         tgYear = g, tgDurationMS = h, tgContainer = i, tgCodec = j, tgBitrate = k, tgSampleRate = l,
         tgChannels = m, tgIsLossless = n, tgQualityRank = q\<rparr>)))))))))))))))"

definition tagsFromSnapshotJSON :: "replicaEnv \<Rightarrow> string \<Rightarrow> string + Tags" where
  "tagsFromSnapshotJSON E raw0 =
     (let raw = trimSpace raw0 in
      if raw = '''' \<or> raw = ''{}'' then Inr zeroTags
      else case unmarshal (deParse E) raw (decodeTagsSnapshot (deLib E)) of
        Inl err \<Rightarrow> Inl (''decode tags snapshot: '' @ err)
      | Inr t \<Rightarrow> Inr t)"

definition sourceFileOplogPayloadFromRow ::
  "replicaEnv \<Rightarrow> string \<times> string \<times> string \<Rightarrow> sourceFileRow \<Rightarrow> string + sourceFilePayload" where
  "sourceFileOplogPayloadFromRow E k row =
     bindR (tagsFromSnapshotJSON E (sfTagsJSON row)) (\<lambda>t. Inr
       \<lparr>spDeviceID = trimSpace (fst (snd k)), spSourceFileID = trimSpace (snd (snd k)),
        spLibraryID = trimSpace (fst k), spLocalPath = '''', spEditionScopeKey = trimSpace (sfEditionScopeKey row),
        spMTimeNS = sfMTimeNS row, spSizeBytes = sfSizeBytes row, spHashAlgo = trimSpace (sfHashAlgo row),
        spHashHex = trimSpace (sfHashHex row), spTags = t, spIsPresent = sfIsPresent row\<rparr>)"

section \<open>Paths a device keeps\<close>

definition localSourcePathTx ::
  "replicaEnv \<Rightarrow> string \<Rightarrow> string \<Rightarrow> string \<Rightarrow> localPathRow option replicaDB" where
  "localSourcePathTx E libraryID deviceID sourceFileID =
     queryDB E (\<lambda>s. map_of (rpLocalPaths s) (trimSpace libraryID, trimSpace deviceID, trimSpace sourceFileID))"

definition upsertLocalSourcePathTx ::
  "replicaEnv \<Rightarrow> string \<Rightarrow> string \<Rightarrow> string \<Rightarrow> string \<Rightarrow> int \<Rightarrow> unit replicaDB" where
  "upsertLocalSourcePathTx E libraryID deviceID sourceFileID localPath0 updatedAt =
     (let localPath = pathClean (deLib E) (trimSpace localPath0) in
      if trimSpace libraryID = '''' \<or> trimSpace deviceID = '''' \<or> trimSpace sourceFileID = '''' \<or> localPath = ''''
      then okDB ()
      else
        let row = \<lparr>lpLocalPath = localPath, lpPathKey = localPathKey E localPath, lpUpdatedAt = updatedAt\<rparr>
        in execDB E (\<lambda>s. s\<lparr>rpLocalPaths := upsertRow (trimSpace libraryID, trimSpace deviceID, trimSpace sourceFileID)
             row (\<lambda>_. row) (rpLocalPaths s)\<rparr>))"

text \<open>The stored path and its key, both empty where there is none.\<close>

definition resolveStoredSourcePathTx ::
  "replicaEnv \<Rightarrow> string \<Rightarrow> string \<Rightarrow> string \<Rightarrow> (string \<times> string) replicaDB" where
  "resolveStoredSourcePathTx E libraryID deviceID sourceFileID =
     bindDB (localSourcePathTx E libraryID deviceID sourceFileID) (\<lambda>found.
       case found of
         None \<Rightarrow> okDB ('''', '''')
       | Some row \<Rightarrow>
           let localPath = pathClean (deLib E) (trimSpace (lpLocalPath row)) in
           if localPath = '''' then okDB ('''', '''')
           else
             let pathKey = trimSpace (lpPathKey row)
             in okDB (localPath, if pathKey = '''' then localPathKey E localPath else pathKey))"

section \<open>Artists and credits\<close>

definition upsertArtist :: "replicaEnv \<Rightarrow> string \<Rightarrow> string \<Rightarrow> artistRow \<Rightarrow> unit replicaDB" where
  "upsertArtist E libraryID artistID row =
     execDB E (\<lambda>s. s\<lparr>rpArtists := upsertRow (libraryID, artistID) row
       (\<lambda>old. old\<lparr>atName := atName row, atNameSort := atNameSort row\<rparr>) (rpArtists s)\<rparr>)"

definition insertCredit ::
  "replicaEnv \<Rightarrow> string \<times> string \<times> string \<times> string \<times> string \<times> int \<Rightarrow> unit replicaDB" where
  "insertCredit E credit = execDB E (\<lambda>s. s\<lparr>rpCredits := keepRow credit () (rpCredits s)\<rparr>)"

text \<open>The artists of a track; \<open>idx\<close> counts all names, \<open>seen\<close> the identities already written.\<close>

fun creditArtists ::
  "replicaEnv \<Rightarrow> string \<Rightarrow> string \<Rightarrow> int \<Rightarrow> string list \<Rightarrow> string list \<Rightarrow> unit replicaDB" where
  "creditArtists E libraryID trackVariantID idx seen [] = okDB ()"
| "creditArtists E libraryID trackVariantID idx seen (artistName # rest) =
     (let artistKey = normalizeCatalogKey E artistName;
          artistID = stableNameID E ''artist'' artistKey
      in if artistKey = '''' then creditArtists E libraryID trackVariantID (idx + 1) seen rest
         else if artistID \<in> set seen then creditArtists E libraryID trackVariantID (idx + 1) seen rest
         else
           bindDB (upsertArtist E libraryID artistID
             \<lparr>atName = artistName, atNameSort = lowerCase (deLib E) (trimSpace artistName)\<rparr>) (\<lambda>_.
           bindDB (insertCredit E (libraryID, ''track'', trackVariantID, artistID, ''primary'', idx + 1)) (\<lambda>_.
             creditArtists E libraryID trackVariantID (idx + 1) (artistID # seen) rest)))"

definition upsertArtistsAndCredits ::
  "replicaEnv \<Rightarrow> string \<Rightarrow> string \<Rightarrow> string \<Rightarrow> string list \<Rightarrow> string \<Rightarrow> unit replicaDB" where
  "upsertArtistsAndCredits E libraryID trackVariantID albumVariantID artists albumArtist0 =
     bindDB (creditArtists E libraryID trackVariantID 0 [] (compactNonEmptyStrings artists)) (\<lambda>_.
       let albumArtist = trimSpace albumArtist0;
           artistKey = normalizeCatalogKey E albumArtist;
           artistID = stableNameID E ''artist'' artistKey
       in if albumArtist = '''' then okDB ()
          else if artistKey = '''' then okDB ()
          else
            bindDB (upsertArtist E libraryID artistID
              \<lparr>atName = albumArtist, atNameSort = lowerCase (deLib E) albumArtist\<rparr>) (\<lambda>_.
              insertCredit E (libraryID, ''album'', albumVariantID, artistID, ''primary'', 1)))"

section \<open>The rows of a file\<close>

record ingestRecord =
  inLibraryID :: string
  inDeviceID :: string
  inPath :: string
  inMTimeNS :: int
  inSizeBytes :: int
  inHashAlgo :: string
  inHashHex :: string
  inSourceFileID :: string
  inEditionScopeKey :: string
  inTags :: Tags

text \<open>
  A row of the source files is unique by its identity and by its path key.  The statement names the
  path key as its conflict target: a row with that key is overwritten, its identity included; a clash of
  the identity with another row is an error.
\<close>

definition putSourceFile ::
  "string \<times> string \<times> string \<Rightarrow> sourceFileRow \<Rightarrow> ((string \<times> string \<times> string) \<times> sourceFileRow) list
    \<Rightarrow> string + ((string \<times> string \<times> string) \<times> sourceFileRow) list" where
  "putSourceFile k row rows =
     (case find (\<lambda>r. fst (fst r) = fst k \<and> fst (snd (fst r)) = fst (snd k) \<and> sfPathKey (snd r) = sfPathKey row) rows of
        Some (k0, old) \<Rightarrow>
          if k0 \<noteq> k \<and> map_of rows k \<noteq> None then Inl ''UNIQUE constraint failed''
          else Inr (map (\<lambda>r. if fst r = k0 then (k, row\<lparr>sfCreatedAt := sfCreatedAt old\<rparr>) else r) rows)
      | None \<Rightarrow> insertRow k row rows)"

definition upsertAlbumVariant :: "replicaEnv \<Rightarrow> string \<Rightarrow> string \<Rightarrow> albumVariantRow \<Rightarrow> unit replicaDB" where
  "upsertAlbumVariant E libraryID albumVariantID row =
     execDB E (\<lambda>s. s\<lparr>rpAlbumVariants := upsertRow (libraryID, albumVariantID) row
       (\<lambda>old. old\<lparr>avAlbumClusterID := avAlbumClusterID row, avTitle := avTitle row, avYear := avYear row,
          avUpdatedAt := avUpdatedAt row\<rparr>) (rpAlbumVariants s)\<rparr>)"

definition upsertTrackVariant :: "replicaEnv \<Rightarrow> string \<Rightarrow> string \<Rightarrow> trackVariantRow \<Rightarrow> unit replicaDB" where
  "upsertTrackVariant E libraryID trackVariantID row =
     execDB E (\<lambda>s. s\<lparr>rpTrackVariants := upsertRow (libraryID, trackVariantID) row
       (\<lambda>old. old\<lparr>tvTrackClusterID := tvTrackClusterID row, tvTitle := tvTitle row,
          tvDurationMS := tvDurationMS row, tvUpdatedAt := tvUpdatedAt row\<rparr>) (rpTrackVariants s)\<rparr>)"

text \<open>The path of the row and its key: the given one, which displaces other files there, or the stored one.\<close>

definition ingestPath :: "replicaEnv \<Rightarrow> ingestRecord \<Rightarrow> string \<Rightarrow> int \<Rightarrow> (string \<times> string) replicaDB" where
  "ingestPath E i sourceFingerprint mutatedAt =
     (let given = trimSpace (inPath i);
          localPath = (if given = '''' then '''' else pathClean (deLib E) given);
          localKey = (if localPath = '''' then '''' else localPathKey E localPath);
          pathKey = (if localKey = '''' then opaqueSourcePathKey (inSourceFileID i) else localKey)
      in if localPath \<noteq> '''' then
           bindDB (execDB E (\<lambda>s. s\<lparr>rpSourceFiles := filter (\<lambda>r. \<not> (fst (fst r) = inLibraryID i
               \<and> fst (snd (fst r)) = inDeviceID i \<and> sfPathKey (snd r) = pathKey
               \<and> sfSourceFingerprint (snd r) \<noteq> sourceFingerprint)) (rpSourceFiles s)\<rparr>)) (\<lambda>_.
           bindDB (upsertLocalSourcePathTx E (inLibraryID i) (inDeviceID i) (inSourceFileID i) localPath mutatedAt) (\<lambda>_.
             okDB (localPath, pathKey)))
         else
           bindDB (resolveStoredSourcePathTx E (inLibraryID i) (inDeviceID i) (inSourceFileID i)) (\<lambda>stored.
             okDB (if fst stored \<noteq> '''' then stored else (localPath, pathKey))))"

definition upsertIngestTx :: "replicaEnv \<Rightarrow> ingestRecord \<Rightarrow> int \<Rightarrow> bool \<Rightarrow> unit replicaDB" where
  "upsertIngestTx E i mutatedAt0 isPresent =
     bindDB (if mutatedAt0 = 0 then clockDB E else okDB mutatedAt0) (\<lambda>mutatedAt.
       let t = inTags i;
           (recordingKey, albumKey, groupKey) = normalizedRecordKeys E t;
           editionScopeKey =
             (if trimSpace (inEditionScopeKey i) \<noteq> '''' then trimSpace (inEditionScopeKey i)
              else normalizeCatalogKey E
                (joinWith ''|'' [firstNonEmpty [tgAlbumArtist t, firstArtist (artistsOf t)], tgAlbum t]));
           trackVariantID = explicitTrackVariantID E recordingKey editionScopeKey (tgDiscNo t) (tgTrackNo t);
           trackClusterID = stableNameID E ''track_cluster'' (normalizedTrackClusterKey E recordingKey groupKey);
           albumVariantID = explicitAlbumVariantID E albumKey editionScopeKey;
           albumClusterID = stableNameID E ''library_album'' groupKey;
           sourceFingerprint = trimSpace (inHashAlgo i) @ '':'' @ trimSpace (inHashHex i)
       in bindDB (upsertAlbumVariant E (inLibraryID i) albumVariantID
            \<lparr>avAlbumClusterID = albumClusterID, avTitle = tgAlbum t,
             avYear = (if tgYear t > 0 then Some (tgYear t) else None), avEdition = '''', avKeyNorm = albumKey,
             avCreatedAt = mutatedAt, avUpdatedAt = mutatedAt\<rparr>) (\<lambda>_.
          bindDB (upsertTrackVariant E (inLibraryID i) trackVariantID
            \<lparr>tvTrackClusterID = trackClusterID, tvKeyNorm = recordingKey, tvTitle = tgTitle t,
             tvDurationMS = tgDurationMS t, tvCreatedAt = mutatedAt, tvUpdatedAt = mutatedAt\<rparr>) (\<lambda>_.
          bindDB (execDB E (\<lambda>s. s\<lparr>rpAlbumTracks := keepRow (inLibraryID i, albumVariantID, trackVariantID,
              maxTrackNumber (tgDiscNo t), maxTrackNumber (tgTrackNo t)) None (rpAlbumTracks s)\<rparr>)) (\<lambda>_.
          bindDB (upsertArtistsAndCredits E (inLibraryID i) trackVariantID albumVariantID (artistsOf t)
            (firstNonEmpty [tgAlbumArtist t, firstArtist (artistsOf t)])) (\<lambda>_.
          bindDB (ingestPath E i sourceFingerprint mutatedAt) (\<lambda>path.
            stmtDB E (\<lambda>s. map_sum id (\<lambda>rows. s\<lparr>rpSourceFiles := rows\<rparr>)
              (putSourceFile (inLibraryID i, inDeviceID i, inSourceFileID i)
                \<lparr>sfTrackVariantID = trackVariantID, sfLocalPath = fst path, sfPathKey = snd path,
                 sfSourceFingerprint = sourceFingerprint, sfEditionScopeKey = editionScopeKey,
                 sfHashAlgo = inHashAlgo i, sfHashHex = inHashHex i, sfMTimeNS = inMTimeNS i,
                 sfSizeBytes = inSizeBytes i, sfContainer = tgContainer t, sfCodec = tgCodec t,
                 sfBitrate = tgBitrate t, sfSampleRate = tgSampleRate t, sfChannels = tgChannels t,
                 sfIsLossless = tgIsLossless t, sfQualityRank = tgQualityRank t,
                 sfDurationMS = tgDurationMS t, sfTagsJSON = deMarshal E (tagsSnapshot t),
                 sfLastSeenAt = mutatedAt, sfIsPresent = isPresent, sfCreatedAt = mutatedAt,
                 sfUpdatedAt = mutatedAt\<rparr> (rpSourceFiles s)))))))))"

end
