(* ===== verification/OplogApply.thy ===== *)
theory OplogApply
  imports Ingest
begin

text \<open>
  Writing the operation log and applying its entries to the tables (\<open>service_oplog.go\<close>,
  \<open>oplog_apply.go\<close>, and what it calls of \<open>service_playlist.go\<close>).  A mutation of an entity takes effect
  only if no entry about the same entity in the log is later; entries are ordered by their time stamps and
  then by their ids.
\<close>

section \<open>The log\<close>

definition nanosOfTime :: "int \<Rightarrow> int" where
  "nanosOfTime t = t - 62135596800 * 1000000000"

text \<open>A row of the log is unique by its id, and by its device and sequence number.\<close>

definition insertOplog :: "string \<Rightarrow> oplogEntry \<Rightarrow> replica \<Rightarrow> string + replica" where
  "insertOplog libraryID e s =
     (if list_ex (\<lambda>r. fst r = libraryID \<and> (oeOpID (snd r) = oeOpID e
           \<or> oeDeviceID (snd r) = oeDeviceID e \<and> oeSeq (snd r) = oeSeq e)) (rpOplog s)
      then Inl ''UNIQUE constraint failed''
      else Inr (s\<lparr>rpOplog := rpOplog s @ [(libraryID, e)]\<rparr>))"

definition maxSeq :: "(string \<times> oplogEntry) list \<Rightarrow> string \<Rightarrow> string \<Rightarrow> int" where
  "maxSeq rows libraryID deviceID =
     (case map (oeSeq \<circ> snd) (filter (\<lambda>r. fst r = libraryID \<and> oeDeviceID (snd r) = deviceID) rows) of
        [] \<Rightarrow> 0
      | n # ns \<Rightarrow> foldl max n ns)"

definition nextLibraryDeviceSeqTx :: "replicaEnv \<Rightarrow> string \<Rightarrow> string \<Rightarrow> int replicaDB" where
  "nextLibraryDeviceSeqTx E libraryID deviceID =
     bindDB (queryDB E (\<lambda>s. map_of (rpClocks s) (libraryID, deviceID))) (\<lambda>clock.
     bindDB (queryDB E (\<lambda>s. maxSeq (rpOplog s) libraryID deviceID)) (\<lambda>maxInLog.
       let lastSeq = (case clock of None \<Rightarrow> 0 | Some n \<Rightarrow> n)
       in okDB ((if maxInLog > lastSeq then maxInLog else lastSeq) + 1)))"

definition setClock :: "replicaEnv \<Rightarrow> string \<Rightarrow> string \<Rightarrow> int \<Rightarrow> unit replicaDB" where
  "setClock E libraryID deviceID n =
     execDB E (\<lambda>s. s\<lparr>rpClocks := upsertRow (libraryID, deviceID) n (\<lambda>_. n) (rpClocks s)\<rparr>)"

record localContext =
  lcLibraryID :: string
  lcDeviceID :: string

definition appendLocalOplogTx ::
  "replicaEnv \<Rightarrow> localContext \<Rightarrow> string \<Rightarrow> string \<Rightarrow> string \<Rightarrow> json \<Rightarrow> oplogEntry replicaDB" where
  "appendLocalOplogTx E local entityType0 entityID0 opKind0 body =
     (let libraryID = trimSpace (lcLibraryID local);
          deviceID = trimSpace (lcDeviceID local);
          entityType = trimSpace entityType0;
          entityID = trimSpace entityID0;
          opKind = trimSpace opKind0
      in if libraryID = '''' \<or> deviceID = '''' then failDB ''local library and device context are required''
         else if entityType = '''' \<or> entityID = '''' \<or> opKind = ''''
           then failDB ''oplog entity type, entity id, and op kind are required''
         else
           bindDB (nextLibraryDeviceSeqTx E libraryID deviceID) (\<lambda>n.
           bindDB (clockDB E) (\<lambda>now.
             let entry = \<lparr>oeOpID = deviceID @ '':'' @ decimal n, oeDeviceID = deviceID, oeSeq = n,
                   oeTSNS = nanosOfTime now, oeEntityType = entityType, oeEntityID = entityID,
                   oeOpKind = opKind, oePayload = deMarshal E body, oeSignerPeerID = '''',
                   oeSignerAuthorityVersion = 0, oeSignerCertSerial = 0, oeSignerRole = '''',
                   oeSignerIssuedAt = 0, oeSignerExpiresAt = 0, oeSignerCertSig = '''', oeSig = ''''\<rparr>
             in bindDB (stmtDB E (insertOplog libraryID entry)) (\<lambda>_.
                bindDB (setClock E libraryID deviceID n) (\<lambda>_. okDB entry)))))"

section \<open>Which mutation of an entity is the latest\<close>

definition laterOp :: "oplogEntry \<Rightarrow> oplogEntry \<Rightarrow> bool" where
  "laterOp a b \<longleftrightarrow> oeTSNS b < oeTSNS a \<or> oeTSNS b = oeTSNS a \<and> keyBefore (oeOpID b) (oeOpID a)"

definition aboutEntity :: "string \<Rightarrow> string \<Rightarrow> string \<Rightarrow> string \<times> oplogEntry \<Rightarrow> bool" where
  "aboutEntity libraryID entityType entityID r \<longleftrightarrow>
     fst r = libraryID \<and> oeEntityType (snd r) = entityType \<and> oeEntityID (snd r) = entityID"

definition latestMutation ::
  "(string \<times> oplogEntry) list \<Rightarrow> string \<Rightarrow> string \<Rightarrow> string \<Rightarrow> oplogEntry option" where
  "latestMutation rows libraryID entityType entityID =
     foldl (\<lambda>best e. case best of None \<Rightarrow> Some e | Some b \<Rightarrow> if laterOp e b then Some e else Some b) None
       (map snd (filter (aboutEntity libraryID entityType entityID) rows))"

definition shouldApplyLatestMutationTx :: "replicaEnv \<Rightarrow> string \<Rightarrow> oplogEntry \<Rightarrow> bool replicaDB" where
  "shouldApplyLatestMutationTx E libraryID e =
     bindDB (queryDB E (\<lambda>s. latestMutation (rpOplog s) libraryID (oeEntityType e) (oeEntityID e))) (\<lambda>latest.
       case latest of
         None \<Rightarrow> okDB (0 = oeTSNS e \<and> '''' = trimSpace (oeOpID e))
       | Some l \<Rightarrow> okDB (oeTSNS l = oeTSNS e \<and> trimSpace (oeOpID l) = trimSpace (oeOpID e)))"

text \<open>The frame of every handler: do nothing unless the entry is the latest.\<close>

definition ifLatest :: "replicaEnv \<Rightarrow> string \<Rightarrow> oplogEntry \<Rightarrow> unit replicaDB \<Rightarrow> unit replicaDB" where
  "ifLatest E libraryID e m =
     bindDB (shouldApplyLatestMutationTx E libraryID e) (\<lambda>apply. if apply then m else okDB ())"

definition decodeEntry ::
  "replicaEnv \<Rightarrow> string \<Rightarrow> oplogEntry \<Rightarrow> ((string \<times> json) list \<Rightarrow> string + 'a) \<Rightarrow> 'a replicaDB" where
  "decodeEntry E label e decode =
     liftDB (case unmarshal (deParse E) (oePayload e) decode of
       Inl err \<Rightarrow> Inl (''decode '' @ label @ '': '' @ err) | Inr v \<Rightarrow> Inr v)"

definition decodeDelete ::
  "replicaEnv \<Rightarrow> string \<Rightarrow> oplogEntry \<Rightarrow> ((string \<times> json) list \<Rightarrow> string + 'a) \<Rightarrow> 'a replicaDB" where
  "decodeDelete E label e decode =
     liftDB (case unmarshalUnlessBlank (deParse E) (oePayload e) decode of
       Inl err \<Rightarrow> Inl (''decode '' @ label @ '': '' @ err) | Inr v \<Rightarrow> Inr v)"

definition unsupported :: "replicaEnv \<Rightarrow> string \<Rightarrow> oplogEntry \<Rightarrow> unit replicaDB" where
  "unsupported E what e =
     failDB (''unsupported '' @ what @ '' op kind '' @ quoted (deLib E) (trimSpace (oeOpKind e)))"

section \<open>Libraries and source files\<close>

definition applyLibraryOplogEntryTx :: "replicaEnv \<Rightarrow> string \<Rightarrow> oplogEntry \<Rightarrow> unit replicaDB" where
  "applyLibraryOplogEntryTx E libraryID e = ifLatest E libraryID e
     (if trimSpace (oeOpKind e) \<noteq> ''upsert'' then unsupported E ''library'' e
      else
        bindDB (decodeEntry E ''library oplog payload'' e (decodeLibrary (deLib E))) (\<lambda>p.
          let target = firstNonEmpty [fst p, oeEntityID e] in
          if trimSpace target = '''' then failDB ''library id is required''
          else
            bindDB (oplogMutationTime E e) (\<lambda>createdAt.
              execDB E (\<lambda>s. s\<lparr>rpLibraries := upsertRow target
                \<lparr>lbName = trimSpace (snd p), lbRootPublicKey = '''', lbRootPrivateKey = '''',
                 lbLibraryKey = '''', lbRegistryURL = '''', lbRelayBootstrapAddrsJSON = '''', lbCreatedAt = createdAt\<rparr>
                (\<lambda>old. old\<lparr>lbName := trimSpace (snd p)\<rparr>) (rpLibraries s)\<rparr>))))"

definition applySourceFileOplogEntryTx :: "replicaEnv \<Rightarrow> string \<Rightarrow> oplogEntry \<Rightarrow> unit replicaDB" where
  "applySourceFileOplogEntryTx E libraryID e = ifLatest E libraryID e
     (if trimSpace (oeOpKind e) = ''upsert'' then
        bindDB (decodeEntry E ''source file oplog payload'' e (decodeSourceFile (deLib E))) (\<lambda>p.
          if trimSpace (spDeviceID p) = '''' then failDB ''source file device id is required''
          else if trimSpace (spSourceFileID p) = '''' then failDB ''source file id is required''
          else
            bindDB (oplogMutationTime E e) (\<lambda>mutatedAt.
              upsertIngestTx E
                \<lparr>inLibraryID = libraryID, inDeviceID = spDeviceID p, inPath = '''',
                 inMTimeNS = spMTimeNS p, inSizeBytes = spSizeBytes p, inHashAlgo = spHashAlgo p,
                 inHashHex = spHashHex p, inSourceFileID = spSourceFileID p,
                 inEditionScopeKey = spEditionScopeKey p, inTags = spTags p\<rparr> mutatedAt (spIsPresent p)))
      else if trimSpace (oeOpKind e) = ''delete'' then
        bindDB (decodeDelete E ''source file delete payload'' e (decodeSourceFile (deLib E))) (\<lambda>p.
          let (deviceID, sourceFileID) = sourceFileIdentityForEntry e (spDeviceID p) (spSourceFileID p) in
          if deviceID = '''' \<or> sourceFileID = ''''
          then failDB ''source file device id and source file id are required''
          else execDB E (\<lambda>s. s\<lparr>rpSourceFiles :=
                 deleteRow (libraryID, deviceID, sourceFileID) (rpSourceFiles s)\<rparr>))
      else unsupported E ''source file'' e)"

section \<open>Playlists\<close>

definition ensureLikedPlaylistTx :: "replicaEnv \<Rightarrow> string \<Rightarrow> string \<Rightarrow> int \<Rightarrow> unit replicaDB" where
  "ensureLikedPlaylistTx E libraryID0 deviceID0 now =
     (let libraryID = trimSpace libraryID0; deviceID = trimSpace deviceID0 in
      if libraryID = '''' then failDB ''library id is required''
      else if deviceID = '''' then failDB ''device id is required''
      else execDB E (\<lambda>s. s\<lparr>rpPlaylists := upsertRow (libraryID, likedPlaylistIDForLibrary E libraryID)
        \<lparr>plName = ''Liked'', plKind = ''liked'', plCreatedBy = deviceID, plCreatedAt = now,
         plUpdatedAt = now, plDeletedAt = None\<rparr>
        (\<lambda>old. old\<lparr>plName := ''Liked'', plKind := ''liked'', plCreatedBy := deviceID, plDeletedAt := None\<rparr>)
        (rpPlaylists s)\<rparr>))"

text \<open>
  A logical recording, by its own id or by that of one of its variants.  \<open>Take\<close> orders by nothing, so
  which variant of a cluster is read is the database's choice; its cluster is the same.
\<close>

definition resolvePlaylistLibraryRecordingIDTx ::
  "replicaEnv \<Rightarrow> string \<Rightarrow> string \<Rightarrow> string option replicaDB" where
  "resolvePlaylistLibraryRecordingIDTx E libraryID recordingID0 =
     (let recordingID = trimSpace recordingID0 in
      if recordingID = '''' then okDB None
      else
        bindDB (queryDB E (\<lambda>s. find (\<lambda>r. fst (fst r) = libraryID \<and> tvTrackClusterID (snd r) = recordingID)
          (rpTrackVariants s))) (\<lambda>byCluster.
        case byCluster of
          Some r \<Rightarrow> okDB (Some (trimSpace (tvTrackClusterID (snd r))))
        | None \<Rightarrow>
            bindDB (queryDB E (\<lambda>s. map_of (rpTrackVariants s) (libraryID, recordingID))) (\<lambda>byVariant.
              okDB (map_option (\<lambda>v. trimSpace (tvTrackClusterID v)) byVariant))))"

definition applyPlaylistOplogEntryTx :: "replicaEnv \<Rightarrow> string \<Rightarrow> oplogEntry \<Rightarrow> unit replicaDB" where
  "applyPlaylistOplogEntryTx E libraryID e = ifLatest E libraryID e
     (if trimSpace (oeOpKind e) = ''upsert'' then
        bindDB (decodeEntry E ''playlist oplog payload'' e (decodePlaylist (deLib E))) (\<lambda>p.
          let playlistID = firstNonEmpty [ppPlaylistID p, oeEntityID e] in
          if trimSpace playlistID = '''' then failDB ''playlist id is required''
          else
            let given = trimSpace (ppKind p);
                kind = (if given = '''' \<and> playlistID = likedPlaylistIDForLibrary E libraryID then ''liked''
                        else if given = '''' then ''normal'' else given);
                name = trimSpace (ppName p);
                createdBy = firstNonEmpty [ppCreatedBy p, oeDeviceID e]
            in bindDB (oplogMutationTime E e) (\<lambda>mutatedAt.
               bindDB (queryDB E (\<lambda>s. map_of (rpPlaylists s) (libraryID, playlistID))) (\<lambda>existing.
                 let createdAt = (case existing of None \<Rightarrow> mutatedAt
                       | Some old \<Rightarrow> if plCreatedAt old \<noteq> 0 then plCreatedAt old else mutatedAt)
                 in execDB E (\<lambda>s. s\<lparr>rpPlaylists := upsertRow (libraryID, playlistID)
                      \<lparr>plName = name, plKind = kind, plCreatedBy = createdBy, plCreatedAt = createdAt,
                       plUpdatedAt = mutatedAt, plDeletedAt = None\<rparr>
                      (\<lambda>old. old\<lparr>plName := name, plKind := kind, plCreatedBy := createdBy,
                         plUpdatedAt := mutatedAt, plDeletedAt := None\<rparr>) (rpPlaylists s)\<rparr>))))
      else if trimSpace (oeOpKind e) = ''delete'' then
        bindDB (decodeDelete E ''playlist delete payload'' e (decodePlaylistDelete (deLib E))) (\<lambda>p.
          let playlistID = firstNonEmpty [p, oeEntityID e] in
          if trimSpace playlistID = '''' then failDB ''playlist id is required''
          else
            bindDB (oplogMutationTime E e) (\<lambda>mutatedAt.
              execDB E (\<lambda>s. s\<lparr>rpPlaylists := updateRow (libraryID, playlistID)
                (\<lambda>old. old\<lparr>plDeletedAt := Some mutatedAt, plUpdatedAt := mutatedAt\<rparr>) (rpPlaylists s)\<rparr>)))
      else unsupported E ''playlist'' e)"

definition livePlaylists :: "replica \<Rightarrow> string \<Rightarrow> string \<Rightarrow> nat" where
  "livePlaylists s libraryID playlistID =
     length (filter (\<lambda>r. fst r = (libraryID, playlistID) \<and> plDeletedAt (snd r) = None) (rpPlaylists s))"

text \<open>The upsert and move of a playlist item, for a decoded payload.\<close>

definition putPlaylistItem :: "replicaEnv \<Rightarrow> string \<Rightarrow> oplogEntry \<Rightarrow> playlistItemPayload \<Rightarrow> unit replicaDB" where
  "putPlaylistItem E libraryID e p =
     (let likedID = likedPlaylistIDForLibrary E libraryID;
          playlistID0 = firstNonEmpty [ipPlaylistID p, likedID];
          itemID0 = firstNonEmpty [ipItemID p, oeEntityID e]
      in if trimSpace itemID0 = '''' \<or> trimSpace (ipRecordingID p) = ''''
         then failDB ''playlist item id and recording id are required''
         else
           bindDB (resolvePlaylistLibraryRecordingIDTx E libraryID (trimSpace (ipRecordingID p))) (\<lambda>found.
             let recordingID = (case found of Some r \<Rightarrow> r | None \<Rightarrow> trimSpace (ipRecordingID p));
                 liked = (ipLiked p \<or> playlistID0 = likedID);
                 playlistID = (if liked then likedID else playlistID0);
                 itemID = (if liked then likedItemID E likedID recordingID else itemID0)
             in bindDB (if liked then bindDB (oplogMutationTime E e) (ensureLikedPlaylistTx E libraryID (oeDeviceID e))
                        else okDB ()) (\<lambda>_.
                bindDB (queryDB E (\<lambda>s. livePlaylists s libraryID playlistID)) (\<lambda>playlistCount.
                  if playlistCount = 0
                  then failDB (''playlist '' @ quoted (deLib E) playlistID @ '' does not exist for playlist item op'')
                  else
                    bindDB (oplogMutationTime E e) (\<lambda>mutatedAt.
                      let key = trimSpace (ipPositionKey p) in
                      execDB E (\<lambda>s. s\<lparr>rpItems := upsertRow (libraryID, playlistID, itemID)
                        \<lparr>piTrackVariantID = recordingID, piAddedAt = mutatedAt, piUpdatedAt = mutatedAt,
                         piPositionKey = key, piDeletedAt = None\<rparr>
                        (\<lambda>old. old\<lparr>piTrackVariantID := recordingID, piPositionKey := key,
                           piUpdatedAt := mutatedAt, piDeletedAt := None\<rparr>) (rpItems s)\<rparr>))))))"

definition dropPlaylistItem :: "replicaEnv \<Rightarrow> string \<Rightarrow> oplogEntry \<Rightarrow> playlistItemPayload \<Rightarrow> unit replicaDB" where
  "dropPlaylistItem E libraryID e p =
     (let likedID = likedPlaylistIDForLibrary E libraryID;
          playlistID = (if ipLiked p \<or> trimSpace (ipPlaylistID p) = '''' then likedID
                        else trimSpace (ipPlaylistID p));
          itemID0 = firstNonEmpty [ipItemID p, oeEntityID e]
      in bindDB (if playlistID = likedID
                 then resolvePlaylistLibraryRecordingIDTx E libraryID (ipRecordingID p)
                 else okDB None) (\<lambda>found.
           let itemID = (case found of Some r \<Rightarrow> likedItemID E playlistID r | None \<Rightarrow> itemID0) in
           if trimSpace itemID = '''' then failDB ''playlist item id is required''
           else
             bindDB (oplogMutationTime E e) (\<lambda>mutatedAt.
               execDB E (\<lambda>s. s\<lparr>rpItems := updateRow (libraryID, playlistID, itemID)
                 (\<lambda>old. old\<lparr>piDeletedAt := Some mutatedAt, piUpdatedAt := mutatedAt\<rparr>) (rpItems s)\<rparr>))))"

definition applyPlaylistItemOplogEntryTx :: "replicaEnv \<Rightarrow> string \<Rightarrow> oplogEntry \<Rightarrow> unit replicaDB" where
  "applyPlaylistItemOplogEntryTx E libraryID e = ifLatest E libraryID e
     (if trimSpace (oeOpKind e) \<in> {''upsert'', ''move''} then
        bindDB (decodeEntry E ''playlist item oplog payload'' e (decodePlaylistItem (deLib E)))
          (putPlaylistItem E libraryID e)
      else if trimSpace (oeOpKind e) = ''delete'' then
        bindDB (decodeDelete E ''playlist item delete payload'' e (decodePlaylistItemDelete (deLib E)))
          (dropPlaylistItem E libraryID e)
      else unsupported E ''playlist item'' e)"

section \<open>Preferences, assets, caches and artwork\<close>

definition applyDeviceVariantPreferenceOplogEntryTx :: "replicaEnv \<Rightarrow> string \<Rightarrow> oplogEntry \<Rightarrow> unit replicaDB" where
  "applyDeviceVariantPreferenceOplogEntryTx E libraryID e = ifLatest E libraryID e
     (if trimSpace (oeOpKind e) \<noteq> ''upsert'' then unsupported E ''device variant preference'' e
      else
        bindDB (decodeEntry E ''device variant preference payload'' e (decodePreference (deLib E))) (\<lambda>p.
          let (deviceID, scopeType, clusterID) = deviceVariantPreferenceIdentityForEntry e p in
          if deviceID = '''' \<or> scopeType = '''' \<or> clusterID = ''''
          then failDB ''device variant preference identity is required''
          else
            bindDB (oplogPayloadTime E (vpUpdatedAtNS p) e) (\<lambda>updatedAt.
              let row = \<lparr>vrChosenVariantID = trimSpace (vpChosenVariantID p), vrUpdatedAt = updatedAt\<rparr>
              in execDB E (\<lambda>s. s\<lparr>rpPreferences :=
                   upsertRow (libraryID, deviceID, scopeType, clusterID) row (\<lambda>_. row) (rpPreferences s)\<rparr>))))"

definition applyOptimizedAssetOplogEntryTx :: "replicaEnv \<Rightarrow> string \<Rightarrow> oplogEntry \<Rightarrow> unit replicaDB" where
  "applyOptimizedAssetOplogEntryTx E libraryID e = ifLatest E libraryID e
     (if trimSpace (oeOpKind e) = ''upsert'' then
        bindDB (decodeEntry E ''optimized asset payload'' e (decodeAsset (deLib E))) (\<lambda>p.
          let assetID = firstNonEmpty [apAssetID p, oeEntityID e] in
          if assetID = '''' then failDB ''optimized asset id is required''
          else
            bindDB (oplogPayloadTime E (apCreatedAtNS p) e) (\<lambda>createdAt.
            bindDB (oplogPayloadTime E (apUpdatedAtNS p) e) (\<lambda>updatedAt.
              let row = \<lparr>arSourceFileID = trimSpace (apSourceFileID p),
                    arTrackVariantID = trimSpace (apTrackVariantID p), arProfile = trimSpace (apProfile p),
                    arBlobID = trimSpace (apBlobID p), arMIME = trimSpace (apMIME p),
                    arDurationMS = apDurationMS p, arBitrate = apBitrate p, arCodec = trimSpace (apCodec p),
                    arContainer = trimSpace (apContainer p),
                    arCreatedByDeviceID = trimSpace (apCreatedByDeviceID p), arCreatedAt = createdAt,
                    arUpdatedAt = updatedAt\<rparr>
              in execDB E (\<lambda>s. s\<lparr>rpAssets := upsertRow (libraryID, assetID) row
                   (\<lambda>old. row\<lparr>arCreatedAt := arCreatedAt old\<rparr>) (rpAssets s)\<rparr>))))
      else if trimSpace (oeOpKind e) = ''delete'' then
        bindDB (decodeDelete E ''optimized asset delete payload'' e (decodeAssetDelete (deLib E))) (\<lambda>p.
          let assetID = firstNonEmpty [p, oeEntityID e] in
          if assetID = '''' then failDB ''optimized asset id is required''
          else
            bindDB (execDB E (\<lambda>s. s\<lparr>rpCaches :=
              filter (\<lambda>r. \<not> (fst (fst r) = libraryID \<and> snd (snd (fst r)) = assetID)) (rpCaches s)\<rparr>)) (\<lambda>_.
            execDB E (\<lambda>s. s\<lparr>rpAssets := deleteRow (libraryID, assetID) (rpAssets s)\<rparr>)))
      else unsupported E ''optimized asset'' e)"

definition applyDeviceAssetCacheOplogEntryTx :: "replicaEnv \<Rightarrow> string \<Rightarrow> oplogEntry \<Rightarrow> unit replicaDB" where
  "applyDeviceAssetCacheOplogEntryTx E libraryID e = ifLatest E libraryID e
     (if trimSpace (oeOpKind e) \<noteq> ''upsert'' then unsupported E ''device asset cache'' e
      else
        bindDB (decodeEntry E ''device asset cache payload'' e (decodeCache (deLib E))) (\<lambda>p.
          let (deviceID, assetID) = deviceAssetCacheIdentityForEntry e p in
          if deviceID = '''' \<or> assetID = '''' then failDB ''device asset cache identity is required''
          else
            bindDB (if cpHasLastVerifiedAt p
                    then bindDB (oplogPayloadTime E (cpLastVerifiedAtNS p) e) (\<lambda>at. okDB (Some at))
                    else okDB None) (\<lambda>lastVerifiedAt.
            bindDB (oplogPayloadTime E (cpUpdatedAtNS p) e) (\<lambda>updatedAt.
              let row = \<lparr>crIsCached = cpIsCached p, crLastVerifiedAt = lastVerifiedAt, crUpdatedAt = updatedAt\<rparr>
              in execDB E (\<lambda>s. s\<lparr>rpCaches := upsertRow (libraryID, deviceID, assetID) row (\<lambda>_. row)
                   (rpCaches s)\<rparr>)))))"

definition applyArtworkVariantOplogEntryTx :: "replicaEnv \<Rightarrow> string \<Rightarrow> oplogEntry \<Rightarrow> unit replicaDB" where
  "applyArtworkVariantOplogEntryTx E libraryID e = ifLatest E libraryID e
     (if trimSpace (oeOpKind e) = ''upsert'' then
        bindDB (decodeEntry E ''artwork variant payload'' e (decodeArtwork (deLib E))) (\<lambda>p.
          let (scopeType, scopeID, variant) =
                artworkVariantIdentityForEntry e (wpScopeType p) (wpScopeID p) (wpVariant p) in
          if scopeType = '''' \<or> scopeID = '''' \<or> variant = '''' then failDB ''artwork variant identity is required''
          else
            bindDB (oplogPayloadTime E (wpUpdatedAtNS p) e) (\<lambda>updatedAt.
              let row = \<lparr>wrBlobID = trimSpace (wpBlobID p), wrMIME = trimSpace (wpMIME p),
                    wrFileExt = normalizeArtworkFileExt E (wpFileExt p) (wpMIME p), wrW = wpW p, wrH = wpH p,
                    wrBytes = wpBytes p, wrChosenSource = trimSpace (wpChosenSource p),
                    wrChosenSourceRef = '''', wrUpdatedAt = updatedAt\<rparr>
              in execDB E (\<lambda>s. s\<lparr>rpArtwork := upsertRow (libraryID, scopeType, scopeID, variant) row
                   (\<lambda>_. row) (rpArtwork s)\<rparr>)))
      else if trimSpace (oeOpKind e) = ''delete'' then
        bindDB (decodeDelete E ''artwork variant delete payload'' e (decodeArtworkDelete (deLib E))) (\<lambda>p.
          let (scopeType, scopeID, variant) =
                artworkVariantIdentityForEntry e (fst p) (fst (snd p)) (snd (snd p)) in
          if scopeType = '''' \<or> scopeID = '''' \<or> variant = '''' then failDB ''artwork variant identity is required''
          else execDB E (\<lambda>s. s\<lparr>rpArtwork :=
                 deleteRow (libraryID, scopeType, scopeID, variant) (rpArtwork s)\<rparr>))
      else unsupported E ''artwork variant'' e)"

section \<open>Any entry\<close>

definition applyOplogEntryTx :: "replicaEnv \<Rightarrow> string \<Rightarrow> oplogEntry \<Rightarrow> unit replicaDB" where
  "applyOplogEntryTx E libraryID e =
     (let t = trimSpace (oeEntityType e) in
      if t = ''library'' then applyLibraryOplogEntryTx E libraryID e
      else if t = ''scan_roots'' then okDB ()
      else if t = ''source_file'' then applySourceFileOplogEntryTx E libraryID e
      else if t = ''playlist'' then applyPlaylistOplogEntryTx E libraryID e
      else if t = ''playlist_item'' then applyPlaylistItemOplogEntryTx E libraryID e
      else if t = ''device_variant_preference'' then applyDeviceVariantPreferenceOplogEntryTx E libraryID e
      else if t = ''optimized_asset'' then applyOptimizedAssetOplogEntryTx E libraryID e
      else if t = ''device_asset_cache'' then applyDeviceAssetCacheOplogEntryTx E libraryID e
      else if t = ''artwork_variant'' then applyArtworkVariantOplogEntryTx E libraryID e
      else failDB (''unsupported entity type '' @ quoted (deLib E) t))"

end
