(* ===== verification/OplogSync.thy ===== *)
theory OplogSync
  imports OplogApply
begin

text \<open>
  Exchanging log entries with peers (\<open>service_sync.go\<close>) and their signatures (\<open>oplog_auth.go\<close>): which
  entries a peer is sent, how a received entry is checked, stored and applied.  An entry is stored as soon
  as it is verified, but applied only when all earlier entries of its device are there; the clock of a
  device is the number of its last applied entry.
\<close>

section \<open>Signatures\<close>

text \<open>The entry as it travels; \<open>checkpointOplogEntry\<close> has the fields of a row without its library.\<close>

definition checkpointEntryFromRow :: "replicaEnv \<Rightarrow> oplogEntry \<Rightarrow> oplogEntry" where
  "checkpointEntryFromRow E row =
     \<lparr>oeOpID = trimSpace (oeOpID row), oeDeviceID = trimSpace (oeDeviceID row), oeSeq = oeSeq row,
      oeTSNS = oeTSNS row, oeEntityType = trimSpace (oeEntityType row), oeEntityID = trimSpace (oeEntityID row),
      oeOpKind = trimSpace (oeOpKind row), oePayload = trimSpace (oePayload row),
      oeSignerPeerID = trimSpace (oeSignerPeerID row), oeSignerAuthorityVersion = oeSignerAuthorityVersion row,
      oeSignerCertSerial = oeSignerCertSerial row, oeSignerRole = normalizeLocalRole (deLib E) (oeSignerRole row),
      oeSignerIssuedAt = oeSignerIssuedAt row, oeSignerExpiresAt = oeSignerExpiresAt row,
      oeSignerCertSig = oeSignerCertSig row, oeSig = oeSig row\<rparr>"

definition oplogSigningPayload :: "replicaEnv \<Rightarrow> oplogEntry \<Rightarrow> string" where
  "oplogSigningPayload E e =
     (let str = (\<lambda>s. jsonString (deLib E) (trimSpace s)) in
      jsonObject
        [(''op_id'', str (oeOpID e)), (''device_id'', str (oeDeviceID e)), (''seq'', decimal (oeSeq e)),
         (''ts_ns'', decimal (oeTSNS e)), (''entity_type'', str (oeEntityType e)),
         (''entity_id'', str (oeEntityID e)), (''op_kind'', str (oeOpKind e)),
         (''payload'', str (oePayload e)), (''signer_peer_id'', str (oeSignerPeerID e)),
         (''signer_authority_version'', decimal (oeSignerAuthorityVersion e)),
         (''signer_cert_serial'', decimal (oeSignerCertSerial e)),
         (''signer_role'', jsonString (deLib E) (normalizeLocalRole (deLib E) (oeSignerRole e))),
         (''signer_issued_at'', decimal (oeSignerIssuedAt e)),
         (''signer_expires_at'', decimal (oeSignerExpiresAt e)),
         (''signer_cert_sig'', deJSONBytes E (oeSignerCertSig e))])"

definition admissionAuthorityEnvelopeFromRow :: "AdmissionAuthority \<Rightarrow> AdmissionAuthority" where
  "admissionAuthorityEnvelopeFromRow row =
     row\<lparr>aaPublicKey := trimSpace (aaPublicKey row), aaSignedByKind := trimSpace (aaSignedByKind row)\<rparr>"

text \<open>The versions of one library differ (they are its primary key), so any sort gives this list.\<close>

definition admissionAuthorityChainFromRows :: "AdmissionAuthority list \<Rightarrow> AdmissionAuthority list" where
  "admissionAuthorityChainFromRows rows = sort_key aaVersion (map admissionAuthorityEnvelopeFromRow rows)"

definition authorityRows :: "replica \<Rightarrow> string \<Rightarrow> AdmissionAuthority list" where
  "authorityRows s libraryID = map snd (filter (\<lambda>r. fst r = libraryID) (rpAuthorities s))"

definition signerCert :: "replicaEnv \<Rightarrow> string \<Rightarrow> oplogEntry \<Rightarrow> MembershipCert" where
  "signerCert E libraryID e =
     \<lparr>mcLibraryID = trimSpace libraryID, mcDeviceID = trimSpace (oeDeviceID e),
      mcPeerID = trimSpace (oeSignerPeerID e), mcRole = normalizeLocalRole (deLib E) (oeSignerRole e),
      mcAuthorityVersion = oeSignerAuthorityVersion e, mcSerial = oeSignerCertSerial e,
      mcIssuedAt = oeSignerIssuedAt e, mcExpiresAt = oeSignerExpiresAt e, mcSig = oeSignerCertSig e\<rparr>"

text \<open>The checks that need no query, and those of the certificate and of the signature.\<close>

definition signerMetadataError :: "oplogEntry \<Rightarrow> string option" where
  "signerMetadataError e =
     (if trimSpace (oeDeviceID e) = '''' \<or> trimSpace (oeOpID e) = '''' then Some ''invalid oplog identity fields''
      else if trimSpace (oeSignerPeerID e) = '''' \<or> oeSignerCertSerial e \<le> 0
        \<or> oeSignerAuthorityVersion e \<le> 0 \<or> oeSignerCertSig e = '''' then Some ''missing oplog signer metadata''
      else if oeSig e = '''' then Some ''missing oplog signature''
      else None)"

definition entrySignatureError ::
  "replicaEnv \<Rightarrow> string \<Rightarrow> AdmissionAuthority list \<Rightarrow> string \<Rightarrow> oplogEntry \<Rightarrow> string option" where
  "entrySignatureError E libraryID rows rootPublicKey e =
     (case verifyHistoricalMembershipCert (deLib E) (signerCert E libraryID e)
         (admissionAuthorityChainFromRows rows) (trimSpace rootPublicKey) libraryID (oeDeviceID e) (oeSignerPeerID e) of
        Some err \<Rightarrow> Some err
      | None \<Rightarrow>
          (case dePeerKey E (trimSpace (oeSignerPeerID e)) of
             Inl err \<Rightarrow> Some err
           | Inr pub \<Rightarrow>
               (case deKeyVerify E pub (oplogSigningPayload E e) (oeSig e) of
                  Inl err \<Rightarrow> Some (''verify oplog signature: '' @ err)
                | Inr ok \<Rightarrow> if ok then None else Some ''invalid oplog signature'')))"

definition verifyCheckpointOplogEntryTx :: "replicaEnv \<Rightarrow> string \<Rightarrow> oplogEntry \<Rightarrow> unit replicaDB" where
  "verifyCheckpointOplogEntryTx E libraryID e =
     (case signerMetadataError e of
        Some err \<Rightarrow> failDB err
      | None \<Rightarrow>
          bindDB (queryDB E (\<lambda>s. sort_key aaVersion (authorityRows s (trimSpace libraryID)))) (\<lambda>rows.
          bindDB (queryDB E (\<lambda>s. map_of (rpLibraries s) (trimSpace libraryID))) (\<lambda>library.
            case library of
              None \<Rightarrow> failDB ''record not found''
            | Some l \<Rightarrow>
                (case entrySignatureError E libraryID rows (lbRootPublicKey l) e of
                   Some err \<Rightarrow> failDB err
                 | None \<Rightarrow> okDB ()))))"

section \<open>Receiving entries\<close>

definition deviceClockSeqTx :: "replicaEnv \<Rightarrow> string \<Rightarrow> string \<Rightarrow> int replicaDB" where
  "deviceClockSeqTx E libraryID deviceID =
     bindDB (queryDB E (\<lambda>s. map_of (rpClocks s) (trimSpace libraryID, trimSpace deviceID))) (\<lambda>clock.
       okDB (case clock of None \<Rightarrow> 0 | Some n \<Rightarrow> n))"

definition upsertDeviceClockTx :: "replicaEnv \<Rightarrow> string \<Rightarrow> string \<Rightarrow> int \<Rightarrow> unit replicaDB" where
  "upsertDeviceClockTx E libraryID deviceID n = setClock E (trimSpace libraryID) (trimSpace deviceID) n"

definition deviceEntries :: "replica \<Rightarrow> string \<Rightarrow> string \<Rightarrow> oplogEntry list" where
  "deviceEntries s libraryID deviceID =
     map snd (filter (\<lambda>r. fst r = libraryID \<and> oeDeviceID (snd r) = deviceID) (rpOplog s))"

fun applyRun :: "replicaEnv \<Rightarrow> string \<Rightarrow> int \<Rightarrow> oplogEntry list \<Rightarrow> int replicaDB" where
  "applyRun E libraryID appliedUntil [] = okDB appliedUntil"
| "applyRun E libraryID appliedUntil (row # rows) =
     (if oeSeq row \<noteq> appliedUntil + 1 then okDB appliedUntil
      else bindDB (applyOplogEntryTx E libraryID row) (\<lambda>_. applyRun E libraryID (oeSeq row) rows))"

definition applyBufferedDeviceOplogTx :: "replicaEnv \<Rightarrow> string \<Rightarrow> string \<Rightarrow> int \<Rightarrow> int replicaDB" where
  "applyBufferedDeviceOplogTx E libraryID deviceID nextSeq =
     bindDB (queryDB E (\<lambda>s. sort_key oeSeq
       (filter (\<lambda>e. nextSeq \<le> oeSeq e) (deviceEntries s (trimSpace libraryID) (trimSpace deviceID))))) (\<lambda>rows.
     bindDB (applyRun E (trimSpace libraryID) (nextSeq - 1) rows) (\<lambda>appliedUntil.
     bindDB (if appliedUntil \<ge> nextSeq then upsertDeviceClockTx E libraryID deviceID appliedUntil else okDB ()) (\<lambda>_.
       okDB appliedUntil)))"

definition rowFromRemote :: "replicaEnv \<Rightarrow> oplogEntry \<Rightarrow> oplogEntry" where
  "rowFromRemote E op =
     \<lparr>oeOpID = trimSpace (oeOpID op), oeDeviceID = trimSpace (oeDeviceID op), oeSeq = oeSeq op,
      oeTSNS = oeTSNS op, oeEntityType = trimSpace (oeEntityType op), oeEntityID = trimSpace (oeEntityID op),
      oeOpKind = trimSpace (oeOpKind op), oePayload = (if oePayload op = '''' then ''{}'' else oePayload op),
      oeSignerPeerID = trimSpace (oeSignerPeerID op), oeSignerAuthorityVersion = oeSignerAuthorityVersion op,
      oeSignerCertSerial = oeSignerCertSerial op, oeSignerRole = normalizeLocalRole (deLib E) (oeSignerRole op),
      oeSignerIssuedAt = oeSignerIssuedAt op, oeSignerExpiresAt = oeSignerExpiresAt op,
      oeSignerCertSig = oeSignerCertSig op, oeSig = oeSig op\<rparr>"

text \<open>Up to the insertion of the row; \<open>None\<close> when the log has the entry, else the clock before it.\<close>

definition insertRemoteOp :: "replicaEnv \<Rightarrow> string \<Rightarrow> oplogEntry \<Rightarrow> int option replicaDB" where
  "insertRemoteOp E libraryID op =
     bindDB (queryDB E (\<lambda>s. length (filter (\<lambda>r. fst r = trimSpace libraryID \<and> oeOpID (snd r) = trimSpace (oeOpID op))
       (rpOplog s)))) (\<lambda>existing.
       if existing > 0 then okDB None
       else
         bindDB (verifyCheckpointOplogEntryTx E libraryID op) (\<lambda>_.
         bindDB (deviceClockSeqTx E libraryID (oeDeviceID op)) (\<lambda>lastSeq.
         bindDB (stmtDB E (insertOplog (trimSpace libraryID) (rowFromRemote E op))) (\<lambda>_. okDB (Some lastSeq)))))"

definition applyRemoteOpTx :: "replicaEnv \<Rightarrow> string \<Rightarrow> oplogEntry \<Rightarrow> int replicaDB" where
  "applyRemoteOpTx E libraryID op =
     bindDB (insertRemoteOp E libraryID op) (\<lambda>inserted.
       case inserted of
         None \<Rightarrow> okDB 0
       | Some lastSeq \<Rightarrow>
           if oeSeq op \<noteq> lastSeq + 1 then okDB 1
           else bindDB (applyBufferedDeviceOplogTx E libraryID (trimSpace (oeDeviceID op)) (lastSeq + 1)) (\<lambda>_. okDB 1))"

text \<open>
  The number of inserted entries and the error.  The number is a variable of the caller of the
  transaction: it stays 1 when the transaction fails after the insertion.
\<close>

definition applyRemoteOp ::
  "replicaEnv \<Rightarrow> string \<Rightarrow> oplogEntry \<Rightarrow> replica \<Rightarrow> (int \<times> string option) \<times> replica" where
  "applyRemoteOp E libraryID op s =
     (case transaction E (applyRemoteOpTx E libraryID op) s of
        (Inr n, t) \<Rightarrow> ((n, None), t)
      | (Inl err, t) \<Rightarrow>
          ((if dbFault E (dbCalls s) = None then
              (case fst (insertRemoteOp E libraryID op (countCall s)) of Inr (Some _) \<Rightarrow> 1 | _ \<Rightarrow> 0)
            else 0, Some err), t))"

fun applyRemoteOpsSummary ::
  "replicaEnv \<Rightarrow> string \<Rightarrow> int \<Rightarrow> bool \<Rightarrow> oplogEntry list \<Rightarrow> replica \<Rightarrow> (int \<times> bool \<times> string option) \<times> replica" where
  "applyRemoteOpsSummary E libraryID applied needsCatalogRebuild [] s = ((applied, needsCatalogRebuild, None), s)"
| "applyRemoteOpsSummary E libraryID applied needsCatalogRebuild (op # ops) s =
     (case applyRemoteOp E libraryID op s of
        ((inserted, err), t) \<Rightarrow>
          (let rebuild = (needsCatalogRebuild \<or> trimSpace (oeEntityType op) = ''source_file'') in
           if err \<noteq> None then ((applied + inserted, rebuild, err), t)
           else applyRemoteOpsSummary E libraryID (applied + inserted) rebuild ops t))"

section \<open>Clocks\<close>

definition clockRows :: "replica \<Rightarrow> string \<Rightarrow> (string \<times> int) list" where
  "clockRows s libraryID = map (\<lambda>r. (snd (fst r), snd r)) (filter (\<lambda>r. fst (fst r) = libraryID) (rpClocks s))"

definition listDeviceClocks :: "replicaEnv \<Rightarrow> string \<Rightarrow> (string \<times> int) list replicaDB" where
  "listDeviceClocks E libraryID =
     queryDB E (\<lambda>s. orderBy (\<lambda>a b. keyBefore (fst a) (fst b)) (clockRows s (trimSpace libraryID)))"

text \<open>A map of Go as an association list; reading an absent key gives 0.\<close>

definition clocksToMap :: "(string \<times> int) list \<Rightarrow> (string \<times> int) list" where
  "clocksToMap rows = foldl (\<lambda>m r. AList.update (trimSpace (fst r)) (snd r) m) [] rows"

definition clockAt :: "(string \<times> int) list \<Rightarrow> string \<Rightarrow> int" where
  "clockAt m deviceID = (case map_of m deviceID of None \<Rightarrow> 0 | Some n \<Rightarrow> n)"

definition requesterNeedsCheckpoint :: "(string \<times> int) list \<Rightarrow> (string \<times> int) list \<Rightarrow> bool" where
  "requesterNeedsCheckpoint requestClocks baseClocks \<longleftrightarrow>
     list_ex (\<lambda>b. snd b > 0 \<and> clockAt requestClocks (trimSpace (fst b)) < snd b) baseClocks"

definition clocksCoverCheckpoint :: "(string \<times> int) list \<Rightarrow> (string \<times> int) list \<Rightarrow> bool" where
  "clocksCoverCheckpoint clocks baseClocks \<longleftrightarrow>
     list_all (\<lambda>b. \<not> clockAt clocks (trimSpace (fst b)) < snd b) baseClocks"

section \<open>The entries a peer is sent\<close>

definition defaultSyncBatchSize :: int where
  "defaultSyncBatchSize = 500"

definition entryBefore :: "oplogEntry \<Rightarrow> oplogEntry \<Rightarrow> bool" where
  "entryBefore a b \<longleftrightarrow>
     (if oeTSNS a = oeTSNS b then
        (if oeDeviceID a = oeDeviceID b then
           (if oeSeq a = oeSeq b then keyBefore (oeOpID a) (oeOpID b) else oeSeq a < oeSeq b)
         else keyBefore (oeDeviceID a) (oeDeviceID b))
      else oeTSNS a < oeTSNS b)"

definition sortCheckpointEntries :: "oplogEntry list \<Rightarrow> oplogEntry list" where
  "sortCheckpointEntries es = orderBy entryBefore es"

definition listOplogByDevice :: "replicaEnv \<Rightarrow> string \<Rightarrow> string \<Rightarrow> int \<Rightarrow> int \<Rightarrow> oplogEntry list replicaDB" where
  "listOplogByDevice E libraryID deviceID sinceSeq limit0 =
     (let limit = (if limit0 \<le> 0 then defaultSyncBatchSize else limit0) in
      bindDB (queryDB E (\<lambda>s. take (nat limit) (sort_key oeSeq
        (filter (\<lambda>e. sinceSeq > 0 \<longrightarrow> oeSeq e > sinceSeq)
          (deviceEntries s (trimSpace libraryID) (trimSpace deviceID)))))) (\<lambda>rows.
        okDB (map (checkpointEntryFromRow E) rows)))"

text \<open>The clocks in turn: what is missing of each device, and its first entries.\<close>

fun collectBacklogs ::
  "replicaEnv \<Rightarrow> string \<Rightarrow> (string \<times> int) list \<Rightarrow> int \<Rightarrow> int \<Rightarrow> oplogEntry list list \<Rightarrow> (string \<times> int) list
    \<Rightarrow> (int \<times> oplogEntry list list) replicaDB" where
  "collectBacklogs E libraryID clocks limit totalMissing acc [] = okDB (totalMissing, rev acc)"
| "collectBacklogs E libraryID clocks limit totalMissing acc (c # rest) =
     (let deviceID = trimSpace (fst c);
          since = clockAt clocks deviceID;
          missing = snd c - since
      in if missing \<le> 0 then collectBacklogs E libraryID clocks limit totalMissing acc rest
         else
           bindDB (listOplogByDevice E libraryID deviceID since limit) (\<lambda>entries.
             collectBacklogs E libraryID clocks limit (totalMissing + missing) (entries # acc) rest))"

text \<open>One round takes an entry of each backlog while there is room; the rounds end with one that takes none.\<close>

fun takeRound :: "nat \<Rightarrow> 'a list list \<Rightarrow> 'a list \<times> 'a list list" where
  "takeRound room [] = ([], [])"
| "takeRound 0 bs = ([], bs)"
| "takeRound (Suc room) ([] # bs) = (case takeRound (Suc room) bs of (xs, rest) \<Rightarrow> (xs, [] # rest))"
| "takeRound (Suc room) ((x # b) # bs) = (case takeRound room bs of (xs, rest) \<Rightarrow> (x # xs, b # rest))"

lemma length_takeRound: "length (fst (takeRound room bs)) \<le> room"
  by (induction room bs rule: takeRound.induct) (auto split: prod.splits)

function takeRounds :: "nat \<Rightarrow> 'a list list \<Rightarrow> 'a list" where
  "takeRounds room bs =
     (case takeRound room bs of (xs, rest) \<Rightarrow>
        if xs = [] then [] else xs @ takeRounds (room - length xs) rest)"
  by pat_completeness auto

termination
proof (relation "measure fst")
  fix room and bs rest :: "'a list list" and xs :: "'a list"
  assume "(xs, rest) = takeRound room bs" "xs \<noteq> []"
  then have "0 < length xs" "length xs \<le> room" using length_takeRound [of room bs] by (simp, metis fst_conv)
  then show "((room - length xs, rest), room, bs) \<in> measure fst" by (simp only: in_measure fst_conv)
qed simp

record syncBatch =
  sbOps :: "oplogEntry list"
  sbHasMore :: bool
  sbRemainingOps :: int
  sbTotalMissing :: int

definition selectSyncBatch :: "replicaEnv \<Rightarrow> string \<Rightarrow> (string \<times> int) list \<Rightarrow> int \<Rightarrow> syncBatch replicaDB" where
  "selectSyncBatch E libraryID clocks limit0 =
     (let limit = (if limit0 \<le> 0 then defaultSyncBatchSize else limit0) in
      bindDB (listDeviceClocks E libraryID) (\<lambda>deviceClocks.
      bindDB (collectBacklogs E libraryID clocks limit 0 [] deviceClocks) (\<lambda>(totalMissing, backlogs).
        let ops = sortCheckpointEntries (takeRounds (nat limit) backlogs);
            remaining = max 0 (totalMissing - int (length ops))
        in okDB \<lparr>sbOps = ops, sbHasMore = remaining > 0, sbRemainingOps = remaining,
             sbTotalMissing = totalMissing\<rparr>)))"

section \<open>Replacing the state by a checkpoint\<close>

definition tailOps :: "replica \<Rightarrow> string \<Rightarrow> (string \<times> int) list \<Rightarrow> oplogEntry list" where
  "tailOps s libraryID baseClocks =
     filter (\<lambda>e. \<not> oeSeq e \<le> clockAt baseClocks (trimSpace (oeDeviceID e)))
       (orderBy entryBefore (map snd (filter (\<lambda>r. fst r = libraryID) (rpOplog s))))"

definition selectCheckpointTailOpsTx ::
  "replicaEnv \<Rightarrow> string \<Rightarrow> (string \<times> int) list \<Rightarrow> oplogEntry list replicaDB" where
  "selectCheckpointTailOpsTx E libraryID baseClocks =
     queryDB E (\<lambda>s. tailOps s (trimSpace libraryID) baseClocks)"

text \<open>The entries of one chunk after the other, each chunk in the order of its time stamps.\<close>

fun insertEntries :: "replicaEnv \<Rightarrow> string \<Rightarrow> oplogEntry list \<Rightarrow> unit replicaDB" where
  "insertEntries E libraryID [] = okDB ()"
| "insertEntries E libraryID (e # es) =
     bindDB (verifyCheckpointOplogEntryTx E libraryID e) (\<lambda>_.
     bindDB (stmtDB E (insertOplog (trimSpace libraryID) (rowFromRemote E e))) (\<lambda>_.
       insertEntries E libraryID es))"

fun insertCheckpointOpsTx :: "replicaEnv \<Rightarrow> string \<Rightarrow> oplogEntry list list \<Rightarrow> unit replicaDB" where
  "insertCheckpointOpsTx E libraryID [] = okDB ()"
| "insertCheckpointOpsTx E libraryID (chunk # chunks) =
     bindDB (insertEntries E libraryID (sortCheckpointEntries chunk)) (\<lambda>_.
       insertCheckpointOpsTx E libraryID chunks)"

end
