(* ===== verification/ReplicaLaws.thy ===== *)
theory ReplicaLaws
  imports OplogSync
begin

text \<open>
  What the application of log entries keeps.  The interface \<open>replica_frame\<close> extends \<open>db_frame\<close> by the
  statements that replication uses; inside it, one lemma per handler names the tables it writes, so that
  ``a handler keeps this relation'' is a question about these tables alone.  It is interpreted for ``the log
  and the clocks stay'' here and for each replicated table in \<open>Registers\<close>.
\<close>

section \<open>The interface\<close>

locale replica_frame = db_frame rel for rel :: "replica \<Rightarrow> replica \<Rightarrow> bool"
begin

lemma kept_lift: "kept (liftDB r)"
  by (simp add: kept_def liftDB_def unchanged)

lemma kept_stmt: "(\<And>s t. f s = Inr t \<Longrightarrow> rel s t) \<Longrightarrow> kept (stmtDB E f)"
  using composed [OF counted]
  by (auto simp: kept_def stmtDB_def counted split: option.split sum.split)

lemma kept_mutationTime: "kept (oplogMutationTime E e)"
  by (simp add: oplogMutationTime_def kept_clock kept_ok)

lemma kept_payloadTime: "kept (oplogPayloadTime E n e)"
  by (simp add: oplogPayloadTime_def kept_mutationTime kept_ok)

lemma kept_decode: "kept (decodeEntry E label e d)" "kept (decodeDelete E label e d)"
  by (simp_all add: decodeEntry_def decodeDelete_def kept_lift)

lemma kept_ifLatest: "kept m \<Longrightarrow> kept (ifLatest E l e m)"
  by (auto simp: ifLatest_def shouldApplyLatestMutationTx_def kept_query kept_ok
      intro!: kept_bind split: option.split)

lemma kept_unsupported: "kept (unsupported E what e)"
  by (simp add: unsupported_def kept_ok)

lemmas kept_steps = kept_bind kept_ok kept_query kept_clock kept_lift kept_mutationTime kept_payloadTime
  kept_decode kept_unsupported

lemma kept_resolve: "kept (resolvePlaylistLibraryRecordingIDTx E l r)"
  by (auto simp: resolvePlaylistLibraryRecordingIDTx_def Let_def intro!: kept_steps split: option.split)

lemma kept_library:
  "(\<And>s f. rel s (rpLibraries_update f s)) \<Longrightarrow> kept (applyLibraryOplogEntryTx E l e)"
  unfolding applyLibraryOplogEntryTx_def Let_def
  by (intro kept_ifLatest) (auto intro!: kept_steps kept_exec)

lemma kept_artist: "(\<And>s f. rel s (rpArtists_update f s)) \<Longrightarrow> kept (upsertArtist E l a row)"
  unfolding upsertArtist_def by (auto intro!: kept_exec)

lemma kept_credit: "(\<And>s f. rel s (rpCredits_update f s)) \<Longrightarrow> kept (insertCredit E c)"
  unfolding insertCredit_def by (auto intro!: kept_exec)

lemma kept_artists:
  assumes "\<And>s f. rel s (rpArtists_update f s)" "\<And>s f. rel s (rpCredits_update f s)"
  shows "kept (upsertArtistsAndCredits E l t a names albumArtist)"
proof -
  have "kept (creditArtists E l t idx seen ns)" for idx seen ns
    by (induction ns arbitrary: idx seen)
      (auto simp: Let_def intro!: kept_steps kept_artist kept_credit assms)
  then show ?thesis
    by (auto simp: upsertArtistsAndCredits_def Let_def intro!: kept_steps kept_artist kept_credit assms)
qed

lemma kept_ingestPath:
  assumes "\<And>s f. rel s (rpSourceFiles_update f s)" "\<And>s f. rel s (rpLocalPaths_update f s)"
  shows "kept (ingestPath E i fp at)"
  using assms
  by (auto simp: ingestPath_def upsertLocalSourcePathTx_def resolveStoredSourcePathTx_def
      localSourcePathTx_def Let_def intro!: kept_steps kept_exec split: option.split)

lemma kept_ingest:
  assumes "\<And>s f. rel s (rpArtists_update f s)" "\<And>s f. rel s (rpCredits_update f s)"
    "\<And>s f. rel s (rpSourceFiles_update f s)" "\<And>s f. rel s (rpLocalPaths_update f s)"
    "\<And>s f. rel s (rpAlbumVariants_update f s)" "\<And>s f. rel s (rpTrackVariants_update f s)"
    "\<And>s f. rel s (rpAlbumTracks_update f s)"
  shows "kept (upsertIngestTx E i at present)"
proof -
  have put: "kept (stmtDB E (\<lambda>s. map_sum id (\<lambda>rows. s\<lparr>rpSourceFiles := rows\<rparr>) (g s)))" for g
  proof (rule kept_stmt)
    fix s t assume "map_sum id (\<lambda>rows. s\<lparr>rpSourceFiles := rows\<rparr>) (g s) = Inr t"
    then show "rel s t" using assms(3) by (cases "g s") auto
  qed
  show ?thesis
    unfolding upsertIngestTx_def upsertAlbumVariant_def upsertTrackVariant_def Let_def
    by (auto intro!: kept_steps kept_exec put kept_artists kept_ingestPath assms split: prod.split)
qed

lemma kept_sourceFile:
  assumes "\<And>s f. rel s (rpArtists_update f s)" "\<And>s f. rel s (rpCredits_update f s)"
    "\<And>s f. rel s (rpSourceFiles_update f s)" "\<And>s f. rel s (rpLocalPaths_update f s)"
    "\<And>s f. rel s (rpAlbumVariants_update f s)" "\<And>s f. rel s (rpTrackVariants_update f s)"
    "\<And>s f. rel s (rpAlbumTracks_update f s)"
  shows "kept (applySourceFileOplogEntryTx E l e)"
  unfolding applySourceFileOplogEntryTx_def Let_def
  by (intro kept_ifLatest) (auto intro!: kept_steps kept_exec kept_ingest assms split: prod.split)

lemma kept_playlist:
  "(\<And>s f. rel s (rpPlaylists_update f s)) \<Longrightarrow> kept (applyPlaylistOplogEntryTx E l e)"
  unfolding applyPlaylistOplogEntryTx_def Let_def
  by (intro kept_ifLatest) (auto intro!: kept_steps kept_exec)

lemma kept_ensureLiked:
  "(\<And>s f. rel s (rpPlaylists_update f s)) \<Longrightarrow> kept (ensureLikedPlaylistTx E l d now)"
  by (auto simp: ensureLikedPlaylistTx_def Let_def intro!: kept_steps kept_exec)

lemma kept_playlistItem:
  assumes "\<And>d now. kept (ensureLikedPlaylistTx E l d now)" "\<And>s f. rel s (rpItems_update f s)"
  shows "kept (applyPlaylistItemOplogEntryTx E l e)"
proof -
  have "kept (putPlaylistItem E l e p)" "kept (dropPlaylistItem E l e p)" for p
    unfolding putPlaylistItem_def dropPlaylistItem_def Let_def
    by (auto intro!: kept_steps kept_exec kept_resolve assms split: option.split)
  then show ?thesis
    unfolding applyPlaylistItemOplogEntryTx_def
    by (intro kept_ifLatest) (auto intro!: kept_steps)
qed

lemma kept_preference:
  "(\<And>s f. rel s (rpPreferences_update f s)) \<Longrightarrow> kept (applyDeviceVariantPreferenceOplogEntryTx E l e)"
  unfolding applyDeviceVariantPreferenceOplogEntryTx_def Let_def
  by (intro kept_ifLatest) (auto intro!: kept_steps kept_exec split: prod.split)

lemma kept_asset:
  "(\<And>s f. rel s (rpAssets_update f s)) \<Longrightarrow> (\<And>s f. rel s (rpCaches_update f s))
    \<Longrightarrow> kept (applyOptimizedAssetOplogEntryTx E l e)"
  unfolding applyOptimizedAssetOplogEntryTx_def Let_def
  by (intro kept_ifLatest) (auto intro!: kept_steps kept_exec)

lemma kept_cache:
  "(\<And>s f. rel s (rpCaches_update f s)) \<Longrightarrow> kept (applyDeviceAssetCacheOplogEntryTx E l e)"
  unfolding applyDeviceAssetCacheOplogEntryTx_def Let_def
  by (intro kept_ifLatest) (auto intro!: kept_steps kept_exec split: prod.split)

lemma kept_artwork:
  "(\<And>s f. rel s (rpArtwork_update f s)) \<Longrightarrow> kept (applyArtworkVariantOplogEntryTx E l e)"
  unfolding applyArtworkVariantOplogEntryTx_def Let_def
  by (intro kept_ifLatest) (auto intro!: kept_steps kept_exec split: prod.split)

end

section \<open>Tables\<close>

text \<open>Equal up to the counters of calls and clock readings.\<close>

definition sameData :: "replica \<Rightarrow> replica \<Rightarrow> bool" where
  "sameData s t \<longleftrightarrow> (\<exists>c k. t = s\<lparr>dbCalls := c, dbTicks := k\<rparr>)"

lemma sameData_tables:
  assumes "sameData s t"
  shows "rpOplog t = rpOplog s" "rpClocks t = rpClocks s" "rpArtwork t = rpArtwork s"
    "rpPreferences t = rpPreferences s" "rpPlaylists t = rpPlaylists s" "rpItems t = rpItems s"
    "rpLibraries t = rpLibraries s" "rpAuthorities t = rpAuthorities s" "rpTrackVariants t = rpTrackVariants s"
  using assms by (auto simp: sameData_def)

lemma sameData_counters [simp]:
  "sameData s s" "sameData s (countCall s)" "sameData s (s\<lparr>dbTicks := n\<rparr>)" "sameData s (rollbackTo s t)"
proof -
  have "s = s\<lparr>dbCalls := dbCalls s, dbTicks := dbTicks s\<rparr>" by simp
  then show "sameData s s" unfolding sameData_def by blast
  have "countCall s = s\<lparr>dbCalls := Suc (dbCalls s), dbTicks := dbTicks s\<rparr>" by (simp add: countCall_def)
  then show "sameData s (countCall s)" unfolding sameData_def by blast
  have "s\<lparr>dbTicks := n\<rparr> = s\<lparr>dbCalls := dbCalls s, dbTicks := n\<rparr>" by simp
  then show "sameData s (s\<lparr>dbTicks := n\<rparr>)" unfolding sameData_def by blast
  show "sameData s (rollbackTo s t)" unfolding sameData_def rollbackTo_def by blast
qed

lemma sameData_trans [trans]: "sameData s t \<Longrightarrow> sameData t u \<Longrightarrow> sameData s u"
  by (fastforce simp: sameData_def)

lemma transaction_failed: "transaction E m s = (Inl err, t) \<Longrightarrow> sameData s t"
  by (auto simp: transaction_def split: option.splits prod.splits sum.splits)

section \<open>The latest entry\<close>

definition isLatest :: "replica \<Rightarrow> string \<Rightarrow> oplogEntry \<Rightarrow> bool" where
  "isLatest s l e \<longleftrightarrow>
     (case latestMutation (rpOplog s) l (oeEntityType e) (oeEntityID e) of
        None \<Rightarrow> 0 = oeTSNS e \<and> '''' = trimSpace (oeOpID e)
      | Some x \<Rightarrow> oeTSNS x = oeTSNS e \<and> trimSpace (oeOpID x) = trimSpace (oeOpID e))"

lemma shouldApply_result:
  "shouldApplyLatestMutationTx E l e s = (Inr b, t) \<longleftrightarrow>
     dbFault E (dbCalls s) = None \<and> b = isLatest s l e \<and> t = countCall s"
  by (auto simp: shouldApplyLatestMutationTx_def db_results isLatest_def split: option.splits)

lemma ifLatest_result:
  "ifLatest E l e m s = (Inr u, t) \<longleftrightarrow>
     dbFault E (dbCalls s) = None
     \<and> (if isLatest s l e then m (countCall s) = (Inr u, t) else t = countCall s)"
  by (auto simp: ifLatest_def bindDB_result shouldApply_result okDB_result)

text \<open>The latest entry about an entity, whatever the order of the rows.\<close>

lemma keyBefore_order:
  "\<not> keyBefore a a" "keyBefore a b \<Longrightarrow> keyBefore b c \<Longrightarrow> keyBefore a c"
  "keyBefore a b \<or> a = b \<or> keyBefore b a" "keyBefore a b \<Longrightarrow> \<not> keyBefore b a"
proof -
  have i: "keyBytes a = keyBytes b \<longleftrightarrow> a = b" for a b
    unfolding keyBytes_def by (rule inj_map_eq_map) (simp add: inj_def)
  show "\<not> keyBefore a a" by (simp add: keyBefore_def lexordp_irrefl)
  show "keyBefore a b \<Longrightarrow> keyBefore b c \<Longrightarrow> keyBefore a c"
    unfolding keyBefore_def by (rule lexordp_trans)
  show "keyBefore a b \<or> a = b \<or> keyBefore b a"
    unfolding keyBefore_def i [symmetric] by (rule lexordp_linear)
  show "keyBefore a b \<Longrightarrow> \<not> keyBefore b a"
    unfolding keyBefore_def using lexordp_antisym lexordp_irrefl by metis
qed

lemma laterOp_order:
  "\<not> laterOp a a" "laterOp a b \<Longrightarrow> laterOp b c \<Longrightarrow> laterOp a c"
  "laterOp a b \<or> laterOp b a \<or> oeTSNS a = oeTSNS b \<and> oeOpID a = oeOpID b"
  using keyBefore_order(1) keyBefore_order(2) [of "oeOpID c" "oeOpID b" "oeOpID a"]
    keyBefore_order(3) [of "oeOpID a" "oeOpID b"]
  by (auto simp: laterOp_def)

definition entriesAbout :: "replica \<Rightarrow> string \<Rightarrow> string \<Rightarrow> string \<Rightarrow> oplogEntry set" where
  "entriesAbout s l t i = {e. (l, e) \<in> set (rpOplog s) \<and> oeEntityType e = t \<and> oeEntityID e = i}"

lemma latestMutation_snoc:
  "latestMutation (rows @ [r]) l t i =
     (if aboutEntity l t i r then
        (case latestMutation rows l t i of
           None \<Rightarrow> Some (snd r) | Some b \<Rightarrow> if laterOp (snd r) b then Some (snd r) else Some b)
      else latestMutation rows l t i)"
  by (simp add: latestMutation_def)

lemma latestMutation_max:
  "case latestMutation rows l t i of
     None \<Rightarrow> \<forall>r \<in> set rows. \<not> aboutEntity l t i r
   | Some x \<Rightarrow> (\<exists>r \<in> set rows. aboutEntity l t i r \<and> snd r = x)
       \<and> (\<forall>r \<in> set rows. aboutEntity l t i r \<longrightarrow> \<not> laterOp (snd r) x)"
proof (induction rows rule: rev_induct)
  case Nil
  then show ?case by (simp add: latestMutation_def)
next
  case (snoc r rows)
  then show ?case
    using laterOp_order(1) laterOp_order(2) [of _ "snd r"]
    by (auto simp: latestMutation_snoc split: option.splits if_splits)
qed

section \<open>The log and the clocks\<close>

interpretation logs: replica_frame "\<lambda>s t. rpOplog t = rpOplog s \<and> rpClocks t = rpClocks s"
  by unfold_locales (auto simp: countCall_def rollbackTo_def)

lemma apply_keeps_log:
  "rpOplog (snd (applyOplogEntryTx E l e s)) = rpOplog s"
  "rpClocks (snd (applyOplogEntryTx E l e s)) = rpClocks s"
proof -
  have "logs.kept (applyOplogEntryTx E l e)"
    by (auto simp: applyOplogEntryTx_def Let_def
        intro!: logs.kept_ok logs.kept_library logs.kept_sourceFile logs.kept_playlist logs.kept_playlistItem
          logs.kept_ensureLiked logs.kept_preference logs.kept_asset logs.kept_cache logs.kept_artwork)
  from logs.keptD [OF this]
  show "rpOplog (snd (applyOplogEntryTx E l e s)) = rpOplog s"
    "rpClocks (snd (applyOplogEntryTx E l e s)) = rpClocks s" by auto
qed

section \<open>Rows\<close>

lemma map_of_upsertRow [simp]:
  "map_of (upsertRow k new merge rows) =
     (map_of rows)(k \<mapsto> (case map_of rows k of None \<Rightarrow> new | Some old \<Rightarrow> merge old))"
  by (simp add: upsertRow_def update_conv')

lemma option_same [simp]: "(case x of None \<Rightarrow> a | Some _ \<Rightarrow> a) = a"
  by (cases x) simp_all

lemma map_of_deleteRow [simp]: "map_of (deleteRow k rows) = (map_of rows)(k := None)"
  by (induction rows) (auto simp: deleteRow_def)

lemma map_of_updateRow [simp]:
  "map_of (updateRow k f rows) = (map_of rows)(k := map_option f (map_of rows k))"
  by (induction rows) (auto simp: updateRow_def fun_eq_iff)

lemma liftDB_result: "liftDB r s = (Inr v, t) \<longleftrightarrow> r = Inr v \<and> t = s"
  by (auto simp: liftDB_def)

lemma decode_result:
  "decodeEntry E label e d s = (Inr v, t) \<longleftrightarrow> unmarshal (deParse E) (oePayload e) d = Inr v \<and> t = s"
  "decodeDelete E label e d s = (Inr v, t) \<longleftrightarrow> unmarshalUnlessBlank (deParse E) (oePayload e) d = Inr v \<and> t = s"
  by (auto simp: decodeEntry_def decodeDelete_def liftDB_result split: sum.splits)

lemma unsupported_result: "\<not> unsupported E what e s = (Inr v, t)"
  by (simp add: unsupported_def failDB_result)

text \<open>The times of an entry with a time stamp do not read the clock.\<close>

definition payloadInstant :: "int \<Rightarrow> oplogEntry \<Rightarrow> int" where
  "payloadInstant n e = timeOfNanos (if n > 0 then n else oeTSNS e)"

lemma time_result:
  assumes "oeTSNS e > 0"
  shows "oplogMutationTime E e s = (Inr v, t) \<longleftrightarrow> v = timeOfNanos (oeTSNS e) \<and> t = s"
    "oplogPayloadTime E n e s = (Inr v, t) \<longleftrightarrow> v = payloadInstant n e \<and> t = s"
  using assms by (auto simp: oplogPayloadTime_def oplogMutationTime_def payloadInstant_def okDB_result)

lemmas apply_results = ifLatest_result bindDB_result okDB_result failDB_result queryDB_result execDB_result
  decode_result unsupported_result liftDB_result

end
