(* ===== verification/Replication.thy ===== *)
theory Replication
  imports ReplicaLaws
begin

text \<open>
  A replica that receives entries (\<open>applyRemoteOp\<close>): what one received entry does to the log, and the
  invariant that the clock of a device is the length of the gapless start of its entries.
\<close>

section \<open>What a replica holds\<close>

definition logged :: "replica \<Rightarrow> string \<Rightarrow> oplogEntry set" where
  "logged s l = {e. (l, e) \<in> set (rpOplog s)}"

definition clockOf :: "replica \<Rightarrow> string \<Rightarrow> string \<Rightarrow> int" where
  "clockOf s l d = (case map_of (rpClocks s) (l, d) of None \<Rightarrow> 0 | Some n \<Rightarrow> n)"

lemma sameData_held:
  assumes "sameData s t"
  shows "logged t l = logged s l" "clockOf t l d = clockOf s l d" "deviceEntries t l d = deviceEntries s l d"
    "isLatest t l e = isLatest s l e" "authorityRows t l = authorityRows s l"
  using sameData_tables [OF assms]
  by (simp_all add: logged_def clockOf_def deviceEntries_def isLatest_def authorityRows_def)

lemma set_deviceEntries: "set (deviceEntries s l d) = {e \<in> logged s l. oeDeviceID e = d}"
  by (auto simp: deviceEntries_def logged_def image_iff)

text \<open>No two rows have the same id, or the same device and number; ids are trimmed.\<close>

definition wellLogged :: "replica \<Rightarrow> string \<Rightarrow> bool" where
  "wellLogged s l \<longleftrightarrow>
     distinct (map (oeOpID \<circ> snd) (filter (\<lambda>r. fst r = l) (rpOplog s)))
     \<and> distinct (map (\<lambda>r. (oeDeviceID (snd r), oeSeq (snd r))) (filter (\<lambda>r. fst r = l) (rpOplog s)))
     \<and> (\<forall>e \<in> logged s l. trimSpace (oeOpID e) = oeOpID e \<and> trimSpace (oeEntityType e) = oeEntityType e
         \<and> trimSpace (oeDeviceID e) = oeDeviceID e)"

lemma wellLogged_unique:
  assumes "wellLogged s l" "a \<in> logged s l" "b \<in> logged s l"
  shows "oeOpID a = oeOpID b \<Longrightarrow> a = b" "oeDeviceID a = oeDeviceID b \<Longrightarrow> oeSeq a = oeSeq b \<Longrightarrow> a = b"
proof -
  let ?rows = "filter (\<lambda>r. fst r = l) (rpOplog s)"
  have m: "(l, a) \<in> set ?rows" "(l, b) \<in> set ?rows" using assms by (auto simp: logged_def)
  have i: "inj_on (oeOpID \<circ> snd) (set ?rows)" "inj_on (\<lambda>r. (oeDeviceID (snd r), oeSeq (snd r))) (set ?rows)"
    using assms(1) by (simp_all add: wellLogged_def distinct_map)
  show "oeOpID a = oeOpID b \<Longrightarrow> a = b" using inj_onD [OF i(1) _ m] by simp
  show "oeDeviceID a = oeDeviceID b \<Longrightarrow> oeSeq a = oeSeq b \<Longrightarrow> a = b" using inj_onD [OF i(2) _ m] by simp
qed

text \<open>Only the latest entry about an entity passes the test of the code.\<close>

lemma isLatest_iff:
  assumes "wellLogged s l" "e \<in> logged s l"
  shows "isLatest s l e \<longleftrightarrow> latestMutation (rpOplog s) l (oeEntityType e) (oeEntityID e) = Some e"
proof -
  let ?x = "latestMutation (rpOplog s) l (oeEntityType e) (oeEntityID e)"
  have max: "?x \<noteq> None" "\<And>y. ?x = Some y \<Longrightarrow> y \<in> logged s l"
    using latestMutation_max [of "rpOplog s" l "oeEntityType e" "oeEntityID e"] assms(2)
    by (auto simp: aboutEntity_def logged_def split: option.splits)
  have "y = e" if "?x = Some y" "trimSpace (oeOpID y) = trimSpace (oeOpID e)" for y
    using that max(2) [OF that(1)] assms wellLogged_unique(1) [OF assms(1) max(2) [OF that(1)] assms(2)]
    by (auto simp: wellLogged_def)
  with max(1) show ?thesis by (auto simp: isLatest_def split: option.splits)
qed

section \<open>A received entry\<close>

text \<open>The entry passes all checks against the authorities and the root that the replica has.\<close>

definition accepted :: "replicaEnv \<Rightarrow> string \<Rightarrow> replica \<Rightarrow> oplogEntry \<Rightarrow> bool" where
  "accepted E l s e \<longleftrightarrow> signerMetadataError e = None
     \<and> (\<exists>row. map_of (rpLibraries s) (trimSpace l) = Some row
         \<and> entrySignatureError E l (sort_key aaVersion (authorityRows s (trimSpace l))) (lbRootPublicKey row) e = None)"

lemma verify_result:
  assumes "verifyCheckpointOplogEntryTx E l e s = (Inr u, t)"
  shows "accepted E l s e \<and> sameData s t"
proof -
  have c: "sameData s (countCall (countCall s))" by (rule sameData_trans [OF sameData_counters(2) sameData_counters(2)])
  have "rpLibraries (countCall s) = rpLibraries s" by (simp add: countCall_def)
  with assms c show ?thesis
    by (auto simp: verifyCheckpointOplogEntryTx_def db_results accepted_def split: option.splits)
qed

definition freshEntry :: "replica \<Rightarrow> string \<Rightarrow> oplogEntry \<Rightarrow> bool" where
  "freshEntry s l e \<longleftrightarrow>
     (\<forall>x \<in> logged s l. oeOpID x \<noteq> oeOpID e \<and> (oeDeviceID x \<noteq> oeDeviceID e \<or> oeSeq x \<noteq> oeSeq e))"

definition withEntry :: "replica \<Rightarrow> string \<Rightarrow> oplogEntry \<Rightarrow> replica" where
  "withEntry s l e = s\<lparr>rpOplog := rpOplog s @ [(l, e)]\<rparr>"

lemma insertOplog_result: "insertOplog l e s = Inr t \<longleftrightarrow> freshEntry s l e \<and> t = withEntry s l e"
  by (force simp: insertOplog_def freshEntry_def withEntry_def logged_def list_ex_iff)

lemma stmtDB_result:
  "stmtDB E f s = (Inr u, t) \<longleftrightarrow> dbFault E (dbCalls s) = None \<and> f (countCall s) = Inr t"
  by (auto simp: stmtDB_def split: option.splits sum.splits)

lemma insertRemoteOp_result:
  assumes "insertRemoteOp E l op s = (Inr r, t)"
  shows "case r of None \<Rightarrow> sameData s t
    | Some c \<Rightarrow> c = clockOf s (trimSpace l) (trimSpace (oeDeviceID op)) \<and> accepted E l s op
        \<and> (\<exists>u. sameData s u \<and> freshEntry u (trimSpace l) (rowFromRemote E op)
            \<and> t = withEntry u (trimSpace l) (rowFromRemote E op))"
proof -
  let ?L = "trimSpace l" and ?e = "rowFromRemote E op"
  have same: "accepted E l (countCall s) x = accepted E l s x" for x
    by (simp add: accepted_def countCall_def authorityRows_def)
  have step: "sameData s u \<Longrightarrow> sameData s (countCall u)" for u
    using sameData_trans sameData_counters(2) by blast
  show ?thesis
  proof (cases r)
    case None
    then show ?thesis using assms step
      by (auto simp: insertRemoteOp_def db_results split: if_splits)
  next
    case (Some c)
    then obtain u where v: "verifyCheckpointOplogEntryTx E l op (countCall s) = (Inr (), u)"
      and c: "c = clockOf u ?L (trimSpace (oeDeviceID op))"
      and t: "freshEntry (countCall (countCall u)) ?L ?e" "t = withEntry (countCall (countCall u)) ?L ?e"
      using assms
      by (auto simp: insertRemoteOp_def db_results deviceClockSeqTx_def stmtDB_result insertOplog_result
          clockOf_def split: if_splits)
    from verify_result [OF v] have "accepted E l s op" and u: "sameData s u"
      using same sameData_trans [OF sameData_counters(2)] by auto
    with Some c t step [OF step [OF u]] sameData_held [OF u] show ?thesis by auto
  qed
qed

lemma applyRun_rule:
  assumes "applyRun E l a rows s = (Inr b, t)" "P a s"
    and "\<And>a r s t. r \<in> set rows \<Longrightarrow> oeSeq r = a + 1 \<Longrightarrow> P a s
      \<Longrightarrow> applyOplogEntryTx E l r s = (Inr (), t) \<Longrightarrow> P (a + 1) t"
  shows "P b t"
  using assms
proof (induction rows arbitrary: a s)
  case (Cons r rows)
  show ?case
  proof (cases "oeSeq r = a + 1")
    case True
    with Cons.prems(1) obtain u where "applyOplogEntryTx E l r s = (Inr (), u)"
      "applyRun E l (a + 1) rows u = (Inr b, t)" by (auto simp: bindDB_result)
    with True Cons.IH [of "a + 1" u] Cons.prems(2,3) show ?thesis by auto
  next
    case False
    with Cons.prems(1,2) show ?thesis by (simp add: okDB_result)
  qed
qed (simp add: okDB_result)

text \<open>The run ends at the first gap.\<close>

lemma applyRun_prefix:
  assumes "applyRun E l a rows s = (Inr b, t)" "sorted_wrt (<) (map oeSeq rows)" "\<forall>r \<in> set rows. a < oeSeq r"
  shows "a \<le> b \<and> {n. a < n \<and> n \<le> b} \<subseteq> oeSeq ` set rows \<and> b + 1 \<notin> oeSeq ` set rows"
  using assms
proof (induction rows arbitrary: a s)
  case (Cons r rows)
  show ?case
  proof (cases "oeSeq r = a + 1")
    case True
    with Cons.prems(1) obtain u where "applyRun E l (a + 1) rows u = (Inr b, t)" by (auto simp: bindDB_result)
    with True Cons.prems(2) Cons.IH [of "a + 1" u]
    have "a + 1 \<le> b \<and> {n. a + 1 < n \<and> n \<le> b} \<subseteq> oeSeq ` set rows \<and> b + 1 \<notin> oeSeq ` set rows" by auto
    moreover have "n = a + 1 \<or> a + 1 < n" if "a < n" for n using that by linarith
    ultimately show ?thesis using True by force
  next
    case False
    with Cons.prems show ?thesis by (fastforce simp: okDB_result)
  qed
qed (simp add: okDB_result)

definition inStep :: "replica \<Rightarrow> string \<Rightarrow> bool" where
  "inStep s l \<longleftrightarrow> wellLogged s l \<and> (\<forall>d. 0 \<le> clockOf s l d
     \<and> {n. 1 \<le> n \<and> n \<le> clockOf s l d} \<subseteq> oeSeq ` set (deviceEntries s l d)
     \<and> clockOf s l d + 1 \<notin> oeSeq ` set (deviceEntries s l d))"

lemma sameData_inStep: "sameData s t \<Longrightarrow> inStep t l = inStep s l"
  using sameData_held [of s t] sameData_tables(1) [of s t] by (simp add: inStep_def wellLogged_def)

definition bufferedRows :: "replica \<Rightarrow> string \<Rightarrow> string \<Rightarrow> int \<Rightarrow> oplogEntry list" where
  "bufferedRows s l d n = sort_key oeSeq (filter (\<lambda>e. n \<le> oeSeq e) (deviceEntries s l d))"

lemma set_bufferedRows:
  "set (bufferedRows s l d n) = {e \<in> logged s l. oeDeviceID e = d \<and> n \<le> oeSeq e}"
  by (auto simp: bufferedRows_def set_deviceEntries)

lemma bufferedRows_sorted:
  assumes "wellLogged s l"
  shows "sorted_wrt (<) (map oeSeq (bufferedRows s l d n))"
proof -
  let ?rows = "filter (\<lambda>r. fst r = l) (rpOplog s)"
  have one: "distinct (map (\<lambda>r. (f r, g r)) rows) \<Longrightarrow> distinct (map g (filter (\<lambda>r. f r = d) rows))"
    for f g and rows :: "'r list"
    by (auto simp: distinct_map inj_on_def)
  have "deviceEntries s l d = map snd (filter (\<lambda>r. oeDeviceID (snd r) = d) ?rows)"
    by (simp add: deviceEntries_def)
  moreover have "distinct (map (\<lambda>r. oeSeq (snd r)) (filter (\<lambda>r. oeDeviceID (snd r) = d) ?rows))"
    using assms by (intro one) (simp add: wellLogged_def)
  ultimately have "distinct (map oeSeq (deviceEntries s l d))" by (simp add: comp_def)
  then have "distinct (map oeSeq (bufferedRows s l d n))"
    by (simp add: bufferedRows_def distinct_map inj_on_def)
  moreover have "sorted (map oeSeq (bufferedRows s l d n))" by (simp add: bufferedRows_def)
  ultimately show ?thesis by (simp add: strict_sorted_iff)
qed

lemma applyBuffered_result:
  assumes "applyBufferedDeviceOplogTx E l d n s = (Inr a, t)"
  obtains u v w where "sameData s u" "applyRun E (trimSpace l) (n - 1) (bufferedRows s (trimSpace l) (trimSpace d) n) u = (Inr a, v)"
    "t = (if a \<ge> n then w\<lparr>rpClocks := AList.update (trimSpace l, trimSpace d) a (rpClocks w)\<rparr> else w)" "sameData v w"
proof -
  from assms obtain v where run: "applyRun E (trimSpace l) (n - 1) (bufferedRows s (trimSpace l) (trimSpace d) n) (countCall s) = (Inr a, v)"
    and rest: "(if a \<ge> n then upsertDeviceClockTx E l d a else okDB ()) v = (Inr (), t)"
    by (auto simp: applyBufferedDeviceOplogTx_def db_results bufferedRows_def)
  have "\<exists>w. sameData v w \<and> t = (if a \<ge> n then w\<lparr>rpClocks := AList.update (trimSpace l, trimSpace d) a (rpClocks w)\<rparr> else w)"
    using rest
    by (auto simp: upsertDeviceClockTx_def setClock_def execDB_result okDB_result upsertRow_def
        intro: exI [of _ "countCall v"] split: if_splits option.split)
  with run that [OF sameData_counters(2)] show ?thesis by blast
qed

section \<open>Receiving as a step\<close>

text \<open>
  What one call does: nothing, or it adds the entry, and if that closes the gap after the clock, it applies
  the entries up to the next gap and advances the clock.
\<close>

definition stored :: "replicaEnv \<Rightarrow> string \<Rightarrow> oplogEntry \<Rightarrow> replica \<Rightarrow> replica \<Rightarrow> bool" where
  "stored E l op s u \<longleftrightarrow> accepted E l s op \<and> freshEntry s (trimSpace l) (rowFromRemote E op)
     \<and> sameData (withEntry s (trimSpace l) (rowFromRemote E op)) u"

definition caughtUp :: "replicaEnv \<Rightarrow> string \<Rightarrow> string \<Rightarrow> replica \<Rightarrow> replica \<Rightarrow> bool" where
  "caughtUp E l d u t \<longleftrightarrow> (\<exists>v w a n. n = clockOf u l d + 1 \<and> n \<le> a \<and> sameData u v
     \<and> applyRun E l (n - 1) (bufferedRows u l d n) v = (Inr a, w)
     \<and> sameData (w\<lparr>rpClocks := AList.update (l, d) a (rpClocks w)\<rparr>) t)"

lemma withEntry_sameData:
  assumes "sameData s t"
  shows "sameData (withEntry s l e) (withEntry t l e)"
proof -
  obtain c k where "t = s\<lparr>dbCalls := c, dbTicks := k\<rparr>" using assms by (auto simp: sameData_def)
  then have "withEntry t l e = (withEntry s l e)\<lparr>dbCalls := c, dbTicks := k\<rparr>" by (simp add: withEntry_def)
  then show ?thesis unfolding sameData_def by blast
qed

lemma clock_sameData:
  assumes "sameData s t"
  shows "sameData (s\<lparr>rpClocks := AList.update k n (rpClocks s)\<rparr>) (t\<lparr>rpClocks := AList.update k n (rpClocks t)\<rparr>)"
proof -
  obtain c j where "t = s\<lparr>dbCalls := c, dbTicks := j\<rparr>" using assms by (auto simp: sameData_def)
  then have "t\<lparr>rpClocks := AList.update k n (rpClocks t)\<rparr>
    = (s\<lparr>rpClocks := AList.update k n (rpClocks s)\<rparr>)\<lparr>dbCalls := c, dbTicks := j\<rparr>" by simp
  then show ?thesis unfolding sameData_def by blast
qed

lemma freshEntry_sameData: "sameData s t \<Longrightarrow> freshEntry t l e = freshEntry s l e"
  by (simp add: freshEntry_def sameData_held)

lemma accepted_counted: "accepted E l (countCall s) e = accepted E l s e"
  by (simp add: accepted_def countCall_def authorityRows_def)

lemma applyRun_first:
  assumes "applyRun E l a rows s = (Inr b, t)" "sorted (map oeSeq rows)" "\<forall>r \<in> set rows. a + 1 \<le> oeSeq r"
    "a + 1 \<in> oeSeq ` set rows"
  shows "a + 1 \<le> b"
proof -
  obtain r rs where rows: "rows = r # rs" using assms(4) by (cases rows) auto
  with assms(2,3,4) have "oeSeq r = a + 1" by force
  with assms(1) rows obtain u where "applyRun E l (a + 1) rs u = (Inr b, t)" by (auto simp: bindDB_result)
  from applyRun_rule [OF this, of "\<lambda>b _. a + 1 \<le> b"] show ?thesis by simp
qed

lemma applyRemoteOp_cases:
  assumes "applyRemoteOp E l op s = (r, t)"
  obtains (unchanged) "sameData s t"
  | (buffered) "r = (1, None)" "stored E l op s t"
      "oeSeq op \<noteq> clockOf s (trimSpace l) (trimSpace (oeDeviceID op)) + 1"
  | (applied) u where "r = (1, None)" "stored E l op s u"
      "oeSeq op = clockOf s (trimSpace l) (trimSpace (oeDeviceID op)) + 1"
      "caughtUp E (trimSpace l) (trimSpace (oeDeviceID op)) u t"
proof -
  let ?L = "trimSpace l" and ?d = "trimSpace (oeDeviceID op)"
  obtain x where x: "transaction E (applyRemoteOpTx E l op) s = (x, t)"
    using assms by (auto simp: applyRemoteOp_def split: prod.splits sum.splits)
  show thesis
  proof (cases x)
    case (Inl err)
    with x have "sameData s t" by (auto dest: transaction_failed)
    then show thesis by (rule unchanged)
  next
    case (Inr n)
    with x obtain u where u: "applyRemoteOpTx E l op (countCall s) = (Inr n, u)" "t = countCall u"
      by (auto simp: transaction_result)
    with assms x Inr have r: "r = (n, None)" by (simp add: applyRemoteOp_def)
    from u(1) obtain y v where v: "insertRemoteOp E l op (countCall s) = (Inr y, v)"
      and rest: "(case y of None \<Rightarrow> okDB 0 | Some c \<Rightarrow> if oeSeq op \<noteq> c + 1 then okDB 1
        else bindDB (applyBufferedDeviceOplogTx E l ?d (c + 1)) (\<lambda>_. okDB 1)) v = (Inr n, u)"
      by (auto simp: applyRemoteOpTx_def bindDB_result)
    note y = insertRemoteOp_result [OF v]
    show thesis
    proof (cases y)
      case None
      with y rest have "sameData (countCall s) v" "u = v" by (auto simp: okDB_result)
      with u(2) have "sameData s t" using sameData_trans sameData_counters(2) by metis
      then show thesis by (rule unchanged)
    next
      case (Some c)
      with y obtain w where c: "c = clockOf s ?L ?d" and acc: "accepted E l s op"
        and w: "sameData s w" "freshEntry w ?L (rowFromRemote E op)" "v = withEntry w ?L (rowFromRemote E op)"
        by (auto simp: accepted_counted sameData_held [OF sameData_counters(2)]
            intro: sameData_trans [OF sameData_counters(2)])
      have st: "stored E l op s v'" if "sameData v v'" for v'
        using acc w withEntry_sameData [OF w(1)] that freshEntry_sameData [OF w(1)]
        by (auto simp: stored_def intro: sameData_trans)
      show thesis
      proof (cases "oeSeq op = c + 1")
        case False
        with Some rest have "u = v" "n = 1" by (auto simp: okDB_result)
        with False c r u(2) st [OF sameData_counters(2)] show thesis by (intro buffered) auto
      next
        case True
        with Some rest obtain a where a: "applyBufferedDeviceOplogTx E l ?d (c + 1) v = (Inr a, u)" "n = 1"
          by (auto simp: bindDB_result okDB_result)
        have cv: "clockOf v ?L ?d = c" using c w sameData_held(2) [OF w(1)] by (simp add: withEntry_def clockOf_def)
        have e: "rowFromRemote E op \<in> set (bufferedRows v ?L ?d (c + 1))"
          using True w by (simp add: set_bufferedRows logged_def withEntry_def rowFromRemote_def)
        obtain p q z where p: "sameData v p"
          "applyRun E ?L c (bufferedRows v ?L ?d (c + 1)) p = (Inr a, q)"
          "u = (if c + 1 \<le> a then z\<lparr>rpClocks := AList.update (?L, ?d) a (rpClocks z)\<rparr> else z)" "sameData q z"
          using applyBuffered_result [OF a(1), unfolded trimSpace_idem add_diff_cancel_right'] by metis
        have "oeSeq (rowFromRemote E op) = c + 1" using True by (simp add: rowFromRemote_def)
        with e have "c + 1 \<in> oeSeq ` set (bufferedRows v ?L ?d (c + 1))" by (metis imageI)
        moreover have "sorted (map oeSeq (bufferedRows v ?L ?d (c + 1)))"
          "\<forall>x \<in> set (bufferedRows v ?L ?d (c + 1)). c + 1 \<le> oeSeq x"
          by (simp add: bufferedRows_def) (simp add: set_bufferedRows)
        ultimately have ge: "c + 1 \<le> a" using applyRun_first [OF p(2)] by blast
        have "sameData (q\<lparr>rpClocks := AList.update (?L, ?d) a (rpClocks q)\<rparr>) t"
          using sameData_trans [OF clock_sameData [OF p(4)] sameData_counters(2)] p(3) ge u(2) by simp
        with p ge cv have "caughtUp E ?L ?d v t" by (auto simp: caughtUp_def)
        with r a(2) c True st [OF sameData_counters(1)] show thesis by (intro applied) auto
      qed
    qed
  qed
qed

section \<open>Clocks count gapless starts\<close>

lemma stored_result:
  assumes "stored E l op s u"
  shows "logged u (trimSpace l) = insert (rowFromRemote E op) (logged s (trimSpace l))"
    "clockOf u k d = clockOf s k d" "rowFromRemote E op \<notin> logged s (trimSpace l)"
    "rpOplog u = rpOplog s @ [(trimSpace l, rowFromRemote E op)]"
proof -
  let ?v = "withEntry s (trimSpace l) (rowFromRemote E op)"
  have u: "sameData ?v u" using assms by (simp add: stored_def)
  show "rpOplog u = rpOplog s @ [(trimSpace l, rowFromRemote E op)]"
    using sameData_tables(1) [OF u] by (simp add: withEntry_def)
  show "logged u (trimSpace l) = insert (rowFromRemote E op) (logged s (trimSpace l))"
    using sameData_held(1) [OF u] by (auto simp: logged_def withEntry_def)
  show "clockOf u k d = clockOf s k d"
    using sameData_held(2) [OF u] by (simp add: clockOf_def withEntry_def)
  show "rowFromRemote E op \<notin> logged s (trimSpace l)"
    using assms by (auto simp: stored_def freshEntry_def)
qed

lemma stored_wellLogged:
  assumes "stored E l op s u" "wellLogged s (trimSpace l)"
  shows "wellLogged u (trimSpace l)"
proof -
  let ?e = "rowFromRemote E op"
  have trimmed: "trimSpace (oeOpID ?e) = oeOpID ?e \<and> trimSpace (oeEntityType ?e) = oeEntityType ?e
      \<and> trimSpace (oeDeviceID ?e) = oeDeviceID ?e" by (simp add: rowFromRemote_def)
  have "\<forall>r \<in> set (filter (\<lambda>r. fst r = trimSpace l) (rpOplog s)). oeOpID (snd r) \<noteq> oeOpID ?e
      \<and> (oeDeviceID (snd r) \<noteq> oeDeviceID ?e \<or> oeSeq (snd r) \<noteq> oeSeq ?e)"
    using assms(1) by (auto simp: stored_def freshEntry_def logged_def)
  then show ?thesis
    using assms(2) trimmed stored_result(1) [OF assms(1)]
    by (auto simp: wellLogged_def stored_result(4) [OF assms(1)] comp_def)
qed

lemma applyRun_keeps_log:
  assumes "applyRun E l a rows s = (Inr b, t)"
  shows "rpOplog t = rpOplog s" "rpClocks t = rpClocks s"
proof -
  have "rpOplog t = rpOplog s \<and> rpClocks t = rpClocks s"
    using applyRun_rule [OF assms, of "\<lambda>_ u. rpOplog u = rpOplog s \<and> rpClocks u = rpClocks s"]
      apply_keeps_log by (metis snd_conv)
  then show "rpOplog t = rpOplog s" "rpClocks t = rpClocks s" by auto
qed

lemma caughtUp_result:
  assumes "caughtUp E l d u t"
  obtains v w a where "sameData u v" "applyRun E l (clockOf u l d) (bufferedRows u l d (clockOf u l d + 1)) v = (Inr a, w)"
    "clockOf u l d < a" "rpOplog t = rpOplog u" "\<And>d'. clockOf t l d' = (if d' = d then a else clockOf u l d')"
    "sameData (w\<lparr>rpClocks := AList.update (l, d) a (rpClocks w)\<rparr>) t"
proof -
  from assms obtain v w a where r: "sameData u v"
    "applyRun E l (clockOf u l d) (bufferedRows u l d (clockOf u l d + 1)) v = (Inr a, w)" "clockOf u l d < a"
    "sameData (w\<lparr>rpClocks := AList.update (l, d) a (rpClocks w)\<rparr>) t"
    by (auto simp: caughtUp_def)
  have "rpOplog t = rpOplog u" "rpClocks t = AList.update (l, d) a (rpClocks u)"
    using applyRun_keeps_log [OF r(2)] sameData_tables(1,2) [OF r(1)] sameData_tables(1,2) [OF r(4)] by auto
  then have "rpOplog t = rpOplog u" "clockOf t l d' = (if d' = d then a else clockOf u l d')" for d'
    by (auto simp: clockOf_def update_conv)
  with r show ?thesis by (intro that)
qed

lemma inStep_received:
  assumes "inStep s (trimSpace l)"
  shows "inStep (snd (applyRemoteOp E l op s)) (trimSpace l)"
proof -
  let ?L = "trimSpace l" and ?d = "trimSpace (oeDeviceID op)" and ?e = "rowFromRemote E op"
  obtain r t where rt: "applyRemoteOp E l op s = (r, t)" by (cases "applyRemoteOp E l op s")
  have dev: "oeDeviceID ?e = ?d" "oeSeq ?e = oeSeq op" by (simp_all add: rowFromRemote_def)
  have entries: "set (deviceEntries u ?L d) = (if d = ?d then insert ?e (set (deviceEntries s ?L d)) else set (deviceEntries s ?L d))"
    if "stored E l op s u" for u d
    using stored_result(1) [OF that] dev by (auto simp: set_deviceEntries)
  note old = assms [unfolded inStep_def, THEN conjunct2, rule_format]
  from rt have "inStep t ?L"
  proof (cases rule: applyRemoteOp_cases)
    case unchanged
    then show ?thesis using assms sameData_inStep by blast
  next
    case buffered
    have "wellLogged t ?L" using buffered(2) assms stored_wellLogged by (simp add: inStep_def)
    moreover have "clockOf t ?L d = clockOf s ?L d" for d using stored_result(2) [OF buffered(2)] .
    ultimately show ?thesis
      using old buffered(3) dev by (auto simp: inStep_def entries [OF buffered(2)])
  next
    case (applied u)
    have w: "wellLogged u ?L" using applied(2) assms stored_wellLogged by (simp add: inStep_def)
    from applied(4) obtain v x a where run: "applyRun E ?L (clockOf u ?L ?d) (bufferedRows u ?L ?d (clockOf u ?L ?d + 1)) v = (Inr a, x)"
      and log: "rpOplog t = rpOplog u" and clocks: "\<And>d'. clockOf t ?L d' = (if d' = ?d then a else clockOf u ?L d')"
      by (rule caughtUp_result) blast
    define c where "c = clockOf s ?L ?d"
    have c: "clockOf u ?L ?d = c" "0 \<le> c" using stored_result(2) [OF applied(2)] old by (simp_all add: c_def)
    have rows: "oeSeq ` set (bufferedRows u ?L ?d (c + 1)) = oeSeq ` set (deviceEntries u ?L ?d) \<inter> {n. c + 1 \<le> n}"
      by (auto simp: set_bufferedRows set_deviceEntries)
    have new: "c \<le> a" "{n. c < n \<and> n \<le> a} \<subseteq> oeSeq ` set (bufferedRows u ?L ?d (c + 1))"
      "a + 1 \<notin> oeSeq ` set (bufferedRows u ?L ?d (c + 1))"
    proof -
      have "\<forall>x \<in> set (bufferedRows u ?L ?d (c + 1)). c < oeSeq x" by (simp add: set_bufferedRows)
      from applyRun_prefix [OF run [unfolded c] bufferedRows_sorted [OF w] this]
      show "c \<le> a" "{n. c < n \<and> n \<le> a} \<subseteq> oeSeq ` set (bufferedRows u ?L ?d (c + 1))"
        "a + 1 \<notin> oeSeq ` set (bufferedRows u ?L ?d (c + 1))" by blast+
    qed
    have "{n. 1 \<le> n \<and> n \<le> c} \<subseteq> oeSeq ` set (deviceEntries u ?L ?d)"
      using old [of ?d] entries [OF applied(2), of ?d] by (auto simp: c_def)
    moreover have "{n. c < n \<and> n \<le> a} \<subseteq> oeSeq ` set (deviceEntries u ?L ?d)"
      using new(2) unfolding rows by blast
    moreover have "{n. 1 \<le> n \<and> n \<le> a} \<subseteq> {n. 1 \<le> n \<and> n \<le> c} \<union> {n. c < n \<and> n \<le> a}" by auto
    ultimately have "{n. 1 \<le> n \<and> n \<le> a} \<subseteq> oeSeq ` set (deviceEntries u ?L ?d)" by blast
    moreover have "c + 1 \<le> a + 1" using new(1) by simp
    then have "a + 1 \<notin> oeSeq ` set (deviceEntries u ?L ?d)" using new(3) unfolding rows by blast
    moreover have "deviceEntries t ?L d = deviceEntries u ?L d" "wellLogged t ?L = wellLogged u ?L" for d
      using log by (simp_all add: deviceEntries_def wellLogged_def logged_def)
    ultimately show ?thesis
      using old w c new(1) entries [OF applied(2)] stored_result(2) [OF applied(2)]
      by (auto simp: inStep_def clocks)
  qed
  with rt show ?thesis by simp
qed

end
