(* ===== verification/Registers.thy ===== *)
theory Registers
  imports Replication
begin

text \<open>
  The replicated tables as last-writer-wins registers.  The interface \<open>register\<close> states what a table must
  do to be one: an entry that is the latest about its entity overwrites its row, any other entry leaves
  the table alone.  From this follows, once, that the table is a function of the log when every stored
  entry has been applied.  It is interpreted on artwork variants, device preferences and playlists.
\<close>

section \<open>A settled table\<close>

text \<open>The row of a key is what the latest of the applied entries wrote; \<open>seen\<close> counts the applied ones.\<close>

definition settledUpto ::
  "string \<Rightarrow> string \<Rightarrow> (replica \<Rightarrow> 'k \<Rightarrow> 'v option) \<Rightarrow> (oplogEntry \<Rightarrow> 'k) \<Rightarrow> (oplogEntry \<Rightarrow> 'v option)
    \<Rightarrow> (string \<Rightarrow> int) \<Rightarrow> replica \<Rightarrow> bool" where
  "settledUpto l kind cell key val seen s \<longleftrightarrow>
     (\<forall>e \<in> logged s l. oeEntityType e = kind \<longrightarrow> 1 \<le> oeSeq e \<longrightarrow> oeSeq e \<le> seen (oeDeviceID e)
        \<longrightarrow> isLatest s l e \<longrightarrow> cell s (key e) = val e)
     \<and> (\<forall>k. (\<forall>e \<in> logged s l. oeEntityType e = kind \<longrightarrow> key e \<noteq> k) \<longrightarrow> cell s k = None)"

text \<open>Entries about one entity are about one row.\<close>

definition consistent ::
  "string \<Rightarrow> (oplogEntry \<Rightarrow> 'k) \<Rightarrow> (oplogEntry \<Rightarrow> bool) \<Rightarrow> oplogEntry set \<Rightarrow> bool" where
  "consistent kind key fit A \<longleftrightarrow>
     (\<forall>a \<in> A. oeEntityType a = kind \<longrightarrow> fit a
        \<and> (\<forall>b \<in> A. oeEntityType b = kind \<longrightarrow> (oeEntityID a = oeEntityID b \<longleftrightarrow> key a = key b)))"

lemma consistent_subset: "consistent kind key fit A \<Longrightarrow> B \<subseteq> A \<Longrightarrow> consistent kind key fit B"
  by (auto simp: consistent_def)

definition complete :: "replica \<Rightarrow> string \<Rightarrow> bool" where
  "complete s l \<longleftrightarrow> (\<forall>e \<in> logged s l. 1 \<le> oeSeq e \<and> oeSeq e \<le> clockOf s l (oeDeviceID e))"

lemma latest_exists:
  assumes "wellLogged s l" "e \<in> logged s l"
  obtains x where "x \<in> logged s l" "oeEntityType x = oeEntityType e" "oeEntityID x = oeEntityID e" "isLatest s l x"
    "\<And>y. y \<in> logged s l \<Longrightarrow> oeEntityType y = oeEntityType e \<Longrightarrow> oeEntityID y = oeEntityID e \<Longrightarrow> \<not> laterOp y x"
proof -
  let ?m = "latestMutation (rpOplog s) l (oeEntityType e) (oeEntityID e)"
  note max = latestMutation_max [of "rpOplog s" l "oeEntityType e" "oeEntityID e"]
  from max assms(2) obtain x where x: "?m = Some x" by (cases ?m) (auto simp: aboutEntity_def logged_def)
  with max have m: "x \<in> logged s l" "oeEntityType x = oeEntityType e" "oeEntityID x = oeEntityID e"
    "\<And>y. y \<in> logged s l \<Longrightarrow> oeEntityType y = oeEntityType e \<Longrightarrow> oeEntityID y = oeEntityID e \<Longrightarrow> \<not> laterOp y x"
    by (auto simp: aboutEntity_def logged_def)
  with x assms(1) have "isLatest s l x" by (simp add: isLatest_iff)
  with m show thesis by (intro that)
qed

text \<open>Two replicas with the same entries, all applied, have the same table.\<close>

lemma settled_agree:
  assumes "wellLogged s l" "wellLogged t l" "logged s l = logged t l" "complete s l" "complete t l"
    and "consistent kind key fit (logged s l)"
    and "settledUpto l kind cell key val (clockOf s l) s" "settledUpto l kind cell key val (clockOf t l) t"
  shows "cell s = cell t"
proof
  fix k
  show "cell s k = cell t k"
  proof (cases "\<exists>e \<in> logged s l. oeEntityType e = kind \<and> key e = k")
    case True
    then obtain e where e: "e \<in> logged s l" "oeEntityType e = kind" "key e = k" by blast
    obtain x where x: "x \<in> logged s l" "oeEntityType x = kind" "oeEntityID x = oeEntityID e" "isLatest s l x"
      "\<And>y. y \<in> logged s l \<Longrightarrow> oeEntityType y = kind \<Longrightarrow> oeEntityID y = oeEntityID e \<Longrightarrow> \<not> laterOp y x"
      using latest_exists [OF assms(1) e(1)] e(2) by metis
    obtain y where y: "y \<in> logged t l" "oeEntityType y = kind" "oeEntityID y = oeEntityID e" "isLatest t l y"
      "\<And>z. z \<in> logged t l \<Longrightarrow> oeEntityType z = kind \<Longrightarrow> oeEntityID z = oeEntityID e \<Longrightarrow> \<not> laterOp z y"
      using latest_exists [OF assms(2)] e assms(3) by metis
    have "oeOpID x = oeOpID y" using laterOp_order(3) [of x y] x y assms(3) by auto
    then have eq: "x = y" using wellLogged_unique(1) [OF assms(1) x(1)] y(1) assms(3) by simp
    have k: "key x = k" using assms(6) e x(1-3) by (auto simp: consistent_def)
    have "cell s (key x) = val x" "cell t (key x) = val x"
      using assms(4,5,7,8) x(1,2,4) y(1,4) eq by (auto simp: settledUpto_def complete_def)
    with k show ?thesis by simp
  next
    case False
    with assms(3,7,8) show ?thesis by (simp add: settledUpto_def)
  qed
qed

section \<open>The interface\<close>

locale register =
  fixes E :: replicaEnv and l kind :: string
    and cell :: "replica \<Rightarrow> 'k \<Rightarrow> 'v option" and key :: "oplogEntry \<Rightarrow> 'k"
    and val :: "oplogEntry \<Rightarrow> 'v option" and fit :: "oplogEntry \<Rightarrow> bool"
  assumes trimmed: "trimSpace l = l"
    and same: "sameData s t \<Longrightarrow> cell t = cell s"
    and log_blind: "cell (rpOplog_update f s) = cell s"
    and clock_blind: "cell (rpClocks_update g s) = cell s"
    and other: "trimSpace (oeEntityType e) \<noteq> kind \<Longrightarrow> cell (snd (applyOplogEntryTx E l e s)) = cell s"
    and outdated: "trimSpace (oeEntityType e) = kind \<Longrightarrow> \<not> isLatest s l e
      \<Longrightarrow> applyOplogEntryTx E l e s = (Inr (), t) \<Longrightarrow> cell t = cell s"
    and written: "trimSpace (oeEntityType e) = kind \<Longrightarrow> isLatest s l e \<Longrightarrow> fit e
      \<Longrightarrow> applyOplogEntryTx E l e s = (Inr (), t) \<Longrightarrow> cell t = (cell s)(key e := val e)"
begin

lemma settled_step:
  assumes "settledUpto l kind cell key val seen s" "applyOplogEntryTx E l r s = (Inr (), t)"
    "wellLogged s l" "consistent kind key fit (logged s l)" "r \<in> logged s l" "oeSeq r = seen (oeDeviceID r) + 1"
  shows "settledUpto l kind cell key val (seen(oeDeviceID r := oeSeq r)) t"
proof -
  have log: "logged t l = logged s l" "isLatest t l e = isLatest s l e" for e
    using apply_keeps_log(1) [of E l r s] assms(2) by (simp_all add: logged_def isLatest_def)
  have tr: "trimSpace (oeEntityType r) = oeEntityType r" using assms(3,5) by (auto simp: wellLogged_def)
  have applied: "oeSeq e \<le> seen (oeDeviceID e)" if "e \<in> logged s l" "e \<noteq> r"
    "oeSeq e \<le> (seen(oeDeviceID r := oeSeq r)) (oeDeviceID e)" for e
  proof (cases "oeDeviceID e = oeDeviceID r")
    case True
    with wellLogged_unique(2) [OF assms(3) that(1) assms(5)] that(2) have "oeSeq e \<noteq> oeSeq r" by blast
    with True that(3) assms(6) show ?thesis by simp
  qed (use that(3) in simp)
  consider "oeEntityType r \<noteq> kind" | "oeEntityType r = kind" "isLatest s l r" | "oeEntityType r = kind" "\<not> isLatest s l r"
    by blast
  then show ?thesis
  proof cases
    case 1
    then have "cell t = cell s" using other [of r s] tr assms(2) by simp
    with 1 assms(1) applied show ?thesis by (fastforce simp: settledUpto_def log)
  next
    case 2
    have c: "cell t = (cell s)(key r := val r)"
      using written [OF _ 2(2) _ assms(2)] tr 2(1) assms(4,5) by (auto simp: consistent_def)
    have "key e \<noteq> key r" if "e \<in> logged s l" "oeEntityType e = kind" "isLatest s l e" "e \<noteq> r" for e
    proof
      assume "key e = key r"
      then have "oeEntityID e = oeEntityID r" using assms(4,5) that 2(1) by (auto simp: consistent_def)
      with 2 that assms(3,5) show False by (auto simp: isLatest_iff)
    qed
    with c applied assms(1) have "cell t (key e) = val e"
      if "e \<in> logged s l" "oeEntityType e = kind" "1 \<le> oeSeq e"
        "oeSeq e \<le> (seen(oeDeviceID r := oeSeq r)) (oeDeviceID e)" "isLatest s l e" for e
      using that by (cases "e = r") (simp_all add: settledUpto_def)
    moreover have "cell t k = None" if "\<forall>e \<in> logged s l. oeEntityType e = kind \<longrightarrow> key e \<noteq> k" for k
      using that c 2(1) assms(1,5) by (auto simp: settledUpto_def)
    ultimately show ?thesis unfolding settledUpto_def log by blast
  next
    case 3
    then have "cell t = cell s" using outdated [OF _ 3(2) assms(2)] tr by simp
    with 3 assms(1) applied show ?thesis by (fastforce simp: settledUpto_def log)
  qed
qed

text \<open>A stored entry is not among the applied ones, and it only takes the lead from others.\<close>

lemma settled_stored:
  assumes "settledUpto l kind cell key val (clockOf s l) s" "inStep s l" "stored E l op s u"
  shows "settledUpto l kind cell key val (clockOf s l) u"
proof -
  let ?e = "rowFromRemote E op"
  note st = stored_result [OF assms(3), unfolded trimmed]
  have w: "wellLogged s l" "wellLogged u l"
    using assms(2) stored_wellLogged [OF assms(3)] by (auto simp: inStep_def trimmed)
  have u: "sameData (withEntry s l ?e) u" and fresh: "freshEntry s l ?e"
    using assms(3) by (auto simp: stored_def trimmed)
  have cells: "cell u = cell s" using same [OF u] log_blind by (simp add: withEntry_def)
  have "\<not> (1 \<le> oeSeq ?e \<and> oeSeq ?e \<le> clockOf s l (oeDeviceID ?e))"
  proof
    assume "1 \<le> oeSeq ?e \<and> oeSeq ?e \<le> clockOf s l (oeDeviceID ?e)"
    then have "oeSeq ?e \<in> oeSeq ` set (deviceEntries s l (oeDeviceID ?e))" using assms(2) by (auto simp: inStep_def)
    with fresh show False by (auto simp: set_deviceEntries freshEntry_def)
  qed
  moreover have "isLatest s l x" if "x \<in> logged s l" "isLatest u l x" for x
    using that w st by (auto simp: isLatest_iff latestMutation_snoc split: option.splits if_splits)
  ultimately show ?thesis
    using assms(1) cells st(1) by (auto simp: settledUpto_def)
qed

lemma settled_received:
  assumes "settledUpto l kind cell key val (clockOf s l) s" "inStep s l"
    and "consistent kind key fit (logged (snd (applyRemoteOp E l op s)) l)"
  shows "settledUpto l kind cell key val (clockOf (snd (applyRemoteOp E l op s)) l) (snd (applyRemoteOp E l op s))"
proof -
  let ?S = "settledUpto l kind cell key val"
  obtain r t where rt: "applyRemoteOp E l op s = (r, t)" by (cases "applyRemoteOp E l op s")
  have held: "?S f b = ?S f a" if "sameData a b" for f a b
    using sameData_held [OF that] same [OF that] by (simp add: settledUpto_def)
  from rt have "?S (clockOf t l) t"
  proof (cases rule: applyRemoteOp_cases)
    case unchanged
    moreover have "clockOf t l = clockOf s l" using sameData_held(2) [OF unchanged] by auto
    ultimately show ?thesis using assms(1) held by simp
  next
    case buffered
    have "clockOf t l = clockOf s l" using stored_result(2) [OF buffered(2)] by auto
    with settled_stored [OF assms(1,2) buffered(2)] show ?thesis by simp
  next
    case (applied u)
    let ?d = "trimSpace (oeDeviceID op)"
    have clocks: "clockOf u l = clockOf s l" using stored_result(2) [OF applied(2)] by auto
    have su: "?S (clockOf u l) u" using settled_stored [OF assms(1,2) applied(2)] clocks by simp
    have w: "wellLogged u l" using stored_wellLogged [OF applied(2)] assms(2) by (simp add: inStep_def trimmed)
    from applied(4) obtain v x a where r: "sameData u v"
      "applyRun E l (clockOf u l ?d) (bufferedRows u l ?d (clockOf u l ?d + 1)) v = (Inr a, x)"
      "rpOplog t = rpOplog u" "\<And>d'. clockOf t l d' = (if d' = ?d then a else clockOf u l d')"
      "sameData (x\<lparr>rpClocks := AList.update (l, ?d) a (rpClocks x)\<rparr>) t"
      unfolding trimmed by (rule caughtUp_result) blast
    have con: "consistent kind key fit (logged u l)" using assms(3) rt r(3) by (simp add: logged_def)
    let ?P = "\<lambda>b z. rpOplog z = rpOplog u \<and> ?S ((clockOf u l)(?d := b)) z"
    have "?P a x"
    proof (rule applyRun_rule [OF r(2)])
      show "?P (clockOf u l ?d) v" using su held [OF r(1)] sameData_tables(1) [OF r(1)] by simp
    next
      fix b q y z
      assume q: "q \<in> set (bufferedRows u l ?d (clockOf u l ?d + 1))" "oeSeq q = b + 1" "?P b y"
        "applyOplogEntryTx E l q y = (Inr (), z)"
      then have d: "oeDeviceID q = ?d" "q \<in> logged u l" by (auto simp: set_bufferedRows)
      have log: "logged y l = logged u l" "wellLogged y l = wellLogged u l"
        using q(3) by (simp_all add: logged_def wellLogged_def)
      have "?S (((clockOf u l)(?d := b))(oeDeviceID q := oeSeq q)) z"
        using settled_step [OF conjunct2 [OF q(3)] q(4)] d log w con q(2) by simp
      then show "?P (b + 1) z" using d q(2,3,4) apply_keeps_log(1) [of E l q y] by simp
    qed
    then have "?S ((clockOf u l)(?d := a)) x" by simp
    moreover have "clockOf t l = (clockOf u l)(?d := a)" using r(4) by auto
    moreover have "?S f (x\<lparr>rpClocks := AList.update (l, ?d) a (rpClocks x)\<rparr>) = ?S f x" for f
      by (simp add: settledUpto_def logged_def isLatest_def clock_blind)
    ultimately show ?thesis using held [OF r(5)] by simp
  qed
  with rt show ?thesis by simp
qed

end

section \<open>Tables that only their own entries write\<close>

text \<open>A relation that no write outside the tables of playlists, preferences and artwork can break.\<close>

locale register_frame = replica_frame rel for rel :: "replica \<Rightarrow> replica \<Rightarrow> bool" +
  assumes apart: "rel s (rpLibraries_update a1 s)" "rel s (rpItems_update a2 s)" "rel s (rpAssets_update a3 s)"
      "rel s (rpCaches_update a4 s)" "rel s (rpArtists_update a5 s)" "rel s (rpCredits_update a6 s)"
      "rel s (rpSourceFiles_update a7 s)" "rel s (rpLocalPaths_update a8 s)" "rel s (rpAlbumVariants_update a9 s)"
      "rel s (rpTrackVariants_update b1 s)" "rel s (rpAlbumTracks_update b2 s)"
begin

lemma kept_entry:
  assumes "trimSpace (oeEntityType e) = ''playlist'' \<Longrightarrow> kept (applyPlaylistOplogEntryTx E l e)"
    "trimSpace (oeEntityType e) = ''device_variant_preference'' \<Longrightarrow> kept (applyDeviceVariantPreferenceOplogEntryTx E l e)"
    "trimSpace (oeEntityType e) = ''artwork_variant'' \<Longrightarrow> kept (applyArtworkVariantOplogEntryTx E l e)"
    "\<And>d now. kept (ensureLikedPlaylistTx E l d now)"
  shows "kept (applyOplogEntryTx E l e)"
  using assms unfolding applyOplogEntryTx_def Let_def
  by (auto intro!: kept_ok kept_library kept_sourceFile kept_playlistItem kept_asset kept_cache apart)

end

section \<open>Artwork variants\<close>

definition artworkCell :: "string \<Rightarrow> replica \<Rightarrow> string \<times> string \<times> string \<Rightarrow> artworkRow option" where
  "artworkCell l s k = map_of (rpArtwork s) (l, k)"

definition artworkKey :: "replicaEnv \<Rightarrow> oplogEntry \<Rightarrow> string \<times> string \<times> string" where
  "artworkKey E e =
     (if trimSpace (oeOpKind e) = ''upsert'' then
        (case unmarshal (deParse E) (oePayload e) (decodeArtwork (deLib E)) of
           Inr p \<Rightarrow> artworkVariantIdentityForEntry e (wpScopeType p) (wpScopeID p) (wpVariant p)
         | Inl _ \<Rightarrow> ('''', '''', ''''))
      else
        (case unmarshalUnlessBlank (deParse E) (oePayload e) (decodeArtworkDelete (deLib E)) of
           Inr p \<Rightarrow> artworkVariantIdentityForEntry e (fst p) (fst (snd p)) (snd (snd p))
         | Inl _ \<Rightarrow> ('''', '''', '''')))"

definition artworkVal :: "replicaEnv \<Rightarrow> oplogEntry \<Rightarrow> artworkRow option" where
  "artworkVal E e =
     (if trimSpace (oeOpKind e) = ''upsert'' then
        (case unmarshal (deParse E) (oePayload e) (decodeArtwork (deLib E)) of
           Inr p \<Rightarrow> Some \<lparr>wrBlobID = trimSpace (wpBlobID p), wrMIME = trimSpace (wpMIME p),
             wrFileExt = normalizeArtworkFileExt E (wpFileExt p) (wpMIME p), wrW = wpW p, wrH = wpH p,
             wrBytes = wpBytes p, wrChosenSource = trimSpace (wpChosenSource p), wrChosenSourceRef = '''',
             wrUpdatedAt = payloadInstant (wpUpdatedAtNS p) e\<rparr>
         | Inl _ \<Rightarrow> None)
      else None)"

definition dated :: "oplogEntry \<Rightarrow> bool" where
  "dated e \<longleftrightarrow> oeTSNS e > 0"

interpretation artwork_frame: register_frame "\<lambda>s t. artworkCell l t = artworkCell l s" for l
  by unfold_locales (auto simp: artworkCell_def countCall_def rollbackTo_def fun_eq_iff)

lemma artwork_other:
  assumes "trimSpace (oeEntityType e) \<noteq> ''artwork_variant''"
  shows "artworkCell l (snd (applyOplogEntryTx E m e s)) = artworkCell l s"
proof -
  have blind: "artworkCell l (rpPlaylists_update f s) = artworkCell l s" "artworkCell l (rpPreferences_update g s) = artworkCell l s"
    for f g s by (simp_all add: artworkCell_def fun_eq_iff)
  show ?thesis
    by (intro artwork_frame.keptD artwork_frame.kept_entry artwork_frame.kept_playlist artwork_frame.kept_preference
        artwork_frame.kept_ensureLiked blind) (use assms in simp)
qed

lemma artwork_apply:
  assumes "trimSpace (oeEntityType e) = ''artwork_variant''"
  shows "applyOplogEntryTx E l e = applyArtworkVariantOplogEntryTx E l e"
  using assms by (simp add: applyOplogEntryTx_def)

lemma artwork_written:
  assumes "trimSpace (oeEntityType e) = ''artwork_variant''" "isLatest s l e" "dated e"
    "applyOplogEntryTx E l e s = (Inr (), t)"
  shows "artworkCell l t = (artworkCell l s)(artworkKey E e := artworkVal E e)"
proof -
  have c: "rpArtwork (countCall x) = rpArtwork x" for x by (simp add: countCall_def)
  have d: "oeTSNS e > 0" using assms(3) by (simp add: dated_def)
  show ?thesis
    using assms(2,4)
    unfolding artwork_apply [OF assms(1)] applyArtworkVariantOplogEntryTx_def Let_def
    by (auto simp: apply_results time_result [OF d] artworkCell_def artworkKey_def artworkVal_def fun_eq_iff c
        case_prod_beta split: if_splits)
qed

lemma artwork_outdated:
  assumes "trimSpace (oeEntityType e) = ''artwork_variant''" "\<not> isLatest s l e"
    "applyOplogEntryTx E l e s = (Inr (), t)"
  shows "artworkCell m t = artworkCell m s"
  using assms(2,3) unfolding artwork_apply [OF assms(1)] applyArtworkVariantOplogEntryTx_def
  by (auto simp: ifLatest_result artworkCell_def countCall_def)

interpretation artworks: register E "trimSpace l" "''artwork_variant''" "artworkCell (trimSpace l)" "artworkKey E"
    "artworkVal E" dated for E l
proof
  show "artworkCell (trimSpace l) t = artworkCell (trimSpace l) s" if "sameData s t" for s t
    using sameData_tables [OF that] by (simp add: artworkCell_def fun_eq_iff)
qed (auto simp: artworkCell_def artwork_other artwork_written artwork_outdated)

section \<open>Device preferences\<close>

definition preferenceCell :: "string \<Rightarrow> replica \<Rightarrow> string \<times> string \<times> string \<Rightarrow> preferenceRow option" where
  "preferenceCell l s k = map_of (rpPreferences s) (l, k)"

definition preferenceKey :: "replicaEnv \<Rightarrow> oplogEntry \<Rightarrow> string \<times> string \<times> string" where
  "preferenceKey E e =
     (case unmarshal (deParse E) (oePayload e) (decodePreference (deLib E)) of
        Inr p \<Rightarrow> deviceVariantPreferenceIdentityForEntry e p
      | Inl _ \<Rightarrow> ('''', '''', ''''))"

definition preferenceVal :: "replicaEnv \<Rightarrow> oplogEntry \<Rightarrow> preferenceRow option" where
  "preferenceVal E e =
     (case unmarshal (deParse E) (oePayload e) (decodePreference (deLib E)) of
        Inr p \<Rightarrow> Some \<lparr>vrChosenVariantID = trimSpace (vpChosenVariantID p),
          vrUpdatedAt = payloadInstant (vpUpdatedAtNS p) e\<rparr>
      | Inl _ \<Rightarrow> None)"

interpretation preference_frame: register_frame "\<lambda>s t. preferenceCell l t = preferenceCell l s" for l
  by unfold_locales (auto simp: preferenceCell_def countCall_def rollbackTo_def fun_eq_iff)

lemma preference_other:
  assumes "trimSpace (oeEntityType e) \<noteq> ''device_variant_preference''"
  shows "preferenceCell l (snd (applyOplogEntryTx E m e s)) = preferenceCell l s"
proof -
  have blind: "preferenceCell l (rpPlaylists_update f s) = preferenceCell l s" "preferenceCell l (rpArtwork_update g s) = preferenceCell l s"
    for f g s by (simp_all add: preferenceCell_def fun_eq_iff)
  show ?thesis
    by (intro preference_frame.keptD preference_frame.kept_entry preference_frame.kept_playlist
        preference_frame.kept_artwork preference_frame.kept_ensureLiked blind) (use assms in simp)
qed

lemma preference_apply:
  assumes "trimSpace (oeEntityType e) = ''device_variant_preference''"
  shows "applyOplogEntryTx E l e = applyDeviceVariantPreferenceOplogEntryTx E l e"
  using assms by (simp add: applyOplogEntryTx_def)

lemma preference_written:
  assumes "trimSpace (oeEntityType e) = ''device_variant_preference''" "isLatest s l e" "dated e"
    "applyOplogEntryTx E l e s = (Inr (), t)"
  shows "preferenceCell l t = (preferenceCell l s)(preferenceKey E e := preferenceVal E e)"
proof -
  have c: "rpPreferences (countCall x) = rpPreferences x" for x by (simp add: countCall_def)
  have d: "oeTSNS e > 0" using assms(3) by (simp add: dated_def)
  show ?thesis
    using assms(2,4)
    unfolding preference_apply [OF assms(1)] applyDeviceVariantPreferenceOplogEntryTx_def Let_def
    by (auto simp: apply_results time_result [OF d] preferenceCell_def preferenceKey_def preferenceVal_def
        fun_eq_iff c case_prod_beta split: if_splits)
qed

lemma preference_outdated:
  assumes "trimSpace (oeEntityType e) = ''device_variant_preference''" "\<not> isLatest s l e"
    "applyOplogEntryTx E l e s = (Inr (), t)"
  shows "preferenceCell m t = preferenceCell m s"
  using assms(2,3) unfolding preference_apply [OF assms(1)] applyDeviceVariantPreferenceOplogEntryTx_def
  by (auto simp: ifLatest_result preferenceCell_def countCall_def)

interpretation preferences: register E "trimSpace l" "''device_variant_preference''" "preferenceCell (trimSpace l)"
    "preferenceKey E" "preferenceVal E" dated for E l
proof
  show "preferenceCell (trimSpace l) t = preferenceCell (trimSpace l) s" if "sameData s t" for s t
    using sameData_tables [OF that] by (simp add: preferenceCell_def fun_eq_iff)
qed (auto simp: preferenceCell_def preference_other preference_written preference_outdated)

section \<open>Live playlists\<close>

text \<open>
  What of a playlist the entries decide: whether it is live, its name, kind, creator and last change.
  \<open>CreatedAt\<close> is the time of the entry that happened to be applied first, so it is left out, and so is
  the playlist of liked songs, which its items revive.
\<close>

definition liveContent :: "playlistRow \<Rightarrow> (string \<times> string \<times> string \<times> int) option" where
  "liveContent r = (if plDeletedAt r = None then Some (plName r, plKind r, plCreatedBy r, plUpdatedAt r) else None)"

definition playlistCell :: "replicaEnv \<Rightarrow> string \<Rightarrow> replica \<Rightarrow> string \<Rightarrow> (string \<times> string \<times> string \<times> int) option" where
  "playlistCell E l s pid =
     (if pid = likedPlaylistIDForLibrary E l then None else Option.bind (map_of (rpPlaylists s) (l, pid)) liveContent)"

definition playlistRowKey :: "replicaEnv \<Rightarrow> oplogEntry \<Rightarrow> string" where
  "playlistRowKey E e =
     (if trimSpace (oeOpKind e) = ''upsert'' then
        (case unmarshal (deParse E) (oePayload e) (decodePlaylist (deLib E)) of
           Inr p \<Rightarrow> firstNonEmpty [ppPlaylistID p, oeEntityID e] | Inl _ \<Rightarrow> '''')
      else
        (case unmarshalUnlessBlank (deParse E) (oePayload e) (decodePlaylistDelete (deLib E)) of
           Inr p \<Rightarrow> firstNonEmpty [p, oeEntityID e] | Inl _ \<Rightarrow> ''''))"

definition playlistVal :: "replicaEnv \<Rightarrow> string \<Rightarrow> oplogEntry \<Rightarrow> (string \<times> string \<times> string \<times> int) option" where
  "playlistVal E l e =
     (if trimSpace (oeOpKind e) = ''upsert'' \<and> playlistRowKey E e \<noteq> likedPlaylistIDForLibrary E l then
        (case unmarshal (deParse E) (oePayload e) (decodePlaylist (deLib E)) of
           Inr p \<Rightarrow> Some (trimSpace (ppName p), if trimSpace (ppKind p) = '''' then ''normal'' else trimSpace (ppKind p),
             firstNonEmpty [ppCreatedBy p, oeDeviceID e], timeOfNanos (oeTSNS e))
         | Inl _ \<Rightarrow> None)
      else None)"

interpretation playlist_frame: register_frame "\<lambda>s t. playlistCell E l t = playlistCell E l s" for E l
  by unfold_locales (auto simp: playlistCell_def countCall_def rollbackTo_def fun_eq_iff)

lemma playlist_other:
  assumes "trimSpace (oeEntityType e) \<noteq> ''playlist''" "trimSpace l = l"
  shows "playlistCell E l (snd (applyOplogEntryTx E l e s)) = playlistCell E l s"
proof -
  have blind: "playlistCell E l (rpPreferences_update f s) = playlistCell E l s" "playlistCell E l (rpArtwork_update g s) = playlistCell E l s"
    for f g s by (simp_all add: playlistCell_def fun_eq_iff)
  have revived: "playlistCell E l (s\<lparr>rpPlaylists := upsertRow (l, likedPlaylistIDForLibrary E l) r f (rpPlaylists s)\<rparr>)
    = playlistCell E l s" for r f s
    by (simp add: playlistCell_def fun_eq_iff)
  have liked: "playlist_frame.kept E l (ensureLikedPlaylistTx E l d now)" for d now
    using assms(2)
    by (auto simp: ensureLikedPlaylistTx_def Let_def revived
        intro!: playlist_frame.kept_ok playlist_frame.kept_exec)
  show ?thesis
    by (intro playlist_frame.keptD playlist_frame.kept_entry playlist_frame.kept_preference
        playlist_frame.kept_artwork liked blind) (use assms in simp)
qed

lemma playlist_apply:
  assumes "trimSpace (oeEntityType e) = ''playlist''"
  shows "applyOplogEntryTx E l e = applyPlaylistOplogEntryTx E l e"
  using assms by (simp add: applyOplogEntryTx_def)

lemma playlistCell_upsert:
  "playlistCell E l (x\<lparr>rpPlaylists := upsertRow (l, k) new merge (rpPlaylists s)\<rparr>) =
     (playlistCell E l s)(k := if k = likedPlaylistIDForLibrary E l then None
        else case map_of (rpPlaylists s) (l, k) of None \<Rightarrow> liveContent new | Some old \<Rightarrow> liveContent (merge old))"
  by (auto simp: playlistCell_def fun_eq_iff split: option.split)

lemma playlistCell_drop:
  assumes "\<And>r. liveContent (f r) = None"
  shows "playlistCell E l (x\<lparr>rpPlaylists := updateRow (l, k) f (rpPlaylists s)\<rparr>) = (playlistCell E l s)(k := None)"
  using assms by (cases "map_of (rpPlaylists s) (l, k)") (auto simp: playlistCell_def fun_eq_iff)

lemma playlist_written:
  assumes "trimSpace (oeEntityType e) = ''playlist''" "isLatest s l e" "dated e"
    "applyOplogEntryTx E l e s = (Inr (), t)"
  shows "playlistCell E l t = (playlistCell E l s)(playlistRowKey E e := playlistVal E l e)"
proof -
  have c: "rpPlaylists (countCall x) = rpPlaylists x" for x by (simp add: countCall_def)
  have d: "oeTSNS e > 0" using assms(3) by (simp add: dated_def)
  have drop: "playlistCell E l (x\<lparr>rpPlaylists := updateRow (l, k) (\<lambda>old. old\<lparr>plDeletedAt := Some at, plUpdatedAt := at\<rparr>)
    (rpPlaylists s)\<rparr>) = (playlistCell E l s)(k := None)" for x k at
    by (rule playlistCell_drop) (simp add: liveContent_def)
  show ?thesis
    using assms(2,4)
    unfolding playlist_apply [OF assms(1)] applyPlaylistOplogEntryTx_def Let_def
    by (auto simp: apply_results time_result [OF d] c playlistCell_upsert drop liveContent_def playlistRowKey_def
        playlistVal_def simp del: firstNonEmpty.simps intro!: arg_cong [where f = "fun_upd _ _"]
        split: if_splits option.split)
qed

lemma playlist_outdated:
  assumes "trimSpace (oeEntityType e) = ''playlist''" "\<not> isLatest s l e"
    "applyOplogEntryTx E l e s = (Inr (), t)"
  shows "playlistCell E m t = playlistCell E m s"
  using assms(2,3) unfolding playlist_apply [OF assms(1)] applyPlaylistOplogEntryTx_def
  by (auto simp: ifLatest_result playlistCell_def countCall_def fun_eq_iff)

interpretation playlists: register E "trimSpace l" "''playlist''" "playlistCell E (trimSpace l)" "playlistRowKey E"
    "playlistVal E (trimSpace l)" dated for E l
proof
  show "playlistCell E (trimSpace l) t = playlistCell E (trimSpace l) s" if "sameData s t" for s t
    using sameData_tables [OF that] by (simp add: playlistCell_def fun_eq_iff)
qed (auto simp: playlistCell_def playlist_other playlist_written playlist_outdated fun_eq_iff)

end
