(* ===== verification/Convergence.thy ===== *)
theory Convergence
  imports Registers
begin

text \<open>
  Replicas that receive batches of entries (\<open>applyRemoteOpsSummary\<close>), in any order, with repetitions and
  with calls that fail: what stays true from batch to batch, and what follows once every device's entries
  are there without a gap.
\<close>

section \<open>Batches\<close>

definition receive :: "replicaEnv \<Rightarrow> string \<Rightarrow> replica \<Rightarrow> oplogEntry list \<Rightarrow> replica" where
  "receive E l s ops = snd (applyRemoteOpsSummary E l 0 False ops s)"

definition receiveAll :: "replicaEnv \<Rightarrow> string \<Rightarrow> oplogEntry list list \<Rightarrow> replica \<Rightarrow> replica" where
  "receiveAll E l batches s = foldl (receive E l) s batches"

lemma summary_rule:
  assumes "P s" "\<And>op u. op \<in> set ops \<Longrightarrow> P u \<Longrightarrow> P (snd (applyRemoteOp E l op u))"
  shows "P (snd (applyRemoteOpsSummary E l n b ops s))"
  using assms
proof (induction ops arbitrary: s n b)
  case (Cons op ops)
  obtain i err t where r: "applyRemoteOp E l op s = ((i, err), t)" by (metis surj_pair)
  have "P t" using Cons.prems(2) [of op s] Cons.prems(1) r by simp
  with Cons.IH [of t] Cons.prems(2) r show ?case by (simp add: Let_def)
qed simp

lemma receiveAll_rule:
  assumes "P s" "\<And>op u. op \<in> set (concat batches) \<Longrightarrow> P u \<Longrightarrow> P (snd (applyRemoteOp E l op u))"
  shows "P (receiveAll E l batches s)"
  using assms
proof (induction batches arbitrary: s)
  case (Cons ops batches)
  have "P (receive E l s ops)"
    unfolding receive_def by (rule summary_rule [of P]) (use Cons.prems in simp_all)
  with Cons show ?case by (simp add: receiveAll_def)
qed (simp add: receiveAll_def)

section \<open>The log only grows, by received entries\<close>

lemma received_log:
  "logged (snd (applyRemoteOp E l op s)) (trimSpace l) \<in>
     {logged s (trimSpace l), insert (rowFromRemote E op) (logged s (trimSpace l))}"
proof -
  obtain r t where rt: "applyRemoteOp E l op s = (r, t)" by (cases "applyRemoteOp E l op s")
  from rt have "logged t (trimSpace l) \<in> {logged s (trimSpace l), insert (rowFromRemote E op) (logged s (trimSpace l))}"
  proof (cases rule: applyRemoteOp_cases)
    case unchanged
    then show ?thesis using sameData_held(1) by simp
  next
    case buffered
    then show ?thesis using stored_result(1) [OF buffered(2)] by simp
  next
    case (applied u)
    from applied(4) have "rpOplog t = rpOplog u" by (rule caughtUp_result)
    then show ?thesis using stored_result(1) [OF applied(2)] by (simp add: logged_def)
  qed
  with rt show ?thesis by simp
qed

lemma received_log_mono: "logged s (trimSpace l) \<subseteq> logged (snd (applyRemoteOp E l op s)) (trimSpace l)"
  using received_log [of E l op s] by auto

lemma summary_log_mono: "logged s (trimSpace l) \<subseteq> logged (snd (applyRemoteOpsSummary E l n b ops s)) (trimSpace l)"
proof (rule summary_rule)
  fix op u
  assume "logged s (trimSpace l) \<subseteq> logged u (trimSpace l)"
  then show "logged s (trimSpace l) \<subseteq> logged (snd (applyRemoteOp E l op u)) (trimSpace l)"
    using received_log_mono [of u l E op] by blast
qed simp

lemma receiveAll_log_mono: "logged s (trimSpace l) \<subseteq> logged (receiveAll E l batches s) (trimSpace l)"
proof (rule receiveAll_rule)
  fix op u
  assume "logged s (trimSpace l) \<subseteq> logged u (trimSpace l)"
  then show "logged s (trimSpace l) \<subseteq> logged (snd (applyRemoteOp E l op u)) (trimSpace l)"
    using received_log_mono [of u l E op] by blast
qed simp

lemma receiveAll_inStep: "inStep s (trimSpace l) \<Longrightarrow> inStep (receiveAll E l batches s) (trimSpace l)"
  by (rule receiveAll_rule [of "\<lambda>u. inStep u (trimSpace l)"]) (simp_all add: inStep_received)

section \<open>Registers after batches\<close>

context register
begin

lemma settled_summary:
  assumes "inStep s l" "settledUpto l kind cell key val (clockOf s l) s"
    "consistent kind key fit (logged (snd (applyRemoteOpsSummary E l n b ops s)) l)"
  shows "inStep (snd (applyRemoteOpsSummary E l n b ops s)) l
    \<and> settledUpto l kind cell key val (clockOf (snd (applyRemoteOpsSummary E l n b ops s)) l)
        (snd (applyRemoteOpsSummary E l n b ops s))"
  using assms
proof (induction ops arbitrary: s n b)
  case (Cons op ops)
  obtain i err t where r: "applyRemoteOp E l op s = ((i, err), t)" by (metis surj_pair)
  let ?w = "snd (applyRemoteOpsSummary E l n b (op # ops) s)"
  have e: "?w = (if err \<noteq> None then t else snd (applyRemoteOpsSummary E l (n + i) (b \<or> trimSpace (oeEntityType op) = ''source_file'') ops t))"
    using r by (simp add: Let_def)
  have sub: "logged t l \<subseteq> logged ?w l"
    unfolding e using summary_log_mono [of t l, unfolded trimmed] by auto
  have t: "inStep t l" using inStep_received [of s l E op] Cons.prems(1) r trimmed by simp
  have "settledUpto l kind cell key val (clockOf t l) t"
    using settled_received [of s op] Cons.prems(1,2) consistent_subset [OF Cons.prems(3) sub] r by simp
  with t Cons.IH [of t] Cons.prems(3) show ?case unfolding e by auto
qed simp

lemma settled_all:
  assumes "inStep s l" "settledUpto l kind cell key val (clockOf s l) s"
    "consistent kind key fit (logged (receiveAll E l batches s) l)"
  shows "inStep (receiveAll E l batches s) l
    \<and> settledUpto l kind cell key val (clockOf (receiveAll E l batches s) l) (receiveAll E l batches s)"
  using assms
proof (induction batches arbitrary: s)
  case (Cons ops batches)
  have "logged (receive E l s ops) l \<subseteq> logged (receiveAll E l (ops # batches) s) l"
    using receiveAll_log_mono [of "receive E l s ops" l E batches] trimmed by (simp add: receiveAll_def)
  then have "consistent kind key fit (logged (receive E l s ops) l)"
    using Cons.prems(3) by (rule consistent_subset [rotated])
  with settled_summary [OF Cons.prems(1,2)] have
    "inStep (receive E l s ops) l \<and> settledUpto l kind cell key val (clockOf (receive E l s ops) l) (receive E l s ops)"
    unfolding receive_def by blast
  with Cons show ?case by (simp add: receiveAll_def)
qed (simp add: receiveAll_def)

end

section \<open>Complete logs\<close>

text \<open>Every device's entries are numbered from 1 without a gap.\<close>

definition gapless :: "oplogEntry set \<Rightarrow> bool" where
  "gapless A \<longleftrightarrow> (\<forall>e \<in> A. 1 \<le> oeSeq e
     \<and> (\<forall>n \<in> {1..oeSeq e}. \<exists>x \<in> A. oeDeviceID x = oeDeviceID e \<and> oeSeq x = n))"

lemma gapless_complete:
  assumes "inStep s l" "gapless (logged s l)"
  shows "complete s l"
proof -
  have "oeSeq e \<le> clockOf s l (oeDeviceID e)" if e: "e \<in> logged s l" for e
  proof (rule ccontr)
    let ?c = "clockOf s l (oeDeviceID e)"
    assume "\<not> oeSeq e \<le> ?c"
    moreover have "0 \<le> ?c" "?c + 1 \<notin> oeSeq ` set (deviceEntries s l (oeDeviceID e))"
      using assms(1) by (simp_all add: inStep_def)
    moreover from calculation have "?c + 1 \<in> {1..oeSeq e}" by simp
    moreover from this obtain x where "x \<in> logged s l" "oeDeviceID x = oeDeviceID e" "oeSeq x = ?c + 1"
      using assms(2) e unfolding gapless_def by blast
    ultimately show False by (auto simp: set_deviceEntries image_iff)
  qed
  with assms(2) show ?thesis by (auto simp: complete_def gapless_def)
qed

section \<open>A new replica\<close>

definition newReplica :: "replica \<Rightarrow> string \<Rightarrow> bool" where
  "newReplica s l \<longleftrightarrow>
     list_all (\<lambda>r. fst r \<noteq> l) (rpOplog s) \<and> list_all (\<lambda>r. fst (fst r) \<noteq> l) (rpClocks s)
     \<and> list_all (\<lambda>r. fst (fst r) \<noteq> l) (rpArtwork s) \<and> list_all (\<lambda>r. fst (fst r) \<noteq> l) (rpPreferences s)
     \<and> list_all (\<lambda>r. fst (fst r) \<noteq> l) (rpPlaylists s)"

lemma map_of_absent: "list_all (\<lambda>r. fst (fst r) \<noteq> l) rows \<Longrightarrow> map_of rows (l, k) = None"
  by (auto simp: map_of_eq_None_iff list_all_iff)

lemma newReplica_held:
  assumes "newReplica s l"
  shows "logged s l = {}" "clockOf s l d = 0" "inStep s l"
    "settledUpto l kind (artworkCell l) k1 v1 f s" "settledUpto l kind (preferenceCell l) k2 v2 f s"
    "settledUpto l kind (playlistCell E l) k3 v3 f s"
proof -
  show log: "logged s l = {}" using assms by (auto simp: newReplica_def logged_def list_all_iff)
  show clock: "clockOf s l d = 0" for d
    using assms map_of_absent [of l "rpClocks s" d] by (simp add: newReplica_def clockOf_def)
  have no: "filter (\<lambda>r. fst r = l) (rpOplog s) = []" using assms by (simp add: newReplica_def list_all_iff filter_empty_conv)
  have "set (deviceEntries s l d) = {}" for d using log by (simp add: set_deviceEntries)
  then show "inStep s l" using log clock no by (auto simp: inStep_def wellLogged_def)
  show "settledUpto l kind (artworkCell l) k1 v1 f s" "settledUpto l kind (preferenceCell l) k2 v2 f s"
    "settledUpto l kind (playlistCell E l) k3 v3 f s"
    using assms log map_of_absent [of l "rpArtwork s"] map_of_absent [of l "rpPreferences s"]
      map_of_absent [of l "rpPlaylists s"]
    by (simp_all add: settledUpto_def newReplica_def artworkCell_def preferenceCell_def playlistCell_def)
qed

text \<open>Entries of one entity are about one row, in each of the three tables.\<close>

definition coherent :: "replicaEnv \<Rightarrow> oplogEntry set \<Rightarrow> bool" where
  "coherent E A \<longleftrightarrow> consistent ''artwork_variant'' (artworkKey E) dated A
     \<and> consistent ''device_variant_preference'' (preferenceKey E) dated A
     \<and> consistent ''playlist'' (playlistRowKey E) dated A"

text \<open>Two processes: the same program, with clocks, ids and failures of their own.\<close>

definition elsewhere :: "replicaEnv \<Rightarrow> (nat \<Rightarrow> int) \<Rightarrow> (nat \<Rightarrow> string option) \<Rightarrow> (nat \<Rightarrow> string) \<Rightarrow> replicaEnv" where
  "elsewhere E clock fault ids = E\<lparr>dbClock := clock, dbFault := fault, deNewUUID := ids\<rparr>"

lemma elsewhere_same:
  "artworkKey (elsewhere E c f i) = artworkKey E" "artworkVal (elsewhere E c f i) = artworkVal E"
  "preferenceKey (elsewhere E c f i) = preferenceKey E" "preferenceVal (elsewhere E c f i) = preferenceVal E"
  "playlistRowKey (elsewhere E c f i) = playlistRowKey E" "playlistVal (elsewhere E c f i) l = playlistVal E l"
  "playlistCell (elsewhere E c f i) l = playlistCell E l" "coherent (elsewhere E c f i) A = coherent E A"
proof -
  have ext: "normalizeArtworkFileExt (elsewhere E c f i) = normalizeArtworkFileExt E"
    by (intro ext, simp add: normalizeArtworkFileExt_def elsewhere_def Let_def cong: if_cong)
  have same: "deParse (elsewhere E c f i) = deParse E" "deLib (elsewhere E c f i) = deLib E"
    "likedPlaylistIDForLibrary (elsewhere E c f i) l = likedPlaylistIDForLibrary E l"
    by (simp_all add: elsewhere_def likedPlaylistIDForLibrary_def)
  show a: "artworkKey (elsewhere E c f i) = artworkKey E" and b: "preferenceKey (elsewhere E c f i) = preferenceKey E"
    and p: "playlistRowKey (elsewhere E c f i) = playlistRowKey E"
    by (simp_all add: fun_eq_iff artworkKey_def preferenceKey_def playlistRowKey_def same)
  show "artworkVal (elsewhere E c f i) = artworkVal E" "preferenceVal (elsewhere E c f i) = preferenceVal E"
    "playlistVal (elsewhere E c f i) l = playlistVal E l" "playlistCell (elsewhere E c f i) l = playlistCell E l"
    unfolding fun_eq_iff artworkVal_def preferenceVal_def playlistVal_def playlistCell_def same ext p by simp_all
  show "coherent (elsewhere E c f i) A = coherent E A" by (simp add: coherent_def a b p)
qed

text \<open>Every register of a new replica is settled after any batches.\<close>

definition settledReplica :: "replicaEnv \<Rightarrow> string \<Rightarrow> replica \<Rightarrow> bool" where
  "settledReplica E l s \<longleftrightarrow> inStep s l
     \<and> settledUpto l ''artwork_variant'' (artworkCell l) (artworkKey E) (artworkVal E) (clockOf s l) s
     \<and> settledUpto l ''device_variant_preference'' (preferenceCell l) (preferenceKey E) (preferenceVal E) (clockOf s l) s
     \<and> settledUpto l ''playlist'' (playlistCell E l) (playlistRowKey E) (playlistVal E l) (clockOf s l) s"

lemma newReplica_settled: "newReplica s l \<Longrightarrow> settledReplica E l s"
  by (simp add: settledReplica_def newReplica_held)

lemma settled_receiveAll:
  assumes "settledReplica E (trimSpace l) s" "coherent E (logged (receiveAll E (trimSpace l) batches s) (trimSpace l))"
  shows "settledReplica E (trimSpace l) (receiveAll E (trimSpace l) batches s)"
  using assms artworks.settled_all [of s l E batches] preferences.settled_all [of s l E batches]
    playlists.settled_all [of s l E batches]
  by (simp add: settledReplica_def coherent_def)

lemma settled_replicas_agree:
  assumes "settledReplica E l s" "settledReplica E l t" "logged s l = logged t l" "gapless (logged s l)"
    "coherent E (logged s l)"
  shows "artworkCell l s = artworkCell l t" "preferenceCell l s = preferenceCell l t"
    "playlistCell E l s = playlistCell E l t"
proof -
  have w: "wellLogged s l" "wellLogged t l" and c: "complete s l" "complete t l"
    using assms gapless_complete [of s l] gapless_complete [of t l] by (auto simp: settledReplica_def inStep_def)
  note agree = settled_agree [OF w assms(3) c]
  show "artworkCell l s = artworkCell l t"
    by (rule agree [of "''artwork_variant''" "artworkKey E" dated _ "artworkVal E"])
      (use assms in \<open>simp_all add: settledReplica_def coherent_def\<close>)
  show "preferenceCell l s = preferenceCell l t"
    by (rule agree [of "''device_variant_preference''" "preferenceKey E" dated _ "preferenceVal E"])
      (use assms in \<open>simp_all add: settledReplica_def coherent_def\<close>)
  show "playlistCell E l s = playlistCell E l t"
    by (rule agree [of "''playlist''" "playlistRowKey E" dated _ "playlistVal E l"])
      (use assms in \<open>simp_all add: settledReplica_def coherent_def\<close>)
qed

end
