(* ===== verification/PlaylistService.thy ===== *)
theory PlaylistService
  imports OplogApply
begin

text \<open>
  The playlist operations of the user (\<open>service_playlist.go\<close>) and the artwork rows they touch
  (\<open>state_replication.go\<close>, \<open>local_metadata.go\<close>).  Each writes the rows and appends an entry to the log
  in one transaction.  The active library and device are read first (\<open>requireActiveContext\<close>); the
  events sent to the window afterwards are left out, as are the operations that build artwork files.
\<close>

section \<open>Artwork rows\<close>

definition upsertLocalArtworkSourceRefTx ::
  "replicaEnv \<Rightarrow> string \<Rightarrow> string \<Rightarrow> string \<Rightarrow> string \<Rightarrow> string \<Rightarrow> string \<Rightarrow> int \<Rightarrow> unit replicaDB" where
  "upsertLocalArtworkSourceRefTx E libraryID scopeType scopeID variant chosenSource ref0 updatedAt =
     (let ref = pathClean (deLib E) (trimSpace ref0) in
      if trimSpace libraryID = '''' \<or> trimSpace scopeType = '''' \<or> trimSpace scopeID = ''''
        \<or> trimSpace variant = '''' \<or> ref = '''' then okDB ()
      else
        let row = \<lparr>afChosenSource = trimSpace chosenSource, afChosenSourceRef = ref, afUpdatedAt = updatedAt\<rparr>
        in execDB E (\<lambda>s. s\<lparr>rpArtworkRefs :=
             upsertRow (trimSpace libraryID, trimSpace scopeType, trimSpace scopeID, trimSpace variant) row
               (\<lambda>_. row) (rpArtworkRefs s)\<rparr>))"

definition deleteLocalArtworkSourceScopeTx :: "replicaEnv \<Rightarrow> string \<Rightarrow> string \<Rightarrow> string \<Rightarrow> unit replicaDB" where
  "deleteLocalArtworkSourceScopeTx E libraryID scopeType scopeID =
     execDB E (\<lambda>s. s\<lparr>rpArtworkRefs := filter (\<lambda>r. \<not> (fst (fst r) = trimSpace libraryID
       \<and> fst (snd (fst r)) = trimSpace scopeType \<and> fst (snd (snd (fst r))) = trimSpace scopeID)) (rpArtworkRefs s)\<rparr>)"

text \<open>A new or changed variant, with the time it was given or the present one.\<close>

definition artworkPayloadJSON :: "string \<Rightarrow> string \<Rightarrow> string \<Rightarrow> artworkRow \<Rightarrow> json" where
  "artworkPayloadJSON scopeType scopeID variant row =
     JObj [(''scopeType'', JStr scopeType), (''scopeId'', JStr scopeID), (''variant'', JStr variant),
       (''blobId'', JStr (wrBlobID row)), (''mime'', JStr (wrMIME row)), (''fileExt'', JStr (wrFileExt row)),
       (''w'', JInt (wrW row)), (''h'', JInt (wrH row)), (''bytes'', JInt (wrBytes row)),
       (''chosenSource'', JStr (wrChosenSource row)), (''chosenSourceRef'', JStr ''''),
       (''updatedAtNs'', JInt (nanosOfTime (wrUpdatedAt row)))]"

definition upsertArtworkVariantTx ::
  "replicaEnv \<Rightarrow> localContext \<Rightarrow> string \<Rightarrow> string \<Rightarrow> string \<Rightarrow> artworkRow \<Rightarrow> unit replicaDB" where
  "upsertArtworkVariantTx E local scopeType0 scopeID0 variant0 row0 =
     bindDB (clockDB E) (\<lambda>now.
       let libraryID = trimSpace (lcLibraryID local);
           scopeType = trimSpace scopeType0; scopeID = trimSpace scopeID0; variant = trimSpace variant0;
           mime = trimSpace (wrMIME row0);
           row = row0\<lparr>wrBlobID := trimSpace (wrBlobID row0), wrMIME := mime,
             wrFileExt := normalizeArtworkFileExt E (wrFileExt row0) mime,
             wrChosenSource := trimSpace (wrChosenSource row0), wrChosenSourceRef := '''',
             wrUpdatedAt := (if wrUpdatedAt row0 = 0 then now else wrUpdatedAt row0)\<rparr>
       in bindDB (upsertLocalArtworkSourceRefTx E libraryID scopeType scopeID variant (wrChosenSource row)
            (trimSpace (wrChosenSourceRef row0)) (wrUpdatedAt row)) (\<lambda>_.
          bindDB (execDB E (\<lambda>s. s\<lparr>rpArtwork :=
            upsertRow (libraryID, scopeType, scopeID, variant) row (\<lambda>_. row) (rpArtwork s)\<rparr>)) (\<lambda>_.
          bindDB (appendLocalOplogTx E local ''artwork_variant'' (artworkVariantEntityID scopeType scopeID variant)
            ''upsert'' (artworkPayloadJSON scopeType scopeID variant row)) (\<lambda>_. okDB ()))))"

fun deleteVariants :: "replicaEnv \<Rightarrow> localContext \<Rightarrow> string \<Rightarrow> string \<Rightarrow> string list \<Rightarrow> unit replicaDB" where
  "deleteVariants E local scopeType scopeID [] = okDB ()"
| "deleteVariants E local scopeType scopeID (variant # rest) =
     bindDB (execDB E (\<lambda>s. s\<lparr>rpArtwork := deleteRow (lcLibraryID local, scopeType, scopeID, variant) (rpArtwork s)\<rparr>)) (\<lambda>_.
     bindDB (appendLocalOplogTx E local ''artwork_variant'' (artworkVariantEntityID scopeType scopeID variant) ''delete''
       (JObj [(''scopeType'', JStr scopeType), (''scopeId'', JStr scopeID), (''variant'', JStr (trimSpace variant))])) (\<lambda>_.
       deleteVariants E local scopeType scopeID rest))"

definition scopeVariants :: "replica \<Rightarrow> string \<Rightarrow> string \<Rightarrow> string \<Rightarrow> (string \<times> artworkRow) list" where
  "scopeVariants s libraryID scopeType scopeID =
     orderBy (\<lambda>a b. keyBefore (fst a) (fst b))
       (map (\<lambda>r. (snd (snd (snd (fst r))), snd r))
         (filter (\<lambda>r. fst (fst r) = libraryID \<and> fst (snd (fst r)) = scopeType \<and> fst (snd (snd (fst r))) = scopeID)
           (rpArtwork s)))"

definition deleteArtworkScopeTx :: "replicaEnv \<Rightarrow> localContext \<Rightarrow> string \<Rightarrow> string \<Rightarrow> unit replicaDB" where
  "deleteArtworkScopeTx E local scopeType0 scopeID0 =
     (let scopeType = trimSpace scopeType0; scopeID = trimSpace scopeID0 in
      if scopeType = '''' \<or> scopeID = '''' then okDB ()
      else
        bindDB (queryDB E (\<lambda>s. map fst (scopeVariants s (lcLibraryID local) scopeType scopeID))) (\<lambda>variants.
        bindDB (deleteLocalArtworkSourceScopeTx E (lcLibraryID local) scopeType scopeID) (\<lambda>_.
          deleteVariants E local scopeType scopeID variants)))"

section \<open>Reading\<close>

record playlistRecord =
  prcLibraryID :: string
  prcPlaylistID :: string
  prcName :: string
  prcKind :: string
  prcIsReserved :: bool
  prcThumb :: "(string \<times> artworkRow) option"
  prcHasCustomCover :: bool
  prcCreatedBy :: string
  prcCreatedAt :: int
  prcUpdatedAt :: int

record playlistItemRecord =
  pirLibraryID :: string
  pirPlaylistID :: string
  pirItemID :: string
  pirLibraryRecordingID :: string
  pirRecordingID :: string
  pirAddedAt :: int
  pirUpdatedAt :: int

definition playlistByID :: "replicaEnv \<Rightarrow> string \<Rightarrow> string \<Rightarrow> playlistRow option replicaDB" where
  "playlistByID E libraryID playlistID = queryDB E (\<lambda>s.
     (case map_of (rpPlaylists s) (libraryID, playlistID) of
        Some row \<Rightarrow> if plDeletedAt row = None then Some row else None
      | None \<Rightarrow> None))"

definition playlistItemByIDTx :: "replicaEnv \<Rightarrow> string \<Rightarrow> string \<Rightarrow> string \<Rightarrow> playlistItemRow option replicaDB" where
  "playlistItemByIDTx E libraryID playlistID itemID = queryDB E (\<lambda>s.
     (case map_of (rpItems s) (libraryID, playlistID, itemID) of
        Some row \<Rightarrow> if piDeletedAt row = None then Some row else None
      | None \<Rightarrow> None))"

definition liveItems :: "replica \<Rightarrow> string \<Rightarrow> string \<Rightarrow> (string \<times> playlistItemRow) list" where
  "liveItems s libraryID playlistID =
     map (\<lambda>r. (snd (snd (fst r)), snd r))
       (filter (\<lambda>r. fst (fst r) = libraryID \<and> fst (snd (fst r)) = playlistID \<and> piDeletedAt (snd r) = None) (rpItems s))"

text \<open>The newest live item of a recording.\<close>

definition newerItem :: "string \<times> playlistItemRow \<Rightarrow> string \<times> playlistItemRow \<Rightarrow> bool" where
  "newerItem a b \<longleftrightarrow>
     piUpdatedAt (snd b) < piUpdatedAt (snd a)
     \<or> piUpdatedAt (snd b) = piUpdatedAt (snd a) \<and> (piAddedAt (snd b) < piAddedAt (snd a)
        \<or> piAddedAt (snd b) = piAddedAt (snd a) \<and> keyBefore (fst b) (fst a))"

definition playlistItemByLibraryRecordingID ::
  "replicaEnv \<Rightarrow> string \<Rightarrow> string \<Rightarrow> string \<Rightarrow> (string \<times> playlistItemRow) option replicaDB" where
  "playlistItemByLibraryRecordingID E libraryID playlistID recordingID = queryDB E (\<lambda>s.
     (case orderBy newerItem (filter (\<lambda>i. piTrackVariantID (snd i) = recordingID) (liveItems s libraryID playlistID)) of
        [] \<Rightarrow> None
      | i # _ \<Rightarrow> Some i))"

definition recordingExists :: "replicaEnv \<Rightarrow> string \<Rightarrow> string \<Rightarrow> bool replicaDB" where
  "recordingExists E libraryID recordingID = queryDB E (\<lambda>s.
     list_ex (\<lambda>r. fst (fst r) = libraryID \<and> tvTrackClusterID (snd r) = recordingID) (rpTrackVariants s))"

definition isRecordingLikedInLibrary :: "replicaEnv \<Rightarrow> string \<Rightarrow> string \<Rightarrow> bool replicaDB" where
  "isRecordingLikedInLibrary E libraryID recordingID = queryDB E (\<lambda>s.
     list_ex (\<lambda>i. piTrackVariantID (snd i) = recordingID)
       (liveItems s libraryID (likedPlaylistIDForLibrary E libraryID)))"

definition isReservedPlaylist :: "replicaEnv \<Rightarrow> playlistRow \<Rightarrow> bool" where
  "isReservedPlaylist E row \<longleftrightarrow> isReservedPlaylistKind (deLib E) (plKind row)"

definition matchesOfflinePlaylistID :: "replicaEnv \<Rightarrow> localContext \<Rightarrow> string \<Rightarrow> bool" where
  "matchesOfflinePlaylistID E local playlistID \<longleftrightarrow>
     trimSpace playlistID \<noteq> ''''
     \<and> trimSpace playlistID = offlinePlaylistIDForDevice E (lcLibraryID local) (lcDeviceID local)"

text \<open>The thumb with its variant; there is none where the blob is blank.\<close>

definition loadPlaylistArtworkRef ::
  "replicaEnv \<Rightarrow> string \<Rightarrow> string \<Rightarrow> (string \<times> artworkRow) option replicaDB" where
  "loadPlaylistArtworkRef E libraryID playlistID =
     bindDB (queryDB E (\<lambda>s. map_of (rpArtwork s) (libraryID, ''playlist'', trimSpace playlistID, ''320_webp''))) (\<lambda>row.
       okDB (case row of
         None \<Rightarrow> None
       | Some r \<Rightarrow> if trimSpace (wrBlobID r) = '''' then None
           else Some (''320_webp'', r\<lparr>wrBlobID := trimSpace (wrBlobID r), wrMIME := trimSpace (wrMIME r),
             wrFileExt := normalizeArtworkFileExt E (wrFileExt r) (wrMIME r)\<rparr>)))"

definition toPlaylistRecord :: "replicaEnv \<Rightarrow> string \<Rightarrow> string \<Rightarrow> playlistRow \<Rightarrow> playlistRecord replicaDB" where
  "toPlaylistRecord E libraryID playlistID row =
     (let record = \<lparr>prcLibraryID = trimSpace libraryID, prcPlaylistID = trimSpace playlistID, prcName = trimSpace (plName row),
            prcKind = trimSpace (plKind row), prcIsReserved = isReservedPlaylist E row, prcThumb = None,
            prcHasCustomCover = False, prcCreatedBy = trimSpace (plCreatedBy row), prcCreatedAt = plCreatedAt row,
            prcUpdatedAt = plUpdatedAt row\<rparr>
      in if isReservedPlaylist E row then okDB record
         else bindDB (loadPlaylistArtworkRef E libraryID playlistID) (\<lambda>thumb. okDB (record\<lparr>prcThumb := thumb, prcHasCustomCover := thumb \<noteq> None\<rparr>)))"

definition toPlaylistItemRecord :: "string \<Rightarrow> string \<Rightarrow> string \<Rightarrow> playlistItemRow \<Rightarrow> playlistItemRecord" where
  "toPlaylistItemRecord libraryID playlistID itemID row =
     \<lparr>pirLibraryID = trimSpace libraryID, pirPlaylistID = trimSpace playlistID, pirItemID = trimSpace itemID,
      pirLibraryRecordingID = trimSpace (piTrackVariantID row),
      pirRecordingID = trimSpace (piTrackVariantID row), pirAddedAt = piAddedAt row, pirUpdatedAt = piUpdatedAt row\<rparr>"

section \<open>Positions\<close>

definition itemBefore :: "string \<times> playlistItemRow \<Rightarrow> string \<times> playlistItemRow \<Rightarrow> bool" where
  "itemBefore a b \<longleftrightarrow>
     keyBefore (piPositionKey (snd a)) (piPositionKey (snd b))
     \<or> piPositionKey (snd a) = piPositionKey (snd b) \<and> keyBefore (fst a) (fst b)"

definition orderedItems :: "replica \<Rightarrow> string \<Rightarrow> string \<Rightarrow> string \<Rightarrow> (string \<times> playlistItemRow) list" where
  "orderedItems s libraryID playlistID excludeItemID =
     orderBy itemBefore
       (filter (\<lambda>i. excludeItemID \<noteq> '''' \<longrightarrow> fst i \<noteq> excludeItemID) (liveItems s libraryID playlistID))"

definition orderedPlaylistItemsTx ::
  "replicaEnv \<Rightarrow> string \<Rightarrow> string \<Rightarrow> string \<Rightarrow> (string \<times> playlistItemRow) list replicaDB" where
  "orderedPlaylistItemsTx E libraryID playlistID excludeItemID =
     queryDB E (\<lambda>s. orderedItems s libraryID playlistID (trimSpace excludeItemID))"

fun rebalanceFrom :: "replicaEnv \<Rightarrow> string \<Rightarrow> string \<Rightarrow> int \<Rightarrow> (string \<times> playlistItemRow) list \<Rightarrow> unit replicaDB" where
  "rebalanceFrom E libraryID playlistID i [] = okDB ()"
| "rebalanceFrom E libraryID playlistID i (item # rest) =
     bindDB (execDB E (\<lambda>s. s\<lparr>rpItems := updateRow (libraryID, playlistID, fst item)
       (\<lambda>old. old\<lparr>piPositionKey := positionKeyForIndex (i + 1)\<rparr>) (rpItems s)\<rparr>)) (\<lambda>_.
       rebalanceFrom E libraryID playlistID (i + 1) rest)"

definition rebalancePlaylistPositionKeysTx :: "replicaEnv \<Rightarrow> string \<Rightarrow> string \<Rightarrow> unit replicaDB" where
  "rebalancePlaylistPositionKeysTx E libraryID playlistID =
     bindDB (orderedPlaylistItemsTx E libraryID playlistID '''') (rebalanceFrom E libraryID playlistID 0)"

text \<open>The index of an item; of rows whose ids differ in spaces only, the last one counts.\<close>

fun lastIndex :: "string \<Rightarrow> int \<Rightarrow> (string \<times> playlistItemRow) list \<Rightarrow> int option" where
  "lastIndex itemID i [] = None"
| "lastIndex itemID i (item # rest) =
     (case lastIndex itemID (i + 1) rest of
        Some j \<Rightarrow> Some j
      | None \<Rightarrow> if trimSpace (fst item) = itemID then Some i else None)"

text \<open>The items a new key must lie between, as indices.\<close>

definition anchorIndices ::
  "replicaEnv \<Rightarrow> (string \<times> playlistItemRow) list \<Rightarrow> string \<Rightarrow> string \<Rightarrow> string \<Rightarrow> string + (int \<times> int)" where
  "anchorIndices E items afterItemID beforeItemID movingItemID =
     (if afterItemID \<noteq> '''' \<and> beforeItemID \<noteq> '''' \<and> afterItemID = beforeItemID
      then Inl ''after and before anchors must be different''
      else if movingItemID \<noteq> '''' \<and> (afterItemID = movingItemID \<or> beforeItemID = movingItemID)
      then Inl ''playlist item cannot be anchored relative to itself''
      else
        let count = int (length items);
            afterIdx = (if afterItemID = '''' then None else lastIndex afterItemID 0 items);
            beforeIdx = (if beforeItemID = '''' then None else lastIndex beforeItemID 0 items)
        in if afterItemID \<noteq> '''' \<and> afterIdx = None
           then Inl (''after item '' @ quoted (deLib E) afterItemID @ '' does not exist'')
           else if beforeItemID \<noteq> '''' \<and> beforeIdx = None
           then Inl (''before item '' @ quoted (deLib E) beforeItemID @ '' does not exist'')
           else (case (afterIdx, beforeIdx) of
              (None, None) \<Rightarrow> Inr (count - 1, count)
            | (Some a, None) \<Rightarrow> Inr (a, a + 1)
            | (None, Some b) \<Rightarrow> Inr (b - 1, b)
            | (Some a, Some b) \<Rightarrow>
                if a \<ge> b then Inl ''after item must sort before before item'' else Inr (a, b)))"

definition keyAt :: "(string \<times> playlistItemRow) list \<Rightarrow> int \<Rightarrow> string" where
  "keyAt items i = (if 0 \<le> i \<and> i < int (length items) then piPositionKey (snd (items ! nat i)) else '''')"

text \<open>The key; \<open>None\<close> when there is no room.\<close>

definition positionFromItems ::
  "replicaEnv \<Rightarrow> (string \<times> playlistItemRow) list \<Rightarrow> string \<Rightarrow> string \<Rightarrow> string \<Rightarrow> string + string option" where
  "positionFromItems E items afterItemID beforeItemID movingItemID =
     (case anchorIndices E items afterItemID beforeItemID movingItemID of
        Inl err \<Rightarrow> Inl err
      | Inr (prevIdx, nextIdx) \<Rightarrow> Inr (midpointPositionKey (keyAt items prevIdx) (keyAt items nextIdx)))"

definition playlistItemPositionKeyFromItemsTx ::
  "replicaEnv \<Rightarrow> string \<Rightarrow> string \<Rightarrow> (string \<times> playlistItemRow) list \<Rightarrow> string \<Rightarrow> string \<Rightarrow> string \<Rightarrow> string replicaDB"
  where
  "playlistItemPositionKeyFromItemsTx E libraryID playlistID items after0 before0 moving0 =
     (let afterItemID = trimSpace after0; beforeItemID = trimSpace before0; movingItemID = trimSpace moving0 in
      bindDB (liftDB (positionFromItems E items afterItemID beforeItemID movingItemID)) (\<lambda>found.
        case found of
          Some key \<Rightarrow> okDB key
        | None \<Rightarrow>
            bindDB (rebalancePlaylistPositionKeysTx E libraryID playlistID) (\<lambda>_.
            bindDB (orderedPlaylistItemsTx E libraryID playlistID movingItemID) (\<lambda>itemsAfter.
            bindDB (liftDB (positionFromItems E itemsAfter afterItemID beforeItemID movingItemID)) (\<lambda>again.
              case again of
                Some key \<Rightarrow> okDB key
              | None \<Rightarrow> failDB ''unable to allocate playlist position'')))))"

definition playlistItemPositionKeyTx ::
  "replicaEnv \<Rightarrow> string \<Rightarrow> string \<Rightarrow> string \<Rightarrow> string \<Rightarrow> string \<Rightarrow> string replicaDB" where
  "playlistItemPositionKeyTx E libraryID playlistID afterItemID beforeItemID movingItemID =
     bindDB (orderedPlaylistItemsTx E libraryID playlistID movingItemID) (\<lambda>items.
       playlistItemPositionKeyFromItemsTx E libraryID playlistID items afterItemID beforeItemID movingItemID)"

section \<open>Playlists\<close>

text \<open>\<open>json.Marshal\<close> prints the members of a map in the order of their names, times as RFC 3339 texts.\<close>

definition playlistJSON :: "string \<Rightarrow> playlistRow \<Rightarrow> json" where
  "playlistJSON playlistID row =
     JObj [(''createdBy'', JStr (plCreatedBy row)), (''deleted'', JBool False), (''kind'', JStr (plKind row)),
       (''name'', JStr (plName row)), (''playlistId'', JStr playlistID)]"

definition createPlaylist ::
  "replicaEnv \<Rightarrow> localContext replicaDB \<Rightarrow> string \<Rightarrow> string \<Rightarrow> playlistRecord replicaDB" where
  "createPlaylist E active name0 kind0 =
     bindDB active (\<lambda>local.
       let name = trimSpace name0; given = lowerCase (deLib E) (trimSpace kind0);
           kind = (if given = '''' then ''normal'' else given)
       in if name = '''' then failDB ''playlist name is required''
          else if kind \<noteq> ''normal'' then failDB (''playlist kind '' @ quoted (deLib E) kind @ '' is not supported'')
          else
            bindDB (clockDB E) (\<lambda>now.
            bindDB (newUUID E) (\<lambda>playlistID.
              let row = \<lparr>plName = name, plKind = kind, plCreatedBy = lcDeviceID local, plCreatedAt = now,
                    plUpdatedAt = now, plDeletedAt = None\<rparr>
              in bindDB (transaction E
                   (bindDB (stmtDB E (\<lambda>s. map_sum id (\<lambda>rows. s\<lparr>rpPlaylists := rows\<rparr>)
                      (insertRow (lcLibraryID local, playlistID) row (rpPlaylists s)))) (\<lambda>_.
                    appendLocalOplogTx E local ''playlist'' playlistID ''upsert'' (playlistJSON playlistID row)))) (\<lambda>_.
                 toPlaylistRecord E (lcLibraryID local) playlistID row))))"

definition renamePlaylist ::
  "replicaEnv \<Rightarrow> localContext replicaDB \<Rightarrow> string \<Rightarrow> string \<Rightarrow> playlistRecord replicaDB" where
  "renamePlaylist E active playlistID0 name0 =
     bindDB active (\<lambda>local.
       let playlistID = trimSpace playlistID0; name = trimSpace name0; libraryID = lcLibraryID local in
       if playlistID = '''' then failDB ''playlist id is required''
       else if matchesOfflinePlaylistID E local playlistID then failDB ''reserved playlists are not renameable''
       else if name = '''' then failDB ''playlist name is required''
       else
         bindDB (playlistByID E libraryID playlistID) (\<lambda>found.
           case found of
             None \<Rightarrow> failDB (''playlist '' @ quoted (deLib E) playlistID @ '' does not exist'')
           | Some old \<Rightarrow>
               if isReservedPlaylist E old then failDB ''reserved playlists are not renameable''
               else
                 bindDB (clockDB E) (\<lambda>now.
                   let row = old\<lparr>plName := name, plUpdatedAt := now\<rparr>
                   in bindDB (transaction E
                        (bindDB (execDB E (\<lambda>s. s\<lparr>rpPlaylists := updateRow (libraryID, playlistID)
                           (\<lambda>r. r\<lparr>plName := name, plUpdatedAt := now\<rparr>) (rpPlaylists s)\<rparr>)) (\<lambda>_.
                         appendLocalOplogTx E local ''playlist'' playlistID ''upsert'' (playlistJSON playlistID row)))) (\<lambda>_.
                      toPlaylistRecord E libraryID playlistID row))))"

definition deletePlaylist :: "replicaEnv \<Rightarrow> localContext replicaDB \<Rightarrow> string \<Rightarrow> unit replicaDB" where
  "deletePlaylist E active playlistID0 =
     bindDB active (\<lambda>local.
       let playlistID = trimSpace playlistID0; libraryID = lcLibraryID local in
       if playlistID = '''' then failDB ''playlist id is required''
       else if matchesOfflinePlaylistID E local playlistID then failDB ''reserved playlists are not deletable''
       else
         bindDB (playlistByID E libraryID playlistID) (\<lambda>found.
           case found of
             None \<Rightarrow> failDB (''playlist '' @ quoted (deLib E) playlistID @ '' does not exist'')
           | Some row \<Rightarrow>
               if isReservedPlaylist E row then failDB ''reserved playlists are not deletable''
               else
                 bindDB (clockDB E) (\<lambda>now.
                 bindDB (transaction E
                   (bindDB (execDB E (\<lambda>s. s\<lparr>rpPlaylists := updateRow (libraryID, playlistID)
                      (\<lambda>r. r\<lparr>plDeletedAt := Some now, plUpdatedAt := now\<rparr>) (rpPlaylists s)\<rparr>)) (\<lambda>_.
                    bindDB (deleteArtworkScopeTx E local ''playlist'' playlistID) (\<lambda>_.
                    appendLocalOplogTx E local ''playlist'' playlistID ''delete''
                      (JObj [(''deletedAt'', JStr (formatRFC (deLib E) now)), (''playlistId'', JStr playlistID)]))))) (\<lambda>_.
                 okDB ()))))"

section \<open>Liked recordings\<close>

definition dropItemRow :: "replicaEnv \<Rightarrow> string \<times> string \<times> string \<Rightarrow> int \<Rightarrow> unit replicaDB" where
  "dropItemRow E k now = execDB E (\<lambda>s. s\<lparr>rpItems := updateRow k
     (\<lambda>r. r\<lparr>piDeletedAt := Some now, piUpdatedAt := now\<rparr>) (rpItems s)\<rparr>)"

definition likeRecording :: "replicaEnv \<Rightarrow> localContext replicaDB \<Rightarrow> string \<Rightarrow> unit replicaDB" where
  "likeRecording E active recordingID0 =
     bindDB active (\<lambda>local.
       let recordingID = trimSpace recordingID0; libraryID = lcLibraryID local;
           likedPlaylistID = likedPlaylistIDForLibrary E libraryID
       in if recordingID = '''' then failDB ''recording id is required''
          else
            bindDB (resolvePlaylistLibraryRecordingIDTx E libraryID recordingID) (\<lambda>found.
              case found of
                None \<Rightarrow> failDB (''recording '' @ quoted (deLib E) recordingID @ '' does not exist'')
              | Some libraryRecordingID \<Rightarrow>
                  bindDB (recordingExists E libraryID libraryRecordingID) (\<lambda>exists.
                  if \<not> exists then failDB (''recording '' @ quoted (deLib E) libraryRecordingID @ '' does not exist'')
                  else
                    bindDB (isRecordingLikedInLibrary E libraryID libraryRecordingID) (\<lambda>liked.
                    if liked then okDB ()
                    else
                      bindDB (clockDB E) (\<lambda>now.
                        let itemID = likedItemID E likedPlaylistID libraryRecordingID;
                            item = \<lparr>piTrackVariantID = libraryRecordingID, piAddedAt = now, piUpdatedAt = now,
                              piPositionKey = defaultPositionKey, piDeletedAt = None\<rparr>
                        in bindDB (transaction E
                             (bindDB (ensureLikedPlaylistTx E libraryID (lcDeviceID local) now) (\<lambda>_.
                              bindDB (execDB E (\<lambda>s. s\<lparr>rpItems :=
                                upsertRow (libraryID, likedPlaylistID, itemID) item (\<lambda>_. item) (rpItems s)\<rparr>)) (\<lambda>_.
                              appendLocalOplogTx E local ''playlist_item'' itemID ''upsert''
                                (JObj [(''deleted'', JBool False), (''itemId'', JStr itemID), (''liked'', JBool True),
                                   (''playlistId'', JStr likedPlaylistID),
                                   (''positionKey'', JStr defaultPositionKey),
                                   (''recordingId'', JStr libraryRecordingID)]))))) (\<lambda>_. okDB ()))))))"

definition ensureLikedPlaylist :: "replicaEnv \<Rightarrow> string \<Rightarrow> string \<Rightarrow> unit replicaDB" where
  "ensureLikedPlaylist E libraryID deviceID =
     transaction E (bindDB (clockDB E) (ensureLikedPlaylistTx E libraryID deviceID))"

definition itemDeleteJSON :: "replicaEnv \<Rightarrow> string \<Rightarrow> string \<Rightarrow> string \<Rightarrow> bool \<Rightarrow> int \<Rightarrow> json" where
  "itemDeleteJSON E playlistID itemID recordingID liked now =
     JObj ([(''deletedAt'', JStr (formatRFC (deLib E) now)), (''itemId'', JStr itemID)]
       @ (if liked then [(''liked'', JBool True)] else [])
       @ [(''playlistId'', JStr playlistID), (''recordingId'', JStr recordingID)])"

definition unlikeRecording :: "replicaEnv \<Rightarrow> localContext replicaDB \<Rightarrow> string \<Rightarrow> unit replicaDB" where
  "unlikeRecording E active recordingID0 =
     bindDB active (\<lambda>local.
       let recordingID = trimSpace recordingID0; libraryID = lcLibraryID local;
           likedPlaylistID = likedPlaylistIDForLibrary E libraryID
       in if recordingID = '''' then failDB ''recording id is required''
          else
            bindDB (resolvePlaylistLibraryRecordingIDTx E libraryID recordingID) (\<lambda>found.
              case found of
                None \<Rightarrow> ensureLikedPlaylist E libraryID (lcDeviceID local)
              | Some libraryRecordingID \<Rightarrow>
                  bindDB (playlistItemByLibraryRecordingID E libraryID likedPlaylistID libraryRecordingID) (\<lambda>item.
                    case item of
                      None \<Rightarrow> ensureLikedPlaylist E libraryID (lcDeviceID local)
                    | Some (itemID, row) \<Rightarrow>
                        bindDB (clockDB E) (\<lambda>now.
                        bindDB (transaction E
                          (bindDB (dropItemRow E (libraryID, likedPlaylistID, itemID) now) (\<lambda>_.
                           appendLocalOplogTx E local ''playlist_item'' itemID ''delete''
                             (itemDeleteJSON E likedPlaylistID itemID (piTrackVariantID row) True now)))) (\<lambda>_.
                        okDB ())))))"

definition isRecordingLiked :: "replicaEnv \<Rightarrow> localContext replicaDB \<Rightarrow> string \<Rightarrow> bool replicaDB" where
  "isRecordingLiked E active recordingID =
     bindDB active (\<lambda>local.
     bindDB (resolvePlaylistLibraryRecordingIDTx E (lcLibraryID local) recordingID) (\<lambda>found.
       case found of
         None \<Rightarrow> okDB False
       | Some libraryRecordingID \<Rightarrow> isRecordingLikedInLibrary E (lcLibraryID local) libraryRecordingID))"

section \<open>Items\<close>

definition itemJSON :: "string \<Rightarrow> string \<Rightarrow> playlistItemRow \<Rightarrow> string \<Rightarrow> string \<Rightarrow> bool \<Rightarrow> json" where
  "itemJSON playlistID itemID row afterItemID beforeItemID withDeleted =
     JObj ([(''afterItemId'', JStr (trimSpace afterItemID)), (''beforeItemId'', JStr (trimSpace beforeItemID))]
       @ (if withDeleted then [(''deleted'', JBool False)] else [])
       @ [(''itemId'', JStr itemID), (''playlistId'', JStr playlistID),
          (''positionKey'', JStr (piPositionKey row)), (''recordingId'', JStr (piTrackVariantID row))])"

text \<open>The new row and its entry, in one transaction.\<close>

definition insertItemTx ::
  "replicaEnv \<Rightarrow> localContext \<Rightarrow> string \<Rightarrow> string \<Rightarrow> string \<Rightarrow> string \<Rightarrow> int \<Rightarrow> (string \<times> playlistItemRow) replicaDB"
  where
  "insertItemTx E local playlistID recordingID afterItemID beforeItemID now =
     bindDB (playlistItemPositionKeyTx E (lcLibraryID local) playlistID afterItemID beforeItemID '''') (\<lambda>positionKey.
     bindDB (newUUID E) (\<lambda>itemID.
       let row = \<lparr>piTrackVariantID = recordingID, piAddedAt = now, piUpdatedAt = now,
             piPositionKey = positionKey, piDeletedAt = None\<rparr>
       in bindDB (stmtDB E (\<lambda>s. map_sum id (\<lambda>rows. s\<lparr>rpItems := rows\<rparr>)
            (insertRow (lcLibraryID local, playlistID, itemID) row (rpItems s)))) (\<lambda>_.
          bindDB (appendLocalOplogTx E local ''playlist_item'' itemID ''upsert''
            (itemJSON playlistID itemID row afterItemID beforeItemID True)) (\<lambda>_. okDB (itemID, row)))))"

record addItemRequest =
  aqPlaylistID :: string
  aqLibraryRecordingID :: string
  aqRecordingID :: string
  aqAfterItemID :: string
  aqBeforeItemID :: string

definition addPlaylistItem ::
  "replicaEnv \<Rightarrow> localContext replicaDB \<Rightarrow> addItemRequest \<Rightarrow> playlistItemRecord replicaDB" where
  "addPlaylistItem E active req =
     bindDB active (\<lambda>local.
       let playlistID = trimSpace (aqPlaylistID req); libraryID = lcLibraryID local;
           recordingID = firstNonEmpty [trimSpace (aqLibraryRecordingID req), trimSpace (aqRecordingID req)]
       in if playlistID = '''' then failDB ''playlist id is required''
          else if matchesOfflinePlaylistID E local playlistID then failDB ''reserved playlists are not editable''
          else if recordingID = '''' then failDB ''recording id is required''
          else
            bindDB (playlistByID E libraryID playlistID) (\<lambda>found.
              case found of
                None \<Rightarrow> failDB (''playlist '' @ quoted (deLib E) playlistID @ '' does not exist'')
              | Some playlist \<Rightarrow>
                  bindDB (resolvePlaylistLibraryRecordingIDTx E libraryID recordingID) (\<lambda>resolved.
                    case resolved of
                      None \<Rightarrow> failDB (''recording '' @ quoted (deLib E) recordingID @ '' does not exist'')
                    | Some libraryRecordingID \<Rightarrow>
                        bindDB (recordingExists E libraryID libraryRecordingID) (\<lambda>exists.
                        if \<not> exists
                        then failDB (''recording '' @ quoted (deLib E) libraryRecordingID @ '' does not exist'')
                        else if isReservedPlaylist E playlist then
                          bindDB (likeRecording E active libraryRecordingID) (\<lambda>_.
                          bindDB (playlistItemByLibraryRecordingID E libraryID playlistID libraryRecordingID) (\<lambda>item.
                            case item of
                              None \<Rightarrow> failDB (''liked recording '' @ quoted (deLib E) recordingID @ '' was not materialized'')
                            | Some (itemID, row) \<Rightarrow> okDB (toPlaylistItemRecord libraryID playlistID itemID row)))
                        else
                          bindDB (clockDB E) (\<lambda>now.
                          bindDB (transaction E (insertItemTx E local playlistID libraryRecordingID
                            (aqAfterItemID req) (aqBeforeItemID req) now)) (\<lambda>(itemID, row).
                          okDB (toPlaylistItemRecord libraryID playlistID itemID row)))))))"

record moveItemRequest =
  mqPlaylistID :: string
  mqItemID :: string
  mqAfterItemID :: string
  mqBeforeItemID :: string

definition moveItemTx ::
  "replicaEnv \<Rightarrow> localContext \<Rightarrow> string \<Rightarrow> string \<Rightarrow> string \<Rightarrow> string \<Rightarrow> playlistItemRow replicaDB" where
  "moveItemTx E local playlistID itemID afterItemID beforeItemID =
     bindDB (playlistItemByIDTx E (lcLibraryID local) playlistID itemID) (\<lambda>found.
       case found of
         None \<Rightarrow> failDB (''playlist item '' @ quoted (deLib E) itemID @ '' does not exist'')
       | Some old \<Rightarrow>
           bindDB (playlistItemPositionKeyTx E (lcLibraryID local) playlistID afterItemID beforeItemID itemID) (\<lambda>key.
           bindDB (clockDB E) (\<lambda>now.
             let row = old\<lparr>piPositionKey := key, piUpdatedAt := now\<rparr>
             in bindDB (execDB E (\<lambda>s. s\<lparr>rpItems := updateRow (lcLibraryID local, playlistID, itemID)
                  (\<lambda>r. r\<lparr>piPositionKey := key, piUpdatedAt := now\<rparr>) (rpItems s)\<rparr>)) (\<lambda>_.
                bindDB (appendLocalOplogTx E local ''playlist_item'' itemID ''move''
                  (itemJSON playlistID itemID row afterItemID beforeItemID False)) (\<lambda>_. okDB row)))))"

definition movePlaylistItem ::
  "replicaEnv \<Rightarrow> localContext replicaDB \<Rightarrow> moveItemRequest \<Rightarrow> playlistItemRecord replicaDB" where
  "movePlaylistItem E active req =
     bindDB active (\<lambda>local.
       let playlistID = trimSpace (mqPlaylistID req); itemID = trimSpace (mqItemID req);
           libraryID = lcLibraryID local
       in if playlistID = '''' \<or> itemID = '''' then failDB ''playlist id and item id are required''
          else if matchesOfflinePlaylistID E local playlistID then failDB ''reserved playlists are not reorderable''
          else
            bindDB (playlistByID E libraryID playlistID) (\<lambda>found.
              case found of
                None \<Rightarrow> failDB (''playlist '' @ quoted (deLib E) playlistID @ '' does not exist'')
              | Some playlist \<Rightarrow>
                  if isReservedPlaylist E playlist then failDB ''reserved playlists are not reorderable''
                  else
                    bindDB (transaction E (moveItemTx E local playlistID itemID (mqAfterItemID req) (mqBeforeItemID req)))
                      (\<lambda>row. okDB (toPlaylistItemRecord libraryID playlistID itemID row))))"

definition removePlaylistItem :: "replicaEnv \<Rightarrow> localContext replicaDB \<Rightarrow> string \<Rightarrow> string \<Rightarrow> unit replicaDB" where
  "removePlaylistItem E active playlistID0 itemID0 =
     bindDB active (\<lambda>local.
       let playlistID = trimSpace playlistID0; itemID = trimSpace itemID0; libraryID = lcLibraryID local in
       if playlistID = '''' then failDB ''playlist id is required''
       else if matchesOfflinePlaylistID E local playlistID then failDB ''reserved playlists are not editable''
       else if itemID = '''' then failDB ''item id is required''
       else
         bindDB (playlistByID E libraryID playlistID) (\<lambda>found.
           case found of
             None \<Rightarrow> failDB (''playlist '' @ quoted (deLib E) playlistID @ '' does not exist'')
           | Some playlist \<Rightarrow>
               bindDB (playlistItemByIDTx E libraryID playlistID itemID) (\<lambda>item.
                 case item of
                   None \<Rightarrow> failDB (''playlist item '' @ quoted (deLib E) itemID @ '' does not exist'')
                 | Some row \<Rightarrow>
                     if isReservedPlaylist E playlist then unlikeRecording E active (piTrackVariantID row)
                     else
                       bindDB (clockDB E) (\<lambda>now.
                       bindDB (transaction E
                         (bindDB (dropItemRow E (libraryID, playlistID, itemID) now) (\<lambda>_.
                          appendLocalOplogTx E local ''playlist_item'' itemID ''delete''
                            (itemDeleteJSON E playlistID itemID (piTrackVariantID row) False now)))) (\<lambda>_.
                       okDB ())))))"

section \<open>Covers\<close>

record playlistCoverRecord =
  pcrPlaylistID :: string
  pcrHasCustomCover :: bool
  pcrThumb :: "(string \<times> artworkRow) option"
  pcrUpdatedAt :: int
  pcrVariants :: "(string \<times> artworkRow) list"

definition coverVariant :: "replicaEnv \<Rightarrow> string \<times> artworkRow \<Rightarrow> string \<times> artworkRow" where
  "coverVariant E v =
     (trimSpace (fst v), (snd v)\<lparr>wrBlobID := trimSpace (wrBlobID (snd v)), wrMIME := trimSpace (wrMIME (snd v)),
        wrFileExt := normalizeArtworkFileExt E (wrFileExt (snd v)) (wrMIME (snd v))\<rparr>)"

definition loadPlaylistCoverRecord ::
  "replicaEnv \<Rightarrow> string \<Rightarrow> string \<Rightarrow> (playlistCoverRecord \<times> bool) replicaDB" where
  "loadPlaylistCoverRecord E libraryID playlistID =
     bindDB (queryDB E (\<lambda>s. scopeVariants s libraryID ''playlist'' playlistID)) (\<lambda>rows.
       if rows = [] then okDB (\<lparr>pcrPlaylistID = trimSpace playlistID, pcrHasCustomCover = False, pcrThumb = None,
         pcrUpdatedAt = 0, pcrVariants = []\<rparr>, False)
       else
         let thumb = find (\<lambda>v. fst v = ''320_webp'') rows
         in okDB (\<lparr>pcrPlaylistID = trimSpace playlistID, pcrHasCustomCover = True,
              pcrThumb = (case thumb of None \<Rightarrow> None
                | Some v \<Rightarrow> if trimSpace (wrBlobID (snd v)) = '''' then None else Some (coverVariant E v)),
              pcrUpdatedAt = foldl (\<lambda>u v. if wrUpdatedAt (snd v) > u then wrUpdatedAt (snd v) else u) 0 rows,
              pcrVariants = map (coverVariant E) rows\<rparr>, True))"

definition getPlaylistCover ::
  "replicaEnv \<Rightarrow> localContext replicaDB \<Rightarrow> string \<Rightarrow> (playlistCoverRecord \<times> bool) replicaDB" where
  "getPlaylistCover E active playlistID0 =
     bindDB active (\<lambda>local.
       let playlistID = trimSpace playlistID0; libraryID = lcLibraryID local;
           none = \<lparr>pcrPlaylistID = playlistID, pcrHasCustomCover = False, pcrThumb = None, pcrUpdatedAt = 0,
             pcrVariants = []\<rparr>
       in if playlistID = '''' then failDB ''playlist id is required''
          else if matchesOfflinePlaylistID E local playlistID then okDB (none, False)
          else
            bindDB (playlistByID E libraryID playlistID) (\<lambda>found.
              case found of
                None \<Rightarrow> failDB (''playlist '' @ quoted (deLib E) playlistID @ '' does not exist'')
              | Some playlist \<Rightarrow>
                  if isReservedPlaylist E playlist then okDB (none\<lparr>pcrUpdatedAt := plUpdatedAt playlist\<rparr>, False)
                  else
                    bindDB (loadPlaylistCoverRecord E libraryID playlistID) (\<lambda>(record, hasCover).
                      okDB (if pcrUpdatedAt record \<noteq> 0 then (record, hasCover)
                            else (record\<lparr>pcrUpdatedAt := plUpdatedAt playlist\<rparr>, hasCover)))))"

definition clearPlaylistCover :: "replicaEnv \<Rightarrow> localContext replicaDB \<Rightarrow> string \<Rightarrow> unit replicaDB" where
  "clearPlaylistCover E active playlistID0 =
     bindDB active (\<lambda>local.
       let playlistID = trimSpace playlistID0; libraryID = lcLibraryID local in
       if playlistID = '''' then failDB ''playlist id is required''
       else if matchesOfflinePlaylistID E local playlistID then failDB ''reserved playlists do not support custom covers''
       else
         bindDB (playlistByID E libraryID playlistID) (\<lambda>found.
           case found of
             None \<Rightarrow> failDB (''playlist '' @ quoted (deLib E) playlistID @ '' does not exist'')
           | Some playlist \<Rightarrow>
               if isReservedPlaylist E playlist then failDB ''reserved playlists do not support custom covers''
               else
                 bindDB (clockDB E) (\<lambda>now.
                 bindDB (transaction E
                   (bindDB (deleteArtworkScopeTx E local ''playlist'' playlistID) (\<lambda>_.
                    bindDB (execDB E (\<lambda>s. s\<lparr>rpPlaylists := updateRow (libraryID, playlistID)
                      (\<lambda>r. r\<lparr>plUpdatedAt := now\<rparr>) (rpPlaylists s)\<rparr>)) (\<lambda>_.
                    appendLocalOplogTx E local ''playlist'' playlistID ''upsert'' (playlistJSON playlistID playlist))))) (\<lambda>_.
                 okDB ()))))"

end
