(* ===== verification/SyncLaws.thy ===== *)
theory SyncLaws
  imports Convergence PlaylistService
begin

text \<open>
  Who is trusted while entries arrive, what one received entry may change, what an entry of this device does
  to the log, and which entries a peer is sent.
\<close>

section \<open>Trust\<close>

text \<open>The authorities stay, and a known library keeps its root key.\<close>

definition sameTrust :: "replica \<Rightarrow> replica \<Rightarrow> bool" where
  "sameTrust s t \<longleftrightarrow> rpAuthorities t = rpAuthorities s
     \<and> (\<forall>k. map_of (rpLibraries s) k \<noteq> None \<longrightarrow>
         map_option lbRootPublicKey (map_of (rpLibraries t) k) = map_option lbRootPublicKey (map_of (rpLibraries s) k))"

lemma sameTrust_refl [simp]: "sameTrust s s"
  by (simp add: sameTrust_def)

lemma sameTrust_trans: "sameTrust s t \<Longrightarrow> sameTrust t u \<Longrightarrow> sameTrust s u"
proof -
  assume st: "sameTrust s t" and tu: "sameTrust t u"
  have "map_option lbRootPublicKey (map_of (rpLibraries u) k) = map_option lbRootPublicKey (map_of (rpLibraries s) k)"
    if k: "map_of (rpLibraries s) k \<noteq> None" for k
  proof -
    have e: "map_option lbRootPublicKey (map_of (rpLibraries t) k) = map_option lbRootPublicKey (map_of (rpLibraries s) k)"
      using st k unfolding sameTrust_def by blast
    with k have "map_of (rpLibraries t) k \<noteq> None" by (metis option.map_disc_iff)
    with tu e show ?thesis unfolding sameTrust_def by simp
  qed
  with st tu show ?thesis unfolding sameTrust_def by simp
qed

lemma sameData_sameTrust: "sameData s t \<Longrightarrow> sameTrust s t"
  using sameData_tables [of s t] by (simp add: sameTrust_def)

interpretation trust: replica_frame sameTrust
proof
  show "sameTrust s t \<Longrightarrow> sameTrust t u \<Longrightarrow> sameTrust s u" for s t u by (rule sameTrust_trans)
qed (simp_all add: sameTrust_def countCall_def rollbackTo_def)

lemma trust_library: "trust.kept (applyLibraryOplogEntryTx E l e)"
  unfolding applyLibraryOplogEntryTx_def Let_def
  by (intro trust.kept_ifLatest)
    (auto simp: sameTrust_def split: option.split intro!: trust.kept_steps trust.kept_exec)

lemma apply_keeps_trust: "sameTrust s (snd (applyOplogEntryTx E l e s))"
proof -
  have apart: "sameTrust s (rpItems_update a1 s)" "sameTrust s (rpAssets_update a2 s)" "sameTrust s (rpCaches_update a3 s)"
    "sameTrust s (rpArtists_update a4 s)" "sameTrust s (rpCredits_update a5 s)" "sameTrust s (rpSourceFiles_update a6 s)"
    "sameTrust s (rpLocalPaths_update a7 s)" "sameTrust s (rpAlbumVariants_update a8 s)"
    "sameTrust s (rpTrackVariants_update a9 s)" "sameTrust s (rpAlbumTracks_update b1 s)"
    "sameTrust s (rpPlaylists_update b2 s)" "sameTrust s (rpPreferences_update b3 s)" "sameTrust s (rpArtwork_update b4 s)"
    for s a1 a2 a3 a4 a5 a6 a7 a8 a9 b1 b2 b3 b4
    by (simp_all add: sameTrust_def)
  have "trust.kept (applyOplogEntryTx E l e)"
    unfolding applyOplogEntryTx_def Let_def
    by (auto intro!: trust.kept_ok trust_library trust.kept_sourceFile trust.kept_playlist trust.kept_playlistItem
        trust.kept_ensureLiked trust.kept_preference trust.kept_asset trust.kept_cache trust.kept_artwork apart)
  then show ?thesis by (rule trust.keptD)
qed

lemma applyRun_keeps_trust:
  assumes "applyRun E l a rows s = (Inr b, t)"
  shows "sameTrust s t"
  using applyRun_rule [OF assms, of "\<lambda>_ u. sameTrust s u"] sameTrust_trans apply_keeps_trust sameTrust_refl
  by (metis snd_conv)

lemma received_trust: "sameTrust s (snd (applyRemoteOp E l op s))"
proof -
  obtain r t where rt: "applyRemoteOp E l op s = (r, t)" by (cases "applyRemoteOp E l op s")
  have w: "sameTrust s u" if "stored E l op s u" for u
  proof -
    have "sameTrust s (withEntry s (trimSpace l) (rowFromRemote E op))" by (simp add: sameTrust_def withEntry_def)
    with that show ?thesis by (auto simp: stored_def intro: sameTrust_trans sameData_sameTrust)
  qed
  from rt have "sameTrust s t"
  proof (cases rule: applyRemoteOp_cases)
    case unchanged
    then show ?thesis by (rule sameData_sameTrust)
  next
    case buffered
    then show ?thesis using w by simp
  next
    case (applied u)
    from applied(4) obtain v x a where r: "sameData u v"
      "applyRun E (trimSpace l) (clockOf u (trimSpace l) (trimSpace (oeDeviceID op)))
        (bufferedRows u (trimSpace l) (trimSpace (oeDeviceID op)) (clockOf u (trimSpace l) (trimSpace (oeDeviceID op)) + 1)) v = (Inr a, x)"
      "sameData (x\<lparr>rpClocks := AList.update (trimSpace l, trimSpace (oeDeviceID op)) a (rpClocks x)\<rparr>) t"
      by (rule caughtUp_result) blast
    have "sameTrust x (x\<lparr>rpClocks := AList.update (trimSpace l, trimSpace (oeDeviceID op)) a (rpClocks x)\<rparr>)"
      by (simp add: sameTrust_def)
    with w [OF applied(2)] sameData_sameTrust [OF r(1)] applyRun_keeps_trust [OF r(2)] sameData_sameTrust [OF r(3)]
    show ?thesis by (blast intro: sameTrust_trans)
  qed
  with rt show ?thesis by simp
qed

lemma accepted_trust:
  assumes "sameTrust s t" "accepted E l t e" "map_of (rpLibraries s) (trimSpace l) \<noteq> None"
  shows "accepted E l s e"
proof -
  obtain a where a: "map_of (rpLibraries s) (trimSpace l) = Some a" using assms(3) by auto
  have "map_option lbRootPublicKey (map_of (rpLibraries t) (trimSpace l))
      = map_option lbRootPublicKey (map_of (rpLibraries s) (trimSpace l))"
    "rpAuthorities t = rpAuthorities s" using assms(1,3) unfolding sameTrust_def by blast+
  with assms(2) a show ?thesis by (auto simp: accepted_def authorityRows_def)
qed

text \<open>Every entry that batches add was checked against the authorities and the root key of the start.\<close>

lemma received_accepted:
  assumes "map_of (rpLibraries s) (trimSpace l) \<noteq> None" "e \<in> logged (receiveAll E l batches s) (trimSpace l)"
    "e \<notin> logged s (trimSpace l)"
  shows "\<exists>op \<in> set (concat batches). e = rowFromRemote E op \<and> accepted E l s op"
proof -
  let ?new = "{rowFromRemote E op | op. op \<in> set (concat batches) \<and> accepted E l s op}"
  have "sameTrust s (receiveAll E l batches s)
    \<and> logged (receiveAll E l batches s) (trimSpace l) \<subseteq> logged s (trimSpace l) \<union> ?new"
  proof (rule receiveAll_rule)
    fix op u
    assume op: "op \<in> set (concat batches)"
      and u: "sameTrust s u \<and> logged u (trimSpace l) \<subseteq> logged s (trimSpace l) \<union> ?new"
    obtain r t where rt: "applyRemoteOp E l op u = (r, t)" by (cases "applyRemoteOp E l op u")
    have acc: "rowFromRemote E op \<in> ?new" if "stored E l op u v" for v
      using that op u accepted_trust [OF _ _ assms(1)] by (auto simp: stored_def)
    from rt have "logged t (trimSpace l) \<subseteq> logged s (trimSpace l) \<union> ?new"
    proof (cases rule: applyRemoteOp_cases)
      case unchanged
      then show ?thesis using u sameData_held(1) by simp
    next
      case buffered
      then show ?thesis using u acc stored_result(1) [OF buffered(2)] by auto
    next
      case (applied v)
      from applied(4) have "rpOplog t = rpOplog v" by (rule caughtUp_result)
      then show ?thesis using u acc [OF applied(2)] stored_result(1) [OF applied(2)] by (auto simp: logged_def)
    qed
    with rt u received_trust [of u E l op] show "sameTrust s (snd (applyRemoteOp E l op u))
        \<and> logged (snd (applyRemoteOp E l op u)) (trimSpace l) \<subseteq> logged s (trimSpace l) \<union> ?new"
      by (auto intro: sameTrust_trans)
  qed simp
  with assms(2,3) show ?thesis by blast
qed

section \<open>An entry that cannot be applied\<close>

lemma caughtUp_first:
  assumes "caughtUp E l d u t" "e \<in> logged u l" "oeDeviceID e = d" "oeSeq e = clockOf u l d + 1" "wellLogged u l"
  obtains v w where "sameData u v" "applyOplogEntryTx E l e v = (Inr (), w)"
proof -
  let ?rows = "bufferedRows u l d (clockOf u l d + 1)"
  from assms(1) obtain v x a where r: "sameData u v" "applyRun E l (clockOf u l d) ?rows v = (Inr a, x)"
    by (rule caughtUp_result) blast
  have e: "e \<in> set ?rows" using assms(2-4) by (simp add: set_bufferedRows)
  then obtain q qs where rows: "?rows = q # qs" by (cases ?rows) auto
  have q: "q \<in> logged u l" "oeDeviceID q = d" "clockOf u l d + 1 \<le> oeSeq q"
    using rows set_bufferedRows [of u l d "clockOf u l d + 1"] by auto
  moreover have "oeSeq q \<le> oeSeq e"
    using e bufferedRows_sorted [OF assms(5), of d "clockOf u l d + 1"] unfolding rows by auto
  ultimately have eq: "q = e" using wellLogged_unique(2) [OF assms(5) q(1) assms(2)] assms(3,4) by simp
  with r(2) assms(4) obtain w where "applyOplogEntryTx E l e v = (Inr (), w)"
    unfolding rows by (auto simp: bindDB_result)
  with r(1) that show thesis by blast
qed

text \<open>An entry that fails to apply when its turn comes is refused, and with it all later ones of its device.\<close>

lemma stuck_refused:
  assumes "inStep s (trimSpace l)" "oeSeq op = clockOf s (trimSpace l) (trimSpace (oeDeviceID op)) + 1"
    and "\<And>u v. stored E l op s u \<Longrightarrow> sameData u v \<Longrightarrow> \<exists>err. fst (applyOplogEntryTx E (trimSpace l) (rowFromRemote E op) v) = Inl err"
  shows "sameData s (snd (applyRemoteOp E l op s))"
proof -
  obtain r t where rt: "applyRemoteOp E l op s = (r, t)" by (cases "applyRemoteOp E l op s")
  from rt have "sameData s t"
  proof (cases rule: applyRemoteOp_cases)
    case buffered
    with assms(2) show ?thesis by simp
  next
    case (applied u)
    let ?e = "rowFromRemote E op"
    have e: "oeDeviceID ?e = trimSpace (oeDeviceID op)" "oeSeq ?e = oeSeq op" by (simp_all add: rowFromRemote_def)
    have w: "wellLogged u (trimSpace l)" using assms(1) stored_wellLogged [OF applied(2)] by (simp add: inStep_def)
    obtain v x where v: "sameData u v" "applyOplogEntryTx E (trimSpace l) ?e v = (Inr (), x)"
      using caughtUp_first [OF applied(4) _ e(1) _ w] stored_result(1,2) [OF applied(2)] assms(2) e(2) by auto
    with assms(3) [OF applied(2) v(1)] show ?thesis by simp
  qed simp
  with rt show ?thesis by simp
qed

lemma stored_latest:
  assumes "stored E l op s u" "wellLogged s (trimSpace l)"
    and "\<forall>x \<in> logged s (trimSpace l). oeEntityType x = trimSpace (oeEntityType op) \<longrightarrow> oeEntityID x = trimSpace (oeEntityID op)
      \<longrightarrow> \<not> laterOp x (rowFromRemote E op)"
  shows "isLatest u (trimSpace l) (rowFromRemote E op)"
proof -
  let ?e = "rowFromRemote E op" and ?L = "trimSpace l"
  note st = stored_result [OF assms(1)]
  have w: "wellLogged u ?L" by (rule stored_wellLogged [OF assms(1,2)])
  have e: "oeEntityType ?e = trimSpace (oeEntityType op)" "oeEntityID ?e = trimSpace (oeEntityID op)"
    by (simp_all add: rowFromRemote_def)
  have about: "aboutEntity ?L (oeEntityType ?e) (oeEntityID ?e) (?L, ?e)" by (simp add: aboutEntity_def)
  have "latestMutation (rpOplog u) ?L (oeEntityType ?e) (oeEntityID ?e) = Some ?e"
  proof (cases "latestMutation (rpOplog s) ?L (oeEntityType ?e) (oeEntityID ?e)")
    case None
    with about show ?thesis by (simp add: st(4) latestMutation_snoc)
  next
    case (Some b)
    with latestMutation_max [of "rpOplog s" ?L "oeEntityType ?e" "oeEntityID ?e"]
    have b: "b \<in> logged s ?L" "oeEntityType b = oeEntityType ?e" "oeEntityID b = oeEntityID ?e"
      by (auto simp: aboutEntity_def logged_def)
    then have "\<not> laterOp b ?e" "oeOpID b \<noteq> oeOpID ?e"
      using assms(1,3) e by (auto simp: stored_def freshEntry_def)
    with laterOp_order(3) [of ?e b] have "laterOp ?e b" by auto
    with Some about show ?thesis by (simp add: st(4) latestMutation_snoc)
  qed
  then show ?thesis using isLatest_iff [OF w] st(1) by simp
qed

text \<open>Adding to, or moving within, a playlist that is not there fails.\<close>

lemma orphan_item_fails:
  assumes "trimSpace (oeEntityType e) = ''playlist_item''" "trimSpace (oeOpKind e) \<in> {''upsert'', ''move''}" "isLatest v l e"
    "unmarshal (deParse E) (oePayload e) (decodePlaylistItem (deLib E)) = Inr p" "\<not> ipLiked p"
    "firstNonEmpty [ipPlaylistID p, likedPlaylistIDForLibrary E l] = pid" "pid \<noteq> likedPlaylistIDForLibrary E l"
    "livePlaylists v l pid = 0"
  shows "\<exists>err. fst (applyOplogEntryTx E l e v) = Inl err"
proof (rule ccontr)
  assume "\<nexists>err. fst (applyOplogEntryTx E l e v) = Inl err"
  then obtain t where "applyOplogEntryTx E l e v = (Inr (), t)"
    by (cases "applyOplogEntryTx E l e v"; cases "fst (applyOplogEntryTx E l e v)") auto
  moreover have "applyOplogEntryTx E l e = applyPlaylistItemOplogEntryTx E l e"
    using assms(1) by (simp add: applyOplogEntryTx_def)
  moreover have "livePlaylists (countCall x) l pid = livePlaylists x l pid" for x
    by (simp add: livePlaylists_def countCall_def)
  moreover have "x \<noteq> None \<Longrightarrow> True" for x :: "string option" by simp
  ultimately show False
    using assms(2-8)
    by (auto simp: applyPlaylistItemOplogEntryTx_def putPlaylistItem_def resolvePlaylistLibraryRecordingIDTx_def Let_def
        apply_results simp del: firstNonEmpty.simps split: if_splits option.splits)
qed

lemma remote_op_outcome:
  assumes "applyRemoteOp E l op s = ((n, err), t)" "inStep s (trimSpace l)"
  shows "(err \<noteq> None \<or> n = 0 \<longrightarrow> sameData s t)
    \<and> (\<forall>d. clockOf s (trimSpace l) d \<le> clockOf t (trimSpace l) d)"
proof -
  have applied: "r = (1, None) \<Longrightarrow> (n, err) = r \<Longrightarrow> err = None \<and> n = 1" for r by simp
  from assms(1) show ?thesis
  proof (cases rule: applyRemoteOp_cases)
    case unchanged
    then show ?thesis using sameData_held(2) by simp
  next
    case buffered
    then show ?thesis using stored_result(2) [OF buffered(2)] by simp
  next
    case (applied u)
    from applied(4) obtain v x a where r: "clockOf u (trimSpace l) (trimSpace (oeDeviceID op)) < a"
      "\<And>d'. clockOf t (trimSpace l) d' = (if d' = trimSpace (oeDeviceID op) then a else clockOf u (trimSpace l) d')"
      by (rule caughtUp_result) blast
    with applied(1) stored_result(2) [OF applied(2)] show ?thesis by (auto simp: less_imp_le)
  qed
qed

section \<open>An entry of this device\<close>

lemma maxSeq_entries:
  "case map oeSeq (deviceEntries s l d) of [] \<Rightarrow> maxSeq (rpOplog s) l d = 0
   | n # ns \<Rightarrow> maxSeq (rpOplog s) l d = foldl max n ns"
  by (simp add: maxSeq_def deviceEntries_def split: list.split)

lemma foldl_max: "foldl max (n :: int) ns \<in> insert n (set ns)" "m \<in> insert n (set ns) \<Longrightarrow> m \<le> foldl max n ns"
proof (induction ns arbitrary: n m)
  case (Cons k ns)
  { case 1
    then show ?case using Cons.IH(1) [of "max n k"] by (auto simp: max_def split: if_splits)
  next
    case 2
    then show ?case using Cons.IH(2) [of "max n k" "max n k"] Cons.IH(2) [of m "max n k"] by auto
  }
qed simp_all

lemma maxSeq_bounds:
  "set (deviceEntries s l d) = {} \<Longrightarrow> maxSeq (rpOplog s) l d = 0"
  "set (deviceEntries s l d) \<noteq> {} \<Longrightarrow> maxSeq (rpOplog s) l d \<in> oeSeq ` set (deviceEntries s l d)"
  "e \<in> set (deviceEntries s l d) \<Longrightarrow> oeSeq e \<le> maxSeq (rpOplog s) l d"
  using maxSeq_entries [of s l d] foldl_max(1) foldl_max(2)
  by (auto split: list.splits simp: image_iff) (force)+

text \<open>Appending gives the next number and moves the clock there.\<close>

lemma appendLocal_result:
  assumes "appendLocalOplogTx E local ty i k body s = (Inr e, t)"
  obtains u where "sameData s u" "freshEntry u (trimSpace (lcLibraryID local)) e"
    "sameData ((withEntry u (trimSpace (lcLibraryID local)) e)
      \<lparr>rpClocks := AList.update (trimSpace (lcLibraryID local), trimSpace (lcDeviceID local)) (oeSeq e) (rpClocks s)\<rparr>) t"
    "oeSeq e = max (clockOf s (trimSpace (lcLibraryID local)) (trimSpace (lcDeviceID local)))
        (maxSeq (rpOplog s) (trimSpace (lcLibraryID local)) (trimSpace (lcDeviceID local))) + 1"
    "oeDeviceID e = trimSpace (lcDeviceID local)" "oeEntityType e = trimSpace ty" "oeEntityID e = trimSpace i"
    "oeOpKind e = trimSpace k" "oePayload e = deMarshal E body"
    "oeOpID e = trimSpace (lcDeviceID local) @ '':'' @ decimal (oeSeq e)"
proof -
  let ?L = "trimSpace (lcLibraryID local)" and ?d = "trimSpace (lcDeviceID local)"
  have c: "rpClocks (countCall x) = rpClocks x" "rpOplog (countCall x) = rpOplog x" for x by (simp_all add: countCall_def)
  from assms obtain a b where num: "nextLibraryDeviceSeqTx E ?L ?d s = (Inr (oeSeq e), a)"
    and ins: "stmtDB E (insertOplog ?L e) (a\<lparr>dbTicks := Suc (dbTicks a)\<rparr>) = (Inr (), b)"
    and clk: "setClock E ?L ?d (oeSeq e) b = (Inr (), t)"
    and e: "oeDeviceID e = ?d" "oeEntityType e = trimSpace ty" "oeEntityID e = trimSpace i"
      "oeOpKind e = trimSpace k" "oePayload e = deMarshal E body" "oeOpID e = ?d @ '':'' @ decimal (oeSeq e)"
    unfolding appendLocalOplogTx_def Let_def
    by (auto simp: bindDB_result okDB_result failDB_result clockDB_result split: if_splits)
  have a: "sameData s a" and n: "oeSeq e = max (clockOf s ?L ?d) (maxSeq (rpOplog s) ?L ?d) + 1"
    using num sameData_trans [OF sameData_counters(2) sameData_counters(2)]
    by (auto simp: nextLibraryDeviceSeqTx_def db_results clockOf_def c max_def split: option.splits if_splits)
  let ?u = "countCall (a\<lparr>dbTicks := Suc (dbTicks a)\<rparr>)"
  have u: "sameData s ?u" using a sameData_trans [OF sameData_counters(3) sameData_counters(2)] sameData_trans by blast
  have b: "freshEntry ?u ?L e" "b = withEntry ?u ?L e" using ins by (simp_all add: stmtDB_result insertOplog_result)
  have "rpClocks b = rpClocks s" using b(2) sameData_tables(2) [OF u] by (simp add: withEntry_def)
  then have t: "t = (countCall b)\<lparr>rpClocks := AList.update (?L, ?d) (oeSeq e) (rpClocks s)\<rparr>"
    using clk by (simp add: setClock_def execDB_result upsertRow_def c split: option.splits)
  have "sameData (b\<lparr>rpClocks := AList.update (?L, ?d) (oeSeq e) (rpClocks b)\<rparr>)
    ((countCall b)\<lparr>rpClocks := AList.update (?L, ?d) (oeSeq e) (rpClocks (countCall b))\<rparr>)"
    by (rule clock_sameData) simp
  with t \<open>rpClocks b = rpClocks s\<close> have "sameData ((withEntry ?u ?L e)\<lparr>rpClocks := AList.update (?L, ?d) (oeSeq e) (rpClocks s)\<rparr>) t"
    by (simp add: b(2) [symmetric] c)
  with that [OF u b(1)] n e show thesis by simp
qed

text \<open>The id of an entry, a device's id and a number, is trimmed.\<close>

lemma trimmed_strip: "trimSpace d = d \<Longrightarrow> first_strip space_seqs d = None"
proof -
  assume d: "trimSpace d = d"
  obtain u where u: "d = u @ trimLeft d" using strip_all_suffix unfolding trimLeft_def by blast
  obtain x where x: "trimLeft d = trimSpace d @ x" using trimSpace_eq_prefix by blast
  have "length d = length u + length (trimLeft d)" using arg_cong [OF u, of length] by simp
  moreover have "length (trimLeft d) = length d + length x" using arg_cong [OF x, of length] d by simp
  ultimately have "trimLeft d = d" using x d by simp
  moreover have "first_strip space_seqs (trimLeft d) = None"
    unfolding trimLeft_def by (rule strip_all_done) (rule space_seqs_nonempty)
  ultimately show ?thesis by simp
qed

lemma decimal_last: "\<exists>s c. decimal n = s @ [digitChar c] \<and> c < 10"
proof -
  have nat: "\<exists>s c. decimalNat k = s @ [digitChar c] \<and> c < 10" for k
    by (subst decimalNat.simps) (auto intro: exI [of _ "k mod 10"])
  obtain s c where "decimalNat (nat (if n < 0 then - n else n)) = s @ [digitChar c]" "c < 10" using nat by blast
  then show ?thesis by (cases "n < 0") (auto simp: decimal_def)
qed

lemma opID_trimmed:
  assumes "trimSpace d = d" "d \<noteq> ''''"
  shows "trimSpace (d @ '':'' @ decimal n) = d @ '':'' @ decimal n"
proof -
  have seqs: "list_all (\<lambda>w. CHR '':'' \<notin> set w \<and> w \<noteq> [] \<and> \<not> isDigit (last w)) space_seqs" by code_simp
  have "d @ '':'' @ x \<noteq> w @ y" if "w \<in> set space_seqs" for w x y
  proof
    assume e: "d @ '':'' @ x = w @ y"
    show False
    proof (cases "length w \<le> length d")
      case True
      with e have "d = w @ drop (length w) d" by (metis append_eq_append_conv_if append_take_drop_id)
      with trimmed_strip [OF assms(1)] that show False unfolding first_strip_None by blast
    next
      case False
      with e have "w = d @ CHR '':'' # drop (Suc (length d)) w" by (auto simp: append_eq_append_conv2 Cons_eq_append_conv)
      then have "CHR '':'' \<in> set w" by (metis in_set_conv_decomp)
      with seqs that show False by (auto simp: list_all_iff)
    qed
  qed
  then have l: "first_strip space_seqs (d @ '':'' @ decimal n) = None" by (auto simp: first_strip_None)
  obtain s c where s: "decimal n = s @ [digitChar c]" "c < 10" using decimal_last by blast
  then have digit: "isDigit (digitChar c)" by (simp add: isDigit_def of_digitChar)
  have "rev (d @ '':'' @ decimal n) \<noteq> rev w @ y" if "w \<in> set space_seqs" for w y
  proof
    assume "rev (d @ '':'' @ decimal n) = rev w @ y"
    then have "d @ '':'' @ decimal n = rev y @ w" by (metis rev_append rev_rev_ident)
    moreover have "w \<noteq> []" "\<not> isDigit (last w)" using seqs that by (auto simp: list_all_iff)
    ultimately have "last (decimal n) = last w" using s by (metis append_is_Nil_conv last_appendR not_Cons_self2)
    with s digit \<open>\<not> isDigit (last w)\<close> show False by simp
  qed
  then have "first_strip (map rev space_seqs) (rev (d @ '':'' @ decimal n)) = None" by (auto simp: first_strip_None)
  with l show ?thesis by (simp add: trimSpace_def trimLeft_def trimRight_def strip_all_fixed)
qed

text \<open>A log of its own without a gap stays one.\<close>

lemma appended_inStep:
  assumes "appendLocalOplogTx E local ty i k body s = (Inr e, t)" "inStep s (trimSpace (lcLibraryID local))"
    and "\<forall>x \<in> logged s (trimSpace (lcLibraryID local)). oeDeviceID x = trimSpace (lcDeviceID local)
      \<longrightarrow> oeSeq x \<le> clockOf s (trimSpace (lcLibraryID local)) (trimSpace (lcDeviceID local))"
  shows "inStep t (trimSpace (lcLibraryID local))"
    "logged t (trimSpace (lcLibraryID local)) = insert e (logged s (trimSpace (lcLibraryID local)))"
    "clockOf t (trimSpace (lcLibraryID local)) = (clockOf s (trimSpace (lcLibraryID local)))(trimSpace (lcDeviceID local) := oeSeq e)"
    "oeSeq e = clockOf s (trimSpace (lcLibraryID local)) (trimSpace (lcDeviceID local)) + 1"
proof -
  let ?L = "trimSpace (lcLibraryID local)" and ?d = "trimSpace (lcDeviceID local)"
  obtain u where u: "sameData s u" "freshEntry u ?L e"
    "sameData ((withEntry u ?L e)\<lparr>rpClocks := AList.update (?L, ?d) (oeSeq e) (rpClocks s)\<rparr>) t"
    "oeSeq e = max (clockOf s ?L ?d) (maxSeq (rpOplog s) ?L ?d) + 1"
    and e: "oeDeviceID e = ?d" "oeEntityType e = trimSpace ty" "oeOpID e = ?d @ '':'' @ decimal (oeSeq e)"
    using appendLocal_result [OF assms(1)] by metis
  have d: "?d \<noteq> ''''" using assms(1) by (auto simp: appendLocalOplogTx_def Let_def failDB_result split: if_splits)
  have log: "rpOplog t = rpOplog s @ [(?L, e)]"
    using sameData_tables(1) [OF u(3)] sameData_tables(1) [OF u(1)] by (simp add: withEntry_def)
  then show logged: "logged t ?L = insert e (logged s ?L)" by (auto simp: logged_def)
  have "clockOf t ?L x = (if x = ?d then oeSeq e else clockOf s ?L x)" for x
    using sameData_tables(2) [OF u(3)] by (simp add: clockOf_def update_conv)
  then show clock: "clockOf t ?L = (clockOf s ?L)(?d := oeSeq e)" by auto
  have c: "0 \<le> clockOf s ?L ?d" "{n. 1 \<le> n \<and> n \<le> clockOf s ?L ?d} \<subseteq> oeSeq ` set (deviceEntries s ?L ?d)"
    using assms(2) by (simp_all add: inStep_def)
  have "maxSeq (rpOplog s) ?L ?d \<le> clockOf s ?L ?d"
    using maxSeq_bounds(1,2) [of s ?L ?d] assms(3) c(1) by (fastforce simp: set_deviceEntries)
  with u(4) show n: "oeSeq e = clockOf s ?L ?d + 1" by simp
  have fresh: "freshEntry s ?L e" using u(2) freshEntry_sameData [OF u(1)] by simp
  have id: "trimSpace (oeOpID e) = oeOpID e \<and> trimSpace (oeEntityType e) = oeEntityType e
      \<and> trimSpace (oeDeviceID e) = oeDeviceID e" using opID_trimmed [of ?d "oeSeq e"] d e by simp
  have "\<forall>r \<in> set (filter (\<lambda>r. fst r = ?L) (rpOplog s)). oeOpID (snd r) \<noteq> oeOpID e
      \<and> (oeDeviceID (snd r) \<noteq> oeDeviceID e \<or> oeSeq (snd r) \<noteq> oeSeq e)"
    using fresh by (auto simp: freshEntry_def logged_def)
  then have w: "wellLogged t ?L"
    using assms(2) id logged by (auto simp: inStep_def wellLogged_def log comp_def)
  have entries: "set (deviceEntries t ?L x) = (if x = ?d then insert e (set (deviceEntries s ?L x)) else set (deviceEntries s ?L x))" for x
    using logged e(1) by (auto simp: set_deviceEntries)
  have own: "y \<in> set (deviceEntries s ?L ?d) \<Longrightarrow> oeSeq y \<le> clockOf s ?L ?d" for y
    using assms(3) by (simp add: set_deviceEntries)
  define b where "b = clockOf s ?L ?d + 1"
  have b: "0 \<le> b" "oeSeq e = b" "\<And>y. y \<in> set (deviceEntries s ?L ?d) \<Longrightarrow> oeSeq y < b"
    using c(1) n own by (auto simp: b_def)
  have "m = b \<or> m \<le> clockOf s ?L ?d" if "m \<le> b" for m using that unfolding b_def by linarith
  then have "{m. 1 \<le> m \<and> m \<le> b} \<subseteq> insert b (oeSeq ` set (deviceEntries s ?L ?d))" using c(2) by auto
  moreover have "b + 1 \<notin> insert b (oeSeq ` set (deviceEntries s ?L ?d))" using b(3) by fastforce
  ultimately show "inStep t ?L"
    using assms(2) w b(1) unfolding inStep_def entries clock b(2) by (simp add: b(2))
qed



end
