(* ===== verification/BatchLaws.thy ===== *)
theory BatchLaws
  imports SyncLaws "HOL-Library.Multiset"
begin

text \<open>The entries a peer is sent (\<open>selectSyncBatch\<close>): which they are, how many, and when none is left.\<close>

section \<open>Sorting and taking in turns\<close>

lemma mset_insertBy: "mset (insertBy before x ys) = add_mset x (mset ys)"
  by (induction ys) auto

lemma mset_orderBy: "mset (orderBy before xs) = mset xs"
  by (induction xs) (auto simp: orderBy_def mset_insertBy)

lemma orderBy_same [simp]: "set (orderBy before xs) = set xs" "length (orderBy before xs) = length xs"
  using mset_orderBy [of before xs] by (metis set_mset_mset, metis size_mset)

declare takeRounds.simps [simp del]

lemma takeRound_mset:
  "takeRound room bs = (xs, rest) \<Longrightarrow> mset (concat bs) = mset xs + mset (concat rest)"
  by (induction room bs arbitrary: xs rest rule: takeRound.induct) (auto split: prod.splits)

lemma takeRound_none: "takeRound room bs = ([], rest) \<Longrightarrow> room = 0 \<or> concat bs = []"
  by (induction room bs arbitrary: rest rule: takeRound.induct) (auto split: prod.splits)

lemma takeRounds_result:
  "length (takeRounds room bs) = min room (length (concat bs)) \<and> mset (takeRounds room bs) \<subseteq># mset (concat bs)"
proof (induction room bs rule: takeRounds.induct)
  case (1 room bs)
  obtain xs rest where r: "takeRound room bs = (xs, rest)" by (cases "takeRound room bs")
  have m: "mset (concat bs) = mset xs + mset (concat rest)" by (rule takeRound_mset [OF r])
  then have len: "length (concat bs) = length xs + length (concat rest)" by (metis mset_append size_mset length_append)
  have le: "length xs \<le> room" using length_takeRound [of room bs] r by simp
  show ?case
  proof (cases "xs = []")
    case True
    with takeRound_none [of room bs] r have "room = 0 \<or> concat bs = []" by simp
    then have "min room (length (concat bs)) = 0" by (metis list.size(3) min_0L min_0R)
    with True show ?thesis unfolding takeRounds.simps [of room bs] r by simp
  next
    case False
    from "1.IH" [OF r [symmetric] False] m len le show ?thesis
      unfolding takeRounds.simps [of room bs] r by (simp add: False)
  qed
qed

lemma sum_take: "min n (length (concat (map (take n) xs))) = min n (length (concat xs))"
  by (induction xs) auto

lemma concat_take: "length (concat xs) \<le> n \<Longrightarrow> concat (map (take n) xs) = concat xs"
  by (induction xs) auto

section \<open>The backlog of a device\<close>

definition missingOf :: "replica \<Rightarrow> string \<Rightarrow> (string \<times> int) list \<Rightarrow> string \<Rightarrow> oplogEntry list" where
  "missingOf s l clocks d =
     sort_key oeSeq (filter (\<lambda>e. clockAt clocks d < oeSeq e) (deviceEntries s l d))"

lemma missingOf_set:
  "set (missingOf s l clocks d) = {e \<in> logged s l. oeDeviceID e = d \<and> clockAt clocks d < oeSeq e}"
  by (auto simp: missingOf_def set_deviceEntries)

lemma missingOf_buffered: "missingOf s l clocks d = bufferedRows s l d (clockAt clocks d + 1)"
  by (simp add: missingOf_def bufferedRows_def zless_iff_Suc_zadd order_less_le add1_zle_eq)

lemma missingOf_distinct: "wellLogged s l \<Longrightarrow> distinct (map oeSeq (missingOf s l clocks d))"
  unfolding missingOf_buffered using bufferedRows_sorted by (metis strict_sorted_iff)

text \<open>Its length is the difference of the clocks.\<close>

lemma missingOf_length:
  assumes "inStep s l" "complete s l" "0 \<le> clockAt clocks d"
  shows "int (length (missingOf s l clocks d)) = max 0 (clockOf s l d - clockAt clocks d)"
proof -
  let ?c = "clockOf s l d" and ?a = "clockAt clocks d"
  have d: "distinct (map oeSeq (missingOf s l clocks d))" using assms(1) missingOf_distinct by (simp add: inStep_def)
  have held: "{n. 1 \<le> n \<and> n \<le> ?c} \<subseteq> oeSeq ` {e \<in> logged s l. oeDeviceID e = d}"
    using assms(1) by (simp add: inStep_def set_deviceEntries)
  have "n \<in> oeSeq ` set (missingOf s l clocks d)" if "?a < n" "n \<le> ?c" for n
  proof -
    have "n \<in> {n. 1 \<le> n \<and> n \<le> ?c}" using that assms(3) by simp
    with held obtain e where "e \<in> logged s l" "oeDeviceID e = d" "n = oeSeq e" by blast
    with that show ?thesis by (auto simp: missingOf_set)
  qed
  moreover have "oeSeq e \<le> ?c" if "e \<in> set (missingOf s l clocks d)" for e
    using that assms(2) by (auto simp: missingOf_set complete_def)
  ultimately have "set (map oeSeq (missingOf s l clocks d)) = {?a <.. ?c}" by (auto simp: missingOf_set)
  with distinct_card [OF d] have "length (missingOf s l clocks d) = nat (?c - ?a)" by simp
  then show ?thesis by simp
qed

section \<open>All backlogs\<close>

lemma listOplog_result:
  assumes "listOplogByDevice E l d since limit s = (Inr es, t)" "0 < limit"
    "0 \<le> since" "\<And>e. e \<in> set (deviceEntries s (trimSpace l) (trimSpace d)) \<Longrightarrow> 0 < oeSeq e"
  shows "t = countCall s \<and> es = map (checkpointEntryFromRow E) (take (nat limit)
    (sort_key oeSeq (filter (\<lambda>e. since < oeSeq e) (deviceEntries s (trimSpace l) (trimSpace d)))))"
proof -
  have "filter (\<lambda>e. since > 0 \<longrightarrow> oeSeq e > since) (deviceEntries s (trimSpace l) (trimSpace d))
      = filter (\<lambda>e. since < oeSeq e) (deviceEntries s (trimSpace l) (trimSpace d))"
    using assms(3,4) by (intro filter_cong) auto
  with assms(1,2) show ?thesis by (simp add: listOplogByDevice_def db_results)
qed

lemma collectBacklogs_result:
  assumes "collectBacklogs E l clocks limit n acc rows s = (Inr (tot, bs), t)" "0 < limit"
    "\<forall>r \<in> set rows. trimSpace (fst r) = fst r \<and> snd r = clockOf s (trimSpace l) (fst r)"
    "inStep s (trimSpace l)" "complete s (trimSpace l)" "\<forall>d. 0 \<le> clockAt clocks d"
  shows "tot = n + int (length (concat (map (\<lambda>r. missingOf s (trimSpace l) clocks (fst r)) rows)))
    \<and> concat bs = concat (rev acc) @ concat (map (map (checkpointEntryFromRow E) \<circ> take (nat limit))
        (map (\<lambda>r. missingOf s (trimSpace l) clocks (fst r)) rows))"
  using assms
proof (induction rows arbitrary: n acc s)
  case (Cons c rows)
  let ?L = "trimSpace l" and ?d = "trimSpace (fst c)"
  let ?m = "missingOf s ?L clocks ?d"
  have d: "?d = fst c" and v: "snd c = clockOf s ?L ?d" using Cons.prems(3) by auto
  have len: "int (length ?m) = max 0 (snd c - clockAt clocks ?d)"
    using missingOf_length [OF Cons.prems(4,5)] Cons.prems(6) v by simp
  have same: "missingOf (countCall s) ?L clocks x = missingOf s ?L clocks x"
    "inStep (countCall s) ?L = inStep s ?L" "complete (countCall s) ?L = complete s ?L"
    "clockOf (countCall s) ?L x = clockOf s ?L x" for x
    using sameData_held [OF sameData_counters(2) [of s]] sameData_inStep [OF sameData_counters(2) [of s]]
    by (simp_all add: missingOf_def complete_def)
  show ?case
  proof (cases "snd c - clockAt clocks ?d \<le> 0")
    case True
    with len have "?m = []" by simp
    with True Cons.IH [of n acc s] Cons.prems d show ?thesis by (simp add: Let_def)
  next
    case False
    with Cons.prems(1) obtain es u where es: "listOplogByDevice E l ?d (clockAt clocks ?d) limit s = (Inr es, u)"
      and rest: "collectBacklogs E l clocks limit (n + (snd c - clockAt clocks ?d)) (es # acc) rows u = (Inr (tot, bs), t)"
      by (auto simp: Let_def bindDB_result)
    have pos: "e \<in> set (deviceEntries s ?L ?d) \<Longrightarrow> 0 < oeSeq e" for e
      using Cons.prems(5) by (fastforce simp: complete_def set_deviceEntries)
    have "0 \<le> clockAt clocks ?d" using Cons.prems(6) by blast
    then have u: "u = countCall s" and es': "es = map (checkpointEntryFromRow E) (take (nat limit) ?m)"
      using listOplog_result [OF es Cons.prems(2)] pos unfolding missingOf_def trimSpace_idem by blast+
    have "snd c - clockAt clocks ?d = int (length ?m)" using len False by simp
    with Cons.IH [OF rest Cons.prems(2)] Cons.prems(3-6) es' d show ?thesis by (simp add: u same)
  qed
qed (simp add: okDB_result)

lemma distinct_map_fst_rows:
  assumes "distinct (map fst rows)"
  shows "distinct (map (\<lambda>r. snd (fst r)) (filter (\<lambda>r. fst (fst r) = l) rows))"
proof -
  have "distinct (filter (\<lambda>k. fst k = l) (map fst rows))" using assms by simp
  moreover have "inj_on snd (set (filter (\<lambda>k. fst k = l) (map fst rows)))" by (auto simp: inj_on_def)
  ultimately have "distinct (map snd (filter (\<lambda>k. fst k = l) (map fst rows)))" by (simp add: distinct_map)
  then show ?thesis by (simp add: filter_map comp_def)
qed

section \<open>The batch\<close>

definition missingEntries :: "replica \<Rightarrow> string \<Rightarrow> (string \<times> int) list \<Rightarrow> oplogEntry set" where
  "missingEntries s l clocks = {e \<in> logged s l. clockAt clocks (oeDeviceID e) < oeSeq e}"

lemma missing_concat:
  assumes "inStep s l" "complete s l" "\<forall>d. 0 \<le> clockAt clocks d"
    and "distinct (map fst rows)" "fst ` set rows = {d. \<exists>n. map_of (rpClocks s) (l, d) = Some n}"
  shows "set (concat (map (\<lambda>r. missingOf s l clocks (fst r)) rows)) = missingEntries s l clocks"
    "length (concat (map (\<lambda>r. missingOf s l clocks (fst r)) rows)) = card (missingEntries s l clocks)"
proof -
  have w: "wellLogged s l" using assms(1) by (simp add: inStep_def)
  have "oeDeviceID e \<in> fst ` set rows" if "e \<in> logged s l" for e
  proof -
    have "1 \<le> oeSeq e" "oeSeq e \<le> clockOf s l (oeDeviceID e)" using that assms(2) by (auto simp: complete_def)
    then have "clockOf s l (oeDeviceID e) \<noteq> 0" by linarith
    then show ?thesis unfolding assms(5) by (auto simp: clockOf_def split: option.splits)
  qed
  then show set: "set (concat (map (\<lambda>r. missingOf s l clocks (fst r)) rows)) = missingEntries s l clocks"
    by (force simp: missingOf_set missingEntries_def)
  have "distinct (missingOf s l clocks d)" for d using missingOf_distinct [OF w] distinct_map by blast
  then have "distinct (concat (map (\<lambda>r. missingOf s l clocks (fst r)) rows))"
    using assms(4)
  proof (induction rows)
    case (Cons r rows)
    have ne: "fst q \<noteq> fst r" if "q \<in> set rows" for q proof
      assume "fst q = fst r"
      with that have "fst r \<in> fst ` set rows" by (metis image_eqI)
      with Cons.prems show False by simp
    qed
    have "set (missingOf s l clocks (fst r)) \<inter> set (missingOf s l clocks (fst q)) = {}" if "q \<in> set rows" for q
      using ne [OF that] by (auto simp: missingOf_set)
    with Cons show ?case by auto
  qed simp
  from distinct_card [OF this] set
  show "length (concat (map (\<lambda>r. missingOf s l clocks (fst r)) rows)) = card (missingEntries s l clocks)" by simp
qed

lemma batch_result:
  assumes "selectSyncBatch E l clocks limit0 s = (Inr b, t)" "limit = (if limit0 \<le> 0 then 500 else limit0)"
    "inStep s (trimSpace l)" "complete s (trimSpace l)" "\<forall>d. 0 \<le> clockAt clocks d"
    "distinct (map fst (rpClocks s))" "\<forall>k \<in> fst ` set (rpClocks s). trimSpace (snd k) = snd k"
  shows "sbTotalMissing b = int (card (missingEntries s (trimSpace l) clocks))"
    "int (length (sbOps b)) = min limit (sbTotalMissing b)"
    "sbRemainingOps b = sbTotalMissing b - int (length (sbOps b))" "sbHasMore b \<longleftrightarrow> 0 < sbRemainingOps b"
    "set (sbOps b) \<subseteq> checkpointEntryFromRow E ` missingEntries s (trimSpace l) clocks"
    "\<not> sbHasMore b \<Longrightarrow> set (sbOps b) = checkpointEntryFromRow E ` missingEntries s (trimSpace l) clocks"
proof -
  let ?L = "trimSpace l"
  define rows where "rows = orderBy (\<lambda>a b. keyBefore (fst a) (fst b)) (clockRows s ?L)"
  define cs where "cs = map (\<lambda>r. missingOf s ?L clocks (fst r)) rows"
  define n where "n = nat limit"
  have limit: "0 < limit" "limit = int n" using assms(2) by (auto simp: n_def split: if_splits)
  have same: "missingOf (countCall s) ?L clocks x = missingOf s ?L clocks x" "inStep (countCall s) ?L"
    "complete (countCall s) ?L" "clockOf (countCall s) ?L x = clockOf s ?L x" for x
    using sameData_held [OF sameData_counters(2) [of s]] sameData_inStep [OF sameData_counters(2) [of s]] assms(3,4)
    by (simp_all add: missingOf_def complete_def)
  from assms(1,2) obtain tot bs u where c: "collectBacklogs E l clocks limit 0 [] rows (countCall s) = (Inr (tot, bs), u)"
    and b: "sbOps b = sortCheckpointEntries (takeRounds n bs)" "sbTotalMissing b = tot"
      "sbRemainingOps b = max 0 (tot - int (length (sbOps b)))" "sbHasMore b = (sbRemainingOps b > 0)"
    by (auto simp: selectSyncBatch_def listDeviceClocks_def db_results Let_def rows_def n_def defaultSyncBatchSize_def
        split: prod.splits if_splits)
  have at: "map_of (rpClocks s) (?L, fst r) = Some (snd r)" if "r \<in> set rows" for r
    using that assms(6) by (auto simp: rows_def clockRows_def)
  then have val: "snd r = clockOf s ?L (fst r)" if "r \<in> set rows" for r using that by (simp add: clockOf_def)
  have trimmed: "trimSpace (fst r) = fst r" if "r \<in> set rows" for r
    using at [OF that] assms(7) by (force dest: map_of_SomeD)
  have dist: "distinct (map fst rows)"
  proof -
    have "distinct (map fst (clockRows s ?L))"
      using assms(6) distinct_map_fst_rows by (simp add: clockRows_def comp_def)
    moreover have "mset (map fst rows) = mset (map fst (clockRows s ?L))" by (simp add: rows_def mset_orderBy)
    ultimately show ?thesis by (metis mset_eq_imp_distinct_iff)
  qed
  have dom: "fst ` set rows = {d. \<exists>n. map_of (rpClocks s) (?L, d) = Some n}"
  proof -
    have "d \<in> fst ` set rows" if "map_of (rpClocks s) (?L, d) = Some n" for d n
    proof -
      have "((?L, d), n) \<in> set (rpClocks s)" using that by (rule map_of_SomeD)
      then have "(d, n) \<in> set rows" by (force simp: rows_def clockRows_def)
      then show ?thesis by force
    qed
    with at show ?thesis by blast
  qed
  note r = collectBacklogs_result [OF c limit(1)]
  have tot: "tot = int (length (concat cs))"
    and bs: "concat bs = map (checkpointEntryFromRow E) (concat (map (take n) cs))"
    using r same assms(5) val trimmed by (simp_all add: cs_def n_def map_concat comp_def)
  have all: "set (concat cs) = missingEntries s ?L clocks" "length (concat cs) = card (missingEntries s ?L clocks)"
    unfolding cs_def using missing_concat [OF assms(3,4,5) dist dom] .
  have taken: "length (takeRounds n bs) = min n (length (concat cs))" "mset (takeRounds n bs) \<subseteq># mset (concat bs)"
    using takeRounds_result [of n bs] sum_take [of n cs] bs by simp_all
  have sub: "set (concat (map (take n) cs)) \<subseteq> set (concat cs)" using in_set_takeD by fastforce
  show "sbTotalMissing b = int (card (missingEntries s ?L clocks))" using b(2) tot all(2) by simp
  show len: "int (length (sbOps b)) = min limit (sbTotalMissing b)"
    using b(1,2) tot taken(1) limit(2) by (simp add: sortCheckpointEntries_def)
  then show "sbRemainingOps b = sbTotalMissing b - int (length (sbOps b))" using b(2,3) by simp
  show "sbHasMore b \<longleftrightarrow> 0 < sbRemainingOps b" using b(4) by simp
  have ops: "set (sbOps b) \<subseteq> set (concat bs)"
    using set_mset_mono [OF taken(2)] b(1) by (simp add: sortCheckpointEntries_def)
  then show "set (sbOps b) \<subseteq> checkpointEntryFromRow E ` missingEntries s ?L clocks"
    unfolding bs all(1) [symmetric] set_map using image_mono [OF sub] by (rule subset_trans)
  show "set (sbOps b) = checkpointEntryFromRow E ` missingEntries s ?L clocks" if "\<not> sbHasMore b"
  proof -
    have "tot \<le> int (length (sbOps b))" using that b(3,4) by simp
    then have le: "length (concat cs) \<le> n" using len b(2) tot limit(2) by simp
    then have full: "concat bs = map (checkpointEntryFromRow E) (concat cs)" using bs concat_take by metis
    have "mset (takeRounds n bs) = mset (concat bs)"
    proof (rule ccontr)
      assume "mset (takeRounds n bs) \<noteq> mset (concat bs)"
      with taken(2) have "mset (takeRounds n bs) \<subset># mset (concat bs)" by (simp add: subset_mset.le_less)
      then have "length (takeRounds n bs) < length (concat bs)" using mset_subset_size by fastforce
      with taken(1) le show False unfolding full by simp
    qed
    then have "set (takeRounds n bs) = set (concat bs)" by (metis set_mset_mset)
    with full all(1) b(1) show ?thesis by (simp add: sortCheckpointEntries_def)
  qed
qed

end
