(* ===== verification/PositionLaws.thy ===== *)
theory PositionLaws
  imports BatchLaws
begin

text \<open>Where a new or moved playlist item goes, and what renumbering a playlist does to its order.\<close>

section \<open>Sorted rows\<close>

lemma sorted_insertBy:
  assumes "\<And>a b c. before a b \<Longrightarrow> before b c \<Longrightarrow> before a c" "\<And>b. b \<in> set ys \<Longrightarrow> before x b \<or> before b x"
    "sorted_wrt before ys"
  shows "sorted_wrt before (insertBy before x ys)"
  using assms(2,3)
proof (induction ys)
  case (Cons y ys)
  have "set (insertBy before x ys) = insert x (set ys)"
    using mset_insertBy [of before x ys] by (metis set_mset_add_mset_insert set_mset_mset)
  moreover have "before x z" if "\<not> before y x" "z \<in> set ys" for z
    using that Cons.prems assms(1) [of x y z] by auto
  ultimately show ?case using Cons by auto
qed simp

lemma sorted_orderBy:
  assumes "\<And>a b c. before a b \<Longrightarrow> before b c \<Longrightarrow> before a c"
    "\<And>a b. a \<in> set xs \<Longrightarrow> b \<in> set xs \<Longrightarrow> a \<noteq> b \<Longrightarrow> before a b \<or> before b a" "distinct xs"
  shows "sorted_wrt before (orderBy before xs)"
  using assms(2,3)
proof (induction xs)
  case (Cons x xs)
  have "sorted_wrt before (insertBy before x (orderBy before xs))"
  proof (rule sorted_insertBy)
    show "before a b \<Longrightarrow> before b c \<Longrightarrow> before a c" for a b c by (rule assms(1))
    show "before x b \<or> before b x" if "b \<in> set (orderBy before xs)" for b
      using Cons.prems(1) [of x b] Cons.prems(2) that by auto
    show "sorted_wrt before (orderBy before xs)" using Cons by simp
  qed
  then show ?case by (simp add: orderBy_def)
qed (simp add: orderBy_def)

lemma insertBy_map:
  "(\<And>y. y \<in> set ys \<Longrightarrow> before' (f y) (f x) = before y x)
    \<Longrightarrow> insertBy before' (f x) (map f ys) = map f (insertBy before x ys)"
  by (induction ys) auto

lemma orderBy_map:
  assumes "\<And>x y. x \<in> set xs \<Longrightarrow> y \<in> set xs \<Longrightarrow> before' (f y) (f x) = before y x"
  shows "orderBy before' (map f xs) = map f (orderBy before xs)"
  using assms
proof (induction xs)
  case (Cons x xs)
  then have "orderBy before' (map f xs) = map f (orderBy before xs)" by simp
  moreover have "insertBy before' (f x) (map f (orderBy before xs)) = map f (insertBy before x (orderBy before xs))"
    using Cons.prems by (intro insertBy_map) simp
  ultimately show ?case by (simp add: orderBy_def)
qed (simp add: orderBy_def)

lemma itemBefore_order:
  "itemBefore a b \<Longrightarrow> itemBefore b c \<Longrightarrow> itemBefore a c" "fst a \<noteq> fst b \<Longrightarrow> itemBefore a b \<or> itemBefore b a"
  "itemBefore a b \<Longrightarrow> \<not> itemBefore b a"
proof -
  show "itemBefore a b \<Longrightarrow> itemBefore b c \<Longrightarrow> itemBefore a c"
    using keyBefore_order(2) [of "piPositionKey (snd a)" "piPositionKey (snd b)" "piPositionKey (snd c)"]
      keyBefore_order(2) [of "fst a" "fst b" "fst c"] by (auto simp: itemBefore_def)
  show "fst a \<noteq> fst b \<Longrightarrow> itemBefore a b \<or> itemBefore b a"
    using keyBefore_order(3) [of "piPositionKey (snd a)" "piPositionKey (snd b)"] keyBefore_order(3) [of "fst a" "fst b"]
    by (auto simp: itemBefore_def)
  show "itemBefore a b \<Longrightarrow> \<not> itemBefore b a"
    using keyBefore_order(1,4) by (auto simp: itemBefore_def)
qed

section \<open>The items of a playlist\<close>

lemma liveItems_distinct:
  assumes "distinct (map fst (rpItems s))"
  shows "distinct (map fst (liveItems s l p))"
proof -
  let ?rows = "filter (\<lambda>r. fst (fst r) = l \<and> fst (snd (fst r)) = p \<and> piDeletedAt (snd r) = None) (rpItems s)"
  have "distinct (map fst ?rows)" using assms by (rule distinct_map_filter)
  then have "distinct (map (\<lambda>k. snd (snd k)) (map fst ?rows))"
    by (subst distinct_map) (auto simp: inj_on_def)
  then show ?thesis by (simp add: liveItems_def comp_def)
qed

lemma orderedItems_sorted:
  assumes "distinct (map fst (rpItems s))"
  shows "sorted_wrt itemBefore (orderedItems s l p x)" "distinct (map fst (orderedItems s l p x))"
proof -
  let ?items = "filter (\<lambda>i. x \<noteq> '''' \<longrightarrow> fst i \<noteq> x) (liveItems s l p)"
  have d: "distinct (map fst ?items)" using liveItems_distinct [OF assms] by (rule distinct_map_filter)
  have inj: "inj_on fst (set ?items)" using d by (simp only: distinct_map)
  have comparable: "itemBefore a b \<or> itemBefore b a" if "a \<in> set ?items" "b \<in> set ?items" "a \<noteq> b" for a b
  proof (rule itemBefore_order(2), rule notI)
    assume "fst a = fst b"
    from inj_onD [OF inj this that(1,2)] that(3) show False by simp
  qed
  have "distinct ?items" using d by (simp only: distinct_map)
  show "sorted_wrt itemBefore (orderedItems s l p x)"
    unfolding orderedItems_def
  proof (rule sorted_orderBy)
    show "itemBefore a b \<Longrightarrow> itemBefore b c \<Longrightarrow> itemBefore a c" for a b c by (rule itemBefore_order(1))
  qed (use comparable \<open>distinct ?items\<close> in blast)+
  have "mset (map fst (orderedItems s l p x)) = mset (map fst ?items)" by (simp add: orderedItems_def mset_orderBy)
  with d show "distinct (map fst (orderedItems s l p x))" by (metis mset_eq_imp_distinct_iff)
qed

section \<open>Renumbering\<close>

text \<open>What a run over some items does to the rows.\<close>

fun renumbered :: "int \<Rightarrow> (string \<times> playlistItemRow) list \<Rightarrow> string \<Rightarrow> playlistItemRow \<Rightarrow> playlistItemRow" where
  "renumbered i [] k row = row"
| "renumbered i (item # rest) k row =
     renumbered (i + 1) rest k (if fst item = k then row\<lparr>piPositionKey := positionKeyForIndex (i + 1)\<rparr> else row)"

lemma renumbered_live [simp]: "piDeletedAt (renumbered i items k row) = piDeletedAt row"
  by (induction items arbitrary: i row) auto

lemma renumbered_key:
  assumes "distinct (map fst items)"
  shows "k < length items \<Longrightarrow> piPositionKey (renumbered i items (fst (items ! k)) row) = positionKeyForIndex (i + int k + 1)"
    "x \<notin> fst ` set items \<Longrightarrow> renumbered i items x row = row"
proof -
  show other: "x \<notin> fst ` set items \<Longrightarrow> renumbered i items x row = row" for i x row and items :: "(string \<times> playlistItemRow) list"
    by (induction items arbitrary: i row) auto
  show "k < length items \<Longrightarrow> piPositionKey (renumbered i items (fst (items ! k)) row) = positionKeyForIndex (i + int k + 1)"
    using assms
  proof (induction items arbitrary: i k row)
    case (Cons item items)
    show ?case
    proof (cases k)
      case 0
      with Cons.prems other [of "fst item" items] show ?thesis by simp
    next
      case (Suc j)
      with Cons.prems have "fst item \<noteq> fst (items ! j)" by (auto simp: image_iff)
      with Suc Cons.prems Cons.IH [of j "i + 1" row] show ?thesis by (simp add: algebra_simps)
    qed
  qed simp
qed

lemma rebalanceFrom_result:
  assumes "rebalanceFrom E l p i items s = (Inr u, t)"
  shows "rpItems t = map (\<lambda>(k, row). (k, if fst k = l \<and> fst (snd k) = p then renumbered i items (snd (snd k)) row else row)) (rpItems s)"
  using assms
proof (induction items arbitrary: i s)
  case (Cons item items)
  from Cons.prems obtain v where v: "v = (countCall s)\<lparr>rpItems := updateRow (l, p, fst item)
      (\<lambda>old. old\<lparr>piPositionKey := positionKeyForIndex (i + 1)\<rparr>) (rpItems s)\<rparr>"
    "rebalanceFrom E l p (i + 1) items v = (Inr u, t)"
    by (auto simp: bindDB_result execDB_result countCall_def)
  from Cons.IH [OF v(2)] show ?case
    by (auto simp: v(1) updateRow_def)
qed (auto simp: okDB_result intro!: map_idI [symmetric])

definition renumber :: "replica \<Rightarrow> string \<Rightarrow> string \<Rightarrow> string \<times> playlistItemRow \<Rightarrow> string \<times> playlistItemRow" where
  "renumber s l p item = (fst item, renumbered 0 (orderedItems s l p '''') (fst item) (snd item))"

lemma rebalance_result:
  assumes "rebalancePlaylistPositionKeysTx E l p s = (Inr u, t)"
  shows "liveItems t l p = map (renumber s l p) (liveItems s l p)"
proof -
  have same: "rpItems (countCall s) = rpItems s" by (simp add: countCall_def)
  from assms have "rebalanceFrom E l p 0 (orderedItems s l p '''') (countCall s) = (Inr u, t)"
    by (auto simp: rebalancePlaylistPositionKeysTx_def orderedPlaylistItemsTx_def db_results)
  note rows = rebalanceFrom_result [OF this, unfolded same]
  let ?f = "\<lambda>r. (fst r, if fst (fst r) = l \<and> fst (snd (fst r)) = p
    then renumbered 0 (orderedItems s l p '''') (snd (snd (fst r))) (snd r) else snd r)"
  let ?live = "\<lambda>r. fst (fst r) = l \<and> fst (snd (fst r)) = p \<and> piDeletedAt (snd r) = None"
  have "rpItems t = map ?f (rpItems s)" using rows by (simp add: case_prod_beta)
  moreover have "?live (?f r) = ?live r" for r by simp
  then have "filter (?live \<circ> ?f) (rpItems s) = filter ?live (rpItems s)" by (simp only: comp_def)
  moreover have "map (\<lambda>r. (snd (snd (fst (?f r))), snd (?f r))) (filter ?live (rpItems s))
    = map (\<lambda>r. renumber s l p (snd (snd (fst r)), snd r)) (filter ?live (rpItems s))"
    by (rule map_cong) (auto simp: renumber_def)
  ultimately show ?thesis unfolding liveItems_def by (simp only: filter_map map_map comp_def)
qed

text \<open>The keys of fewer than \<open>10 ^ 18\<close> items are in range and in order.\<close>

lemma stride_range: "0 \<le> k \<Longrightarrow> k < 10 ^ 17 \<Longrightarrow> keyRange ((k + 1) * positionKeyStride)"
  by (simp add: keyRange_def maxPositionKeyValue_def positionKeyWidth_def positionKeyStride_def)

lemma renumber_order:
  assumes "distinct (map fst (rpItems s))" "length (rpItems s) < 10 ^ 17"
    and "a \<in> set (liveItems s l p)" "b \<in> set (liveItems s l p)"
  shows "itemBefore (renumber s l p a) (renumber s l p b) \<longleftrightarrow> itemBefore a b"
    "\<exists>v. keyRange v \<and> piPositionKey (snd (renumber s l p a)) = formatPositionKey v"
proof -
  let ?items = "orderedItems s l p ''''"
  note sorted = orderedItems_sorted [OF assms(1), of l p "''''"]
  have set: "set ?items = set (liveItems s l p)" by (simp add: orderedItems_def)
  have "length ?items \<le> length (rpItems s)" by (simp add: orderedItems_def liveItems_def)
  then have small: "int k < 10 ^ 17" if "k < length ?items" for k using that assms(2) by simp
  obtain i where i: "i < length ?items" "a = ?items ! i" using assms(3) set by (metis in_set_conv_nth)
  obtain j where j: "j < length ?items" "b = ?items ! j" using assms(4) set by (metis in_set_conv_nth)
  have key: "piPositionKey (snd (renumber s l p (?items ! k))) = formatPositionKey ((int k + 1) * positionKeyStride)"
    if "k < length ?items" for k
    using renumbered_key(1) [OF sorted(2) that, of 0] by (simp add: renumber_def positionKeyForIndex_def max_def)
  have range: "keyRange ((int k + 1) * positionKeyStride)" if "k < length ?items" for k
    using stride_range [of "int k"] small [OF that] by simp
  from key [OF i(1)] range [OF i(1)] i(2)
  show "\<exists>v. keyRange v \<and> piPositionKey (snd (renumber s l p a)) = formatPositionKey v" by blast
  have less: "keyBefore (piPositionKey (snd (renumber s l p (?items ! m)))) (piPositionKey (snd (renumber s l p (?items ! n))))"
    if "m < n" "n < length ?items" for m n
    using that key keyBefore_format [OF range range, of m n] by (simp add: positionKeyStride_def)
  have before: "m < n \<Longrightarrow> n < length ?items \<Longrightarrow> itemBefore (?items ! m) (?items ! n)" for m n
    using sorted(1) by (simp add: sorted_wrt_nth_less)
  have fst: "fst (renumber s l p x) = fst x" for x by (simp add: renumber_def)
  have irrefl: "\<not> itemBefore x x" for x using itemBefore_order(3) by blast
  consider "i < j" | "i = j" | "j < i" by linarith
  then show "itemBefore (renumber s l p a) (renumber s l p b) \<longleftrightarrow> itemBefore a b"
  proof cases
    case 1
    then show ?thesis using less [of i j] before [of i j] i j by (simp add: itemBefore_def)
  next
    case 2
    then show ?thesis using irrefl i j by simp
  next
    case 3
    then have "itemBefore (renumber s l p b) (renumber s l p a)" "itemBefore b a"
      using less [of j i] before [of j i] i j by (simp_all add: itemBefore_def)
    then show ?thesis using itemBefore_order(3) by blast
  qed
qed

lemma rebalance_keeps:
  assumes "rebalancePlaylistPositionKeysTx E l p s = (Inr u, t)"
    "distinct (map fst (rpItems s))" "length (rpItems s) < 10 ^ 17"
  shows "map fst (orderedItems t l p x) = map fst (orderedItems s l p x)"
    "\<forall>i \<in> set (orderedItems t l p x). \<exists>v. keyRange v \<and> piPositionKey (snd i) = formatPositionKey v"
proof -
  let ?items = "filter (\<lambda>i. x \<noteq> '''' \<longrightarrow> fst i \<noteq> x) (liveItems s l p)"
  have live: "liveItems t l p = map (renumber s l p) (liveItems s l p)" by (rule rebalance_result [OF assms(1)])
  have fst: "fst (renumber s l p i) = fst i" for i by (simp add: renumber_def)
  have "filter (\<lambda>i. x \<noteq> '''' \<longrightarrow> fst i \<noteq> x) (liveItems t l p) = map (renumber s l p) ?items"
    by (simp add: live filter_map comp_def fst)
  then have t: "orderedItems t l p x = map (renumber s l p) (orderedItems s l p x)"
    unfolding orderedItems_def using renumber_order(1) [OF assms(2,3)]
    by (simp only:) (rule orderBy_map, simp)
  then show "map fst (orderedItems t l p x) = map fst (orderedItems s l p x)" by (simp add: fst)
  have "set (orderedItems s l p x) \<subseteq> set (liveItems s l p)" by (auto simp: orderedItems_def)
  with t renumber_order(2) [OF assms(2,3)]
  show "\<forall>i \<in> set (orderedItems t l p x). \<exists>v. keyRange v \<and> piPositionKey (snd i) = formatPositionKey v" by auto
qed

section \<open>A new key\<close>

definition fitKey :: "string \<Rightarrow> bool" where
  "fitKey k \<longleftrightarrow> k = '''' \<or> (\<exists>v. keyRange v \<and> k = formatPositionKey v)"

lemma midpoint_fits:
  assumes "midpointPositionKey prev next = Some key" "fitKey prev" "fitKey next"
  shows "(prev \<noteq> '''' \<longrightarrow> keyBefore prev key) \<and> (next \<noteq> '''' \<longrightarrow> keyBefore key next)
    \<and> (\<exists>m. keyRange m \<and> key = formatPositionKey m)"
proof -
  have top: "keyRange maxPositionKeyValue" by (simp add: keyRange_def maxPositionKeyValue_def positionKeyWidth_def)
  have mid: "p < p + (n - p) div 2 \<and> p + (n - p) div 2 < n" if "\<not> n - p \<le> 1" for p n :: int
    using that by (simp, linarith)
  consider (none) "prev = ''''" "next = ''''" | (first) n where "prev = ''''" "keyRange n" "next = formatPositionKey n"
    | (last) p where "keyRange p" "prev = formatPositionKey p" "next = ''''"
    | (both) p n where "keyRange p" "prev = formatPositionKey p" "keyRange n" "next = formatPositionKey n"
    using assms(2,3) by (auto simp: fitKey_def)
  then show ?thesis
  proof cases
    case none
    then have "key = formatPositionKey (maxPositionKeyValue div 2)" using assms(1) midpoint_ends(3) by simp
    moreover have "keyRange (maxPositionKeyValue div 2)" using top by (simp add: keyRange_def)
    ultimately show ?thesis using none by blast
  next
    case (first n)
    then have n: "\<not> n \<le> 1" "key = formatPositionKey (n div 2)"
      using assms(1) midpoint_ends(1) [of n] by (auto split: if_splits)
    then have "keyRange (n div 2)" "n div 2 < n" using first(2) by (auto simp: keyRange_def)
    with first n(2) keyBefore_format [of "n div 2" n] show ?thesis by auto
  next
    case (last p)
    let ?m = "p + (maxPositionKeyValue - p) div 2"
    have p: "\<not> maxPositionKeyValue - p \<le> 1" "key = formatPositionKey ?m"
      using assms(1) last midpoint_ends(2) [of p] by (auto split: if_splits)
    with mid have "p < ?m" "?m < maxPositionKeyValue" by blast+
    then have "keyRange ?m" using last(1) by (simp add: keyRange_def)
    with last p(2) \<open>p < ?m\<close> keyBefore_format [of p ?m] show ?thesis by auto
  next
    case (both p n)
    let ?m = "p + (n - p) div 2"
    have p: "\<not> n - p \<le> 1" "key = formatPositionKey ?m"
      using assms(1) both midpoint_between [of p n] by (auto split: if_splits)
    with mid have "p < ?m" "?m < n" by blast+
    then have "keyRange ?m" using both(1,3) by (simp add: keyRange_def)
    with both p(2) \<open>p < ?m\<close> \<open>?m < n\<close> keyBefore_format [of p ?m] keyBefore_format [of ?m n] show ?thesis by auto
  qed
qed

lemma format_nonempty: "keyRange v \<Longrightarrow> formatPositionKey v \<noteq> ''''"
  using format_not_blank [of v] by auto

lemma positionFromItems_between:
  assumes "positionFromItems E items a b m = Inr (Some key)"
    "\<forall>i \<in> set items. \<exists>v. keyRange v \<and> piPositionKey (snd i) = formatPositionKey v"
  obtains i j where "anchorIndices E items a b m = Inr (i, j)"
    "0 \<le> i \<and> i < int (length items) \<longrightarrow> keyBefore (keyAt items i) key"
    "0 \<le> j \<and> j < int (length items) \<longrightarrow> keyBefore key (keyAt items j)" "\<exists>v. keyRange v \<and> key = formatPositionKey v"
proof -
  from assms(1) obtain i j where a: "anchorIndices E items a b m = Inr (i, j)"
    and k: "midpointPositionKey (keyAt items i) (keyAt items j) = Some key"
    by (auto simp: positionFromItems_def split: sum.splits)
  have fit: "fitKey (keyAt items n)" "0 \<le> n \<and> n < int (length items) \<Longrightarrow> keyAt items n \<noteq> ''''" for n
  proof -
    have in_set: "items ! nat n \<in> set items" if "0 \<le> n" "n < int (length items)" using that by simp
    show "fitKey (keyAt items n)" using in_set assms(2) by (fastforce simp: keyAt_def fitKey_def)
    show "0 \<le> n \<and> n < int (length items) \<Longrightarrow> keyAt items n \<noteq> ''''"
      using in_set assms(2) format_nonempty by (fastforce simp: keyAt_def)
  qed
  from midpoint_fits [OF k fit(1) fit(1)] fit(2) a that show thesis by blast
qed

lemma newPosition_between:
  assumes "playlistItemPositionKeyTx E l p after before moving s = (Inr key, t)"
    "distinct (map fst (rpItems s))" "length (rpItems s) < 10 ^ 17"
    "\<forall>i \<in> set (orderedItems s l p (trimSpace moving)). \<exists>v. keyRange v \<and> piPositionKey (snd i) = formatPositionKey v"
  shows "map fst (orderedItems t l p (trimSpace moving)) = map fst (orderedItems s l p (trimSpace moving))
    \<and> (\<exists>i j. anchorIndices E (orderedItems t l p (trimSpace moving)) (trimSpace after) (trimSpace before) (trimSpace moving) = Inr (i, j)
        \<and> (0 \<le> i \<and> i < int (length (orderedItems t l p (trimSpace moving))) \<longrightarrow> keyBefore (keyAt (orderedItems t l p (trimSpace moving)) i) key)
        \<and> (0 \<le> j \<and> j < int (length (orderedItems t l p (trimSpace moving))) \<longrightarrow> keyBefore key (keyAt (orderedItems t l p (trimSpace moving)) j)))
    \<and> (\<exists>v. keyRange v \<and> key = formatPositionKey v)"
proof -
  let ?x = "trimSpace moving"
  have count: "orderedItems (countCall u) l p y = orderedItems u l p y" "rpItems (countCall u) = rpItems u" for u y
    by (simp_all add: orderedItems_def liveItems_def countCall_def)
  from assms(1) obtain found where f: "positionFromItems E (orderedItems s l p ?x) (trimSpace after) (trimSpace before) ?x = Inr found"
    and rest: "(case found of Some k \<Rightarrow> okDB k | None \<Rightarrow> bindDB (rebalancePlaylistPositionKeysTx E l p) (\<lambda>_.
        bindDB (queryDB E (\<lambda>s. orderedItems s l p ?x)) (\<lambda>itemsAfter.
        bindDB (liftDB (positionFromItems E itemsAfter (trimSpace after) (trimSpace before) ?x)) (\<lambda>again.
          case again of Some k \<Rightarrow> okDB k | None \<Rightarrow> failDB ''unable to allocate playlist position'')))) (countCall s) = (Inr key, t)"
    by (auto simp: playlistItemPositionKeyTx_def playlistItemPositionKeyFromItemsTx_def orderedPlaylistItemsTx_def
        bindDB_result queryDB_result liftDB_result Let_def)
  show ?thesis
  proof (cases found)
    case (Some k)
    with rest have "k = key" "t = countCall s" by (simp_all add: okDB_result)
    with f Some positionFromItems_between [OF _ assms(4), of E "trimSpace after" "trimSpace before" ?x key]
    show ?thesis by (metis count(1))
  next
    case None
    with rest obtain u where u: "rebalancePlaylistPositionKeysTx E l p (countCall s) = (Inr (), u)"
      and k: "positionFromItems E (orderedItems u l p ?x) (trimSpace after) (trimSpace before) ?x = Inr (Some key)" "t = countCall u"
      by (auto simp: bindDB_result orderedPlaylistItemsTx_def queryDB_result liftDB_result okDB_result failDB_result
          split: option.splits)
    note keep = rebalance_keeps [OF u, unfolded count, OF assms(2,3), of ?x]
    from positionFromItems_between [OF k(1) keep(2)] keep(1) k(2) show ?thesis by (metis count(1))
  qed
qed

end
