(* ===== verification/LocalLaws.thy ===== *)
theory LocalLaws
  imports SyncLaws
begin

text \<open>A playlist that is made on this device, and its entry applied on another.\<close>

section \<open>A playlist made here and there\<close>

text \<open>The strings of a JSON object with the names of a playlist's entry decode to the entry's payload.\<close>

definition fieldsApart :: "'l golib_scheme \<Rightarrow> string set \<Rightarrow> bool" where
  "fieldsApart L A \<longleftrightarrow> (\<forall>a \<in> A. \<forall>b \<in> A. equalFold L a b \<longleftrightarrow> a = b)"

definition playlistFields :: "string set" where
  "playlistFields = {''createdBy'', ''deleted'', ''kind'', ''name'', ''playlistId''}"

lemma decode_playlistJSON:
  assumes "fieldsApart L playlistFields" "playlistJSON i row = JObj fs"
  shows "decodePlaylist L fs =
    Inr \<lparr>ppPlaylistID = i, ppName = plName row, ppKind = plKind row, ppCreatedBy = plCreatedBy row\<rparr>"
proof -
  have e: "a \<in> playlistFields \<Longrightarrow> b \<in> playlistFields \<Longrightarrow> equalFold L a b \<longleftrightarrow> a = b" for a b
    using assms(1) by (auto simp: fieldsApart_def)
  have m: "''createdBy'' \<in> playlistFields" "''deleted'' \<in> playlistFields" "''kind'' \<in> playlistFields"
    "''name'' \<in> playlistFields" "''playlistId'' \<in> playlistFields" by (simp_all add: playlistFields_def)
  show ?thesis
    using assms(2) by (auto simp: playlistJSON_def decodePlaylist_def strField_def bindR_def e [OF m(1)] e [OF m(2)]
      e [OF m(3)] e [OF m(4)] e [OF m(5)] m)
qed

lemma createPlaylist_result:
  assumes "createPlaylist E (okDB local) name kind s = (Inr r, t)"
    "trimSpace (lcLibraryID local) = lcLibraryID local" "trimSpace (lcDeviceID local) = lcDeviceID local"
    "\<And>n. trimSpace (deNewUUID E n) = deNewUUID E n"
  obtains e row where "rpOplog t = rpOplog s @ [(lcLibraryID local, e)]"
    "map_of (rpPlaylists t) (lcLibraryID local, prcPlaylistID r) = Some row"
    "plName row = trimSpace name" "plKind row = ''normal''" "plCreatedBy row = lcDeviceID local" "plDeletedAt row = None"
    "trimSpace (prcPlaylistID r) = prcPlaylistID r" "prcPlaylistID r \<noteq> ''''"
    "oeEntityType e = ''playlist''" "oeOpKind e = ''upsert''" "oePayload e = deMarshal E (playlistJSON (prcPlaylistID r) row)"
    "oeDeviceID e = lcDeviceID local" "lcDeviceID local \<noteq> ''''"
    "prcName r = trimSpace name" "prcCreatedBy r = lcDeviceID local"
proof -
  let ?L = "lcLibraryID local"
  have c: "rpPlaylists (countCall x) = rpPlaylists x" "rpOplog (countCall x) = rpOplog x" for x by (simp_all add: countCall_def)
  define i where "i = deNewUUID E (Suc (dbTicks s))"
  define s1 where "s1 = s\<lparr>dbTicks := Suc (Suc (dbTicks s))\<rparr>"
  define row where "row = \<lparr>plName = trimSpace name, plKind = ''normal'', plCreatedBy = lcDeviceID local,
    plCreatedAt = dbClock E (dbTicks s), plUpdatedAt = dbClock E (dbTicks s), plDeletedAt = None\<rparr>"
  have made: "i = deNewUUID E (Suc (dbTicks s))" "rpOplog s1 = rpOplog s" by (simp_all add: i_def s1_def)
  from assms(1) obtain u w where tx: "transaction E (bindDB (stmtDB E (\<lambda>s. map_sum id (\<lambda>rows. s\<lparr>rpPlaylists := rows\<rparr>)
        (insertRow (?L, i) row (rpPlaylists s)))) (\<lambda>_.
        appendLocalOplogTx E local ''playlist'' i ''upsert'' (playlistJSON i row))) s1 = (Inr w, u)"
    and rec: "toPlaylistRecord E ?L i row u = (Inr r, t)"
    unfolding createPlaylist_def Let_def row_def s1_def i_def
    by (auto simp: bindDB_result okDB_result failDB_result clockDB_result newUUID_def split: if_splits)
  have i: "trimSpace i = i" using made(1) assms(4) by simp
  from tx  obtain v x where x: "stmtDB E (\<lambda>s. map_sum id (\<lambda>rows. s\<lparr>rpPlaylists := rows\<rparr>)
      (insertRow (?L, i) row (rpPlaylists s))) (countCall s1) = (Inr (), v)"
    and app: "appendLocalOplogTx E local ''playlist'' i ''upsert'' (playlistJSON i row) v = (Inr w, x)" and u: "u = countCall x"
    by (auto simp: transaction_result bindDB_result)
  have v: "map_of (rpPlaylists v) (?L, i) = Some row" "rpOplog v = rpOplog s"
    using x made(2) by (auto simp: stmtDB_result insertRow_def c update_conv split: if_splits)
  have i0: "i \<noteq> ''''" "lcDeviceID local \<noteq> ''''"
    using app i assms(3) by (auto simp: appendLocalOplogTx_def Let_def failDB_result split: if_splits)
  have const: "trimSpace ''playlist'' = ''playlist''" "trimSpace ''upsert'' = ''upsert''" by code_simp+
  obtain y where y: "sameData v y"
    "sameData ((withEntry y ?L w)\<lparr>rpClocks := AList.update (?L, lcDeviceID local) (oeSeq w) (rpClocks v)\<rparr>) x"
    "oeDeviceID w = lcDeviceID local" "oeEntityType w = ''playlist''" "oeOpKind w = ''upsert''"
    "oePayload w = deMarshal E (playlistJSON i row)"
    by (rule appendLocal_result [OF app]) (use assms(2,3) const in auto)
  have u': "rpOplog u = rpOplog s @ [(?L, w)]" "rpPlaylists u = rpPlaylists v"
    using sameData_tables [OF y(1)] sameData_tables [OF y(2)] v(2) by (simp_all add: withEntry_def u c)
  have t: "rpOplog t = rpOplog u" "rpPlaylists t = rpPlaylists u" "prcPlaylistID r = i" "prcName r = trimSpace name"
    "prcCreatedBy r = lcDeviceID local"
    using rec  i assms(3)
    by (auto simp: toPlaylistRecord_def loadPlaylistArtworkRef_def db_results row_def c Let_def split: if_splits)
  show thesis
    by (rule that [of w row]) (use t u' v y i i0 in \<open>simp_all add: row_def\<close>)
qed

end
