(* ===== verification/ReplicaSamples.thy ===== *)
theory ReplicaSamples
  imports Convergence PlaylistService RelaydSamples
begin

text \<open>
  Concrete replicas of a library and entries signed by the devices of \<open>RelaydSamples\<close>, for the witnesses.
  A JSON text is looked up in a table; a peer's key is its id.
\<close>

definition sampleTexts :: "(string \<times> json) list" where
  "sampleTexts =
     [(''A'', playlistJSON ''p1'' \<lparr>plName = ''A'', plKind = ''normal'', plCreatedBy = ''d'', plCreatedAt = 0,
        plUpdatedAt = 0, plDeletedAt = None\<rparr>),
      (''B'', playlistJSON ''p1'' \<lparr>plName = ''B'', plKind = ''normal'', plCreatedBy = ''d'', plCreatedAt = 0,
        plUpdatedAt = 0, plDeletedAt = None\<rparr>),
      (''I'', JObj [(''itemId'', JStr ''i1''), (''playlistId'', JStr ''p1''), (''recordingId'', JStr ''r1''),
        (''positionKey'', JStr ''5'')])]"

text \<open>An authority's signature is its key, a peer's is its key before the bytes; nothing is escaped.\<close>

definition sampleKey :: string where
  "sampleKey = replicate 32 CHR ''k''"

definition samplePlainAuth :: authlib where
  "samplePlainAuth = sampleAuth\<lparr>b64Decode := Inr, edVerify := (\<lambda>p m sig. sig = p), jsonString := (\<lambda>s. s)\<rparr>"

definition sampleReplicaEnv :: replicaEnv where
  "sampleReplicaEnv =
     \<lparr>dbClock = (\<lambda>n. 1000 + int n), dbFault = (\<lambda>_. None), deLib = samplePlainAuth, deSha8 = id, deUUID5 = id,
      deNewUUID = (\<lambda>n. ''u'' @ decimalNat n), dePeerKey = Inr, deKeyVerify = (\<lambda>k m sig. Inr (sig = k @ m)),
      deJSONBytes = id,
      deParse = (\<lambda>x. case map_of sampleTexts x of Some j \<Rightarrow> Inr j | None \<Rightarrow> Inl ''invalid character''),
      deMarshal = (\<lambda>j. case find (\<lambda>r. snd r = j) sampleTexts of Some r \<Rightarrow> fst r | None \<Rightarrow> ''{}''),
      deMimeExtensions = (\<lambda>_. []), deWindows = False\<rparr>"

definition sampleLibraryRow :: libraryRow where
  "sampleLibraryRow = \<lparr>lbName = ''L'', lbRootPublicKey = sampleKey, lbRootPrivateKey = '''', lbLibraryKey = '''',
     lbRegistryURL = '''', lbRelayBootstrapAddrsJSON = '''', lbCreatedAt = 0\<rparr>"

definition sampleReplica :: replica where
  "sampleReplica =
     \<lparr>dbCalls = 0, dbTicks = 0, rpLibraries = [(''lib'', sampleLibraryRow)],
      rpAuthorities = [(''lib'', \<lparr>aaVersion = 1, aaPublicKey = sampleKey, aaPrevVersion = 0, aaSignedByKind = ''root'',
        aaSig = sampleKey, aaCreatedAt = 5\<rparr>)], rpOplog = [], rpClocks = [], rpPlaylists = [], rpItems = [],
      rpPreferences = [], rpAssets = [], rpCaches = [], rpArtwork = [], rpTrackVariants = [],
      rpAlbumVariants = [], rpAlbumTracks = [], rpArtists = [], rpCredits = [], rpSourceFiles = [],
      rpLocalPaths = [], rpArtworkRefs = []\<rparr>"

text \<open>Entry \<open>n\<close> of a device, signed.\<close>

definition sampleOp :: "string \<Rightarrow> int \<Rightarrow> int \<Rightarrow> string \<Rightarrow> string \<Rightarrow> string \<Rightarrow> oplogEntry" where
  "sampleOp device n ts entityType entityID payload =
     (let e = \<lparr>oeOpID = device @ '':'' @ decimal n, oeDeviceID = device, oeSeq = n, oeTSNS = ts,
            oeEntityType = entityType, oeEntityID = entityID, oeOpKind = ''upsert'', oePayload = payload,
            oeSignerPeerID = ''p'', oeSignerAuthorityVersion = 1, oeSignerCertSerial = 2,
            oeSignerRole = ''member'', oeSignerIssuedAt = 7, oeSignerExpiresAt = 0, oeSignerCertSig = sampleKey,
            oeSig = ''''\<rparr>
      in e\<lparr>oeSig := ''p'' @ oplogSigningPayload sampleReplicaEnv e\<rparr>)"

text \<open>Two devices name the same playlist; a third adds an item to it.\<close>

definition sampleNamed :: oplogEntry where
  "sampleNamed = sampleOp ''d'' 1 10 ''playlist'' ''p1'' ''A''"

definition sampleRenamed :: oplogEntry where
  "sampleRenamed = sampleOp ''e'' 1 20 ''playlist'' ''p1'' ''B''"

definition sampleItemAdded :: oplogEntry where
  "sampleItemAdded = sampleOp ''f'' 1 30 ''playlist_item'' ''i1'' ''I''"

lemma logged_code: "logged s l = set (map snd (filter (\<lambda>r. fst r = l) (rpOplog s)))"
  by (auto simp: logged_def image_iff)

lemma sample_fields:
  "oeDeviceID sampleNamed = ''d''" "oeSeq sampleNamed = 1" "oeEntityType sampleNamed = ''playlist''"
  "oeEntityID sampleNamed = ''p1''" "oeOpKind sampleNamed = ''upsert''" "oePayload sampleNamed = ''A''" "oeTSNS sampleNamed = 10"
  "oeDeviceID sampleRenamed = ''e''" "oeSeq sampleRenamed = 1" "oeEntityType sampleRenamed = ''playlist''"
  "oeEntityID sampleRenamed = ''p1''" "oeOpKind sampleRenamed = ''upsert''" "oePayload sampleRenamed = ''B''"
  "oeTSNS sampleRenamed = 20"
  by (simp_all add: sampleNamed_def sampleRenamed_def sampleOp_def)

text \<open>The replica that has received both names, the second one later.\<close>

definition sampleHolding :: replica where
  "sampleHolding = receiveAll sampleReplicaEnv ''lib'' [[sampleNamed, sampleRenamed]] sampleReplica"

lemma sampleHolding_eq:
  "sampleHolding = sampleReplica\<lparr>dbCalls := 24, rpOplog := [(''lib'', sampleNamed), (''lib'', sampleRenamed)],
     rpClocks := [((''lib'', ''d''), 1), ((''lib'', ''e''), 1)],
     rpPlaylists := [((''lib'', ''p1''), \<lparr>plName = ''B'', plKind = ''normal'', plCreatedBy = ''d'',
       plCreatedAt = timeOfNanos 10, plUpdatedAt = timeOfNanos 20, plDeletedAt = None\<rparr>)]\<rparr>"
  by code_simp

end
