(* ===== verification/ReplicaProperties.thy ===== *)
theory ReplicaProperties
  imports PositionLaws LocalLaws ReplicaSamples
begin

text \<open>
  Properties of replication: what holds of a library's replicas whatever the order, the repetitions and the
  failures with which entries arrive.
\<close>

section \<open>Replicas agree\<close>


lemma sampleHolding_log: "logged sampleHolding ''lib'' = {sampleNamed, sampleRenamed}"
  by (simp add: logged_code sampleHolding_eq)

lemma sample_gapless: "gapless {sampleNamed, sampleRenamed}"
  using sample_fields by (auto simp: gapless_def)






lemma sample_trimmed: "trimSpace ''lib'' = ''lib''" "trimSpace ''d'' = ''d''" "trimSpace ''e'' = ''e''" "trimSpace ''p1'' = ''p1''"
  by code_simp+

lemma sample_new: "newReplica sampleReplica ''lib''"
  by (simp add: newReplica_def sampleReplica_def)


section \<open>Clocks\<close>

text \<open>
  C4: however entries arrive, the clock of a device counts the gapless start of its entries: they are all
  in the log, and the next one is not.
\<close>

theorem clocks_count_gapless_starts:
  assumes "newReplica s (trimSpace l)" "u = receiveAll E l batches s"
  shows "0 \<le> clockOf u (trimSpace l) d
    \<and> (\<forall>n. 1 \<le> n \<and> n \<le> clockOf u (trimSpace l) d \<longrightarrow>
        (\<exists>e \<in> logged u (trimSpace l). oeDeviceID e = d \<and> oeSeq e = n))
    \<and> (\<forall>e \<in> logged u (trimSpace l). oeDeviceID e = d \<longrightarrow> oeSeq e \<noteq> clockOf u (trimSpace l) d + 1)"
proof -
  have "inStep u (trimSpace l)" using newReplica_held(3) [OF assms(1)] assms(2) receiveAll_inStep by simp
  then have c: "0 \<le> clockOf u (trimSpace l) d"
    "{n. 1 \<le> n \<and> n \<le> clockOf u (trimSpace l) d} \<subseteq> oeSeq ` set (deviceEntries u (trimSpace l) d)"
    "clockOf u (trimSpace l) d + 1 \<notin> oeSeq ` set (deviceEntries u (trimSpace l) d)" by (simp_all add: inStep_def)
  moreover have "oeSeq ` set (deviceEntries u (trimSpace l) d) = {oeSeq e | e. e \<in> logged u (trimSpace l) \<and> oeDeviceID e = d}"
    by (auto simp: set_deviceEntries)
  ultimately show ?thesis by auto
qed

theorem clocks_count_gapless_starts_witness:
  "clockOf sampleHolding ''lib'' ''d'' = 1
   \<and> (\<nexists>e. e \<in> logged sampleHolding ''lib'' \<and> oeDeviceID e = ''d'' \<and> oeSeq e = clockOf sampleHolding ''lib'' ''d'' + 1)"
proof -
  have "clockOf sampleHolding ''lib'' ''d'' = 1" by (simp add: clockOf_def sampleHolding_eq)
  with clocks_count_gapless_starts [of sampleReplica "''lib''", unfolded sample_trimmed, OF sample_new sampleHolding_def, of "''d''"]
  show ?thesis by auto
qed


definition sampleLocal :: localContext where
  "sampleLocal = \<lparr>lcLibraryID = ''lib'', lcDeviceID = ''d''\<rparr>"

lemma sampleHolding_inStep: "inStep sampleHolding ''lib''"
  using receiveAll_inStep [of sampleReplica "''lib''", unfolded sample_trimmed, OF newReplica_held(3) [OF sample_new]]
  by (simp add: sampleHolding_def)


section \<open>What a received entry may do\<close>

text \<open>
  C6: every entry that batches add to a library's log was sent by a member: the certificate it carries is
  signed under the authorities and the root key that the library had at the start, and the entry is signed
  with the key of the peer that the certificate names.  So no entry can make later ones trusted.
\<close>

theorem added_entries_are_signed:
  assumes "map_of (rpLibraries s) (trimSpace l) = Some row" "u = receiveAll E l batches s"
    and "e \<in> logged u (trimSpace l)" "e \<notin> logged s (trimSpace l)"
  shows "\<exists>op \<in> set (concat batches). e = rowFromRemote E op
    \<and> verifyHistoricalMembershipCert (deLib E) (signerCert E l op)
        (admissionAuthorityChainFromRows (sort_key aaVersion (authorityRows s (trimSpace l))))
        (trimSpace (lbRootPublicKey row)) l (oeDeviceID op) (oeSignerPeerID op) = None
    \<and> (\<exists>pub. dePeerKey E (trimSpace (oeSignerPeerID op)) = Inr pub
        \<and> deKeyVerify E pub (oplogSigningPayload E op) (oeSig op) = Inr True)"
proof -
  obtain op where "op \<in> set (concat batches)" "e = rowFromRemote E op" "accepted E l s op"
    using received_accepted [of s l e E batches] assms by auto
  then show ?thesis
    using assms(1)
    by (auto simp: accepted_def entrySignatureError_def intro!: bexI [of _ op] split: option.splits sum.splits if_splits)
qed

theorem added_entries_are_signed_witness:
  "\<exists>op \<in> {sampleNamed, sampleRenamed}. sampleNamed = rowFromRemote sampleReplicaEnv op
     \<and> deKeyVerify sampleReplicaEnv (oeSignerPeerID op) (oplogSigningPayload sampleReplicaEnv op) (oeSig op) = Inr True"
proof -
  have row: "map_of (rpLibraries sampleReplica) ''lib'' = Some sampleLibraryRow" by (simp add: sampleReplica_def)
  have p: "trimSpace (oeSignerPeerID sampleNamed) = oeSignerPeerID sampleNamed"
    "trimSpace (oeSignerPeerID sampleRenamed) = oeSignerPeerID sampleRenamed" by code_simp+
  have "sampleNamed \<in> logged sampleHolding ''lib''" "sampleNamed \<notin> logged sampleReplica ''lib''"
    by (simp add: sampleHolding_log) (simp add: logged_def sampleReplica_def)
  from added_entries_are_signed [of sampleReplica "''lib''", unfolded sample_trimmed, OF row sampleHolding_def this]
  show ?thesis using p by (auto simp: sampleReplicaEnv_def)
qed

text \<open>
  C16: one received entry is stored and applied as a whole: after an error, or for an entry the log has,
  every table is as before; and no clock ever goes back.
\<close>

theorem remote_op_is_atomic:
  assumes "inStep s (trimSpace l)" "applyRemoteOp E l op s = ((n, err), t)"
  shows "(err \<noteq> None \<or> n = 0 \<longrightarrow> sameData s t) \<and> (\<forall>d. clockOf s (trimSpace l) d \<le> clockOf t (trimSpace l) d)"
  using remote_op_outcome [OF assms(2,1)] .

theorem remote_op_is_atomic_witness:
  "\<exists>n err. fst (applyRemoteOp sampleReplicaEnv ''lib'' sampleItemAdded sampleReplica) = (n, Some err)
    \<and> sameData sampleReplica (snd (applyRemoteOp sampleReplicaEnv ''lib'' sampleItemAdded sampleReplica))"
proof -
  let ?r = "applyRemoteOp sampleReplicaEnv ''lib'' sampleItemAdded sampleReplica"
  have l: "trimSpace ''lib'' = ''lib''" and n: "newReplica sampleReplica ''lib''" by (simp_all add: sample_trimmed sample_new)
  have "snd (fst ?r) \<noteq> None" by code_simp
  then obtain n err where e: "?r = ((n, Some err), snd ?r)" by (metis not_None_eq prod.collapse)
  from remote_op_is_atomic [of sampleReplica "''lib''", unfolded l, OF newReplica_held(3) [OF n] e]
  have "sameData sampleReplica (snd ?r)" by simp
  moreover have "fst ?r = (n, Some err)" using arg_cong [OF e, of fst] by simp
  ultimately show ?thesis by blast
qed



section \<open>What a peer is sent\<close>

text \<open>
  C17: asked with its clocks by a peer, a replica that has applied all its entries sends as many of the
  entries the peer lacks as the limit allows, and only such entries; it counts the remaining ones, and when
  it says that there are no more, it has sent them all.
\<close>

theorem sync_batch_serves_missing:
  assumes "selectSyncBatch E l clocks limit0 s = (Inr b, t)" "limit = (if limit0 \<le> 0 then 500 else limit0)"
    and "inStep s (trimSpace l)" "complete s (trimSpace l)" "\<forall>d. 0 \<le> clockAt clocks d"
    and "distinct (map fst (rpClocks s))" "\<forall>k \<in> fst ` set (rpClocks s). trimSpace (snd k) = snd k"
  shows "int (length (sbOps b)) = min limit (int (card (missingEntries s (trimSpace l) clocks)))
    \<and> set (sbOps b) \<subseteq> checkpointEntryFromRow E ` missingEntries s (trimSpace l) clocks
    \<and> sbRemainingOps b = int (card (missingEntries s (trimSpace l) clocks)) - int (length (sbOps b))
    \<and> (\<not> sbHasMore b \<longrightarrow> set (sbOps b) = checkpointEntryFromRow E ` missingEntries s (trimSpace l) clocks)"
  using batch_result [OF assms] by simp

lemma sampleHolding_complete: "complete sampleHolding ''lib''"
  using gapless_complete [OF sampleHolding_inStep] sample_gapless by (simp add: sampleHolding_log)

theorem sync_batch_serves_missing_witness:
  "\<exists>b t. selectSyncBatch sampleReplicaEnv ''lib'' [(''d'', 1)] 5 sampleHolding = (Inr b, t)
     \<and> set (sbOps b) = {checkpointEntryFromRow sampleReplicaEnv sampleRenamed}"
proof -
  let ?r = "selectSyncBatch sampleReplicaEnv ''lib'' [(''d'', 1)] 5 sampleHolding"
  have l: "trimSpace ''lib'' = ''lib''" by (simp add: sample_trimmed)
  have "(case fst ?r of Inr b \<Rightarrow> \<not> sbHasMore b | Inl _ \<Rightarrow> False)" unfolding sampleHolding_eq by code_simp
  then obtain b where b: "?r = (Inr b, snd ?r)" "\<not> sbHasMore b" by (cases "fst ?r"; cases ?r) auto
  have clocks: "\<forall>d. 0 \<le> clockAt [(''d'', 1)] d" by (simp add: clockAt_def)
  have keys: "distinct (map fst (rpClocks sampleHolding))"
    and keys': "\<forall>k \<in> fst ` set (rpClocks sampleHolding). trimSpace (snd k) = snd k"
    by (simp_all add: sampleHolding_eq sample_trimmed)
  have "missingEntries sampleHolding ''lib'' [(''d'', 1)] = {sampleRenamed}"
    using sample_fields by (auto simp: missingEntries_def sampleHolding_log clockAt_def)
  with sync_batch_serves_missing [of _ "''lib''", unfolded l, OF b(1) refl sampleHolding_inStep sampleHolding_complete
      clocks keys keys'] b show ?thesis by (intro exI [of _ b] exI [of _ "snd ?r"]) simp
qed

section \<open>Positions in a playlist\<close>


definition sampleItemRow :: "string \<Rightarrow> playlistItemRow" where
  "sampleItemRow key = \<lparr>piTrackVariantID = ''r'', piAddedAt = 0, piUpdatedAt = 0, piPositionKey = key, piDeletedAt = None\<rparr>"

text \<open>Two items of a playlist; with 7 and 8 nothing fits between them before a renumbering.\<close>

definition sampleCrowded :: "nat \<Rightarrow> int \<Rightarrow> int \<Rightarrow> replica" where
  "sampleCrowded n v w = sampleReplica\<lparr>dbCalls := n, rpItems :=
     [((''lib'', ''p1'', ''i1''), sampleItemRow (formatPositionKey v)),
      ((''lib'', ''p1'', ''i2''), sampleItemRow (formatPositionKey w))]\<rparr>"

lemma sample_ranges:
  "keyRange 7" "keyRange 8" "keyRange positionKeyStride" "keyRange (2 * positionKeyStride)"
  by (simp_all add: keyRange_def maxPositionKeyValue_def positionKeyWidth_def positionKeyStride_def)

lemma sampleCrowded_count: "countCall (sampleCrowded n v w) = sampleCrowded (Suc n) v w"
  by (simp add: sampleCrowded_def countCall_def)

lemma sampleCrowded_keys: "distinct (map fst (rpItems (sampleCrowded n v w)))" "length (rpItems (sampleCrowded n v w)) < 10 ^ 17"
  by (simp_all add: sampleCrowded_def)

lemma sampleCrowded_items:
  assumes "keyRange v" "keyRange w" "v < w"
  shows "orderedItems (sampleCrowded n v w) ''lib'' ''p1'' '''' =
    [(''i1'', sampleItemRow (formatPositionKey v)), (''i2'', sampleItemRow (formatPositionKey w))]"
proof -
  have k: "\<not> keyBefore ''i2'' ''i1''" by code_simp
  have "\<not> keyBefore (formatPositionKey w) (formatPositionKey v)" using keyBefore_format [OF assms(2,1)] assms(3) by simp
  with k show ?thesis
    by (simp add: sampleCrowded_def orderedItems_def liveItems_def orderBy_def itemBefore_def sampleItemRow_def)
qed

lemma sampleCrowded_renumbered:
  "rebalancePlaylistPositionKeysTx sampleReplicaEnv ''lib'' ''p1'' (sampleCrowded n 7 8) =
     (Inr (), sampleCrowded (n + 3) positionKeyStride (2 * positionKeyStride))"
proof -
  have fault: "dbFault sampleReplicaEnv k = None" for k by (simp add: sampleReplicaEnv_def)
  show ?thesis
    using sampleCrowded_items [OF sample_ranges(1,2), of n]
    by (simp add: rebalancePlaylistPositionKeysTx_def orderedPlaylistItemsTx_def bindDB_def queryDB_def execDB_def okDB_def
        fault sampleCrowded_count)
      (simp add: sampleCrowded_def updateRow_def positionKeyForIndex_def sampleItemRow_def countCall_def)
qed




text \<open>
  C19: renumbering a playlist keeps the order of its items and gives each a key of 30 digits.
\<close>

theorem renumbering_keeps_order:
  assumes "rebalancePlaylistPositionKeysTx E l p s = (Inr (), t)"
    and "distinct (map fst (rpItems s))" "length (rpItems s) < 10 ^ 17"
  shows "map fst (orderedItems t l p x) = map fst (orderedItems s l p x)
    \<and> (\<forall>i \<in> set (orderedItems t l p x). \<exists>v. keyRange v \<and> piPositionKey (snd i) = formatPositionKey v)"
  using rebalance_keeps [OF assms] by blast

theorem renumbering_keeps_order_witness:
  "map fst (orderedItems (sampleCrowded 3 positionKeyStride (2 * positionKeyStride)) ''lib'' ''p1'' '''') = [''i1'', ''i2'']"
  using renumbering_keeps_order [OF sampleCrowded_renumbered [of 0] sampleCrowded_keys, of "''''"]
    sampleCrowded_items [OF sample_ranges(1,2), of 0] by simp

section \<open>Made here, replayed there\<close>

text \<open>The entry that creating a playlist logs decodes to the playlist.\<close>

definition createdRow :: "playlistRecord \<Rightarrow> playlistRow" where
  "createdRow r = \<lparr>plName = prcName r, plKind = ''normal'', plCreatedBy = prcCreatedBy r, plCreatedAt = 0,
     plUpdatedAt = 0, plDeletedAt = None\<rparr>"

text \<open>What a live playlist shows apart from the time of its last change.\<close>

definition playlistFace :: "replicaEnv \<Rightarrow> string \<Rightarrow> replica \<Rightarrow> string \<Rightarrow> (string \<times> string \<times> string) option" where
  "playlistFace E l s i = map_option (\<lambda>(name, kind, createdBy, _). (name, kind, createdBy)) (playlistCell E l s i)"

text \<open>
  C14: creating a playlist logs one entry, and any replica for which that entry is the playlist's latest
  gets by applying it the playlist that was created: live, with the same name, kind and creator.
\<close>

theorem created_playlist_is_replayed:
  assumes "createPlaylist E (okDB local) name kind s = (Inr r, t)" "e = snd (last (rpOplog t))"
    and "trimSpace (lcLibraryID local) = lcLibraryID local" "trimSpace (lcDeviceID local) = lcDeviceID local"
      "\<forall>n. trimSpace (deNewUUID E n) = deNewUUID E n" "fieldsApart (deLib E) playlistFields"
      "deParse E (deMarshal E (playlistJSON (prcPlaylistID r) (createdRow r)))
        = Inr (playlistJSON (prcPlaylistID r) (createdRow r))"
    and "isLatest u (lcLibraryID local) e" "dated e" "applyOplogEntryTx E (lcLibraryID local) e u = (Inr (), v)"
  shows "rpOplog t = rpOplog s @ [(lcLibraryID local, e)]
    \<and> playlistFace E (lcLibraryID local) v (prcPlaylistID r) = playlistFace E (lcLibraryID local) t (prcPlaylistID r)
    \<and> (prcPlaylistID r \<noteq> likedPlaylistIDForLibrary E (lcLibraryID local)
        \<longrightarrow> playlistFace E (lcLibraryID local) t (prcPlaylistID r) = Some (trimSpace name, ''normal'', lcDeviceID local))"
proof -
  let ?L = "lcLibraryID local" and ?i = "prcPlaylistID r"
  obtain x row where log: "rpOplog t = rpOplog s @ [(?L, x)]"
    and row: "map_of (rpPlaylists t) (?L, ?i) = Some row" "plName row = trimSpace name" "plKind row = ''normal''"
      "plCreatedBy row = lcDeviceID local" "plDeletedAt row = None" "trimSpace ?i = ?i" "?i \<noteq> ''''"
    and x: "oeEntityType x = ''playlist''" "oeOpKind x = ''upsert''" "oePayload x = deMarshal E (playlistJSON ?i row)"
      "oeDeviceID x = lcDeviceID local" "lcDeviceID local \<noteq> ''''"
    and r: "prcName r = trimSpace name" "prcCreatedBy r = lcDeviceID local"
    using createPlaylist_result [OF assms(1,3,4)] assms(5) by metis
  have e: "e = x" using log assms(2) by simp
  have const: "trimSpace ''playlist'' = ''playlist''" "trimSpace ''upsert'' = ''upsert''" "trimSpace ''normal'' = ''normal''"
    by code_simp+
  have "playlistJSON ?i row = playlistJSON ?i (createdRow r)" using row r by (simp add: playlistJSON_def createdRow_def)
  then have "unmarshal (deParse E) (oePayload e) (decodePlaylist (deLib E))
      = Inr \<lparr>ppPlaylistID = ?i, ppName = plName row, ppKind = plKind row, ppCreatedBy = plCreatedBy row\<rparr>"
    using assms(7) x(3) decode_playlistJSON [OF assms(6), of ?i row]
    by (simp add: e unmarshal_def) (simp add: playlistJSON_def)
  then have key: "playlistRowKey E e = ?i"
    and val: "playlistVal E ?L e = (if ?i = likedPlaylistIDForLibrary E ?L then None
      else Some (trimSpace name, ''normal'', lcDeviceID local, timeOfNanos (oeTSNS e)))"
    using x row const assms(4) by (simp_all add: playlistRowKey_def playlistVal_def e Let_def)
  have "playlistCell E ?L v = (playlistCell E ?L u)(?i := playlistVal E ?L e)"
    using playlist_written [OF _ assms(8-10)] const x(1) by (simp add: e key [unfolded e])
  moreover have "playlistCell E ?L t ?i = (if ?i = likedPlaylistIDForLibrary E ?L then None
      else Some (trimSpace name, ''normal'', lcDeviceID local, plUpdatedAt row))"
    using row by (simp add: playlistCell_def liveContent_def)
  ultimately show ?thesis using log by (simp add: e playlistFace_def val [unfolded e])
qed

definition sampleCreateEnv :: replicaEnv where
  "sampleCreateEnv = sampleReplicaEnv
     \<lparr>dbClock := (\<lambda>n. (62135596801 + int n) * 1000000000), deNewUUID := (\<lambda>_. ''u1''),
      deMarshal := (\<lambda>_. ''C''),
      deParse := (\<lambda>_. Inr (playlistJSON ''u1'' \<lparr>plName = ''C'', plKind = ''normal'', plCreatedBy = ''d'', plCreatedAt = 0,
        plUpdatedAt = 0, plDeletedAt = None\<rparr>))\<rparr>"

theorem created_playlist_is_replayed_witness:
  "\<exists>r t e v. createPlaylist sampleCreateEnv (okDB sampleLocal) ''C'' '''' sampleReplica = (Inr r, t)
    \<and> applyOplogEntryTx sampleCreateEnv ''lib'' e (sampleReplica\<lparr>rpOplog := rpOplog t\<rparr>) = (Inr (), v)
    \<and> playlistFace sampleCreateEnv ''lib'' v (prcPlaylistID r) = Some (''C'', ''normal'', ''d'')"
proof -
  let ?c = "createPlaylist sampleCreateEnv (okDB sampleLocal) ''C'' '''' sampleReplica"
  let ?e = "snd (last (rpOplog (snd ?c)))" and ?u = "sampleReplica\<lparr>rpOplog := rpOplog (snd ?c)\<rparr>"
  let ?a = "applyOplogEntryTx sampleCreateEnv ''lib'' ?e ?u"
  have "(case fst ?c of Inr r \<Rightarrow> prcPlaylistID r = ''u1'' \<and> prcName r = ''C'' \<and> prcCreatedBy r = ''d'' | Inl _ \<Rightarrow> False)"
    by code_simp
  then obtain r where c: "?c = (Inr r, snd ?c)" and r: "prcPlaylistID r = ''u1''" "prcName r = ''C''" "prcCreatedBy r = ''d''"
    by (cases "fst ?c"; cases ?c) auto
  have "(case fst ?a of Inr _ \<Rightarrow> True | Inl _ \<Rightarrow> False)" by code_simp
  then have a: "?a = (Inr (), snd ?a)" by (cases "fst ?a"; cases ?a) auto
  have local: "lcLibraryID sampleLocal = ''lib''" "lcDeviceID sampleLocal = ''d''" "trimSpace ''lib'' = ''lib''"
    "trimSpace ''d'' = ''d''" "trimSpace ''C'' = ''C''" and ids: "\<forall>n. trimSpace (deNewUUID sampleCreateEnv n) = deNewUUID sampleCreateEnv n"
    and apart: "fieldsApart (deLib sampleCreateEnv) playlistFields" and latest: "isLatest ?u ''lib'' ?e" and dated: "dated ?e"
    and liked: "likedPlaylistIDForLibrary sampleCreateEnv ''lib'' \<noteq> ''u1''"
    by (simp_all add: sampleLocal_def sampleCreateEnv_def) code_simp+
  have parse: "deParse sampleCreateEnv (deMarshal sampleCreateEnv (playlistJSON (prcPlaylistID r) (createdRow r)))
      = Inr (playlistJSON (prcPlaylistID r) (createdRow r))"
    by (simp add: sampleCreateEnv_def r createdRow_def playlistJSON_def)
  from created_playlist_is_replayed [OF c refl, unfolded local, OF refl refl ids apart parse latest dated a] r liked
  have "playlistFace sampleCreateEnv ''lib'' (snd ?a) (prcPlaylistID r) = Some (''C'', ''normal'', ''d'')" by simp
  with c a show ?thesis by blast
qed

end
