(* ===== verification/Spec2Isabelle.thy ===== *)
theory Spec2Isabelle
  imports OrderProperties SnapshotProperties SourceProperties QueueProperties ModeProperties
    PlayProperties PendingProperties PlanProperties EpochProperties RunProperties Returns RelaydProperties
    ReplicaProperties
begin

text \<open>
  Verification of the playback core of Ben Desktop (Go, \<open>src/internal/playback\<close>), of the registry its
  network plane relies on (\<open>src/relayd/main.go\<close>, \<open>src/shared/registryauth\<close>) and of the replicated library
  with its playlists (\<open>src/internal/desktopcore\<close>).

  The playback core.  A \<open>Session\<close> (\<open>session.go\<close>) owns what is played: a context (an album, a playlist, the
  liked or all tracks), a user queue played before it, the current and the loading entry, the modes
  (volume, repeat, shuffle) and the position.  The user interface calls its operations; a backend (mpv)
  plays files and reports events; the playback core prepares recordings and answers for their
  availability; a store keeps the last snapshot; timers poll for pending entries, for a lost reply of
  the backend and for the position.  A catalog loader (\<open>catalog_loader.go\<close>) enumerates a source into
  candidates, and a change of the catalog rebases a live source.

  The registry.  A library has a root key; a chain of admission authorities below it signs the membership
  certificates of devices.  The relay daemon pins the root of each library it sees, admits members by
  their certificates, keeps the addresses they announce, takes revocation lists signed by the root,
  answers lookups of members and of invited guests, and lets the admitted peers use its circuit relay.

  The replicated library.  Every device of a library keeps a database and a log of signed entries.  A
  mutation made on the device (\<open>service_playlist.go\<close>, \<open>state_replication.go\<close>) writes its rows and appends
  an entry (\<open>service_oplog.go\<close>); peers ask each other for the entries that their clocks lack
  (\<open>service_sync.go\<close>), verify them against the library's authorities (\<open>oplog_auth.go\<close>), keep those that
  come too early and apply the others in the order of their device (\<open>oplog_apply.go\<close>, \<open>ingest_materialize.go\<close>).
  Of the entries about one entity the latest decides.

  Correspondence, theory by theory:
    \<^item> \<open>Prelude\<close>: Go's string functions and slice operations, the generator of a shuffle, instants
      (\<open>timestamps.go\<close>), and \<open>golib\<close>, the library functions left as parameters;
    \<^item> \<open>PlaybackTypes\<close>: the structs and enumerations of \<open>types.go\<close> and \<open>src/api/types\<close>;
    \<^item> \<open>ItemMapping\<close>: \<open>mapping.go\<close> and \<open>uri_normalize.go\<close>;
    \<^item> \<open>SmartShuffle\<close>: \<open>buildSmartShuffleCycle\<close> and what it calls;
    \<^item> \<open>ContextNav\<close>: positions of the context and the upcoming entries, over the interface
      \<open>play_order\<close> (a cyclic order of positions), interpreted on the order the code plays in;
    \<^item> \<open>NextIterator\<close>: \<open>nextActionIterator\<close>, a cursor with its well-formedness invariant;
    \<^item> \<open>SnapshotNormal\<close>, \<open>SnapshotLaws\<close>: \<open>normalizeSnapshot\<close> as the sequence of its stages, and the
      invariant the stages establish;
    \<^item> \<open>SourceCatalog\<close>: \<open>catalog_loader.go\<close>;
    \<^item> \<open>SessionState\<close>: the \<open>Session\<close> struct as a record and its small mutators;
    \<^item> \<open>QueueOps\<close>: the operations on context, queue and modes;
    \<^item> \<open>NextAction\<close>: planning, availability and choice of the next playable entry;
    \<^item> \<open>Playing\<close>: preparation, preloading and position;
    \<^item> \<open>Transport\<close>: playing an entry, the transport operations, the backend events and the timers;
    \<^item> \<open>Rebase\<close>: \<open>Start\<close>, \<open>Close\<close>, availability changes and the rebase of a source;
    \<^item> \<open>SessionLaws\<close>, \<open>FrameLaws\<close>, \<open>OpLaws\<close>: what an operation keeps, as rewrite rules;
      \<open>PlanningFrame\<close>: the interfaces \<open>planning_frame\<close> and \<open>preload_frame\<close>, which reduce
      ``planning and preloading keep this'' to a list of mutators, interpreted on three invariants;
    \<^item> \<open>PlayLaws\<close>: what \<open>playEntry\<close> does on each of its branches;
    \<^item> \<open>WatchLaws\<close>: the invariant that whatever waits has its goroutine, kept by every handler;
    \<^item> \<open>Runs\<close>: the session as a state machine (\<open>transports\<close>, \<open>edits\<close>, \<open>reachable\<close>) with the
      interface \<open>session_invariant\<close>;
    \<^item> \<open>IdLaws\<close>: operations invent no entry ids (a third use of \<open>preload_frame\<close>), and \<open>Returns\<close>, on which
      the searches for a playable entry end because every round rules out one more id;
    \<^item> \<open>Samples\<close>: concrete sessions for the witnesses;
    \<^item> \<open>RegistryAuth\<close>: the signed documents and their checks; \<open>AuthLaws\<close>: the abstract notion of a chain of
      authorities (\<open>certifies\<close>), which the loop of the code decides, and the signed bytes;
    \<^item> \<open>Relayd\<close>: the tables, transactions and handlers of the registry and the relay's access control;
      \<open>RelaydLaws\<close>: the interface \<open>db_frame\<close> of relations that every database program keeps,
      interpreted for ``pins and revocations only grow'' and for ``members and presence stay'', what a
      successful authentication means, and the daemon as a state machine (\<open>served\<close>, \<open>operating\<close>);
      \<open>RelaydSamples\<close>: a concrete signature scheme and registry for the witnesses;
    \<^item> \<open>Database\<close>: programs over a database whose calls may fail, with transactions; shared by the registry
      and the library;
    \<^item> \<open>PositionKeys\<close>: the keys that order a playlist; \<open>Replica\<close>: the tables of a library, the entries and
      payloads of its log and the decoding of JSON objects (\<open>models.go\<close>, \<open>oplog_contracts.go\<close>, \<open>helpers.go\<close>);
    \<^item> \<open>Ingest\<close>: the catalog rows one file stands for; \<open>OplogApply\<close>: logging and applying entries;
      \<open>OplogSync\<close>: signatures, receiving entries, clocks, batches and checkpoint tails;
      \<open>PlaylistService\<close>: the playlist operations of the user;
    \<^item> \<open>ReplicaLaws\<close>: what the programs keep (\<open>sameData\<close>) and which entry is the latest; \<open>Replication\<close>: the
      invariant \<open>inStep\<close>, that each clock is the end of the gapless start of its device's entries;
      \<open>Registers\<close>: the interface \<open>register\<close> of an entity type whose row is a function of its latest
      applied entry, interpreted for artwork variants, preferences and playlists; \<open>Convergence\<close>: receiving
      batches (\<open>receiveAll\<close>) and the agreement of replicas; \<open>SyncLaws\<close>, \<open>BatchLaws\<close>, \<open>PositionLaws\<close>,
      \<open>LocalLaws\<close>: the results of receiving, of choosing a batch, of finding a position and of local operations;
      \<open>ReplicaSamples\<close>: a concrete library for the witnesses.
  The properties are in \<open>OrderProperties\<close> (what is played next), \<open>SnapshotProperties\<close> (normal form
  and persistence), \<open>SourceProperties\<close> (the catalog loader), \<open>QueueProperties\<close> (editing the queue),
  \<open>ModeProperties\<close> (modes and refused operations), \<open>PlayProperties\<close> (starting and ending a track),
  \<open>PendingProperties\<close> (entries that are being prepared), \<open>PlanProperties\<close> (the plan against the state),
  \<open>EpochProperties\<close> (results that were overtaken), \<open>RunProperties\<close> (runs of the machine), \<open>Returns\<close>
  (searches come to an end), \<open>RelaydProperties\<close> (signed documents and the registry) and
  \<open>ReplicaProperties\<close> (replicas, entries, batches and positions).

  How the state is modelled.  Structs are records, enumerations are datatypes, a Go map is a partial
  function, tokens and epochs are 64-bit words, other integers are \<open>int\<close>.  An operation takes the
  environment and the session and returns the snapshot it returns, its error, and the session after it.
  Operations are sequential: where the code releases its lock and validates an epoch or a token
  afterwards, the operation is split into a \<open>begin\<close> and a \<open>commit\<close> half or takes the token as an
  argument.  The replies of the backend, the core and the store are functions of the trace of calls
  made so far, so nothing is assumed about them.  The registry's tables are association lists, its
  database calls programs of a state and error monad; which calls fail is a function of the number of
  calls made so far, and a transaction that fails leaves the tables as they were.  Base64, Ed25519, the
  JSON text of a string and the parser of multiaddresses are parameters; what the properties need of
  them are the named hypotheses \<open>keysWork\<close> and \<open>jsonDelimits\<close>.  In the library the parser and printer of JSON
  texts, the keys of peers, the UUIDs and the table of MIME types are parameters as well (\<open>replicaEnv\<close>); the
  property about replayed playlists assumes of one text that parsing undoes printing.

  Loops.  Loops over a slice are structural recursions or folds.  The loops whose end depends on the
  outside (\<open>playNextAvailable\<close>, \<open>playPreviousAvailable\<close>, the observation of a seek, the reading of pages)
  are \<open>partial_function\<close>, so that not returning is \<open>None\<close>; no fuel is used.

  Not modelled: the mutexes and contexts (see above), the mpv backend, the SQLite store, the event
  forwarding to the window; of the relay process its flags, files, host, middleware, metrics and schema
  migrations; of the library the peer protocol, the publishing and installing of checkpoints, scanning,
  transcoding, pins and the catalog queries; and the rest of the program (the updater, the Windows code and
  the user interface), which works on the file system and the network.
\<close>

end
